(* ===== verification/Prelude.thy ===== *)
theory Prelude
  imports Main "HOL-Library.AList" "HOL-Library.Char_ord" "HOL-Library.List_Lexorder"
    "HOL-Library.Product_Lexorder"
begin

text \<open>
  Shared vocabulary of the development: Go strings and the few functions of package strings the
  code calls, 64-bit integers, Go maps with string keys, and SQL tables as lists of rows with the
  statements the repository package issues on them. The generic laws at the end
  (\<open>store\<close> and its client lemmas) are what the components' proofs rest on.
\<close>

named_theorems tbl_simps \<open>what a query sees after an insert, an upsert, an update or a delete\<close>
named_theorems tbl_intros \<open>primary-key preservation\<close>

section \<open>Strings\<close>

text \<open>
  A Go string is a byte sequence, modelled as a list of characters (each a byte). Comparison is
  bytewise in Go and in SQLite's default collation, and so is the lexicographic order on
  \<^typ>\<open>string\<close> here.
\<close>

definition has_prefix :: "string \<Rightarrow> string \<Rightarrow> bool" where
  "has_prefix s p \<longleftrightarrow> take (length p) s = p"

definition has_suffix :: "string \<Rightarrow> string \<Rightarrow> bool" where
  "has_suffix s p \<longleftrightarrow> has_prefix (rev s) (rev p)"

definition trim_prefix :: "string \<Rightarrow> string \<Rightarrow> string" where
  "trim_prefix s p = (if has_prefix s p then drop (length p) s else s)"

fun str_contains :: "string \<Rightarrow> string \<Rightarrow> bool" where
  "str_contains [] p = (p = [])"
| "str_contains (c # s) p = (has_prefix (c # s) p \<or> str_contains s p)"

text \<open>strings.Cut: the text before and after the first occurrence of the separator.\<close>

fun str_cut :: "string \<Rightarrow> string \<Rightarrow> (string \<times> string) option" where
  "str_cut [] p = (if p = [] then Some ([], []) else None)"
| "str_cut (c # s) p =
     (if has_prefix (c # s) p then Some ([], drop (length p) (c # s))
      else map_option (\<lambda>(a, b). (c # a, b)) (str_cut s p))"

text \<open>strings.SplitN with a one-character separator: at most \<open>n\<close> parts, \<open>n > 0\<close>.\<close>

fun split_n :: "nat \<Rightarrow> char \<Rightarrow> string \<Rightarrow> string list" where
  "split_n 0 c s = []"
| "split_n (Suc 0) c s = [s]"
| "split_n (Suc (Suc n)) c s =
     (case str_cut s [c] of None \<Rightarrow> [s] | Some (a, b) \<Rightarrow> a # split_n (Suc n) c b)"

text \<open>The text after the last occurrence of \<open>c\<close> (strings.LastIndex), the whole string without one.\<close>

definition after_last :: "char \<Rightarrow> string \<Rightarrow> string" where
  "after_last c s = rev (takeWhile (\<lambda>x. x \<noteq> c) (rev s))"

text \<open>strings.ToLower on ASCII letters; other bytes stay.\<close>

definition lower_char :: "char \<Rightarrow> char" where
  "lower_char c =
     (case map_of (zip ''ABCDEFGHIJKLMNOPQRSTUVWXYZ'' ''abcdefghijklmnopqrstuvwxyz'') c of
        None \<Rightarrow> c | Some d \<Rightarrow> d)"

definition lower :: "string \<Rightarrow> string" where
  "lower s = map lower_char s"

fun join_with :: "string \<Rightarrow> string list \<Rightarrow> string" where
  "join_with sep [] = []"
| "join_with sep [s] = s"
| "join_with sep (s # t # ss) = s @ sep @ join_with sep (t # ss)"

definition digit_char :: "nat \<Rightarrow> char" where
  "digit_char d = ''0123456789'' ! (d mod 10)"

fun show_nat :: "nat \<Rightarrow> string" where
  "show_nat n = (if n < 10 then [digit_char n] else show_nat (n div 10) @ [digit_char (n mod 10)])"

declare show_nat.simps [simp del]

text \<open>strconv.Itoa and strconv.FormatInt in base 10.\<close>

definition show_int :: "int \<Rightarrow> string" where
  "show_int i = (if i < 0 then CHR ''-'' # show_nat (nat (- i)) else show_nat (nat i))"

text \<open>hex.EncodeToString.\<close>

definition hex_digit :: "nat \<Rightarrow> char" where
  "hex_digit n = ''0123456789abcdef'' ! (n mod 16)"

definition hex_encode :: "nat list \<Rightarrow> string" where
  "hex_encode bs = concat (map (\<lambda>b. [hex_digit (b div 16), hex_digit b]) bs)"

text \<open>The %q verb of package fmt, on printable text and ASCII control characters.\<close>

definition quote_char :: "char \<Rightarrow> string" where
  "quote_char c = (let n = (of_char c :: nat) in
     if n = 34 \<or> n = 92 then [CHR 92, c]
     else if n = 7 then [CHR 92, CHR ''a''] else if n = 8 then [CHR 92, CHR ''b'']
     else if n = 12 then [CHR 92, CHR ''f''] else if n = 10 then [CHR 92, CHR ''n'']
     else if n = 13 then [CHR 92, CHR ''r''] else if n = 9 then [CHR 92, CHR ''t'']
     else if n = 11 then [CHR 92, CHR ''v'']
     else if n < 32 \<or> n = 127 then CHR 92 # CHR ''x'' # hex_encode [n]
     else [c])"

definition go_quote :: "string \<Rightarrow> string" where
  "go_quote s = CHR 34 # concat (map quote_char s) @ [CHR 34]"

lemma has_prefix_append [simp]: "has_prefix (p @ s) p"
  by (simp add: has_prefix_def)

lemma has_prefix_iff: "has_prefix s p \<longleftrightarrow> (\<exists>t. s = p @ t)"
proof
  assume "has_prefix s p"
  then have "s = p @ drop (length p) s"
    unfolding has_prefix_def by (metis append_take_drop_id)
  then show "\<exists>t. s = p @ t" ..
qed (auto simp: has_prefix_def)

lemma trim_prefix_append [simp]: "trim_prefix (p @ s) p = s"
  by (simp add: trim_prefix_def)

lemma trim_prefix_other: "\<not> has_prefix s p \<Longrightarrow> trim_prefix s p = s"
  by (simp add: trim_prefix_def)

text \<open>A separator whose last character is not before it is found where it stands.\<close>

lemma str_cut_unique:
  assumes "c \<notin> set u" and "c \<notin> set q"
  shows "str_cut (u @ q @ c # v) (q @ [c]) = Some (u, v)"
  using assms
proof (induction u)
  case Nil
  have "has_prefix (q @ c # v) (q @ [c])" by (simp add: has_prefix_def)
  then show ?case
    by (cases "q @ c # v") (auto dest: arg_cong [of _ _ "drop (Suc (length q))"])
next
  case (Cons x u)
  have "\<not> has_prefix ((x # u) @ q @ c # v) (q @ [c])"
  proof
    assume "has_prefix ((x # u) @ q @ c # v) (q @ [c])"
    then have "take (Suc (length q)) ((x # u) @ q @ c # v) = q @ [c]" by (simp add: has_prefix_def)
    then have "c \<in> set (take (Suc (length q)) (((x # u) @ q) @ c # v))" by simp
    then have "c \<in> set ((x # u) @ q)" by (auto dest: in_set_takeD)
    with Cons.prems show False by simp
  qed
  with Cons show ?case by simp
qed

lemma str_cut_contains: "str_contains s p \<Longrightarrow> str_cut s p \<noteq> None"
  by (induction s) auto

lemma has_suffix_append [simp]: "has_suffix (s @ p) p"
  by (simp add: has_suffix_def)

lemma str_contains_append [simp]: "str_contains (a @ p @ b) p"
proof (induction a)
  case Nil
  show ?case
  proof (cases "p @ b")
    case (Cons c s)
    have "has_prefix (p @ b) p" by simp
    with Cons show ?thesis by simp
  qed simp
qed simp

lemma str_contains_prefix [simp]: "str_contains (p @ b) p"
  using str_contains_append [of "[]" p b] by simp

lemma after_last_append [simp]: "c \<notin> set t \<Longrightarrow> after_last c (s @ c # t) = t"
proof -
  assume "c \<notin> set t"
  then have "takeWhile (\<lambda>x. x \<noteq> c) (rev t @ c # rev s) = rev t"
    by (subst takeWhile_append2) auto
  then show ?thesis by (simp add: after_last_def)
qed

lemma after_last_none [simp]: "c \<notin> set s \<Longrightarrow> after_last c s = s"
proof -
  assume "c \<notin> set s"
  then have "takeWhile (\<lambda>x. x \<noteq> c) (rev s) = rev s"
    by (auto simp only: takeWhile_eq_all_conv set_rev)
  then show ?thesis by (metis after_last_def rev_rev_ident)
qed

lemma after_last_notin [simp]: "c \<notin> set (after_last c s)"
  by (auto simp: after_last_def dest: set_takeWhileD)

lemma set_hex_encode: "set (hex_encode bs) \<subseteq> set ''0123456789abcdef''"
proof -
  define H where "H = set ''0123456789abcdef''"
  have "hex_digit n \<in> H" for n
    unfolding H_def hex_digit_def by (rule nth_mem) simp
  then show ?thesis unfolding H_def [symmetric] by (auto simp: hex_encode_def)
qed

section \<open>64-bit integers\<close>

text \<open>Go's int and int64 wrap around; values are kept as integers, reduced after each operation.\<close>

definition wrap64 :: "int \<Rightarrow> int" where
  "wrap64 x = (x + 2 ^ 63) mod 2 ^ 64 - 2 ^ 63"

definition int64_range :: "int \<Rightarrow> bool" where
  "int64_range x \<longleftrightarrow> - (2 ^ 63) \<le> x \<and> x < 2 ^ 63"

lemma wrap64_id: "int64_range x \<Longrightarrow> wrap64 x = x"
  by (simp add: wrap64_def int64_range_def)

lemma wrap64_range: "int64_range (wrap64 x)"
proof -
  have "0 \<le> (x + 2 ^ 63) mod 2 ^ 64" "(x + 2 ^ 63) mod 2 ^ 64 < (2 :: int) ^ 64"
    by simp_all
  then show ?thesis unfolding wrap64_def int64_range_def by simp
qed

section \<open>Go maps with string keys\<close>

text \<open>
  A Go map is an association list with distinct keys; \<open>gm_set\<close>, \<open>gm_del\<close> and
  \<^const>\<open>map_of\<close> are assignment, delete and lookup. A nil map reads as the empty one. Go leaves
  the order of a range over a map open; the lists here have one such order, and what is proved of
  a list made from a map is about its lookups or its set of entries.
\<close>

type_synonym gomap = "(string \<times> string) list"

definition gm_set :: "string \<Rightarrow> 'v \<Rightarrow> (string \<times> 'v) list \<Rightarrow> (string \<times> 'v) list" where
  "gm_set k v m = AList.update k v m"

definition gm_del :: "string \<Rightarrow> (string \<times> 'v) list \<Rightarrow> (string \<times> 'v) list" where
  "gm_del k m = AList.delete k m"

definition gm_set_all :: "(string \<times> 'v) list \<Rightarrow> (string \<times> 'v) list \<Rightarrow> (string \<times> 'v) list" where
  "gm_set_all kvs m = fold (\<lambda>(k, v). gm_set k v) kvs m"

definition gm_del_all :: "string list \<Rightarrow> (string \<times> 'v) list \<Rightarrow> (string \<times> 'v) list" where
  "gm_del_all ks m = fold gm_del ks m"

definition gm_wf :: "(string \<times> 'v) list \<Rightarrow> bool" where
  "gm_wf m \<longleftrightarrow> distinct (map fst m)"

lemma map_of_gm_set [simp]: "map_of (gm_set k v m) = (map_of m)(k \<mapsto> v)"
  by (simp add: gm_set_def update_conv')

lemma map_of_gm_del [simp]: "map_of (gm_del k m) = (map_of m)(k := None)"
  by (simp add: gm_del_def delete_conv')

lemma gm_wf_Nil [simp]: "gm_wf []"
  by (simp add: gm_wf_def)

lemma gm_wf_set [simp]: "gm_wf m \<Longrightarrow> gm_wf (gm_set k v m)"
  by (simp add: gm_wf_def gm_set_def distinct_update)

lemma gm_wf_del [simp]: "gm_wf m \<Longrightarrow> gm_wf (gm_del k m)"
  by (simp add: gm_wf_def gm_del_def distinct_delete)

lemma gm_wf_set_all [simp]: "gm_wf m \<Longrightarrow> gm_wf (gm_set_all kvs m)"
  unfolding gm_set_all_def by (induction kvs arbitrary: m) auto

lemma gm_wf_del_all [simp]: "gm_wf m \<Longrightarrow> gm_wf (gm_del_all ks m)"
  unfolding gm_del_all_def by (induction ks arbitrary: m) auto

lemma gm_set_all_simps [simp]:
  "gm_set_all [] m = m"
  "gm_set_all (kv # kvs) m = gm_set_all kvs (gm_set (fst kv) (snd kv) m)"
  by (simp_all add: gm_set_all_def case_prod_beta)

lemma gm_del_all_simps [simp]:
  "gm_del_all [] m = m"
  "gm_del_all (k # ks) m = gm_del_all ks (gm_del k m)"
  by (simp_all add: gm_del_all_def)

lemma map_of_gm_set_all: "map_of (gm_set_all kvs m) = map_of m ++ map_of (rev kvs)"
  by (induction kvs arbitrary: m) (auto simp: fun_eq_iff map_add_def split: option.splits)

lemma map_of_gm_del_all: "map_of (gm_del_all ks m) k = (if k \<in> set ks then None else map_of m k)"
  by (induction ks arbitrary: m) auto

lemma map_of_rev_gm_wf: "gm_wf m \<Longrightarrow> map_of (rev m) = map_of m"
  by (rule map_of_inject_set [THEN iffD2]) (simp_all add: gm_wf_def rev_map [symmetric])

section \<open>SQL tables\<close>

text \<open>
  A table is the list of its rows. Each statement of the repository package is one of the
  functions below: \<open>sql_insert\<close> is INSERT, which the primary key (a function of the row) may
  refuse; \<open>sql_upsert\<close> INSERT ... ON CONFLICT DO UPDATE; \<open>sql_replace\<close> INSERT OR REPLACE;
  \<open>sql_update\<close> UPDATE ... WHERE; \<open>sql_delete\<close> DELETE ... WHERE, with \<open>affected\<close> its
  RowsAffected; \<^const>\<open>find\<close> a QueryRow (None is sql.ErrNoRows); \<^const>\<open>filter\<close> and
  \<^const>\<open>sort_key\<close> a query with WHERE and ORDER BY.
\<close>

datatype sql_error = Unique_failed | Fk_failed

definition sql_insert :: "('r \<Rightarrow> 'k) \<Rightarrow> 'r \<Rightarrow> 'r list \<Rightarrow> sql_error + 'r list" where
  "sql_insert key r t = (if key r \<in> set (map key t) then Inl Unique_failed else Inr (t @ [r]))"

definition sql_upsert :: "('r \<Rightarrow> 'k) \<Rightarrow> ('r \<Rightarrow> 'r \<Rightarrow> 'r) \<Rightarrow> 'r \<Rightarrow> 'r list \<Rightarrow> 'r list" where
  "sql_upsert key merge r t =
     (if key r \<in> set (map key t) then map (\<lambda>x. if key x = key r then merge x r else x) t
      else t @ [r])"

definition sql_replace :: "('r \<Rightarrow> 'k) \<Rightarrow> 'r \<Rightarrow> 'r list \<Rightarrow> 'r list" where
  "sql_replace key r t = filter (\<lambda>x. key x \<noteq> key r) t @ [r]"

definition sql_update :: "('r \<Rightarrow> bool) \<Rightarrow> ('r \<Rightarrow> 'r) \<Rightarrow> 'r list \<Rightarrow> 'r list" where
  "sql_update p f t = map (\<lambda>x. if p x then f x else x) t"

definition sql_delete :: "('r \<Rightarrow> bool) \<Rightarrow> 'r list \<Rightarrow> 'r list" where
  "sql_delete p t = filter (\<lambda>x. \<not> p x) t"

definition affected :: "('r \<Rightarrow> bool) \<Rightarrow> 'r list \<Rightarrow> nat" where
  "affected p t = length (filter p t)"

definition pk :: "('r \<Rightarrow> 'k) \<Rightarrow> 'r list \<Rightarrow> bool" where
  "pk key t \<longleftrightarrow> distinct (map key t)"

lemma pk_Nil [simp]: "pk key []"
  by (simp add: pk_def)

lemma pk_insert [tbl_intros]: "pk key t \<Longrightarrow> sql_insert key r t = Inr t' \<Longrightarrow> pk key t'"
  by (auto simp: pk_def sql_insert_def split: if_splits)

lemma pk_delete [tbl_intros]: "pk key t \<Longrightarrow> pk key (sql_delete p t)"
  by (simp add: pk_def sql_delete_def distinct_map_filter)

lemma map_key_update: "(\<And>x. p x \<Longrightarrow> key (f x) = key x) \<Longrightarrow> map key (sql_update p f t) = map key t"
  by (simp add: sql_update_def)

lemma pk_update [tbl_intros]: "pk key t \<Longrightarrow> (\<And>x. p x \<Longrightarrow> key (f x) = key x) \<Longrightarrow> pk key (sql_update p f t)"
  by (simp add: pk_def map_key_update)

lemma pk_upsert [tbl_intros]:
  assumes "pk key t" and "\<And>x. key x = key r \<Longrightarrow> key (merge x r) = key r"
  shows "pk key (sql_upsert key merge r t)"
proof (cases "key r \<in> set (map key t)")
  case True
  have "map key (map (\<lambda>x. if key x = key r then merge x r else x) t) = map key t"
    using assms(2) by auto
  with True assms(1) show ?thesis by (simp only: sql_upsert_def pk_def if_True)
next
  case False
  with assms(1) show ?thesis by (simp add: sql_upsert_def pk_def)
qed

lemma pk_replace [tbl_intros]: "pk key t \<Longrightarrow> pk key (sql_replace key r t)"
  by (auto simp: pk_def sql_replace_def distinct_map_filter)

text \<open>A query on a primary key after each statement.\<close>

lemma find_append: "find p (xs @ ys) = (case find p xs of None \<Rightarrow> find p ys | Some x \<Rightarrow> Some x)"
  by (induction xs) auto

lemma find_unique:
  assumes "x \<in> set xs" and "P x" and "\<And>y. y \<in> set xs \<Longrightarrow> P y \<Longrightarrow> y = x"
  shows "find P xs = Some x"
proof (cases "find P xs")
  case None
  with assms(1,2) show ?thesis by (auto simp: find_None_iff)
next
  case (Some y)
  then have "y \<in> set xs" "P y" by (auto simp: find_Some_iff)
  from assms(3) [OF this] Some show ?thesis by simp
qed

lemma pk_distinct: "pk key t \<Longrightarrow> distinct t"
  by (simp add: pk_def distinct_map)

lemma pk_eq: "pk key t \<Longrightarrow> x \<in> set t \<Longrightarrow> y \<in> set t \<Longrightarrow> key x = key y \<Longrightarrow> x = y"
  by (auto simp: pk_def distinct_map inj_on_def)

lemma insort_key_map:
  "(\<And>x. k (g x) = k x) \<Longrightarrow> insort_key k (g x) (map g ys) = map g (insort_key k x ys)"
  by (induction ys) auto

lemma sort_key_map: "(\<And>x. k (g x) = k x) \<Longrightarrow> sort_key k (map g xs) = map g (sort_key k xs)"
  by (induction xs) (simp_all add: sort_key_def insort_key_map)

lemma find_pk_eq_Some:
  assumes "pk key t"
  shows "find (\<lambda>x. key x = k) t = Some r \<longleftrightarrow> r \<in> set t \<and> key r = k"
  using assms by (induction t) (auto simp: pk_def)

lemma find_pk_eq_None: "find (\<lambda>x. key x = k) t = None \<longleftrightarrow> k \<notin> set (map key t)"
  by (auto simp: find_None_iff)

lemma find_snoc: "find p (t @ [r]) = (case find p t of None \<Rightarrow> if p r then Some r else None | Some x \<Rightarrow> Some x)"
  by (simp add: find_append split: option.split)

lemma find_sql_insert [tbl_simps]:
  assumes "sql_insert key r t = Inr t'"
  shows "find (\<lambda>x. key x = k) t' = (if k = key r then Some r else find (\<lambda>x. key x = k) t)"
proof -
  from assms have "key r \<notin> set (map key t)" and t': "t' = t @ [r]"
    by (auto simp: sql_insert_def split: if_splits)
  then have "find (\<lambda>x. key x = key r) t = None" by (simp only: find_pk_eq_None not_False_eq_True)
  with t' show ?thesis by (auto simp: find_snoc split: option.split)
qed

lemma sql_insert_find [tbl_simps]:
  "sql_insert key r t = (case find (\<lambda>x. key x = key r) t of
     None \<Rightarrow> Inr (t @ [r]) | Some _ \<Rightarrow> Inl Unique_failed)"
proof (cases "find (\<lambda>x. key x = key r) t")
  case None
  then have "key r \<notin> set (map key t)" by (simp only: find_pk_eq_None not_False_eq_True)
  with None show ?thesis by (simp add: sql_insert_def)
next
  case (Some a)
  then have "find (\<lambda>x. key x = key r) t \<noteq> None" by simp
  then have "key r \<in> set (map key t)" by (simp only: find_pk_eq_None not_not)
  with Some show ?thesis by (simp add: sql_insert_def)
qed

lemma find_sql_delete_key [tbl_simps]:
  "find (\<lambda>x. key x = k) (sql_delete (\<lambda>x. key x = k') t) =
     (if k = k' then None else find (\<lambda>x. key x = k) t)"
  unfolding sql_delete_def by (induction t) auto

text \<open>A delete that takes the rows of a key all or none.\<close>

lemma find_sql_delete_class:
  assumes "\<And>r. key r = k \<Longrightarrow> p r \<longleftrightarrow> b"
  shows "find (\<lambda>x. key x = k) (sql_delete p t) = (if b then None else find (\<lambda>x. key x = k) t)"
  unfolding sql_delete_def using assms by (induction t) auto

lemma find_sql_update_key [tbl_simps]:
  assumes "\<And>x. key (f x) = key x"
  shows "find (\<lambda>x. key x = k) (sql_update (\<lambda>x. key x = k') f t) =
    (if k = k' then map_option f (find (\<lambda>x. key x = k) t) else find (\<lambda>x. key x = k) t)"
  unfolding sql_update_def using assms by (induction t) auto

lemma find_sql_update_any:
  assumes "\<And>x. key (f x) = key x"
  shows "find (\<lambda>x. key x = k) (sql_update p f t) = map_option (\<lambda>x. if p x then f x else x) (find (\<lambda>x. key x = k) t)"
  unfolding sql_update_def using assms by (induction t) auto

lemma find_sql_replace [tbl_simps]:
  "find (\<lambda>x. key x = k) (sql_replace key r t) =
     (if k = key r then Some r else find (\<lambda>x. key x = k) t)"
proof -
  have "find (\<lambda>x. key x = k) (filter (\<lambda>x. key x \<noteq> key r) t)
      = (if k = key r then None else find (\<lambda>x. key x = k) t)"
    by (induction t) auto
  then show ?thesis by (simp add: sql_replace_def find_append split: option.splits)
qed

lemma find_sql_upsert [tbl_simps]:
  assumes "\<And>x. key x = key r \<Longrightarrow> key (merge x r) = key r"
  shows "find (\<lambda>x. key x = k) (sql_upsert key merge r t) =
    (if k = key r then
       Some (case find (\<lambda>x. key x = k) t of None \<Rightarrow> r | Some x \<Rightarrow> merge x r)
     else find (\<lambda>x. key x = k) t)"
proof (cases "key r \<in> set (map key t)")
  case True
  have "find (\<lambda>x. key x = k) (map (\<lambda>x. if key x = key r then merge x r else x) t) =
      (if k = key r then map_option (\<lambda>x. merge x r) (find (\<lambda>x. key x = k) t)
       else find (\<lambda>x. key x = k) t)"
    using assms by (induction t) auto
  moreover have "find (\<lambda>x. key x = key r) t \<noteq> None"
    using True by (simp add: find_pk_eq_None)
  ultimately show ?thesis using True by (auto simp: sql_upsert_def)
next
  case False
  then have "find (\<lambda>x. key x = key r) t = None" by (simp add: find_pk_eq_None)
  with False show ?thesis by (auto simp: sql_upsert_def find_append split: option.splits)
qed

lemma affected_key:
  assumes "pk key t"
  shows "affected (\<lambda>x. key x = k) t = (if k \<in> set (map key t) then 1 else 0)"
  using assms
proof (induction t)
  case (Cons a t)
  then have "pk key t" by (simp add: pk_def)
  with Cons show ?case by (auto simp: affected_def pk_def filter_empty_conv)
qed (simp add: affected_def)

lemma affected_0_iff: "affected p t = 0 \<longleftrightarrow> find p t = None"
  by (auto simp: affected_def filter_empty_conv find_None_iff)

text \<open>A statement that touches only rows outside a selection leaves the selection alone.\<close>

lemma filter_sql_update: "(\<And>x. p x \<Longrightarrow> \<not> q x) \<Longrightarrow> (\<And>x. p x \<Longrightarrow> \<not> q (f x)) \<Longrightarrow>
    filter q (sql_update p f t) = filter q t"
  unfolding sql_update_def by (induction t) auto

lemma filter_sql_delete: "(\<And>x. p x \<Longrightarrow> \<not> q x) \<Longrightarrow> filter q (sql_delete p t) = filter q t"
  unfolding sql_delete_def by (induction t) auto

lemma filter_sql_upsert:
  assumes "\<And>x. key x = key r \<Longrightarrow> \<not> q x \<and> \<not> q (merge x r)"
  shows "filter q (sql_upsert key merge r t) = filter q t"
proof -
  have "filter q (map (\<lambda>x. if key x = key r then merge x r else x) t) = filter q t"
    using assms by (induction t) auto
  with assms [of r] show ?thesis by (simp add: sql_upsert_def)
qed

section \<open>Stores: the interface of everything kept by key\<close>

text \<open>
  Every service keeps values by key: parameters, items, tags, keys. The contract they share is
  read-your-writes with independent keys; the lemmas below are proved once from it.
\<close>

locale store =
  fixes look :: "'k \<Rightarrow> 's \<Rightarrow> 'v option"
    and put :: "'k \<Rightarrow> 'v \<Rightarrow> 's \<Rightarrow> 's"
    and rem :: "'k \<Rightarrow> 's \<Rightarrow> 's"
    and ok :: "'s \<Rightarrow> bool"
  assumes look_put: "ok s \<Longrightarrow> look k' (put k v s) = (if k' = k then Some v else look k' s)"
    and look_rem: "ok s \<Longrightarrow> look k' (rem k s) = (if k' = k then None else look k' s)"
    and ok_put: "ok s \<Longrightarrow> ok (put k v s)"
    and ok_rem: "ok s \<Longrightarrow> ok (rem k s)"
begin

lemma ok_puts: "ok s \<Longrightarrow> ok (fold (\<lambda>(k, v). put k v) kvs s)"
  by (induction kvs arbitrary: s) (auto simp: ok_put)

lemma ok_rems: "ok s \<Longrightarrow> ok (fold rem ks s)"
  by (induction ks arbitrary: s) (auto simp: ok_rem)

lemma look_puts:
  "ok s \<Longrightarrow> look k (fold (\<lambda>(k, v). put k v) kvs s) =
     (case map_of (rev kvs) k of None \<Rightarrow> look k s | Some v \<Rightarrow> Some v)"
  by (induction kvs arbitrary: s) (auto simp: ok_put look_put map_add_def split: option.splits)

lemma look_rems: "ok s \<Longrightarrow> look k (fold rem ks s) = (if k \<in> set ks then None else look k s)"
  by (induction ks arbitrary: s) (auto simp: ok_rem look_rem)

lemma put_put: "ok s \<Longrightarrow> look k' (put k v (put k w s)) = look k' (put k v s)"
  by (simp add: look_put ok_put)

lemma put_commute:
  "ok s \<Longrightarrow> k1 \<noteq> k2 \<Longrightarrow> look k' (put k1 v (put k2 w s)) = look k' (put k2 w (put k1 v s))"
  by (simp add: look_put ok_put)

lemma rem_put: "ok s \<Longrightarrow> look k s = None \<Longrightarrow> look k' (rem k (put k v s)) = look k' s"
  by (simp add: look_put look_rem ok_put)

end

text \<open>
  Every taggable resource of every service promises the same of its tag calls: adding merges, the
  last value of a key winning, and removing takes the named keys away, each leaving other keys alone.
\<close>

locale tagging =
  fixes tags :: "'s \<Rightarrow> string \<Rightarrow> string option"
    and tag :: "(string \<times> string) list \<Rightarrow> 's \<Rightarrow> 's"
    and untag :: "string list \<Rightarrow> 's \<Rightarrow> 's"
    and inv :: "'s \<Rightarrow> bool"
  assumes tags_tag: "inv s \<Longrightarrow> tags (tag kvs s) = tags s ++ map_of (rev kvs)"
    and tags_untag: "inv s \<Longrightarrow> tags (untag ks s) k = (if k \<in> set ks then None else tags s k)"
    and inv_tag: "inv s \<Longrightarrow> inv (tag kvs s)"
    and inv_untag: "inv s \<Longrightarrow> inv (untag ks s)"
begin

lemma retag: "inv s \<Longrightarrow> tags (tag kvs (tag kvs s)) = tags (tag kvs s)"
  by (auto simp: tags_tag inv_tag map_add_def fun_eq_iff split: option.split)

lemma tag_last_wins: "inv s \<Longrightarrow> tags (tag (kvs @ [(k, v)]) s) k = Some v"
  by (simp add: tags_tag)

lemma tag_other: "inv s \<Longrightarrow> k \<notin> fst ` set kvs \<Longrightarrow> tags (tag kvs s) k = tags s k"
proof -
  assume "inv s" "k \<notin> fst ` set kvs"
  then have "map_of (rev kvs) k = None" by (simp add: map_of_eq_None_iff)
  with \<open>inv s\<close> show ?thesis by (simp add: tags_tag map_add_def)
qed

lemma untag_tag:
  "inv s \<Longrightarrow> tags (untag ks (tag kvs s)) k = (if k \<in> set ks then None else tags (tag kvs s) k)"
  by (simp add: tags_untag inv_tag)

text \<open>Tagging with new keys and removing them again is no change.\<close>

lemma tag_undone:
  assumes "inv s" and "\<And>k. k \<in> fst ` set kvs \<Longrightarrow> tags s k = None"
  shows "tags (untag (map fst kvs) (tag kvs s)) = tags s"
proof
  fix k
  show "tags (untag (map fst kvs) (tag kvs s)) k = tags s k"
    using assms by (cases "k \<in> fst ` set kvs") (auto simp: untag_tag tag_other)
qed

text \<open>A change of tags as the provider sends it: removals, then additions.\<close>

lemma change_tags:
  assumes "inv s"
  shows "tags (tag kvs (untag ks s)) k =
    (case map_of (rev kvs) k of Some v \<Rightarrow> Some v | None \<Rightarrow> if k \<in> set ks then None else tags s k)"
  using assms by (simp add: tags_tag tags_untag inv_untag map_add_def split: option.split)

end

text \<open>Go maps are such a store, and their own tag sets.\<close>

interpretation gomap: store "\<lambda>k m. map_of m k" gm_set gm_del gm_wf
  by unfold_locales auto

interpretation gomap_tags: tagging map_of gm_set_all gm_del_all gm_wf
  by unfold_locales (auto simp: map_of_gm_set_all map_of_gm_del_all)

end
