(* ===== verification/Gotime.thy ===== *)
theory Gotime
  imports Prelude
begin

text \<open>
  The parts of Go's package time the services use. An instant is a number of nanoseconds since the
  epoch, UTC. \<open>rfc3339\<close> is Format(time.RFC3339) in UTC for years 0 to 9999, \<open>parse_rfc3339\<close> is
  time.Parse with that layout followed by Unix, and a Duration is a wrapping 64-bit nanosecond count.
\<close>

definition nanos_per_second :: int where
  "nanos_per_second = 1000000000"

definition unix :: "int \<Rightarrow> int" where
  "unix t = t div nanos_per_second"

text \<open>Days since the epoch to (year, month, day) in the proleptic Gregorian calendar, and back.\<close>

definition civil_from_days :: "int \<Rightarrow> int \<times> int \<times> int" where
  "civil_from_days days =
     (let z = days + 719468;
          era = z div 146097;
          doe = z mod 146097;
          yoe = (doe - doe div 1460 + doe div 36524 - doe div 146096) div 365;
          doy = doe - (365 * yoe + yoe div 4 - yoe div 100);
          mp = (5 * doy + 2) div 153;
          d = doy - (153 * mp + 2) div 5 + 1;
          m = (if mp < 10 then mp + 3 else mp - 9)
      in (yoe + era * 400 + (if m \<le> 2 then 1 else 0), m, d))"

definition days_from_civil :: "int \<Rightarrow> int \<Rightarrow> int \<Rightarrow> int" where
  "days_from_civil y m d =
     (let y' = (if m \<le> 2 then y - 1 else y);
          era = y' div 400;
          yoe = y' mod 400;
          mp = (if m > 2 then m - 3 else m + 9);
          doy = (153 * mp + 2) div 5 + d - 1;
          doe = yoe * 365 + yoe div 4 - yoe div 100 + doy
      in era * 146097 + doe - 719468)"

definition pad2 :: "int \<Rightarrow> string" where
  "pad2 n = [digit_char (nat n div 10), digit_char (nat n)]"

definition pad4 :: "int \<Rightarrow> string" where
  "pad4 n = pad2 (n div 100) @ pad2 (n mod 100)"

definition rfc3339 :: "int \<Rightarrow> string" where
  "rfc3339 t =
     (let s = unix t; days = s div 86400; sod = s mod 86400
      in case civil_from_days days of (y, m, d) \<Rightarrow>
           pad4 y @ ''-'' @ pad2 m @ ''-'' @ pad2 d @ ''T'' @ pad2 (sod div 3600) @ '':'' @
           pad2 (sod mod 3600 div 60) @ '':'' @ pad2 (sod mod 60) @ ''Z'')"

definition digit_val :: "char \<Rightarrow> int option" where
  "digit_val c = map_of (zip ''0123456789'' [0, 1, 2, 3, 4, 5, 6, 7, 8, 9]) c"

definition is_digit :: "char \<Rightarrow> bool" where
  "is_digit c \<longleftrightarrow> digit_val c \<noteq> None"

fun parse_digits :: "int \<Rightarrow> string \<Rightarrow> int option" where
  "parse_digits acc [] = Some acc"
| "parse_digits acc (c # cs) =
     (case digit_val c of None \<Rightarrow> None | Some d \<Rightarrow> parse_digits (10 * acc + d) cs)"

definition num_at :: "nat \<Rightarrow> nat \<Rightarrow> string \<Rightarrow> int option" where
  "num_at i n s = (if length s < i + n then None else parse_digits 0 (take n (drop i s)))"

definition leap_year :: "int \<Rightarrow> bool" where
  "leap_year y \<longleftrightarrow> y mod 4 = 0 \<and> (y mod 100 \<noteq> 0 \<or> y mod 400 = 0)"

definition days_in_month :: "int \<Rightarrow> int \<Rightarrow> int" where
  "days_in_month y m =
     (if m = 2 then (if leap_year y then 29 else 28)
      else if m \<in> {4, 6, 9, 11} then 30 else 31)"

text \<open>The seconds east of UTC at the end of a timestamp, after an optional fraction.\<close>

definition parse_offset :: "string \<Rightarrow> int option" where
  "parse_offset s =
     (if s = ''Z'' then Some 0
      else if length s = 6 \<and> (s ! 0 = CHR ''+'' \<or> s ! 0 = CHR ''-'') \<and> s ! 3 = CHR '':'' then
        (case (num_at 1 2 s, num_at 4 2 s) of
           (Some h, Some m) \<Rightarrow>
             (if h \<le> 24 \<and> m \<le> 60 then Some ((if s ! 0 = CHR ''-'' then -1 else 1) * (h * 3600 + m * 60))
              else None)
         | _ \<Rightarrow> None)
      else None)"

definition skip_fraction :: "string \<Rightarrow> string" where
  "skip_fraction s =
     (case s of
        c # d # cs \<Rightarrow> if (c = CHR ''.'' \<or> c = CHR '','') \<and> is_digit d then dropWhile is_digit (d # cs) else s
      | _ \<Rightarrow> s)"

definition parse_rfc3339 :: "string \<Rightarrow> int option" where
  "parse_rfc3339 s =
     (if length s < 20 \<or> s ! 4 \<noteq> CHR ''-'' \<or> s ! 7 \<noteq> CHR ''-'' \<or> s ! 10 \<noteq> CHR ''T'' \<or>
         s ! 13 \<noteq> CHR '':'' \<or> s ! 16 \<noteq> CHR '':'' then None
      else case (num_at 0 4 s, num_at 5 2 s, num_at 8 2 s, num_at 11 2 s, num_at 14 2 s, num_at 17 2 s,
                 parse_offset (skip_fraction (drop 19 s))) of
        (Some y, Some mo, Some d, Some h, Some mi, Some sec, Some off) \<Rightarrow>
          (if 1 \<le> mo \<and> mo \<le> 12 \<and> 1 \<le> d \<and> d \<le> days_in_month y mo \<and> h < 24 \<and> mi < 60 \<and> sec < 60
           then Some (days_from_civil y mo d * 86400 + h * 3600 + mi * 60 + sec - off) else None)
      | _ \<Rightarrow> None)"

text \<open>time.Duration arithmetic: a product of a count and a unit wraps at 64 bits.\<close>

definition duration_days :: "int \<Rightarrow> int" where
  "duration_days n = wrap64 (wrap64 (n * 24) * (3600 * nanos_per_second))"

definition time_add :: "int \<Rightarrow> int \<Rightarrow> int" where
  "time_add t d = t + d"

lemma unix_add_days:
  assumes "\<bar>n\<bar> \<le> 106751"
  shows "unix (time_add t (duration_days n)) = unix t + n * 86400"
proof -
  from assms have n: "- 106751 \<le> n" "n \<le> 106751" by auto
  then have "int64_range (n * 24)" unfolding int64_range_def by auto
  then have 1: "wrap64 (n * 24) = n * 24" by (rule wrap64_id)
  have "int64_range (n * 24 * (3600 * nanos_per_second))"
    using n unfolding int64_range_def nanos_per_second_def by auto
  then have 2: "wrap64 (n * 24 * (3600 * nanos_per_second)) = n * 24 * (3600 * nanos_per_second)"
    by (rule wrap64_id)
  have "duration_days n = n * 24 * (3600 * nanos_per_second)"
    unfolding duration_days_def 1 2 ..
  then have "time_add t (duration_days n) = t + (n * 86400) * nanos_per_second"
    by (simp add: time_add_def)
  then show ?thesis
    unfolding unix_def nanos_per_second_def by simp
qed

end
