(* ===== verification/Json.thy ===== *)
theory Json
  imports Prelude
begin

text \<open>
  JSON values, and package encoding/json as the handlers use it: Unmarshal into a struct and
  Marshal of maps and structs. A request body is a value, or None when it is not JSON at all. An
  object is the list of its members in text order. Numbers the code treats as integers are
  \<open>JInt\<close>; any other number literal (json.Number, a fraction, an exponent) is \<open>JLit\<close>.
\<close>

datatype json =
    JNull
  | JBool bool
  | JInt int
  | JLit string
  | JStr string
  | JArr "json list"
  | JObj "(string \<times> json) list"

section \<open>Unmarshal\<close>

text \<open>
  Decoding a struct visits the members in order; a member sets the field whose name it equals up to
  case. A null leaves the field alone. A value of the wrong type leaves the field alone too, decoding
  goes on, and the first such error is returned at the end. So a decoder returns a flag (no error)
  and the struct. The fields of the request structs have pairwise different names up to case, so
  each field can be decoded on its own.
\<close>

definition members :: "string \<Rightarrow> json \<Rightarrow> json list" where
  "members f j =
     (case j of JObj ms \<Rightarrow> map snd (filter (\<lambda>(k, _). lower k = lower f) ms) | _ \<Rightarrow> [])"

definition is_obj :: "json \<Rightarrow> bool" where
  "is_obj j = (case j of JObj _ \<Rightarrow> True | JNull \<Rightarrow> True | _ \<Rightarrow> False)"

text \<open>
  A decoder of one value answers whether it had no error and, when it assigns, the new value. A
  field is the fold of its members over its zero value.
\<close>

type_synonym 'a dec = "json \<Rightarrow> bool \<times> 'a option"

definition dec_members :: "'a dec \<Rightarrow> 'a \<Rightarrow> json list \<Rightarrow> bool \<times> 'a" where
  "dec_members dec zero js =
     fold (\<lambda>j (ok, v). case dec j of (ok', None) \<Rightarrow> (ok \<and> ok', v) | (ok', Some v') \<Rightarrow> (ok \<and> ok', v'))
       js (True, zero)"

definition dec_string :: "string dec" where
  "dec_string j = (case j of JStr s \<Rightarrow> (True, Some s) | JNull \<Rightarrow> (True, None) | _ \<Rightarrow> (False, None))"

definition dec_int :: "int dec" where
  "dec_int j = (case j of JInt i \<Rightarrow> if int64_range i then (True, Some i) else (False, None)
                        | JNull \<Rightarrow> (True, None) | _ \<Rightarrow> (False, None))"

definition dec_bool :: "bool dec" where
  "dec_bool j = (case j of JBool b \<Rightarrow> (True, Some b) | JNull \<Rightarrow> (True, None) | _ \<Rightarrow> (False, None))"

definition or_zero :: "'a \<Rightarrow> 'a option \<Rightarrow> 'a" where
  "or_zero z x = (case x of None \<Rightarrow> z | Some v \<Rightarrow> v)"

text \<open>
  A slice or map is decoded element by element; an element that is null or of the wrong type is kept
  with its zero value, and the error is reported. A null makes the slice or map nil. (A map field that
  a body gives twice takes the last of the two here, where encoding/json merges them.)
\<close>

definition dec_list :: "'a \<Rightarrow> 'a dec \<Rightarrow> 'a list dec" where
  "dec_list zero dec j = (case j of
       JArr js \<Rightarrow> (list_all (\<lambda>x. fst (dec x)) js, Some (map (\<lambda>x. or_zero zero (snd (dec x))) js))
     | JNull \<Rightarrow> (True, Some [])
     | _ \<Rightarrow> (False, None))"

definition dec_map :: "'a \<Rightarrow> 'a dec \<Rightarrow> (string \<times> 'a) list dec" where
  "dec_map zero dec j = (case j of
       JObj ms \<Rightarrow> (list_all (\<lambda>(_, x). fst (dec x)) ms,
                    Some (gm_set_all (map (\<lambda>(k, x). (k, or_zero zero (snd (dec x)))) ms) []))
     | JNull \<Rightarrow> (True, Some [])
     | _ \<Rightarrow> (False, None))"

text \<open>Fields of a struct, by their name.\<close>

definition field_string :: "string \<Rightarrow> json \<Rightarrow> bool \<times> string" where
  "field_string f j = dec_members dec_string [] (members f j)"

definition field_int :: "string \<Rightarrow> json \<Rightarrow> bool \<times> int" where
  "field_int f j = dec_members dec_int 0 (members f j)"

definition field_bool :: "string \<Rightarrow> json \<Rightarrow> bool \<times> bool" where
  "field_bool f j = dec_members dec_bool False (members f j)"

text \<open>A pointer field: None unless a member sets it; a null sets it back to nil.\<close>

definition field_opt_string :: "string \<Rightarrow> json \<Rightarrow> bool \<times> string option" where
  "field_opt_string f j =
     fold (\<lambda>j (ok, v). case j of JNull \<Rightarrow> (ok, None) | JStr s \<Rightarrow> (ok, Some s)
        | _ \<Rightarrow> (False, Some (case v of None \<Rightarrow> [] | Some s \<Rightarrow> s))) (members f j) (True, None)"

definition field_list :: "'a \<Rightarrow> 'a dec \<Rightarrow> string \<Rightarrow> json \<Rightarrow> bool \<times> 'a list" where
  "field_list zero dec f j = dec_members (dec_list zero dec) [] (members f j)"

definition field_map :: "'a \<Rightarrow> 'a dec \<Rightarrow> string \<Rightarrow> json \<Rightarrow> bool \<times> (string \<times> 'a) list" where
  "field_map zero dec f j = dec_members (dec_map zero dec) [] (members f j)"

text \<open>A struct value: an object, null (nothing set), or a type error (nothing set).\<close>

definition dec_struct :: "(json \<Rightarrow> bool \<times> 'a) \<Rightarrow> json \<Rightarrow> bool \<times> 'a" where
  "dec_struct fields j = (case fields j of (ok, v) \<Rightarrow> (ok \<and> is_obj j, v))"

text \<open>
  json.Unmarshal of a whole body: text that is not JSON sets nothing and is an error. Handlers that
  ignore the error use the second component all the same.
\<close>

definition unmarshal :: "(json \<Rightarrow> bool \<times> 'a) \<Rightarrow> json option \<Rightarrow> bool \<times> 'a" where
  "unmarshal fields body =
     (case body of None \<Rightarrow> (False, snd (fields JNull)) | Some j \<Rightarrow> dec_struct fields j)"

text \<open>A struct with two string fields, the element of the Tags of most services.\<close>

definition dec_pair :: "string \<Rightarrow> string \<Rightarrow> (string \<times> string) dec" where
  "dec_pair kf vf j =
     (fst (field_string kf j) \<and> fst (field_string vf j) \<and> is_obj j,
      Some (snd (field_string kf j), snd (field_string vf j)))"

definition field_pairs :: "string \<Rightarrow> string \<Rightarrow> string \<Rightarrow> json \<Rightarrow> bool \<times> (string \<times> string) list" where
  "field_pairs kf vf = field_list ([], []) (dec_pair kf vf)"

definition field_strings :: "string \<Rightarrow> json \<Rightarrow> bool \<times> string list" where
  "field_strings = field_list [] dec_string"

definition field_string_map :: "string \<Rightarrow> json \<Rightarrow> bool \<times> gomap" where
  "field_string_map = field_map [] dec_string"

text \<open>Slices and maps where the code tells nil (absent or null) from empty.\<close>

definition dec_nilable :: "'a dec \<Rightarrow> 'a option dec" where
  "dec_nilable dec j = (case j of JNull \<Rightarrow> (True, Some None) | _ \<Rightarrow> (case dec j of (ok, v) \<Rightarrow> (ok, map_option Some v)))"

definition field_nilable :: "'a dec \<Rightarrow> string \<Rightarrow> json \<Rightarrow> bool \<times> 'a option" where
  "field_nilable dec f j = dec_members (dec_nilable dec) None (members f j)"

definition field_opt_strings :: "string \<Rightarrow> json \<Rightarrow> bool \<times> string list option" where
  "field_opt_strings = field_nilable (dec_list [] dec_string)"

text \<open>An element kept undecoded (json.RawMessage).\<close>

definition dec_raw :: "json dec" where
  "dec_raw j = (True, Some j)"

section \<open>Marshal\<close>

text \<open>A marshalled map's members are listed in the order the code writes them; Go sorts them by key.\<close>

definition json_map :: "gomap \<Rightarrow> json" where
  "json_map m = JObj (map (\<lambda>(k, v). (k, JStr v)) m)"

definition json_strings :: "string list \<Rightarrow> json" where
  "json_strings ss = JArr (map JStr ss)"

definition obj_get :: "string \<Rightarrow> json \<Rightarrow> json option" where
  "obj_get k j = (case j of JObj ms \<Rightarrow> map_of ms k | _ \<Rightarrow> None)"

lemma obj_get_simps [simp]:
  "obj_get k (JObj []) = None"
  "obj_get k (JObj ((k', v) # ms)) = (if k = k' then Some v else obj_get k (JObj ms))"
  by (simp_all add: obj_get_def)

text \<open>Decoding a request that has the field once, of the right type.\<close>

lemma field_string_members: "members f j = [JStr s] \<Longrightarrow> field_string f j = (True, s)"
  by (simp add: field_string_def dec_members_def dec_string_def)

lemma field_string_absent: "members f j = [] \<Longrightarrow> field_string f j = (True, [])"
  by (simp add: field_string_def dec_members_def)

text \<open>A decoded map has each key once.\<close>

lemma dec_members_invariant:
  assumes "P zero" and "\<And>j v. snd (dec j) = Some v \<Longrightarrow> P v"
  shows "P (snd (dec_members dec zero js))"
proof -
  have "P (snd acc) \<Longrightarrow> P (snd (fold (\<lambda>j (ok, v). case dec j of
      (ok', None) \<Rightarrow> (ok \<and> ok', v) | (ok', Some v') \<Rightarrow> (ok \<and> ok', v')) js acc))" for acc
  proof (induction js arbitrary: acc)
    case (Cons j js)
    then show ?case
      using assms(2) [of j] by (auto simp: split_beta split: option.splits intro!: Cons.IH)
  qed simp
  with assms(1) show ?thesis by (simp add: dec_members_def)
qed

lemma gm_wf_field_map: "gm_wf (snd (field_map zero dec f j))"
  unfolding field_map_def
  by (rule dec_members_invariant) (auto simp: dec_map_def split: json.splits)

end
