(* ===== verification/Awsproto.thy ===== *)
theory Awsproto
  imports Json
begin

text \<open>
  Package handlers/awsproto and the sentinels of package models: error values, their translation to
  wire errors, the response writers of the wire shapes, the X-Amz-Target and Query-RPC request
  parsers and the ARN builders. A response is the status, the content type and the body the handler
  wrote, with the class a recorder would have been told (markClass). An XML body is the element
  tree; the declaration xml.Header and the indentation around it are left out.
\<close>

section \<open>Errors (models/models.go)\<close>

datatype go_error =
    ErrNotFound
  | ErrInUse
  | ErrTerminalState
  | ErrConflict
  | ErrOther string
  | ErrJoin go_error go_error
  | ErrWrap go_error string

text \<open>
  errors.Is against a sentinel. errors.Join is \<open>ErrJoin\<close>; \<open>ErrWrap e s\<close> is an error with text \<open>s\<close>
  that wraps \<open>e\<close> (fmt.Errorf with a %w). Where no text reaches the wire, a wrapped sentinel is
  written as the sentinel itself.
\<close>

fun errors_is :: "go_error \<Rightarrow> go_error \<Rightarrow> bool" where
  "errors_is (ErrJoin a b) t = (errors_is a t \<or> errors_is b t)"
| "errors_is (ErrWrap e s) t = errors_is e t"
| "errors_is e t = (e = t)"

text \<open>errors.Join of an error with one that may be nil.\<close>

definition errors_join :: "go_error \<Rightarrow> go_error option \<Rightarrow> go_error" where
  "errors_join e o_err = (case o_err of None \<Rightarrow> e | Some e' \<Rightarrow> ErrJoin e e')"

fun error_text :: "go_error \<Rightarrow> string" where
  "error_text ErrNotFound = ''resource not found''"
| "error_text ErrInUse = ''resource in use by another resource''"
| "error_text ErrTerminalState = ''resource is in a terminal state''"
| "error_text ErrConflict = ''resource conflict''"
| "error_text (ErrOther s) = s"
| "error_text (ErrWrap e s) = s"
| "error_text (ErrJoin a b) = error_text a @ [CHR 0x0A] @ error_text b"

type_synonym 'a result = "go_error + 'a"

text \<open>A handler that answers what an operation returned leaves the state the operation left.\<close>

lemma snd_case_result:
  "snd (case x of (e, d) \<Rightarrow> (case e of None \<Rightarrow> (f d, d) | Some err \<Rightarrow> (g err d, d))) = snd x"
  by (simp split: prod.split option.split)

text \<open>
  The texts SQLite gives a refused statement, and the repository's reading of them (mapInsertError,
  mapDeleteError in repository/repository.go).
\<close>

fun sql_text :: "sql_error \<Rightarrow> string" where
  "sql_text Unique_failed = ''UNIQUE constraint failed''"
| "sql_text Fk_failed = ''FOREIGN KEY constraint failed''"

definition map_insert_error :: "string \<Rightarrow> go_error" where
  "map_insert_error msg =
     (if str_contains msg ''UNIQUE constraint failed'' \<or> str_contains msg ''PRIMARY KEY'' then ErrConflict
      else if str_contains msg ''FOREIGN KEY'' then ErrNotFound
      else ErrOther msg)"

definition map_delete_error :: "string \<Rightarrow> go_error" where
  "map_delete_error msg = (if str_contains msg ''FOREIGN KEY'' then ErrInUse else ErrOther msg)"

lemma map_insert_error_sql [simp]:
  "map_insert_error (sql_text Unique_failed) = ErrConflict"
  "map_insert_error (sql_text Fk_failed) = ErrNotFound"
  by (simp_all add: map_insert_error_def has_prefix_def)

lemma map_delete_error_fk [simp]: "map_delete_error (sql_text Fk_failed) = ErrInUse"
  by (simp add: map_delete_error_def has_prefix_def)

text \<open>An INSERT through mapInsertError.\<close>

definition insert_row :: "('r \<Rightarrow> 'k) \<Rightarrow> 'r \<Rightarrow> 'r list \<Rightarrow> 'r list result" where
  "insert_row key r t =
     (case sql_insert key r t of Inl e \<Rightarrow> Inl (map_insert_error (sql_text e)) | Inr t' \<Rightarrow> Inr t')"

lemma insert_row_find [tbl_simps]:
  "insert_row key r t = (case find (\<lambda>x. key x = key r) t of
     None \<Rightarrow> Inr (t @ [r]) | Some _ \<Rightarrow> Inl ErrConflict)"
  by (auto simp: insert_row_def sql_insert_find map_insert_error_sql simp del: sql_text.simps split: option.split)

lemma insert_row_Inr: "insert_row key r t = Inr t' \<longleftrightarrow> sql_insert key r t = Inr t'"
  by (auto simp: insert_row_def split: sum.splits)

lemma pk_insert_row [tbl_intros]: "pk key t \<Longrightarrow> insert_row key r t = Inr t' \<Longrightarrow> pk key t'"
  by (auto simp: insert_row_Inr intro: pk_insert)

section \<open>Responses\<close>

datatype xml = Elem string "xml list" | Text string

datatype body =
    No_body
  | Json_body json
  | Xml_body xml
  | Raw_body string

text \<open>The classes markClass gives a request that is a gap (handlers/recorder.go).\<close>

datatype req_class = Not_modelled_404 | Filter_refused | Unimplemented_501 | Empty_collection

record response =
  r_status :: int
  r_ctype :: string
  r_body :: body
  r_class :: "req_class option"

definition respond :: "int \<Rightarrow> string \<Rightarrow> body \<Rightarrow> response" where
  "respond status ctype b = \<lparr>r_status = status, r_ctype = ctype, r_body = b, r_class = None\<rparr>"

definition mark_class :: "req_class \<Rightarrow> response \<Rightarrow> response" where
  "mark_class c r = r\<lparr>r_class := Some c\<rparr>"

definition write_json10 :: "int \<Rightarrow> json \<Rightarrow> response" where
  "write_json10 status payload = respond status ''application/x-amz-json-1.0'' (Json_body payload)"

definition write_json11 :: "int \<Rightarrow> json \<Rightarrow> response" where
  "write_json11 status payload = respond status ''application/x-amz-json-1.1'' (Json_body payload)"

definition write_json_rest :: "int \<Rightarrow> json \<Rightarrow> response" where
  "write_json_rest status payload = respond status ''application/json'' (Json_body payload)"

definition write_xml :: "int \<Rightarrow> xml \<Rightarrow> response" where
  "write_xml status payload = respond status ''application/xml'' (Xml_body payload)"

text \<open>The IAM / RDS / STS success envelope around the payload's elements.\<close>

definition write_query_rpc :: "string \<Rightarrow> xml list \<Rightarrow> response" where
  "write_query_rpc action payload =
     respond 200 ''text/xml'' (Xml_body (Elem (action @ ''Response'')
       [Elem (action @ ''Result'') payload,
        Elem ''ResponseMetadata'' [Elem ''RequestId'' [Text ''fakeaws-synthetic'']]]))"

text \<open>The envelope of a nil payload.\<close>

definition write_query_rpc_nil :: "string \<Rightarrow> response" where
  "write_query_rpc_nil action =
     respond 200 ''text/xml'' (Xml_body (Elem (action @ ''Response'')
       [Elem ''ResponseMetadata'' [Elem ''RequestId'' [Text ''fakeaws-synthetic'']]]))"

text \<open>The EC2 envelope, without a Result element.\<close>

definition write_ec2_query :: "string \<Rightarrow> xml list \<Rightarrow> response" where
  "write_ec2_query action payload =
     respond 200 ''text/xml'' (Xml_body (Elem (action @ ''Response'')
       (Elem ''requestId'' [Text ''fakeaws-synthetic''] # payload)))"

lemma write_query_rpc_status [simp]:
  "r_status (write_query_rpc action xs) = 200" "r_status (write_query_rpc_nil action) = 200"
  "r_status (write_ec2_query action xs) = 200"
  by (simp_all add: write_query_rpc_def write_query_rpc_nil_def write_ec2_query_def respond_def)

text \<open>writeUnimplemented (handlers/handlers.go); the log line it prints is left out.\<close>

definition write_unimplemented :: response where
  "write_unimplemented = mark_class Unimplemented_501 (respond 501 ''application/json'' (Raw_body
     ''{\"error\":\"unimplemented\",\"message\":\"fakeaws does not yet model this endpoint; see logs for the method+path\"}''))"

text \<open>What the router's Recoverer answers for a handler that panics.\<close>

definition write_panic :: response where
  "write_panic = respond 500 [] No_body"

section \<open>Wire errors (handlers/awsproto/error.go)\<close>

datatype wire_shape =
  Shape_unknown | Shape_xml | Shape_query_rpc | Shape_json10 | Shape_json11 | Shape_json_rest | Shape_ec2_query

fun shape_name :: "wire_shape \<Rightarrow> string" where
  "shape_name Shape_xml = ''xml''"
| "shape_name Shape_query_rpc = ''queryrpc''"
| "shape_name Shape_ec2_query = ''ec2query''"
| "shape_name Shape_json10 = ''json10''"
| "shape_name Shape_json11 = ''json11''"
| "shape_name Shape_json_rest = ''jsonrest''"
| "shape_name Shape_unknown = ''unknown''"

record error_mapping =
  em_status :: int
  em_code :: string
  em_message :: string
  em_type :: string

definition map_domain_error :: "go_error \<Rightarrow> error_mapping" where
  "map_domain_error err =
     (if errors_is err ErrNotFound then
        \<lparr>em_status = 404, em_code = ''ResourceNotFoundException'',
         em_message = ''The specified resource does not exist.'', em_type = ''ResourceNotFoundException''\<rparr>
      else if errors_is err ErrInUse then
        \<lparr>em_status = 409, em_code = ''ResourceInUseException'',
         em_message = ''The resource is in use by another resource and cannot be deleted.'',
         em_type = ''ResourceInUseException''\<rparr>
      else if errors_is err ErrTerminalState then
        \<lparr>em_status = 409, em_code = ''InvalidRequestException'',
         em_message = ''The resource is in a terminal state and cannot be transitioned.'',
         em_type = ''InvalidRequestException''\<rparr>
      else if errors_is err ErrConflict then
        \<lparr>em_status = 409, em_code = ''ConflictException'',
         em_message = ''The request conflicts with the current resource state.'', em_type = ''ConflictException''\<rparr>
      else
        \<lparr>em_status = 500, em_code = ''InternalFailure'', em_message = error_text err,
         em_type = ''InternalFailure''\<rparr>)"

definition leaf :: "string \<Rightarrow> string \<Rightarrow> xml" where
  "leaf name t = Elem name [Text t]"

definition write_xml_error :: "error_mapping \<Rightarrow> response" where
  "write_xml_error m = respond (em_status m) ''application/xml'' (Xml_body (Elem ''Error''
     [leaf ''Code'' (em_code m), leaf ''Message'' (em_message m), leaf ''RequestId'' ''fakeaws-synthetic'']))"

definition write_query_rpc_error :: "error_mapping \<Rightarrow> response" where
  "write_query_rpc_error m = respond (em_status m) ''text/xml'' (Xml_body (Elem ''ErrorResponse''
     [Elem ''Error'' [leaf ''Type'' ''Sender'', leaf ''Code'' (em_code m), leaf ''Message'' (em_message m)],
      leaf ''RequestId'' ''fakeaws-synthetic'']))"

definition write_ec2_query_error :: "error_mapping \<Rightarrow> response" where
  "write_ec2_query_error m = respond (em_status m) ''text/xml'' (Xml_body (Elem ''Response''
     [Elem ''Errors'' [Elem ''Error'' [leaf ''Code'' (em_code m), leaf ''Message'' (em_message m)]],
      leaf ''RequestID'' ''fakeaws-synthetic'']))"

definition json_error :: "error_mapping \<Rightarrow> json" where
  "json_error m = JObj [(''__type'', JStr (em_type m)), (''message'', JStr (em_message m))]"

definition write_json10_error :: "error_mapping \<Rightarrow> response" where
  "write_json10_error m = respond (em_status m) ''application/x-amz-json-1.0'' (Json_body (json_error m))"

definition write_json11_error :: "error_mapping \<Rightarrow> response" where
  "write_json11_error m = respond (em_status m) ''application/x-amz-json-1.1'' (Json_body (json_error m))"

definition write_json_rest_error :: "error_mapping \<Rightarrow> response" where
  "write_json_rest_error m = respond (em_status m) ''application/json'' (Json_body (json_error m))"

definition write_mapped_error :: "wire_shape \<Rightarrow> error_mapping \<Rightarrow> response" where
  "write_mapped_error shape m = (case shape of
       Shape_xml \<Rightarrow> write_xml_error m
     | Shape_query_rpc \<Rightarrow> write_query_rpc_error m
     | Shape_ec2_query \<Rightarrow> write_ec2_query_error m
     | Shape_json10 \<Rightarrow> write_json10_error m
     | Shape_json11 \<Rightarrow> write_json11_error m
     | Shape_json_rest \<Rightarrow> write_json_rest_error m
     | Shape_unknown \<Rightarrow> write_json11_error m)"

definition write_aws_error :: "wire_shape \<Rightarrow> go_error \<Rightarrow> response" where
  "write_aws_error shape err = write_mapped_error shape (map_domain_error err)"

definition write_service_error :: "wire_shape \<Rightarrow> int \<Rightarrow> string \<Rightarrow> string \<Rightarrow> response" where
  "write_service_error shape status code msg =
     write_mapped_error shape \<lparr>em_status = status, em_code = code, em_message = msg, em_type = code\<rparr>"

section \<open>Requests\<close>

text \<open>
  An HTTP request as the handlers read it: headers by name (\<open>Header.Get\<close>, "" when absent), the host,
  and the body, decoded as JSON or as form values.
\<close>

record request =
  q_target :: string
  q_forwarded_host :: string
  q_host :: string
  q_json :: "json option"
  q_form :: "(string \<times> string list) list option"

text \<open>
  What a handler reads from outside the request and the database: the clock (one instant per request)
  and crypto/rand, as the bytes of its successive reads.
\<close>

record env =
  e_now :: int
  e_rand :: "nat list list"

definition rand_read :: "nat \<Rightarrow> env \<Rightarrow> nat list" where
  "rand_read i e = (if i < length (e_rand e) then e_rand e ! i else [])"

record amz_request =
  x_service :: string
  x_operation :: string
  x_body :: "json option"

text \<open>ParseXAmzTarget (handlers/awsproto/json.go); reading the body does not fail in the model.\<close>

definition parse_x_amz_target :: "request \<Rightarrow> string + amz_request" where
  "parse_x_amz_target r =
     (if q_target r = [] then Inl ''missing X-Amz-Target header''
      else case split_n 2 (CHR ''.'') (q_target r) of
        [s, oper] \<Rightarrow> Inr \<lparr>x_service = s, x_operation = oper, x_body = q_json r\<rparr>
      | _ \<Rightarrow> Inl (''malformed X-Amz-Target '' @ go_quote (q_target r) @ '' (expect Service.Operation)''))"

text \<open>A client's call of an operation, and what the parser makes of it.\<close>

definition amz_call :: "string \<Rightarrow> string \<Rightarrow> json option \<Rightarrow> request" where
  "amz_call service oper b = \<lparr>q_target = service @ CHR ''.'' # oper, q_forwarded_host = [], q_host = [],
     q_json = b, q_form = None\<rparr>"

lemma str_cut_char: "c \<notin> set s \<Longrightarrow> str_cut (s @ c # t) [c] = Some (s, t)"
  by (induction s) (auto simp: has_prefix_def)

lemma parse_amz_call:
  "CHR ''.'' \<notin> set service \<Longrightarrow>
     parse_x_amz_target (amz_call service oper b) = Inr \<lparr>x_service = service, x_operation = oper, x_body = b\<rparr>"
  by (simp add: parse_x_amz_target_def amz_call_def numeral_2_eq_2 str_cut_char)

record query_request =
  qr_action :: string
  qr_version :: string
  qr_params :: "(string \<times> string list) list"

definition form_get :: "(string \<times> string list) list \<Rightarrow> string \<Rightarrow> string" where
  "form_get f k = (case map_of f k of Some (v # _) \<Rightarrow> v | _ \<Rightarrow> [])"

text \<open>ParseQueryRPC (handlers/awsproto/queryrpc.go).\<close>

definition parse_query_rpc :: "request \<Rightarrow> string + query_request" where
  "parse_query_rpc r = (case q_form r of
       None \<Rightarrow> Inl ''parse form''
     | Some f \<Rightarrow>
         (if form_get f ''Action'' = [] then Inl ''missing Action parameter''
          else Inr \<lparr>qr_action = form_get f ''Action'', qr_version = form_get f ''Version'',
                    qr_params = gm_del ''Version'' (gm_del ''Action'' f)\<rparr>))"

section \<open>ARN builders (handlers/awsproto/arn.go)\<close>

definition fake_account_id :: string where
  "fake_account_id = ''000000000000''"

definition iam_role_arn :: "string \<Rightarrow> string \<Rightarrow> string" where
  "iam_role_arn account name = ''arn:aws:iam::'' @ account @ '':role/'' @ name"

definition iam_policy_arn :: "string \<Rightarrow> string \<Rightarrow> string" where
  "iam_policy_arn account name = ''arn:aws:iam::'' @ account @ '':policy/'' @ name"

definition iam_instance_profile_arn :: "string \<Rightarrow> string \<Rightarrow> string" where
  "iam_instance_profile_arn account name = ''arn:aws:iam::'' @ account @ '':instance-profile/'' @ name"

definition iam_user_arn :: "string \<Rightarrow> string \<Rightarrow> string" where
  "iam_user_arn account name = ''arn:aws:iam::'' @ account @ '':user/'' @ name"

definition s3_bucket_arn :: "string \<Rightarrow> string" where
  "s3_bucket_arn bucket = ''arn:aws:s3:::'' @ bucket"

definition s3_object_arn :: "string \<Rightarrow> string \<Rightarrow> string" where
  "s3_object_arn bucket key = ''arn:aws:s3:::'' @ bucket @ ''/'' @ key"

definition sqs_queue_arn :: "string \<Rightarrow> string \<Rightarrow> string \<Rightarrow> string" where
  "sqs_queue_arn region account name = ''arn:aws:sqs:'' @ region @ '':'' @ account @ '':'' @ name"

text \<open>EC2's ARNs name the kind of the resource before its id.\<close>

definition ec2_arn :: "string \<Rightarrow> string \<Rightarrow> string \<Rightarrow> string \<Rightarrow> string" where
  "ec2_arn kind region account i = ''arn:aws:ec2:'' @ region @ '':'' @ account @ '':'' @ kind @ ''/'' @ i"

definition secret_arn :: "string \<Rightarrow> string \<Rightarrow> string \<Rightarrow> string \<Rightarrow> string" where
  "secret_arn region account name suffix =
     ''arn:aws:secretsmanager:'' @ region @ '':'' @ account @ '':secret:'' @ name @ ''-'' @ suffix"

definition dynamodb_table_arn :: "string \<Rightarrow> string \<Rightarrow> string \<Rightarrow> string" where
  "dynamodb_table_arn region account name =
     ''arn:aws:dynamodb:'' @ region @ '':'' @ account @ '':table/'' @ name"

definition route53_zone_arn :: "string \<Rightarrow> string" where
  "route53_zone_arn zid = ''arn:aws:route53:::hostedzone/'' @ zid"

definition ssm_parameter_arn :: "string \<Rightarrow> string \<Rightarrow> string \<Rightarrow> string" where
  "ssm_parameter_arn region account name =
     ''arn:aws:ssm:'' @ region @ '':'' @ account @ '':parameter/'' @ trim_prefix name ''/''"

definition kms_key_arn :: "string \<Rightarrow> string \<Rightarrow> string \<Rightarrow> string" where
  "kms_key_arn region account keyid = ''arn:aws:kms:'' @ region @ '':'' @ account @ '':key/'' @ keyid"

text \<open>Facts the components use of the writers.\<close>

lemma respond_simps [simp]:
  "r_status (respond s c b) = s" "r_ctype (respond s c b) = c"
  "r_body (respond s c b) = b" "r_class (respond s c b) = None"
  by (simp_all add: respond_def)

lemma mark_class_simps [simp]:
  "r_status (mark_class c r) = r_status r" "r_body (mark_class c r) = r_body r"
  "r_ctype (mark_class c r) = r_ctype r" "r_class (mark_class c r) = Some c"
  by (simp_all add: mark_class_def)

lemma write_json_class [simp]:
  "r_class (write_json10 s p) = None" "r_class (write_json11 s p) = None" "r_class (write_json_rest s p) = None"
  by (simp_all add: write_json10_def write_json11_def write_json_rest_def)

lemma write_json_status [simp]:
  "r_status (write_json10 s p) = s" "r_status (write_json11 s p) = s" "r_status (write_json_rest s p) = s"
  "r_body (write_json10 s p) = Json_body p" "r_body (write_json11 s p) = Json_body p"
  "r_body (write_json_rest s p) = Json_body p"
  by (simp_all add: write_json10_def write_json11_def write_json_rest_def)

lemma write_mapped_error_status [simp]: "r_status (write_mapped_error shape m) = em_status m"
  by (cases shape) (simp_all add: write_mapped_error_def write_xml_error_def write_query_rpc_error_def
      write_ec2_query_error_def write_json10_error_def write_json11_error_def write_json_rest_error_def)

lemma write_service_error_status [simp]: "r_status (write_service_error shape s c m) = s"
  by (simp add: write_service_error_def)

lemma write_unimplemented_status [simp]:
  "r_status write_unimplemented = 501" "r_class write_unimplemented = Some Unimplemented_501"
  by (simp_all add: write_unimplemented_def)

lemma errors_is_simps [simp]:
  "errors_is ErrNotFound t = (ErrNotFound = t)" "errors_is ErrInUse t = (ErrInUse = t)"
  "errors_is ErrTerminalState t = (ErrTerminalState = t)" "errors_is ErrConflict t = (ErrConflict = t)"
  by simp_all

lemma write_aws_error_status:
  "r_status (write_aws_error shape err) =
     (if errors_is err ErrNotFound then 404
      else if errors_is err ErrInUse \<or> errors_is err ErrTerminalState \<or> errors_is err ErrConflict then 409
      else 500)"
  by (simp add: write_aws_error_def map_domain_error_def)

lemma write_aws_error_status_simps [simp]:
  "r_status (write_aws_error shape ErrNotFound) = 404"
  "r_status (write_aws_error shape ErrInUse) = 409"
  "r_status (write_aws_error shape ErrTerminalState) = 409"
  "r_status (write_aws_error shape ErrConflict) = 409"
  "r_status (write_aws_error shape (ErrOther s)) = 500"
  by (simp_all add: write_aws_error_status)

text \<open>The AWS error code a wire error carries, wherever its shape puts it.\<close>

fun xml_text :: "string \<Rightarrow> xml \<Rightarrow> string option"
  and xml_text_list :: "string \<Rightarrow> xml list \<Rightarrow> string option" where
  "xml_text n (Text s) = None"
| "xml_text n (Elem m xs) =
     (if m = n then (case xs of [Text s] \<Rightarrow> Some s | _ \<Rightarrow> xml_text_list n xs) else xml_text_list n xs)"
| "xml_text_list n [] = None"
| "xml_text_list n (x # xs) = (case xml_text n x of None \<Rightarrow> xml_text_list n xs | Some s \<Rightarrow> Some s)"

text \<open>The text of an element of an answer.\<close>

definition response_xml :: "string \<Rightarrow> response \<Rightarrow> string option" where
  "response_xml n r = (case r_body r of Xml_body x \<Rightarrow> xml_text n x | _ \<Rightarrow> None)"

definition error_code :: "response \<Rightarrow> string option" where
  "error_code r = (case r_body r of
       Json_body j \<Rightarrow> (case obj_get ''__type'' j of Some (JStr s) \<Rightarrow> Some s | _ \<Rightarrow> None)
     | Xml_body x \<Rightarrow> xml_text ''Code'' x
     | _ \<Rightarrow> None)"

lemma error_code_mapped:
  assumes "em_type m = em_code m"
  shows "error_code (write_mapped_error shape m) = Some (em_code m)"
  using assms by (cases shape) (simp_all add: error_code_def write_mapped_error_def write_xml_error_def
      write_query_rpc_error_def write_ec2_query_error_def write_json10_error_def write_json11_error_def
      write_json_rest_error_def json_error_def leaf_def)

lemma error_code_service: "error_code (write_service_error shape s c m) = Some c"
  by (simp add: write_service_error_def error_code_mapped)

section \<open>Query-RPC requests\<close>

text \<open>A request asks for an action with parameters; other parameters are free.\<close>

definition query_asks :: "request \<Rightarrow> string \<Rightarrow> (string \<times> string) list \<Rightarrow> bool" where
  "query_asks r action kvs \<longleftrightarrow> (case parse_query_rpc r of Inl _ \<Rightarrow> False
     | Inr q \<Rightarrow> qr_action q = action \<and> list_all (\<lambda>(k, v). form_get (qr_params q) k = v) kvs)"

definition query_call :: "string \<Rightarrow> (string \<times> string) list \<Rightarrow> request" where
  "query_call action kvs = \<lparr>q_target = [], q_forwarded_host = [], q_host = [], q_json = None,
     q_form = Some ((''Action'', [action]) # map (\<lambda>(k, v). (k, [v])) kvs)\<rparr>"

lemma form_get_del: "k \<noteq> k' \<Longrightarrow> form_get (gm_del k' f) k = form_get f k"
  by (simp add: form_get_def)

lemma map_of_single: "map_of (map (\<lambda>(k, v). (k, [v])) kvs) k = map_option (\<lambda>v. [v]) (map_of kvs k)"
  by (induction kvs) auto

lemma query_call_asks:
  assumes "action \<noteq> []" and "distinct (map fst kvs)" "''Action'' \<notin> fst ` set kvs" "''Version'' \<notin> fst ` set kvs"
  shows "query_asks (query_call action kvs) action kvs"
proof -
  have "form_get (gm_del ''Version'' (gm_del ''Action'' ((''Action'', [action]) # map (\<lambda>(k, v). (k, [v])) kvs))) k = v"
    if "(k, v) \<in> set kvs" for k v
  proof -
    have "k \<noteq> ''Action''" "k \<noteq> ''Version''" using that assms(3,4) by force+
    moreover have "map_of kvs k = Some v" using that assms(2) by simp
    ultimately show ?thesis by (simp add: form_get_del) (simp add: form_get_def map_of_single)
  qed
  then show ?thesis
    using assms(1) by (auto simp: query_asks_def parse_query_rpc_def query_call_def list_all_iff) (simp_all add: form_get_def)
qed

text \<open>What a request that asks for an action hands its handler.\<close>

lemma query_asksE:
  assumes "query_asks r action kvs"
  obtains q where "parse_query_rpc r = Inr q" "qr_action q = action" "\<And>k v. (k, v) \<in> set kvs \<Longrightarrow> form_get (qr_params q) k = v"
proof -
  from assms obtain q where "parse_query_rpc r = Inr q" "qr_action q = action" "list_all (\<lambda>(k, v). form_get (qr_params q) k = v) kvs"
    by (auto simp: query_asks_def split: sum.splits)
  then show thesis by (intro that [of q]) (auto simp: list_all_iff)
qed

end
