(* ===== verification/Ec2Rows.thy ===== *)
theory Ec2Rows
  imports Awsproto
begin

text \<open>
  The rows of EC2's tables (repository/ec2.go, repository/ec2_compute.go, repository/ec2_volumes.go). A
  row is the account column and the decoded data column; where a table repeats a field of data in a
  column of its own, every statement writes both alike and one of them is kept here. A column that is NULL is
  the empty text, which no statement stores otherwise.
\<close>

record 'a owned =
  ow_account :: string
  ow_data :: 'a

definition owned_pk :: "('a \<Rightarrow> 'k) \<Rightarrow> 'a owned \<Rightarrow> string \<times> 'k" where
  "owned_pk f r = (ow_account r, f (ow_data r))"

lemma owned_pk_simp [simp]: "owned_pk f \<lparr>ow_account = a, ow_data = x\<rparr> = (a, f x)"
  by (simp add: owned_pk_def)

section \<open>Networking\<close>

record cidr_assoc =
  ca_id :: string
  ca_cidr :: string
  ca_state :: string
  ca_message :: string
  ca_pool :: string
  ca_border_group :: string
  ca_source :: string
  ca_attribute :: string

record ec2_vpc =
  vp_id :: string
  vp_cidr :: string
  vp_region :: string
  vp_arn :: string
  vp_state :: string
  vp_created_at :: string
  vp_owner :: string
  vp_is_default :: bool
  vp_dhcp :: string
  vp_tenancy :: string
  vp_assocs :: "cidr_assoc list"
  vp_ipv6_assocs :: "cidr_assoc list"
  vp_dns_support :: bool
  vp_dns_hostnames :: bool

record private_dns_options =
  pd_hostname_type :: string
  pd_a_record :: bool
  pd_aaaa_record :: bool

record ec2_subnet =
  sn_id :: string
  sn_vpc :: string
  sn_cidr :: string
  sn_zone :: string
  sn_region :: string
  sn_arn :: string
  sn_state :: string
  sn_created_at :: string
  sn_map_public :: bool
  sn_owner :: string
  sn_available :: int
  sn_default_for_az :: bool
  sn_assign_ipv6 :: bool
  sn_customer_owned :: "bool option"
  sn_dns64 :: "bool option"
  sn_ipv6_native :: "bool option"
  sn_lni_index :: "int option"
  sn_customer_pool :: string
  sn_outpost :: string
  sn_ipv6_assocs :: "cidr_assoc list"
  sn_dns_options :: "private_dns_options option"

record ec2_igw =
  gw_id :: string
  gw_vpc :: string
  gw_region :: string
  gw_arn :: string
  gw_created_at :: string
  gw_owner :: string
  gw_state :: string

record ec2_rtb =
  rt_id :: string
  rt_vpc :: string
  rt_region :: string
  rt_arn :: string
  rt_created_at :: string
  rt_owner :: string

text \<open>The association's VPC is a column the struct does not have, and so is the region of a rule.\<close>

record ec2_assoc =
  as_id :: string
  as_rtb :: string
  as_vpc :: string
  as_subnet :: string
  as_gateway :: string
  as_main :: bool
  as_state :: string

record ec2_route =
  rx_rtb :: string
  rx_dest :: string
  rx_gateway :: string
  rx_nat :: string
  rx_instance :: string
  rx_eni :: string
  rx_origin :: string
  rx_state :: string

record ec2_sg =
  sg_id :: string
  sg_vpc :: string
  sg_name :: string
  sg_description :: string
  sg_region :: string
  sg_arn :: string
  sg_created_at :: string
  sg_owner :: string

record ec2_rule =
  ru_id :: string
  ru_region :: string
  ru_group :: string
  ru_owner :: string
  ru_egress :: bool
  ru_perm_ord :: int
  ru_src_ord :: int
  ru_protocol :: string
  ru_from :: int
  ru_to :: int
  ru_v4 :: string
  ru_v6 :: string
  ru_prefix_list :: string
  ru_ref_group :: string
  ru_ref_user :: string
  ru_description :: string

record ec2_eip =
  ei_id :: string
  ei_domain :: string
  ei_public_ip :: string
  ei_eni :: string
  ei_instance :: string
  ei_assoc :: string
  ei_private_ip :: string
  ei_pool :: string
  ei_border_group :: string
  ei_region :: string
  ei_created_at :: string

record ec2_zone =
  az_region :: string
  az_name :: string
  az_id :: string
  az_state :: string
  az_opt_in :: string
  az_type :: string
  az_group :: string
  az_border_group :: string

section \<open>Compute\<close>

text \<open>
  The fields a load recorded of an instance, and of an image besides its owner's alias, are kept as
  the elements the describing answer holds them in; a launched instance has none.
\<close>

record ec2_instance =
  in_id :: string
  in_subnet :: string
  in_ami :: string
  in_type :: string
  in_key_name :: string
  in_profile_name :: string
  in_profile_arn :: string
  in_profile_id :: string
  in_user_data :: string
  in_state :: string
  in_region :: string
  in_arn :: string
  in_created_at :: string
  in_reservation :: string
  in_recorded :: "xml list"
  in_disable_termination :: bool
  in_disable_stop :: bool
  in_ebs_optimized :: bool
  in_shutdown :: string

record eni_address =
  pa_address :: string
  pa_primary :: bool
  pa_dns :: string

record ec2_eni =
  ni_id :: string
  ni_attachment :: string
  ni_instance :: string
  ni_subnet :: string
  ni_vpc :: string
  ni_private_ip :: string
  ni_public_ip :: string
  ni_auto_public :: bool
  ni_groups :: "string list"
  ni_source_dest :: bool
  ni_region :: string
  ni_description :: string
  ni_mac :: string
  ni_private_dns :: string
  ni_zone :: string
  ni_requester_managed :: bool
  ni_type :: string
  ni_owner :: string
  ni_status :: string
  ni_addresses :: "eni_address list"
  ni_keep :: bool

record volume_attachment =
  va_volume :: string
  va_instance :: string
  va_device :: string
  va_state :: string
  va_time :: string
  va_delete :: string

record ec2_volume =
  vo_id :: string
  vo_size :: string
  vo_snapshot :: string
  vo_zone :: string
  vo_state :: string
  vo_create_time :: string
  vo_attachments :: "volume_attachment list"
  vo_type :: string
  vo_iops :: string
  vo_throughput :: string
  vo_encrypted :: string
  vo_kms_key :: string
  vo_multi_attach :: string
  vo_region :: string

record ec2_key_pair =
  kp_id :: string
  kp_name :: string
  kp_type :: string
  kp_public :: string
  kp_fingerprint :: string
  kp_region :: string
  kp_created_at :: string

record ami_recorded =
  ar_alias :: string
  ar_fields :: "xml list"

record ec2_ami =
  am_id :: string
  am_name :: string
  am_owner :: string
  am_virtualization :: string
  am_root_device :: string
  am_region :: string
  am_recorded :: "ami_recorded option"

section \<open>The tables\<close>

record ec2_db =
  ec2_vpcs :: "ec2_vpc owned list"
  ec2_subnets :: "ec2_subnet owned list"
  ec2_igws :: "ec2_igw owned list"
  ec2_rtbs :: "ec2_rtb owned list"
  ec2_assocs :: "ec2_assoc owned list"
  ec2_routes :: "ec2_route owned list"
  ec2_sgs :: "ec2_sg owned list"
  ec2_rules :: "ec2_rule owned list"
  ec2_eips :: "ec2_eip owned list"
  ec2_zones :: "ec2_zone owned list"
  ec2_instances :: "ec2_instance owned list"
  ec2_enis :: "ec2_eni owned list"
  ec2_volumes :: "ec2_volume owned list"
  ec2_key_pairs :: "ec2_key_pair owned list"
  ec2_amis :: "ec2_ami owned list"

definition empty_ec2_db :: ec2_db where
  "empty_ec2_db = \<lparr>ec2_vpcs = [], ec2_subnets = [], ec2_igws = [], ec2_rtbs = [], ec2_assocs = [], ec2_routes = [],
     ec2_sgs = [], ec2_rules = [], ec2_eips = [], ec2_zones = [], ec2_instances = [], ec2_enis = [], ec2_volumes = [],
     ec2_key_pairs = [], ec2_amis = []\<rparr>"

lemma empty_ec2_db_simps [simp]:
  "ec2_vpcs empty_ec2_db = []" "ec2_subnets empty_ec2_db = []" "ec2_igws empty_ec2_db = []" "ec2_rtbs empty_ec2_db = []"
  "ec2_assocs empty_ec2_db = []" "ec2_routes empty_ec2_db = []" "ec2_sgs empty_ec2_db = []" "ec2_rules empty_ec2_db = []"
  "ec2_eips empty_ec2_db = []" "ec2_zones empty_ec2_db = []" "ec2_instances empty_ec2_db = []" "ec2_enis empty_ec2_db = []"
  "ec2_volumes empty_ec2_db = []" "ec2_key_pairs empty_ec2_db = []" "ec2_amis empty_ec2_db = []"
  by (simp_all add: empty_ec2_db_def)

definition vpc_pk :: "ec2_vpc owned \<Rightarrow> string \<times> string" where
  "vpc_pk = owned_pk vp_id"

definition subnet_pk :: "ec2_subnet owned \<Rightarrow> string \<times> string" where
  "subnet_pk = owned_pk sn_id"

definition igw_pk :: "ec2_igw owned \<Rightarrow> string \<times> string" where
  "igw_pk = owned_pk gw_id"

definition rtb_pk :: "ec2_rtb owned \<Rightarrow> string \<times> string" where
  "rtb_pk = owned_pk rt_id"

definition assoc_pk :: "ec2_assoc owned \<Rightarrow> string \<times> string" where
  "assoc_pk = owned_pk as_id"

definition route_pk :: "ec2_route owned \<Rightarrow> string \<times> string \<times> string" where
  "route_pk = owned_pk (\<lambda>x. (rx_rtb x, rx_dest x))"

definition sg_pk :: "ec2_sg owned \<Rightarrow> string \<times> string" where
  "sg_pk = owned_pk sg_id"

definition rule_pk :: "ec2_rule owned \<Rightarrow> string \<times> string" where
  "rule_pk = owned_pk ru_id"

definition eip_pk :: "ec2_eip owned \<Rightarrow> string \<times> string" where
  "eip_pk = owned_pk ei_id"

definition zone_pk :: "ec2_zone owned \<Rightarrow> string \<times> string \<times> string" where
  "zone_pk = owned_pk (\<lambda>x. (az_region x, az_name x))"

definition instance_pk :: "ec2_instance owned \<Rightarrow> string \<times> string" where
  "instance_pk = owned_pk in_id"

definition eni_pk :: "ec2_eni owned \<Rightarrow> string \<times> string" where
  "eni_pk = owned_pk ni_id"

definition volume_pk :: "ec2_volume owned \<Rightarrow> string \<times> string" where
  "volume_pk = owned_pk vo_id"

definition key_pair_pk :: "ec2_key_pair owned \<Rightarrow> string \<times> string \<times> string" where
  "key_pair_pk = owned_pk (\<lambda>x. (kp_region x, kp_name x))"

definition ami_pk :: "ec2_ami owned \<Rightarrow> string \<times> string \<times> string" where
  "ami_pk = owned_pk (\<lambda>x. (am_region x, am_id x))"

lemmas ec2_pk_defs = vpc_pk_def subnet_pk_def igw_pk_def rtb_pk_def assoc_pk_def route_pk_def sg_pk_def
  rule_pk_def eip_pk_def zone_pk_def instance_pk_def eni_pk_def volume_pk_def key_pair_pk_def ami_pk_def

definition ec2_keys_ok :: "ec2_db \<Rightarrow> bool" where
  "ec2_keys_ok t \<longleftrightarrow> pk vpc_pk (ec2_vpcs t) \<and> pk subnet_pk (ec2_subnets t) \<and> pk igw_pk (ec2_igws t) \<and>
     pk rtb_pk (ec2_rtbs t) \<and> pk assoc_pk (ec2_assocs t) \<and> pk route_pk (ec2_routes t) \<and> pk sg_pk (ec2_sgs t) \<and>
     pk rule_pk (ec2_rules t) \<and> pk eip_pk (ec2_eips t) \<and> pk zone_pk (ec2_zones t) \<and>
     pk instance_pk (ec2_instances t) \<and> pk eni_pk (ec2_enis t) \<and> pk volume_pk (ec2_volumes t) \<and>
     pk key_pair_pk (ec2_key_pairs t) \<and> pk ami_pk (ec2_amis t)"

lemma ec2_keys_ok_empty [simp]: "ec2_keys_ok empty_ec2_db"
  by (simp add: ec2_keys_ok_def)

section \<open>Queries the tables share\<close>

text \<open>
  A row by its id, and the rows of an account by their ids, either scoped to a region; the empty
  region spans them all.
\<close>

definition in_scope :: "('a \<Rightarrow> string) \<Rightarrow> string \<Rightarrow> string \<Rightarrow> 'a owned \<Rightarrow> bool" where
  "in_scope reg account region r \<longleftrightarrow> ow_account r = account \<and> (region = [] \<or> reg (ow_data r) = region)"

definition get_scoped :: "('a \<Rightarrow> string) \<Rightarrow> ('a \<Rightarrow> string) \<Rightarrow> string \<Rightarrow> string \<Rightarrow> string \<Rightarrow> 'a owned list \<Rightarrow> 'a result" where
  "get_scoped reg key account region i t =
     (case find (\<lambda>r. in_scope reg account region r \<and> key (ow_data r) = i) t of
        None \<Rightarrow> Inl ErrNotFound
      | Some r \<Rightarrow> Inr (ow_data r))"

definition list_scoped :: "('a \<Rightarrow> string) \<Rightarrow> ('a \<Rightarrow> string) \<Rightarrow> string \<Rightarrow> string \<Rightarrow> 'a owned list \<Rightarrow> 'a list" where
  "list_scoped reg key account region t = sort_key key (map ow_data (filter (in_scope reg account region) t))"

text \<open>The rows a statement of the account touches, and the ids of those that go.\<close>

definition owned_where :: "string \<Rightarrow> ('a \<Rightarrow> bool) \<Rightarrow> 'a owned \<Rightarrow> bool" where
  "owned_where account p r \<longleftrightarrow> ow_account r = account \<and> p (ow_data r)"

definition owned_ids :: "('a \<Rightarrow> string) \<Rightarrow> string \<Rightarrow> ('a \<Rightarrow> bool) \<Rightarrow> 'a owned list \<Rightarrow> string list" where
  "owned_ids key account p t = map (\<lambda>r. key (ow_data r)) (filter (owned_where account p) t)"

definition put_data :: "('a \<Rightarrow> 'a) \<Rightarrow> 'a owned \<Rightarrow> 'a owned" where
  "put_data f r = r\<lparr>ow_data := f (ow_data r)\<rparr>"

lemma put_data_simps [simp]: "ow_account (put_data f r) = ow_account r" "ow_data (put_data f r) = f (ow_data r)"
  by (simp_all add: put_data_def)

lemma owned_pk_put_data: "(\<And>x. key (f x) = key x) \<Longrightarrow> owned_pk key (put_data f r) = owned_pk key r"
  by (simp add: owned_pk_def)

lemma owned_eta: "ow_account r = account \<Longrightarrow> \<lparr>ow_account = account, ow_data = ow_data r\<rparr> = r"
  by (cases r) simp

lemma get_scoped_Inr:
  assumes "get_scoped reg key account region i t = Inr x"
  shows "\<lparr>ow_account = account, ow_data = x\<rparr> \<in> set t" and "key x = i" and "region = [] \<or> reg x = region"
proof -
  from assms obtain r where f: "find (\<lambda>r. in_scope reg account region r \<and> key (ow_data r) = i) t = Some r" and x: "x = ow_data r"
    by (auto simp: get_scoped_def split: option.splits)
  from f have r: "r \<in> set t" "in_scope reg account region r" "key (ow_data r) = i"
    by (auto simp: find_Some_iff)
  then have "\<lparr>ow_account = account, ow_data = x\<rparr> = r" by (simp add: x owned_eta in_scope_def)
  with r(1) show "\<lparr>ow_account = account, ow_data = x\<rparr> \<in> set t" by simp
  from r(2,3) show "key x = i" "region = [] \<or> reg x = region" by (auto simp: in_scope_def x)
qed

lemma get_scoped_Inl: "get_scoped reg key account region i t = Inl e \<Longrightarrow> e = ErrNotFound"
  by (auto simp: get_scoped_def split: option.splits)

lemma get_scoped_find:
  assumes "pk (owned_pk key) t" and "\<lparr>ow_account = account, ow_data = x\<rparr> \<in> set t" and "region = [] \<or> reg x = region"
  shows "get_scoped reg key account region (key x) t = Inr x"
proof -
  have "find (\<lambda>r. in_scope reg account region r \<and> key (ow_data r) = key x) t = Some \<lparr>ow_account = account, ow_data = x\<rparr>"
  proof (rule find_unique [OF assms(2)])
    fix y assume "y \<in> set t" "in_scope reg account region y \<and> key (ow_data y) = key x"
    with assms(1,2) show "y = \<lparr>ow_account = account, ow_data = x\<rparr>"
      by (intro pk_eq [of "owned_pk key"]) (auto simp: owned_pk_def in_scope_def)
  qed (use assms(3) in \<open>simp add: in_scope_def\<close>)
  then show ?thesis by (simp add: get_scoped_def)
qed

lemma set_list_scoped:
  "x \<in> set (list_scoped reg key account region t) \<longleftrightarrow>
     \<lparr>ow_account = account, ow_data = x\<rparr> \<in> set t \<and> (region = [] \<or> reg x = region)"
proof
  assume "x \<in> set (list_scoped reg key account region t)"
  then obtain r where r: "r \<in> set t" "in_scope reg account region r" "x = ow_data r"
    by (auto simp: list_scoped_def)
  then have e: "\<lparr>ow_account = account, ow_data = x\<rparr> = r" by (simp add: owned_eta in_scope_def)
  show "\<lparr>ow_account = account, ow_data = x\<rparr> \<in> set t \<and> (region = [] \<or> reg x = region)"
    unfolding e using r by (simp add: in_scope_def)
next
  assume "\<lparr>ow_account = account, ow_data = x\<rparr> \<in> set t \<and> (region = [] \<or> reg x = region)"
  then have "\<lparr>ow_account = account, ow_data = x\<rparr> \<in> set (filter (in_scope reg account region) t)"
    by (auto simp: in_scope_def)
  then have "ow_data \<lparr>ow_account = account, ow_data = x\<rparr> \<in> set (map ow_data (filter (in_scope reg account region) t))"
    by (metis image_eqI list.set_map)
  then show "x \<in> set (list_scoped reg key account region t)" by (simp add: list_scoped_def)
qed

end
