(* ===== verification/EksRows.thy ===== *)
theory EksRows
  imports Ec2Rows
begin

text \<open>
  The rows of EKS's tables (repository/eks.go): clusters, node groups and add-ons, each the account column and the
  decoded data column. The region is in every key. Of the text columns beside data every statement writes the same
  values. A node group's subnets tell nil from empty, and its scaling config is its decoded object of numbers.
\<close>

record eks_cluster =
  ec_name :: string
  ec_role_arn :: string
  ec_subnets :: "string list"
  ec_groups :: "string list"
  ec_version :: string
  ec_status :: string
  ec_region :: string
  ec_arn :: string
  ec_created_at :: string

record eks_node_group =
  eg_cluster :: string
  eg_name :: string
  eg_role_arn :: string
  eg_subnets :: "string list option"
  eg_types :: "string list"
  eg_scaling :: "(string \<times> json) list"
  eg_status :: string
  eg_region :: string
  eg_arn :: string
  eg_created_at :: string

record eks_addon =
  ea_cluster :: string
  ea_name :: string
  ea_version :: string
  ea_status :: string
  ea_region :: string
  ea_arn :: string
  ea_created_at :: string

definition eks_cluster_pk :: "eks_cluster owned \<Rightarrow> string \<times> string \<times> string" where
  "eks_cluster_pk = owned_pk (\<lambda>c. (ec_region c, ec_name c))"

definition eks_node_group_pk :: "eks_node_group owned \<Rightarrow> string \<times> string \<times> string \<times> string" where
  "eks_node_group_pk = owned_pk (\<lambda>g. (eg_region g, eg_cluster g, eg_name g))"

definition eks_addon_pk :: "eks_addon owned \<Rightarrow> string \<times> string \<times> string \<times> string" where
  "eks_addon_pk = owned_pk (\<lambda>a. (ea_region a, ea_cluster a, ea_name a))"

record eks_db =
  eks_clusters :: "eks_cluster owned list"
  eks_node_groups :: "eks_node_group owned list"
  eks_addons :: "eks_addon owned list"

definition empty_eks_db :: eks_db where
  "empty_eks_db = \<lparr>eks_clusters = [], eks_node_groups = [], eks_addons = []\<rparr>"

definition eks_keys_ok :: "eks_db \<Rightarrow> bool" where
  "eks_keys_ok t \<longleftrightarrow> pk eks_cluster_pk (eks_clusters t) \<and> pk eks_node_group_pk (eks_node_groups t) \<and> pk eks_addon_pk (eks_addons t)"

lemma empty_eks_db_simps [simp]:
  "eks_clusters empty_eks_db = []" "eks_node_groups empty_eks_db = []" "eks_addons empty_eks_db = []"
  by (simp_all add: empty_eks_db_def)

lemma eks_keys_ok_empty [simp]: "eks_keys_ok empty_eks_db"
  by (simp add: eks_keys_ok_def)

end
