(* ===== verification/RdsRows.thy ===== *)
theory RdsRows
  imports Ec2Rows
begin

text \<open>
  The rows of RDS's tables (repository/rds.go): subnet groups, the two kinds of parameter groups, clusters and
  instances, each the account column and the decoded data column. The region is in every key. A reference that is
  NULL is the empty text.
\<close>

record rds_subnet_group =
  dg_name :: string
  dg_description :: string
  dg_vpc :: string
  dg_subnets :: "string list"
  dg_region :: string
  dg_arn :: string
  dg_created_at :: string

record rds_parameter_group =
  dp_name :: string
  dp_family :: string
  dp_description :: string
  dp_region :: string
  dp_arn :: string
  dp_created_at :: string

record rds_cluster =
  dc_id :: string
  dc_engine :: string
  dc_engine_version :: string
  dc_subnet_group :: string
  dc_parameter_group :: string
  dc_master_username :: string
  dc_deletion_protection :: bool
  dc_state :: string
  dc_region :: string
  dc_arn :: string
  dc_created_at :: string
  dc_engine_mode :: string
  dc_port :: int
  dc_backup_retention :: int
  dc_backup_window :: string
  dc_maintenance_window :: string
  dc_database_name :: string
  dc_storage_encrypted :: bool
  dc_copy_tags :: bool
  dc_iam_auth :: bool
  dc_zones :: "string list"
  dc_groups :: "string list"

record rds_instance =
  di_id :: string
  di_engine :: string
  di_engine_version :: string
  di_class :: string
  di_subnet_group :: string
  di_cluster :: string
  di_parameter_group :: string
  di_source :: string
  di_deletion_protection :: bool
  di_skip_snapshot :: bool
  di_state :: string
  di_region :: string
  di_arn :: string
  di_created_at :: string
  di_master_username :: string
  di_storage :: int
  di_storage_type :: string
  di_storage_encrypted :: bool
  di_multi_az :: bool
  di_port :: int
  di_public :: bool
  di_backup_retention :: int

definition rds_subnet_group_pk :: "rds_subnet_group owned \<Rightarrow> string \<times> string \<times> string" where
  "rds_subnet_group_pk = owned_pk (\<lambda>g. (dg_region g, dg_name g))"

definition rds_parameter_group_pk :: "rds_parameter_group owned \<Rightarrow> string \<times> string \<times> string" where
  "rds_parameter_group_pk = owned_pk (\<lambda>g. (dp_region g, dp_name g))"

definition rds_cluster_pk :: "rds_cluster owned \<Rightarrow> string \<times> string \<times> string" where
  "rds_cluster_pk = owned_pk (\<lambda>c. (dc_region c, dc_id c))"

definition rds_instance_pk :: "rds_instance owned \<Rightarrow> string \<times> string \<times> string" where
  "rds_instance_pk = owned_pk (\<lambda>x. (di_region x, di_id x))"

record rds_db =
  rds_subnet_groups :: "rds_subnet_group owned list"
  rds_parameter_groups :: "rds_parameter_group owned list"
  rds_cluster_parameter_groups :: "rds_parameter_group owned list"
  rds_clusters :: "rds_cluster owned list"
  rds_instances :: "rds_instance owned list"

definition empty_rds_db :: rds_db where
  "empty_rds_db = \<lparr>rds_subnet_groups = [], rds_parameter_groups = [], rds_cluster_parameter_groups = [], rds_clusters = [], rds_instances = []\<rparr>"

definition rds_keys_ok :: "rds_db \<Rightarrow> bool" where
  "rds_keys_ok t \<longleftrightarrow> pk rds_subnet_group_pk (rds_subnet_groups t) \<and> pk rds_parameter_group_pk (rds_parameter_groups t) \<and>
     pk rds_parameter_group_pk (rds_cluster_parameter_groups t) \<and> pk rds_cluster_pk (rds_clusters t) \<and> pk rds_instance_pk (rds_instances t)"

lemma empty_rds_db_simps [simp]:
  "rds_subnet_groups empty_rds_db = []" "rds_parameter_groups empty_rds_db = []" "rds_cluster_parameter_groups empty_rds_db = []"
  "rds_clusters empty_rds_db = []" "rds_instances empty_rds_db = []"
  by (simp_all add: empty_rds_db_def)

lemma rds_keys_ok_empty [simp]: "rds_keys_ok empty_rds_db"
  by (simp add: rds_keys_ok_def)

end
