(* ===== verification/Schema.thy ===== *)
theory Schema
  imports EksRows RdsRows
begin

text \<open>
  The database: one record field per modelled table, each a list of rows, with the row types of the
  repository package (its structs with the account column, or the columns of the CREATE TABLE where
  the code selects columns) and each table's primary key. A JSON column holding a struct or a map is
  the decoded value. Tables of services outside the model are kept as rows of \<open>other_rows\<close>: the
  table's name, the account and the arn column ("" where the table has none).
\<close>

section \<open>Identity (repository/identity.go)\<close>

record identity =
  id_account :: string
  id_region :: string

record identity_row =
  ir_identity :: identity
  ir_loaded :: bool

section \<open>KMS keys (repository/kms.go)\<close>

text \<open>KMSKey: the columns key_id, region, state and the decoded data column. Times are instants.\<close>

record kms_key =
  k_id :: string
  k_region :: string
  k_state :: string
  k_created :: int
  k_deletion_date :: "int option"
  k_rotation_enabled :: bool
  k_description :: string
  k_tags :: gomap

record kms_row =
  kr_account :: string
  kr_key :: kms_key

definition kms_pk :: "kms_row \<Rightarrow> string \<times> string \<times> string" where
  "kms_pk r = (kr_account r, k_region (kr_key r), k_id (kr_key r))"

section \<open>SSM parameters (repository/ssm.go)\<close>

record ssm_parameter =
  p_name :: string
  p_type :: string
  p_value :: string
  p_version :: int
  p_description :: string
  p_allowed_pattern :: string
  p_data_type :: string
  p_key_id :: string
  p_tier :: string
  p_tags :: gomap
  p_region :: string
  p_last_modified :: string
  p_arn :: "string option"

record ssm_row =
  pr_account :: string
  pr_param :: ssm_parameter

definition ssm_pk :: "ssm_row \<Rightarrow> string \<times> string \<times> string" where
  "ssm_pk r = (pr_account r, p_region (pr_param r), p_name (pr_param r))"

section \<open>SQS queues and messages (repository/sqs.go)\<close>

record sqs_queue =
  q_name :: string
  q_url :: string
  q_arn :: string
  q_attributes :: gomap
  q_fifo :: bool
  q_region :: string
  q_created_at :: string

text \<open>A queue's row has columns of its own next to the data column holding the whole struct.\<close>

record sqs_queue_row =
  qr_account :: string
  qr_region :: string
  qr_name :: string
  qr_arn :: string
  qr_attributes :: gomap
  qr_fifo :: bool
  qr_data :: sqs_queue

definition queue_pk :: "sqs_queue_row \<Rightarrow> string \<times> string \<times> string" where
  "queue_pk r = (qr_account r, qr_region r, qr_name r)"

record sqs_message =
  m_queue_name :: string
  m_message_id :: string
  m_body :: string
  m_receipt_handle :: string
  m_visible_after :: int
  m_receive_count :: int
  m_region :: string
  m_created_at :: string

record sqs_message_row =
  mr_account :: string
  mr_msg :: sqs_message

definition message_pk :: "sqs_message_row \<Rightarrow> string \<times> string \<times> string \<times> string" where
  "message_pk r = (mr_account r, m_region (mr_msg r), m_queue_name (mr_msg r), m_message_id (mr_msg r))"

section \<open>Secrets (repository/secretsmanager.go)\<close>

record secret =
  s_name :: string
  s_arn :: string
  s_description :: string
  s_kms_key_id :: string
  s_recovery_window :: int
  s_deleted_at :: string
  s_state :: string
  s_tags :: gomap
  s_region :: string
  s_created_at :: string

record secret_row =
  sr_account :: string
  sr_secret :: secret

definition secret_pk :: "secret_row \<Rightarrow> string \<times> string \<times> string" where
  "secret_pk r = (sr_account r, s_region (sr_secret r), s_name (sr_secret r))"

record secret_version =
  v_secret_name :: string
  v_version_id :: string
  v_secret_string :: string
  v_stages :: "string list"
  v_region :: string
  v_created_at :: string

record version_row =
  vr_account :: string
  vr_version :: secret_version

definition version_pk :: "version_row \<Rightarrow> string \<times> string \<times> string \<times> string" where
  "version_pk r = (vr_account r, v_region (vr_version r), v_secret_name (vr_version r), v_version_id (vr_version r))"

section \<open>DynamoDB tables and items (repository/dynamodb.go)\<close>

record ddb_attribute =
  a_name :: string
  a_type :: string

record ddb_table =
  t_name :: string
  t_hash_key :: string
  t_range_key :: string
  t_attributes :: "ddb_attribute list"
  t_billing_mode :: string
  t_status :: string
  t_region :: string
  t_arn :: string
  t_created_at :: string

text \<open>The columns beside data repeat the struct's fields, and no statement changes either.\<close>

record ddb_table_row =
  tr_account :: string
  tr_table :: ddb_table

definition ddb_table_pk :: "ddb_table_row \<Rightarrow> string \<times> string \<times> string" where
  "ddb_table_pk r = (tr_account r, t_region (tr_table r), t_name (tr_table r))"

record ddb_item =
  i_table_name :: string
  i_hash_value :: string
  i_range_value :: string
  i_item :: json

record ddb_item_row =
  ir_account :: string
  ir_region :: string
  ir_item :: ddb_item

definition ddb_item_pk :: "ddb_item_row \<Rightarrow> string \<times> string \<times> string \<times> string \<times> string" where
  "ddb_item_pk r =
     (ir_account r, ir_region r, i_table_name (ir_item r), i_hash_value (ir_item r), i_range_value (ir_item r))"

section \<open>Tags (repository/tags.go, repository/ec2_tags.go)\<close>

record tag_row =
  g_account :: string
  g_arn :: string
  g_key :: string
  g_value :: string

definition tag_pk :: "tag_row \<Rightarrow> string \<times> string \<times> string" where
  "tag_pk r = (g_account r, g_arn r, g_key r)"

record ec2_tag =
  e_resource_id :: string
  e_resource_type :: string
  e_key :: string
  e_value :: string

record ec2_tag_row =
  er_account :: string
  er_region :: string
  er_tag :: ec2_tag

definition ec2_tag_pk :: "ec2_tag_row \<Rightarrow> string \<times> string \<times> string" where
  "ec2_tag_pk r = (er_account r, e_resource_id (er_tag r), e_key (er_tag r))"

section \<open>S3 buckets and their configurations (repository/s3.go)\<close>

text \<open>
  A configuration row has the kind and the stored JSON. The column updated_at is written with SQLite's
  clock and no statement reads it; it is left out.
\<close>

record s3_bucket =
  b_name :: string
  b_region :: string
  b_arn :: string
  b_created_at :: string

record s3_bucket_row =
  br_account :: string
  br_bucket :: s3_bucket

definition s3_bucket_pk :: "s3_bucket_row \<Rightarrow> string \<times> string" where
  "s3_bucket_pk r = (br_account r, b_name (br_bucket r))"

record s3_config_row =
  cr_account :: string
  cr_bucket :: string
  cr_kind :: string
  cr_data :: json

definition s3_config_pk :: "s3_config_row \<Rightarrow> string \<times> string \<times> string" where
  "s3_config_pk r = (cr_account r, cr_bucket r, cr_kind r)"

record s3_db =
  s3_buckets :: "s3_bucket_row list"
  s3_configs :: "s3_config_row list"

definition s3_keys_ok :: "s3_db \<Rightarrow> bool" where
  "s3_keys_ok t \<longleftrightarrow> pk s3_bucket_pk (s3_buckets t) \<and> pk s3_config_pk (s3_configs t)"

lemma s3_keys_ok_empty [simp]: "s3_keys_ok \<lparr>s3_buckets = [], s3_configs = []\<rparr>"
  by (simp add: s3_keys_ok_def)

section \<open>Route 53 zones, record sets and changes (repository/route53.go)\<close>

record r53_zone =
  z_id :: string
  z_name :: string
  z_comment :: string
  z_private :: bool
  z_arn :: string
  z_created_at :: string

record r53_zone_row =
  zr_account :: string
  zr_zone :: r53_zone

definition r53_zone_pk :: "r53_zone_row \<Rightarrow> string \<times> string" where
  "r53_zone_pk r = (zr_account r, z_id (zr_zone r))"

text \<open>An alias target is JSON in a text column, "" (None here) where a record set has none.\<close>

record r53_record_set =
  rs_zone_id :: string
  rs_name :: string
  rs_type :: string
  rs_ttl :: int
  rs_records :: "string list"
  rs_alias :: "json option"
  rs_set_id :: string

record r53_record_row =
  rr_account :: string
  rr_set :: r53_record_set

definition r53_record_pk :: "r53_record_row \<Rightarrow> string \<times> string \<times> string \<times> string \<times> string" where
  "r53_record_pk r = (rr_account r, rs_zone_id (rr_set r), rs_name (rr_set r), rs_type (rr_set r), rs_set_id (rr_set r))"

record r53_change =
  ch_id :: string
  ch_zone_id :: string
  ch_status :: string
  ch_submitted_at :: string

record r53_change_row =
  hr_account :: string
  hr_change :: r53_change

definition r53_change_pk :: "r53_change_row \<Rightarrow> string \<times> string" where
  "r53_change_pk r = (hr_account r, ch_id (hr_change r))"

record r53_db =
  r53_zones :: "r53_zone_row list"
  r53_records :: "r53_record_row list"
  r53_changes :: "r53_change_row list"

definition r53_keys_ok :: "r53_db \<Rightarrow> bool" where
  "r53_keys_ok t \<longleftrightarrow> pk r53_zone_pk (r53_zones t) \<and> pk r53_record_pk (r53_records t) \<and> pk r53_change_pk (r53_changes t)"

lemma r53_keys_ok_empty [simp]: "r53_keys_ok \<lparr>r53_zones = [], r53_records = [], r53_changes = []\<rparr>"
  by (simp add: r53_keys_ok_def)

section \<open>IAM roles, policies, instance profiles and users (repository/iam.go)\<close>

text \<open>
  A role's id and permissions boundary are what a load recorded; a created role has neither. The fields
  Tags and Extra of the stored documents are never written and left out.
\<close>

record iam_role =
  ro_name :: string
  ro_path :: string
  ro_arn :: string
  ro_assume_role_policy_document :: string
  ro_description :: string
  ro_max_session_duration :: int
  ro_created_at :: string
  ro_role_id :: string
  ro_permissions_boundary :: "(string \<times> string) option"

record iam_role_row =
  or_account :: string
  or_role :: iam_role

definition iam_role_pk :: "iam_role_row \<Rightarrow> string \<times> string" where
  "iam_role_pk r = (or_account r, ro_name (or_role r))"

record iam_policy =
  po_name :: string
  po_path :: string
  po_arn :: string
  po_document :: string
  po_description :: string
  po_created_at :: string

record iam_policy_row =
  op_account :: string
  op_policy :: iam_policy

definition iam_policy_pk :: "iam_policy_row \<Rightarrow> string \<times> string" where
  "iam_policy_pk r = (op_account r, po_name (op_policy r))"

record iam_profile =
  ip_name :: string
  ip_path :: string
  ip_arn :: string
  ip_attached_role :: string
  ip_created_at :: string
  ip_id :: string

record iam_profile_row =
  oi_account :: string
  oi_profile :: iam_profile

definition iam_profile_pk :: "iam_profile_row \<Rightarrow> string \<times> string" where
  "iam_profile_pk r = (oi_account r, ip_name (oi_profile r))"

record iam_user =
  us_name :: string
  us_path :: string
  us_arn :: string
  us_created_at :: string

record iam_user_row =
  ou_account :: string
  ou_user :: iam_user

definition iam_user_pk :: "iam_user_row \<Rightarrow> string \<times> string" where
  "iam_user_pk r = (ou_account r, us_name (ou_user r))"

record iam_access_key =
  ak_id :: string
  ak_user :: string
  ak_secret :: string
  ak_status :: string
  ak_created_at :: string

record iam_key_row =
  ok_account :: string
  ok_key :: iam_access_key

definition iam_key_pk :: "iam_key_row \<Rightarrow> string \<times> string \<times> string" where
  "iam_key_pk r = (ok_account r, ak_user (ok_key r), ak_id (ok_key r))"

text \<open>The attachments and the inline policies of roles and of users have rows of the same form.\<close>

record iam_attachment =
  at_account :: string
  at_owner :: string
  at_policy_arn :: string

definition iam_attachment_pk :: "iam_attachment \<Rightarrow> string \<times> string \<times> string" where
  "iam_attachment_pk r = (at_account r, at_owner r, at_policy_arn r)"

record iam_inline =
  il_account :: string
  il_owner :: string
  il_name :: string
  il_document :: string

definition iam_inline_pk :: "iam_inline \<Rightarrow> string \<times> string \<times> string" where
  "iam_inline_pk r = (il_account r, il_owner r, il_name r)"

record iam_profile_role =
  xr_account :: string
  xr_profile :: string
  xr_role :: string

definition iam_profile_role_pk :: "iam_profile_role \<Rightarrow> string \<times> string" where
  "iam_profile_role_pk r = (xr_account r, xr_profile r)"

record iam_db =
  iam_roles :: "iam_role_row list"
  iam_policies :: "iam_policy_row list"
  iam_profiles :: "iam_profile_row list"
  iam_users :: "iam_user_row list"
  iam_keys :: "iam_key_row list"
  role_attachments :: "iam_attachment list"
  user_attachments :: "iam_attachment list"
  profile_roles :: "iam_profile_role list"
  role_inlines :: "iam_inline list"
  user_inlines :: "iam_inline list"

definition empty_iam_db :: iam_db where
  "empty_iam_db = \<lparr>iam_roles = [], iam_policies = [], iam_profiles = [], iam_users = [], iam_keys = [],
     role_attachments = [], user_attachments = [], profile_roles = [], role_inlines = [], user_inlines = []\<rparr>"

definition iam_keys_ok :: "iam_db \<Rightarrow> bool" where
  "iam_keys_ok t \<longleftrightarrow> pk iam_role_pk (iam_roles t) \<and> pk iam_policy_pk (iam_policies t) \<and>
     pk iam_profile_pk (iam_profiles t) \<and> pk iam_user_pk (iam_users t) \<and> pk iam_key_pk (iam_keys t) \<and>
     pk iam_attachment_pk (role_attachments t) \<and> pk iam_attachment_pk (user_attachments t) \<and>
     pk iam_profile_role_pk (profile_roles t) \<and> pk iam_inline_pk (role_inlines t) \<and> pk iam_inline_pk (user_inlines t)"

lemma empty_iam_db_simps [simp]:
  "iam_roles empty_iam_db = []" "iam_policies empty_iam_db = []" "iam_profiles empty_iam_db = []" "iam_users empty_iam_db = []"
  "iam_keys empty_iam_db = []" "role_attachments empty_iam_db = []" "user_attachments empty_iam_db = []"
  "profile_roles empty_iam_db = []" "role_inlines empty_iam_db = []" "user_inlines empty_iam_db = []"
  by (simp_all add: empty_iam_db_def)

lemma iam_keys_ok_empty [simp]: "iam_keys_ok empty_iam_db"
  by (simp add: iam_keys_ok_def)

section \<open>The database\<close>

text \<open>The services of several tables each keep theirs in a record of their own.\<close>

record db =
  identity_tbl :: "identity_row option"
  kms_keys :: "kms_row list"
  ssm_parameters :: "ssm_row list"
  sqs_queues :: "sqs_queue_row list"
  sqs_messages :: "sqs_message_row list"
  secrets :: "secret_row list"
  secret_versions :: "version_row list"
  ddb_tables :: "ddb_table_row list"
  ddb_items :: "ddb_item_row list"
  resource_tags :: "tag_row list"
  ec2_tags :: "ec2_tag_row list"
  s3_tbls :: s3_db
  r53_tbls :: r53_db
  iam_tbls :: iam_db
  ec2_tbls :: ec2_db
  eks_tbls :: eks_db
  rds_tbls :: rds_db
  other_rows :: "(string \<times> string \<times> string) list"

definition empty_db :: db where
  "empty_db = \<lparr>identity_tbl = None, kms_keys = [], ssm_parameters = [], sqs_queues = [], sqs_messages = [],
     secrets = [], secret_versions = [], ddb_tables = [], ddb_items = [], resource_tags = [],
     ec2_tags = [], s3_tbls = \<lparr>s3_buckets = [], s3_configs = []\<rparr>,
     r53_tbls = \<lparr>r53_zones = [], r53_records = [], r53_changes = []\<rparr>,
     iam_tbls = empty_iam_db, ec2_tbls = empty_ec2_db, eks_tbls = empty_eks_db, rds_tbls = empty_rds_db, other_rows = []\<rparr>"

text \<open>The ids of the stored images.\<close>

definition ec2_ami_ids :: "db \<Rightarrow> string list" where
  "ec2_ami_ids d = map (\<lambda>r. am_id (ow_data r)) (ec2_amis (ec2_tbls d))"

text \<open>
  The tables a reset truncates, in its order: each file's init prepends its own, the files
  initialised in the order of their names.
\<close>

definition reset_tables :: "string list" where
  "reset_tables =
     [''resource_tags'', ''ssm_parameters'', ''sqs_messages'', ''sqs_queues'',
      ''secretsmanager_versions'', ''secretsmanager_secrets'', ''s3_bucket_configs'', ''s3_buckets'',
      ''route53_record_sets'', ''route53_changes'', ''route53_hosted_zones'',
      ''rds_db_instances'', ''rds_db_clusters'', ''rds_db_subnet_groups'', ''rds_db_parameter_groups'',
      ''rds_db_cluster_parameter_groups'', ''kms_keys'', ''identity'',
      ''role_inline_policies'', ''user_inline_policies'', ''user_policy_attachments'',
      ''role_policy_attachments'', ''instance_profile_roles'', ''iam_access_keys'', ''iam_users'',
      ''iam_instance_profiles'', ''iam_policies'', ''iam_roles'',
      ''eks_addons'', ''eks_node_groups'', ''eks_clusters'', ''ec2_tags'',
      ''ec2_volumes'', ''ec2_network_interfaces'', ''ec2_instances'', ''ec2_key_pairs'', ''ec2_amis'',
      ''ec2_routes'', ''ec2_route_table_associations'', ''ec2_route_tables'', ''ec2_internet_gateways'',
      ''ec2_eips'', ''ec2_security_group_rules'', ''ec2_security_groups'', ''ec2_subnets'', ''ec2_vpcs'',
      ''availability_zones'', ''dynamodb_items'', ''dynamodb_tables'', ''operations'', ''audit'']"

text \<open>DELETE FROM each modelled table, by name; a name outside them truncates its other rows.\<close>

definition truncations :: "(string \<times> (db \<Rightarrow> db)) list" where
  "truncations =
     [(''identity'', \<lambda>d. d\<lparr>identity_tbl := None\<rparr>),
      (''kms_keys'', \<lambda>d. d\<lparr>kms_keys := []\<rparr>),
      (''ssm_parameters'', \<lambda>d. d\<lparr>ssm_parameters := []\<rparr>),
      (''sqs_queues'', \<lambda>d. d\<lparr>sqs_queues := []\<rparr>),
      (''sqs_messages'', \<lambda>d. d\<lparr>sqs_messages := []\<rparr>),
      (''secretsmanager_secrets'', \<lambda>d. d\<lparr>secrets := []\<rparr>),
      (''secretsmanager_versions'', \<lambda>d. d\<lparr>secret_versions := []\<rparr>),
      (''dynamodb_tables'', \<lambda>d. d\<lparr>ddb_tables := []\<rparr>),
      (''dynamodb_items'', \<lambda>d. d\<lparr>ddb_items := []\<rparr>),
      (''resource_tags'', \<lambda>d. d\<lparr>resource_tags := []\<rparr>),
      (''ec2_tags'', \<lambda>d. d\<lparr>ec2_tags := []\<rparr>),
      (''ec2_amis'', \<lambda>d. d\<lparr>ec2_tbls := (ec2_tbls d)\<lparr>ec2_amis := []\<rparr>\<rparr>),
      (''s3_buckets'', \<lambda>d. d\<lparr>s3_tbls := (s3_tbls d)\<lparr>s3_buckets := []\<rparr>\<rparr>),
      (''s3_bucket_configs'', \<lambda>d. d\<lparr>s3_tbls := (s3_tbls d)\<lparr>s3_configs := []\<rparr>\<rparr>),
      (''route53_hosted_zones'', \<lambda>d. d\<lparr>r53_tbls := (r53_tbls d)\<lparr>r53_zones := []\<rparr>\<rparr>),
      (''route53_record_sets'', \<lambda>d. d\<lparr>r53_tbls := (r53_tbls d)\<lparr>r53_records := []\<rparr>\<rparr>),
      (''route53_changes'', \<lambda>d. d\<lparr>r53_tbls := (r53_tbls d)\<lparr>r53_changes := []\<rparr>\<rparr>),
      (''iam_roles'', \<lambda>d. d\<lparr>iam_tbls := (iam_tbls d)\<lparr>iam_roles := []\<rparr>\<rparr>),
      (''iam_policies'', \<lambda>d. d\<lparr>iam_tbls := (iam_tbls d)\<lparr>iam_policies := []\<rparr>\<rparr>),
      (''iam_instance_profiles'', \<lambda>d. d\<lparr>iam_tbls := (iam_tbls d)\<lparr>iam_profiles := []\<rparr>\<rparr>),
      (''iam_users'', \<lambda>d. d\<lparr>iam_tbls := (iam_tbls d)\<lparr>iam_users := []\<rparr>\<rparr>),
      (''iam_access_keys'', \<lambda>d. d\<lparr>iam_tbls := (iam_tbls d)\<lparr>iam_keys := []\<rparr>\<rparr>),
      (''role_policy_attachments'', \<lambda>d. d\<lparr>iam_tbls := (iam_tbls d)\<lparr>role_attachments := []\<rparr>\<rparr>),
      (''user_policy_attachments'', \<lambda>d. d\<lparr>iam_tbls := (iam_tbls d)\<lparr>user_attachments := []\<rparr>\<rparr>),
      (''instance_profile_roles'', \<lambda>d. d\<lparr>iam_tbls := (iam_tbls d)\<lparr>profile_roles := []\<rparr>\<rparr>),
      (''role_inline_policies'', \<lambda>d. d\<lparr>iam_tbls := (iam_tbls d)\<lparr>role_inlines := []\<rparr>\<rparr>),
      (''user_inline_policies'', \<lambda>d. d\<lparr>iam_tbls := (iam_tbls d)\<lparr>user_inlines := []\<rparr>\<rparr>),
      (''ec2_vpcs'', \<lambda>d. d\<lparr>ec2_tbls := (ec2_tbls d)\<lparr>ec2_vpcs := []\<rparr>\<rparr>),
      (''ec2_subnets'', \<lambda>d. d\<lparr>ec2_tbls := (ec2_tbls d)\<lparr>ec2_subnets := []\<rparr>\<rparr>),
      (''ec2_internet_gateways'', \<lambda>d. d\<lparr>ec2_tbls := (ec2_tbls d)\<lparr>ec2_igws := []\<rparr>\<rparr>),
      (''ec2_route_tables'', \<lambda>d. d\<lparr>ec2_tbls := (ec2_tbls d)\<lparr>ec2_rtbs := []\<rparr>\<rparr>),
      (''ec2_route_table_associations'', \<lambda>d. d\<lparr>ec2_tbls := (ec2_tbls d)\<lparr>ec2_assocs := []\<rparr>\<rparr>),
      (''ec2_routes'', \<lambda>d. d\<lparr>ec2_tbls := (ec2_tbls d)\<lparr>ec2_routes := []\<rparr>\<rparr>),
      (''ec2_security_groups'', \<lambda>d. d\<lparr>ec2_tbls := (ec2_tbls d)\<lparr>ec2_sgs := []\<rparr>\<rparr>),
      (''ec2_security_group_rules'', \<lambda>d. d\<lparr>ec2_tbls := (ec2_tbls d)\<lparr>ec2_rules := []\<rparr>\<rparr>),
      (''ec2_eips'', \<lambda>d. d\<lparr>ec2_tbls := (ec2_tbls d)\<lparr>ec2_eips := []\<rparr>\<rparr>),
      (''availability_zones'', \<lambda>d. d\<lparr>ec2_tbls := (ec2_tbls d)\<lparr>ec2_zones := []\<rparr>\<rparr>),
      (''ec2_instances'', \<lambda>d. d\<lparr>ec2_tbls := (ec2_tbls d)\<lparr>ec2_instances := []\<rparr>\<rparr>),
      (''ec2_network_interfaces'', \<lambda>d. d\<lparr>ec2_tbls := (ec2_tbls d)\<lparr>ec2_enis := []\<rparr>\<rparr>),
      (''ec2_volumes'', \<lambda>d. d\<lparr>ec2_tbls := (ec2_tbls d)\<lparr>ec2_volumes := []\<rparr>\<rparr>),
      (''ec2_key_pairs'', \<lambda>d. d\<lparr>ec2_tbls := (ec2_tbls d)\<lparr>ec2_key_pairs := []\<rparr>\<rparr>),
      (''eks_clusters'', \<lambda>d. d\<lparr>eks_tbls := (eks_tbls d)\<lparr>eks_clusters := []\<rparr>\<rparr>),
      (''eks_node_groups'', \<lambda>d. d\<lparr>eks_tbls := (eks_tbls d)\<lparr>eks_node_groups := []\<rparr>\<rparr>),
      (''eks_addons'', \<lambda>d. d\<lparr>eks_tbls := (eks_tbls d)\<lparr>eks_addons := []\<rparr>\<rparr>),
      (''rds_db_subnet_groups'', \<lambda>d. d\<lparr>rds_tbls := (rds_tbls d)\<lparr>rds_subnet_groups := []\<rparr>\<rparr>),
      (''rds_db_parameter_groups'', \<lambda>d. d\<lparr>rds_tbls := (rds_tbls d)\<lparr>rds_parameter_groups := []\<rparr>\<rparr>),
      (''rds_db_cluster_parameter_groups'', \<lambda>d. d\<lparr>rds_tbls := (rds_tbls d)\<lparr>rds_cluster_parameter_groups := []\<rparr>\<rparr>),
      (''rds_db_clusters'', \<lambda>d. d\<lparr>rds_tbls := (rds_tbls d)\<lparr>rds_clusters := []\<rparr>\<rparr>),
      (''rds_db_instances'', \<lambda>d. d\<lparr>rds_tbls := (rds_tbls d)\<lparr>rds_instances := []\<rparr>\<rparr>)]"

definition truncate_table :: "string \<Rightarrow> db \<Rightarrow> db" where
  "truncate_table n d = (case map_of truncations n of
       Some f \<Rightarrow> f d
     | None \<Rightarrow> d\<lparr>other_rows := filter (\<lambda>r. fst r \<noteq> n) (other_rows d)\<rparr>)"

text \<open>Every primary key of the schema.\<close>

definition keys_ok :: "db \<Rightarrow> bool" where
  "keys_ok d \<longleftrightarrow> pk kms_pk (kms_keys d) \<and> pk ssm_pk (ssm_parameters d) \<and> pk queue_pk (sqs_queues d) \<and>
     pk message_pk (sqs_messages d) \<and> pk secret_pk (secrets d) \<and> pk version_pk (secret_versions d) \<and>
     pk ddb_table_pk (ddb_tables d) \<and> pk ddb_item_pk (ddb_items d) \<and> pk tag_pk (resource_tags d) \<and>
     pk ec2_tag_pk (ec2_tags d) \<and> s3_keys_ok (s3_tbls d) \<and> r53_keys_ok (r53_tbls d) \<and> iam_keys_ok (iam_tbls d) \<and> ec2_keys_ok (ec2_tbls d) \<and>
     eks_keys_ok (eks_tbls d) \<and> rds_keys_ok (rds_tbls d)"

lemma keys_ok_empty [simp]: "keys_ok empty_db"
  by (simp add: keys_ok_def empty_db_def)

end
