(* ===== verification/Identity.thy ===== *)
theory Identity
  imports Schema
begin

text \<open>
  The stored identity: repository/identity.go and its use in handlers/admin.go. It decides which
  account every service answers as, and it changes only while the database holds no rows.
\<close>

definition kms_enabled :: string where
  "kms_enabled = ''Enabled''"

definition kms_pending_deletion :: string where
  "kms_pending_deletion = ''PendingDeletion''"

text \<open>The ids of ec2AMIFixtures (handlers/ec2.go), which a boot seeds.\<close>

definition al2023_ami_id :: string where
  "al2023_ami_id = ''ami-0al2023x8664''"

definition ami_fixture_ids :: "string list" where
  "ami_fixture_ids = [''ami-0abcd1234'', al2023_ami_id, ''ami-0ubuntu2004'', ''ami-0ubuntu2204'']"

section \<open>Operations\<close>

definition get_identity :: "db \<Rightarrow> identity option" where
  "get_identity d = map_option ir_identity (identity_tbl d)"

definition empty_exclusions :: "string list" where
  "empty_exclusions = [''operations'', ''audit'', ''identity'']"

text \<open>SELECT EXISTS over one table, with the two tables whose seeded or dead rows do not count.\<close>

definition holds_row :: "string list \<Rightarrow> db \<Rightarrow> string \<Rightarrow> bool" where
  "holds_row fixtures d n =
     (if n = ''ec2_amis'' then \<exists>i\<in>set (ec2_ami_ids d). i \<notin> set fixtures
      else if n = ''kms_keys'' then \<exists>r\<in>set (kms_keys d). k_state (kr_key r) \<noteq> kms_pending_deletion
      else if n = ''ssm_parameters'' then ssm_parameters d \<noteq> []
      else if n = ''sqs_queues'' then sqs_queues d \<noteq> []
      else if n = ''sqs_messages'' then sqs_messages d \<noteq> []
      else if n = ''secretsmanager_secrets'' then secrets d \<noteq> []
      else if n = ''secretsmanager_versions'' then secret_versions d \<noteq> []
      else if n = ''dynamodb_tables'' then ddb_tables d \<noteq> []
      else if n = ''dynamodb_items'' then ddb_items d \<noteq> []
      else if n = ''resource_tags'' then resource_tags d \<noteq> []
      else if n = ''ec2_tags'' then ec2_tags d \<noteq> []
      else if n = ''s3_buckets'' then s3_buckets (s3_tbls d) \<noteq> []
      else if n = ''s3_bucket_configs'' then s3_configs (s3_tbls d) \<noteq> []
      else if n = ''route53_hosted_zones'' then r53_zones (r53_tbls d) \<noteq> []
      else if n = ''route53_record_sets'' then r53_records (r53_tbls d) \<noteq> []
      else if n = ''route53_changes'' then r53_changes (r53_tbls d) \<noteq> []
      else if n = ''iam_roles'' then iam_roles (iam_tbls d) \<noteq> []
      else if n = ''iam_policies'' then iam_policies (iam_tbls d) \<noteq> []
      else if n = ''iam_instance_profiles'' then iam_profiles (iam_tbls d) \<noteq> []
      else if n = ''iam_users'' then iam_users (iam_tbls d) \<noteq> []
      else if n = ''iam_access_keys'' then iam_keys (iam_tbls d) \<noteq> []
      else if n = ''role_policy_attachments'' then role_attachments (iam_tbls d) \<noteq> []
      else if n = ''user_policy_attachments'' then user_attachments (iam_tbls d) \<noteq> []
      else if n = ''instance_profile_roles'' then profile_roles (iam_tbls d) \<noteq> []
      else if n = ''role_inline_policies'' then role_inlines (iam_tbls d) \<noteq> []
      else if n = ''user_inline_policies'' then user_inlines (iam_tbls d) \<noteq> []
      else if n = ''ec2_vpcs'' then ec2_vpcs (ec2_tbls d) \<noteq> []
      else if n = ''ec2_subnets'' then ec2_subnets (ec2_tbls d) \<noteq> []
      else if n = ''ec2_internet_gateways'' then ec2_igws (ec2_tbls d) \<noteq> []
      else if n = ''ec2_route_tables'' then ec2_rtbs (ec2_tbls d) \<noteq> []
      else if n = ''ec2_route_table_associations'' then ec2_assocs (ec2_tbls d) \<noteq> []
      else if n = ''ec2_routes'' then ec2_routes (ec2_tbls d) \<noteq> []
      else if n = ''ec2_security_groups'' then ec2_sgs (ec2_tbls d) \<noteq> []
      else if n = ''ec2_security_group_rules'' then ec2_rules (ec2_tbls d) \<noteq> []
      else if n = ''ec2_eips'' then ec2_eips (ec2_tbls d) \<noteq> []
      else if n = ''availability_zones'' then ec2_zones (ec2_tbls d) \<noteq> []
      else if n = ''ec2_instances'' then ec2_instances (ec2_tbls d) \<noteq> []
      else if n = ''ec2_network_interfaces'' then ec2_enis (ec2_tbls d) \<noteq> []
      else if n = ''ec2_volumes'' then ec2_volumes (ec2_tbls d) \<noteq> []
      else if n = ''ec2_key_pairs'' then ec2_key_pairs (ec2_tbls d) \<noteq> []
      else if n = ''eks_clusters'' then eks_clusters (eks_tbls d) \<noteq> []
      else if n = ''eks_node_groups'' then eks_node_groups (eks_tbls d) \<noteq> []
      else if n = ''eks_addons'' then eks_addons (eks_tbls d) \<noteq> []
      else if n = ''rds_db_subnet_groups'' then rds_subnet_groups (rds_tbls d) \<noteq> []
      else if n = ''rds_db_parameter_groups'' then rds_parameter_groups (rds_tbls d) \<noteq> []
      else if n = ''rds_db_cluster_parameter_groups'' then rds_cluster_parameter_groups (rds_tbls d) \<noteq> []
      else if n = ''rds_db_clusters'' then rds_clusters (rds_tbls d) \<noteq> []
      else if n = ''rds_db_instances'' then rds_instances (rds_tbls d) \<noteq> []
      else n \<in> set (map fst (other_rows d)))"

fun is_empty_from :: "string list \<Rightarrow> db \<Rightarrow> string list \<Rightarrow> bool" where
  "is_empty_from fixtures d [] = True"
| "is_empty_from fixtures d (n # ns) =
     (if n \<in> set empty_exclusions then is_empty_from fixtures d ns
      else if holds_row fixtures d n then False
      else is_empty_from fixtures d ns)"

definition is_empty :: "string list \<Rightarrow> db \<Rightarrow> bool" where
  "is_empty fixtures d = is_empty_from fixtures d reset_tables"

text \<open>The INSERT ... ON CONFLICT(id) DO UPDATE of SetIdentity keeps a stored loaded flag.\<close>

definition put_identity :: "identity \<Rightarrow> db \<Rightarrow> db" where
  "put_identity i d = d\<lparr>identity_tbl := Some
     \<lparr>ir_identity = i, ir_loaded = (case identity_tbl d of None \<Rightarrow> False | Some r \<Rightarrow> ir_loaded r)\<rparr>\<rparr>"

text \<open>The stored identity, or the default account's when none is stored.\<close>

definition stored_identity :: "string \<Rightarrow> db \<Rightarrow> identity" where
  "stored_identity default_account d = (case get_identity d of Some s \<Rightarrow> s
     | None \<Rightarrow> \<lparr>id_account = default_account, id_region = []\<rparr>)"

definition identity_refusal :: "string \<Rightarrow> string \<Rightarrow> string" where
  "identity_refusal account stored = error_text ErrConflict @ '': account '' @ account @
     '' refused: the database is not empty and holds account '' @ stored"

definition set_identity :: "identity \<Rightarrow> string \<Rightarrow> string list \<Rightarrow> db \<Rightarrow> go_error option \<times> db" where
  "set_identity i default_account fixtures d =
     (let stored = stored_identity default_account d
      in if id_account stored = id_account i \<and> (id_region i = [] \<or> id_region i = id_region stored)
         then (None, d)
         else if id_account stored \<noteq> id_account i \<and> \<not> is_empty fixtures d
         then (Some (ErrWrap ErrConflict (identity_refusal (id_account i) (id_account stored))), d)
         else (None, put_identity i d))"

definition db_loaded :: "db \<Rightarrow> bool" where
  "db_loaded d = (case identity_tbl d of None \<Rightarrow> False | Some r \<Rightarrow> ir_loaded r)"

definition set_loaded :: "bool \<Rightarrow> string \<Rightarrow> db \<Rightarrow> db" where
  "set_loaded l default_account d = d\<lparr>identity_tbl := Some (case identity_tbl d of
       None \<Rightarrow> \<lparr>ir_identity = \<lparr>id_account = default_account, id_region = []\<rparr>, ir_loaded = l\<rparr>
     | Some r \<Rightarrow> r\<lparr>ir_loaded := l\<rparr>)\<rparr>"

text \<open>AccountID (handlers/admin.go): what readAccount hands every AWS handler.\<close>

definition account_id :: "db \<Rightarrow> string" where
  "account_id d = (case get_identity d of None \<Rightarrow> fake_account_id | Some i \<Rightarrow> id_account i)"

section \<open>POST /mock/identity\<close>

definition check_account_id :: "string \<Rightarrow> bool" where
  "check_account_id s \<longleftrightarrow> length s = 12 \<and> list_all (\<lambda>c. c \<in> set ''0123456789'') s"

definition lower_letters :: "string \<Rightarrow> bool" where
  "lower_letters s = list_all (\<lambda>c. c \<in> set ''abcdefghijklmnopqrstuvwxyz'') s"

text \<open>The pattern ^[a-z]{2}(-[a-z]+)+-\d$ over the '-'-separated parts.\<close>

definition check_region :: "string \<Rightarrow> bool" where
  "check_region s =
     (case split_n (Suc (length s)) (CHR ''-'') s of
        p # q # ps \<Rightarrow>
          length p = 2 \<and> lower_letters p \<and> ps \<noteq> [] \<and>
          list_all (\<lambda>m. m \<noteq> [] \<and> lower_letters m) (butlast (q # ps)) \<and>
          length (last ps) = 1 \<and> hd (last ps) \<in> set ''0123456789''
      | _ \<Rightarrow> False)"

definition write_json_status :: "int \<Rightarrow> json \<Rightarrow> response" where
  "write_json_status status payload = respond status ''application/json'' (Json_body payload)"

definition write_admin_error :: "int \<Rightarrow> string \<Rightarrow> response" where
  "write_admin_error status msg =
     write_json_status status (JObj [(''status'', JStr ''error''), (''message'', JStr msg)])"

text \<open>
  decodeAdminBody into Identity: one JSON object (or null) with no unknown member. The decoder's own
  text after "invalid body: " and the 64 KiB limit are left out.
\<close>

definition decode_identity :: "json option \<Rightarrow> identity option" where
  "decode_identity b = (case b of
       None \<Rightarrow> None
     | Some j \<Rightarrow>
         (let known = (case j of JObj ms \<Rightarrow> list_all (\<lambda>(k, _). lower k \<in> {''account_id'', ''region''}) ms | _ \<Rightarrow> True);
              a = field_string ''account_id'' j; r = field_string ''region'' j
          in if is_obj j \<and> known \<and> fst a \<and> fst r then Some \<lparr>id_account = snd a, id_region = snd r\<rparr> else None))"

definition handle_mock_identity :: "request \<Rightarrow> db \<Rightarrow> response \<times> db" where
  "handle_mock_identity r d = (case decode_identity (q_json r) of
       None \<Rightarrow> (write_admin_error 400 ''invalid body: '', d)
     | Some i \<Rightarrow>
         (if \<not> check_account_id (id_account i) then (write_admin_error 400 ''account_id must be 12 digits'', d)
          else if id_region i \<noteq> [] \<and> \<not> check_region (id_region i)
          then (write_admin_error 400 ''region must look like us-east-1'', d)
          else (case set_identity i fake_account_id ami_fixture_ids d of
              (Some e, d') \<Rightarrow> (write_admin_error (if errors_is e ErrConflict then 409 else 500) (error_text e), d')
            | (None, d') \<Rightarrow> (write_json_status 200 (JObj [(''status'', JStr ''ok'')]), d'))))"

section \<open>What the operations guarantee\<close>

lemma is_empty_from_iff:
  "is_empty_from fx d ns \<longleftrightarrow> (\<forall>n\<in>set ns. n \<in> set empty_exclusions \<or> \<not> holds_row fx d n)"
  by (induction ns) auto

lemma get_put_identity [simp]: "get_identity (put_identity i d) = Some i"
  by (simp add: get_identity_def put_identity_def)

lemma put_identity_frame [simp]:
  "kms_keys (put_identity i d) = kms_keys d" "ssm_parameters (put_identity i d) = ssm_parameters d"
  "sqs_queues (put_identity i d) = sqs_queues d" "sqs_messages (put_identity i d) = sqs_messages d"
  "secrets (put_identity i d) = secrets d" "secret_versions (put_identity i d) = secret_versions d"
  "ddb_tables (put_identity i d) = ddb_tables d" "ddb_items (put_identity i d) = ddb_items d"
  "resource_tags (put_identity i d) = resource_tags d" "ec2_tags (put_identity i d) = ec2_tags d"
  "other_rows (put_identity i d) = other_rows d"
  "s3_tbls (put_identity i d) = s3_tbls d"
  "r53_tbls (put_identity i d) = r53_tbls d"
  "iam_tbls (put_identity i d) = iam_tbls d"
  "ec2_tbls (put_identity i d) = ec2_tbls d"
  "eks_tbls (put_identity i d) = eks_tbls d" "rds_tbls (put_identity i d) = rds_tbls d"
  "db_loaded (put_identity i d) = db_loaded d"
  by (auto simp: put_identity_def db_loaded_def split: option.split)

lemma keys_ok_put_identity [simp]: "keys_ok (put_identity i d) = keys_ok d"
  by (simp add: keys_ok_def)

lemma account_id_stored: "account_id d = id_account (stored_identity fake_account_id d)"
  by (simp add: account_id_def stored_identity_def split: option.split)

text \<open>The three outcomes: nothing to write, refused, written.\<close>

lemma set_identity_refused:
  assumes "id_account i \<noteq> id_account (stored_identity a d)" and "\<not> is_empty fx d"
  shows "set_identity i a fx d =
    (Some (ErrWrap ErrConflict (identity_refusal (id_account i) (id_account (stored_identity a d)))), d)"
  using assms by (simp add: set_identity_def Let_def)

lemma set_identity_accepted:
  assumes "id_account i = id_account (stored_identity a d) \<or> is_empty fx d"
  shows "set_identity i a fx d = (None, d) \<and> id_account i = id_account (stored_identity a d) \<or>
         set_identity i a fx d = (None, put_identity i d)"
  using assms by (auto simp: set_identity_def Let_def)

lemma set_identity_frame:
  "snd (set_identity i a fx d) = d \<or> snd (set_identity i a fx d) = put_identity i d"
  by (simp add: set_identity_def Let_def)

lemma keys_ok_set_identity: "keys_ok d \<Longrightarrow> keys_ok (snd (set_identity i a fx d))"
  using set_identity_frame [of i a fx d] by auto

text \<open>The empty check, table by table.\<close>

lemma holds_row_table:
  "holds_row fx d ''ec2_amis'' \<longleftrightarrow> \<not> set (ec2_ami_ids d) \<subseteq> set fx"
  "holds_row fx d ''kms_keys'' \<longleftrightarrow> (\<exists>r\<in>set (kms_keys d). k_state (kr_key r) \<noteq> kms_pending_deletion)"
  "holds_row fx d ''ssm_parameters'' \<longleftrightarrow> ssm_parameters d \<noteq> []"
  "holds_row fx d ''sqs_queues'' \<longleftrightarrow> sqs_queues d \<noteq> []"
  "holds_row fx d ''sqs_messages'' \<longleftrightarrow> sqs_messages d \<noteq> []"
  "holds_row fx d ''secretsmanager_secrets'' \<longleftrightarrow> secrets d \<noteq> []"
  "holds_row fx d ''secretsmanager_versions'' \<longleftrightarrow> secret_versions d \<noteq> []"
  "holds_row fx d ''dynamodb_tables'' \<longleftrightarrow> ddb_tables d \<noteq> []"
  "holds_row fx d ''dynamodb_items'' \<longleftrightarrow> ddb_items d \<noteq> []"
  "holds_row fx d ''resource_tags'' \<longleftrightarrow> resource_tags d \<noteq> []"
  "holds_row fx d ''ec2_tags'' \<longleftrightarrow> ec2_tags d \<noteq> []"
  "holds_row fx d ''s3_buckets'' \<longleftrightarrow> s3_buckets (s3_tbls d) \<noteq> []"
  "holds_row fx d ''s3_bucket_configs'' \<longleftrightarrow> s3_configs (s3_tbls d) \<noteq> []"
  "holds_row fx d ''route53_hosted_zones'' \<longleftrightarrow> r53_zones (r53_tbls d) \<noteq> []"
  "holds_row fx d ''route53_record_sets'' \<longleftrightarrow> r53_records (r53_tbls d) \<noteq> []"
  "holds_row fx d ''route53_changes'' \<longleftrightarrow> r53_changes (r53_tbls d) \<noteq> []"
  "holds_row fx d ''iam_roles'' \<longleftrightarrow> iam_roles (iam_tbls d) \<noteq> []"
  "holds_row fx d ''iam_policies'' \<longleftrightarrow> iam_policies (iam_tbls d) \<noteq> []"
  "holds_row fx d ''iam_instance_profiles'' \<longleftrightarrow> iam_profiles (iam_tbls d) \<noteq> []"
  "holds_row fx d ''iam_users'' \<longleftrightarrow> iam_users (iam_tbls d) \<noteq> []"
  "holds_row fx d ''iam_access_keys'' \<longleftrightarrow> iam_keys (iam_tbls d) \<noteq> []"
  "holds_row fx d ''role_policy_attachments'' \<longleftrightarrow> role_attachments (iam_tbls d) \<noteq> []"
  "holds_row fx d ''user_policy_attachments'' \<longleftrightarrow> user_attachments (iam_tbls d) \<noteq> []"
  "holds_row fx d ''instance_profile_roles'' \<longleftrightarrow> profile_roles (iam_tbls d) \<noteq> []"
  "holds_row fx d ''role_inline_policies'' \<longleftrightarrow> role_inlines (iam_tbls d) \<noteq> []"
  "holds_row fx d ''user_inline_policies'' \<longleftrightarrow> user_inlines (iam_tbls d) \<noteq> []"
  "holds_row fx d ''ec2_vpcs'' \<longleftrightarrow> ec2_vpcs (ec2_tbls d) \<noteq> []"
  "holds_row fx d ''ec2_subnets'' \<longleftrightarrow> ec2_subnets (ec2_tbls d) \<noteq> []"
  "holds_row fx d ''ec2_internet_gateways'' \<longleftrightarrow> ec2_igws (ec2_tbls d) \<noteq> []"
  "holds_row fx d ''ec2_route_tables'' \<longleftrightarrow> ec2_rtbs (ec2_tbls d) \<noteq> []"
  "holds_row fx d ''ec2_route_table_associations'' \<longleftrightarrow> ec2_assocs (ec2_tbls d) \<noteq> []"
  "holds_row fx d ''ec2_routes'' \<longleftrightarrow> ec2_routes (ec2_tbls d) \<noteq> []"
  "holds_row fx d ''ec2_security_groups'' \<longleftrightarrow> ec2_sgs (ec2_tbls d) \<noteq> []"
  "holds_row fx d ''ec2_security_group_rules'' \<longleftrightarrow> ec2_rules (ec2_tbls d) \<noteq> []"
  "holds_row fx d ''ec2_eips'' \<longleftrightarrow> ec2_eips (ec2_tbls d) \<noteq> []"
  "holds_row fx d ''availability_zones'' \<longleftrightarrow> ec2_zones (ec2_tbls d) \<noteq> []"
  "holds_row fx d ''ec2_instances'' \<longleftrightarrow> ec2_instances (ec2_tbls d) \<noteq> []"
  "holds_row fx d ''ec2_network_interfaces'' \<longleftrightarrow> ec2_enis (ec2_tbls d) \<noteq> []"
  "holds_row fx d ''ec2_volumes'' \<longleftrightarrow> ec2_volumes (ec2_tbls d) \<noteq> []"
  "holds_row fx d ''ec2_key_pairs'' \<longleftrightarrow> ec2_key_pairs (ec2_tbls d) \<noteq> []"
  "holds_row fx d ''eks_clusters'' \<longleftrightarrow> eks_clusters (eks_tbls d) \<noteq> []"
  "holds_row fx d ''eks_node_groups'' \<longleftrightarrow> eks_node_groups (eks_tbls d) \<noteq> []"
  "holds_row fx d ''eks_addons'' \<longleftrightarrow> eks_addons (eks_tbls d) \<noteq> []"
  "holds_row fx d ''rds_db_subnet_groups'' \<longleftrightarrow> rds_subnet_groups (rds_tbls d) \<noteq> []"
  "holds_row fx d ''rds_db_parameter_groups'' \<longleftrightarrow> rds_parameter_groups (rds_tbls d) \<noteq> []"
  "holds_row fx d ''rds_db_cluster_parameter_groups'' \<longleftrightarrow> rds_cluster_parameter_groups (rds_tbls d) \<noteq> []"
  "holds_row fx d ''rds_db_clusters'' \<longleftrightarrow> rds_clusters (rds_tbls d) \<noteq> []"
  "holds_row fx d ''rds_db_instances'' \<longleftrightarrow> rds_instances (rds_tbls d) \<noteq> []"
  by (auto simp: holds_row_def)

lemma is_empty_holds_row:
  "is_empty fx d \<Longrightarrow> n \<in> set reset_tables \<Longrightarrow> n \<notin> set empty_exclusions \<Longrightarrow> \<not> holds_row fx d n"
  by (auto simp: is_empty_def is_empty_from_iff)

text \<open>The modelled tables are all checked.\<close>

abbreviation modelled_tables :: "string list" where
  "modelled_tables \<equiv> [''ec2_amis'', ''kms_keys'', ''ssm_parameters'', ''sqs_queues'', ''sqs_messages'',
     ''secretsmanager_secrets'', ''secretsmanager_versions'', ''dynamodb_tables'', ''dynamodb_items'',
     ''resource_tags'', ''ec2_tags'',
     ''s3_buckets'', ''s3_bucket_configs'',
     ''route53_hosted_zones'', ''route53_record_sets'', ''route53_changes'',
     ''iam_roles'', ''iam_policies'', ''iam_instance_profiles'', ''iam_users'', ''iam_access_keys'', ''role_policy_attachments'', ''user_policy_attachments'', ''instance_profile_roles'', ''role_inline_policies'', ''user_inline_policies'',
     ''ec2_vpcs'', ''ec2_subnets'', ''ec2_internet_gateways'', ''ec2_route_tables'', ''ec2_route_table_associations'', ''ec2_routes'', ''ec2_security_groups'', ''ec2_security_group_rules'', ''ec2_eips'', ''availability_zones'', ''ec2_instances'', ''ec2_network_interfaces'', ''ec2_volumes'', ''ec2_key_pairs'',
     ''eks_clusters'', ''eks_node_groups'', ''eks_addons'', ''rds_db_subnet_groups'', ''rds_db_parameter_groups'', ''rds_db_cluster_parameter_groups'', ''rds_db_clusters'', ''rds_db_instances'']"

lemma modelled_tables_checked: "set modelled_tables \<subseteq> set reset_tables - set empty_exclusions"
  by code_simp

lemma is_empty_modelled: "is_empty fx d \<Longrightarrow> list_all (\<lambda>n. \<not> holds_row fx d n) modelled_tables"
  using modelled_tables_checked unfolding list_all_iff by (blast dest: is_empty_holds_row)

text \<open>An empty database holds no row of any modelled service, dead keys and fixtures aside.\<close>

lemma is_empty_tables:
  assumes "is_empty fx d"
  shows "set (ec2_ami_ids d) \<subseteq> set fx" "\<forall>r\<in>set (kms_keys d). k_state (kr_key r) = kms_pending_deletion"
    "ssm_parameters d = []" "sqs_queues d = []" "sqs_messages d = []" "secrets d = []"
    "secret_versions d = []" "ddb_tables d = []" "ddb_items d = []" "resource_tags d = []" "ec2_tags d = []"
    "s3_buckets (s3_tbls d) = []" "s3_configs (s3_tbls d) = []"
    "r53_zones (r53_tbls d) = []" "r53_records (r53_tbls d) = []" "r53_changes (r53_tbls d) = []"
    "iam_roles (iam_tbls d) = []" "iam_policies (iam_tbls d) = []" "iam_profiles (iam_tbls d) = []" "iam_users (iam_tbls d) = []" "iam_keys (iam_tbls d) = []" "role_attachments (iam_tbls d) = []" "user_attachments (iam_tbls d) = []" "profile_roles (iam_tbls d) = []" "role_inlines (iam_tbls d) = []" "user_inlines (iam_tbls d) = []"
    "ec2_vpcs (ec2_tbls d) = []" "ec2_subnets (ec2_tbls d) = []" "ec2_igws (ec2_tbls d) = []" "ec2_rtbs (ec2_tbls d) = []" "ec2_assocs (ec2_tbls d) = []" "ec2_routes (ec2_tbls d) = []" "ec2_sgs (ec2_tbls d) = []" "ec2_rules (ec2_tbls d) = []" "ec2_eips (ec2_tbls d) = []" "ec2_zones (ec2_tbls d) = []" "ec2_instances (ec2_tbls d) = []" "ec2_enis (ec2_tbls d) = []" "ec2_volumes (ec2_tbls d) = []" "ec2_key_pairs (ec2_tbls d) = []"
    "eks_clusters (eks_tbls d) = []" "eks_node_groups (eks_tbls d) = []" "eks_addons (eks_tbls d) = []" "rds_subnet_groups (rds_tbls d) = []" "rds_parameter_groups (rds_tbls d) = []" "rds_cluster_parameter_groups (rds_tbls d) = []" "rds_clusters (rds_tbls d) = []" "rds_instances (rds_tbls d) = []"
  using is_empty_modelled [OF assms] by (simp_all add: holds_row_table)

end
