(* ===== verification/Tags.thy ===== *)
theory Tags
  imports Schema
begin

text \<open>
  Resource tags: repository/tags.go, repository/ec2_tags.go and handlers/tags.go. A tag row hangs off
  an ARN (or an EC2 resource id); tag calls name the table the ARN must live in, and a trigger on
  that table drops the tags with the row.
\<close>

section \<open>ARN-addressed tags\<close>

datatype tagged_table =
    Tags_SQS_queue | Tags_IAM_role | Tags_IAM_user | Tags_IAM_policy | Tags_IAM_profile
  | Tags_RDS_instance | Tags_RDS_parameter_group | Tags_RDS_subnet_group | Tags_RDS_cluster
  | Tags_RDS_cluster_param_group | Tags_Route53_zone | Tags_DynamoDB_table
  | Tags_EKS_cluster | Tags_EKS_node_group | Tags_EKS_addon

fun table_name :: "tagged_table \<Rightarrow> string" where
  "table_name Tags_SQS_queue = ''sqs_queues''"
| "table_name Tags_IAM_role = ''iam_roles''"
| "table_name Tags_IAM_user = ''iam_users''"
| "table_name Tags_IAM_policy = ''iam_policies''"
| "table_name Tags_IAM_profile = ''iam_instance_profiles''"
| "table_name Tags_RDS_instance = ''rds_db_instances''"
| "table_name Tags_RDS_parameter_group = ''rds_db_parameter_groups''"
| "table_name Tags_RDS_subnet_group = ''rds_db_subnet_groups''"
| "table_name Tags_RDS_cluster = ''rds_db_clusters''"
| "table_name Tags_RDS_cluster_param_group = ''rds_db_cluster_parameter_groups''"
| "table_name Tags_Route53_zone = ''route53_hosted_zones''"
| "table_name Tags_DynamoDB_table = ''dynamodb_tables''"
| "table_name Tags_EKS_cluster = ''eks_clusters''"
| "table_name Tags_EKS_node_group = ''eks_node_groups''"
| "table_name Tags_EKS_addon = ''eks_addons''"

definition resource_exists :: "string \<Rightarrow> tagged_table \<Rightarrow> string \<Rightarrow> db \<Rightarrow> bool" where
  "resource_exists account tbl arn d = (case tbl of
       Tags_SQS_queue \<Rightarrow> \<exists>r\<in>set (sqs_queues d). qr_account r = account \<and> qr_arn r = arn
     | Tags_DynamoDB_table \<Rightarrow> \<exists>r\<in>set (ddb_tables d). tr_account r = account \<and> t_arn (tr_table r) = arn
     | Tags_Route53_zone \<Rightarrow> \<exists>r\<in>set (r53_zones (r53_tbls d)). zr_account r = account \<and> z_arn (zr_zone r) = arn
     | Tags_IAM_role \<Rightarrow> \<exists>r\<in>set (iam_roles (iam_tbls d)). or_account r = account \<and> ro_arn (or_role r) = arn
     | Tags_IAM_policy \<Rightarrow> \<exists>r\<in>set (iam_policies (iam_tbls d)). op_account r = account \<and> po_arn (op_policy r) = arn
     | Tags_IAM_profile \<Rightarrow> \<exists>r\<in>set (iam_profiles (iam_tbls d)). oi_account r = account \<and> ip_arn (oi_profile r) = arn
     | Tags_IAM_user \<Rightarrow> \<exists>r\<in>set (iam_users (iam_tbls d)). ou_account r = account \<and> us_arn (ou_user r) = arn
     | Tags_EKS_cluster \<Rightarrow> \<exists>r\<in>set (eks_clusters (eks_tbls d)). ow_account r = account \<and> ec_arn (ow_data r) = arn
     | Tags_EKS_node_group \<Rightarrow> \<exists>r\<in>set (eks_node_groups (eks_tbls d)). ow_account r = account \<and> eg_arn (ow_data r) = arn
     | Tags_EKS_addon \<Rightarrow> \<exists>r\<in>set (eks_addons (eks_tbls d)). ow_account r = account \<and> ea_arn (ow_data r) = arn
     | Tags_RDS_instance \<Rightarrow> \<exists>r\<in>set (rds_instances (rds_tbls d)). ow_account r = account \<and> di_arn (ow_data r) = arn
     | Tags_RDS_parameter_group \<Rightarrow> \<exists>r\<in>set (rds_parameter_groups (rds_tbls d)). ow_account r = account \<and> dp_arn (ow_data r) = arn
     | Tags_RDS_subnet_group \<Rightarrow> \<exists>r\<in>set (rds_subnet_groups (rds_tbls d)). ow_account r = account \<and> dg_arn (ow_data r) = arn
     | Tags_RDS_cluster \<Rightarrow> \<exists>r\<in>set (rds_clusters (rds_tbls d)). ow_account r = account \<and> dc_arn (ow_data r) = arn
     | Tags_RDS_cluster_param_group \<Rightarrow> \<exists>r\<in>set (rds_cluster_parameter_groups (rds_tbls d)). ow_account r = account \<and> dp_arn (ow_data r) = arn)"

text \<open>The error of a missing resource, whose text Route 53 answers.\<close>

definition no_resource :: "tagged_table \<Rightarrow> string \<Rightarrow> go_error" where
  "no_resource tbl arn = ErrWrap ErrNotFound (table_name tbl @ '' '' @ arn @ '': '' @ error_text ErrNotFound)"

lemma errors_is_no_resource [simp]: "errors_is (no_resource tbl arn) e = (ErrNotFound = e)"
  by (simp add: no_resource_def)

text \<open>ARNByName: the ARN of an IAM row, by its name.\<close>

definition arn_by_name :: "string \<Rightarrow> tagged_table \<Rightarrow> string \<Rightarrow> db \<Rightarrow> string result" where
  "arn_by_name account tbl name d =
     (let t = iam_tbls d;
          arn = (case tbl of
              Tags_IAM_role \<Rightarrow> map_option (\<lambda>r. ro_arn (or_role r)) (find (\<lambda>r. iam_role_pk r = (account, name)) (iam_roles t))
            | Tags_IAM_policy \<Rightarrow> map_option (\<lambda>r. po_arn (op_policy r)) (find (\<lambda>r. iam_policy_pk r = (account, name)) (iam_policies t))
            | Tags_IAM_profile \<Rightarrow> map_option (\<lambda>r. ip_arn (oi_profile r)) (find (\<lambda>r. iam_profile_pk r = (account, name)) (iam_profiles t))
            | Tags_IAM_user \<Rightarrow> map_option (\<lambda>r. us_arn (ou_user r)) (find (\<lambda>r. iam_user_pk r = (account, name)) (iam_users t))
            | _ \<Rightarrow> None)
      in case arn of None \<Rightarrow> Inl (no_resource tbl name) | Some a \<Rightarrow> Inr a)"

definition put_tag :: "string \<Rightarrow> string \<Rightarrow> string \<Rightarrow> string \<Rightarrow> tag_row list \<Rightarrow> tag_row list" where
  "put_tag account arn k v t =
     sql_upsert tag_pk (\<lambda>old new. old\<lparr>g_value := g_value new\<rparr>)
       \<lparr>g_account = account, g_arn = arn, g_key = k, g_value = v\<rparr> t"

definition del_tag :: "string \<Rightarrow> string \<Rightarrow> string \<Rightarrow> tag_row list \<Rightarrow> tag_row list" where
  "del_tag account arn k t = sql_delete (\<lambda>r. tag_pk r = (account, arn, k)) t"

definition change_resource_tags ::
  "string \<Rightarrow> tagged_table \<Rightarrow> string \<Rightarrow> gomap \<Rightarrow> string list \<Rightarrow> db \<Rightarrow> go_error option \<times> db" where
  "change_resource_tags account tbl arn add remove d =
     (if \<not> resource_exists account tbl arn d then (Some (no_resource tbl arn), d)
      else (None, d\<lparr>resource_tags :=
             fold (\<lambda>(k, v). put_tag account arn k v) add
               (fold (del_tag account arn) remove (resource_tags d))\<rparr>))"

definition tag_resource :: "string \<Rightarrow> tagged_table \<Rightarrow> string \<Rightarrow> gomap \<Rightarrow> db \<Rightarrow> go_error option \<times> db" where
  "tag_resource account tbl arn tags d = change_resource_tags account tbl arn tags [] d"

definition untag_resource :: "string \<Rightarrow> tagged_table \<Rightarrow> string \<Rightarrow> string list \<Rightarrow> db \<Rightarrow> go_error option \<times> db" where
  "untag_resource account tbl arn ks d = change_resource_tags account tbl arn [] ks d"

definition tags_of :: "string \<Rightarrow> string \<Rightarrow> tag_row list \<Rightarrow> gomap" where
  "tags_of account arn t =
     gm_set_all (map (\<lambda>r. (g_key r, g_value r)) (filter (\<lambda>r. g_account r = account \<and> g_arn r = arn) t)) []"

definition resource_tag_map :: "string \<Rightarrow> tagged_table \<Rightarrow> string \<Rightarrow> db \<Rightarrow> gomap result" where
  "resource_tag_map account tbl arn d =
     (if \<not> resource_exists account tbl arn d then Inl (no_resource tbl arn)
      else Inr (tags_of account arn (resource_tags d)))"

text \<open>The AFTER DELETE trigger of a tagged table, for one deleted row.\<close>

definition drop_resource_tags :: "string \<Rightarrow> string \<Rightarrow> db \<Rightarrow> db" where
  "drop_resource_tags account arn d =
     d\<lparr>resource_tags := sql_delete (\<lambda>r. g_account r = account \<and> g_arn r = arn) (resource_tags d)\<rparr>"

section \<open>handlers/tags.go\<close>

text \<open>tagList: the tags in key order.\<close>

definition tag_list :: "gomap \<Rightarrow> (string \<Rightarrow> string \<Rightarrow> 'a) \<Rightarrow> 'a list" where
  "tag_list tags f = map (\<lambda>k. f k (case map_of tags k of None \<Rightarrow> [] | Some v \<Rightarrow> v)) (sort_key (\<lambda>k. k) (map fst tags))"

text \<open>tagCreated: tag what a create call made, or undo the create.\<close>

definition tag_created ::
  "string \<Rightarrow> tagged_table \<Rightarrow> string \<Rightarrow> gomap \<Rightarrow> (db \<Rightarrow> go_error option \<times> db) \<Rightarrow> db \<Rightarrow> go_error option \<times> db" where
  "tag_created account tbl arn tags undo d =
     (if tags = [] then (None, d)
      else case tag_resource account tbl arn tags d of
        (None, d') \<Rightarrow> (None, d')
      | (Some e, d') \<Rightarrow> (case undo d' of (u, d'') \<Rightarrow> (Some (errors_join e u), d'')))"

text \<open>tagsAsJSONSlice (handlers/secretsmanager.go): a tag list as most JSON services answer it.\<close>

definition tags_as_json_slice :: "gomap \<Rightarrow> json" where
  "tags_as_json_slice tags = JArr (map (\<lambda>(k, v). JObj [(''Key'', JStr k), (''Value'', JStr v)]) tags)"

text \<open>What a client decodes from such an answer.\<close>

definition listed_pairs :: "string \<Rightarrow> string \<Rightarrow> string \<Rightarrow> response \<Rightarrow> (string \<times> string) list" where
  "listed_pairs kf vf f r = (case r_body r of Json_body j \<Rightarrow> snd (field_pairs kf vf f j) | _ \<Rightarrow> [])"

lemma dec_pair_object:
  "lower kf \<noteq> lower vf \<Longrightarrow> dec_pair kf vf (JObj [(kf, JStr x), (vf, JStr y)]) = (True, Some (x, y))"
  by (auto simp: dec_pair_def field_string_def members_def dec_members_def dec_string_def is_obj_def)

lemma listed_pairs_of:
  assumes "lower kf \<noteq> lower vf"
  shows "listed_pairs kf vf f (write_json11 s (JObj [(f,
     JArr (map (\<lambda>(kk, vv). JObj [(kf, JStr kk), (vf, JStr vv)]) ts))])) = ts"
proof -
  have "map (\<lambda>x. or_zero ([], []) (snd (dec_pair kf vf x)))
      (map (\<lambda>(kk, vv). JObj [(kf, JStr kk), (vf, JStr vv)]) ts) = ts"
    by (induction ts) (auto simp: dec_pair_object [OF assms] or_zero_def)
  then show ?thesis
    by (simp add: listed_pairs_def field_pairs_def field_list_def members_def
        dec_members_def dec_list_def del: map_map)
qed

section \<open>EC2 tags\<close>

definition put_ec2_tags :: "string \<Rightarrow> string \<Rightarrow> ec2_tag list \<Rightarrow> db \<Rightarrow> db" where
  "put_ec2_tags account region ts d = d\<lparr>ec2_tags :=
     fold (\<lambda>t. sql_upsert ec2_tag_pk (\<lambda>old new. old\<lparr>er_tag := (er_tag old)\<lparr>e_value := e_value (er_tag new)\<rparr>\<rparr>)
                 \<lparr>er_account = account, er_region = region, er_tag = t\<rparr>) ts (ec2_tags d)\<rparr>"

text \<open>EC2TagMatch: a key, with a value or (None) any.\<close>

type_synonym ec2_tag_match = "string \<times> string option"

definition delete_ec2_tags :: "string \<Rightarrow> string list \<Rightarrow> ec2_tag_match list \<Rightarrow> db \<Rightarrow> db" where
  "delete_ec2_tags account ids matches d = d\<lparr>ec2_tags :=
     fold (\<lambda>i t.
       (if matches = [] then sql_delete (\<lambda>r. er_account r = account \<and> e_resource_id (er_tag r) = i) t
        else fold (\<lambda>(k, v). sql_delete (\<lambda>r. er_account r = account \<and> e_resource_id (er_tag r) = i \<and>
                     e_key (er_tag r) = k \<and> (case v of None \<Rightarrow> True | Some s \<Rightarrow> e_value (er_tag r) = s)))
               matches t)) ids (ec2_tags d)\<rparr>"

definition list_ec2_tags :: "string \<Rightarrow> string \<Rightarrow> db \<Rightarrow> ec2_tag list" where
  "list_ec2_tags account region d =
     map er_tag (sort_key (\<lambda>r. (e_resource_id (er_tag r), e_key (er_tag r)))
       (filter (\<lambda>r. er_account r = account \<and> (region = [] \<or> er_region r = region)) (ec2_tags d)))"

section \<open>Tag rows keep one value per resource and key\<close>

lemma tag_pk_upd [simp]: "tag_pk (r\<lparr>g_value := v\<rparr>) = tag_pk r"
  by (simp add: tag_pk_def)

lemma pk_put_tag [tbl_intros]: "pk tag_pk t \<Longrightarrow> pk tag_pk (put_tag a arn k v t)"
  unfolding put_tag_def by (rule pk_upsert) simp_all

lemma pk_del_tag [tbl_intros]: "pk tag_pk t \<Longrightarrow> pk tag_pk (del_tag a arn k t)"
  unfolding del_tag_def by (rule pk_delete)

definition tag_value :: "string \<times> string \<times> string \<Rightarrow> tag_row list \<Rightarrow> string option" where
  "tag_value k t = map_option g_value (find (\<lambda>r. tag_pk r = k) t)"

interpretation tag_rows: store tag_value "\<lambda>(a, arn, k). put_tag a arn k" "\<lambda>(a, arn, k). del_tag a arn k" "pk tag_pk"
proof (unfold_locales, goal_cases)
  case (1 s k' k v)
  have k: "tag_pk \<lparr>g_account = fst k, g_arn = fst (snd k), g_key = snd (snd k), g_value = v\<rparr> = k"
    by (simp add: tag_pk_def)
  show ?case
    by (auto simp: case_prod_beta put_tag_def tag_value_def find_sql_upsert k split: option.splits)
next
  case (2 s k' k)
  then show ?case
    by (simp add: case_prod_beta del_tag_def tag_value_def find_sql_delete_key)
qed (auto intro: tbl_intros)

text \<open>tags_of reads what tag_value looks up.\<close>

lemma map_of_tags_of:
  assumes "pk tag_pk t"
  shows "map_of (tags_of account arn t) k = tag_value (account, arn, k) t"
proof -
  have "map_of (rev (map (\<lambda>r. (g_key r, g_value r)) (filter (\<lambda>r. g_account r = account \<and> g_arn r = arn) t))) k
      = tag_value (account, arn, k) t"
    using assms
  proof (induction t)
    case (Cons r t)
    let ?f = "map (\<lambda>r. (g_key r, g_value r)) (filter (\<lambda>r. g_account r = account \<and> g_arn r = arn) t)"
    from Cons.prems have pk: "pk tag_pk t" and new: "tag_pk r \<notin> tag_pk ` set t"
      by (auto simp: pk_def)
    show ?case
    proof (cases "tag_pk r = (account, arn, k)")
      case True
      then have "tag_value (account, arn, k) t = None"
        using new by (simp add: tag_value_def find_pk_eq_None)
      with Cons.IH [OF pk] True show ?thesis
        by (auto simp: tag_value_def tag_pk_def map_add_def)
    next
      case False
      with Cons.IH [OF pk] show ?thesis
        by (auto simp: tag_value_def tag_pk_def map_add_def split: option.splits)
    qed
  qed (simp add: tag_value_def)
  then show ?thesis by (simp add: tags_of_def map_of_gm_set_all)
qed

lemma gm_wf_tags_of [simp]: "gm_wf (tags_of account arn t)"
  by (simp add: tags_of_def)

text \<open>One resource's tags, as the rows of its ARN, honour the tagging contract.\<close>

definition put_tags :: "string \<Rightarrow> string \<Rightarrow> gomap \<Rightarrow> tag_row list \<Rightarrow> tag_row list" where
  "put_tags a arn kvs t = fold (\<lambda>(k, v). put_tag a arn k v) kvs t"

definition del_tags :: "string \<Rightarrow> string \<Rightarrow> string list \<Rightarrow> tag_row list \<Rightarrow> tag_row list" where
  "del_tags a arn ks t = fold (del_tag a arn) ks t"

lemma put_tags_store:
  "put_tags a arn kvs = fold (\<lambda>(k, v). (\<lambda>(a, arn, k). put_tag a arn k) k v) (map (\<lambda>(k, v). ((a, arn, k), v)) kvs)"
  by (rule ext) (simp add: put_tags_def fold_map o_def split_beta')

lemma del_tags_store:
  "del_tags a arn ks = fold (\<lambda>(a, arn, k). del_tag a arn k) (map (\<lambda>k. (a, arn, k)) ks)"
  by (rule ext) (simp add: del_tags_def fold_map o_def)

lemma map_of_pair_keys:
  fixes kvs :: "('k \<times> 'v) list"
  shows "map_of (rev (map (\<lambda>(k, v). ((a, arn, k), v)) kvs)) (a', arn', k) =
     (if a' = a \<and> arn' = arn then map_of (rev kvs) k else None)"
proof -
  have "map_of (map (\<lambda>(k, v). ((a, arn, k), v)) xs) (a', arn', k) =
      (if a' = a \<and> arn' = arn then map_of xs k else None)" for xs :: "('k \<times> 'v) list"
    by (induction xs) auto
  then show ?thesis by (simp add: rev_map)
qed

lemma tag_value_put_tags:
  assumes "pk tag_pk t"
  shows "tag_value (a', arn', k) (put_tags a arn kvs t) =
    (if a' = a \<and> arn' = arn then
       (case map_of (rev kvs) k of Some v \<Rightarrow> Some v | None \<Rightarrow> tag_value (a', arn', k) t)
     else tag_value (a', arn', k) t)"
  using assms by (simp add: put_tags_store tag_rows.look_puts map_of_pair_keys split: option.split)

lemma tag_value_del_tags:
  assumes "pk tag_pk t"
  shows "tag_value (a', arn', k) (del_tags a arn ks t) =
    (if a' = a \<and> arn' = arn \<and> k \<in> set ks then None else tag_value (a', arn', k) t)"
  using assms by (auto simp: del_tags_store tag_rows.look_rems)

lemma pk_put_tags [tbl_intros]: "pk tag_pk t \<Longrightarrow> pk tag_pk (put_tags a arn kvs t)"
  by (simp only: put_tags_store tag_rows.ok_puts)

lemma pk_del_tags [tbl_intros]: "pk tag_pk t \<Longrightarrow> pk tag_pk (del_tags a arn ks t)"
  by (simp only: del_tags_store tag_rows.ok_rems)

interpretation arn_tags: tagging "\<lambda>t. map_of (tags_of a arn t)" "put_tags a arn" "del_tags a arn" "pk tag_pk" for a arn
proof (unfold_locales, goal_cases)
  case (1 s kvs)
  then show ?case
    by (auto simp: fun_eq_iff map_of_tags_of pk_put_tags tag_value_put_tags map_add_def split: option.split)
next
  case (2 s ks k)
  then show ?case by (simp add: map_of_tags_of pk_del_tags tag_value_del_tags)
qed (auto intro: tbl_intros)

text \<open>The repository's calls in these terms.\<close>

lemma change_resource_tags_eq:
  "change_resource_tags a tbl arn add remove d =
     (if resource_exists a tbl arn d
      then (None, d\<lparr>resource_tags := put_tags a arn add (del_tags a arn remove (resource_tags d))\<rparr>)
      else (Some (no_resource tbl arn), d))"
  by (simp add: change_resource_tags_def put_tags_def del_tags_def)

lemma resource_exists_tags [simp]:
  "resource_exists a tbl arn (d\<lparr>resource_tags := t\<rparr>) = resource_exists a tbl arn d"
  by (cases tbl) (simp_all add: resource_exists_def)

lemma change_resource_tags_keys_ok:
  "keys_ok d \<Longrightarrow> keys_ok (snd (change_resource_tags a tbl arn add remove d))"
  by (auto simp: change_resource_tags_eq keys_ok_def intro: tbl_intros)

lemma tags_of_drop [simp]:
  "tags_of account arn (resource_tags (drop_resource_tags account' arn' d)) =
     (if account = account' \<and> arn = arn' then [] else tags_of account arn (resource_tags d))"
proof (cases "account = account' \<and> arn = arn'")
  case False
  then have "filter (\<lambda>r. g_account r = account \<and> g_arn r = arn)
      (filter (\<lambda>r. \<not> (g_account r = account' \<and> g_arn r = arn')) t) =
      filter (\<lambda>r. g_account r = account \<and> g_arn r = arn) t" for t :: "tag_row list"
    by (auto simp: filter_filter intro!: filter_cong)
  then show ?thesis using False by (auto simp: tags_of_def drop_resource_tags_def sql_delete_def)
qed (simp add: tags_of_def drop_resource_tags_def sql_delete_def filter_filter)

lemma drop_resource_tags_frame [simp]:
  "kms_keys (drop_resource_tags a r d) = kms_keys d" "ssm_parameters (drop_resource_tags a r d) = ssm_parameters d"
  "sqs_queues (drop_resource_tags a r d) = sqs_queues d" "sqs_messages (drop_resource_tags a r d) = sqs_messages d"
  "secrets (drop_resource_tags a r d) = secrets d" "secret_versions (drop_resource_tags a r d) = secret_versions d"
  "ddb_tables (drop_resource_tags a r d) = ddb_tables d" "ddb_items (drop_resource_tags a r d) = ddb_items d"
  "eks_tbls (drop_resource_tags a r d) = eks_tbls d" "rds_tbls (drop_resource_tags a r d) = rds_tbls d"
  "other_rows (drop_resource_tags a r d) = other_rows d" "ec2_tags (drop_resource_tags a r d) = ec2_tags d"
  "identity_tbl (drop_resource_tags a r d) = identity_tbl d" "ec2_tbls (drop_resource_tags a r d) = ec2_tbls d" "iam_tbls (drop_resource_tags a r d) = iam_tbls d" "r53_tbls (drop_resource_tags a r d) = r53_tbls d" "s3_tbls (drop_resource_tags a r d) = s3_tbls d"
  by (simp_all add: drop_resource_tags_def)

end
