(* ===== verification/Kms.thy ===== *)
theory Kms
  imports Identity Gotime Tags
begin

text \<open>
  KMS: repository/kms.go and handlers/kms.go. Keys are rows; ScheduleKeyDeletion only moves a key to
  PendingDeletion. Handlers take the environment, the account and region, the request body and the
  database, and return the response and the new database.
\<close>

section \<open>Repository\<close>

definition create_kms_key :: "string \<Rightarrow> kms_key \<Rightarrow> db \<Rightarrow> go_error option \<times> db" where
  "create_kms_key account k d =
     (case insert_row kms_pk \<lparr>kr_account = account, kr_key = k\<rparr> (kms_keys d) of
        Inl e \<Rightarrow> (Some e, d)
      | Inr t \<Rightarrow> (None, d\<lparr>kms_keys := t\<rparr>))"

definition get_kms_key :: "string \<Rightarrow> string \<Rightarrow> string \<Rightarrow> db \<Rightarrow> kms_key result" where
  "get_kms_key account region keyid d =
     (case find (\<lambda>r. kms_pk r = (account, region, keyid)) (kms_keys d) of
        None \<Rightarrow> Inl ErrNotFound
      | Some r \<Rightarrow> Inr (kr_key r))"

definition list_kms_keys :: "string \<Rightarrow> string \<Rightarrow> db \<Rightarrow> kms_key list" where
  "list_kms_keys account region d =
     sort_key (\<lambda>k. (k_region k, k_id k))
       (map kr_key (filter (\<lambda>r. kr_account r = account \<and> (region = [] \<or> k_region (kr_key r) = region)) (kms_keys d)))"

text \<open>UpdateKMSKey writes the state and data columns; the key columns stay.\<close>

definition update_kms_key ::
  "string \<Rightarrow> string \<Rightarrow> string \<Rightarrow> (kms_key \<Rightarrow> kms_key) \<Rightarrow> db \<Rightarrow> go_error option \<times> db" where
  "update_kms_key account region keyid mutate d =
     (case get_kms_key account region keyid d of
        Inl e \<Rightarrow> (Some e, d)
      | Inr k \<Rightarrow> (None, d\<lparr>kms_keys := sql_update (\<lambda>r. kms_pk r = (account, region, keyid))
            (\<lambda>r. r\<lparr>kr_key := (mutate k)\<lparr>k_id := k_id (kr_key r), k_region := k_region (kr_key r)\<rparr>\<rparr>)
            (kms_keys d)\<rparr>))"

section \<open>Handlers\<close>

definition kms_key_ref :: "string \<Rightarrow> string \<Rightarrow> string \<Rightarrow> string" where
  "kms_key_ref account region ref = trim_prefix ref (kms_key_arn region account [])"

definition is_kms_alias :: "string \<Rightarrow> bool" where
  "is_kms_alias ref \<longleftrightarrow> has_prefix ref ''alias/'' \<or> has_prefix ref ''arn:'' \<and> str_contains ref '':alias/''"

definition kms_key_error :: "string \<Rightarrow> go_error \<Rightarrow> response" where
  "kms_key_error ref err =
     (if errors_is err ErrNotFound
      then write_service_error Shape_json11 404 ''NotFoundException'' (''Key '' @ [CHR 39] @ ref @ [CHR 39] @ '' does not exist'')
      else write_aws_error Shape_json11 err)"

text \<open>kmsKey: the key a reference names, or the response that it cannot be read.\<close>

definition kms_key_for :: "string \<Rightarrow> string \<Rightarrow> string \<Rightarrow> db \<Rightarrow> response + kms_key" where
  "kms_key_for account region ref d =
     (case get_kms_key account region (kms_key_ref account region ref) d of
        Inl e \<Rightarrow> Inl (kms_key_error ref e)
      | Inr k \<Rightarrow> Inr k)"

definition kms_update :: "string \<Rightarrow> string \<Rightarrow> string \<Rightarrow> (kms_key \<Rightarrow> kms_key) \<Rightarrow> db \<Rightarrow> response \<times> db" where
  "kms_update account region ref mutate d =
     (case update_kms_key account region (kms_key_ref account region ref) mutate d of
        (Some e, d') \<Rightarrow> (kms_key_error ref e, d')
      | (None, d') \<Rightarrow> (write_json11 200 (JObj []), d'))"

definition kms_key_metadata :: "string \<Rightarrow> kms_key \<Rightarrow> json" where
  "kms_key_metadata account k = JObj
     ([(''AWSAccountId'', JStr account),
       (''KeyId'', JStr (k_id k)),
       (''Arn'', JStr (kms_key_arn (k_region k) account (k_id k))),
       (''CreationDate'', JInt (unix (k_created k))),
       (''Enabled'', JBool (k_state k = kms_enabled)),
       (''Description'', JStr (k_description k)),
       (''KeyUsage'', JStr ''ENCRYPT_DECRYPT''),
       (''KeyState'', JStr (k_state k)),
       (''Origin'', JStr ''AWS_KMS''),
       (''KeyManager'', JStr ''CUSTOMER''),
       (''CustomerMasterKeySpec'', JStr ''SYMMETRIC_DEFAULT''),
       (''KeySpec'', JStr ''SYMMETRIC_DEFAULT''),
       (''MultiRegion'', JBool False),
       (''EncryptionAlgorithms'', JArr [JStr ''SYMMETRIC_DEFAULT''])] @
      (case k_deletion_date k of None \<Rightarrow> [] | Some t \<Rightarrow> [(''DeletionDate'', JInt (unix t))]))"

text \<open>A key id: 16 random bytes as hex, 4-2-2-2-6.\<close>

definition kms_new_key_id :: "nat list \<Rightarrow> string" where
  "kms_new_key_id b = hex_encode (take 4 b) @ ''-'' @ hex_encode (take 2 (drop 4 b)) @ ''-'' @
     hex_encode (take 2 (drop 6 b)) @ ''-'' @ hex_encode (take 2 (drop 8 b)) @ ''-'' @ hex_encode (take 6 (drop 10 b))"

definition kms_new_key :: "env \<Rightarrow> string \<Rightarrow> json option \<Rightarrow> kms_key" where
  "kms_new_key env region b =
     (let desc = snd (unmarshal (field_string ''Description'') b);
          tags = snd (unmarshal (field_pairs ''TagKey'' ''TagValue'' ''Tags'') b)
      in \<lparr>k_id = kms_new_key_id (rand_read 0 env), k_region = region, k_state = kms_enabled,
          k_created = e_now env, k_deletion_date = None, k_rotation_enabled = False,
          k_description = desc, k_tags = gm_set_all tags []\<rparr>)"

definition kms_create_key :: "env \<Rightarrow> string \<Rightarrow> string \<Rightarrow> json option \<Rightarrow> db \<Rightarrow> response \<times> db" where
  "kms_create_key env account region b d =
     (let k = kms_new_key env region b
      in case create_kms_key account k d of
           (Some e, d') \<Rightarrow> (write_aws_error Shape_json11 e, d')
         | (None, d') \<Rightarrow> (write_json11 200 (JObj [(''KeyMetadata'', kms_key_metadata account k)]), d'))"

definition body_key_id :: "json option \<Rightarrow> string" where
  "body_key_id b = snd (unmarshal (field_string ''KeyId'') b)"

definition kms_describe_key :: "string \<Rightarrow> string \<Rightarrow> json option \<Rightarrow> db \<Rightarrow> response" where
  "kms_describe_key account region b d =
     (if is_kms_alias (body_key_id b) then mark_class Filter_refused write_unimplemented
      else case kms_key_for account region (body_key_id b) d of
        Inl r \<Rightarrow> r
      | Inr k \<Rightarrow> write_json11 200 (JObj [(''KeyMetadata'', kms_key_metadata account k)]))"

definition kms_list_keys :: "string \<Rightarrow> string \<Rightarrow> db \<Rightarrow> response" where
  "kms_list_keys account region d =
     write_json11 200 (JObj
       [(''Keys'', JArr (map (\<lambda>k. JObj [(''KeyId'', JStr (k_id k)),
            (''KeyArn'', JStr (kms_key_arn region account (k_id k)))]) (list_kms_keys account region d))),
        (''Truncated'', JBool False)])"

definition kms_default_policy :: "string \<Rightarrow> string" where
  "kms_default_policy account =
     ''{\"Version\":\"2012-10-17\",\"Statement\":[{\"Sid\":\"Enable IAM User Permissions\",\"Effect\":\"Allow\",\"Principal\":{\"AWS\":\"arn:aws:iam::'' @
     account @ '':root\"},\"Action\":\"kms:*\",\"Resource\":\"*\"}]}''"

definition kms_get_key_policy :: "string \<Rightarrow> string \<Rightarrow> json option \<Rightarrow> db \<Rightarrow> response" where
  "kms_get_key_policy account region b d =
     (case kms_key_for account region (body_key_id b) d of
        Inl r \<Rightarrow> r
      | Inr k \<Rightarrow> write_json11 200 (JObj [(''Policy'', JStr (kms_default_policy account)), (''PolicyName'', JStr ''default'')]))"

definition kms_deletion_date :: "env \<Rightarrow> int \<Rightarrow> int" where
  "kms_deletion_date env days =
     (if days = 0 then time_add (e_now env) (duration_days 7) else time_add (e_now env) (duration_days days))"

definition kms_schedule_key_deletion :: "env \<Rightarrow> string \<Rightarrow> string \<Rightarrow> json option \<Rightarrow> db \<Rightarrow> response \<times> db" where
  "kms_schedule_key_deletion env account region b d =
     (let ref = body_key_id b;
          date = kms_deletion_date env (snd (unmarshal (field_int ''PendingWindowInDays'') b))
      in case update_kms_key account region (kms_key_ref account region ref)
                (\<lambda>k. k\<lparr>k_state := kms_pending_deletion, k_deletion_date := Some date\<rparr>) d of
           (Some e, d') \<Rightarrow> (kms_key_error ref e, d')
         | (None, d') \<Rightarrow> (write_json11 200 (JObj [(''KeyId'', JStr ref), (''DeletionDate'', JInt (unix date))]), d'))"

definition kms_get_key_rotation_status :: "string \<Rightarrow> string \<Rightarrow> json option \<Rightarrow> db \<Rightarrow> response" where
  "kms_get_key_rotation_status account region b d =
     (case kms_key_for account region (body_key_id b) d of
        Inl r \<Rightarrow> r
      | Inr k \<Rightarrow> write_json11 200 (JObj [(''KeyRotationEnabled'', JBool (k_rotation_enabled k))]))"

definition kms_set_key_rotation :: "string \<Rightarrow> string \<Rightarrow> json option \<Rightarrow> bool \<Rightarrow> db \<Rightarrow> response \<times> db" where
  "kms_set_key_rotation account region b enable d =
     kms_update account region (body_key_id b) (\<lambda>k. k\<lparr>k_rotation_enabled := enable\<rparr>) d"

definition kms_update_key_description :: "string \<Rightarrow> string \<Rightarrow> json option \<Rightarrow> db \<Rightarrow> response \<times> db" where
  "kms_update_key_description account region b d =
     (let desc = snd (unmarshal (field_string ''Description'') b)
      in kms_update account region (body_key_id b) (\<lambda>k. k\<lparr>k_description := desc\<rparr>) d)"

definition kms_list_resource_tags :: "string \<Rightarrow> string \<Rightarrow> json option \<Rightarrow> db \<Rightarrow> response" where
  "kms_list_resource_tags account region b d =
     (case kms_key_for account region (body_key_id b) d of
        Inl r \<Rightarrow> r
      | Inr k \<Rightarrow> write_json11 200 (JObj [(''Tags'',
            JArr (map (\<lambda>(kk, vv). JObj [(''TagKey'', JStr kk), (''TagValue'', JStr vv)]) (k_tags k)))]))"

definition kms_add_tags :: "(string \<times> string) list \<Rightarrow> kms_key \<Rightarrow> kms_key" where
  "kms_add_tags ts k = k\<lparr>k_tags := gm_set_all ts (k_tags k)\<rparr>"

definition kms_remove_tags :: "string list \<Rightarrow> kms_key \<Rightarrow> kms_key" where
  "kms_remove_tags ks k = k\<lparr>k_tags := gm_del_all ks (k_tags k)\<rparr>"

definition kms_tag_resource :: "string \<Rightarrow> string \<Rightarrow> json option \<Rightarrow> db \<Rightarrow> response \<times> db" where
  "kms_tag_resource account region b d =
     kms_update account region (body_key_id b)
       (kms_add_tags (snd (unmarshal (field_pairs ''TagKey'' ''TagValue'' ''Tags'') b))) d"

definition kms_untag_resource :: "string \<Rightarrow> string \<Rightarrow> json option \<Rightarrow> db \<Rightarrow> response \<times> db" where
  "kms_untag_resource account region b d =
     kms_update account region (body_key_id b)
       (kms_remove_tags (snd (unmarshal (field_strings ''TagKeys'') b))) d"

definition kms_dispatch ::
  "env \<Rightarrow> string \<Rightarrow> string \<Rightarrow> string \<Rightarrow> json option \<Rightarrow> db \<Rightarrow> response \<times> db" where
  "kms_dispatch env account region oper b d =
     (if oper = ''CreateKey'' then kms_create_key env account region b d
      else if oper = ''DescribeKey'' then (kms_describe_key account region b d, d)
      else if oper = ''ListKeys'' then (kms_list_keys account region d, d)
      else if oper = ''GetKeyPolicy'' then (kms_get_key_policy account region b d, d)
      else if oper = ''PutKeyPolicy'' then (write_json11 200 (JObj []), d)
      else if oper = ''GetKeyRotationStatus'' then (kms_get_key_rotation_status account region b d, d)
      else if oper = ''EnableKeyRotation'' then kms_set_key_rotation account region b True d
      else if oper = ''DisableKeyRotation'' then kms_set_key_rotation account region b False d
      else if oper = ''UpdateKeyDescription'' then kms_update_key_description account region b d
      else if oper = ''ListResourceTags'' then (kms_list_resource_tags account region b d, d)
      else if oper = ''TagResource'' then kms_tag_resource account region b d
      else if oper = ''UntagResource'' then kms_untag_resource account region b d
      else if oper = ''ListAliases'' then (write_json11 200 (JObj [(''Aliases'', JArr [])]), d)
      else if oper \<in> {''CreateAlias'', ''UpdateAlias'', ''DeleteAlias''} then (write_json11 200 (JObj []), d)
      else if oper = ''ScheduleKeyDeletion'' then kms_schedule_key_deletion env account region b d
      else if oper = ''CancelKeyDeletion'' then (write_json11 200 (JObj []), d)
      else if oper \<in> {''EnableKey'', ''DisableKey''} then (write_json11 200 (JObj []), d)
      else (mark_class Not_modelled_404 (write_aws_error Shape_json11 ErrNotFound), d))"

definition handle_kms :: "env \<Rightarrow> string \<Rightarrow> request \<Rightarrow> db \<Rightarrow> response \<times> db" where
  "handle_kms env region r d =
     (case parse_x_amz_target r of
        Inl e \<Rightarrow> (write_aws_error Shape_json11 ErrConflict, d)
      | Inr q \<Rightarrow> kms_dispatch env (account_id d) region (x_operation q) (x_body q) d)"

text \<open>The kms block of /mock/state.\<close>

definition gather_kms_state :: "string \<Rightarrow> db \<Rightarrow> json" where
  "gather_kms_state account d = JObj [(''keys'', JArr (map (\<lambda>k. JObj
     [(''key_id'', JStr (k_id k)), (''arn'', JStr (kms_key_arn (k_region k) account (k_id k))),
      (''state'', JStr (k_state k)), (''region'', JStr (k_region k)), (''account'', JStr account)])
     (list_kms_keys account [] d)))]"

section \<open>Keys after an operation\<close>

lemma get_kms_key_id: "get_kms_key a rg i d = Inr k \<Longrightarrow> k_id k = i \<and> k_region k = rg"
  by (auto simp: get_kms_key_def kms_pk_def find_Some_iff split: option.splits)

lemma get_kms_key_cong: "kms_keys d' = kms_keys d \<Longrightarrow> get_kms_key a rg i d' = get_kms_key a rg i d"
  by (simp add: get_kms_key_def)

lemma kms_pk_keep [simp]:
  "kms_pk (r\<lparr>kr_key := k\<lparr>k_id := k_id (kr_key r), k_region := k_region (kr_key r)\<rparr>\<rparr>) = kms_pk r"
  by (simp add: kms_pk_def)

lemma update_kms_key_missing:
  "get_kms_key a rg i d = Inl e \<Longrightarrow> update_kms_key a rg i f d = (Some e, d)"
  by (simp add: update_kms_key_def)

text \<open>An update that leaves the key columns alone is seen by the next read of that key only.\<close>

lemma update_kms_key_found:
  assumes "get_kms_key a rg i d = Inr k" and "\<And>k. k_id (f k) = k_id k" and "\<And>k. k_region (f k) = k_region k"
  obtains d' where "update_kms_key a rg i f d = (None, d')"
    and "\<And>a' rg' i'. get_kms_key a' rg' i' d' = (if (a', rg', i') = (a, rg, i) then Inr (f k) else get_kms_key a' rg' i' d)"
proof -
  let ?w = "\<lambda>r. r\<lparr>kr_key := (f k)\<lparr>k_id := k_id (kr_key r), k_region := k_region (kr_key r)\<rparr>\<rparr>"
  let ?d = "d\<lparr>kms_keys := sql_update (\<lambda>r. kms_pk r = (a, rg, i)) ?w (kms_keys d)\<rparr>"
  from assms(1) obtain r where r: "find (\<lambda>r. kms_pk r = (a, rg, i)) (kms_keys d) = Some r" "kr_key r = k"
    by (auto simp: get_kms_key_def split: option.splits)
  have f: "(f k)\<lparr>k_id := i, k_region := rg\<rparr> = f k"
    using assms get_kms_key_id [OF assms(1)] by simp
  have k: "k_id k = i" "k_region k = rg"
    using get_kms_key_id [OF assms(1)] by simp_all
  show thesis
  proof (rule that)
    show "update_kms_key a rg i f d = (None, ?d)"
      using assms(1) by (simp add: update_kms_key_def)
    show "get_kms_key a' rg' i' ?d = (if (a', rg', i') = (a, rg, i) then Inr (f k) else get_kms_key a' rg' i' d)"
      for a' rg' i'
      using r f k by (auto simp: get_kms_key_def find_sql_update_key split: option.split)
  qed
qed

lemma kms_update_found:
  assumes "get_kms_key a rg (kms_key_ref a rg ref) d = Inr k"
    and "\<And>k. k_id (f k) = k_id k" and "\<And>k. k_region (f k) = k_region k"
  obtains d' where "kms_update a rg ref f d = (write_json11 200 (JObj []), d')"
    and "\<And>a' rg' i'. get_kms_key a' rg' i' d' =
      (if (a', rg', i') = (a, rg, kms_key_ref a rg ref) then Inr (f k) else get_kms_key a' rg' i' d)"
proof -
  obtain d' where d': "update_kms_key a rg (kms_key_ref a rg ref) f d = (None, d')"
    "\<And>a' rg' i'. get_kms_key a' rg' i' d' =
       (if (a', rg', i') = (a, rg, kms_key_ref a rg ref) then Inr (f k) else get_kms_key a' rg' i' d)"
    using update_kms_key_found [of a rg "kms_key_ref a rg ref" d k f] assms by metis
  show thesis
    by (rule that [of d']) (use d' in \<open>simp_all add: kms_update_def\<close>)
qed

lemma kms_update_missing:
  "get_kms_key a rg (kms_key_ref a rg ref) d = Inl e \<Longrightarrow> kms_update a rg ref f d = (kms_key_error ref e, d)"
  by (simp add: kms_update_def update_kms_key_missing)

text \<open>Every operation but CreateKey is a read, or an update of one key.\<close>

lemma update_kms_key_frame:
  "\<exists>t. snd (update_kms_key a rg i f d) = d\<lparr>kms_keys := t\<rparr> \<and> map kms_pk t = map kms_pk (kms_keys d)"
proof (cases "get_kms_key a rg i d")
  case (Inl e)
  then show ?thesis by (intro exI [of _ "kms_keys d"]) (simp add: update_kms_key_missing)
next
  case (Inr k)
  then show ?thesis
    by (intro exI) (auto simp: update_kms_key_def intro!: map_key_update)
qed

lemma snd_kms_update: "snd (kms_update a rg ref f d) = snd (update_kms_key a rg (kms_key_ref a rg ref) f d)"
  by (simp add: kms_update_def split: prod.split option.split)

lemma snd_kms_schedule:
  "snd (kms_schedule_key_deletion env a rg b d) =
     snd (update_kms_key a rg (kms_key_ref a rg (body_key_id b))
       (\<lambda>k. k\<lparr>k_state := kms_pending_deletion,
             k_deletion_date := Some (kms_deletion_date env (snd (unmarshal (field_int ''PendingWindowInDays'') b)))\<rparr>) d)"
  by (simp add: kms_schedule_key_deletion_def Let_def split: prod.split option.split)

lemma create_kms_key_frame:
  "\<exists>t. snd (create_kms_key a k d) = d\<lparr>kms_keys := t\<rparr> \<and> (pk kms_pk (kms_keys d) \<longrightarrow> pk kms_pk t) \<and>
     (\<forall>a' rg' i'. get_kms_key a' rg' i' d = Inr k' \<longrightarrow> get_kms_key a' rg' i' (snd (create_kms_key a k d)) = Inr k')"
proof (cases "insert_row kms_pk \<lparr>kr_account = a, kr_key = k\<rparr> (kms_keys d)")
  case (Inl e)
  then show ?thesis by (intro exI [of _ "kms_keys d"]) (simp add: create_kms_key_def)
next
  case (Inr t)
  have "t = kms_keys d @ [\<lparr>kr_account = a, kr_key = k\<rparr>]"
    using Inr by (simp add: insert_row_find split: option.splits)
  with Inr show ?thesis
    by (intro exI [of _ t]) (auto simp: create_kms_key_def get_kms_key_def find_snoc
        intro: pk_insert_row split: option.splits)
qed

text \<open>So a request is a read, an insert of a new key, or an update of one key that keeps its columns.\<close>

definition keeps_key :: "(kms_key \<Rightarrow> kms_key) \<Rightarrow> bool" where
  "keeps_key f \<longleftrightarrow> (\<forall>k. k_id (f k) = k_id k \<and> k_region (f k) = k_region k \<and> k_created (f k) = k_created k \<and>
     (k_state (f k) = k_state k \<or> k_state (f k) = kms_pending_deletion))"

inductive kms_step :: "string \<Rightarrow> string \<Rightarrow> db \<Rightarrow> db \<Rightarrow> bool" for a rg where
  kms_read: "kms_step a rg d d"
| kms_create: "kms_step a rg d (snd (create_kms_key a k d))"
| kms_change: "keeps_key f \<Longrightarrow> kms_step a rg d (snd (update_kms_key a rg i f d))"

inductive_cases kms_stepE [consumes 1, case_names kms_read kms_create kms_change]: "kms_step a rg d d'"

lemma snd_kms_create_key:
  "snd (kms_create_key env a rg b d) = snd (create_kms_key a (kms_new_key env rg b) d)"
  by (simp add: kms_create_key_def Let_def split: prod.split option.split)

lemma kms_create_key_step: "kms_step a rg d (snd (kms_create_key env a rg b d))"
  by (simp add: snd_kms_create_key kms_create)

lemma kms_update_step: "keeps_key f \<Longrightarrow> kms_step a rg d (snd (kms_update a rg ref f d))"
  by (simp add: snd_kms_update kms_change)

lemma kms_schedule_step: "kms_step a rg d (snd (kms_schedule_key_deletion env a rg b d))"
  unfolding snd_kms_schedule by (rule kms_change) (simp add: keeps_key_def)

lemma kms_read_step: "kms_step a rg d (snd (resp, d))"
  by (simp add: kms_read)

lemma keeps_key_updates:
  "keeps_key (\<lambda>k. k\<lparr>k_rotation_enabled := en\<rparr>)" "keeps_key (\<lambda>k. k\<lparr>k_description := s\<rparr>)"
  "keeps_key (kms_add_tags ts)" "keeps_key (kms_remove_tags ks)"
  by (simp_all add: keeps_key_def kms_add_tags_def kms_remove_tags_def)

lemma kms_set_key_rotation_step: "kms_step a rg d (snd (kms_set_key_rotation a rg b en d))"
  unfolding kms_set_key_rotation_def by (rule kms_update_step [OF keeps_key_updates(1)])

lemma kms_update_key_description_step: "kms_step a rg d (snd (kms_update_key_description a rg b d))"
  unfolding kms_update_key_description_def Let_def by (rule kms_update_step [OF keeps_key_updates(2)])

lemma kms_tag_resource_step: "kms_step a rg d (snd (kms_tag_resource a rg b d))"
  unfolding kms_tag_resource_def by (rule kms_update_step [OF keeps_key_updates(3)])

lemma kms_untag_resource_step: "kms_step a rg d (snd (kms_untag_resource a rg b d))"
  unfolding kms_untag_resource_def by (rule kms_update_step [OF keeps_key_updates(4)])

lemmas kms_op_steps = kms_read_step kms_create_key_step kms_schedule_step kms_set_key_rotation_step
  kms_update_key_description_step kms_tag_resource_step kms_untag_resource_step

lemma kms_if_step:
  "kms_step a rg d (snd x) \<Longrightarrow> kms_step a rg d (snd y) \<Longrightarrow> kms_step a rg d (snd (if c then x else y))"
  by simp

lemma kms_dispatch_step: "kms_step a rg d (snd (kms_dispatch env a rg oper b d))"
  unfolding kms_dispatch_def by (intro kms_if_step kms_op_steps)

lemma handle_kms_step: "kms_step (account_id d) rg d (snd (handle_kms env rg r d))"
  unfolding handle_kms_def by (cases "parse_x_amz_target r") (simp_all add: kms_read kms_dispatch_step)

section \<open>Calls by operation\<close>

definition kms_call :: "string \<Rightarrow> json option \<Rightarrow> request" where
  "kms_call oper b = amz_call ''TrentService'' oper b"

lemma handle_kms_call: "handle_kms env rg (kms_call oper b) d = kms_dispatch env (account_id d) rg oper b d"
  by (simp add: handle_kms_def kms_call_def parse_amz_call)

lemma kms_dispatch_simps:
  "kms_dispatch env a rg ''CreateKey'' b d = kms_create_key env a rg b d"
  "kms_dispatch env a rg ''DescribeKey'' b d = (kms_describe_key a rg b d, d)"
  "kms_dispatch env a rg ''GetKeyPolicy'' b d = (kms_get_key_policy a rg b d, d)"
  "kms_dispatch env a rg ''GetKeyRotationStatus'' b d = (kms_get_key_rotation_status a rg b d, d)"
  "kms_dispatch env a rg ''EnableKeyRotation'' b d = kms_set_key_rotation a rg b True d"
  "kms_dispatch env a rg ''DisableKeyRotation'' b d = kms_set_key_rotation a rg b False d"
  "kms_dispatch env a rg ''UpdateKeyDescription'' b d = kms_update_key_description a rg b d"
  "kms_dispatch env a rg ''ListResourceTags'' b d = (kms_list_resource_tags a rg b d, d)"
  "kms_dispatch env a rg ''TagResource'' b d = kms_tag_resource a rg b d"
  "kms_dispatch env a rg ''UntagResource'' b d = kms_untag_resource a rg b d"
  "kms_dispatch env a rg ''ScheduleKeyDeletion'' b d = kms_schedule_key_deletion env a rg b d"
  by (simp_all add: kms_dispatch_def)

section \<open>Sequences of requests\<close>

type_synonym call = "env \<times> string \<times> request"

definition kms_run :: "call list \<Rightarrow> db \<Rightarrow> db" where
  "kms_run qs d = fold (\<lambda>(env, rg, r) d. snd (handle_kms env rg r d)) qs d"

definition keeps_history :: "kms_key \<Rightarrow> kms_key \<Rightarrow> bool" where
  "keeps_history k k' \<longleftrightarrow> k_id k' = k_id k \<and> k_region k' = k_region k \<and> k_created k' = k_created k \<and>
     (k_state k' = k_state k \<or> k_state k' = kms_pending_deletion)"

lemma keeps_history_refl: "keeps_history k k"
  by (simp add: keeps_history_def)

lemma keeps_history_trans: "keeps_history k k1 \<Longrightarrow> keeps_history k1 k2 \<Longrightarrow> keeps_history k k2"
  by (auto simp: keeps_history_def)

lemma kms_step_history:
  assumes "kms_step a rg d d'" and "get_kms_key a' rg' i d = Inr k"
  shows "\<exists>k'. get_kms_key a' rg' i d' = Inr k' \<and> keeps_history k k'"
  using assms(1)
proof (cases rule: kms_stepE)
  case kms_read
  with assms(2) show ?thesis by (auto simp: keeps_history_refl)
next
  case (kms_create k0)
  moreover have "get_kms_key a' rg' i (snd (create_kms_key a k0 d)) = Inr k"
    using create_kms_key_frame [of a k0 d k] assms(2) by blast
  ultimately show ?thesis by (auto simp: keeps_history_refl)
next
  case (kms_change f j)
  show ?thesis
  proof (cases "get_kms_key a rg j d")
    case (Inl e)
    with kms_change assms(2) show ?thesis by (auto simp: update_kms_key_missing keeps_history_refl)
  next
    case (Inr k0)
    obtain d1 where "update_kms_key a rg j f d = (None, d1)"
      and "\<And>a' rg' i'. get_kms_key a' rg' i' d1 = (if (a', rg', i') = (a, rg, j) then Inr (f k0) else get_kms_key a' rg' i' d)"
      using update_kms_key_found [OF Inr, of f] kms_change by (auto simp: keeps_key_def)
    with kms_change assms(2) Inr show ?thesis by (auto simp: keeps_history_def keeps_key_def)
  qed
qed

lemma kms_step_frame:
  assumes "kms_step a rg d d'"
  shows "\<exists>t. d' = d\<lparr>kms_keys := t\<rparr> \<and> (pk kms_pk (kms_keys d) \<longrightarrow> pk kms_pk t)"
  using assms
proof (cases rule: kms_stepE)
  case kms_read
  then show ?thesis by (intro exI [of _ "kms_keys d"]) simp
next
  case (kms_create k0)
  then show ?thesis using create_kms_key_frame [of a k0 d] by blast
next
  case (kms_change f j)
  then show ?thesis using update_kms_key_frame [of a rg j f d] by (auto simp: pk_def)
qed

lemma kms_step_other:
  assumes "kms_step a rg d d'" and "a' \<noteq> a"
  shows "get_kms_key a' rg' i d' = get_kms_key a' rg' i d"
  using assms(1)
proof (cases rule: kms_stepE)
  case (kms_create k0)
  with assms(2) show ?thesis
    by (auto simp: create_kms_key_def insert_row_find get_kms_key_def kms_pk_def find_snoc
        split: option.splits)
next
  case (kms_change f j)
  with assms(2) show ?thesis
    by (cases "get_kms_key a rg j d")
      (auto simp: update_kms_key_def get_kms_key_def find_sql_update_key split: option.split)
qed simp

lemma keys_ok_handle_kms: "keys_ok d \<Longrightarrow> keys_ok (snd (handle_kms env rg r d))"
  using kms_step_frame [OF handle_kms_step [of d rg env r]] by (auto simp: keys_ok_def)

lemma account_id_kms [simp]: "account_id (d\<lparr>kms_keys := t\<rparr>) = account_id d"
  by (simp add: account_id_def get_identity_def)

lemma account_id_handle_kms: "account_id (snd (handle_kms env rg r d)) = account_id d"
  using kms_step_frame [OF handle_kms_step [of d rg env r]] by auto

section \<open>Unknown keys and tags\<close>

text \<open>The operations that answer about, or change, one key.\<close>

definition kms_key_ops :: "string list" where
  "kms_key_ops = [''DescribeKey'', ''GetKeyPolicy'', ''GetKeyRotationStatus'', ''EnableKeyRotation'',
     ''DisableKeyRotation'', ''UpdateKeyDescription'', ''ListResourceTags'', ''TagResource'',
     ''UntagResource'', ''ScheduleKeyDeletion'']"

definition kms_tags_wf :: "kms_key \<Rightarrow> bool" where
  "kms_tags_wf k = gm_wf (k_tags k)"

interpretation kms_tags: tagging "\<lambda>k. map_of (k_tags k)" kms_add_tags kms_remove_tags kms_tags_wf
  by unfold_locales (auto simp: kms_add_tags_def kms_remove_tags_def kms_tags_wf_def map_of_gm_set_all map_of_gm_del_all)

lemma kms_tags_keep [simp]:
  "k_id (kms_add_tags ts k) = k_id k" "k_region (kms_add_tags ts k) = k_region k"
  "k_id (kms_remove_tags ks k) = k_id k" "k_region (kms_remove_tags ks k) = k_region k"
  by (simp_all add: kms_add_tags_def kms_remove_tags_def)

definition kms_tags_of_response :: "response \<Rightarrow> (string \<times> string) list" where
  "kms_tags_of_response r = listed_pairs ''TagKey'' ''TagValue'' ''Tags'' r"

lemma kms_tags_of_list:
  "kms_tags_of_response (write_json11 s (JObj [(''Tags'',
     JArr (map (\<lambda>(kk, vv). JObj [(''TagKey'', JStr kk), (''TagValue'', JStr vv)]) ts))])) = ts"
  unfolding kms_tags_of_response_def by (rule listed_pairs_of) code_simp

section \<open>References to a key\<close>

lemma set_kms_new_key_id: "set (kms_new_key_id bs) \<subseteq> set ''0123456789abcdef-''"
  using set_hex_encode unfolding kms_new_key_id_def by (fastforce simp only: set_append list.set)

lemma key_id_no_prefix:
  assumes "CHR ''r'' \<in> set p \<or> CHR ''l'' \<in> set p"
  shows "\<not> has_prefix (kms_new_key_id bs) p"
proof
  assume "has_prefix (kms_new_key_id bs) p"
  then have "set p \<subseteq> set ''0123456789abcdef-''"
    using set_kms_new_key_id [of bs] by (auto simp: has_prefix_iff)
  with assms show False by auto
qed

lemma kms_key_ref_id: "kms_key_ref a rg (kms_new_key_id bs) = kms_new_key_id bs"
  unfolding kms_key_ref_def by (rule trim_prefix_other) (simp add: key_id_no_prefix kms_key_arn_def)

lemma kms_key_arn_split: "kms_key_arn rg a i = kms_key_arn rg a [] @ i"
  by (simp add: kms_key_arn_def)

lemma kms_key_ref_arn: "kms_key_ref a rg (kms_key_arn rg a i) = i"
  unfolding kms_key_ref_def by (subst kms_key_arn_split) (rule trim_prefix_append)

lemma kms_key_id_not_alias: "\<not> is_kms_alias (kms_new_key_id bs)"
  by (simp add: is_kms_alias_def key_id_no_prefix)

lemma body_key_id_of: "body_key_id (Some (JObj [(''KeyId'', JStr s)])) = s"
proof -
  have "members ''KeyId'' (JObj [(''KeyId'', JStr s)]) = [JStr s]" by (simp add: members_def)
  then show ?thesis
    by (simp add: body_key_id_def unmarshal_def dec_struct_def field_string_members is_obj_def)
qed

section \<open>Properties\<close>

text \<open>C1. ScheduleKeyDeletion never removes the key: DescribeKey afterwards, by anyone who names the same
  key, still answers 200, with KeyState PendingDeletion, Enabled false and as DeletionDate the date the
  schedule call announced, everything else of the key unchanged.\<close>

theorem kms_schedule_then_describe:
  assumes "get_kms_key (account_id d) rg (kms_key_ref (account_id d) rg (body_key_id b)) d = Inr k"
    and "body_key_id b' = body_key_id b" and "\<not> is_kms_alias (body_key_id b)"
  shows "\<exists>d' date. handle_kms env rg (kms_call ''ScheduleKeyDeletion'' b) d =
      (write_json11 200 (JObj [(''KeyId'', JStr (body_key_id b)), (''DeletionDate'', JInt (unix date))]), d') \<and>
    date = kms_deletion_date env (snd (unmarshal (field_int ''PendingWindowInDays'') b)) \<and>
    handle_kms env' rg (kms_call ''DescribeKey'' b') d' =
      (write_json11 200 (JObj [(''KeyMetadata'', kms_key_metadata (account_id d)
          (k\<lparr>k_state := kms_pending_deletion, k_deletion_date := Some date\<rparr>))]), d') \<and>
    obj_get ''Enabled'' (kms_key_metadata (account_id d)
          (k\<lparr>k_state := kms_pending_deletion, k_deletion_date := Some date\<rparr>)) = Some (JBool False)"
proof -
  let ?a = "account_id d" and ?date = "kms_deletion_date env (snd (unmarshal (field_int ''PendingWindowInDays'') b))"
  let ?f = "\<lambda>k. k\<lparr>k_state := kms_pending_deletion, k_deletion_date := Some ?date\<rparr>"
  obtain d' where d': "update_kms_key ?a rg (kms_key_ref ?a rg (body_key_id b)) ?f d = (None, d')"
    "\<And>a' rg' i'. get_kms_key a' rg' i' d' =
       (if (a', rg', i') = (?a, rg, kms_key_ref ?a rg (body_key_id b)) then Inr (?f k) else get_kms_key a' rg' i' d)"
    using update_kms_key_found [OF assms(1), of ?f] by auto
  moreover have "account_id d' = ?a"
    using update_kms_key_frame [of ?a rg "kms_key_ref ?a rg (body_key_id b)" ?f d] d'(1) by auto
  ultimately show ?thesis
    using assms(2,3)
    by (intro exI [of _ d'] exI [of _ ?date])
      (simp add: handle_kms_call kms_dispatch_simps kms_schedule_key_deletion_def kms_describe_key_def
        kms_key_for_def Let_def kms_key_metadata_def kms_enabled_def kms_pending_deletion_def)
qed

text \<open>Whatever sequence of KMS requests arrives, in any region, a stored key is never lost: it can
  still be read, keeps its id, region and creation time, and once it is PendingDeletion it stays so.\<close>

theorem kms_keys_persist:
  assumes "get_kms_key a rg i d = Inr k"
  shows "\<exists>k'. get_kms_key a rg i (kms_run qs d) = Inr k' \<and> keeps_history k k' \<and>
    (k_state k = kms_pending_deletion \<longrightarrow> k_state k' = kms_pending_deletion)"
  using assms
proof (induction qs arbitrary: d k)
  case Nil
  then show ?case by (simp add: kms_run_def keeps_history_refl)
next
  case (Cons q qs)
  obtain env rg' r where q: "q = (env, rg', r)" by (cases q)
  obtain k1 where k1: "get_kms_key a rg i (snd (handle_kms env rg' r d)) = Inr k1" "keeps_history k k1"
    using kms_step_history [OF handle_kms_step Cons.prems] by blast
  from Cons.IH [OF k1(1)] obtain k' where
    "get_kms_key a rg i (kms_run qs (snd (handle_kms env rg' r d))) = Inr k'" "keeps_history k1 k'" by blast
  then show ?case
    using k1(2) keeps_history_trans [of k k1 k'] by (auto simp: kms_run_def q keeps_history_def)
qed

text \<open>Each operation on one key answers an unknown key with 404 NotFoundException, the code the
  provider reads as gone, and changes nothing.\<close>

theorem kms_unknown_key:
  assumes "oper \<in> set kms_key_ops"
    and "get_kms_key (account_id d) rg (kms_key_ref (account_id d) rg (body_key_id b)) d = Inl ErrNotFound"
    and "\<not> is_kms_alias (body_key_id b)"
  shows "snd (handle_kms env rg (kms_call oper b) d) = d \<and>
    r_status (fst (handle_kms env rg (kms_call oper b) d)) = 404 \<and>
    error_code (fst (handle_kms env rg (kms_call oper b) d)) = Some ''NotFoundException''"
proof -
  have e: "r_status (kms_key_error ref ErrNotFound) = 404 \<and>
      error_code (kms_key_error ref ErrNotFound) = Some ''NotFoundException''" for ref
    unfolding kms_key_error_def by (simp only: errors_is_simps if_True write_service_error_status error_code_service simp_thms)
  have "handle_kms env rg (kms_call oper b) d = (kms_key_error (body_key_id b) ErrNotFound, d)"
    using assms(1) unfolding kms_key_ops_def list.set
    by (elim insertE emptyE; hypsubst)
       (simp_all add: handle_kms_call kms_dispatch_simps kms_describe_key_def kms_get_key_policy_def
         kms_get_key_rotation_status_def kms_set_key_rotation_def kms_update_key_description_def
         kms_list_resource_tags_def kms_tag_resource_def kms_untag_resource_def kms_schedule_key_deletion_def
         kms_key_for_def kms_update_missing update_kms_key_missing assms(2,3) Let_def)
  with e show ?thesis by simp
qed

text \<open>TagResource then ListResourceTags: the list holds every old tag merged with the request's tags,
  the last value of a repeated key winning, and UntagResource takes away exactly the named keys.\<close>

theorem kms_tags_read_back:
  assumes "get_kms_key (account_id d) rg (kms_key_ref (account_id d) rg (body_key_id b)) d = Inr k"
    and "kms_tags_wf k" and "body_key_id b' = body_key_id b" and "body_key_id b'' = body_key_id b"
  shows "let d1 = snd (handle_kms env rg (kms_call ''TagResource'' b) d);
             d2 = snd (handle_kms env rg (kms_call ''UntagResource'' b') d1);
             new = snd (unmarshal (field_pairs ''TagKey'' ''TagValue'' ''Tags'') b);
             gone = snd (unmarshal (field_strings ''TagKeys'') b');
             listed = (\<lambda>d. map_of (kms_tags_of_response (fst (handle_kms env rg (kms_call ''ListResourceTags'' b'') d))))
         in listed d1 = map_of (k_tags k) ++ map_of (rev new) \<and>
            (\<forall>key. listed d2 key = (if key \<in> set gone then None else listed d1 key))"
proof -
  let ?a = "account_id d" and ?id = "kms_key_ref (account_id d) rg (body_key_id b)"
  let ?new = "snd (unmarshal (field_pairs ''TagKey'' ''TagValue'' ''Tags'') b)"
  let ?gone = "snd (unmarshal (field_strings ''TagKeys'') b')"
  have acc: "account_id (snd (handle_kms env rg r x)) = account_id x" for r x
    by (rule account_id_handle_kms)
  have tag: "snd (handle_kms env rg (kms_call ''TagResource'' b) d) = snd (kms_tag_resource ?a rg b d)"
    by (simp add: handle_kms_call kms_dispatch_simps)
  obtain d1 where d1: "kms_tag_resource ?a rg b d = (write_json11 200 (JObj []), d1)"
    "get_kms_key ?a rg ?id d1 = Inr (kms_add_tags ?new k)"
    unfolding kms_tag_resource_def by (rule kms_update_found [OF assms(1), of "kms_add_tags ?new"]) auto
  have a1: "account_id d1 = ?a" using acc [of "kms_call ''TagResource'' b" d] by (simp add: tag d1)
  obtain d2 where d2: "kms_untag_resource ?a rg b' d1 = (write_json11 200 (JObj []), d2)"
    "get_kms_key ?a rg ?id d2 = Inr (kms_remove_tags ?gone (kms_add_tags ?new k))"
    unfolding kms_untag_resource_def assms(3)
    by (rule kms_update_found [OF d1(2), of "kms_remove_tags ?gone"]) auto
  have untag: "snd (handle_kms env rg (kms_call ''UntagResource'' b') d1) = d2"
    by (simp add: handle_kms_call kms_dispatch_simps a1 d2)
  have a2: "account_id d2 = ?a" using acc [of "kms_call ''UntagResource'' b'" d1] by (simp add: untag a1)
  have listed: "kms_tags_of_response (fst (handle_kms env rg (kms_call ''ListResourceTags'' b'') x)) = k_tags kx"
    if "account_id x = ?a" "get_kms_key ?a rg ?id x = Inr kx" for x kx
    using that assms(4)
    by (simp add: handle_kms_call kms_dispatch_simps kms_list_resource_tags_def kms_key_for_def kms_tags_of_list)
  show ?thesis
    using kms_tags.untag_tag [OF assms(2)] kms_tags.tags_tag [OF assms(2)]
    by (simp add: Let_def tag d1 untag listed [OF a1 d1(2)] listed [OF a2 d2(2)])
qed

text \<open>CreateKey then DescribeKey, by the new key's id or by its ARN, answer the same metadata: an
  Enabled key of the caller's account and region. Every other stored key stays as it was.\<close>

theorem kms_create_then_describe:
  assumes "get_kms_key (account_id d) rg (k_id (kms_new_key env rg b)) d = Inl ErrNotFound"
    and "ref = k_id (kms_new_key env rg b) \<or>
         ref = kms_key_arn rg (account_id d) (k_id (kms_new_key env rg b)) \<and> \<not> is_kms_alias ref"
  shows "let (created, d') = handle_kms env rg (kms_call ''CreateKey'' b) d
         in created = write_json11 200 (JObj [(''KeyMetadata'', kms_key_metadata (account_id d) (kms_new_key env rg b))]) \<and>
            handle_kms env' rg (kms_call ''DescribeKey'' (Some (JObj [(''KeyId'', JStr ref)]))) d' = (created, d') \<and>
            (\<forall>a' rg' i'. (a', rg', i') \<noteq> (account_id d, rg, k_id (kms_new_key env rg b)) \<longrightarrow>
               get_kms_key a' rg' i' d' = get_kms_key a' rg' i' d)"
proof -
  let ?a = "account_id d" and ?k = "kms_new_key env rg b"
  let ?d = "d\<lparr>kms_keys := kms_keys d @ [\<lparr>kr_account = ?a, kr_key = ?k\<rparr>]\<rparr>"
  have k: "k_id ?k = kms_new_key_id (rand_read 0 env)" "k_region ?k = rg"
    by (simp_all add: kms_new_key_def Let_def)
  have none: "find (\<lambda>r. kms_pk r = (?a, rg, k_id ?k)) (kms_keys d) = None"
    using assms(1) by (auto simp: get_kms_key_def split: option.splits)
  then have "create_kms_key ?a ?k d = (None, ?d)"
    by (simp add: create_kms_key_def insert_row_find kms_pk_def k)
  then have create: "handle_kms env rg (kms_call ''CreateKey'' b) d =
      (write_json11 200 (JObj [(''KeyMetadata'', kms_key_metadata ?a ?k)]), ?d)"
    by (simp add: handle_kms_call kms_dispatch_simps kms_create_key_def Let_def)
  have get: "get_kms_key a' rg' i' ?d = (if (a', rg', i') = (?a, rg, k_id ?k) then Inr ?k else get_kms_key a' rg' i' d)"
    for a' rg' i'
    using none by (auto simp: get_kms_key_def find_snoc kms_pk_def k split: option.split)
  have ref: "kms_key_ref ?a rg ref = k_id ?k" "\<not> is_kms_alias ref"
    using assms(2) by (auto simp: k kms_key_ref_id kms_key_ref_arn kms_key_id_not_alias)
  show ?thesis
    unfolding create using get by (simp add: handle_kms_call kms_dispatch_simps kms_describe_key_def kms_key_for_def
        body_key_id_of ref)
qed

section \<open>Examples\<close>

definition sample_key :: kms_key where
  "sample_key = \<lparr>k_id = ''k1'', k_region = ''us-east-1'', k_state = ''Enabled'', k_created = 0,
     k_deletion_date = None, k_rotation_enabled = False, k_description = ''d'', k_tags = [(''a'', ''1'')]\<rparr>"

definition sample_kms_db :: db where
  "sample_kms_db = empty_db\<lparr>kms_keys := [\<lparr>kr_account = fake_account_id, kr_key = sample_key\<rparr>]\<rparr>"

definition sample_env :: env where
  "sample_env = \<lparr>e_now = 0, e_rand = [[0, 1, 2, 3, 4, 5, 6, 7, 8, 9, 10, 11, 12, 13, 14, 15]]\<rparr>"

definition sample_key_body :: "json option" where
  "sample_key_body = Some (JObj [(''KeyId'', JStr ''k1'')])"

lemma sample_lookup:
  "get_kms_key (account_id sample_kms_db) ''us-east-1''
     (kms_key_ref (account_id sample_kms_db) ''us-east-1'' (body_key_id sample_key_body)) sample_kms_db = Inr sample_key"
  by code_simp

lemma sample_not_alias: "\<not> is_kms_alias (body_key_id sample_key_body)"
  by code_simp

theorem kms_schedule_then_describe_witness:
  "\<exists>d' date. handle_kms sample_env ''us-east-1'' (kms_call ''ScheduleKeyDeletion'' sample_key_body) sample_kms_db =
      (write_json11 200 (JObj [(''KeyId'', JStr (body_key_id sample_key_body)), (''DeletionDate'', JInt (unix date))]), d')"
  using kms_schedule_then_describe [OF sample_lookup refl sample_not_alias, of sample_env sample_env] by blast

theorem kms_keys_persist_witness:
  "\<exists>k'. get_kms_key fake_account_id ''us-east-1'' ''k1''
     (kms_run [(sample_env, ''us-east-1'', kms_call ''ScheduleKeyDeletion'' sample_key_body)] sample_kms_db) = Inr k' \<and>
     keeps_history sample_key k'"
proof -
  have "get_kms_key fake_account_id ''us-east-1'' ''k1'' sample_kms_db = Inr sample_key" by code_simp
  from kms_keys_persist [OF this] show ?thesis by blast
qed

theorem kms_unknown_key_witness:
  "snd (handle_kms sample_env ''us-east-1'' (kms_call ''DescribeKey'' sample_key_body) empty_db) = empty_db"
proof -
  have "get_kms_key (account_id empty_db) ''us-east-1''
      (kms_key_ref (account_id empty_db) ''us-east-1'' (body_key_id sample_key_body)) empty_db = Inl ErrNotFound"
    by code_simp
  from kms_unknown_key [OF _ this sample_not_alias, of "''DescribeKey''" sample_env] show ?thesis
    by (simp add: kms_key_ops_def)
qed

theorem kms_tags_read_back_witness:
  "let d1 = snd (handle_kms sample_env ''us-east-1'' (kms_call ''TagResource'' sample_key_body) sample_kms_db)
   in map_of (kms_tags_of_response (fst (handle_kms sample_env ''us-east-1''
        (kms_call ''ListResourceTags'' sample_key_body) d1))) ''a'' = Some ''1''"
proof -
  have wf: "kms_tags_wf sample_key" by code_simp
  have new: "snd (unmarshal (field_pairs ''TagKey'' ''TagValue'' ''Tags'') sample_key_body) = []" by code_simp
  show ?thesis
    using kms_tags_read_back [OF sample_lookup wf refl refl, of sample_env]
    by (simp add: Let_def new sample_key_def)
qed

theorem kms_create_then_describe_witness:
  "fst (handle_kms sample_env ''us-east-1'' (kms_call ''CreateKey'' None) sample_kms_db) =
     write_json11 200 (JObj [(''KeyMetadata'', kms_key_metadata (account_id sample_kms_db) (kms_new_key sample_env ''us-east-1'' None))])"
proof -
  have "get_kms_key (account_id sample_kms_db) ''us-east-1'' (k_id (kms_new_key sample_env ''us-east-1'' None)) sample_kms_db
      = Inl ErrNotFound"
    by code_simp
  from kms_create_then_describe [OF this disjI1 [OF refl], of sample_env] show ?thesis
    by (simp add: split_beta)
qed

end
