(* ===== verification/Ssm.thy ===== *)
theory Ssm
  imports Identity Gotime Tags
begin

text \<open>
  SSM Parameter Store: repository/ssm.go and handlers/ssm.go. One row per parameter holds its current
  version. A parameter whose name begins with /aws/service/ is public: read-only through every
  operation. The loader's two functions are not modelled here.
\<close>

section \<open>Repository\<close>

text \<open>SSMParameterPut: a None takes the default on create and keeps the stored value on overwrite.\<close>

record ssm_put =
  sp_name :: string
  sp_type :: string
  sp_value :: string
  sp_allowed_pattern :: string
  sp_description :: "string option"
  sp_data_type :: "string option"
  sp_key_id :: "string option"
  sp_tier :: "string option"
  sp_tags :: gomap
  sp_region :: string
  sp_now :: string

fun coalesce :: "'a option \<Rightarrow> 'a \<Rightarrow> 'a" where
  "coalesce None d = d"
| "coalesce (Some v) d = v"

definition ssm_insert_row :: "ssm_put \<Rightarrow> ssm_parameter" where
  "ssm_insert_row p = \<lparr>p_name = sp_name p, p_type = sp_type p, p_value = sp_value p, p_version = 1,
     p_description = coalesce (sp_description p) [], p_allowed_pattern = sp_allowed_pattern p,
     p_data_type = coalesce (sp_data_type p) ''text'', p_key_id = coalesce (sp_key_id p) [],
     p_tier = coalesce (sp_tier p) ''Standard'', p_tags = sp_tags p, p_region = sp_region p,
     p_last_modified = sp_now p, p_arn = None\<rparr>"

definition ssm_overwrite_row :: "ssm_put \<Rightarrow> ssm_parameter \<Rightarrow> ssm_parameter" where
  "ssm_overwrite_row p old = old\<lparr>p_type := sp_type p, p_value := sp_value p, p_version := p_version old + 1,
     p_allowed_pattern := sp_allowed_pattern p, p_last_modified := sp_now p,
     p_description := coalesce (sp_description p) (p_description old),
     p_data_type := coalesce (sp_data_type p) (p_data_type old),
     p_key_id := coalesce (sp_key_id p) (p_key_id old), p_tier := coalesce (sp_tier p) (p_tier old)\<rparr>"

text \<open>PutSSMParameter: one statement, whose RETURNING version is the stored row's.\<close>

definition put_ssm_parameter :: "string \<Rightarrow> ssm_put \<Rightarrow> bool \<Rightarrow> db \<Rightarrow> int result \<times> db" where
  "put_ssm_parameter account p overwrite d =
     (let row = \<lparr>pr_account = account, pr_param = ssm_insert_row p\<rparr>
      in if overwrite then
           (let t = sql_upsert ssm_pk (\<lambda>old new. old\<lparr>pr_param := ssm_overwrite_row p (pr_param old)\<rparr>) row (ssm_parameters d)
            in (case find (\<lambda>r. ssm_pk r = ssm_pk row) t of
                  None \<Rightarrow> (Inl ErrNotFound, d)
                | Some r \<Rightarrow> (Inr (p_version (pr_param r)), d\<lparr>ssm_parameters := t\<rparr>)))
         else (case insert_row ssm_pk row (ssm_parameters d) of
                 Inl e \<Rightarrow> (Inl e, d)
               | Inr t \<Rightarrow> (Inr (p_version (ssm_insert_row p)), d\<lparr>ssm_parameters := t\<rparr>)))"

definition public_ssm_parameter_prefix :: string where
  "public_ssm_parameter_prefix = ''/aws/service/''"

definition is_public_ssm_parameter :: "string \<Rightarrow> bool" where
  "is_public_ssm_parameter name = has_prefix name public_ssm_parameter_prefix"

definition ssm_parameter_arn_account :: "string \<Rightarrow> string \<Rightarrow> string" where
  "ssm_parameter_arn_account account name = (if is_public_ssm_parameter name then [] else account)"

text \<open>ssmRefArgs: the names the reference could be the derived ARN of.\<close>

definition ssm_ref_args :: "string \<Rightarrow> string \<Rightarrow> string \<Rightarrow> string list" where
  "ssm_ref_args account region ref = (case str_cut ref '':parameter/'' of
       None \<Rightarrow> []
     | Some (_, path) \<Rightarrow>
         filter (\<lambda>name. ssm_parameter_arn region (ssm_parameter_arn_account account name) name = ref)
           [CHR ''/'' # path, path])"

definition ssm_ref_match :: "string \<Rightarrow> string \<Rightarrow> string \<Rightarrow> ssm_row \<Rightarrow> bool" where
  "ssm_ref_match account region ref r \<longleftrightarrow>
     pr_account r = account \<and> p_region (pr_param r) = region \<and>
     (p_name (pr_param r) = ref \<or> p_arn (pr_param r) = Some ref \<or>
      p_arn (pr_param r) = None \<and> p_name (pr_param r) \<in> set (ssm_ref_args account region ref))"

text \<open>
  GetSSMParameter reads the first matching row; the scan follows the primary key, whose order within a
  region is by name.
\<close>

definition get_ssm_parameter :: "string \<Rightarrow> string \<Rightarrow> string \<Rightarrow> db \<Rightarrow> ssm_parameter result" where
  "get_ssm_parameter account region ref d =
     (case sort_key p_name (map pr_param (filter (ssm_ref_match account region ref) (ssm_parameters d))) of
        [] \<Rightarrow> Inl ErrNotFound
      | p # _ \<Rightarrow> Inr p)"

definition list_ssm_parameters :: "string \<Rightarrow> string \<Rightarrow> db \<Rightarrow> ssm_parameter list" where
  "list_ssm_parameters account region d =
     sort_key (\<lambda>p. (p_region p, p_name p))
       (map pr_param (filter (\<lambda>r. pr_account r = account \<and> (region = [] \<or> p_region (pr_param r) = region)) (ssm_parameters d)))"

definition delete_ssm_parameter :: "string \<Rightarrow> string \<Rightarrow> string \<Rightarrow> db \<Rightarrow> go_error option \<times> db" where
  "delete_ssm_parameter account region name d =
     (let p = (\<lambda>r. ssm_pk r = (account, region, name) \<and> \<not> is_public_ssm_parameter (p_name (pr_param r)))
      in if affected p (ssm_parameters d) = 0 then (Some ErrNotFound, d)
         else (None, d\<lparr>ssm_parameters := sql_delete p (ssm_parameters d)\<rparr>))"

text \<open>A merge patch of tags: a value sets a tag, a null removes it.\<close>

definition patch_tags :: "(string \<times> string option) list \<Rightarrow> gomap \<Rightarrow> gomap" where
  "patch_tags patch m = fold (\<lambda>(k, v) m. case v of None \<Rightarrow> gm_del k m | Some s \<Rightarrow> gm_set k s m) patch m"

definition patch_ssm_parameter_tags ::
  "string \<Rightarrow> string \<Rightarrow> string \<Rightarrow> (string \<times> string option) list \<Rightarrow> db \<Rightarrow> go_error option \<times> db" where
  "patch_ssm_parameter_tags account region ref patch d =
     (let p = (\<lambda>r. ssm_ref_match account region ref r \<and> \<not> is_public_ssm_parameter (p_name (pr_param r)))
      in if affected p (ssm_parameters d) = 0 then (Some ErrNotFound, d)
         else (None, d\<lparr>ssm_parameters :=
                sql_update p (\<lambda>r. r\<lparr>pr_param := (pr_param r)\<lparr>p_tags := patch_tags patch (p_tags (pr_param r))\<rparr>\<rparr>)
                  (ssm_parameters d)\<rparr>))"

section \<open>Handlers\<close>

definition ssm_error :: "string \<Rightarrow> string \<Rightarrow> response" where
  "ssm_error code message = write_service_error Shape_json11 400 code message"

text \<open>ssmDecode's answer; the decoder's own text is left out.\<close>

definition ssm_bad_body :: response where
  "ssm_bad_body = ssm_error ''ValidationException'' ''invalid request body: ''"

definition ssm_not_found :: "string \<Rightarrow> go_error \<Rightarrow> response" where
  "ssm_not_found name err =
     (if errors_is err ErrNotFound then ssm_error ''ParameterNotFound'' (''Parameter '' @ name @ '' not found.'')
      else write_aws_error Shape_json11 err)"

definition ssm_parameter_types :: "string list" where
  "ssm_parameter_types = [''String'', ''StringList'', ''SecureString'']"

definition ssm_prefix_message :: string where
  "ssm_prefix_message = ''Parameter name: can'' @ [CHR 39] @ ''t be prefixed with \"aws\" or \"ssm\" (case-insensitive).''"

definition ssm_tags_overwrite_message :: string where
  "ssm_tags_overwrite_message = ''Invalid request: tags and overwrite can'' @ [CHR 39] @ ''t be used together. To create a parameter with tags, please remove overwrite flag. To update tags for an existing parameter, please use AddTagsToResource or RemoveTagsFromResource.''"

definition ssm_type_message :: "string \<Rightarrow> string" where
  "ssm_type_message typ = ''Parameter type '' @ go_quote typ @ '' must be one of '' @ join_with '', '' ssm_parameter_types @ ''.''"

definition ssm_put_validation :: "string \<Rightarrow> string \<Rightarrow> bool \<Rightarrow> string" where
  "ssm_put_validation name typ overwrite_with_tags =
     (let low = lower (trim_prefix name ''/'')
      in if name = [] then ''Parameter name must not be empty.''
         else if has_prefix low ''aws'' \<or> has_prefix low ''ssm'' then ssm_prefix_message
         else if typ \<notin> set ssm_parameter_types then ssm_type_message typ
         else if overwrite_with_tags then ssm_tags_overwrite_message
         else [])"

definition ssm_put_decode :: "env \<Rightarrow> string \<Rightarrow> json option \<Rightarrow> ssm_put \<times> bool \<times> (string \<times> string) list" where
  "ssm_put_decode env region b =
     (let tags = snd (unmarshal (field_pairs ''Key'' ''Value'' ''Tags'') b)
      in (\<lparr>sp_name = snd (unmarshal (field_string ''Name'') b),
           sp_type = snd (unmarshal (field_string ''Type'') b),
           sp_value = snd (unmarshal (field_string ''Value'') b),
           sp_allowed_pattern = snd (unmarshal (field_string ''AllowedPattern'') b),
           sp_description = snd (unmarshal (field_opt_string ''Description'') b),
           sp_data_type = snd (unmarshal (field_opt_string ''DataType'') b),
           sp_key_id = snd (unmarshal (field_opt_string ''KeyId'') b),
           sp_tier = snd (unmarshal (field_opt_string ''Tier'') b),
           sp_tags = gm_set_all tags [], sp_region = region, sp_now = show_int (unix (e_now env))\<rparr>,
          snd (unmarshal (field_bool ''Overwrite'') b), tags))"

text \<open>The body decodes without an error: every field does.\<close>

definition ssm_put_decodes :: "json option \<Rightarrow> bool" where
  "ssm_put_decodes b \<longleftrightarrow>
     list_all (\<lambda>f. fst (unmarshal (field_string f) b)) [''Name'', ''Type'', ''Value'', ''AllowedPattern''] \<and>
     list_all (\<lambda>f. fst (unmarshal (field_opt_string f) b)) [''Description'', ''DataType'', ''KeyId'', ''Tier''] \<and>
     fst (unmarshal (field_bool ''Overwrite'') b) \<and>
     fst (unmarshal (field_pairs ''Key'' ''Value'' ''Tags'') b)"

definition ssm_exists_message :: string where
  "ssm_exists_message = ''The parameter already exists. To overwrite this value, set the overwrite option in the request to true.''"

definition ssm_put_answer :: "int result \<Rightarrow> response" where
  "ssm_put_answer v = (case v of
       Inl e \<Rightarrow> (if errors_is e ErrConflict then ssm_error ''ParameterAlreadyExists'' ssm_exists_message
                else write_aws_error Shape_json11 e)
     | Inr n \<Rightarrow> write_json11 200 (JObj [(''Version'', JInt n)]))"

definition ssm_put_parameter :: "env \<Rightarrow> string \<Rightarrow> string \<Rightarrow> json option \<Rightarrow> db \<Rightarrow> response \<times> db" where
  "ssm_put_parameter env account region b d =
     (if \<not> ssm_put_decodes b then (ssm_bad_body, d)
      else (case ssm_put_decode env region b of (p, overwrite, tags) \<Rightarrow>
        (let msg = ssm_put_validation (sp_name p) (sp_type p) (overwrite \<and> tags \<noteq> [])
         in if msg \<noteq> [] then (ssm_error ''ValidationException'' msg, d)
            else (case put_ssm_parameter account p overwrite d of (v, d') \<Rightarrow> (ssm_put_answer v, d')))))"

definition al2023_parameter_name :: string where
  "al2023_parameter_name = ''/aws/service/ami-amazon-linux-latest/al2023-ami-kernel-default-x86_64''"

text \<open>The parameter's recorded ARN, else the one its name, region and account derive.\<close>

definition ssm_arn_of :: "string \<Rightarrow> ssm_parameter \<Rightarrow> string" where
  "ssm_arn_of account p =
     (if coalesce (p_arn p) [] \<noteq> [] then coalesce (p_arn p) []
      else ssm_parameter_arn (p_region p) (ssm_parameter_arn_account account (p_name p)) (p_name p))"

definition ssm_get_parameter_body :: "string \<Rightarrow> ssm_parameter \<Rightarrow> json" where
  "ssm_get_parameter_body account p = JObj [(''Parameter'', JObj
     [(''ARN'', JStr (ssm_arn_of account p)), (''Name'', JStr (p_name p)), (''Type'', JStr (p_type p)),
      (''DataType'', JStr (p_data_type p)), (''Value'', JStr (p_value p)), (''Version'', JInt (p_version p)),
      (''LastModifiedDate'', JLit (p_last_modified p))])]"

definition al2023_body :: "string \<Rightarrow> json" where
  "al2023_body region = JObj [(''Parameter'', JObj
     [(''ARN'', JStr (ssm_parameter_arn region [] al2023_parameter_name)), (''Name'', JStr al2023_parameter_name),
      (''Type'', JStr ''String''), (''DataType'', JStr ''text''), (''Value'', JStr al2023_ami_id), (''Version'', JInt 1)])]"

definition ssm_get_parameter :: "string \<Rightarrow> string \<Rightarrow> json option \<Rightarrow> db \<Rightarrow> response" where
  "ssm_get_parameter account region b d =
     (let name = snd (unmarshal (field_string ''Name'') b)
      in if \<not> fst (unmarshal (field_string ''Name'') b) then ssm_bad_body
         else if (name = al2023_parameter_name \<or> name = ssm_parameter_arn region [] al2023_parameter_name) \<and> \<not> db_loaded d
         then write_json11 200 (al2023_body region)
         else (case get_ssm_parameter account region name d of
             Inl e \<Rightarrow> ssm_not_found name e
           | Inr p \<Rightarrow> write_json11 200 (ssm_get_parameter_body account p)))"

record ssm_filter =
  sf_key :: string
  sf_option :: string
  sf_values :: "string list"

definition dec_ssm_filter :: "ssm_filter dec" where
  "dec_ssm_filter j =
     (fst (field_string ''Key'' j) \<and> fst (field_string ''Option'' j) \<and> fst (field_strings ''Values'' j) \<and> is_obj j,
      Some \<lparr>sf_key = snd (field_string ''Key'' j), sf_option = snd (field_string ''Option'' j),
            sf_values = snd (field_strings ''Values'' j)\<rparr>)"

definition ssm_filters :: "json \<Rightarrow> bool \<times> ssm_filter list" where
  "ssm_filters = field_list \<lparr>sf_key = [], sf_option = [], sf_values = []\<rparr> dec_ssm_filter ''ParameterFilters''"

text \<open>The Filters field is a list of raw messages, of which only the number matters.\<close>

definition ssm_raw_filters :: "json \<Rightarrow> bool \<times> json list" where
  "ssm_raw_filters = field_list JNull (\<lambda>j. (True, Some j)) ''Filters''"

definition ssm_parameter_metadata :: "string \<Rightarrow> ssm_parameter \<Rightarrow> json" where
  "ssm_parameter_metadata account p = JObj
     ([(''ARN'', JStr (ssm_arn_of account p)), (''Name'', JStr (p_name p)), (''Type'', JStr (p_type p)),
       (''Version'', JInt (p_version p)), (''Description'', JStr (p_description p)),
       (''AllowedPattern'', JStr (p_allowed_pattern p)), (''DataType'', JStr (p_data_type p)),
       (''Tier'', JStr (p_tier p)), (''Policies'', JArr []), (''LastModifiedDate'', JLit (p_last_modified p))] @
      (if p_type p = ''SecureString''
       then [(''KeyId'', JStr (if p_key_id p = [] then ''alias/aws/ssm'' else p_key_id p))] else []))"

definition ssm_listed :: "ssm_filter list \<Rightarrow> ssm_parameter \<Rightarrow> bool" where
  "ssm_listed fs p \<longleftrightarrow> \<not> is_public_ssm_parameter (p_name p) \<and> list_all (\<lambda>f. p_name p \<in> set (sf_values f)) fs"

definition ssm_describe_parameters :: "string \<Rightarrow> string \<Rightarrow> json option \<Rightarrow> db \<Rightarrow> response" where
  "ssm_describe_parameters account region b d =
     (let fs = snd (unmarshal ssm_filters b)
      in if \<not> (fst (unmarshal ssm_filters b) \<and> fst (unmarshal ssm_raw_filters b)) then ssm_bad_body
         else if \<exists>f\<in>set fs. sf_key f \<noteq> ''Name'' \<or> sf_option f \<notin> {[], ''Equals''}
         then mark_class Filter_refused write_unimplemented
         else if snd (unmarshal ssm_raw_filters b) \<noteq> [] then mark_class Filter_refused write_unimplemented
         else write_json11 200 (JObj [(''Parameters'',
           JArr (map (ssm_parameter_metadata account) (filter (ssm_listed fs) (list_ssm_parameters account region d))))]))"

definition ssm_delete_parameter :: "string \<Rightarrow> string \<Rightarrow> json option \<Rightarrow> db \<Rightarrow> response \<times> db" where
  "ssm_delete_parameter account region b d =
     (let name = snd (unmarshal (field_string ''Name'') b)
      in if \<not> fst (unmarshal (field_string ''Name'') b) then (ssm_bad_body, d)
         else (case delete_ssm_parameter account region name d of
             (Some e, d') \<Rightarrow> (ssm_not_found name e, d')
           | (None, d') \<Rightarrow> (write_json11 200 (JObj []), d')))"

definition ssm_tag_error :: "go_error \<Rightarrow> response" where
  "ssm_tag_error err =
     (if errors_is err ErrNotFound
      then ssm_error ''InvalidResourceId'' ''The resource ID is not valid. Verify that you entered the correct ID and try again.''
      else write_aws_error Shape_json11 err)"

record ssm_tag_request =
  st_resource_id :: string
  st_tags :: "(string \<times> string) list"
  st_tag_keys :: "string list"

definition ssm_decode_tag_request :: "json option \<Rightarrow> response + ssm_tag_request" where
  "ssm_decode_tag_request b =
     (if \<not> (fst (unmarshal (field_string ''ResourceType'') b) \<and> fst (unmarshal (field_string ''ResourceId'') b) \<and>
            fst (unmarshal (field_pairs ''Key'' ''Value'' ''Tags'') b) \<and> fst (unmarshal (field_strings ''TagKeys'') b))
      then Inl ssm_bad_body
      else if snd (unmarshal (field_string ''ResourceType'') b) \<noteq> ''Parameter''
      then Inl (mark_class Filter_refused write_unimplemented)
      else Inr \<lparr>st_resource_id = snd (unmarshal (field_string ''ResourceId'') b),
                st_tags = snd (unmarshal (field_pairs ''Key'' ''Value'' ''Tags'') b),
                st_tag_keys = snd (unmarshal (field_strings ''TagKeys'') b)\<rparr>)"

definition ssm_list_tags_for_resource :: "string \<Rightarrow> string \<Rightarrow> json option \<Rightarrow> db \<Rightarrow> response" where
  "ssm_list_tags_for_resource account region b d =
     (case ssm_decode_tag_request b of
        Inl r \<Rightarrow> r
      | Inr i \<Rightarrow> (case get_ssm_parameter account region (st_resource_id i) d of
            Inl e \<Rightarrow> ssm_tag_error e
          | Inr p \<Rightarrow> (if is_public_ssm_parameter (p_name p) then ssm_tag_error ErrNotFound
                     else write_json11 200 (JObj [(''TagList'', tags_as_json_slice (p_tags p))]))))"

text \<open>The patch map of ssmChangeTags: the tags to set, then the keys to remove.\<close>

definition ssm_patch :: "ssm_tag_request \<Rightarrow> (string \<times> string option) list" where
  "ssm_patch i = gm_set_all (map (\<lambda>k. (k, None)) (st_tag_keys i)) (gm_set_all (map (\<lambda>(k, v). (k, Some v)) (st_tags i)) [])"

definition ssm_change_tags :: "string \<Rightarrow> string \<Rightarrow> json option \<Rightarrow> db \<Rightarrow> response \<times> db" where
  "ssm_change_tags account region b d =
     (case ssm_decode_tag_request b of
        Inl r \<Rightarrow> (r, d)
      | Inr i \<Rightarrow> (case patch_ssm_parameter_tags account region (st_resource_id i) (ssm_patch i) d of
            (Some e, d') \<Rightarrow> (ssm_tag_error e, d')
          | (None, d') \<Rightarrow> (write_json11 200 (JObj []), d')))"

definition ssm_dispatch :: "env \<Rightarrow> string \<Rightarrow> string \<Rightarrow> string \<Rightarrow> json option \<Rightarrow> db \<Rightarrow> response \<times> db" where
  "ssm_dispatch env account region oper b d =
     (if oper = ''PutParameter'' then ssm_put_parameter env account region b d
      else if oper = ''GetParameter'' then (ssm_get_parameter account region b d, d)
      else if oper = ''DescribeParameters'' then (ssm_describe_parameters account region b d, d)
      else if oper = ''DeleteParameter'' then ssm_delete_parameter account region b d
      else if oper = ''ListTagsForResource'' then (ssm_list_tags_for_resource account region b d, d)
      else if oper = ''AddTagsToResource'' then ssm_change_tags account region b d
      else if oper = ''RemoveTagsFromResource'' then ssm_change_tags account region b d
      else (write_unimplemented, d))"

definition handle_ssm :: "env \<Rightarrow> string \<Rightarrow> request \<Rightarrow> db \<Rightarrow> response \<times> db" where
  "handle_ssm env region r d =
     (case parse_x_amz_target r of
        Inl e \<Rightarrow> (ssm_error ''ValidationException'' e, d)
      | Inr q \<Rightarrow> ssm_dispatch env (account_id d) region (x_operation q) (x_body q) d)"

text \<open>The ssm block of /mock/state: names, types, versions and regions, never a value.\<close>

definition gather_ssm_state :: "string \<Rightarrow> db \<Rightarrow> json" where
  "gather_ssm_state account d = JObj [(''parameters'', JArr (map (\<lambda>p. JObj
     [(''name'', JStr (p_name p)), (''type'', JStr (p_type p)), (''version'', JInt (p_version p)), (''region'', JStr (p_region p))])
     (filter (\<lambda>p. \<not> is_public_ssm_parameter (p_name p)) (list_ssm_parameters account [] d))))]"

section \<open>Public parameters\<close>

lemma lower_prefix: "has_prefix s p \<Longrightarrow> has_prefix (lower s) (lower p)"
  by (auto simp: has_prefix_iff lower_def)

lemma public_name_refused:
  assumes "is_public_ssm_parameter name"
  shows "ssm_put_validation name typ ow = ssm_prefix_message"
proof -
  obtain t where "name = public_ssm_parameter_prefix @ t"
    using assms by (auto simp: is_public_ssm_parameter_def has_prefix_iff)
  then have n: "name = ''/'' @ ''aws'' @ ''/service/'' @ t" by (simp add: public_ssm_parameter_prefix_def)
  have "has_prefix (lower (''aws'' @ ''/service/'' @ t)) (lower ''aws'')"
    by (intro lower_prefix has_prefix_append)
  moreover have "lower ''aws'' = ''aws''" by code_simp
  moreover have "trim_prefix name ''/'' = ''aws'' @ ''/service/'' @ t"
    unfolding n by (rule trim_prefix_append)
  ultimately have "has_prefix (lower (trim_prefix name ''/'')) ''aws''" by simp
  with n show ?thesis by (simp add: ssm_put_validation_def Let_def)
qed

lemma ssm_prefix_message_nonempty: "ssm_prefix_message \<noteq> []"
  by (simp add: ssm_prefix_message_def)

definition public_row :: "ssm_row \<Rightarrow> bool" where
  "public_row r = is_public_ssm_parameter (p_name (pr_param r))"

text \<open>A request is a read, a put of an account parameter, a delete or a patch.\<close>

inductive ssm_step :: "string \<Rightarrow> string \<Rightarrow> db \<Rightarrow> db \<Rightarrow> bool" for a rg where
  ssm_read: "ssm_step a rg d d"
| ssm_put: "\<not> is_public_ssm_parameter (sp_name p) \<Longrightarrow> sp_region p = rg \<Longrightarrow>
    ssm_step a rg d (snd (put_ssm_parameter a p ow d))"
| ssm_delete: "ssm_step a rg d (snd (delete_ssm_parameter a rg n d))"
| ssm_patch: "ssm_step a rg d (snd (patch_ssm_parameter_tags a rg ref pt d))"

inductive_cases ssm_stepE [consumes 1, case_names ssm_read ssm_put ssm_delete ssm_patch]: "ssm_step a rg d d'"

lemma ssm_put_parameter_step: "ssm_step a rg d (snd (ssm_put_parameter env a rg b d))"
proof -
  obtain p ow tags where p: "ssm_put_decode env rg b = (p, ow, tags)" by (cases "ssm_put_decode env rg b")
  then have "sp_region p = rg" by (auto simp: ssm_put_decode_def Let_def)
  then show ?thesis
    using ssm_put [of p rg a d ow] public_name_refused [of "sp_name p"]
    by (cases "is_public_ssm_parameter (sp_name p)")
      (simp_all add: ssm_put_parameter_def p Let_def ssm_read ssm_prefix_message_nonempty split_beta)
qed

lemma ssm_delete_parameter_step: "ssm_step a rg d (snd (ssm_delete_parameter a rg b d))"
proof -
  have "snd (ssm_delete_parameter a rg b d) = d \<or>
      snd (ssm_delete_parameter a rg b d) = snd (delete_ssm_parameter a rg (snd (unmarshal (field_string ''Name'') b)) d)"
    by (simp add: ssm_delete_parameter_def Let_def split: prod.split option.split)
  then show ?thesis by (metis ssm_read ssm_delete)
qed

lemma ssm_change_tags_step: "ssm_step a rg d (snd (ssm_change_tags a rg b d))"
proof (cases "ssm_decode_tag_request b")
  case (Inr i)
  have "snd (ssm_change_tags a rg b d) = snd (patch_ssm_parameter_tags a rg (st_resource_id i) (ssm_patch i) d)"
    by (simp add: ssm_change_tags_def Inr split: prod.split option.split)
  then show ?thesis by (simp add: ssm_step.ssm_patch)
qed (simp add: ssm_change_tags_def ssm_read)

lemma ssm_if_step:
  "ssm_step a rg d (snd x) \<Longrightarrow> ssm_step a rg d (snd y) \<Longrightarrow> ssm_step a rg d (snd (if c then x else y))"
  by simp

lemma ssm_read_step: "ssm_step a rg d (snd (r, d))"
  by (simp add: ssm_read)

lemma ssm_dispatch_step: "ssm_step a rg d (snd (ssm_dispatch env a rg oper b d))"
  unfolding ssm_dispatch_def
  by (intro ssm_if_step ssm_read_step ssm_put_parameter_step ssm_delete_parameter_step ssm_change_tags_step)

lemma handle_ssm_step: "ssm_step (account_id d) rg d (snd (handle_ssm env rg r d))"
  unfolding handle_ssm_def by (cases "parse_x_amz_target r") (simp_all add: ssm_read ssm_dispatch_step)

section \<open>Rows after a step\<close>

lemma ssm_pk_param [simp]:
  "ssm_pk (r\<lparr>pr_param := ssm_overwrite_row p (pr_param r)\<rparr>) = ssm_pk r"
  "ssm_pk (r\<lparr>pr_param := (pr_param r)\<lparr>p_tags := ts\<rparr>\<rparr>) = ssm_pk r"
  by (simp_all add: ssm_pk_def ssm_overwrite_row_def)

lemma put_ssm_parameter_frame:
  "\<exists>t. snd (put_ssm_parameter a p ow d) = d\<lparr>ssm_parameters := t\<rparr> \<and>
     (pk ssm_pk (ssm_parameters d) \<longrightarrow> pk ssm_pk t)"
proof (cases ow)
  case True
  let ?row = "\<lparr>pr_account = a, pr_param = ssm_insert_row p\<rparr>"
  let ?t = "sql_upsert ssm_pk (\<lambda>old new. old\<lparr>pr_param := ssm_overwrite_row p (pr_param old)\<rparr>) ?row (ssm_parameters d)"
  have "snd (put_ssm_parameter a p ow d) = d \<or> snd (put_ssm_parameter a p ow d) = d\<lparr>ssm_parameters := ?t\<rparr>"
    using True by (simp add: put_ssm_parameter_def Let_def split: option.split)
  moreover have "pk ssm_pk (ssm_parameters d) \<longrightarrow> pk ssm_pk ?t"
    by (auto intro!: pk_upsert)
  ultimately show ?thesis
    by (elim disjE) (auto intro: exI [of _ "ssm_parameters d"] exI [of _ ?t])
next
  case False
  then show ?thesis
    by (cases "insert_row ssm_pk \<lparr>pr_account = a, pr_param = ssm_insert_row p\<rparr> (ssm_parameters d)")
      (auto simp: put_ssm_parameter_def intro: exI [of _ "ssm_parameters d"] pk_insert_row)
qed

lemma delete_ssm_parameter_frame:
  "\<exists>t. snd (delete_ssm_parameter a rg n d) = d\<lparr>ssm_parameters := t\<rparr> \<and>
     (pk ssm_pk (ssm_parameters d) \<longrightarrow> pk ssm_pk t)"
  by (auto simp: delete_ssm_parameter_def Let_def intro: exI [of _ "ssm_parameters d"] pk_delete)

lemma patch_ssm_parameter_tags_frame:
  "\<exists>t. snd (patch_ssm_parameter_tags a rg ref pt d) = d\<lparr>ssm_parameters := t\<rparr> \<and>
     (pk ssm_pk (ssm_parameters d) \<longrightarrow> pk ssm_pk t)"
  by (auto simp: patch_ssm_parameter_tags_def Let_def intro: exI [of _ "ssm_parameters d"] intro!: pk_update)

lemma ssm_step_frame:
  assumes "ssm_step a rg d d'"
  shows "\<exists>t. d' = d\<lparr>ssm_parameters := t\<rparr> \<and> (pk ssm_pk (ssm_parameters d) \<longrightarrow> pk ssm_pk t)"
  using assms
proof (cases rule: ssm_stepE)
  case ssm_read
  then show ?thesis by (intro exI [of _ "ssm_parameters d"]) simp
qed (auto simp: put_ssm_parameter_frame delete_ssm_parameter_frame patch_ssm_parameter_tags_frame)

lemma keys_ok_handle_ssm: "keys_ok d \<Longrightarrow> keys_ok (snd (handle_ssm env rg r d))"
  using ssm_step_frame [OF handle_ssm_step [of d rg env r]] by (auto simp: keys_ok_def)

lemma account_id_ssm [simp]: "account_id (d\<lparr>ssm_parameters := t\<rparr>) = account_id d"
  by (simp add: account_id_def get_identity_def)

lemma db_loaded_ssm [simp]: "db_loaded (d\<lparr>ssm_parameters := t\<rparr>) = db_loaded d"
  by (simp add: db_loaded_def)

lemma account_id_handle_ssm [simp]: "account_id (snd (handle_ssm env rg r d)) = account_id d"
  using ssm_step_frame [OF handle_ssm_step [of d rg env r]] by auto

text \<open>No step touches a public row.\<close>

lemma public_row_put:
  assumes "\<not> is_public_ssm_parameter (sp_name p)"
  shows "filter public_row (ssm_parameters (snd (put_ssm_parameter a p ow d))) = filter public_row (ssm_parameters d)"
proof -
  let ?row = "\<lparr>pr_account = a, pr_param = ssm_insert_row p\<rparr>"
  have q: "\<not> public_row x \<and> \<not> public_row (x\<lparr>pr_param := ssm_overwrite_row p (pr_param x)\<rparr>)"
    if "ssm_pk x = ssm_pk ?row" for x
    using that assms by (simp add: public_row_def ssm_pk_def ssm_overwrite_row_def ssm_insert_row_def)
  have "\<not> public_row ?row" using q [of ?row] by simp
  moreover have "filter public_row (sql_upsert ssm_pk (\<lambda>old new. old\<lparr>pr_param := ssm_overwrite_row p (pr_param old)\<rparr>)
      ?row (ssm_parameters d)) = filter public_row (ssm_parameters d)"
    by (rule filter_sql_upsert) (rule q)
  ultimately show ?thesis
    by (auto simp: put_ssm_parameter_def Let_def insert_row_find split: option.split)
qed

lemma ssm_step_public:
  assumes "ssm_step a rg d d'"
  shows "filter public_row (ssm_parameters d') = filter public_row (ssm_parameters d)"
  using assms
proof (cases rule: ssm_stepE)
  case (ssm_put p ow)
  then show ?thesis by (simp add: public_row_put)
next
  case (ssm_delete n)
  then show ?thesis
    by (auto simp: delete_ssm_parameter_def Let_def public_row_def intro!: filter_sql_delete)
next
  case (ssm_patch ref pt)
  then show ?thesis
    by (auto simp: patch_ssm_parameter_tags_def Let_def public_row_def intro!: filter_sql_update)
qed simp

section \<open>Calls by operation\<close>

definition ssm_call :: "string \<Rightarrow> json option \<Rightarrow> request" where
  "ssm_call oper b = amz_call ''AmazonSSM'' oper b"

definition ssm_name_body :: "string \<Rightarrow> json option" where
  "ssm_name_body n = Some (JObj [(''Name'', JStr n)])"

lemma ssm_name_body_field: "unmarshal (field_string ''Name'') (ssm_name_body n) = (True, n)"
proof -
  have "members ''Name'' (JObj [(''Name'', JStr n)]) = [JStr n]" by (simp add: members_def)
  then show ?thesis
    by (simp add: ssm_name_body_def unmarshal_def dec_struct_def field_string_members is_obj_def)
qed

lemma handle_ssm_call: "handle_ssm env rg (ssm_call oper b) d = ssm_dispatch env (account_id d) rg oper b d"
  by (simp add: handle_ssm_def ssm_call_def parse_amz_call)

lemma ssm_dispatch_simps:
  "ssm_dispatch env a rg ''PutParameter'' b d = ssm_put_parameter env a rg b d"
  "ssm_dispatch env a rg ''GetParameter'' b d = (ssm_get_parameter a rg b d, d)"
  "ssm_dispatch env a rg ''DeleteParameter'' b d = ssm_delete_parameter a rg b d"
  "ssm_dispatch env a rg ''ListTagsForResource'' b d = (ssm_list_tags_for_resource a rg b d, d)"
  "ssm_dispatch env a rg ''AddTagsToResource'' b d = ssm_change_tags a rg b d"
  "ssm_dispatch env a rg ''RemoveTagsFromResource'' b d = ssm_change_tags a rg b d"
  by (simp_all add: ssm_dispatch_def)

type_synonym call = "env \<times> string \<times> request"

fun ssm_trace :: "call list \<Rightarrow> db \<Rightarrow> response list \<times> db" where
  "ssm_trace [] d = ([], d)"
| "ssm_trace ((env, rg, r) # qs) d =
     (case handle_ssm env rg r d of (resp, d1) \<Rightarrow> (case ssm_trace qs d1 of (rs, d2) \<Rightarrow> (resp # rs, d2)))"

section \<open>Puts\<close>

definition ssm_stored :: "string \<Rightarrow> string \<Rightarrow> string \<Rightarrow> db \<Rightarrow> ssm_parameter option" where
  "ssm_stored a rg n d = map_option pr_param (find (\<lambda>r. ssm_pk r = (a, rg, n)) (ssm_parameters d))"

text \<open>A well-formed PutParameter body for a name, with or without Overwrite.\<close>

definition ssm_valid_put :: "bool \<Rightarrow> string \<Rightarrow> json option \<Rightarrow> bool" where
  "ssm_valid_put ow n b \<longleftrightarrow> ssm_put_decodes b \<and> snd (unmarshal (field_string ''Name'') b) = n \<and>
     snd (unmarshal (field_bool ''Overwrite'') b) = ow \<and>
     (ow \<longrightarrow> snd (unmarshal (field_pairs ''Key'' ''Value'' ''Tags'') b) = []) \<and>
     ssm_put_validation n (snd (unmarshal (field_string ''Type'') b)) False = []"

definition ssm_put_of :: "env \<Rightarrow> string \<Rightarrow> json option \<Rightarrow> ssm_put" where
  "ssm_put_of env rg b = fst (ssm_put_decode env rg b)"

lemma ssm_put_of_simps [simp]:
  "sp_region (ssm_put_of env rg b) = rg" "sp_name (ssm_put_of env rg b) = snd (unmarshal (field_string ''Name'') b)"
  by (simp_all add: ssm_put_of_def ssm_put_decode_def Let_def)

lemma ssm_put_parameter_valid:
  assumes "ssm_valid_put ow n b"
  shows "ssm_put_parameter env a rg b d =
    (case put_ssm_parameter a (ssm_put_of env rg b) ow d of (v, d') \<Rightarrow> (ssm_put_answer v, d'))"
proof -
  obtain p ow' tags where p: "ssm_put_decode env rg b = (p, ow', tags)" by (cases "ssm_put_decode env rg b")
  then have "sp_name p = n" "sp_type p = snd (unmarshal (field_string ''Type'') b)" "ow' = ow" "ow \<longrightarrow> tags = []"
    using assms by (auto simp: ssm_put_decode_def ssm_valid_put_def Let_def)
  moreover from this have "ssm_put_validation (sp_name p) (sp_type p) (ow' \<and> tags \<noteq> []) = []"
    using assms by (auto simp: ssm_valid_put_def)
  ultimately show ?thesis
    using assms by (simp add: ssm_put_parameter_def ssm_valid_put_def p ssm_put_of_def Let_def split: prod.split)
qed

lemma ssm_insert_row_version [simp]: "p_version (ssm_insert_row p) = 1"
  by (simp add: ssm_insert_row_def)

lemma ssm_put_of_pk:
  "ssm_valid_put ow n b \<Longrightarrow> ssm_pk \<lparr>pr_account = a, pr_param = ssm_insert_row (ssm_put_of env rg b)\<rparr> = (a, rg, n)"
  by (simp add: ssm_pk_def ssm_insert_row_def ssm_valid_put_def)

lemma ssm_stored_None: "ssm_stored a rg n d = None \<longleftrightarrow> find (\<lambda>r. ssm_pk r = (a, rg, n)) (ssm_parameters d) = None"
  by (simp add: ssm_stored_def)

definition ssm_exists_answer :: response where
  "ssm_exists_answer = ssm_error ''ParameterAlreadyExists'' ssm_exists_message"

lemma ssm_put_new:
  assumes "ssm_valid_put False n b" and "ssm_stored a rg n d = None"
  shows "ssm_put_parameter env a rg b d = (write_json11 200 (JObj [(''Version'', JInt 1)]),
    d\<lparr>ssm_parameters := ssm_parameters d @ [\<lparr>pr_account = a, pr_param = ssm_insert_row (ssm_put_of env rg b)\<rparr>]\<rparr>)"
  using assms(2) unfolding ssm_put_parameter_valid [OF assms(1)]
  by (simp add: put_ssm_parameter_def insert_row_find ssm_put_of_pk [OF assms(1)] ssm_stored_None
      ssm_put_answer_def)

lemma ssm_put_exists:
  assumes "ssm_valid_put False n b" and "ssm_stored a rg n d = Some p"
  shows "ssm_put_parameter env a rg b d = (ssm_exists_answer, d)"
  using assms(2) unfolding ssm_put_parameter_valid [OF assms(1)]
  by (auto simp: put_ssm_parameter_def insert_row_find ssm_put_of_pk [OF assms(1)] ssm_stored_def
      ssm_put_answer_def ssm_exists_answer_def)

lemma ssm_trace_exists:
  assumes "\<forall>(env, b)\<in>set puts. ssm_valid_put False n b" and "ssm_stored (account_id d) rg n d = Some p"
  shows "ssm_trace (map (\<lambda>(env, b). (env, rg, ssm_call ''PutParameter'' b)) puts) d =
    (map (\<lambda>_. ssm_exists_answer) puts, d)"
  using assms by (induction puts) (auto simp: handle_ssm_call ssm_dispatch_simps ssm_put_exists)

lemma ssm_stored_snoc:
  "ssm_stored a rg n d = None \<Longrightarrow> ssm_stored a rg n (d\<lparr>ssm_parameters := ssm_parameters d @ [r]\<rparr>) =
     (if ssm_pk r = (a, rg, n) then Some (pr_param r) else None)"
  by (simp add: ssm_stored_def find_snoc)

section \<open>References\<close>

lemma ssm_parameter_arn_cut:
  assumes "CHR ''/'' \<notin> set rg" and "CHR ''/'' \<notin> set a"
  shows "str_cut (ssm_parameter_arn rg a n) '':parameter/'' =
    Some (''arn:aws:ssm:'' @ rg @ '':'' @ a, trim_prefix n ''/'')"
  using str_cut_unique [of "CHR ''/''" "''arn:aws:ssm:'' @ rg @ '':'' @ a" "'':parameter''" "trim_prefix n ''/''"] assms
  by (simp add: ssm_parameter_arn_def)

lemma ssm_parameter_arn_contains: "str_contains (ssm_parameter_arn rg a n) '':parameter/''"
proof -
  have "ssm_parameter_arn rg a n = (''arn:aws:ssm:'' @ rg @ '':'' @ a) @ '':parameter/'' @ trim_prefix n ''/''"
    by (simp only: ssm_parameter_arn_def append_assoc)
  then show ?thesis by (simp only: str_contains_append)
qed

definition ssm_sibling :: "string \<Rightarrow> string" where
  "ssm_sibling n = (if has_prefix n ''/'' then tl n else CHR ''/'' # n)"

lemma ssm_ref_args_arn:
  assumes "CHR ''/'' \<notin> set rg" and "CHR ''/'' \<notin> set a"
  shows "set (ssm_ref_args a' rg (ssm_parameter_arn rg a n)) \<subseteq> {n, ssm_sibling n}"
  unfolding ssm_ref_args_def ssm_parameter_arn_cut [OF assms]
  by (auto simp: ssm_sibling_def trim_prefix_def has_prefix_iff)

lemma ssm_ref_args_self:
  assumes "CHR ''/'' \<notin> set rg" and "CHR ''/'' \<notin> set a" and "\<not> is_public_ssm_parameter n"
  shows "n \<in> set (ssm_ref_args a rg (ssm_parameter_arn rg a n))"
  using assms(3) unfolding ssm_ref_args_def ssm_parameter_arn_cut [OF assms(1,2)]
  by (auto simp: trim_prefix_def has_prefix_iff ssm_parameter_arn_account_def)

lemma ssm_ref_args_name: "str_cut n '':parameter/'' = None \<Longrightarrow> ssm_ref_args a rg n = []"
  by (simp add: ssm_ref_args_def)

text \<open>Nothing stored answers to a name, its sibling, or either as a recorded ARN.\<close>

definition ssm_unused :: "string \<Rightarrow> string \<Rightarrow> string set \<Rightarrow> string set \<Rightarrow> db \<Rightarrow> bool" where
  "ssm_unused a rg names arns d \<longleftrightarrow> (\<forall>r\<in>set (ssm_parameters d). pr_account r = a \<and> p_region (pr_param r) = rg \<longrightarrow>
     p_name (pr_param r) \<notin> names \<and> (\<forall>x. p_arn (pr_param r) = Some x \<longrightarrow> x \<notin> arns))"

lemma ssm_unused_filter:
  assumes "ssm_unused a rg names arns d" and "ref \<in> names" and "ref \<in> arns" and "set (ssm_ref_args a rg ref) \<subseteq> names"
  shows "filter (ssm_ref_match a rg ref) (ssm_parameters d) = []"
  using assms by (auto simp: ssm_unused_def ssm_ref_match_def filter_empty_conv)

lemma get_ssm_parameter_only:
  "filter (ssm_ref_match a rg ref) (ssm_parameters d) = [r] \<Longrightarrow> get_ssm_parameter a rg ref d = Inr (pr_param r)"
  by (simp add: get_ssm_parameter_def)

lemma get_ssm_parameter_none:
  "filter (ssm_ref_match a rg ref) (ssm_parameters d) = [] \<Longrightarrow> get_ssm_parameter a rg ref d = Inl ErrNotFound"
  by (simp add: get_ssm_parameter_def)

lemma check_account_id_chars: "check_account_id a \<Longrightarrow> c \<in> set a \<Longrightarrow> c \<in> set ''0123456789''"
  by (simp only: check_account_id_def list_all_iff)

lemma check_account_id_no:
  assumes "check_account_id a"
  shows "CHR '':'' \<notin> set a" and "CHR ''/'' \<notin> set a" and "a \<noteq> []"
  using check_account_id_chars [OF assms, of "CHR '':''"] check_account_id_chars [OF assms, of "CHR ''/''"] assms
  by (auto simp: check_account_id_def)

text \<open>An account parameter is never taken for the built-in one.\<close>

lemma not_al2023:
  assumes "check_account_id a" and "\<not> is_public_ssm_parameter n"
  shows "n \<noteq> al2023_parameter_name" and "ssm_parameter_arn rg a n' \<noteq> ssm_parameter_arn rg [] al2023_parameter_name"
proof -
  have "is_public_ssm_parameter al2023_parameter_name" by code_simp
  with assms(2) show "n \<noteq> al2023_parameter_name" by auto
  obtain c cs where "a = c # cs" "c \<noteq> CHR '':''"
    using check_account_id_no [OF assms(1)] by (cases a) auto
  then show "ssm_parameter_arn rg a n' \<noteq> ssm_parameter_arn rg [] al2023_parameter_name"
    by (simp add: ssm_parameter_arn_def)
qed

section \<open>Tags\<close>

definition ssm_set_tags :: "(string \<times> string) list \<Rightarrow> gomap \<Rightarrow> gomap" where
  "ssm_set_tags kvs = patch_tags (ssm_patch \<lparr>st_resource_id = [], st_tags = kvs, st_tag_keys = []\<rparr>)"

definition ssm_remove_tags :: "string list \<Rightarrow> gomap \<Rightarrow> gomap" where
  "ssm_remove_tags ks = patch_tags (ssm_patch \<lparr>st_resource_id = [], st_tags = [], st_tag_keys = ks\<rparr>)"

lemma gm_wf_patch_tags: "gm_wf m \<Longrightarrow> gm_wf (patch_tags pt m)"
  unfolding patch_tags_def by (induction pt arbitrary: m) (auto split: option.split)

lemma map_of_patch_tags:
  "gm_wf pt \<Longrightarrow> map_of (patch_tags pt m) k = (case map_of pt k of None \<Rightarrow> map_of m k | Some v \<Rightarrow> v)"
proof (induction pt arbitrary: m)
  case (Cons kv pt)
  obtain k' v where kv: "kv = (k', v)" by (cases kv)
  have wf: "gm_wf pt" and new: "k' \<notin> set (map fst pt)" using Cons.prems by (auto simp: gm_wf_def kv)
  have "patch_tags (kv # pt) m = patch_tags pt (case v of None \<Rightarrow> gm_del k' m | Some s \<Rightarrow> gm_set k' s m)"
    by (simp add: patch_tags_def kv)
  moreover have "map_of pt k' = None" using new by (simp add: map_of_eq_None_iff)
  ultimately show ?case using Cons.IH [OF wf] by (auto simp: kv split: option.split)
qed (simp add: patch_tags_def)

lemma map_of_ssm_patch:
  "map_of (ssm_patch i) k = (if k \<in> set (st_tag_keys i) then Some None
     else map_option Some (map_of (rev (st_tags i)) k))"
proof -
  have 1: "map_of (rev (map (\<lambda>(k, v). (k, Some v)) ts)) k = map_option Some (map_of (rev ts) k)"
    for ts :: "(string \<times> string) list"
    by (simp add: rev_map map_of_map)
  have 2: "map_of (rev (map (\<lambda>k. (k, None)) ks)) k = (if k \<in> set ks then Some None else (None :: string option option))"
    for ks :: "string list"
    by (induction ks) (auto simp: map_add_def split: option.splits)
  show ?thesis by (simp add: ssm_patch_def map_of_gm_set_all map_add_def 1 2 split: option.split)
qed

lemma gm_wf_ssm_patch: "gm_wf (ssm_patch i)"
  by (simp add: ssm_patch_def)

interpretation ssm_tags: tagging map_of ssm_set_tags ssm_remove_tags gm_wf
  by unfold_locales
    (auto simp: ssm_set_tags_def ssm_remove_tags_def map_of_patch_tags gm_wf_ssm_patch map_of_ssm_patch
      gm_wf_patch_tags fun_eq_iff map_add_def split: option.split)

text \<open>A patch is seen by the next read of the same reference.\<close>

lemma get_after_patch:
  assumes "get_ssm_parameter a rg ref d = Inr p" and "\<not> is_public_ssm_parameter (p_name p)"
  shows "\<exists>d'. patch_ssm_parameter_tags a rg ref pt d = (None, d') \<and>
    get_ssm_parameter a rg ref d' = Inr (p\<lparr>p_tags := patch_tags pt (p_tags p)\<rparr>)"
proof -
  let ?t = "ssm_parameters d"
  let ?w = "\<lambda>r. ssm_ref_match a rg ref r \<and> \<not> is_public_ssm_parameter (p_name (pr_param r))"
  let ?f = "\<lambda>p. if is_public_ssm_parameter (p_name p) then p else p\<lparr>p_tags := patch_tags pt (p_tags p)\<rparr>"
  let ?u = "\<lambda>r. r\<lparr>pr_param := (pr_param r)\<lparr>p_tags := patch_tags pt (p_tags (pr_param r))\<rparr>\<rparr>"
  let ?d = "d\<lparr>ssm_parameters := sql_update ?w ?u ?t\<rparr>"
  obtain ps where ps: "sort_key p_name (map pr_param (filter (ssm_ref_match a rg ref) ?t)) = p # ps"
    using assms(1) by (auto simp: get_ssm_parameter_def split: list.splits)
  then have "p \<in> set (map pr_param (filter (ssm_ref_match a rg ref) ?t))"
    by (metis list.set_intros(1) set_sort)
  then have "affected ?w ?t \<noteq> 0"
    using assms(2) by (auto simp: affected_def filter_empty_conv)
  then have patch: "patch_ssm_parameter_tags a rg ref pt d = (None, ?d)"
    by (simp add: patch_ssm_parameter_tags_def)
  have m: "ssm_ref_match a rg ref (?u r) = ssm_ref_match a rg ref r" for r
    by (simp add: ssm_ref_match_def)
  have "map pr_param (filter (ssm_ref_match a rg ref) (sql_update ?w ?u t)) =
      map ?f (map pr_param (filter (ssm_ref_match a rg ref) t))" for t
    unfolding sql_update_def by (induction t) (auto simp: m)
  then have "get_ssm_parameter a rg ref ?d = Inr (?f p)"
    using ps by (simp add: get_ssm_parameter_def sort_key_map del: map_map)
  with patch assms(2) show ?thesis by auto
qed

definition ssm_tags_of_response :: "response \<Rightarrow> (string \<times> string) list" where
  "ssm_tags_of_response r = listed_pairs ''Key'' ''Value'' ''TagList'' r"

lemma ssm_tags_of_list: "ssm_tags_of_response (write_json11 s (JObj [(''TagList'', tags_as_json_slice ts)])) = ts"
  unfolding ssm_tags_of_response_def tags_as_json_slice_def by (rule listed_pairs_of) code_simp

section \<open>Properties\<close>

text \<open>C3. PutParameter without Overwrite is a compare-and-set: of any puts on one new name, whatever
  their contents and order, the first answers 200 with version 1 and its row is the one stored; every
  other answers 400 ParameterAlreadyExists and changes nothing.\<close>

theorem ssm_put_cas:
  assumes "\<forall>(env, b)\<in>set ((env1, b1) # puts). ssm_valid_put False n b"
    and "ssm_stored (account_id d) rg n d = None"
  shows "ssm_trace (map (\<lambda>(env, b). (env, rg, ssm_call ''PutParameter'' b)) ((env1, b1) # puts)) d =
    (write_json11 200 (JObj [(''Version'', JInt 1)]) # map (\<lambda>_. ssm_exists_answer) puts,
     d\<lparr>ssm_parameters := ssm_parameters d @
        [\<lparr>pr_account = account_id d, pr_param = ssm_insert_row (ssm_put_of env1 rg b1)\<rparr>]\<rparr>) \<and>
    r_status ssm_exists_answer = 400 \<and> error_code ssm_exists_answer = Some ''ParameterAlreadyExists''"
proof -
  let ?d = "d\<lparr>ssm_parameters := ssm_parameters d @
        [\<lparr>pr_account = account_id d, pr_param = ssm_insert_row (ssm_put_of env1 rg b1)\<rparr>]\<rparr>"
  have b1: "ssm_valid_put False n b1" and rest: "\<forall>(env, b)\<in>set puts. ssm_valid_put False n b"
    using assms(1) by auto
  have "ssm_stored (account_id ?d) rg n ?d = Some (ssm_insert_row (ssm_put_of env1 rg b1))"
    using assms(2) by (simp add: ssm_stored_snoc ssm_put_of_pk [OF b1])
  from ssm_trace_exists [OF rest this] show ?thesis
    using ssm_put_new [OF b1 assms(2), of env1]
    by (simp add: handle_ssm_call ssm_dispatch_simps ssm_exists_answer_def ssm_error_def error_code_service)
qed

text \<open>PutParameter with Overwrite on a stored name answers the stored version plus one and
  replaces the type, value and pattern; the description, data type, key and tier change only when the
  request sends them, the tags never; and no other parameter changes.\<close>

theorem ssm_put_overwrite:
  assumes "ssm_valid_put True n b" and "ssm_stored (account_id d) rg n d = Some p"
  shows "let (resp, d') = handle_ssm env rg (ssm_call ''PutParameter'' b) d; put = ssm_put_of env rg b
    in resp = write_json11 200 (JObj [(''Version'', JInt (p_version p + 1))]) \<and>
       (\<exists>p'. ssm_stored (account_id d) rg n d' = Some p' \<and> p_value p' = sp_value put \<and> p_type p' = sp_type put \<and>
          p_version p' = p_version p + 1 \<and> p_tags p' = p_tags p \<and> p_arn p' = p_arn p \<and>
          p_description p' = (case sp_description put of None \<Rightarrow> p_description p | Some s \<Rightarrow> s) \<and>
          p_data_type p' = (case sp_data_type put of None \<Rightarrow> p_data_type p | Some s \<Rightarrow> s) \<and>
          p_key_id p' = (case sp_key_id put of None \<Rightarrow> p_key_id p | Some s \<Rightarrow> s) \<and>
          p_tier p' = (case sp_tier put of None \<Rightarrow> p_tier p | Some s \<Rightarrow> s)) \<and>
       (\<forall>a' rg' n'. (a', rg', n') \<noteq> (account_id d, rg, n) \<longrightarrow> ssm_stored a' rg' n' d' = ssm_stored a' rg' n' d)"
proof -
  let ?a = "account_id d" and ?put = "ssm_put_of env rg b"
  let ?row = "\<lparr>pr_account = ?a, pr_param = ssm_insert_row ?put\<rparr>"
  let ?m = "\<lambda>old new. old\<lparr>pr_param := ssm_overwrite_row ?put (pr_param old)\<rparr>"
  let ?d = "d\<lparr>ssm_parameters := sql_upsert ssm_pk ?m ?row (ssm_parameters d)\<rparr>"
  obtain r where r: "find (\<lambda>r. ssm_pk r = (?a, rg, n)) (ssm_parameters d) = Some r" "pr_param r = p"
    using assms(2) by (auto simp: ssm_stored_def)
  note row = ssm_put_of_pk [OF assms(1), of ?a env rg]
  have look: "find (\<lambda>x. ssm_pk x = k) (sql_upsert ssm_pk ?m ?row (ssm_parameters d)) =
      (if k = (?a, rg, n) then Some (r\<lparr>pr_param := ssm_overwrite_row ?put p\<rparr>)
       else find (\<lambda>x. ssm_pk x = k) (ssm_parameters d))" for k
    using r by (subst find_sql_upsert) (simp_all add: row split: option.split)
  have v: "p_version (ssm_overwrite_row ?put p) = p_version p + 1"
    by (simp add: ssm_overwrite_row_def)
  have "handle_ssm env rg (ssm_call ''PutParameter'' b) d =
      (write_json11 200 (JObj [(''Version'', JInt (p_version p + 1))]), ?d)"
    unfolding handle_ssm_call ssm_dispatch_simps ssm_put_parameter_valid [OF assms(1)]
    by (simp add: put_ssm_parameter_def Let_def row look v ssm_put_answer_def)
  moreover have "ssm_stored a' rg' n' ?d = (if (a', rg', n') = (?a, rg, n) then Some (ssm_overwrite_row ?put p)
      else ssm_stored a' rg' n' d)" for a' rg' n'
    by (simp add: ssm_stored_def look)
  moreover have "coalesce x y = (case x of None \<Rightarrow> y | Some s \<Rightarrow> s)" for x :: "string option" and y
    by (cases x) simp_all
  ultimately show ?thesis by (simp add: Let_def ssm_overwrite_row_def)
qed

text \<open>C5. A parameter just created reads back: GetParameter by its name, or by the ARN its name, region
  and account derive, answers 200 with the stored value, type and version 1.\<close>

theorem ssm_put_then_get:
  assumes "ssm_valid_put False n b" and "check_account_id (account_id d)" and "CHR ''/'' \<notin> set rg"
    and "str_cut n '':parameter/'' = None"
    and "ssm_unused (account_id d) rg {n, ssm_sibling n, ssm_parameter_arn rg (account_id d) n}
           {n, ssm_parameter_arn rg (account_id d) n} d"
    and "ref = n \<or> ref = ssm_parameter_arn rg (account_id d) n"
  shows "handle_ssm env' rg (ssm_call ''GetParameter'' (ssm_name_body ref))
      (snd (handle_ssm env rg (ssm_call ''PutParameter'' b) d)) =
    (write_json11 200 (ssm_get_parameter_body (account_id d) (ssm_insert_row (ssm_put_of env rg b))),
     snd (handle_ssm env rg (ssm_call ''PutParameter'' b) d))"
proof -
  let ?a = "account_id d" and ?p = "ssm_insert_row (ssm_put_of env rg b)"
  let ?row = "\<lparr>pr_account = ?a, pr_param = ?p\<rparr>"
  let ?d = "d\<lparr>ssm_parameters := ssm_parameters d @ [?row]\<rparr>"
  have slash: "CHR ''/'' \<notin> set ?a" by (rule check_account_id_no [OF assms(2)])
  have "ssm_stored ?a rg n d = None"
    using assms(5) by (auto simp: ssm_stored_None find_None_iff ssm_unused_def ssm_pk_def)
  from ssm_put_new [OF assms(1) this] have put: "snd (handle_ssm env rg (ssm_call ''PutParameter'' b) d) = ?d"
    by (simp add: handle_ssm_call ssm_dispatch_simps)
  have np: "\<not> is_public_ssm_parameter n"
    using assms(1) public_name_refused ssm_prefix_message_nonempty by (auto simp: ssm_valid_put_def)
  have args: "set (ssm_ref_args ?a rg ref) \<subseteq> {n, ssm_sibling n}"
    "ref = ssm_parameter_arn rg ?a n \<longrightarrow> n \<in> set (ssm_ref_args ?a rg ref)"
    using assms(6) ssm_ref_args_arn [OF assms(3) slash] ssm_ref_args_self [OF assms(3) slash np]
    by (auto simp: ssm_ref_args_name [OF assms(4)])
  have old: "filter (ssm_ref_match ?a rg ref) (ssm_parameters d) = []"
    using ssm_unused_filter [OF assms(5), of ref] args(1) assms(6) by auto
  have "p_name ?p = n" "p_region ?p = rg" "p_arn ?p = None"
    using assms(1) by (simp_all add: ssm_insert_row_def ssm_valid_put_def)
  then have "ssm_ref_match ?a rg ref ?row"
    using args(2) assms(6) by (auto simp: ssm_ref_match_def)
  with old have "get_ssm_parameter ?a rg ref ?d = Inr ?p"
    using get_ssm_parameter_only [of ?a rg ref ?d ?row] by simp
  moreover have "ref \<noteq> al2023_parameter_name" "ref \<noteq> ssm_parameter_arn rg [] al2023_parameter_name"
  proof -
    have al: "is_public_ssm_parameter al2023_parameter_name" by code_simp
    have cut: "str_cut (ssm_parameter_arn rg y x) '':parameter/'' \<noteq> None" for x y
      by (rule str_cut_contains [OF ssm_parameter_arn_contains])
    have al_cut: "str_cut al2023_parameter_name '':parameter/'' = None" by code_simp
    show "ref \<noteq> al2023_parameter_name" using assms(6) np al cut [of ?a n] al_cut by auto
    show "ref \<noteq> ssm_parameter_arn rg [] al2023_parameter_name"
      using assms(4,6) cut [of "[]" al2023_parameter_name] not_al2023(2) [OF assms(2) np, of rg n] by metis
  qed
  ultimately show ?thesis
    unfolding put by (simp add: handle_ssm_call ssm_dispatch_simps ssm_get_parameter_def ssm_name_body_field Let_def)
qed

text \<open>Once DeleteParameter has answered 200 for a name, GetParameter answers ParameterNotFound for
  it and no other parameter is gone; for a name not stored, and for every public one, DeleteParameter
  itself answers ParameterNotFound and changes nothing.\<close>

theorem ssm_delete_then_get:
  assumes "str_cut n '':parameter/'' = None" and "\<forall>r\<in>set (ssm_parameters d). p_arn (pr_param r) \<noteq> Some n"
  shows "let (resp, d') = handle_ssm env rg (ssm_call ''DeleteParameter'' (ssm_name_body n)) d
    in if ssm_stored (account_id d) rg n d = None \<or> is_public_ssm_parameter n
       then d' = d \<and> resp = ssm_not_found n ErrNotFound
       else resp = write_json11 200 (JObj []) \<and>
            handle_ssm env' rg (ssm_call ''GetParameter'' (ssm_name_body n)) d' = (ssm_not_found n ErrNotFound, d') \<and>
            (\<forall>a' rg' n'. (a', rg', n') \<noteq> (account_id d, rg, n) \<longrightarrow> ssm_stored a' rg' n' d' = ssm_stored a' rg' n' d)"
proof -
  let ?a = "account_id d" and ?t = "ssm_parameters d"
  let ?p = "\<lambda>r. ssm_pk r = (?a, rg, n) \<and> \<not> is_public_ssm_parameter (p_name (pr_param r))"
  have del: "handle_ssm env rg (ssm_call ''DeleteParameter'' (ssm_name_body n)) d =
      (case delete_ssm_parameter ?a rg n d of (Some e, d') \<Rightarrow> (ssm_not_found n e, d')
       | (None, d') \<Rightarrow> (write_json11 200 (JObj []), d'))"
    by (simp add: handle_ssm_call ssm_dispatch_simps ssm_delete_parameter_def ssm_name_body_field)
  show ?thesis
  proof (cases "ssm_stored ?a rg n d = None \<or> is_public_ssm_parameter n")
    case True
    then have "affected ?p ?t = 0"
      by (auto simp: affected_0_iff find_None_iff ssm_stored_None ssm_pk_def)
    with True show ?thesis by (auto simp: del delete_ssm_parameter_def)
  next
    case False
    then have p: "?p = (\<lambda>r. ssm_pk r = (?a, rg, n))" by (auto simp: ssm_pk_def)
    let ?d = "d\<lparr>ssm_parameters := sql_delete (\<lambda>r. ssm_pk r = (?a, rg, n)) ?t\<rparr>"
    have "affected ?p ?t \<noteq> 0"
      using False unfolding p by (auto simp: affected_0_iff ssm_stored_None)
    then have d': "delete_ssm_parameter ?a rg n d = (None, ?d)"
      unfolding delete_ssm_parameter_def Let_def p by simp
    have "filter (ssm_ref_match ?a rg n) (sql_delete (\<lambda>r. ssm_pk r = (?a, rg, n)) ?t) = []"
      using assms(2) by (auto simp: filter_empty_conv sql_delete_def ssm_ref_match_def ssm_pk_def
          ssm_ref_args_name [OF assms(1)])
    then have "get_ssm_parameter ?a rg n ?d = Inl ErrNotFound"
      by (intro get_ssm_parameter_none) simp
    moreover have "n \<noteq> al2023_parameter_name" "n \<noteq> ssm_parameter_arn rg [] al2023_parameter_name"
    proof -
      have "is_public_ssm_parameter al2023_parameter_name" by code_simp
      with False show "n \<noteq> al2023_parameter_name" by auto
      have "str_cut (ssm_parameter_arn rg [] al2023_parameter_name) '':parameter/'' \<noteq> None"
        by (rule str_cut_contains [OF ssm_parameter_arn_contains])
      with assms(1) show "n \<noteq> ssm_parameter_arn rg [] al2023_parameter_name" by auto
    qed
    moreover have "ssm_stored a' rg' n' ?d = ssm_stored a' rg' n' d" if "(a', rg', n') \<noteq> (?a, rg, n)" for a' rg' n'
      using that by (auto simp: ssm_stored_def find_sql_delete_key)
    ultimately show ?thesis
      using False unfolding del d'
      by (auto simp: handle_ssm_call ssm_dispatch_simps ssm_get_parameter_def ssm_name_body_field)
  qed
qed

text \<open>A public parameter (its name begins with /aws/service/) is read-only: no sequence of SSM
  requests, of any kind, adds, changes or removes the row of one.\<close>

theorem ssm_public_read_only:
  "filter public_row (ssm_parameters (snd (ssm_trace qs d))) = filter public_row (ssm_parameters d)"
proof (induction qs arbitrary: d)
  case (Cons q qs)
  obtain env rg r where q: "q = (env, rg, r)" by (cases q)
  show ?case
    using Cons.IH [of "snd (handle_ssm env rg r d)"] ssm_step_public [OF handle_ssm_step [of d rg env r]]
    by (simp add: q split_beta)
qed simp

text \<open>Tag calls on an account parameter answer 200, and ListTagsForResource then lists the old tags
  merged with those added, less those removed; the removal wins where a request names a key twice.\<close>

theorem ssm_tags_read_back:
  assumes "ssm_decode_tag_request b = Inr i" and "ssm_decode_tag_request b' = Inr i'"
    and "st_resource_id i' = st_resource_id i"
    and "get_ssm_parameter (account_id d) rg (st_resource_id i) d = Inr p"
    and "\<not> is_public_ssm_parameter (p_name p)" and "oper \<in> {''AddTagsToResource'', ''RemoveTagsFromResource''}"
  shows "let (resp, d') = handle_ssm env rg (ssm_call oper b) d;
             listed = map_of (ssm_tags_of_response (fst (handle_ssm env' rg (ssm_call ''ListTagsForResource'' b') d')))
    in resp = write_json11 200 (JObj []) \<and>
       (\<forall>k. listed k = (if k \<in> set (st_tag_keys i) then None
              else case map_of (rev (st_tags i)) k of Some v \<Rightarrow> Some v | None \<Rightarrow> map_of (p_tags p) k))"
proof -
  let ?a = "account_id d" and ?p = "p\<lparr>p_tags := patch_tags (ssm_patch i) (p_tags p)\<rparr>"
  obtain d' where d': "patch_ssm_parameter_tags ?a rg (st_resource_id i) (ssm_patch i) d = (None, d')"
    "get_ssm_parameter ?a rg (st_resource_id i) d' = Inr ?p"
    using get_after_patch [OF assms(4,5)] by blast
  have change: "handle_ssm env rg (ssm_call oper b) d = (write_json11 200 (JObj []), d')"
    using assms(6) by (auto simp: handle_ssm_call ssm_dispatch_simps ssm_change_tags_def assms(1) d'(1))
  then have acc: "account_id d' = ?a"
    using account_id_handle_ssm [of env rg "ssm_call oper b" d] by simp
  have "fst (handle_ssm env' rg (ssm_call ''ListTagsForResource'' b') d') =
      write_json11 200 (JObj [(''TagList'', tags_as_json_slice (p_tags ?p))])"
    using d'(2) assms(5) by (simp add: handle_ssm_call ssm_dispatch_simps acc ssm_list_tags_for_resource_def assms(2,3))
  then show ?thesis
    by (simp add: change Let_def ssm_tags_of_list map_of_patch_tags gm_wf_ssm_patch map_of_ssm_patch split: option.split)
qed

section \<open>Examples\<close>

definition sample_put :: "bool \<Rightarrow> json option" where
  "sample_put ow = Some (JObj [(''Name'', JStr ''/app/db''), (''Type'', JStr ''String''), (''Value'', JStr ''v''),
     (''Overwrite'', JBool ow)])"

definition ssm_sample_env :: env where
  "ssm_sample_env = \<lparr>e_now = 0, e_rand = []\<rparr>"

definition sample_parameter :: ssm_parameter where
  "sample_parameter = \<lparr>p_name = ''/app/db'', p_type = ''String'', p_value = ''old'', p_version = 3,
     p_description = ''d'', p_allowed_pattern = [], p_data_type = ''text'', p_key_id = [], p_tier = ''Standard'',
     p_tags = [(''a'', ''1'')], p_region = ''us-east-1'', p_last_modified = ''0'', p_arn = None\<rparr>"

definition sample_ssm_db :: db where
  "sample_ssm_db = empty_db\<lparr>ssm_parameters := [\<lparr>pr_account = fake_account_id, pr_param = sample_parameter\<rparr>]\<rparr>"

definition sample_tag_body :: "json option" where
  "sample_tag_body = Some (JObj [(''ResourceType'', JStr ''Parameter''), (''ResourceId'', JStr ''/app/db''),
     (''Tags'', JArr [JObj [(''Key'', JStr ''k''), (''Value'', JStr ''v'')]])])"

lemma sample_put_valid: "ssm_valid_put ow ''/app/db'' (sample_put ow)"
  by (cases ow) code_simp+

lemma sample_stored:
  "ssm_stored (account_id sample_ssm_db) ''us-east-1'' ''/app/db'' sample_ssm_db = Some sample_parameter"
  "ssm_stored (account_id empty_db) ''us-east-1'' ''/app/db'' empty_db = None"
  by code_simp+

theorem ssm_put_cas_witness:
  "fst (ssm_trace (map (\<lambda>(env, b). (env, ''us-east-1'', ssm_call ''PutParameter'' b))
     [(ssm_sample_env, sample_put False), (ssm_sample_env, sample_put False)]) empty_db) =
     [write_json11 200 (JObj [(''Version'', JInt 1)]), ssm_exists_answer]"
proof -
  have "\<forall>(env, b)\<in>set [(ssm_sample_env, sample_put False), (ssm_sample_env, sample_put False)].
      ssm_valid_put False ''/app/db'' b"
    by (simp add: sample_put_valid)
  from ssm_put_cas [OF this sample_stored(2)] show ?thesis by simp
qed

theorem ssm_put_overwrite_witness:
  "fst (handle_ssm ssm_sample_env ''us-east-1'' (ssm_call ''PutParameter'' (sample_put True)) sample_ssm_db) =
     write_json11 200 (JObj [(''Version'', JInt (p_version sample_parameter + 1))])"
  using ssm_put_overwrite [OF sample_put_valid sample_stored(1), of ssm_sample_env] by (simp add: split_beta Let_def)

theorem ssm_put_then_get_witness:
  "fst (handle_ssm ssm_sample_env ''us-east-1'' (ssm_call ''GetParameter'' (ssm_name_body ''/app/db''))
      (snd (handle_ssm ssm_sample_env ''us-east-1'' (ssm_call ''PutParameter'' (sample_put False)) empty_db))) =
    write_json11 200 (ssm_get_parameter_body (account_id empty_db)
      (ssm_insert_row (ssm_put_of ssm_sample_env ''us-east-1'' (sample_put False))))"
proof -
  have "check_account_id (account_id empty_db)" "CHR ''/'' \<notin> set ''us-east-1''"
    "str_cut ''/app/db'' '':parameter/'' = None" "ssm_unused (account_id empty_db) ''us-east-1'' N A empty_db" for N A
    by (code_simp, simp, code_simp, simp add: ssm_unused_def empty_db_def)
  from ssm_put_then_get [OF sample_put_valid this disjI1 [OF refl]] show ?thesis by simp
qed

theorem ssm_delete_then_get_witness:
  "let d' = snd (handle_ssm ssm_sample_env ''us-east-1'' (ssm_call ''DeleteParameter'' (ssm_name_body ''/app/db'')) sample_ssm_db)
   in fst (handle_ssm ssm_sample_env ''us-east-1'' (ssm_call ''GetParameter'' (ssm_name_body ''/app/db'')) d') =
      ssm_not_found ''/app/db'' ErrNotFound"
proof -
  have 1: "str_cut ''/app/db'' '':parameter/'' = None" by code_simp
  have 2: "\<forall>r\<in>set (ssm_parameters sample_ssm_db). p_arn (pr_param r) \<noteq> Some ''/app/db''"
    by (simp add: sample_ssm_db_def sample_parameter_def)
  have 3: "\<not> is_public_ssm_parameter ''/app/db''" by code_simp
  show ?thesis
    using ssm_delete_then_get [OF 1 2, of ssm_sample_env "''us-east-1''" ssm_sample_env] sample_stored(1) 3
    by (simp add: split_beta Let_def)
qed

theorem ssm_tags_read_back_witness:
  "let d' = snd (handle_ssm ssm_sample_env ''us-east-1'' (ssm_call ''AddTagsToResource'' sample_tag_body) sample_ssm_db)
   in map_of (ssm_tags_of_response (fst (handle_ssm ssm_sample_env ''us-east-1''
        (ssm_call ''ListTagsForResource'' sample_tag_body) d'))) ''k'' = Some ''v''"
proof -
  let ?i = "\<lparr>st_resource_id = ''/app/db'', st_tags = [(''k'', ''v'')], st_tag_keys = []\<rparr>"
  have 1: "ssm_decode_tag_request sample_tag_body = Inr ?i" by code_simp
  have 2: "get_ssm_parameter (account_id sample_ssm_db) ''us-east-1'' (st_resource_id ?i) sample_ssm_db = Inr sample_parameter"
    by code_simp
  have 3: "\<not> is_public_ssm_parameter (p_name sample_parameter)" by code_simp
  show ?thesis
    using ssm_tags_read_back [OF 1 1 refl 2 3, of "''AddTagsToResource''" ssm_sample_env ssm_sample_env]
    by (simp add: split_beta Let_def)
qed

end
