(* ===== verification/Sqs.thy ===== *)
theory Sqs
  imports Identity Gotime Tags
begin

text \<open>
  SQS: repository/sqs.go and handlers/sqs.go. A queue is a row with its attributes both as a column and
  inside its data; messages are rows of their own, which a queue's deletion moves to the tombstone
  name instead of deleting. Handlers take the environment, the host the request named, the account,
  region, body and database.
\<close>

section \<open>Queues (repository)\<close>

definition sqs_tombstone :: string where
  "sqs_tombstone = ''_deleted-queue_''"

definition create_sqs_queue :: "string \<Rightarrow> sqs_queue \<Rightarrow> db \<Rightarrow> go_error option \<times> db" where
  "create_sqs_queue account q d =
     (case insert_row queue_pk \<lparr>qr_account = account, qr_region = q_region q, qr_name = q_name q, qr_arn = q_arn q,
             qr_attributes = q_attributes q, qr_fifo = q_fifo q, qr_data = q\<rparr> (sqs_queues d) of
        Inl e \<Rightarrow> (Some e, d)
      | Inr t \<Rightarrow> (None, d\<lparr>sqs_queues := t\<rparr>))"

definition get_sqs_queue :: "string \<Rightarrow> string \<Rightarrow> string \<Rightarrow> db \<Rightarrow> sqs_queue result" where
  "get_sqs_queue account region name d =
     (case find (\<lambda>r. queue_pk r = (account, region, name)) (sqs_queues d) of
        None \<Rightarrow> Inl ErrNotFound
      | Some r \<Rightarrow> Inr (qr_data r))"

definition set_sqs_queue_attributes :: "string \<Rightarrow> string \<Rightarrow> string \<Rightarrow> gomap \<Rightarrow> db \<Rightarrow> go_error option \<times> db" where
  "set_sqs_queue_attributes account region name attrs d =
     (case get_sqs_queue account region name d of
        Inl e \<Rightarrow> (Some e, d)
      | Inr q \<Rightarrow>
          (let q' = q\<lparr>q_attributes := gm_set_all attrs (q_attributes q)\<rparr>
           in (None, d\<lparr>sqs_queues := sql_update (\<lambda>r. queue_pk r = (account, region, name))
                (\<lambda>r. r\<lparr>qr_attributes := q_attributes q', qr_data := q'\<rparr>) (sqs_queues d)\<rparr>)))"

definition list_sqs_queues :: "string \<Rightarrow> string \<Rightarrow> db \<Rightarrow> sqs_queue list" where
  "list_sqs_queues account region d =
     map qr_data (sort_key (\<lambda>r. (qr_region r, qr_name r))
       (filter (\<lambda>r. qr_account r = account \<and> (region = [] \<or> qr_region r = region)) (sqs_queues d)))"

text \<open>The rows of one queue's messages, and whether moving them would clash with rows already moved.\<close>

definition in_queue :: "string \<Rightarrow> string \<Rightarrow> string \<Rightarrow> sqs_message_row \<Rightarrow> bool" where
  "in_queue account region name r \<longleftrightarrow>
     mr_account r = account \<and> m_region (mr_msg r) = region \<and> m_queue_name (mr_msg r) = name"

definition rebadge_clash :: "string \<Rightarrow> string \<Rightarrow> string \<Rightarrow> db \<Rightarrow> bool" where
  "rebadge_clash account region name d \<longleftrightarrow>
     (\<exists>r\<in>set (sqs_messages d). in_queue account region name r \<and>
        (\<exists>r'\<in>set (sqs_messages d). in_queue account region sqs_tombstone r' \<and>
           m_message_id (mr_msg r') = m_message_id (mr_msg r)))"

definition rebadge_failed :: go_error where
  "rebadge_failed = ErrOther (''rebadge messages to tombstone: '' @ sql_text Unique_failed)"

definition rebadge_messages :: "string \<Rightarrow> string \<Rightarrow> string \<Rightarrow> db \<Rightarrow> go_error option \<times> db" where
  "rebadge_messages account region name d =
     (if rebadge_clash account region name d
      then (Some rebadge_failed, d)
      else (None, d\<lparr>sqs_messages := sql_update (in_queue account region name)
             (\<lambda>r. r\<lparr>mr_msg := (mr_msg r)\<lparr>m_queue_name := sqs_tombstone\<rparr>\<rparr>) (sqs_messages d)\<rparr>))"

text \<open>DELETE FROM sqs_queues by key, with the trigger that drops the deleted row's tags.\<close>

definition delete_queue_row :: "string \<Rightarrow> string \<Rightarrow> string \<Rightarrow> db \<Rightarrow> db" where
  "delete_queue_row account region name d =
     (let p = (\<lambda>r. queue_pk r = (account, region, name))
      in fold (\<lambda>r. drop_resource_tags (qr_account r) (qr_arn r)) (filter p (sqs_queues d))
           (d\<lparr>sqs_queues := sql_delete p (sqs_queues d)\<rparr>))"

definition delete_sqs_queue :: "string \<Rightarrow> string \<Rightarrow> string \<Rightarrow> db \<Rightarrow> go_error option \<times> db" where
  "delete_sqs_queue account region name d =
     (if name = sqs_tombstone then (Some ErrConflict, d)
      else case get_sqs_queue account region name d of
        Inl e \<Rightarrow> (Some e, d)
      | Inr _ \<Rightarrow> (case rebadge_messages account region name d of
          (Some e, d') \<Rightarrow> (Some e, d')
        | (None, d') \<Rightarrow>
            (if affected (\<lambda>r. queue_pk r = (account, region, name)) (sqs_queues d') = 0 then (Some ErrNotFound, d')
             else (None, delete_queue_row account region name d'))))"

section \<open>Messages (repository)\<close>

definition list_sqs_messages :: "string \<Rightarrow> string \<Rightarrow> db \<Rightarrow> sqs_message list" where
  "list_sqs_messages account region d =
     sort_key (\<lambda>m. (m_region m, m_queue_name m, m_message_id m))
       (map mr_msg (filter (\<lambda>r. mr_account r = account \<and> (region = [] \<or> m_region (mr_msg r) = region)) (sqs_messages d)))"

definition count_sqs_tombstoned_messages :: "string \<Rightarrow> string \<Rightarrow> db \<Rightarrow> nat" where
  "count_sqs_tombstoned_messages account region d = affected (in_queue account region sqs_tombstone) (sqs_messages d)"

definition send_sqs_message :: "string \<Rightarrow> string \<Rightarrow> sqs_message \<Rightarrow> db \<Rightarrow> go_error option \<times> db" where
  "send_sqs_message account region m d =
     (if m_queue_name m = sqs_tombstone then (Some ErrNotFound, d)
      else case get_sqs_queue account region (m_queue_name m) d of
        Inl e \<Rightarrow> (Some e, d)
      | Inr _ \<Rightarrow> (case insert_row message_pk \<lparr>mr_account = account, mr_msg = m\<lparr>m_region := region\<rparr>\<rparr> (sqs_messages d) of
          Inl e \<Rightarrow> (Some e, d)
        | Inr t \<Rightarrow> (None, d\<lparr>sqs_messages := t\<rparr>)))"

definition rand_suffix :: string where
  "rand_suffix = map (\<lambda>i. ''abcdef0123456789'' ! (i mod 16)) [0..<8]"

definition new_handle :: "string \<Rightarrow> string" where
  "new_handle i = ''rh-'' @ i @ ''-'' @ rand_suffix"

text \<open>LIMIT: a negative one is none.\<close>

definition sql_limit :: "int \<Rightarrow> 'a list \<Rightarrow> 'a list" where
  "sql_limit n xs = (if n < 0 then xs else take (nat n) xs)"

text \<open>The messages a receive picks; rows of one instant come in the order of the key's index.\<close>

definition visible_messages :: "string \<Rightarrow> string \<Rightarrow> string \<Rightarrow> int \<Rightarrow> db \<Rightarrow> sqs_message list" where
  "visible_messages account region name now d =
     sort_key m_created_at (sort_key m_message_id
       (map mr_msg (filter (\<lambda>r. in_queue account region name r \<and> m_visible_after (mr_msg r) \<le> now) (sqs_messages d))))"

definition stamp_message :: "int \<Rightarrow> sqs_message \<Rightarrow> sqs_message" where
  "stamp_message newv m = m\<lparr>m_receipt_handle := new_handle (m_message_id m), m_visible_after := newv,
     m_receive_count := m_receive_count m + 1\<rparr>"

text \<open>One iteration of the receive loop: the UPDATE of one picked message's row.\<close>

definition stamp_row :: "string \<Rightarrow> string \<Rightarrow> string \<Rightarrow> int \<Rightarrow> string \<Rightarrow> sqs_message_row list \<Rightarrow> sqs_message_row list" where
  "stamp_row account region name newv i t =
     sql_update (\<lambda>r. message_pk r = (account, region, name, i)) (\<lambda>r. r\<lparr>mr_msg := stamp_message newv (mr_msg r)\<rparr>) t"

definition receive_sqs_messages ::
  "string \<Rightarrow> string \<Rightarrow> string \<Rightarrow> int \<Rightarrow> int \<Rightarrow> int \<Rightarrow> db \<Rightarrow> sqs_message list result \<times> db" where
  "receive_sqs_messages account region name now max_messages timeout d =
     (case get_sqs_queue account region name d of
        Inl e \<Rightarrow> (Inl e, d)
      | Inr _ \<Rightarrow>
          (let picked = sql_limit max_messages (visible_messages account region name now d);
               newv = wrap64 (now + timeout)
           in (Inr (map (\<lambda>p. \<lparr>m_queue_name = name, m_message_id = m_message_id p, m_body = m_body p,
                      m_receipt_handle = new_handle (m_message_id p), m_visible_after = newv,
                      m_receive_count = m_receive_count p + 1, m_region = region, m_created_at = []\<rparr>) picked),
               d\<lparr>sqs_messages := fold (stamp_row account region name newv) (map m_message_id picked) (sqs_messages d)\<rparr>)))"

definition delete_sqs_message :: "string \<Rightarrow> string \<Rightarrow> string \<Rightarrow> string \<Rightarrow> db \<Rightarrow> go_error option \<times> db" where
  "delete_sqs_message account region name handle d =
     (let p = (\<lambda>r. in_queue account region name r \<and> m_receipt_handle (mr_msg r) = handle)
      in if affected p (sqs_messages d) = 0 then (Some ErrNotFound, d)
         else (None, d\<lparr>sqs_messages := sql_delete p (sqs_messages d)\<rparr>))"

section \<open>Handlers\<close>

definition sqs_queue_url :: "string \<Rightarrow> string \<Rightarrow> string \<Rightarrow> string" where
  "sqs_queue_url host account name = ''http://'' @ host @ ''/'' @ account @ ''/'' @ name"

definition sqs_request_host :: "request \<Rightarrow> string" where
  "sqs_request_host r =
     (if q_forwarded_host r \<noteq> [] then q_forwarded_host r
      else if q_host r \<noteq> [] then q_host r
      else ''127.0.0.1:8082'')"

definition queue_name_from_url :: "string \<Rightarrow> string" where
  "queue_name_from_url url = after_last (CHR ''/'') url"

definition sqs_body_queue :: "json option \<Rightarrow> string" where
  "sqs_body_queue b = queue_name_from_url (snd (unmarshal (field_string ''QueueUrl'') b))"

text \<open>A body that does not decode is a conflict (the operations that check it).\<close>

definition sqs_conflict :: response where
  "sqs_conflict = write_aws_error Shape_json10 ErrConflict"

definition sqs_no_queue :: "string \<Rightarrow> response" where
  "sqs_no_queue url = write_service_error Shape_json10 400 ''AWS.SimpleQueueService.NonExistentQueue''
     (''The specified queue does not exist: '' @ url)"

definition sqs_new_queue :: "env \<Rightarrow> string \<Rightarrow> string \<Rightarrow> string \<Rightarrow> json option \<Rightarrow> sqs_queue" where
  "sqs_new_queue env host account region b =
     (let name = snd (unmarshal (field_string ''QueueName'') b)
      in \<lparr>q_name = name, q_url = sqs_queue_url host account name, q_arn = sqs_queue_arn region account name,
          q_attributes = snd (unmarshal (field_string_map ''Attributes'') b), q_fifo = has_suffix name ''.fifo'',
          q_region = region, q_created_at = rfc3339 (e_now env)\<rparr>)"

definition sqs_fifo_attr :: "gomap \<Rightarrow> bool" where
  "sqs_fifo_attr attrs \<longleftrightarrow> map_of attrs ''FifoQueue'' = Some ''true''"

definition sqs_create_queue :: "env \<Rightarrow> string \<Rightarrow> string \<Rightarrow> string \<Rightarrow> json option \<Rightarrow> db \<Rightarrow> response \<times> db" where
  "sqs_create_queue env host account region b d =
     (let q = sqs_new_queue env host account region b
      in if \<not> (fst (unmarshal (field_string ''QueueName'') b) \<and> fst (unmarshal (field_string_map ''Attributes'') b) \<and>
               fst (unmarshal (field_string_map ''tags'') b)) then (sqs_conflict, d)
         else if q_name q = [] then (sqs_conflict, d)
         else if has_suffix (q_name q) ''.fifo'' \<noteq> sqs_fifo_attr (q_attributes q) then (sqs_conflict, d)
         else (case create_sqs_queue account q d of
             (Some e, d') \<Rightarrow> (write_aws_error Shape_json10 e, d')
           | (None, d') \<Rightarrow>
               (case tag_created account Tags_SQS_queue (q_arn q) (snd (unmarshal (field_string_map ''tags'') b))
                       (delete_sqs_queue account region (q_name q)) d' of
                  (Some e, d'') \<Rightarrow> (write_aws_error Shape_json10 e, d'')
                | (None, d'') \<Rightarrow> (write_json10 200 (JObj [(''QueueUrl'', JStr (sqs_queue_url host account (q_name q)))]), d''))))"

definition sqs_get_queue_url :: "string \<Rightarrow> string \<Rightarrow> string \<Rightarrow> json option \<Rightarrow> db \<Rightarrow> response" where
  "sqs_get_queue_url host account region b d =
     (case get_sqs_queue account region (snd (unmarshal (field_string ''QueueName'') b)) d of
        Inl e \<Rightarrow> write_aws_error Shape_json10 e
      | Inr q \<Rightarrow> write_json10 200 (JObj [(''QueueUrl'', JStr (sqs_queue_url host account (q_name q)))]))"

definition sqs_get_queue_attributes :: "string \<Rightarrow> string \<Rightarrow> json option \<Rightarrow> db \<Rightarrow> response" where
  "sqs_get_queue_attributes account region b d =
     (case get_sqs_queue account region (sqs_body_queue b) d of
        Inl e \<Rightarrow> sqs_no_queue (snd (unmarshal (field_string ''QueueUrl'') b))
      | Inr q \<Rightarrow> write_json10 200 (JObj [(''Attributes'', json_map (gm_set_all (q_attributes q) [(''QueueArn'', q_arn q)]))]))"

definition sqs_set_queue_attributes :: "string \<Rightarrow> string \<Rightarrow> json option \<Rightarrow> db \<Rightarrow> response \<times> db" where
  "sqs_set_queue_attributes account region b d =
     (if \<not> (fst (unmarshal (field_string ''QueueUrl'') b) \<and> fst (unmarshal (field_string_map ''Attributes'') b))
      then (sqs_conflict, d)
      else case set_sqs_queue_attributes account region (sqs_body_queue b) (snd (unmarshal (field_string_map ''Attributes'') b)) d of
        (Some e, d') \<Rightarrow> (if errors_is e ErrNotFound then sqs_no_queue (snd (unmarshal (field_string ''QueueUrl'') b))
                        else write_aws_error Shape_json10 e, d')
      | (None, d') \<Rightarrow> (write_json10 200 (JObj []), d'))"

definition sqs_list_queues :: "string \<Rightarrow> string \<Rightarrow> string \<Rightarrow> db \<Rightarrow> response" where
  "sqs_list_queues host account region d =
     write_json10 200 (JObj [(''QueueUrls'',
       json_strings (map (\<lambda>q. sqs_queue_url host account (q_name q)) (list_sqs_queues account region d)))])"

definition sqs_delete_queue :: "string \<Rightarrow> string \<Rightarrow> json option \<Rightarrow> db \<Rightarrow> response \<times> db" where
  "sqs_delete_queue account region b d =
     (case delete_sqs_queue account region (sqs_body_queue b) d of
        (Some e, d') \<Rightarrow> (write_aws_error Shape_json10 e, d')
      | (None, d') \<Rightarrow> (write_json10 200 (JObj []), d'))"

text \<open>sqsTagCall: the queue's ARN, unless the body does not decode.\<close>

definition sqs_tag_call :: "string \<Rightarrow> string \<Rightarrow> json option \<Rightarrow> string option" where
  "sqs_tag_call account region b =
     (if fst (unmarshal (field_string ''QueueUrl'') b) \<and> fst (unmarshal (field_string_map ''Tags'') b) \<and>
         fst (unmarshal (field_strings ''TagKeys'') b)
      then Some (sqs_queue_arn region account (sqs_body_queue b)) else None)"

definition sqs_write_tag_error :: "string \<Rightarrow> go_error \<Rightarrow> response" where
  "sqs_write_tag_error url e = (if errors_is e ErrNotFound then sqs_no_queue url else write_aws_error Shape_json10 e)"

definition sqs_list_queue_tags :: "string \<Rightarrow> string \<Rightarrow> json option \<Rightarrow> db \<Rightarrow> response" where
  "sqs_list_queue_tags account region b d =
     (case sqs_tag_call account region b of
        None \<Rightarrow> sqs_conflict
      | Some arn \<Rightarrow> (case resource_tag_map account Tags_SQS_queue arn d of
            Inl e \<Rightarrow> sqs_write_tag_error (snd (unmarshal (field_string ''QueueUrl'') b)) e
          | Inr tags \<Rightarrow> write_json10 200 (JObj [(''Tags'', json_map tags)])))"

definition sqs_tag_answer :: "json option \<Rightarrow> go_error option \<times> db \<Rightarrow> response \<times> db" where
  "sqs_tag_answer b res = (case res of
       (Some e, d') \<Rightarrow> (sqs_write_tag_error (snd (unmarshal (field_string ''QueueUrl'') b)) e, d')
     | (None, d') \<Rightarrow> (write_json10 200 (JObj []), d'))"

definition sqs_tag_queue :: "string \<Rightarrow> string \<Rightarrow> json option \<Rightarrow> db \<Rightarrow> response \<times> db" where
  "sqs_tag_queue account region b d =
     (case sqs_tag_call account region b of
        None \<Rightarrow> (sqs_conflict, d)
      | Some arn \<Rightarrow> sqs_tag_answer b
          (tag_resource account Tags_SQS_queue arn (snd (unmarshal (field_string_map ''Tags'') b)) d))"

definition sqs_untag_queue :: "string \<Rightarrow> string \<Rightarrow> json option \<Rightarrow> db \<Rightarrow> response \<times> db" where
  "sqs_untag_queue account region b d =
     (case sqs_tag_call account region b of
        None \<Rightarrow> (sqs_conflict, d)
      | Some arn \<Rightarrow> sqs_tag_answer b
          (untag_resource account Tags_SQS_queue arn (snd (unmarshal (field_strings ''TagKeys'') b)) d))"

definition sqs_rand_id :: "env \<Rightarrow> string" where
  "sqs_rand_id env = hex_encode (rand_read 0 env)"

definition sqs_new_message :: "env \<Rightarrow> string \<Rightarrow> json option \<Rightarrow> sqs_message" where
  "sqs_new_message env region b = \<lparr>m_queue_name = sqs_body_queue b, m_message_id = sqs_rand_id env,
     m_body = snd (unmarshal (field_string ''MessageBody'') b), m_receipt_handle = [], m_visible_after = 0,
     m_receive_count = 0, m_region = region, m_created_at = rfc3339 (e_now env)\<rparr>"

definition sqs_send_message :: "env \<Rightarrow> string \<Rightarrow> string \<Rightarrow> json option \<Rightarrow> db \<Rightarrow> response \<times> db" where
  "sqs_send_message env account region b d =
     (if \<not> (fst (unmarshal (field_string ''QueueUrl'') b) \<and> fst (unmarshal (field_string ''MessageBody'') b))
      then (sqs_conflict, d)
      else case send_sqs_message account region (sqs_new_message env region b) d of
        (Some e, d') \<Rightarrow> (write_aws_error Shape_json10 e, d')
      | (None, d') \<Rightarrow> (write_json10 200 (JObj [(''MessageId'', JStr (sqs_rand_id env))]), d'))"

definition or_default :: "int \<Rightarrow> int \<Rightarrow> int" where
  "or_default z n = (if n = 0 then z else n)"

definition sqs_receive_message :: "env \<Rightarrow> string \<Rightarrow> string \<Rightarrow> json option \<Rightarrow> db \<Rightarrow> response \<times> db" where
  "sqs_receive_message env account region b d =
     (case receive_sqs_messages account region (sqs_body_queue b) (unix (e_now env))
             (or_default 1 (snd (unmarshal (field_int ''MaxNumberOfMessages'') b)))
             (or_default 30 (snd (unmarshal (field_int ''VisibilityTimeout'') b))) d of
        (Inl e, d') \<Rightarrow> (write_aws_error Shape_json10 e, d')
      | (Inr ms, d') \<Rightarrow> (write_json10 200 (JObj [(''Messages'', JArr (map (\<lambda>m. JObj
            [(''MessageId'', JStr (m_message_id m)), (''Body'', JStr (m_body m)),
             (''ReceiptHandle'', JStr (m_receipt_handle m))]) ms))]), d'))"

definition sqs_delete_message :: "string \<Rightarrow> string \<Rightarrow> json option \<Rightarrow> db \<Rightarrow> response \<times> db" where
  "sqs_delete_message account region b d =
     (case delete_sqs_message account region (sqs_body_queue b) (snd (unmarshal (field_string ''ReceiptHandle'') b)) d of
        (Some e, d') \<Rightarrow> (write_aws_error Shape_json10 e, d')
      | (None, d') \<Rightarrow> (write_json10 200 (JObj []), d'))"

definition sqs_dispatch ::
  "env \<Rightarrow> string \<Rightarrow> string \<Rightarrow> string \<Rightarrow> string \<Rightarrow> json option \<Rightarrow> db \<Rightarrow> response \<times> db" where
  "sqs_dispatch env host account region oper b d =
     (if oper = ''CreateQueue'' then sqs_create_queue env host account region b d
      else if oper = ''GetQueueUrl'' then (sqs_get_queue_url host account region b d, d)
      else if oper = ''GetQueueAttributes'' then (sqs_get_queue_attributes account region b d, d)
      else if oper = ''ListQueues'' then (sqs_list_queues host account region d, d)
      else if oper = ''DeleteQueue'' then sqs_delete_queue account region b d
      else if oper = ''SendMessage'' then sqs_send_message env account region b d
      else if oper = ''ReceiveMessage'' then sqs_receive_message env account region b d
      else if oper = ''DeleteMessage'' then sqs_delete_message account region b d
      else if oper = ''ListQueueTags'' then (sqs_list_queue_tags account region b d, d)
      else if oper = ''TagQueue'' then sqs_tag_queue account region b d
      else if oper = ''UntagQueue'' then sqs_untag_queue account region b d
      else if oper = ''SetQueueAttributes'' then sqs_set_queue_attributes account region b d
      else (mark_class Not_modelled_404 (write_aws_error Shape_json10 ErrNotFound), d))"

definition handle_sqs :: "env \<Rightarrow> string \<Rightarrow> request \<Rightarrow> db \<Rightarrow> response \<times> db" where
  "handle_sqs env region r d =
     (case parse_x_amz_target r of
        Inl e \<Rightarrow> (write_aws_error Shape_json10 ErrConflict, d)
      | Inr q \<Rightarrow> sqs_dispatch env (sqs_request_host r) (account_id d) region (x_operation q) (x_body q) d)"

text \<open>The sqs block of /mock/state: tombstoned messages are counted, not listed.\<close>

definition gather_sqs_state :: "string \<Rightarrow> db \<Rightarrow> json" where
  "gather_sqs_state account d =
     (let ms = list_sqs_messages account [] d
      in JObj
        [(''queues'', JArr (map (\<lambda>q. JObj [(''name'', JStr (q_name q)), (''url'', JStr (q_url q)), (''arn'', JStr (q_arn q)),
            (''fifo'', JBool (q_fifo q)), (''region'', JStr (q_region q))]) (list_sqs_queues account [] d))),
         (''messages'', JArr (map (\<lambda>m. JObj [(''queue_name'', JStr (m_queue_name m)), (''message_id'', JStr (m_message_id m)),
            (''body'', JStr (m_body m)), (''receive_count'', JInt (m_receive_count m)),
            (''visible_after'', JInt (m_visible_after m)), (''region'', JStr (m_region m))])
            (filter (\<lambda>m. m_queue_name m \<noteq> sqs_tombstone) ms))),
         (''tombstoned_messages'', JInt (int (length (filter (\<lambda>m. m_queue_name m = sqs_tombstone) ms))))])"

section \<open>What the operations keep\<close>

text \<open>
  A queue's row agrees with its data, and each message is in a stored queue or in the tombstone.
\<close>

definition queue_row_wf :: "sqs_queue_row \<Rightarrow> bool" where
  "queue_row_wf r \<longleftrightarrow> q_region (qr_data r) = qr_region r \<and> q_name (qr_data r) = qr_name r \<and>
     q_arn (qr_data r) = qr_arn r \<and> q_attributes (qr_data r) = qr_attributes r \<and> q_fifo (qr_data r) = qr_fifo r \<and>
     qr_arn r = sqs_queue_arn (qr_region r) (qr_account r) (qr_name r) \<and>
     (qr_fifo r \<longleftrightarrow> has_suffix (qr_name r) ''.fifo'') \<and> gm_wf (qr_attributes r)"

definition message_homed :: "db \<Rightarrow> sqs_message_row \<Rightarrow> bool" where
  "message_homed d r \<longleftrightarrow> m_queue_name (mr_msg r) = sqs_tombstone \<or>
     (mr_account r, m_region (mr_msg r), m_queue_name (mr_msg r)) \<in> set (map queue_pk (sqs_queues d))"

definition sqs_wf :: "db \<Rightarrow> bool" where
  "sqs_wf d \<longleftrightarrow> keys_ok d \<and> (\<forall>r\<in>set (sqs_queues d). queue_row_wf r) \<and> (\<forall>r\<in>set (sqs_messages d). message_homed d r)"

text \<open>The rest of the database, and that an operation leaves it alone.\<close>

definition sqs_rest :: "db \<Rightarrow> db" where
  "sqs_rest d = d\<lparr>sqs_queues := [], sqs_messages := [], resource_tags := []\<rparr>"

definition sqs_only :: "db \<Rightarrow> db \<Rightarrow> bool" where
  "sqs_only d d' \<longleftrightarrow> sqs_rest d' = sqs_rest d"

lemma sqs_only_refl [simp]: "sqs_only d d"
  by (simp add: sqs_only_def)

lemma sqs_only_trans: "sqs_only d d1 \<Longrightarrow> sqs_only d1 d2 \<Longrightarrow> sqs_only d d2"
  by (simp add: sqs_only_def)

lemma sqs_only_updates [simp]:
  "sqs_only d (d\<lparr>sqs_queues := q\<rparr>)" "sqs_only d (d\<lparr>sqs_messages := m\<rparr>)" "sqs_only d (d\<lparr>resource_tags := t\<rparr>)"
  by (simp_all add: sqs_only_def sqs_rest_def)

lemma sqs_only_fields:
  assumes "sqs_only d d'"
  shows "identity_tbl d' = identity_tbl d" "kms_keys d' = kms_keys d" "ssm_parameters d' = ssm_parameters d"
    "secrets d' = secrets d" "secret_versions d' = secret_versions d" "ddb_tables d' = ddb_tables d"
    "ddb_items d' = ddb_items d" "ec2_tags d' = ec2_tags d"
    "other_rows d' = other_rows d" "ec2_tbls d' = ec2_tbls d" "eks_tbls d' = eks_tbls d" "rds_tbls d' = rds_tbls d" "iam_tbls d' = iam_tbls d" "r53_tbls d' = r53_tbls d" "s3_tbls d' = s3_tbls d"
proof -
  have eq: "sqs_rest d' = sqs_rest d" using assms by (simp add: sqs_only_def)
  show "identity_tbl d' = identity_tbl d" "kms_keys d' = kms_keys d" "ssm_parameters d' = ssm_parameters d"
    "secrets d' = secrets d" "secret_versions d' = secret_versions d" "ddb_tables d' = ddb_tables d"
    "ddb_items d' = ddb_items d" "ec2_tags d' = ec2_tags d"
    "other_rows d' = other_rows d" "ec2_tbls d' = ec2_tbls d" "eks_tbls d' = eks_tbls d" "rds_tbls d' = rds_tbls d" "iam_tbls d' = iam_tbls d" "r53_tbls d' = r53_tbls d" "s3_tbls d' = s3_tbls d"
    using eq [THEN arg_cong [where f = identity_tbl]] eq [THEN arg_cong [where f = kms_keys]]
      eq [THEN arg_cong [where f = ssm_parameters]] eq [THEN arg_cong [where f = secrets]]
      eq [THEN arg_cong [where f = secret_versions]] eq [THEN arg_cong [where f = ddb_tables]]
      eq [THEN arg_cong [where f = ddb_items]] eq [THEN arg_cong [where f = ec2_tags]]
      eq [THEN arg_cong [where f = other_rows]]
      eq [THEN arg_cong [where f = ec2_tbls]] eq [THEN arg_cong [where f = eks_tbls]] eq [THEN arg_cong [where f = rds_tbls]]
      eq [THEN arg_cong [where f = iam_tbls]]
      eq [THEN arg_cong [where f = r53_tbls]]
      eq [THEN arg_cong [where f = s3_tbls]]
    by (simp_all add: sqs_rest_def)
qed

lemma account_id_sqs_only: "sqs_only d d' \<Longrightarrow> account_id d' = account_id d"
  by (simp add: sqs_only_fields account_id_def get_identity_def)

text \<open>One step of the SQS state: what every operation is made of.\<close>

definition sqs_keeps :: "db \<Rightarrow> db \<Rightarrow> bool" where
  "sqs_keeps d d' \<longleftrightarrow> sqs_only d d' \<and> (sqs_wf d \<longrightarrow> sqs_wf d') \<and> (keys_ok d \<longrightarrow> keys_ok d')"

lemma sqs_keeps_refl [simp]: "sqs_keeps d d"
  by (simp add: sqs_keeps_def)

lemma sqs_keeps_trans: "sqs_keeps d d1 \<Longrightarrow> sqs_keeps d1 d2 \<Longrightarrow> sqs_keeps d d2"
  by (auto simp: sqs_keeps_def intro: sqs_only_trans)

lemma sqs_keeps_tags:
  assumes "pk tag_pk (resource_tags d) \<longrightarrow> pk tag_pk t"
  shows "sqs_keeps d (d\<lparr>resource_tags := t\<rparr>)"
  using assms by (auto simp: sqs_keeps_def sqs_wf_def keys_ok_def message_homed_def)

lemma sqs_keeps_change_tags: "sqs_keeps d (snd (change_resource_tags a tbl arn add remove d))"
  by (auto simp: change_resource_tags_eq intro!: sqs_keeps_tags intro: tbl_intros)

definition sqs_row :: "string \<Rightarrow> sqs_queue \<Rightarrow> sqs_queue_row" where
  "sqs_row a q = \<lparr>qr_account = a, qr_region = q_region q, qr_name = q_name q, qr_arn = q_arn q,
     qr_attributes = q_attributes q, qr_fifo = q_fifo q, qr_data = q\<rparr>"

lemma create_sqs_queue_row:
  "create_sqs_queue a q d = (case insert_row queue_pk (sqs_row a q) (sqs_queues d) of
     Inl e \<Rightarrow> (Some e, d) | Inr t \<Rightarrow> (None, d\<lparr>sqs_queues := t\<rparr>))"
  by (simp add: create_sqs_queue_def sqs_row_def)

lemma sqs_keeps_create:
  assumes "q_arn q = sqs_queue_arn (q_region q) a (q_name q)" "q_fifo q \<longleftrightarrow> has_suffix (q_name q) ''.fifo''"
    "gm_wf (q_attributes q)"
  shows "sqs_keeps d (snd (create_sqs_queue a q d))"
proof (cases "insert_row queue_pk (sqs_row a q) (sqs_queues d)")
  case (Inr t)
  then have t: "t = sqs_queues d @ [sqs_row a q]" by (simp add: insert_row_find split: option.splits)
  have "pk queue_pk (sqs_queues d) \<Longrightarrow> pk queue_pk t" by (rule pk_insert_row [OF _ Inr])
  moreover have "queue_row_wf (sqs_row a q)" using assms by (simp add: queue_row_wf_def sqs_row_def)
  ultimately show ?thesis
    using Inr by (auto simp: create_sqs_queue_row sqs_keeps_def sqs_wf_def keys_ok_def message_homed_def t)
qed (simp add: create_sqs_queue_row)

lemma get_sqs_queue_row:
  assumes "get_sqs_queue a rg n d = Inr q"
  obtains r where "r \<in> set (sqs_queues d)" "queue_pk r = (a, rg, n)" "qr_data r = q"
proof -
  obtain r where "find (\<lambda>r. queue_pk r = (a, rg, n)) (sqs_queues d) = Some r" "qr_data r = q"
    using assms by (auto simp: get_sqs_queue_def split: option.splits)
  then show thesis by (intro that [of r]) (auto simp: find_Some_iff)
qed

lemma sqs_keeps_queues:
  assumes "map queue_pk t = map queue_pk (sqs_queues d)" and "sqs_wf d \<Longrightarrow> \<forall>r\<in>set t. queue_row_wf r"
  shows "sqs_keeps d (d\<lparr>sqs_queues := t\<rparr>)"
proof -
  have "pk queue_pk t = pk queue_pk (sqs_queues d)" using assms(1) by (simp only: pk_def)
  then have "keys_ok (d\<lparr>sqs_queues := t\<rparr>) = keys_ok d" by (simp add: keys_ok_def)
  moreover have "message_homed (d\<lparr>sqs_queues := t\<rparr>) r = message_homed d r" for r
    unfolding message_homed_def by (simp add: assms(1) del: set_map)
  ultimately show ?thesis
    using assms(2) by (auto simp: sqs_keeps_def sqs_wf_def)
qed

lemma queue_row_wf_set:
  assumes "queue_row_wf r"
  shows "queue_row_wf (r\<lparr>qr_attributes := gm_set_all attrs (q_attributes (qr_data r)),
    qr_data := (qr_data r)\<lparr>q_attributes := gm_set_all attrs (q_attributes (qr_data r))\<rparr>\<rparr>)"
  using assms by (simp add: queue_row_wf_def)

lemma sqs_keeps_attributes: "sqs_keeps d (snd (set_sqs_queue_attributes a rg n attrs d))"
proof (cases "get_sqs_queue a rg n d")
  case (Inr q)
  define f where "f r = r\<lparr>qr_attributes := gm_set_all attrs (q_attributes q),
      qr_data := q\<lparr>q_attributes := gm_set_all attrs (q_attributes q)\<rparr>\<rparr>" for r :: sqs_queue_row
  obtain r0 where r0: "r0 \<in> set (sqs_queues d)" "queue_pk r0 = (a, rg, n)" "qr_data r0 = q"
    by (rule get_sqs_queue_row [OF Inr])
  have "snd (set_sqs_queue_attributes a rg n attrs d) =
      d\<lparr>sqs_queues := sql_update (\<lambda>r. queue_pk r = (a, rg, n)) f (sqs_queues d)\<rparr>"
    using Inr by (simp add: set_sqs_queue_attributes_def Let_def f_def [abs_def])
  moreover have "sqs_keeps d (d\<lparr>sqs_queues := sql_update (\<lambda>r. queue_pk r = (a, rg, n)) f (sqs_queues d)\<rparr>)"
  proof (rule sqs_keeps_queues)
    show "map queue_pk (sql_update (\<lambda>r. queue_pk r = (a, rg, n)) f (sqs_queues d)) = map queue_pk (sqs_queues d)"
      by (rule map_key_update) (simp add: queue_pk_def f_def)
    assume wf: "sqs_wf d"
    then have rows: "\<forall>r\<in>set (sqs_queues d). queue_row_wf r" and pk: "pk queue_pk (sqs_queues d)"
      by (simp_all add: sqs_wf_def keys_ok_def)
    have "r = r0" if "r \<in> set (sqs_queues d)" "queue_pk r = (a, rg, n)" for r
      using that r0 pk by (auto simp: pk_def distinct_map inj_on_def)
    moreover have "queue_row_wf (f r0)"
      using queue_row_wf_set [of r0 attrs] rows r0 by (simp add: f_def)
    ultimately show "\<forall>r\<in>set (sql_update (\<lambda>r. queue_pk r = (a, rg, n)) f (sqs_queues d)). queue_row_wf r"
      using rows by (auto simp: sql_update_def)
  qed
  ultimately show ?thesis by simp
qed (simp add: set_sqs_queue_attributes_def)

text \<open>Moving a queue's messages to the tombstone.\<close>

definition badge :: "sqs_message_row \<Rightarrow> sqs_message_row" where
  "badge r = r\<lparr>mr_msg := (mr_msg r)\<lparr>m_queue_name := sqs_tombstone\<rparr>\<rparr>"

lemma badge_simps [simp]:
  "mr_account (badge r) = mr_account r" "m_region (mr_msg (badge r)) = m_region (mr_msg r)"
  "m_message_id (mr_msg (badge r)) = m_message_id (mr_msg r)" "m_body (mr_msg (badge r)) = m_body (mr_msg r)"
  "m_queue_name (mr_msg (badge r)) = sqs_tombstone"
  by (simp_all add: badge_def)

lemma rebadge_messages_badge:
  "rebadge_messages a rg n d =
     (if rebadge_clash a rg n d then (Some rebadge_failed, d)
      else (None, d\<lparr>sqs_messages := sql_update (in_queue a rg n) badge (sqs_messages d)\<rparr>))"
  by (simp add: rebadge_messages_def badge_def [abs_def])

lemma pk_rebadge:
  assumes "pk message_pk (sqs_messages d)" and "\<not> rebadge_clash a rg n d"
  shows "pk message_pk (sql_update (in_queue a rg n) badge (sqs_messages d))"
proof -
  let ?g = "\<lambda>r. message_pk (if in_queue a rg n r then badge r else r)"
  have d: "distinct (sqs_messages d)" and inj: "inj_on message_pk (set (sqs_messages d))"
    using assms(1) by (auto simp: pk_def distinct_map)
  have "x = y" if "x \<in> set (sqs_messages d)" "y \<in> set (sqs_messages d)" "?g x = ?g y" for x y
  proof -
    have "message_pk x = message_pk y"
    proof (cases "in_queue a rg n x = in_queue a rg n y")
      case True
      with that(3) show ?thesis by (auto simp: message_pk_def in_queue_def split: if_splits)
    next
      case False
      have nc: "m_message_id (mr_msg v) \<noteq> m_message_id (mr_msg u)"
        if "u \<in> set (sqs_messages d)" "v \<in> set (sqs_messages d)" "in_queue a rg n u" "in_queue a rg sqs_tombstone v" for u v
        using that assms(2) by (auto simp: rebadge_clash_def)
      have badged: "in_queue a rg sqs_tombstone v \<and> m_message_id (mr_msg v) = m_message_id (mr_msg u)"
        if "in_queue a rg n u" "message_pk (badge u) = message_pk v" for u v
        using that by (auto simp: message_pk_def in_queue_def)
      show ?thesis
      proof (cases "in_queue a rg n x")
        case True
        with False that(3) have "message_pk (badge x) = message_pk y" by simp
        from badged [OF True this] nc [OF that(1,2) True] show ?thesis by blast
      next
        case x: False
        with False that(3) have y: "in_queue a rg n y" "message_pk (badge y) = message_pk x" by simp_all
        from badged [OF y] nc [OF that(2,1) y(1)] show ?thesis by blast
      qed
    qed
    with inj that show ?thesis by (auto simp: inj_on_def)
  qed
  then have "inj_on ?g (set (sqs_messages d))" by (auto simp: inj_on_def)
  with d have "distinct (map ?g (sqs_messages d))" by (simp add: distinct_map)
  then show ?thesis by (simp add: pk_def sql_update_def o_def)
qed

lemma sqs_keeps_messages:
  assumes "pk message_pk (sqs_messages d) \<Longrightarrow> pk message_pk t"
    and "\<And>r. r \<in> set t \<Longrightarrow> \<forall>r\<in>set (sqs_messages d). message_homed d r \<Longrightarrow> message_homed d r"
  shows "sqs_keeps d (d\<lparr>sqs_messages := t\<rparr>)"
  using assms by (auto simp: sqs_keeps_def sqs_wf_def keys_ok_def message_homed_def)

text \<open>Deleting a queue moves its messages first, so none is left behind without a queue.\<close>

lemma fold_drop_tags:
  "fold (\<lambda>r. drop_resource_tags (f r) (g r)) rs d =
     d\<lparr>resource_tags := filter (\<lambda>t. \<not> (\<exists>r\<in>set rs. g_account t = f r \<and> g_arn t = g r)) (resource_tags d)\<rparr>"
  by (induction rs arbitrary: d) (auto simp: drop_resource_tags_def sql_delete_def filter_filter intro!: filter_cong)

lemma delete_queue_row_eq:
  "delete_queue_row a rg n d = d\<lparr>sqs_queues := sql_delete (\<lambda>r. queue_pk r = (a, rg, n)) (sqs_queues d),
     resource_tags := filter (\<lambda>t. \<not> (\<exists>r\<in>set (filter (\<lambda>r. queue_pk r = (a, rg, n)) (sqs_queues d)).
         g_account t = qr_account r \<and> g_arn t = qr_arn r)) (resource_tags d)\<rparr>"
  unfolding delete_queue_row_def Let_def fold_drop_tags by simp

lemma delete_sqs_queue_cases:
  assumes "name \<noteq> sqs_tombstone" and "get_sqs_queue a rg name d = Inr q" and "\<not> rebadge_clash a rg name d"
  shows "delete_sqs_queue a rg name d = (None, delete_queue_row a rg name
    (d\<lparr>sqs_messages := sql_update (in_queue a rg name) badge (sqs_messages d)\<rparr>))"
proof -
  have "affected (\<lambda>r. queue_pk r = (a, rg, name)) (sqs_queues d) \<noteq> 0"
    using assms(2) by (auto simp: affected_0_iff get_sqs_queue_def split: option.splits)
  with assms show ?thesis
    by (simp add: delete_sqs_queue_def rebadge_messages_badge)
qed

lemma sqs_keeps_rebadge:
  assumes "\<not> rebadge_clash a rg n d"
  shows "sqs_keeps d (d\<lparr>sqs_messages := sql_update (in_queue a rg n) badge (sqs_messages d)\<rparr>)"
proof (rule sqs_keeps_messages)
  show "pk message_pk (sql_update (in_queue a rg n) badge (sqs_messages d))" if "pk message_pk (sqs_messages d)"
    by (rule pk_rebadge [OF that assms])
  show "message_homed d r" if "r \<in> set (sql_update (in_queue a rg n) badge (sqs_messages d))"
    "\<forall>r\<in>set (sqs_messages d). message_homed d r" for r
    using that by (auto simp: sql_update_def message_homed_def)
qed

lemma sqs_keeps_drop_queue:
  assumes "\<forall>r\<in>set (sqs_messages d). \<not> in_queue a rg n r"
  shows "sqs_keeps d (d\<lparr>sqs_queues := sql_delete (\<lambda>r. queue_pk r = (a, rg, n)) (sqs_queues d)\<rparr>)"
proof -
  let ?t = "sql_delete (\<lambda>r. queue_pk r = (a, rg, n)) (sqs_queues d)"
  have keys: "set (map queue_pk ?t) = set (map queue_pk (sqs_queues d)) - {(a, rg, n)}"
    by (auto simp: sql_delete_def)
  have "message_homed (d\<lparr>sqs_queues := ?t\<rparr>) r" if "r \<in> set (sqs_messages d)" "message_homed d r" for r
    using that assms unfolding message_homed_def by (auto simp: keys in_queue_def simp del: set_map)
  moreover have "keys_ok d \<longrightarrow> keys_ok (d\<lparr>sqs_queues := ?t\<rparr>)" by (simp add: keys_ok_def pk_delete)
  moreover have "set ?t \<subseteq> set (sqs_queues d)" by (auto simp: sql_delete_def)
  ultimately show ?thesis unfolding sqs_keeps_def sqs_wf_def by auto
qed

lemma sqs_keeps_delete_row:
  assumes "\<forall>r\<in>set (sqs_messages d). \<not> in_queue a rg n r"
  shows "sqs_keeps d (delete_queue_row a rg n d)"
proof -
  let ?d = "d\<lparr>sqs_queues := sql_delete (\<lambda>r. queue_pk r = (a, rg, n)) (sqs_queues d)\<rparr>"
  have "sqs_keeps ?d (?d\<lparr>resource_tags := filter P (resource_tags d)\<rparr>)" for P
    by (rule sqs_keeps_tags) (simp add: pk_def distinct_map_filter)
  with sqs_keeps_drop_queue [OF assms] show ?thesis
    unfolding delete_queue_row_eq by (rule sqs_keeps_trans)
qed

lemma in_queue_badge:
  "in_queue a rg n (badge r) \<longleftrightarrow> mr_account r = a \<and> m_region (mr_msg r) = rg \<and> n = sqs_tombstone"
  by (auto simp: in_queue_def)

lemma rebadged_empty:
  "n \<noteq> sqs_tombstone \<Longrightarrow> r \<in> set (sql_update (in_queue a rg n) badge t) \<Longrightarrow> \<not> in_queue a rg n r"
  by (auto simp: sql_update_def in_queue_badge)

lemma sqs_keeps_delete: "sqs_keeps d (snd (delete_sqs_queue a rg n d))"
proof (cases "n = sqs_tombstone \<or> (\<exists>e. get_sqs_queue a rg n d = Inl e) \<or> rebadge_clash a rg n d")
  case True
  then show ?thesis by (auto simp: delete_sqs_queue_def rebadge_messages_badge split: sum.split)
next
  case False
  then obtain q where q: "get_sqs_queue a rg n d = Inr q" by (cases "get_sqs_queue a rg n d") auto
  let ?d = "d\<lparr>sqs_messages := sql_update (in_queue a rg n) badge (sqs_messages d)\<rparr>"
  have "snd (delete_sqs_queue a rg n d) = delete_queue_row a rg n ?d"
    using False q by (simp add: delete_sqs_queue_cases)
  moreover have "sqs_keeps d ?d" using False by (intro sqs_keeps_rebadge) simp
  moreover have "sqs_keeps ?d (delete_queue_row a rg n ?d)"
    using False by (intro sqs_keeps_delete_row) (auto dest: rebadged_empty)
  ultimately show ?thesis by (auto intro: sqs_keeps_trans)
qed

lemma sqs_keeps_send:
  assumes "m_region m = rg"
  shows "sqs_keeps d (snd (send_sqs_message a rg m d))"
proof (cases "m_queue_name m = sqs_tombstone \<or> (\<exists>e. get_sqs_queue a rg (m_queue_name m) d = Inl e)")
  case True
  then show ?thesis by (auto simp: send_sqs_message_def split: sum.split)
next
  case False
  then obtain q where q: "get_sqs_queue a rg (m_queue_name m) d = Inr q"
    by (cases "get_sqs_queue a rg (m_queue_name m) d") auto
  let ?r = "\<lparr>mr_account = a, mr_msg = m\<lparr>m_region := rg\<rparr>\<rparr>"
  obtain r0 where r0: "r0 \<in> set (sqs_queues d)" "queue_pk r0 = (a, rg, m_queue_name m)"
    by (rule get_sqs_queue_row [OF q])
  show ?thesis
  proof (cases "insert_row message_pk ?r (sqs_messages d)")
    case (Inl e)
    with False q show ?thesis by (simp add: send_sqs_message_def)
  next
    case (Inr t)
    have t: "t = sqs_messages d @ [?r]" using Inr by (simp add: insert_row_find split: option.splits)
    have "message_homed d ?r"
      unfolding message_homed_def using imageI [OF r0(1), of queue_pk] r0(2) by simp
    then have "sqs_keeps d (d\<lparr>sqs_messages := t\<rparr>)"
      by (intro sqs_keeps_messages pk_insert_row [OF _ Inr]) (auto simp: t)
    with False q Inr show ?thesis by (simp add: send_sqs_message_def)
  qed
qed

lemma stamp_message_simps [simp]:
  "m_queue_name (stamp_message v m) = m_queue_name m" "m_message_id (stamp_message v m) = m_message_id m"
  "m_body (stamp_message v m) = m_body m" "m_region (stamp_message v m) = m_region m"
  "m_visible_after (stamp_message v m) = v" "m_receive_count (stamp_message v m) = m_receive_count m + 1"
  "m_receipt_handle (stamp_message v m) = new_handle (m_message_id m)" "m_created_at (stamp_message v m) = m_created_at m"
  by (simp_all add: stamp_message_def)

definition stamp :: "int \<Rightarrow> sqs_message_row \<Rightarrow> sqs_message_row" where
  "stamp v r = r\<lparr>mr_msg := stamp_message v (mr_msg r)\<rparr>"

lemma stamp_simps [simp]:
  "mr_account (stamp v r) = mr_account r" "mr_msg (stamp v r) = stamp_message v (mr_msg r)"
  "message_pk (stamp v r) = message_pk r" "in_queue a rg n (stamp v r) = in_queue a rg n r"
  by (simp_all add: stamp_def message_pk_def in_queue_def)

lemma stamp_row_eq: "stamp_row a rg n v i t = sql_update (\<lambda>r. in_queue a rg n r \<and> m_message_id (mr_msg r) = i) (stamp v) t"
  unfolding stamp_row_def sql_update_def stamp_def [abs_def]
  by (rule map_cong) (auto simp: message_pk_def in_queue_def)

lemma fold_stamp_row:
  "distinct ids \<Longrightarrow> fold (stamp_row a rg n v) ids t =
     sql_update (\<lambda>r. in_queue a rg n r \<and> m_message_id (mr_msg r) \<in> set ids) (stamp v) t"
proof (induction ids arbitrary: t)
  case (Cons i ids)
  then have IH: "fold (stamp_row a rg n v) ids (stamp_row a rg n v i t) =
      sql_update (\<lambda>r. in_queue a rg n r \<and> m_message_id (mr_msg r) \<in> set ids) (stamp v) (stamp_row a rg n v i t)"
    and new: "i \<notin> set ids" by auto
  show ?case
    unfolding fold_simps IH unfolding stamp_row_eq using new by (auto simp: sql_update_def)
qed (simp add: sql_update_def)

lemma fold_stamp_row_keys: "map message_pk (fold (stamp_row a rg n v) ids t) = map message_pk t"
proof (induction ids arbitrary: t)
  case (Cons i ids)
  have "map message_pk (stamp_row a rg n v i t) = map message_pk t"
    unfolding stamp_row_eq by (rule map_key_update) simp
  with Cons.IH show ?case by simp
qed simp

lemma message_homed_pk:
  "message_pk r = message_pk r' \<Longrightarrow> message_homed d r = message_homed d r'"
  by (simp add: message_homed_def message_pk_def)

lemma sqs_keeps_receive: "sqs_keeps d (snd (receive_sqs_messages a rg n now mx vt d))"
proof (cases "get_sqs_queue a rg n d")
  case (Inr q)
  define t where "t = fold (stamp_row a rg n (wrap64 (now + vt)))
    (map m_message_id (sql_limit mx (visible_messages a rg n now d))) (sqs_messages d)"
  have keys: "map message_pk t = map message_pk (sqs_messages d)"
    by (simp add: t_def fold_stamp_row_keys del: fold_map)
  have "sqs_keeps d (d\<lparr>sqs_messages := t\<rparr>)"
  proof (rule sqs_keeps_messages)
    show "pk message_pk (sqs_messages d) \<Longrightarrow> pk message_pk t" by (simp only: pk_def keys)
    fix r assume r: "r \<in> set t" and h: "\<forall>r\<in>set (sqs_messages d). message_homed d r"
    have "message_pk r \<in> set (map message_pk (sqs_messages d))"
      unfolding keys [symmetric] using r by simp
    then obtain r' where "r' \<in> set (sqs_messages d)" "message_pk r = message_pk r'" by auto
    with h show "message_homed d r" using message_homed_pk by blast
  qed
  with Inr show ?thesis by (simp add: receive_sqs_messages_def Let_def t_def)
qed (simp add: receive_sqs_messages_def)

lemma sqs_keeps_delete_message: "sqs_keeps d (snd (delete_sqs_message a rg n h d))"
proof -
  have "sqs_keeps d (d\<lparr>sqs_messages := sql_delete p (sqs_messages d)\<rparr>)" for p
    by (rule sqs_keeps_messages) (auto simp: sql_delete_def pk_def distinct_map_filter)
  then show ?thesis by (simp add: delete_sqs_message_def Let_def)
qed

text \<open>So does every request.\<close>

lemma gm_wf_field_string_map: "gm_wf (snd (unmarshal (field_string_map f) b))"
  by (auto simp: unmarshal_def dec_struct_def field_string_map_def split: option.split prod.split
      intro: gm_wf_field_map) (metis gm_wf_field_map snd_conv)

lemma sqs_new_queue_simps [simp]:
  "q_arn (sqs_new_queue env h a rg b) = sqs_queue_arn rg a (q_name (sqs_new_queue env h a rg b))"
  "q_region (sqs_new_queue env h a rg b) = rg"
  "q_fifo (sqs_new_queue env h a rg b) = has_suffix (q_name (sqs_new_queue env h a rg b)) ''.fifo''"
  "q_name (sqs_new_queue env h a rg b) = snd (unmarshal (field_string ''QueueName'') b)"
  "q_attributes (sqs_new_queue env h a rg b) = snd (unmarshal (field_string_map ''Attributes'') b)"
  by (simp_all add: sqs_new_queue_def Let_def)

lemma sqs_keeps_tag_created:
  assumes "\<And>d. sqs_keeps d (snd (undo d))"
  shows "sqs_keeps d (snd (tag_created a tbl arn tags undo d))"
proof (cases "tag_resource a tbl arn tags d")
  case (Pair e d1)
  have 1: "sqs_keeps d d1" using sqs_keeps_change_tags [of d a tbl arn tags "[]"] Pair by (simp add: tag_resource_def)
  with assms [of d1] show ?thesis
    by (auto simp: tag_created_def Pair split: option.split prod.split dest: sqs_keeps_trans)
qed

lemma sqs_create_queue_keeps: "sqs_keeps d (snd (sqs_create_queue env h a rg b d))"
proof -
  define q where "q = sqs_new_queue env h a rg b"
  have 1: "sqs_keeps d (snd (create_sqs_queue a q d))"
    by (rule sqs_keeps_create) (simp_all add: q_def gm_wf_field_string_map)
  have 2: "sqs_keeps d (snd (tag_created a tbl arn tags (delete_sqs_queue a rg n) (snd (create_sqs_queue a q d))))"
    for tbl arn tags n
    by (rule sqs_keeps_trans [OF 1 sqs_keeps_tag_created]) (rule sqs_keeps_delete)
  show ?thesis
    unfolding sqs_create_queue_def Let_def q_def [symmetric]
    using 1 2 by (simp add: split_beta split: option.split)
qed

lemma sqs_keeps_case:
  "sqs_keeps d (snd x) \<Longrightarrow> sqs_keeps d (snd (case x of (Some e, d') \<Rightarrow> (f e d', d') | (None, d') \<Rightarrow> (g d', d')))"
  by (simp add: split_beta split: option.split)

lemma sqs_tag_answer_keeps: "sqs_keeps d (snd x) \<Longrightarrow> sqs_keeps d (snd (sqs_tag_answer b x))"
  unfolding sqs_tag_answer_def by (rule sqs_keeps_case)

lemma sqs_op_keeps:
  "sqs_keeps d (snd (sqs_delete_queue a rg b d))" "sqs_keeps d (snd (sqs_send_message env a rg b d))"
  "sqs_keeps d (snd (sqs_delete_message a rg b d))" "sqs_keeps d (snd (sqs_set_queue_attributes a rg b d))"
  "sqs_keeps d (snd (sqs_tag_queue a rg b d))" "sqs_keeps d (snd (sqs_untag_queue a rg b d))"
  "sqs_keeps d (snd (sqs_receive_message env a rg b d))"
proof -
  show "sqs_keeps d (snd (sqs_delete_queue a rg b d))"
    unfolding sqs_delete_queue_def by (intro sqs_keeps_case sqs_keeps_delete)
  show "sqs_keeps d (snd (sqs_send_message env a rg b d))"
    unfolding sqs_send_message_def
    by (simp del: split_paired_All) (intro impI sqs_keeps_case sqs_keeps_send, simp add: sqs_new_message_def)
  show "sqs_keeps d (snd (sqs_delete_message a rg b d))"
    unfolding sqs_delete_message_def by (intro sqs_keeps_case sqs_keeps_delete_message)
  show "sqs_keeps d (snd (sqs_set_queue_attributes a rg b d))"
    unfolding sqs_set_queue_attributes_def
    by (simp del: split_paired_All) (intro impI sqs_keeps_case sqs_keeps_attributes)
  show "sqs_keeps d (snd (sqs_tag_queue a rg b d))" "sqs_keeps d (snd (sqs_untag_queue a rg b d))"
    unfolding sqs_tag_queue_def sqs_untag_queue_def tag_resource_def untag_resource_def
    by (auto split: option.split intro: sqs_tag_answer_keeps sqs_keeps_change_tags)
  show "sqs_keeps d (snd (sqs_receive_message env a rg b d))"
  proof (cases "receive_sqs_messages a rg (sqs_body_queue b) (unix (e_now env))
        (or_default 1 (snd (unmarshal (field_int ''MaxNumberOfMessages'') b)))
        (or_default 30 (snd (unmarshal (field_int ''VisibilityTimeout'') b))) d")
    case (Pair ms d')
    then show ?thesis
      using sqs_keeps_receive [of d a rg "sqs_body_queue b" "unix (e_now env)"
          "or_default 1 (snd (unmarshal (field_int ''MaxNumberOfMessages'') b))"
          "or_default 30 (snd (unmarshal (field_int ''VisibilityTimeout'') b))"]
      by (simp add: sqs_receive_message_def split: sum.split)
  qed
qed

lemma sqs_if_keeps: "sqs_keeps d (snd x) \<Longrightarrow> sqs_keeps d (snd y) \<Longrightarrow> sqs_keeps d (snd (if c then x else y))"
  by simp

lemma sqs_read_keeps: "sqs_keeps d (snd (r, d))"
  by simp

lemma sqs_dispatch_keeps: "sqs_keeps d (snd (sqs_dispatch env h a rg oper b d))"
  unfolding sqs_dispatch_def by (intro sqs_if_keeps sqs_read_keeps sqs_create_queue_keeps sqs_op_keeps)

lemma handle_sqs_keeps: "sqs_keeps d (snd (handle_sqs env rg r d))"
  unfolding handle_sqs_def by (cases "parse_x_amz_target r") (simp_all add: sqs_dispatch_keeps)

lemma account_id_handle_sqs [simp]: "account_id (snd (handle_sqs env rg r d)) = account_id d"
  using handle_sqs_keeps [of d env rg r] by (simp add: sqs_keeps_def account_id_sqs_only)

lemma keys_ok_handle_sqs: "keys_ok d \<Longrightarrow> keys_ok (snd (handle_sqs env rg r d))"
  using handle_sqs_keeps [of d env rg r] by (simp add: sqs_keeps_def)

section \<open>Receives\<close>

lemma distinct_visible:
  assumes "pk message_pk (sqs_messages d)"
  shows "distinct (map m_message_id (visible_messages a rg n now d))"
proof -
  let ?xs = "filter (\<lambda>r. in_queue a rg n r \<and> m_visible_after (mr_msg r) \<le> now) (sqs_messages d)"
  have "distinct ?xs" using assms by (auto simp: pk_def distinct_map)
  moreover have "inj_on (\<lambda>r. m_message_id (mr_msg r)) (set ?xs)"
    using assms by (auto simp: pk_def distinct_map inj_on_def message_pk_def in_queue_def)
  ultimately have "distinct (map (\<lambda>r. m_message_id (mr_msg r)) ?xs)" by (simp add: distinct_map)
  then have "distinct (map m_message_id (map mr_msg ?xs))" by (simp add: o_def)
  then show ?thesis
    unfolding visible_messages_def by (simp only: distinct_map distinct_sort set_sort)
qed

lemma sql_limit_map: "map f (sql_limit n xs) = sql_limit n (map f xs)"
  by (simp add: sql_limit_def take_map)

lemma sql_limit_set: "set (sql_limit n xs) \<subseteq> set xs"
  by (auto simp: sql_limit_def dest: in_set_takeD)

lemma distinct_sql_limit: "distinct xs \<Longrightarrow> distinct (sql_limit n xs)"
  by (simp add: sql_limit_def)

lemma receive_found:
  assumes "receive_sqs_messages a rg n now mx vt d = (Inr ms, d')" and "keys_ok d"
  shows "map m_message_id ms = map m_message_id (sql_limit mx (visible_messages a rg n now d))"
    and "map (\<lambda>m. (m_message_id m, m_body m)) ms =
         map (\<lambda>m. (m_message_id m, m_body m)) (sql_limit mx (visible_messages a rg n now d))"
    and "d' = d\<lparr>sqs_messages := sql_update (\<lambda>r. in_queue a rg n r \<and> m_message_id (mr_msg r) \<in> set (map m_message_id ms))
          (stamp (wrap64 (now + vt))) (sqs_messages d)\<rparr>"
    and "\<forall>m\<in>set ms. m_receipt_handle m = new_handle (m_message_id m)"
proof -
  let ?p = "sql_limit mx (visible_messages a rg n now d)"
  obtain q where q: "get_sqs_queue a rg n d = Inr q"
    using assms(1) by (cases "get_sqs_queue a rg n d") (auto simp: receive_sqs_messages_def)
  have ms: "ms = map (\<lambda>p. \<lparr>m_queue_name = n, m_message_id = m_message_id p, m_body = m_body p,
      m_receipt_handle = new_handle (m_message_id p), m_visible_after = wrap64 (now + vt),
      m_receive_count = m_receive_count p + 1, m_region = rg, m_created_at = []\<rparr>) ?p"
    and d': "d' = d\<lparr>sqs_messages := fold (stamp_row a rg n (wrap64 (now + vt))) (map m_message_id ?p) (sqs_messages d)\<rparr>"
    using assms(1) q by (auto simp: receive_sqs_messages_def Let_def)
  show ids: "map m_message_id ms = map m_message_id ?p"
    and "map (\<lambda>m. (m_message_id m, m_body m)) ms = map (\<lambda>m. (m_message_id m, m_body m)) ?p"
    and "\<forall>m\<in>set ms. m_receipt_handle m = new_handle (m_message_id m)"
    by (auto simp: ms)
  have "distinct (map m_message_id ?p)"
    using assms(2) distinct_visible [of d a rg n now] by (simp add: keys_ok_def sql_limit_map distinct_sql_limit)
  then show "d' = d\<lparr>sqs_messages := sql_update (\<lambda>r. in_queue a rg n r \<and> m_message_id (mr_msg r) \<in> set (map m_message_id ms))
      (stamp (wrap64 (now + vt))) (sqs_messages d)\<rparr>"
    unfolding d' ids by (simp only: fold_stamp_row)
qed

lemma visible_iff:
  "m \<in> set (visible_messages a rg n now d) \<longleftrightarrow>
     (\<exists>r\<in>set (sqs_messages d). in_queue a rg n r \<and> m_visible_after (mr_msg r) \<le> now \<and> mr_msg r = m)"
  by (auto simp: visible_messages_def)

section \<open>Calls by operation\<close>

definition sqs_call :: "string \<Rightarrow> json option \<Rightarrow> request" where
  "sqs_call oper b = amz_call ''AmazonSQS'' oper b"

abbreviation sqs_local_host :: string where
  "sqs_local_host \<equiv> ''127.0.0.1:8082''"

lemma handle_sqs_call: "handle_sqs env rg (sqs_call oper b) d = sqs_dispatch env sqs_local_host (account_id d) rg oper b d"
proof -
  have "parse_x_amz_target (sqs_call oper b) = Inr \<lparr>x_service = ''AmazonSQS'', x_operation = oper, x_body = b\<rparr>"
    unfolding sqs_call_def by (rule parse_amz_call) simp
  moreover have "sqs_request_host (sqs_call oper b) = sqs_local_host"
    by (simp add: sqs_request_host_def sqs_call_def amz_call_def)
  ultimately show ?thesis by (simp add: handle_sqs_def)
qed

lemma sqs_dispatch_simps:
  "sqs_dispatch env h a rg ''CreateQueue'' b d = sqs_create_queue env h a rg b d"
  "sqs_dispatch env h a rg ''GetQueueUrl'' b d = (sqs_get_queue_url h a rg b d, d)"
  "sqs_dispatch env h a rg ''GetQueueAttributes'' b d = (sqs_get_queue_attributes a rg b d, d)"
  "sqs_dispatch env h a rg ''DeleteQueue'' b d = sqs_delete_queue a rg b d"
  "sqs_dispatch env h a rg ''SendMessage'' b d = sqs_send_message env a rg b d"
  "sqs_dispatch env h a rg ''ReceiveMessage'' b d = sqs_receive_message env a rg b d"
  "sqs_dispatch env h a rg ''DeleteMessage'' b d = sqs_delete_message a rg b d"
  "sqs_dispatch env h a rg ''SetQueueAttributes'' b d = sqs_set_queue_attributes a rg b d"
  by (simp_all add: sqs_dispatch_def)

lemma queue_name_of_url: "CHR ''/'' \<notin> set n \<Longrightarrow> queue_name_from_url (sqs_queue_url h a n) = n"
proof -
  assume "CHR ''/'' \<notin> set n"
  then have "after_last (CHR ''/'') ((''http://'' @ h @ ''/'' @ a) @ CHR ''/'' # n) = n" by (rule after_last_append)
  then show ?thesis by (simp add: queue_name_from_url_def sqs_queue_url_def)
qed

type_synonym call = "env \<times> string \<times> request"

definition sqs_run :: "call list \<Rightarrow> db \<Rightarrow> db" where
  "sqs_run qs d = fold (\<lambda>(env, rg, r) d. snd (handle_sqs env rg r d)) qs d"

lemma sqs_run_keeps: "sqs_keeps d (sqs_run qs d)"
proof (induction qs arbitrary: d)
  case (Cons q qs)
  obtain env rg r where q: "q = (env, rg, r)" by (cases q)
  show ?case
    using sqs_keeps_trans [OF handle_sqs_keeps [of d env rg r] Cons.IH] by (simp add: sqs_run_def q)
qed (simp add: sqs_run_def)

section \<open>Properties\<close>

text \<open>C6. Whatever SQS requests arrive, in whatever regions, every queue row keeps agreeing with the data
  stored in it (name, region, ARN, attributes, and fifo exactly for a name ending in .fifo), and no
  message is ever left in a queue that does not exist: each is in a stored queue or in the tombstone.\<close>

theorem sqs_invariant:
  assumes "sqs_wf d"
  shows "sqs_wf (sqs_run qs d)"
  using sqs_run_keeps [of d qs] assms by (simp add: sqs_keeps_def)

text \<open>C2. DeleteQueue loses no message: every one is kept with its id and body, those of the queue under
  the tombstone name, so a queue made again under the name starts empty; the queue is gone and so are
  its tags, and no other queue is.\<close>

theorem sqs_delete_queue_tombstones:
  assumes "get_sqs_queue (account_id d) rg n d = Inr q" and "sqs_body_queue b = n" and "n \<noteq> sqs_tombstone"
    and "\<not> rebadge_clash (account_id d) rg n d" and "sqs_wf d"
  shows "let (resp, d') = handle_sqs env rg (sqs_call ''DeleteQueue'' b) d;
             kept = (\<lambda>r. (mr_account r, m_region (mr_msg r), m_message_id (mr_msg r), m_body (mr_msg r)))
    in resp = write_json10 200 (JObj []) \<and> map kept (sqs_messages d') = map kept (sqs_messages d) \<and>
       filter (in_queue (account_id d) rg n) (sqs_messages d') = [] \<and>
       count_sqs_tombstoned_messages (account_id d) rg d' =
         count_sqs_tombstoned_messages (account_id d) rg d + affected (in_queue (account_id d) rg n) (sqs_messages d) \<and>
       tags_of (account_id d) (q_arn q) (resource_tags d') = [] \<and>
       (\<forall>a' rg' n'. get_sqs_queue a' rg' n' d' =
          (if (a', rg', n') = (account_id d, rg, n) then Inl ErrNotFound else get_sqs_queue a' rg' n' d))"
proof -
  let ?a = "account_id d" and ?m = "sql_update (in_queue (account_id d) rg n) badge (sqs_messages d)"
  let ?d = "delete_queue_row ?a rg n (d\<lparr>sqs_messages := ?m\<rparr>)"
  have h: "handle_sqs env rg (sqs_call ''DeleteQueue'' b) d = (write_json10 200 (JObj []), ?d)"
    by (simp add: handle_sqs_call sqs_dispatch_simps sqs_delete_queue_def assms(2)
        delete_sqs_queue_cases [OF assms(3,1,4)])
  have msgs: "sqs_messages ?d = ?m" and queues: "sqs_queues ?d = sql_delete (\<lambda>r. queue_pk r = (?a, rg, n)) (sqs_queues d)"
    by (simp_all add: delete_queue_row_eq)
  obtain r where r: "r \<in> set (sqs_queues d)" "queue_pk r = (?a, rg, n)" "qr_data r = q"
    by (rule get_sqs_queue_row [OF assms(1)])
  then have "qr_account r = ?a" "qr_arn r = q_arn q"
    using assms(5) by (auto simp: sqs_wf_def queue_row_wf_def queue_pk_def)
  with r(1,2) have "\<exists>r\<in>set (sqs_queues d). queue_pk r = (?a, rg, n) \<and> ?a = qr_account r \<and> q_arn q = qr_arn r"
    by (intro bexI [of _ r]) simp_all
  then have "filter (\<lambda>t. g_account t = ?a \<and> g_arn t = q_arn q) (resource_tags ?d) = []"
    by (auto simp: delete_queue_row_eq filter_empty_conv)
  then have "tags_of ?a (q_arn q) (resource_tags ?d) = []" by (simp add: tags_of_def)
  moreover have "filter (in_queue ?a rg n) ?m = []"
    using rebadged_empty [OF assms(3)] by (auto simp: filter_empty_conv)
  moreover have "affected (in_queue ?a rg sqs_tombstone) (sql_update (in_queue ?a rg n) badge t) =
      affected (in_queue ?a rg sqs_tombstone) t + affected (in_queue ?a rg n) t" for t
    using assms(3) unfolding affected_def sql_update_def
    by (induction t) (auto simp: in_queue_badge, auto simp: in_queue_def)
  moreover have "map (\<lambda>r. (mr_account r, m_region (mr_msg r), m_message_id (mr_msg r), m_body (mr_msg r))) ?m =
      map (\<lambda>r. (mr_account r, m_region (mr_msg r), m_message_id (mr_msg r), m_body (mr_msg r))) (sqs_messages d)"
    by (rule map_key_update) simp
  moreover have "get_sqs_queue a' rg' n' ?d =
      (if (a', rg', n') = (?a, rg, n) then Inl ErrNotFound else get_sqs_queue a' rg' n' d)" for a' rg' n'
    by (simp add: get_sqs_queue_def queues find_sql_delete_key)
  ultimately show ?thesis
    by (simp add: h msgs count_sqs_tombstoned_messages_def)
qed

text \<open>C7. A receive hands out only visible messages of the queue, no more than asked for, each once and
  with its body; it counts the delivery on exactly their rows; and until the visibility timeout has
  passed no later receive returns one of them.\<close>

theorem sqs_visibility_timeout:
  assumes "receive_sqs_messages a rg n now mx vt d = (Inr ms, d')" and "keys_ok d"
  shows "distinct (map m_message_id ms) \<and> (0 \<le> mx \<longrightarrow> int (length ms) \<le> mx) \<and>
    (\<forall>m\<in>set ms. \<exists>r\<in>set (sqs_messages d). in_queue a rg n r \<and> m_visible_after (mr_msg r) \<le> now \<and>
       m_message_id (mr_msg r) = m_message_id m \<and> m_body (mr_msg r) = m_body m) \<and>
    map (\<lambda>r. m_receive_count (mr_msg r)) (sqs_messages d') =
      map (\<lambda>r. m_receive_count (mr_msg r) +
             (if in_queue a rg n r \<and> m_message_id (mr_msg r) \<in> m_message_id ` set ms then 1 else 0)) (sqs_messages d) \<and>
    (now' < wrap64 (now + vt) \<longrightarrow> (case receive_sqs_messages a rg n now' mx' vt' d' of
       (Inr ms', d'') \<Rightarrow> m_message_id ` set ms \<inter> m_message_id ` set ms' = {} | _ \<Rightarrow> True))"
proof -
  note found = receive_found [OF assms]
  let ?p = "sql_limit mx (visible_messages a rg n now d)"
  have "distinct (map m_message_id ?p)"
    using assms(2) distinct_visible [of d a rg n now] by (simp add: keys_ok_def sql_limit_map distinct_sql_limit)
  then have 1: "distinct (map m_message_id ms)" by (simp only: found(1))
  have len: "length ms = length ?p" using found(1) by (metis length_map)
  have 2: "0 \<le> mx \<longrightarrow> int (length ms) \<le> mx" unfolding len by (auto simp: sql_limit_def)
  have 3: "\<exists>r\<in>set (sqs_messages d). in_queue a rg n r \<and> m_visible_after (mr_msg r) \<le> now \<and>
       m_message_id (mr_msg r) = m_message_id m \<and> m_body (mr_msg r) = m_body m" if "m \<in> set ms" for m
  proof -
    have "(m_message_id m, m_body m) \<in> set (map (\<lambda>m. (m_message_id m, m_body m)) ?p)"
      unfolding found(2) [symmetric] using that by auto
    then obtain m0 where "m0 \<in> set ?p" "m_message_id m0 = m_message_id m" "m_body m0 = m_body m" by auto
    moreover from this(1) have "m0 \<in> set (visible_messages a rg n now d)" using sql_limit_set by fastforce
    ultimately show ?thesis unfolding visible_iff by auto
  qed
  have 4: "map (\<lambda>r. m_receive_count (mr_msg r)) (sqs_messages d') =
      map (\<lambda>r. m_receive_count (mr_msg r) +
             (if in_queue a rg n r \<and> m_message_id (mr_msg r) \<in> m_message_id ` set ms then 1 else 0)) (sqs_messages d)"
    unfolding found(3) by (auto simp: sql_update_def)
  have 5: "m_message_id ` set ms \<inter> m_message_id ` set ms' = {}"
    if "now' < wrap64 (now + vt)" "receive_sqs_messages a rg n now' mx' vt' d' = (Inr ms', d'')" for ms' d''
  proof -
    have "keys_ok d'"
      using sqs_keeps_receive [of d a rg n now mx vt] assms by (simp add: sqs_keeps_def)
    note found' = receive_found(1) [OF that(2) this]
    have "i \<notin> m_message_id ` set ms" if "i \<in> m_message_id ` set (visible_messages a rg n now' d')" for i
      using that \<open>now' < wrap64 (now + vt)\<close> unfolding found(3) by (auto simp: visible_iff sql_update_def)
    moreover have "m_message_id ` set ms' = set (map m_message_id (sql_limit mx' (visible_messages a rg n now' d')))"
      unfolding found' [symmetric] by simp
    moreover have "set (map m_message_id (sql_limit mx' xs)) \<subseteq> m_message_id ` set xs" for xs
      using sql_limit_set by fastforce
    ultimately show ?thesis by blast
  qed
  have 6: "now' < wrap64 (now + vt) \<longrightarrow> (case receive_sqs_messages a rg n now' mx' vt' d' of
       (Inr ms', d'') \<Rightarrow> m_message_id ` set ms \<inter> m_message_id ` set ms' = {} | _ \<Rightarrow> True)"
    by (simp split: prod.split sum.split) (use 5 in blast)
  show ?thesis by (intro conjI 1 2 4 6 ballI 3)
qed

text \<open>C8. A message sent to an existing empty queue is the one the next receive returns, with its body;
  deleting it by the handle that receive gave answers 200 and leaves the messages as before the send.\<close>

theorem sqs_send_receive_delete:
  assumes "get_sqs_queue (account_id d) rg n d = Inr q" and "n \<noteq> sqs_tombstone"
    and "filter (in_queue (account_id d) rg n) (sqs_messages d) = []" and "0 \<le> unix (e_now env')"
    and "fst (unmarshal (field_string ''QueueUrl'') b)" and "fst (unmarshal (field_string ''MessageBody'') b)"
    and "sqs_body_queue b = n" and "sqs_body_queue b' = n" and "snd (unmarshal (field_int ''MaxNumberOfMessages'') b') = 0"
    and "sqs_body_queue b'' = n"
    and "snd (unmarshal (field_string ''ReceiptHandle'') b'') = new_handle (sqs_rand_id env)"
  shows "let (sent, d1) = handle_sqs env rg (sqs_call ''SendMessage'' b) d;
             (received, d2) = handle_sqs env' rg (sqs_call ''ReceiveMessage'' b') d1;
             (deleted, d3) = handle_sqs env'' rg (sqs_call ''DeleteMessage'' b'') d2
    in sent = write_json10 200 (JObj [(''MessageId'', JStr (sqs_rand_id env))]) \<and>
       received = write_json10 200 (JObj [(''Messages'', JArr [JObj
         [(''MessageId'', JStr (sqs_rand_id env)), (''Body'', JStr (snd (unmarshal (field_string ''MessageBody'') b))),
          (''ReceiptHandle'', JStr (new_handle (sqs_rand_id env)))]])]) \<and>
       deleted = write_json10 200 (JObj []) \<and> sqs_messages d3 = sqs_messages d"
proof -
  let ?a = "account_id d"
  define m where "m = sqs_new_message env rg b"
  define r where "r = \<lparr>mr_account = ?a, mr_msg = m\<rparr>"
  have m: "m_queue_name m = n" "m_message_id m = sqs_rand_id env" "m_region m = rg" "m_visible_after m = 0"
    "m_body m = snd (unmarshal (field_string ''MessageBody'') b)" "m\<lparr>m_region := rg\<rparr> = m"
    by (simp_all add: m_def sqs_new_message_def assms(7))
  have inq: "in_queue ?a rg n r" "in_queue ?a rg n (stamp v r)" for v by (simp_all add: in_queue_def r_def m)
  have none: "\<not> in_queue ?a rg n x" if "x \<in> set (sqs_messages d)" for x
    using assms(3) that by (auto simp: filter_empty_conv)
  let ?d1 = "d\<lparr>sqs_messages := sqs_messages d @ [r]\<rparr>"
  have "find (\<lambda>x. message_pk x = message_pk r) (sqs_messages d) = None"
    using none by (auto simp: find_None_iff message_pk_def in_queue_def r_def m)
  then have "send_sqs_message ?a rg m d = (None, ?d1)"
    by (simp add: send_sqs_message_def m assms(1,2) insert_row_find r_def [symmetric])
  then have send: "handle_sqs env rg (sqs_call ''SendMessage'' b) d =
      (write_json10 200 (JObj [(''MessageId'', JStr (sqs_rand_id env))]), ?d1)"
    by (simp add: handle_sqs_call sqs_dispatch_simps sqs_send_message_def assms(5,6) m_def [symmetric])
  let ?now = "unix (e_now env')" and ?vt = "or_default 30 (snd (unmarshal (field_int ''VisibilityTimeout'') b'))"
  let ?d2 = "d\<lparr>sqs_messages := sqs_messages d @ [stamp (wrap64 (?now + ?vt)) r]\<rparr>"
  have acc: "account_id (d\<lparr>sqs_messages := x\<rparr>) = ?a" for x by (simp add: account_id_def get_identity_def)
  have q: "get_sqs_queue ?a rg n (d\<lparr>sqs_messages := x\<rparr>) = Inr q" for x
    using assms(1) by (simp add: get_sqs_queue_def)
  have vis: "visible_messages ?a rg n ?now ?d1 = [m]"
  proof -
    have "filter (\<lambda>r. in_queue ?a rg n r \<and> m_visible_after (mr_msg r) \<le> ?now) (sqs_messages d @ [r]) = [r]"
      using none inq(1) assms(4) m(4) by (auto simp: filter_empty_conv r_def)
    then show ?thesis by (simp add: visible_messages_def r_def)
  qed
  have stamped: "stamp_row ?a rg n v (sqs_rand_id env) (sqs_messages d @ [r]) = sqs_messages d @ [stamp v r]" for v
    unfolding stamp_row_eq sql_update_def using none inq(1) by (auto simp: map_idI r_def m)
  have "handle_sqs env' rg (sqs_call ''ReceiveMessage'' b') ?d1 =
      (write_json10 200 (JObj [(''Messages'', JArr [JObj [(''MessageId'', JStr (sqs_rand_id env)),
         (''Body'', JStr (m_body m)), (''ReceiptHandle'', JStr (new_handle (sqs_rand_id env)))]])]), ?d2)"
    by (simp add: handle_sqs_call sqs_dispatch_simps sqs_receive_message_def assms(8,9) acc receive_sqs_messages_def q
        or_default_def [of 1] vis sql_limit_def Let_def m stamped)
  moreover have "delete_sqs_message ?a rg n (new_handle (sqs_rand_id env)) ?d2 = (None, d)"
  proof -
    have "sql_delete (\<lambda>x. in_queue ?a rg n x \<and> m_receipt_handle (mr_msg x) = new_handle (sqs_rand_id env))
        (sqs_messages d @ [stamp (wrap64 (?now + ?vt)) r]) = sqs_messages d"
      using none inq(2) by (auto simp: sql_delete_def filter_id_conv r_def m)
    moreover have "affected (\<lambda>x. in_queue ?a rg n x \<and> m_receipt_handle (mr_msg x) = new_handle (sqs_rand_id env))
        (sqs_messages d @ [stamp (wrap64 (?now + ?vt)) r]) \<noteq> 0"
      using inq(2) by (auto simp: affected_def r_def m)
    ultimately show ?thesis by (simp add: delete_sqs_message_def Let_def)
  qed
  then have "handle_sqs env'' rg (sqs_call ''DeleteMessage'' b'') ?d2 = (write_json10 200 (JObj []), d)"
    by (simp add: handle_sqs_call sqs_dispatch_simps sqs_delete_message_def assms(10,11) acc)
  ultimately show ?thesis by (simp add: send m)
qed

text \<open>SetQueueAttributes merges: GetQueueAttributes afterwards answers the request's attributes over
  the stored ones over the queue's ARN, and no other queue changes.\<close>

theorem sqs_attributes_read_back:
  assumes "get_sqs_queue (account_id d) rg n d = Inr q" and "sqs_wf d"
    and "fst (unmarshal (field_string ''QueueUrl'') b)" and "fst (unmarshal (field_string_map ''Attributes'') b)"
    and "sqs_body_queue b = n" and "sqs_body_queue b' = n"
  shows "let (resp, d') = handle_sqs env rg (sqs_call ''SetQueueAttributes'' b) d
    in resp = write_json10 200 (JObj []) \<and>
       (\<exists>attrs. handle_sqs env' rg (sqs_call ''GetQueueAttributes'' b') d' =
            (write_json10 200 (JObj [(''Attributes'', json_map attrs)]), d') \<and>
          map_of attrs = [''QueueArn'' \<mapsto> q_arn q] ++ map_of (q_attributes q) ++
            map_of (snd (unmarshal (field_string_map ''Attributes'') b))) \<and>
       (\<forall>a' rg' n'. (a', rg', n') \<noteq> (account_id d, rg, n) \<longrightarrow> get_sqs_queue a' rg' n' d' = get_sqs_queue a' rg' n' d)"
proof -
  let ?a = "account_id d" and ?new = "snd (unmarshal (field_string_map ''Attributes'') b)"
  let ?q = "q\<lparr>q_attributes := gm_set_all ?new (q_attributes q)\<rparr>"
  define f where "f r = r\<lparr>qr_attributes := q_attributes ?q, qr_data := ?q\<rparr>" for r :: sqs_queue_row
  let ?d = "d\<lparr>sqs_queues := sql_update (\<lambda>r. queue_pk r = (?a, rg, n)) f (sqs_queues d)\<rparr>"
  have set: "handle_sqs env rg (sqs_call ''SetQueueAttributes'' b) d = (write_json10 200 (JObj []), ?d)"
    by (simp add: handle_sqs_call sqs_dispatch_simps sqs_set_queue_attributes_def set_sqs_queue_attributes_def
        assms(1,3,4,5) Let_def f_def [abs_def])
  have f: "queue_pk (f r) = queue_pk r" "qr_data (f r) = ?q" for r by (simp_all add: f_def queue_pk_def)
  have get: "get_sqs_queue a' rg' n' ?d = (if (a', rg', n') = (?a, rg, n) then Inr ?q else get_sqs_queue a' rg' n' d)"
    for a' rg' n'
    using assms(1) by (auto simp: get_sqs_queue_def find_sql_update_key f split: option.splits)
  have acc: "account_id ?d = ?a" by (simp add: account_id_def get_identity_def)
  have wf: "gm_wf (q_attributes q)"
  proof -
    obtain r where "r \<in> set (sqs_queues d)" "qr_data r = q" by (rule get_sqs_queue_row [OF assms(1)])
    with assms(2) show ?thesis by (auto simp: sqs_wf_def queue_row_wf_def)
  qed
  have "map_of (gm_set_all (q_attributes ?q) [(''QueueArn'', q_arn ?q)]) =
      [''QueueArn'' \<mapsto> q_arn q] ++ map_of (q_attributes q) ++ map_of ?new"
    using wf gm_wf_field_string_map [of "''Attributes''" b]
    by (simp add: map_of_gm_set_all map_of_rev_gm_wf)
  moreover have "handle_sqs env' rg (sqs_call ''GetQueueAttributes'' b') ?d =
      (write_json10 200 (JObj [(''Attributes'', json_map (gm_set_all (q_attributes ?q) [(''QueueArn'', q_arn ?q)]))]), ?d)"
    by (simp add: handle_sqs_call sqs_dispatch_simps sqs_get_queue_attributes_def assms(6) acc get)
  ultimately show ?thesis unfolding set using get by auto
qed

text \<open>The receipt handle of a message never changes: two receives of one message id, at any times and
  from any queues, hand out the same handle, so one from an earlier receive still deletes the message.\<close>

theorem sqs_handle_not_fresh:
  assumes "receive_sqs_messages a rg n now mx vt d = (Inr ms, d1)"
    and "receive_sqs_messages a' rg' n' now' mx' vt' d' = (Inr ms', d2)"
    and "m \<in> set ms" and "m' \<in> set ms'" and "m_message_id m' = m_message_id m"
  shows "m_receipt_handle m' = m_receipt_handle m"
proof -
  have "m_receipt_handle m = new_handle (m_message_id m)"
    if "receive_sqs_messages a rg n now mx vt d = (Inr ms, d1)" "m \<in> set ms" for a rg n now mx vt d ms d1 m
    using that by (auto simp: receive_sqs_messages_def Let_def split: sum.splits)
  from this [OF assms(1,3)] this [OF assms(2,4)] assms(5) show ?thesis by simp
qed

text \<open>DeleteMessage with an empty receipt handle answers 200 and deletes every message of the queue
  that was never received: a sent message's handle column is empty until a receive fills it.\<close>

theorem sqs_empty_handle_deletes:
  assumes "r \<in> set (sqs_messages d)" and "in_queue (account_id d) rg n r" and "m_receipt_handle (mr_msg r) = []"
    and "sqs_body_queue b = n" and "snd (unmarshal (field_string ''ReceiptHandle'') b) = []"
  shows "\<exists>d'. handle_sqs env rg (sqs_call ''DeleteMessage'' b) d = (write_json10 200 (JObj []), d') \<and>
    sqs_messages d' = filter (\<lambda>r. \<not> (in_queue (account_id d) rg n r \<and> m_receipt_handle (mr_msg r) = [])) (sqs_messages d) \<and>
    r \<notin> set (sqs_messages d')"
proof -
  let ?p = "\<lambda>r. in_queue (account_id d) rg n r \<and> m_receipt_handle (mr_msg r) = []"
  have "affected ?p (sqs_messages d) \<noteq> 0"
    using assms(1-3) by (auto simp: affected_def filter_empty_conv)
  then have "handle_sqs env rg (sqs_call ''DeleteMessage'' b) d =
      (write_json10 200 (JObj []), d\<lparr>sqs_messages := sql_delete ?p (sqs_messages d)\<rparr>)"
    by (simp add: handle_sqs_call sqs_dispatch_simps sqs_delete_message_def delete_sqs_message_def assms(4,5))
  with assms(2,3) show ?thesis by (simp add: sql_delete_def)
qed

definition sqs_name_body :: "string \<Rightarrow> json option" where
  "sqs_name_body n = Some (JObj [(''QueueName'', JStr n)])"

text \<open>CreateQueue accepts the tombstone's name and stores the row the tombstone must not have; the
  queue can then never be deleted: every DeleteQueue of it answers 409 and changes nothing.\<close>

theorem sqs_tombstone_queue_stuck:
  assumes "get_sqs_queue (account_id d) rg sqs_tombstone d = Inl ErrNotFound" and "sqs_body_queue b = sqs_tombstone"
  shows "let (created, d') = handle_sqs env rg (sqs_call ''CreateQueue'' (sqs_name_body sqs_tombstone)) d;
             (deleted, d'') = handle_sqs env' rg (sqs_call ''DeleteQueue'' b) d'
    in r_status created = 200 \<and> (\<exists>q. get_sqs_queue (account_id d) rg sqs_tombstone d' = Inr q) \<and>
       r_status deleted = 409 \<and> d'' = d'"
proof -
  let ?a = "account_id d" and ?q = "sqs_new_queue env sqs_local_host (account_id d) rg (sqs_name_body sqs_tombstone)"
  have dec: "unmarshal (field_string ''QueueName'') (sqs_name_body sqs_tombstone) = (True, sqs_tombstone)"
    "unmarshal (field_string_map ''Attributes'') (sqs_name_body sqs_tombstone) = (True, [])"
    "unmarshal (field_string_map ''tags'') (sqs_name_body sqs_tombstone) = (True, [])"
    by code_simp+
  have names: "sqs_tombstone \<noteq> []" "\<not> has_suffix sqs_tombstone ''.fifo''" "\<not> sqs_fifo_attr []"
    by (code_simp, code_simp, simp add: sqs_fifo_attr_def)
  let ?r = "sqs_row ?a ?q"
  have pk: "queue_pk ?r = (?a, rg, sqs_tombstone)" by (simp add: queue_pk_def sqs_row_def dec)
  have none: "find (\<lambda>r. queue_pk r = (?a, rg, sqs_tombstone)) (sqs_queues d) = None"
    using assms(1) by (auto simp: get_sqs_queue_def split: option.splits)
  let ?d = "d\<lparr>sqs_queues := sqs_queues d @ [?r]\<rparr>"
  have create: "handle_sqs env rg (sqs_call ''CreateQueue'' (sqs_name_body sqs_tombstone)) d =
      (write_json10 200 (JObj [(''QueueUrl'', JStr (sqs_queue_url sqs_local_host ?a sqs_tombstone))]), ?d)"
    by (simp add: handle_sqs_call sqs_dispatch_simps sqs_create_queue_def Let_def dec names create_sqs_queue_row
        insert_row_find pk none tag_created_def)
  have "account_id ?d = ?a" by (simp add: account_id_def get_identity_def)
  then have "handle_sqs env' rg (sqs_call ''DeleteQueue'' b) ?d = (write_aws_error Shape_json10 ErrConflict, ?d)"
    by (simp add: handle_sqs_call sqs_dispatch_simps sqs_delete_queue_def assms(2) delete_sqs_queue_def)
  moreover have "get_sqs_queue ?a rg sqs_tombstone ?d = Inr (qr_data ?r)"
    by (simp add: get_sqs_queue_def find_snoc none pk)
  ultimately show ?thesis by (simp add: create)
qed

section \<open>Examples\<close>

definition sample_queue :: sqs_queue where
  "sample_queue = \<lparr>q_name = ''q'', q_url = ''http://h/000000000000/q'',
     q_arn = sqs_queue_arn ''us-east-1'' fake_account_id ''q'', q_attributes = [(''DelaySeconds'', ''0'')],
     q_fifo = False, q_region = ''us-east-1'', q_created_at = ''1970-01-01T00:00:00Z''\<rparr>"

definition sample_message :: sqs_message where
  "sample_message = \<lparr>m_queue_name = ''q'', m_message_id = ''m1'', m_body = ''hi'', m_receipt_handle = [],
     m_visible_after = 0, m_receive_count = 0, m_region = ''us-east-1'', m_created_at = ''1970-01-01T00:00:00Z''\<rparr>"

definition sample_sqs_db :: db where
  "sample_sqs_db = empty_db\<lparr>sqs_queues := [sqs_row fake_account_id sample_queue]\<rparr>"

definition sample_sqs_db1 :: db where
  "sample_sqs_db1 = sample_sqs_db\<lparr>sqs_messages := [\<lparr>mr_account = fake_account_id, mr_msg = sample_message\<rparr>]\<rparr>"

definition sample_queue_body :: "json option" where
  "sample_queue_body = Some (JObj [(''QueueUrl'', JStr ''http://h/000000000000/q''), (''MessageBody'', JStr ''hi''),
     (''Attributes'', JObj [(''DelaySeconds'', JStr ''5'')])])"

definition sqs_sample_env :: env where
  "sqs_sample_env = \<lparr>e_now = 100 * nanos_per_second, e_rand = [[1, 2, 3, 4, 5, 6, 7, 8]]\<rparr>"

definition sample_handle_body :: "json option" where
  "sample_handle_body = Some (JObj [(''QueueUrl'', JStr ''http://h/000000000000/q''),
     (''ReceiptHandle'', JStr ''rh-0102030405060708-abcdef01'')])"

lemma sample_sqs_wf: "sqs_wf sample_sqs_db" "sqs_wf sample_sqs_db1"
  by (simp_all add: sqs_wf_def sample_sqs_db_def sample_sqs_db1_def keys_ok_def empty_db_def pk_def queue_row_wf_def
      sqs_row_def sample_queue_def message_homed_def queue_pk_def sample_message_def has_suffix_def has_prefix_def gm_wf_def)

lemma sample_sqs_lookup:
  "get_sqs_queue (account_id sample_sqs_db) ''us-east-1'' ''q'' sample_sqs_db = Inr sample_queue"
  "get_sqs_queue (account_id sample_sqs_db1) ''us-east-1'' ''q'' sample_sqs_db1 = Inr sample_queue"
  by code_simp+

lemma sample_sqs_bodies:
  "sqs_body_queue sample_queue_body = ''q''" "''q'' \<noteq> sqs_tombstone"
  "fst (unmarshal (field_string ''QueueUrl'') sample_queue_body)"
  "fst (unmarshal (field_string ''MessageBody'') sample_queue_body)"
  "fst (unmarshal (field_string_map ''Attributes'') sample_queue_body)"
  "snd (unmarshal (field_int ''MaxNumberOfMessages'') sample_queue_body) = 0"
  "snd (unmarshal (field_string ''ReceiptHandle'') sample_queue_body) = []"
  "sqs_body_queue sample_handle_body = ''q''"
  "snd (unmarshal (field_string ''ReceiptHandle'') sample_handle_body) = new_handle (sqs_rand_id sqs_sample_env)"
  by code_simp+

theorem sqs_invariant_witness:
  "sqs_wf (sqs_run [(sqs_sample_env, ''us-east-1'', sqs_call ''DeleteQueue'' sample_queue_body)] sample_sqs_db1)"
  by (rule sqs_invariant [OF sample_sqs_wf(2)])

theorem sqs_delete_queue_tombstones_witness:
  "count_sqs_tombstoned_messages fake_account_id ''us-east-1''
     (snd (handle_sqs sqs_sample_env ''us-east-1'' (sqs_call ''DeleteQueue'' sample_queue_body) sample_sqs_db1)) = 1"
proof -
  have a: "account_id sample_sqs_db1 = fake_account_id" by code_simp
  have c: "\<not> rebadge_clash (account_id sample_sqs_db1) ''us-east-1'' ''q'' sample_sqs_db1" by code_simp
  have n: "count_sqs_tombstoned_messages fake_account_id ''us-east-1'' sample_sqs_db1 = 0"
    "affected (in_queue fake_account_id ''us-east-1'' ''q'') (sqs_messages sample_sqs_db1) = 1"
    by code_simp+
  show ?thesis
    using sqs_delete_queue_tombstones [OF sample_sqs_lookup(2) sample_sqs_bodies(1,2) c sample_sqs_wf(2), of sqs_sample_env]
    by (simp add: split_beta Let_def a n)
qed

theorem sqs_visibility_timeout_witness:
  "(case receive_sqs_messages fake_account_id ''us-east-1'' ''q'' 0 1 30 sample_sqs_db1 of
      (Inr ms, d') \<Rightarrow> distinct (map m_message_id ms) \<and> length ms = 1 | _ \<Rightarrow> False)"
proof -
  obtain ms d' where r: "receive_sqs_messages fake_account_id ''us-east-1'' ''q'' 0 1 30 sample_sqs_db1 = (Inr ms, d')"
    and l: "length ms = 1"
    by (cases "receive_sqs_messages fake_account_id ''us-east-1'' ''q'' 0 1 30 sample_sqs_db1")
      (auto simp: receive_sqs_messages_def get_sqs_queue_def sample_sqs_db1_def sample_sqs_db_def sqs_row_def
        sample_queue_def queue_pk_def visible_messages_def in_queue_def sample_message_def sql_limit_def Let_def)
  have "keys_ok sample_sqs_db1" using sample_sqs_wf(2) by (simp add: sqs_wf_def)
  from sqs_visibility_timeout [OF r this, of 0 1 30] l show ?thesis by (simp add: r)
qed

theorem sqs_send_receive_delete_witness:
  "let (sent, d1) = handle_sqs sqs_sample_env ''us-east-1'' (sqs_call ''SendMessage'' sample_queue_body) sample_sqs_db;
       (received, d2) = handle_sqs sqs_sample_env ''us-east-1'' (sqs_call ''ReceiveMessage'' sample_queue_body) d1;
       (deleted, d3) = handle_sqs sqs_sample_env ''us-east-1'' (sqs_call ''DeleteMessage'' sample_handle_body) d2
   in r_status deleted = 200 \<and> sqs_messages d3 = []"
proof -
  have e: "filter (in_queue (account_id sample_sqs_db) ''us-east-1'' ''q'') (sqs_messages sample_sqs_db) = []"
    "sqs_messages sample_sqs_db = []"
    by (simp_all add: sample_sqs_db_def empty_db_def)
  have t: "0 \<le> unix (e_now sqs_sample_env)" by code_simp
  show ?thesis
    using sqs_send_receive_delete [OF sample_sqs_lookup(1) sample_sqs_bodies(2) e(1) t sample_sqs_bodies(3,4,1,1,6,8,9),
        of sqs_sample_env]
    by (simp add: split_beta Let_def e(2))
qed

theorem sqs_attributes_read_back_witness:
  "\<exists>attrs. fst (handle_sqs sqs_sample_env ''us-east-1'' (sqs_call ''GetQueueAttributes'' sample_queue_body)
     (snd (handle_sqs sqs_sample_env ''us-east-1'' (sqs_call ''SetQueueAttributes'' sample_queue_body) sample_sqs_db))) =
     write_json10 200 (JObj [(''Attributes'', json_map attrs)]) \<and> map_of attrs ''DelaySeconds'' = Some ''5''"
proof -
  have new: "snd (unmarshal (field_string_map ''Attributes'') sample_queue_body) = [(''DelaySeconds'', ''5'')]" by code_simp
  obtain attrs where "fst (handle_sqs sqs_sample_env ''us-east-1'' (sqs_call ''GetQueueAttributes'' sample_queue_body)
     (snd (handle_sqs sqs_sample_env ''us-east-1'' (sqs_call ''SetQueueAttributes'' sample_queue_body) sample_sqs_db))) =
     write_json10 200 (JObj [(''Attributes'', json_map attrs)])"
    "map_of attrs = [''QueueArn'' \<mapsto> q_arn sample_queue] ++ map_of (q_attributes sample_queue) ++ map_of [(''DelaySeconds'', ''5'')]"
    using sqs_attributes_read_back [OF sample_sqs_lookup(1) sample_sqs_wf(1) sample_sqs_bodies(3,5,1,1),
        of sqs_sample_env sqs_sample_env]
    by (auto simp: split_beta Let_def new)
  then show ?thesis by (intro exI [of _ attrs]) simp
qed

theorem sqs_handle_not_fresh_witness:
  "\<exists>ms ms' m m' d1 d2. receive_sqs_messages fake_account_id ''us-east-1'' ''q'' 0 1 30 sample_sqs_db1 = (Inr ms, d1) \<and>
     receive_sqs_messages fake_account_id ''us-east-1'' ''q'' 60 1 30 d1 = (Inr ms', d2) \<and> m \<in> set ms \<and> m' \<in> set ms' \<and>
     m_receipt_handle m' = m_receipt_handle m"
proof -
  define ms where "ms = [sample_message\<lparr>m_receipt_handle := new_handle ''m1'', m_visible_after := 30, m_receive_count := 1, m_created_at := []\<rparr>]"
  define ms' where "ms' = [sample_message\<lparr>m_receipt_handle := new_handle ''m1'', m_visible_after := 90, m_receive_count := 2, m_created_at := []\<rparr>]"
  define d1 where "d1 = snd (receive_sqs_messages fake_account_id ''us-east-1'' ''q'' 0 1 30 sample_sqs_db1)"
  have 1: "receive_sqs_messages fake_account_id ''us-east-1'' ''q'' 0 1 30 sample_sqs_db1 = (Inr ms, d1)"
    unfolding ms_def d1_def by code_simp
  obtain d2 where 2: "receive_sqs_messages fake_account_id ''us-east-1'' ''q'' 60 1 30 d1 = (Inr ms', d2)"
    by (cases "receive_sqs_messages fake_account_id ''us-east-1'' ''q'' 60 1 30 d1")
      (simp add: ms'_def d1_def receive_sqs_messages_def get_sqs_queue_def sample_sqs_db1_def sample_sqs_db_def sqs_row_def
        sample_queue_def queue_pk_def visible_messages_def in_queue_def sample_message_def sql_limit_def Let_def
        stamp_row_def sql_update_def message_pk_def stamp_message_def wrap64_def)
  from sqs_handle_not_fresh [OF 1 2, of "hd ms" "hd ms'"] 1 2 show ?thesis
    unfolding ms_def ms'_def by auto
qed

theorem sqs_empty_handle_deletes_witness:
  "sqs_messages (snd (handle_sqs sqs_sample_env ''us-east-1'' (sqs_call ''DeleteMessage'' sample_queue_body) sample_sqs_db1)) = []"
proof -
  let ?r = "\<lparr>mr_account = fake_account_id, mr_msg = sample_message\<rparr>"
  have m: "sqs_messages sample_sqs_db1 = [?r]" by (simp add: sample_sqs_db1_def)
  then have r: "?r \<in> set (sqs_messages sample_sqs_db1)" by simp
  have q: "in_queue (account_id sample_sqs_db1) ''us-east-1'' ''q'' ?r" "m_receipt_handle (mr_msg ?r) = []" by code_simp+
  from sqs_empty_handle_deletes [OF r q sample_sqs_bodies(1,7), of sqs_sample_env] q show ?thesis
    by (auto simp: m)
qed

theorem sqs_tombstone_queue_stuck_witness:
  "let (created, d') = handle_sqs sqs_sample_env ''us-east-1'' (sqs_call ''CreateQueue'' (sqs_name_body sqs_tombstone)) empty_db
   in r_status created = 200"
proof -
  have 1: "get_sqs_queue (account_id empty_db) ''us-east-1'' sqs_tombstone empty_db = Inl ErrNotFound"
    by (simp add: get_sqs_queue_def empty_db_def)
  have 2: "sqs_body_queue (Some (JObj [(''QueueUrl'', JStr ''http://h/0/_deleted-queue_'')])) = sqs_tombstone" by code_simp
  from sqs_tombstone_queue_stuck [OF 1 2, of sqs_sample_env sqs_sample_env] show ?thesis
    by (simp add: split_beta Let_def)
qed

end
