(* ===== verification/Sts.thy ===== *)
theory Sts
  imports Identity
begin

text \<open>
  STS (handlers/sts.go): GetCallerIdentity only, answering the stored account. Here too are the
  properties of the stored identity that a caller observes through STS.
\<close>

definition sts_caller_user_name :: string where
  "sts_caller_user_name = ''fakeaws''"

definition sts_caller_user_id :: string where
  "sts_caller_user_id = ''fakeaws-caller''"

definition sts_get_caller_identity :: "db \<Rightarrow> response" where
  "sts_get_caller_identity d =
     (let account = account_id d
      in write_query_rpc ''GetCallerIdentity''
           [leaf ''Arn'' (iam_user_arn account sts_caller_user_name), leaf ''UserId'' sts_caller_user_id,
            leaf ''Account'' account])"

definition handle_sts :: "request \<Rightarrow> db \<Rightarrow> response" where
  "handle_sts r d =
     (case parse_query_rpc r of
        Inl e \<Rightarrow> write_aws_error Shape_query_rpc ErrConflict
      | Inr q \<Rightarrow> if qr_action q = ''GetCallerIdentity'' then sts_get_caller_identity d else write_unimplemented)"

definition sts_caller_request :: request where
  "sts_caller_request = \<lparr>q_target = [], q_forwarded_host = [], q_host = [], q_json = None,
     q_form = Some [(''Action'', [''GetCallerIdentity'']), (''Version'', [''2011-06-15''])]\<rparr>"

definition identity_request :: "json option \<Rightarrow> request" where
  "identity_request b = \<lparr>q_target = [], q_forwarded_host = [], q_host = [], q_json = b, q_form = None\<rparr>"

lemma handle_sts_caller: "handle_sts sts_caller_request d = sts_get_caller_identity d"
proof -
  have "parse_query_rpc sts_caller_request =
      Inr \<lparr>qr_action = ''GetCallerIdentity'', qr_version = ''2011-06-15'', qr_params = []\<rparr>"
    by code_simp
  then show ?thesis by (simp add: handle_sts_def)
qed

text \<open>The accounts a response names: its Account element, and the account inside its ARN.\<close>

lemma sts_account: "response_xml ''Account'' (sts_get_caller_identity d) = Some (account_id d)"
  "response_xml ''Arn'' (sts_get_caller_identity d) = Some (iam_user_arn (account_id d) sts_caller_user_name)"
  by (simp_all add: response_xml_def sts_get_caller_identity_def write_query_rpc_def leaf_def Let_def)

section \<open>Properties\<close>

text \<open>C4. POST /mock/identity with a well-formed identity is accepted exactly when it names the stored
  account or the database is empty. Accepted, it answers 200, GetCallerIdentity then names that
  account (in Account and in Arn) and no row of any table is touched; refused, it answers 409, changes
  nothing, and GetCallerIdentity still names the account stored before.\<close>

theorem identity_change_observed:
  assumes "decode_identity b = Some i" and "check_account_id (id_account i)"
    and "id_region i = [] \<or> check_region (id_region i)"
  shows "let (resp, d') = handle_mock_identity (identity_request b) d;
             caller = handle_sts sts_caller_request d'
    in (if id_account i = account_id d \<or> is_empty ami_fixture_ids d
        then r_status resp = 200 \<and> response_xml ''Account'' caller = Some (id_account i) \<and>
             response_xml ''Arn'' caller = Some (iam_user_arn (id_account i) sts_caller_user_name) \<and>
             d' = d\<lparr>identity_tbl := identity_tbl d'\<rparr>
        else r_status resp = 409 \<and> d' = d \<and> response_xml ''Account'' caller = Some (account_id d))"
proof -
  have h: "handle_mock_identity (identity_request b) d = (case set_identity i fake_account_id ami_fixture_ids d of
      (Some e, d') \<Rightarrow> (write_admin_error (if errors_is e ErrConflict then 409 else 500) (error_text e), d')
    | (None, d') \<Rightarrow> (write_json_status 200 (JObj [(''status'', JStr ''ok'')]), d'))"
    using assms by (auto simp: handle_mock_identity_def identity_request_def)
  have acc: "account_id (put_identity i d) = id_account i" by (simp add: account_id_def)
  have frame: "put_identity i d = d\<lparr>identity_tbl := identity_tbl (put_identity i d)\<rparr>"
    by (simp add: put_identity_def)
  note stored = account_id_stored [of d]
  show ?thesis
  proof (cases "id_account i = account_id d \<or> is_empty ami_fixture_ids d")
    case True
    then have "set_identity i fake_account_id ami_fixture_ids d = (None, d) \<and> id_account i = account_id d \<or>
        set_identity i fake_account_id ami_fixture_ids d = (None, put_identity i d)"
      using set_identity_accepted [of i fake_account_id d ami_fixture_ids] by (simp add: stored)
    with True acc frame show ?thesis
      by (auto simp: h handle_sts_caller sts_account write_json_status_def)
  next
    case False
    then have "set_identity i fake_account_id ami_fixture_ids d =
        (Some (ErrWrap ErrConflict (identity_refusal (id_account i) (account_id d))), d)"
      using set_identity_refused [of i fake_account_id d ami_fixture_ids] by (simp add: stored)
    with False show ?thesis
      by (simp add: h handle_sts_caller sts_account write_admin_error_def write_json_status_def)
  qed
qed

text \<open>While the database holds any row of a modelled service under the stored account (a KMS key
  in PendingDeletion and the fixture AMIs aside), no request to /mock/identity can change the account.\<close>

theorem identity_kept_while_rows:
  assumes "ssm_parameters d \<noteq> [] \<or> sqs_queues d \<noteq> [] \<or> sqs_messages d \<noteq> [] \<or> secrets d \<noteq> [] \<or>
    secret_versions d \<noteq> [] \<or> ddb_tables d \<noteq> [] \<or> ddb_items d \<noteq> [] \<or> resource_tags d \<noteq> [] \<or> ec2_tags d \<noteq> [] \<or>
    s3_buckets (s3_tbls d) \<noteq> [] \<or> s3_configs (s3_tbls d) \<noteq> [] \<or>
    r53_zones (r53_tbls d) \<noteq> [] \<or> r53_records (r53_tbls d) \<noteq> [] \<or> r53_changes (r53_tbls d) \<noteq> [] \<or>
    iam_roles (iam_tbls d) \<noteq> [] \<or> iam_policies (iam_tbls d) \<noteq> [] \<or> iam_profiles (iam_tbls d) \<noteq> [] \<or> iam_users (iam_tbls d) \<noteq> [] \<or> iam_keys (iam_tbls d) \<noteq> [] \<or> role_attachments (iam_tbls d) \<noteq> [] \<or> user_attachments (iam_tbls d) \<noteq> [] \<or> profile_roles (iam_tbls d) \<noteq> [] \<or> role_inlines (iam_tbls d) \<noteq> [] \<or> user_inlines (iam_tbls d) \<noteq> [] \<or>
    ec2_vpcs (ec2_tbls d) \<noteq> [] \<or> ec2_subnets (ec2_tbls d) \<noteq> [] \<or> ec2_igws (ec2_tbls d) \<noteq> [] \<or> ec2_rtbs (ec2_tbls d) \<noteq> [] \<or> ec2_assocs (ec2_tbls d) \<noteq> [] \<or> ec2_routes (ec2_tbls d) \<noteq> [] \<or> ec2_sgs (ec2_tbls d) \<noteq> [] \<or> ec2_rules (ec2_tbls d) \<noteq> [] \<or> ec2_eips (ec2_tbls d) \<noteq> [] \<or> ec2_zones (ec2_tbls d) \<noteq> [] \<or> ec2_instances (ec2_tbls d) \<noteq> [] \<or> ec2_enis (ec2_tbls d) \<noteq> [] \<or> ec2_volumes (ec2_tbls d) \<noteq> [] \<or> ec2_key_pairs (ec2_tbls d) \<noteq> [] \<or>
    (\<exists>r\<in>set (kms_keys d). k_state (kr_key r) \<noteq> kms_pending_deletion) \<or> \<not> set (ec2_ami_ids d) \<subseteq> set ami_fixture_ids"
  shows "account_id (snd (handle_mock_identity r d)) = account_id d \<and>
    (account_id d \<noteq> id_account i \<longrightarrow> set_identity i fake_account_id ami_fixture_ids d =
       (Some (ErrWrap ErrConflict (identity_refusal (id_account i) (account_id d))), d))"
proof -
  have ne: "\<not> is_empty ami_fixture_ids d"
    using assms is_empty_tables [of ami_fixture_ids d] by blast
  have set: "set_identity j fake_account_id ami_fixture_ids d =
      (Some (ErrWrap ErrConflict (identity_refusal (id_account j) (account_id d))), d)" if "account_id d \<noteq> id_account j" for j
    using set_identity_refused [of j fake_account_id d ami_fixture_ids] ne that by (simp add: account_id_stored)
  have "account_id (snd (set_identity j fake_account_id ami_fixture_ids d)) = account_id d" for j
  proof (cases "account_id d = id_account j")
    case True
    then show ?thesis
      using set_identity_frame [of j fake_account_id ami_fixture_ids d] by (auto simp: account_id_def [of "put_identity j d"])
  qed (simp add: set)
  then have "account_id (snd (handle_mock_identity r d)) = account_id d"
    by (simp add: handle_mock_identity_def split_beta split: option.split)
  with set show ?thesis by blast
qed

section \<open>Examples\<close>

definition sample_identity_body :: "json option" where
  "sample_identity_body = Some (JObj [(''account_id'', JStr ''123456789012''), (''region'', JStr ''eu-west-1'')])"

theorem identity_change_observed_witness:
  "response_xml ''Account'' (handle_sts sts_caller_request
     (snd (handle_mock_identity (identity_request sample_identity_body) empty_db))) = Some ''123456789012''"
proof -
  let ?i = "\<lparr>id_account = ''123456789012'', id_region = ''eu-west-1''\<rparr>"
  have 1: "decode_identity sample_identity_body = Some ?i" by code_simp
  have 2: "check_account_id (id_account ?i)" by code_simp
  have 3: "id_region ?i = [] \<or> check_region (id_region ?i)" by code_simp
  have e: "is_empty ami_fixture_ids empty_db" by code_simp
  from identity_change_observed [OF 1 2 3, of empty_db] e show ?thesis by (simp add: split_beta Let_def)
qed

theorem identity_kept_while_rows_witness:
  "account_id (snd (handle_mock_identity (identity_request sample_identity_body)
     (empty_db\<lparr>resource_tags := [\<lparr>g_account = ''0'', g_arn = ''a'', g_key = ''k'', g_value = ''v''\<rparr>]\<rparr>))) = fake_account_id"
proof -
  let ?d = "empty_db\<lparr>resource_tags := [\<lparr>g_account = ''0'', g_arn = ''a'', g_key = ''k'', g_value = ''v''\<rparr>]\<rparr>"
  have "account_id ?d = fake_account_id" by code_simp
  with identity_kept_while_rows [of ?d "identity_request sample_identity_body"] show ?thesis by simp
qed

end
