(* ===== verification/Secrets.thy ===== *)
theory Secrets
  imports Identity Gotime Tags
begin

text \<open>
  Secrets Manager: repository/secretsmanager.go and handlers/secretsmanager.go. A secret's row moves
  Active, PendingDeletion, Destroyed and is never removed by a request; its values are version rows
  with stage labels. A SecretId is a name or an ARN.
\<close>

section \<open>Secrets (repository)\<close>

definition secret_active :: string where "secret_active = ''Active''"
definition secret_pending :: string where "secret_pending = ''PendingDeletion''"
definition secret_destroyed :: string where "secret_destroyed = ''Destroyed''"

definition secret_defaults :: "secret \<Rightarrow> secret" where
  "secret_defaults s = s\<lparr>s_state := (if s_state s = [] then secret_active else s_state s),
     s_recovery_window := (if s_recovery_window s = 0 then 30 else s_recovery_window s)\<rparr>"

definition create_secret :: "string \<Rightarrow> secret \<Rightarrow> db \<Rightarrow> go_error option \<times> db" where
  "create_secret account s d =
     (case insert_row secret_pk \<lparr>sr_account = account, sr_secret = secret_defaults s\<rparr> (secrets d) of
        Inl e \<Rightarrow> (Some e, d)
      | Inr t \<Rightarrow> (None, d\<lparr>secrets := t\<rparr>))"

definition set_secret_tags :: "string \<Rightarrow> string \<Rightarrow> gomap \<Rightarrow> db \<Rightarrow> go_error option \<times> db" where
  "set_secret_tags account arn tags d = (None, d\<lparr>secrets :=
     sql_update (\<lambda>r. sr_account r = account \<and> s_arn (sr_secret r) = arn)
       (\<lambda>r. r\<lparr>sr_secret := (sr_secret r)\<lparr>s_tags := tags\<rparr>\<rparr>) (secrets d)\<rparr>)"

text \<open>GetSecret's row; were several to match, the scan of the primary key meets the least name first.\<close>

definition secret_match :: "string \<Rightarrow> string \<Rightarrow> string \<Rightarrow> secret_row \<Rightarrow> bool" where
  "secret_match account region ref r \<longleftrightarrow> sr_account r = account \<and> s_region (sr_secret r) = region \<and>
     (s_name (sr_secret r) = ref \<or> s_arn (sr_secret r) = ref)"

definition get_secret :: "string \<Rightarrow> string \<Rightarrow> string \<Rightarrow> db \<Rightarrow> secret result" where
  "get_secret account region ref d =
     (case sort_key s_name (map sr_secret (filter (secret_match account region ref) (secrets d))) of
        [] \<Rightarrow> Inl ErrNotFound
      | s # _ \<Rightarrow> Inr s)"

definition get_secret_active_or_pending :: "string \<Rightarrow> string \<Rightarrow> string \<Rightarrow> db \<Rightarrow> secret result" where
  "get_secret_active_or_pending account region ref d =
     (case get_secret account region ref d of
        Inl e \<Rightarrow> Inl e
      | Inr s \<Rightarrow> if s_state s = secret_destroyed then Inl ErrNotFound else Inr s)"

definition list_secrets :: "string \<Rightarrow> string \<Rightarrow> db \<Rightarrow> secret list" where
  "list_secrets account region d =
     sort_key (\<lambda>s. (s_region s, s_name s))
       (map sr_secret (filter (\<lambda>r. sr_account r = account \<and> (region = [] \<or> s_region (sr_secret r) = region) \<and>
          s_state (sr_secret r) \<noteq> secret_destroyed) (secrets d)))"

text \<open>UPDATE of one secret by its primary key.\<close>

definition update_secret :: "string \<Rightarrow> string \<Rightarrow> string \<Rightarrow> (secret \<Rightarrow> secret) \<Rightarrow> db \<Rightarrow> db" where
  "update_secret account region name f d = d\<lparr>secrets :=
     sql_update (\<lambda>r. secret_pk r = (account, region, name)) (\<lambda>r. r\<lparr>sr_secret := f (sr_secret r)\<rparr>) (secrets d)\<rparr>"

definition schedule_secret_deletion ::
  "string \<Rightarrow> string \<Rightarrow> string \<Rightarrow> int \<Rightarrow> string \<Rightarrow> db \<Rightarrow> secret result \<times> db" where
  "schedule_secret_deletion account region ref window now d =
     (case get_secret account region ref d of
        Inl e \<Rightarrow> (Inl e, d)
      | Inr s \<Rightarrow>
          (if s_state s = secret_destroyed then (Inl ErrTerminalState, d)
           else (let d' = update_secret account region (s_name s)
                       (\<lambda>x. x\<lparr>s_state := (if window = 0 then secret_destroyed else secret_pending),
                              s_deleted_at := now, s_recovery_window := window\<rparr>) d
                 in (get_secret account region (s_name s) d', d'))))"

definition restore_secret :: "string \<Rightarrow> string \<Rightarrow> string \<Rightarrow> db \<Rightarrow> secret result \<times> db" where
  "restore_secret account region ref d =
     (case get_secret account region ref d of
        Inl e \<Rightarrow> (Inl e, d)
      | Inr s \<Rightarrow>
          (if s_state s = secret_destroyed then (Inl ErrTerminalState, d)
           else if s_state s = secret_active then (Inr s, d)
           else (let d' = update_secret account region (s_name s) (\<lambda>x. x\<lparr>s_state := secret_active, s_deleted_at := []\<rparr>) d
                 in (get_secret account region (s_name s) d', d'))))"

text \<open>DeleteSecretImmediately: no request reaches it. The version rows go with their secret.\<close>

definition of_secret :: "string \<Rightarrow> string \<Rightarrow> string \<Rightarrow> version_row \<Rightarrow> bool" where
  "of_secret account region name r \<longleftrightarrow>
     vr_account r = account \<and> v_region (vr_version r) = region \<and> v_secret_name (vr_version r) = name"

definition delete_secret_immediately :: "string \<Rightarrow> string \<Rightarrow> string \<Rightarrow> db \<Rightarrow> go_error option \<times> db" where
  "delete_secret_immediately account region name d =
     (let p = (\<lambda>r. secret_pk r = (account, region, name))
      in if affected p (secrets d) = 0 then (Some ErrNotFound, d)
         else (None, d\<lparr>secrets := sql_delete p (secrets d),
                secret_versions := sql_delete (of_secret account region name) (secret_versions d)\<rparr>))"

section \<open>Versions (repository)\<close>

definition aws_current :: string where "aws_current = ''AWSCURRENT''"
definition aws_previous :: string where "aws_previous = ''AWSPREVIOUS''"

fun demote_stages :: "string list \<Rightarrow> string list" where
  "demote_stages [] = []"
| "demote_stages (st # sts) =
     (if st = aws_current then aws_previous # demote_stages sts
      else if st = aws_previous then demote_stages sts
      else st # demote_stages sts)"

definition demote_row :: "version_row \<Rightarrow> version_row" where
  "demote_row r = r\<lparr>vr_version := (vr_version r)\<lparr>v_stages := demote_stages (v_stages (vr_version r))\<rparr>\<rparr>"

text \<open>The new version's stages are None when the request had none, which means AWSCURRENT.\<close>

record new_version =
  nv_id :: string
  nv_string :: string
  nv_stages :: "string list option"
  nv_created_at :: string

definition version_of :: "string \<Rightarrow> string \<Rightarrow> string \<Rightarrow> new_version \<Rightarrow> version_row" where
  "version_of account region name v = \<lparr>vr_account = account, vr_version =
     \<lparr>v_secret_name = name, v_version_id = nv_id v, v_secret_string = nv_string v,
      v_stages = (case nv_stages v of None \<Rightarrow> [aws_current] | Some st \<Rightarrow> st),
      v_region = region, v_created_at = nv_created_at v\<rparr>\<rparr>"

text \<open>The demotions are written before the INSERT, which may then be refused.\<close>

definition put_secret_value :: "string \<Rightarrow> string \<Rightarrow> string \<Rightarrow> new_version \<Rightarrow> db \<Rightarrow> go_error option \<times> db" where
  "put_secret_value account region ref v d =
     (case get_secret_active_or_pending account region ref d of
        Inl e \<Rightarrow> (Some e, d)
      | Inr parent \<Rightarrow>
          (let t = sql_update (of_secret account region (s_name parent)) demote_row (secret_versions d)
           in case insert_row version_pk (version_of account region (s_name parent) v) t of
                Inl e \<Rightarrow> (Some e, d\<lparr>secret_versions := t\<rparr>)
              | Inr t' \<Rightarrow> (None, d\<lparr>secret_versions := t'\<rparr>)))"

definition versions_of :: "string \<Rightarrow> string \<Rightarrow> string \<Rightarrow> db \<Rightarrow> secret_version list" where
  "versions_of account region name d =
     sort_key v_version_id (map vr_version (filter (of_secret account region name) (secret_versions d)))"

definition version_wanted :: "string \<Rightarrow> string \<Rightarrow> secret_version \<Rightarrow> bool" where
  "version_wanted stage vid v \<longleftrightarrow>
     vid \<noteq> [] \<and> v_version_id v = vid \<or> stage \<noteq> [] \<and> stage \<in> set (v_stages v)"

definition get_secret_value ::
  "string \<Rightarrow> string \<Rightarrow> string \<Rightarrow> string \<Rightarrow> string \<Rightarrow> db \<Rightarrow> secret_version result" where
  "get_secret_value account region ref stage vid d =
     (case get_secret_active_or_pending account region ref d of
        Inl e \<Rightarrow> Inl e
      | Inr parent \<Rightarrow>
          (let stage' = (if stage = [] \<and> vid = [] then aws_current else stage)
           in case find (version_wanted stage' vid) (versions_of account region (s_name parent) d) of
                None \<Rightarrow> Inl ErrNotFound
              | Some v \<Rightarrow> Inr v))"

definition list_secret_versions :: "string \<Rightarrow> string \<Rightarrow> string \<Rightarrow> db \<Rightarrow> secret_version list result" where
  "list_secret_versions account region name d =
     (case get_secret account region name d of
        Inl e \<Rightarrow> Inl e
      | Inr _ \<Rightarrow> Inr (sort_key v_created_at (versions_of account region name d)))"

section \<open>Handlers\<close>

definition secret_rand_suffix :: "nat \<Rightarrow> env \<Rightarrow> string" where
  "secret_rand_suffix i env = hex_encode (rand_read i env)"

definition secret_epoch :: "string \<Rightarrow> int" where
  "secret_epoch ts = (if ts = [] then 0 else case parse_rfc3339 ts of None \<Rightarrow> 0 | Some t \<Rightarrow> t)"

definition sm_conflict :: response where
  "sm_conflict = write_aws_error Shape_json11 ErrConflict"

definition sm_no_secret :: "string \<Rightarrow> response" where
  "sm_no_secret ref = write_service_error Shape_json11 404 ''ResourceNotFoundException''
     (''Secrets Manager can'' @ [CHR 39] @ ''t find the specified secret: '' @ ref)"

definition sm_secret_id :: "json option \<Rightarrow> string" where
  "sm_secret_id b = snd (unmarshal (field_string ''SecretId'') b)"

definition sm_new_secret :: "env \<Rightarrow> string \<Rightarrow> string \<Rightarrow> json option \<Rightarrow> secret" where
  "sm_new_secret env account region b =
     (let name = snd (unmarshal (field_string ''Name'') b)
      in \<lparr>s_name = name, s_arn = secret_arn region account name (secret_rand_suffix 0 env),
          s_description = snd (unmarshal (field_string ''Description'') b),
          s_kms_key_id = snd (unmarshal (field_string ''KmsKeyId'') b),
          s_recovery_window = 30, s_deleted_at = [], s_state = secret_active,
          s_tags = gm_set_all (snd (unmarshal (field_pairs ''Key'' ''Value'' ''Tags'') b)) [],
          s_region = region, s_created_at = rfc3339 (e_now env)\<rparr>)"

text \<open>A version id: two random suffixes, read at the given positions.\<close>

definition sm_version_id :: "nat \<Rightarrow> env \<Rightarrow> string" where
  "sm_version_id i env = ''VID-'' @ secret_rand_suffix i env @ secret_rand_suffix (i + 1) env"

definition sm_created_answer :: "string \<Rightarrow> secret \<Rightarrow> response" where
  "sm_created_answer vid s = write_json11 200 (JObj
     [(''ARN'', JStr (s_arn s)), (''Name'', JStr (s_name s)), (''VersionId'', JStr vid)])"

definition sm_create_secret :: "env \<Rightarrow> string \<Rightarrow> string \<Rightarrow> json option \<Rightarrow> db \<Rightarrow> response \<times> db" where
  "sm_create_secret env account region b d =
     (let s = sm_new_secret env account region b;
          str = snd (unmarshal (field_string ''SecretString'') b)
      in if \<not> (list_all (\<lambda>f. fst (unmarshal (field_string f) b)) [''Name'', ''Description'', ''KmsKeyId'', ''SecretString''] \<and>
               fst (unmarshal (field_pairs ''Key'' ''Value'' ''Tags'') b)) then (sm_conflict, d)
         else if s_name s = [] then (sm_conflict, d)
         else (case create_secret account s d of
             (Some e, d') \<Rightarrow> (write_aws_error Shape_json11 e, d')
           | (None, d') \<Rightarrow>
               (let v = \<lparr>nv_id = sm_version_id 1 env, nv_string = str, nv_stages = Some [aws_current],
                         nv_created_at = rfc3339 (e_now env)\<rparr>
                in (sm_created_answer (sm_version_id 1 env) s,
                    if str = [] then d' else snd (put_secret_value account region (s_name s) v d')))))"

definition json_stages :: "string list \<Rightarrow> json" where
  "json_stages sts = json_strings sts"

definition sm_versions :: "string \<Rightarrow> string \<Rightarrow> string \<Rightarrow> db \<Rightarrow> secret_version list" where
  "sm_versions account region name d =
     (case list_secret_versions account region name d of Inl _ \<Rightarrow> [] | Inr vs \<Rightarrow> vs)"

definition sm_describe_body :: "string \<Rightarrow> secret \<Rightarrow> db \<Rightarrow> json" where
  "sm_describe_body account s d = JObj
     ([(''ARN'', JStr (s_arn s)), (''Name'', JStr (s_name s)), (''Description'', JStr (s_description s)),
       (''KmsKeyId'', JStr (s_kms_key_id s)), (''CreatedDate'', JInt (secret_epoch (s_created_at s))),
       (''LastChangedDate'', JInt (secret_epoch (s_created_at s))),
       (''VersionIdsToStages'', JObj (gm_set_all (map (\<lambda>v. (v_version_id v, json_stages (v_stages v)))
          (sm_versions account (s_region s) (s_name s) d)) [])),
       (''Tags'', tags_as_json_slice (s_tags s))] @
      (if s_deleted_at s = [] then [] else [(''DeletedDate'', JInt (secret_epoch (s_deleted_at s)))]))"

definition sm_describe_secret :: "string \<Rightarrow> string \<Rightarrow> json option \<Rightarrow> db \<Rightarrow> response" where
  "sm_describe_secret account region b d =
     (case get_secret_active_or_pending account region (sm_secret_id b) d of
        Inl e \<Rightarrow> sm_no_secret (sm_secret_id b)
      | Inr s \<Rightarrow> write_json11 200 (sm_describe_body account s d))"

definition sm_change_tags :: "(string \<times> string) list \<Rightarrow> string list \<Rightarrow> gomap \<Rightarrow> gomap" where
  "sm_change_tags add ks m = gm_del_all ks (gm_set_all add m)"

definition sm_tag_resource :: "string \<Rightarrow> string \<Rightarrow> json option \<Rightarrow> db \<Rightarrow> response \<times> db" where
  "sm_tag_resource account region b d =
     (if \<not> (fst (unmarshal (field_string ''SecretId'') b) \<and> fst (unmarshal (field_pairs ''Key'' ''Value'' ''Tags'') b) \<and>
            fst (unmarshal (field_strings ''TagKeys'') b)) then (sm_conflict, d)
      else case get_secret_active_or_pending account region (sm_secret_id b) d of
        Inl e \<Rightarrow> (sm_no_secret (sm_secret_id b), d)
      | Inr s \<Rightarrow> (write_json11 200 (JObj []), snd (set_secret_tags account (s_arn s)
          (sm_change_tags (snd (unmarshal (field_pairs ''Key'' ''Value'' ''Tags'') b))
             (snd (unmarshal (field_strings ''TagKeys'') b)) (s_tags s)) d)))"

definition sm_list_secrets :: "string \<Rightarrow> string \<Rightarrow> db \<Rightarrow> response" where
  "sm_list_secrets account region d = write_json11 200 (JObj [(''SecretList'', JArr (map (\<lambda>s. JObj
     [(''ARN'', JStr (s_arn s)), (''Name'', JStr (s_name s)), (''Description'', JStr (s_description s))])
     (list_secrets account region d)))])"

definition sm_window :: "json option \<Rightarrow> int" where
  "sm_window b =
     (if snd (unmarshal (field_bool ''ForceDeleteWithoutRecovery'') b) then 0
      else if snd (unmarshal (field_int ''RecoveryWindowInDays'') b) = 0 then 30
      else snd (unmarshal (field_int ''RecoveryWindowInDays'') b))"

definition sm_delete_secret :: "env \<Rightarrow> string \<Rightarrow> string \<Rightarrow> json option \<Rightarrow> db \<Rightarrow> response \<times> db" where
  "sm_delete_secret env account region b d =
     (if \<not> (fst (unmarshal (field_string ''SecretId'') b) \<and> fst (unmarshal (field_int ''RecoveryWindowInDays'') b) \<and>
            fst (unmarshal (field_bool ''ForceDeleteWithoutRecovery'') b)) then (sm_conflict, d)
      else case schedule_secret_deletion account region (sm_secret_id b) (sm_window b) (rfc3339 (e_now env)) d of
        (Inl e, d') \<Rightarrow> (write_aws_error Shape_json11 e, d')
      | (Inr s, d') \<Rightarrow> (write_json11 200 (JObj [(''ARN'', JStr (s_arn s)), (''Name'', JStr (s_name s)),
            (''DeletionDate'', JInt (secret_epoch (s_deleted_at s)))]), d'))"

definition sm_restore_secret :: "string \<Rightarrow> string \<Rightarrow> json option \<Rightarrow> db \<Rightarrow> response \<times> db" where
  "sm_restore_secret account region b d =
     (case restore_secret account region (sm_secret_id b) d of
        (Inl e, d') \<Rightarrow> (write_aws_error Shape_json11 e, d')
      | (Inr s, d') \<Rightarrow> (write_json11 200 (JObj [(''ARN'', JStr (s_arn s)), (''Name'', JStr (s_name s))]), d'))"

definition sm_put_secret_value :: "env \<Rightarrow> string \<Rightarrow> string \<Rightarrow> json option \<Rightarrow> db \<Rightarrow> response \<times> db" where
  "sm_put_secret_value env account region b d =
     (if \<not> (fst (unmarshal (field_string ''SecretId'') b) \<and> fst (unmarshal (field_string ''SecretString'') b) \<and>
            fst (unmarshal (field_opt_strings ''VersionStages'') b)) then (sm_conflict, d)
      else (let v = \<lparr>nv_id = sm_version_id 0 env, nv_string = snd (unmarshal (field_string ''SecretString'') b),
                    nv_stages = snd (unmarshal (field_opt_strings ''VersionStages'') b), nv_created_at = rfc3339 (e_now env)\<rparr>
            in case put_secret_value account region (sm_secret_id b) v d of
                 (Some e, d') \<Rightarrow> (write_aws_error Shape_json11 e, d')
               | (None, d') \<Rightarrow> (case get_secret account region (sm_secret_id b) d' of
                     Inl e \<Rightarrow> (write_panic, d')
                   | Inr s \<Rightarrow> (sm_created_answer (sm_version_id 0 env) s, d'))))"

definition sm_get_secret_value :: "string \<Rightarrow> string \<Rightarrow> json option \<Rightarrow> db \<Rightarrow> response" where
  "sm_get_secret_value account region b d =
     (case get_secret_value account region (sm_secret_id b) (snd (unmarshal (field_string ''VersionStage'') b))
             (snd (unmarshal (field_string ''VersionId'') b)) d of
        Inl e \<Rightarrow> write_aws_error Shape_json11 e
      | Inr v \<Rightarrow> (case get_secret account region (sm_secret_id b) d of
            Inl e \<Rightarrow> write_panic
          | Inr s \<Rightarrow> write_json11 200 (JObj [(''ARN'', JStr (s_arn s)), (''Name'', JStr (s_name s)),
              (''VersionId'', JStr (v_version_id v)), (''SecretString'', JStr (v_secret_string v)),
              (''VersionStages'', json_stages (v_stages v))])))"

definition sm_get_resource_policy :: "string \<Rightarrow> string \<Rightarrow> json option \<Rightarrow> db \<Rightarrow> response" where
  "sm_get_resource_policy account region b d =
     (case get_secret_active_or_pending account region (sm_secret_id b) d of
        Inl e \<Rightarrow> sm_no_secret (sm_secret_id b)
      | Inr s \<Rightarrow> write_json11 200 (JObj [(''ARN'', JStr (s_arn s)), (''Name'', JStr (s_name s))]))"

definition sm_list_secret_version_ids :: "string \<Rightarrow> string \<Rightarrow> json option \<Rightarrow> db \<Rightarrow> response" where
  "sm_list_secret_version_ids account region b d =
     (case get_secret_active_or_pending account region (sm_secret_id b) d of
        Inl e \<Rightarrow> sm_no_secret (sm_secret_id b)
      | Inr s \<Rightarrow> write_json11 200 (JObj [(''ARN'', JStr (s_arn s)), (''Name'', JStr (s_name s)),
          (''Versions'', JArr (map (\<lambda>v. JObj [(''VersionId'', JStr (v_version_id v)), (''VersionStages'', json_stages (v_stages v)),
             (''CreatedDate'', JInt (secret_epoch (v_created_at v))), (''LastAccessedDate'', JInt (secret_epoch (v_created_at v)))])
             (sm_versions account (s_region s) (s_name s) d)))]))"

definition sm_dispatch :: "env \<Rightarrow> string \<Rightarrow> string \<Rightarrow> string \<Rightarrow> json option \<Rightarrow> db \<Rightarrow> response \<times> db" where
  "sm_dispatch env account region oper b d =
     (if oper = ''CreateSecret'' then sm_create_secret env account region b d
      else if oper = ''DescribeSecret'' then (sm_describe_secret account region b d, d)
      else if oper = ''ListSecrets'' then (sm_list_secrets account region d, d)
      else if oper = ''DeleteSecret'' then sm_delete_secret env account region b d
      else if oper = ''RestoreSecret'' then sm_restore_secret account region b d
      else if oper = ''PutSecretValue'' then sm_put_secret_value env account region b d
      else if oper = ''GetSecretValue'' then (sm_get_secret_value account region b d, d)
      else if oper = ''GetResourcePolicy'' then (sm_get_resource_policy account region b d, d)
      else if oper = ''PutResourcePolicy'' \<or> oper = ''DeleteResourcePolicy''
      then (write_json11 200 (JObj [(''Name'', JStr (sm_secret_id b)), (''ARN'', JStr (sm_secret_id b))]), d)
      else if oper = ''TagResource'' \<or> oper = ''UntagResource'' then sm_tag_resource account region b d
      else if oper = ''ListSecretVersionIds'' then (sm_list_secret_version_ids account region b d, d)
      else (mark_class Not_modelled_404 (write_aws_error Shape_json11 ErrNotFound), d))"

definition handle_secrets_manager :: "env \<Rightarrow> string \<Rightarrow> request \<Rightarrow> db \<Rightarrow> response \<times> db" where
  "handle_secrets_manager env region r d =
     (case parse_x_amz_target r of
        Inl e \<Rightarrow> (sm_conflict, d)
      | Inr q \<Rightarrow> sm_dispatch env (account_id d) region (x_operation q) (x_body q) d)"

text \<open>The secretsmanager block of /mock/state: Active secrets only, with every version of each.\<close>

definition gather_secrets_manager_state :: "string \<Rightarrow> db \<Rightarrow> json" where
  "gather_secrets_manager_state account d =
     (let ss = filter (\<lambda>s. s_state s = secret_active) (list_secrets account [] d);
          shown = filter (\<lambda>s. case list_secret_versions account (s_region s) (s_name s) d of Inl _ \<Rightarrow> False | Inr _ \<Rightarrow> True) ss
      in JObj
        [(''secrets'', JArr (map (\<lambda>s. JObj [(''name'', JStr (s_name s)), (''arn'', JStr (s_arn s)), (''state'', JStr (s_state s)),
            (''recovery_window_in_days'', JInt (s_recovery_window s)), (''region'', JStr (s_region s))]) shown)),
         (''versions'', JArr (concat (map (\<lambda>s. map (\<lambda>v. JObj [(''secret_name'', JStr (s_name s)),
            (''version_id'', JStr (v_version_id v)), (''stages'', json_stages (v_stages v)), (''region'', JStr (s_region s)),
            (''created_at'', JStr (v_created_at v))]) (sm_versions account (s_region s) (s_name s) d)) shown)))])"

section \<open>A secret across operations\<close>

definition stored_secret :: "string \<times> string \<times> string \<Rightarrow> db \<Rightarrow> secret option" where
  "stored_secret k d = map_option sr_secret (find (\<lambda>r. secret_pk r = k) (secrets d))"

text \<open>What no operation takes from a secret: its identity, and that destruction is final.\<close>

definition secret_keeps :: "secret \<Rightarrow> secret \<Rightarrow> bool" where
  "secret_keeps s s' \<longleftrightarrow> s_name s' = s_name s \<and> s_arn s' = s_arn s \<and> s_region s' = s_region s \<and>
     s_created_at s' = s_created_at s \<and>
     (s_state s = secret_destroyed \<longrightarrow> s_state s' = secret_destroyed \<and> s_deleted_at s' = s_deleted_at s)"

lemma secret_keeps_refl [simp]: "secret_keeps s s"
  by (simp add: secret_keeps_def)

lemma secret_keeps_trans: "secret_keeps s s1 \<Longrightarrow> secret_keeps s1 s2 \<Longrightarrow> secret_keeps s s2"
  by (simp add: secret_keeps_def)

definition secrets_rest :: "db \<Rightarrow> db" where
  "secrets_rest d = d\<lparr>secrets := [], secret_versions := []\<rparr>"

definition version_owned :: "db \<Rightarrow> version_row \<Rightarrow> bool" where
  "version_owned d r \<longleftrightarrow> (vr_account r, v_region (vr_version r), v_secret_name (vr_version r)) \<in> set (map secret_pk (secrets d))"

definition secrets_wf :: "db \<Rightarrow> bool" where
  "secrets_wf d \<longleftrightarrow> keys_ok d \<and> (\<forall>r\<in>set (secret_versions d). version_owned d r)"

definition sm_keeps :: "db \<Rightarrow> db \<Rightarrow> bool" where
  "sm_keeps d d' \<longleftrightarrow> secrets_rest d' = secrets_rest d \<and> (keys_ok d \<longrightarrow> keys_ok d') \<and> (secrets_wf d \<longrightarrow> secrets_wf d') \<and>
     (keys_ok d \<longrightarrow> (\<forall>k s. stored_secret k d = Some s \<longrightarrow> (\<exists>s'. stored_secret k d' = Some s' \<and> secret_keeps s s')))"

lemma sm_keeps_refl [simp]: "sm_keeps d d"
  by (simp add: sm_keeps_def)

lemma sm_keeps_trans: "sm_keeps d d1 \<Longrightarrow> sm_keeps d1 d2 \<Longrightarrow> sm_keeps d d2"
  unfolding sm_keeps_def by (metis secret_keeps_trans)

lemma get_secret_row:
  assumes "get_secret a rg ref d = Inr s"
  obtains r where "r \<in> set (secrets d)" "secret_match a rg ref r" "sr_secret r = s" "secret_pk r = (a, rg, s_name s)"
proof -
  obtain ss where ss: "sort_key s_name (map sr_secret (filter (secret_match a rg ref) (secrets d))) = s # ss"
    using assms by (auto simp: get_secret_def split: list.splits)
  have "s \<in> set (sort_key s_name (map sr_secret (filter (secret_match a rg ref) (secrets d))))"
    unfolding ss by simp
  then obtain r where "r \<in> set (secrets d)" "secret_match a rg ref r" "sr_secret r = s" by auto
  then show thesis by (intro that [of r]) (auto simp: secret_match_def secret_pk_def)
qed

lemma get_secret_stored:
  assumes "get_secret a rg ref d = Inr s" and "keys_ok d"
  shows "stored_secret (a, rg, s_name s) d = Some s"
proof -
  obtain r where r: "r \<in> set (secrets d)" "sr_secret r = s" "secret_pk r = (a, rg, s_name s)"
    by (rule get_secret_row [OF assms(1)])
  have "pk secret_pk (secrets d)" using assms(2) by (simp add: keys_ok_def)
  then have "find (\<lambda>r. secret_pk r = (a, rg, s_name s)) (secrets d) = Some r"
    using r by (simp only: find_pk_eq_Some simp_thms)
  with r(2) show ?thesis by (simp add: stored_secret_def)
qed

lemma stored_update_secret:
  assumes "\<And>s. s_name (f s) = s_name s" and "\<And>s. s_region (f s) = s_region s"
  shows "stored_secret k (update_secret a rg n f d) =
    (if k = (a, rg, n) then map_option f (stored_secret k d) else stored_secret k d)"
proof -
  have pk: "secret_pk (r\<lparr>sr_secret := f (sr_secret r)\<rparr>) = secret_pk r" for r
    by (simp add: secret_pk_def assms)
  have "secrets (update_secret a rg n f d) =
      sql_update (\<lambda>r. secret_pk r = (a, rg, n)) (\<lambda>r. r\<lparr>sr_secret := f (sr_secret r)\<rparr>) (secrets d)"
    by (simp add: update_secret_def)
  then have "find (\<lambda>r. secret_pk r = k) (secrets (update_secret a rg n f d)) =
    (if k = (a, rg, n) then map_option (\<lambda>r. r\<lparr>sr_secret := f (sr_secret r)\<rparr>) (find (\<lambda>r. secret_pk r = k) (secrets d))
     else find (\<lambda>r. secret_pk r = k) (secrets d))"
    by (simp only: find_sql_update_key [of secret_pk "\<lambda>r. r\<lparr>sr_secret := f (sr_secret r)\<rparr>", OF pk])
  then show ?thesis by (simp only: stored_secret_def) (auto simp: option.map_comp o_def)
qed

lemma update_secret_keys:
  assumes "\<And>s. s_name (f s) = s_name s" and "\<And>s. s_region (f s) = s_region s"
  shows "map secret_pk (secrets (update_secret a rg n f d)) = map secret_pk (secrets d)"
  unfolding update_secret_def using assms by (simp add: secret_pk_def map_key_update)

lemma sm_keeps_rows:
  assumes "map secret_pk t = map secret_pk (secrets d)"
    and "\<And>k s. keys_ok d \<Longrightarrow> stored_secret k d = Some s \<Longrightarrow>
      \<exists>s'. stored_secret k (d\<lparr>secrets := t\<rparr>) = Some s' \<and> secret_keeps s s'"
  shows "sm_keeps d (d\<lparr>secrets := t\<rparr>)"
proof -
  have "pk secret_pk t = pk secret_pk (secrets d)" by (simp only: pk_def assms(1))
  then have "keys_ok (d\<lparr>secrets := t\<rparr>) = keys_ok d" by (simp add: keys_ok_def)
  moreover have "version_owned (d\<lparr>secrets := t\<rparr>) r = version_owned d r" for r
    by (simp add: version_owned_def assms(1) del: set_map)
  ultimately show ?thesis
    using assms(2) by (auto simp: sm_keeps_def secrets_wf_def secrets_rest_def)
qed

lemma sm_keeps_update:
  assumes "\<And>s. s_name (f s) = s_name s" and "\<And>s. s_region (f s) = s_region s"
    and "\<And>s. s_state s \<noteq> secret_destroyed \<Longrightarrow> secret_keeps s (f s)"
    and "keys_ok d \<Longrightarrow> \<exists>s. stored_secret (a, rg, n) d = Some s \<and> s_state s \<noteq> secret_destroyed"
  shows "sm_keeps d (update_secret a rg n f d)"
proof -
  let ?t = "secrets (update_secret a rg n f d)"
  have eq: "update_secret a rg n f d = d\<lparr>secrets := ?t\<rparr>" by (simp add: update_secret_def)
  have "sm_keeps d (d\<lparr>secrets := ?t\<rparr>)"
  proof (rule sm_keeps_rows [OF update_secret_keys [OF assms(1,2)]])
    fix k s assume "keys_ok d" and s: "stored_secret k d = Some s"
    with assms(4) show "\<exists>s'. stored_secret k (d\<lparr>secrets := ?t\<rparr>) = Some s' \<and> secret_keeps s s'"
      unfolding eq [symmetric] stored_update_secret [OF assms(1,2)] using assms(3) by (auto split: if_splits)
  qed
  then show ?thesis by (simp add: eq [symmetric])
qed

lemma sm_keeps_schedule: "sm_keeps d (snd (schedule_secret_deletion a rg ref w now d))"
proof (cases "get_secret a rg ref d")
  case (Inr s)
  have "sm_keeps d (update_secret a rg (s_name s)
      (\<lambda>x. x\<lparr>s_state := (if w = 0 then secret_destroyed else secret_pending), s_deleted_at := now, s_recovery_window := w\<rparr>) d)"
    if "s_state s \<noteq> secret_destroyed"
    by (rule sm_keeps_update) (use that get_secret_stored [OF Inr] in \<open>auto simp: secret_keeps_def\<close>)
  with Inr show ?thesis by (simp add: schedule_secret_deletion_def Let_def)
qed (simp add: schedule_secret_deletion_def)

lemma sm_keeps_restore: "sm_keeps d (snd (restore_secret a rg ref d))"
proof (cases "get_secret a rg ref d")
  case (Inr s)
  have "sm_keeps d (update_secret a rg (s_name s) (\<lambda>x. x\<lparr>s_state := secret_active, s_deleted_at := []\<rparr>) d)"
    if "s_state s \<noteq> secret_destroyed"
    by (rule sm_keeps_update) (use that get_secret_stored [OF Inr] in \<open>auto simp: secret_keeps_def\<close>)
  with Inr show ?thesis by (simp add: restore_secret_def Let_def)
qed (simp add: restore_secret_def)

lemma sm_keeps_create: "sm_keeps d (snd (create_secret a s d))"
proof (cases "insert_row secret_pk \<lparr>sr_account = a, sr_secret = secret_defaults s\<rparr> (secrets d)")
  case (Inr t)
  let ?r = "\<lparr>sr_account = a, sr_secret = secret_defaults s\<rparr>"
  have t: "t = secrets d @ [?r]" using Inr by (simp add: insert_row_find split: option.splits)
  have "keys_ok d \<Longrightarrow> keys_ok (d\<lparr>secrets := t\<rparr>)"
    using pk_insert_row [OF _ Inr] by (simp add: keys_ok_def)
  moreover have "version_owned d r \<Longrightarrow> version_owned (d\<lparr>secrets := t\<rparr>) r" for r
    by (auto simp: version_owned_def t)
  moreover have "stored_secret k (d\<lparr>secrets := t\<rparr>) = Some s'" if "stored_secret k d = Some s'" for k s'
    using that by (auto simp: stored_secret_def t find_snoc)
  ultimately have "sm_keeps d (d\<lparr>secrets := t\<rparr>)"
    by (auto simp: sm_keeps_def secrets_wf_def secrets_rest_def intro: secret_keeps_refl)
  with Inr show ?thesis by (simp add: create_secret_def)
qed (simp add: create_secret_def)

lemma sm_keeps_set_tags: "sm_keeps d (snd (set_secret_tags a arn ts d))"
proof -
  let ?f = "\<lambda>r. r\<lparr>sr_secret := (sr_secret r)\<lparr>s_tags := ts\<rparr>\<rparr>"
    and ?p = "\<lambda>r. sr_account r = a \<and> s_arn (sr_secret r) = arn"
  have pk: "secret_pk (?f r) = secret_pk r" for r by (simp add: secret_pk_def)
  have "sm_keeps d (d\<lparr>secrets := sql_update ?p ?f (secrets d)\<rparr>)"
  proof (rule sm_keeps_rows)
    show "map secret_pk (sql_update ?p ?f (secrets d)) = map secret_pk (secrets d)"
      by (rule map_key_update) (rule pk)
    have find: "find (\<lambda>r. secret_pk r = k) (sql_update ?p ?f (secrets d)) =
        map_option (\<lambda>x. if ?p x then ?f x else x) (find (\<lambda>r. secret_pk r = k) (secrets d))" for k
      by (rule find_sql_update_any [of secret_pk ?f, OF pk])
    fix k s assume "stored_secret k d = Some s"
    then obtain r where r: "find (\<lambda>r. secret_pk r = k) (secrets d) = Some r" "s = sr_secret r"
      by (auto simp: stored_secret_def)
    show "\<exists>s'. stored_secret k (d\<lparr>secrets := sql_update ?p ?f (secrets d)\<rparr>) = Some s' \<and> secret_keeps s s'"
      by (simp add: stored_secret_def find r secret_keeps_def)
  qed
  then show ?thesis by (simp add: set_secret_tags_def)
qed

lemma sm_keeps_versions:
  assumes "pk version_pk (secret_versions d) \<Longrightarrow> pk version_pk t"
    and "\<And>r. r \<in> set t \<Longrightarrow> \<forall>r\<in>set (secret_versions d). version_owned d r \<Longrightarrow> version_owned d r"
  shows "sm_keeps d (d\<lparr>secret_versions := t\<rparr>)"
proof -
  have "keys_ok d \<Longrightarrow> keys_ok (d\<lparr>secret_versions := t\<rparr>)" using assms(1) by (simp add: keys_ok_def)
  moreover have "version_owned (d\<lparr>secret_versions := t\<rparr>) = version_owned d"
    by (simp add: version_owned_def fun_eq_iff)
  moreover have "stored_secret k (d\<lparr>secret_versions := t\<rparr>) = stored_secret k d" for k
    by (simp add: stored_secret_def)
  ultimately show ?thesis
    using assms(2) by (auto simp: sm_keeps_def secrets_wf_def secrets_rest_def intro: secret_keeps_refl)
qed

lemma demote_row_simps [simp]:
  "vr_account (demote_row r) = vr_account r" "v_region (vr_version (demote_row r)) = v_region (vr_version r)"
  "v_secret_name (vr_version (demote_row r)) = v_secret_name (vr_version r)"
  "v_version_id (vr_version (demote_row r)) = v_version_id (vr_version r)"
  "v_secret_string (vr_version (demote_row r)) = v_secret_string (vr_version r)"
  "v_created_at (vr_version (demote_row r)) = v_created_at (vr_version r)"
  "v_stages (vr_version (demote_row r)) = demote_stages (v_stages (vr_version r))"
  by (simp_all add: demote_row_def)

lemma version_owned_demote [simp]: "version_owned d (demote_row r) = version_owned d r"
  by (simp add: version_owned_def)

lemma version_pk_demote [simp]: "version_pk (demote_row r) = version_pk r"
  by (simp add: version_pk_def)

lemma sm_keeps_put_value: "sm_keeps d (snd (put_secret_value a rg ref v d))"
proof (cases "get_secret_active_or_pending a rg ref d")
  case (Inl e)
  then show ?thesis by (simp add: put_secret_value_def)
next
  case (Inr s)
  then have get: "get_secret a rg ref d = Inr s"
    by (auto simp: get_secret_active_or_pending_def split: sum.splits if_splits)
  obtain r0 where r0: "r0 \<in> set (secrets d)" "secret_pk r0 = (a, rg, s_name s)"
    by (rule get_secret_row [OF get])
  let ?t = "sql_update (of_secret a rg (s_name s)) demote_row (secret_versions d)"
    and ?v = "version_of a rg (s_name s) v"
  have "pk version_pk (secret_versions d) \<Longrightarrow> pk version_pk ?t" by (rule pk_update) simp_all
  moreover have "version_owned d r"
    if "r \<in> set ?t" "\<forall>r\<in>set (secret_versions d). version_owned d r" for r
    using that by (auto simp: sql_update_def)
  ultimately have 1: "sm_keeps d (d\<lparr>secret_versions := ?t\<rparr>)" by (intro sm_keeps_versions)
  show ?thesis
  proof (cases "insert_row version_pk ?v ?t")
    case (Inl e)
    with Inr 1 show ?thesis by (simp add: put_secret_value_def Let_def)
  next
    case ins: (Inr t')
    have t': "t' = ?t @ [?v]" using ins by (simp add: insert_row_find split: option.splits)
    have "version_owned d ?v"
      using imageI [OF r0(1), of secret_pk] r0(2) by (simp add: version_owned_def version_of_def)
    then have "sm_keeps (d\<lparr>secret_versions := ?t\<rparr>) (d\<lparr>secret_versions := ?t\<rparr>\<lparr>secret_versions := t'\<rparr>)"
      by (intro sm_keeps_versions pk_insert_row [OF _ ins]) (auto simp: t' version_owned_def)
    with 1 have "sm_keeps d (d\<lparr>secret_versions := t'\<rparr>)" by (auto dest: sm_keeps_trans)
    with Inr ins show ?thesis by (simp add: put_secret_value_def Let_def)
  qed
qed

text \<open>So does every request.\<close>

lemma sm_create_secret_keeps: "sm_keeps d (snd (sm_create_secret env a rg b d))"
proof -
  define s where "s = sm_new_secret env a rg b"
  have 1: "sm_keeps d (snd (create_secret a s d))" by (rule sm_keeps_create)
  have 2: "sm_keeps d (snd (put_secret_value a rg n v (snd (create_secret a s d))))" for n v
    by (rule sm_keeps_trans [OF 1 sm_keeps_put_value])
  show ?thesis
    unfolding sm_create_secret_def Let_def s_def [symmetric] using 1 2 by (simp add: split_beta split: option.split)
qed

lemma sm_op_keeps:
  "sm_keeps d (snd (sm_delete_secret env a rg b d))" "sm_keeps d (snd (sm_restore_secret a rg b d))"
  "sm_keeps d (snd (sm_put_secret_value env a rg b d))" "sm_keeps d (snd (sm_tag_resource a rg b d))"
proof -
  show "sm_keeps d (snd (sm_delete_secret env a rg b d))"
    using sm_keeps_schedule [of d a rg "sm_secret_id b" "sm_window b" "rfc3339 (e_now env)"]
    by (simp add: sm_delete_secret_def split_beta split: sum.split)
  show "sm_keeps d (snd (sm_restore_secret a rg b d))"
    using sm_keeps_restore [of d a rg "sm_secret_id b"]
    by (simp add: sm_restore_secret_def split_beta split: sum.split)
  show "sm_keeps d (snd (sm_put_secret_value env a rg b d))"
    using sm_keeps_put_value [of d a rg "sm_secret_id b"]
    by (simp add: sm_put_secret_value_def Let_def split_beta split: option.split sum.split)
  show "sm_keeps d (snd (sm_tag_resource a rg b d))"
    by (simp add: sm_tag_resource_def sm_keeps_set_tags split: sum.split)
qed

lemma sm_if_keeps: "sm_keeps d (snd x) \<Longrightarrow> sm_keeps d (snd y) \<Longrightarrow> sm_keeps d (snd (if c then x else y))"
  by simp

lemma sm_read_keeps: "sm_keeps d (snd (r, d))"
  by simp

lemma sm_dispatch_keeps: "sm_keeps d (snd (sm_dispatch env a rg oper b d))"
  unfolding sm_dispatch_def by (intro sm_if_keeps sm_read_keeps sm_create_secret_keeps sm_op_keeps)

lemma handle_secrets_keeps: "sm_keeps d (snd (handle_secrets_manager env rg r d))"
  unfolding handle_secrets_manager_def by (cases "parse_x_amz_target r") (simp_all add: sm_dispatch_keeps)

lemma account_id_sm_keeps: "sm_keeps d d' \<Longrightarrow> account_id d' = account_id d"
  by (auto simp: sm_keeps_def secrets_rest_def account_id_def get_identity_def dest!: arg_cong [where f = identity_tbl])

lemma account_id_handle_secrets [simp]: "account_id (snd (handle_secrets_manager env rg r d)) = account_id d"
  by (rule account_id_sm_keeps) (rule handle_secrets_keeps)

lemma keys_ok_handle_secrets: "keys_ok d \<Longrightarrow> keys_ok (snd (handle_secrets_manager env rg r d))"
  using handle_secrets_keeps [of d env rg r] by (simp add: sm_keeps_def)

section \<open>Calls by operation\<close>

definition sm_call :: "string \<Rightarrow> json option \<Rightarrow> request" where
  "sm_call oper b = amz_call ''secretsmanager'' oper b"

lemma handle_sm_call: "handle_secrets_manager env rg (sm_call oper b) d = sm_dispatch env (account_id d) rg oper b d"
proof -
  have "parse_x_amz_target (sm_call oper b) = Inr \<lparr>x_service = ''secretsmanager'', x_operation = oper, x_body = b\<rparr>"
    unfolding sm_call_def by (rule parse_amz_call) simp
  then show ?thesis by (simp add: handle_secrets_manager_def)
qed

lemma sm_dispatch_simps:
  "sm_dispatch env a rg ''DescribeSecret'' b d = (sm_describe_secret a rg b d, d)"
  "sm_dispatch env a rg ''ListSecrets'' b d = (sm_list_secrets a rg d, d)"
  "sm_dispatch env a rg ''DeleteSecret'' b d = sm_delete_secret env a rg b d"
  "sm_dispatch env a rg ''RestoreSecret'' b d = sm_restore_secret a rg b d"
  "sm_dispatch env a rg ''PutSecretValue'' b d = sm_put_secret_value env a rg b d"
  "sm_dispatch env a rg ''GetSecretValue'' b d = (sm_get_secret_value a rg b d, d)"
  "sm_dispatch env a rg ''GetResourcePolicy'' b d = (sm_get_resource_policy a rg b d, d)"
  "sm_dispatch env a rg ''TagResource'' b d = sm_tag_resource a rg b d"
  "sm_dispatch env a rg ''UntagResource'' b d = sm_tag_resource a rg b d"
  "sm_dispatch env a rg ''ListSecretVersionIds'' b d = (sm_list_secret_version_ids a rg b d, d)"
  by (simp_all add: sm_dispatch_def)

definition sm_run :: "(env \<times> string \<times> request) list \<Rightarrow> db \<Rightarrow> db" where
  "sm_run qs d = fold (\<lambda>(env, rg, r) d. snd (handle_secrets_manager env rg r d)) qs d"

lemma sm_run_keeps: "sm_keeps d (sm_run qs d)"
proof (induction qs arbitrary: d)
  case (Cons q qs)
  obtain env rg r where q: "q = (env, rg, r)" by (cases q)
  show ?case
    using sm_keeps_trans [OF handle_secrets_keeps [of d env rg r] Cons.IH] by (simp add: sm_run_def q)
qed (simp add: sm_run_def)

text \<open>A reference finds the secret it matches when all matching rows hold the same one.\<close>

lemma get_secret_only:
  assumes "r \<in> set (secrets d)" and "secret_match a rg ref r"
    and "\<And>r'. r' \<in> set (secrets d) \<Longrightarrow> secret_match a rg ref r' \<Longrightarrow> sr_secret r' = sr_secret r"
  shows "get_secret a rg ref d = Inr (sr_secret r)"
proof -
  let ?ss = "sort_key s_name (map sr_secret (filter (secret_match a rg ref) (secrets d)))"
  have "sr_secret r \<in> set ?ss" using assms(1,2) by simp
  moreover have "s = sr_secret r" if "s \<in> set ?ss" for s
    using that assms(3) unfolding set_sort set_map set_filter by blast
  ultimately have "set ?ss = {sr_secret r}" by blast
  then obtain s ss where "?ss = s # ss" "s = sr_secret r" by (cases ?ss) auto
  then show ?thesis by (simp add: get_secret_def)
qed

text \<open>Within an account and region no name is another secret's ARN, and no two have one ARN.\<close>

definition secret_ref_key :: "secret_row \<Rightarrow> string \<times> string \<times> string \<times> string" where
  "secret_ref_key r = (sr_account r, s_region (sr_secret r), s_name (sr_secret r), s_arn (sr_secret r))"

fun refs_apart :: "string \<Rightarrow> string \<Rightarrow> string \<times> string \<times> string \<times> string \<Rightarrow> string \<times> string \<times> string \<times> string \<Rightarrow> bool" where
  "refs_apart a rg (b, q, n, arn) (b', q', n', arn') \<longleftrightarrow>
     b = a \<and> q = rg \<and> b' = a \<and> q' = rg \<longrightarrow> n \<noteq> arn' \<and> (arn = arn' \<longrightarrow> n = n')"

definition secret_refs_ok :: "string \<Rightarrow> string \<Rightarrow> db \<Rightarrow> bool" where
  "secret_refs_ok a rg d \<longleftrightarrow>
     (let ks = set (map secret_ref_key (secrets d)) in \<forall>k\<in>ks. \<forall>k'\<in>ks. refs_apart a rg k k')"

lemma secret_refs_okD:
  assumes "secret_refs_ok a rg d" and "r \<in> set (secrets d)" and "r' \<in> set (secrets d)"
    and "secret_match a rg ref r" and "secret_match a rg ref' r'"
  shows "s_name (sr_secret r) \<noteq> s_arn (sr_secret r')"
    and "s_arn (sr_secret r) = s_arn (sr_secret r') \<Longrightarrow> s_name (sr_secret r) = s_name (sr_secret r')"
proof -
  have "refs_apart a rg (secret_ref_key r) (secret_ref_key r')"
    using assms(1-3) by (simp add: secret_refs_ok_def Let_def)
  then show "s_name (sr_secret r) \<noteq> s_arn (sr_secret r')"
    "s_arn (sr_secret r) = s_arn (sr_secret r') \<Longrightarrow> s_name (sr_secret r) = s_name (sr_secret r')"
    using assms(4,5) by (simp_all add: secret_ref_key_def secret_match_def)
qed

lemma secret_match_once:
  assumes "secret_refs_ok a rg d" and "keys_ok d"
    and "r \<in> set (secrets d)" "r' \<in> set (secrets d)" "secret_match a rg ref r" "secret_match a rg ref r'"
  shows "r' = r"
proof -
  have "s_name (sr_secret r') = s_name (sr_secret r)"
    using assms(5,6) secret_refs_okD [OF assms(1,3,4,5,6)] secret_refs_okD(1) [OF assms(1,4,3,6,5)]
    unfolding secret_match_def by metis
  then have "secret_pk r' = secret_pk r" using assms(5,6) by (simp add: secret_match_def secret_pk_def)
  moreover have "pk secret_pk (secrets d)" using assms(2) by (simp add: keys_ok_def)
  ultimately show ?thesis using assms(3,4) pk_eq [of secret_pk "secrets d" r' r] by blast
qed

lemma get_secret_match:
  assumes "secret_refs_ok a rg d" and "keys_ok d" and "r \<in> set (secrets d)" and "secret_match a rg ref r"
  shows "get_secret a rg ref d = Inr (sr_secret r)"
proof (rule get_secret_only [OF assms(3,4)])
  fix r' assume "r' \<in> set (secrets d)" "secret_match a rg ref r'"
  from secret_match_once [OF assms(1-3) this(1) assms(4) this(2)] show "sr_secret r' = sr_secret r" by simp
qed

lemma secret_refs_ok_keys:
  "map secret_ref_key (secrets d') = map secret_ref_key (secrets d) \<Longrightarrow> secret_refs_ok a rg d' = secret_refs_ok a rg d"
  unfolding secret_refs_ok_def by simp

text \<open>An update of a secret's state, seen through each reference to it.\<close>

lemma get_secret_updated:
  assumes "get_secret a rg ref d = Inr s" and "keys_ok d" and "secret_refs_ok a rg d"
    and "\<And>s. s_name (f s) = s_name s" "\<And>s. s_region (f s) = s_region s" "\<And>s. s_arn (f s) = s_arn s"
  shows "get_secret a rg ref (update_secret a rg (s_name s) f d) = Inr (f s)"
    and "get_secret a rg (s_name s) (update_secret a rg (s_name s) f d) = Inr (f s)"
    and "keys_ok (update_secret a rg (s_name s) f d)"
    and "secret_refs_ok a rg (update_secret a rg (s_name s) f d)"
proof -
  let ?d = "update_secret a rg (s_name s) f d"
  obtain r where r: "r \<in> set (secrets d)" "secret_match a rg ref r" "sr_secret r = s" "secret_pk r = (a, rg, s_name s)"
    by (rule get_secret_row [OF assms(1)])
  have keys: "map secret_pk (secrets ?d) = map secret_pk (secrets d)" by (rule update_secret_keys [OF assms(4,5)])
  have "pk secret_pk (secrets ?d)" using assms(2) by (simp only: keys_ok_def pk_def keys)
  then show k: "keys_ok ?d" using assms(2) by (simp add: keys_ok_def update_secret_def)
  have refs: "map secret_ref_key (secrets ?d) = map secret_ref_key (secrets d)"
    unfolding update_secret_def using assms(4-6) by (simp add: map_key_update secret_ref_key_def)
  show ok: "secret_refs_ok a rg ?d" using assms(3) unfolding secret_refs_ok_keys [OF refs] .
  let ?r = "r\<lparr>sr_secret := f s\<rparr>"
  have "secrets ?d = map (\<lambda>r. if secret_pk r = (a, rg, s_name s) then r\<lparr>sr_secret := f (sr_secret r)\<rparr> else r) (secrets d)"
    by (simp add: update_secret_def sql_update_def)
  with imageI [OF r(1), of "\<lambda>r. if secret_pk r = (a, rg, s_name s) then r\<lparr>sr_secret := f (sr_secret r)\<rparr> else r"]
  have mem: "?r \<in> set (secrets ?d)" using r(3,4) by simp
  have "secret_match a rg ref ?r" "secret_match a rg (s_name s) ?r"
    using r(2-4) assms(4-6) by (simp_all add: secret_match_def secret_pk_def)
  with get_secret_match [OF ok k mem] show "get_secret a rg ref ?d = Inr (f s)" "get_secret a rg (s_name s) ?d = Inr (f s)"
    by simp_all
qed

lemma update_secret_frame [simp]:
  "secret_versions (update_secret a rg n f d) = secret_versions d" "identity_tbl (update_secret a rg n f d) = identity_tbl d"
  "account_id (update_secret a rg n f d) = account_id d"
  by (simp_all add: update_secret_def account_id_def get_identity_def)

lemma get_secret_versions [simp]:
  "get_secret a rg ref (d\<lparr>secret_versions := t\<rparr>) = get_secret a rg ref d"
  "get_secret_active_or_pending a rg ref (d\<lparr>secret_versions := t\<rparr>) = get_secret_active_or_pending a rg ref d"
  "account_id (d\<lparr>secret_versions := t\<rparr>) = account_id d"
  by (simp_all add: get_secret_def get_secret_active_or_pending_def account_id_def get_identity_def)

lemma secret_states [simp]:
  "secret_active \<noteq> secret_destroyed" "secret_pending \<noteq> secret_destroyed" "secret_pending \<noteq> secret_active"
  "secret_destroyed \<noteq> secret_active" "secret_destroyed \<noteq> secret_pending" "secret_active \<noteq> secret_pending"
  by (simp_all add: secret_active_def secret_destroyed_def secret_pending_def)

lemma get_secret_live:
  "get_secret a rg ref d = Inr s \<Longrightarrow> s_state s \<noteq> secret_destroyed \<Longrightarrow> get_secret_active_or_pending a rg ref d = Inr s"
  by (simp add: get_secret_active_or_pending_def)

text \<open>A secret's value depends on its name, its ARN and the versions only.\<close>

lemma sm_get_secret_value_cong:
  assumes "get_secret a rg (sm_secret_id b) d = Inr s" "s_state s \<noteq> secret_destroyed"
    and "get_secret a rg (sm_secret_id b) d' = Inr s'" "s_state s' \<noteq> secret_destroyed"
    and "s_name s' = s_name s" "s_arn s' = s_arn s" "secret_versions d' = secret_versions d"
  shows "sm_get_secret_value a rg b d' = sm_get_secret_value a rg b d"
proof -
  have "get_secret_value a rg (sm_secret_id b) st vid d' = get_secret_value a rg (sm_secret_id b) st vid d" for st vid
    using assms by (simp add: get_secret_value_def get_secret_live versions_of_def)
  with assms show ?thesis by (simp add: sm_get_secret_value_def split: sum.split)
qed

section \<open>Properties\<close>

text \<open>C9. Whatever Secrets Manager requests arrive, in whatever regions, a stored secret is never lost:
  it keeps its name, ARN, region and creation date, a destroyed one stays destroyed, and every version
  row belongs to a stored secret.\<close>

theorem secrets_persist:
  assumes "secrets_wf d" and "stored_secret k d = Some s"
  shows "secrets_wf (sm_run qs d) \<and> (\<exists>s'. stored_secret k (sm_run qs d) = Some s' \<and> secret_keeps s s')"
proof -
  have "keys_ok d" using assms(1) by (simp add: secrets_wf_def)
  with sm_run_keeps [of d qs] assms show ?thesis unfolding sm_keeps_def by blast
qed

definition sm_well_typed :: "json option \<Rightarrow> bool" where
  "sm_well_typed b \<longleftrightarrow>
     fst (unmarshal (field_string ''SecretId'') b) \<and> fst (unmarshal (field_string ''SecretString'') b) \<and>
     fst (unmarshal (field_opt_strings ''VersionStages'') b) \<and> fst (unmarshal (field_int ''RecoveryWindowInDays'') b) \<and>
     fst (unmarshal (field_bool ''ForceDeleteWithoutRecovery'') b) \<and>
     fst (unmarshal (field_pairs ''Key'' ''Value'' ''Tags'') b) \<and> fst (unmarshal (field_strings ''TagKeys'') b)"



definition refused_as :: "int \<Rightarrow> string \<Rightarrow> db \<Rightarrow> response \<times> db \<Rightarrow> bool" where
  "refused_as status code d x \<longleftrightarrow> r_status (fst x) = status \<and> error_code (fst x) = Some code \<and> snd x = d"

lemma refused_as_aws [simp]:
  "refused_as 404 ''ResourceNotFoundException'' d (write_aws_error shape ErrNotFound, d)"
  "refused_as 409 ''InvalidRequestException'' d (write_aws_error shape ErrTerminalState, d)"
  "refused_as st code d (write_service_error shape st code m, d)"
  by (simp_all add: refused_as_def write_aws_error_def error_code_mapped map_domain_error_def error_code_service)


text \<open>DeleteSecret with a recovery window can be taken back: the secret's value reads the same while
  deletion is pending and after RestoreSecret, which leaves the secret as it was but for its window.\<close>

theorem secrets_delete_restore:
  assumes "get_secret (account_id d) rg ref d = Inr s" and "s_state s = secret_active" and "keys_ok d"
    and "secret_refs_ok (account_id d) rg d" and "sm_secret_id b = ref" "sm_well_typed b" "sm_window b \<noteq> 0"
    and "sm_secret_id b' = ref" and "sm_secret_id b'' = ref"
  shows "let (deleted, d1) = handle_secrets_manager env rg (sm_call ''DeleteSecret'' b) d;
             (restored, d2) = handle_secrets_manager env' rg (sm_call ''RestoreSecret'' b') d1;
             read = (\<lambda>d. fst (handle_secrets_manager env'' rg (sm_call ''GetSecretValue'' b'') d))
    in r_status deleted = 200 \<and> r_status restored = 200 \<and>
       get_secret (account_id d) rg ref d1 =
         Inr (s\<lparr>s_state := secret_pending, s_deleted_at := rfc3339 (e_now env), s_recovery_window := sm_window b\<rparr>) \<and>
       get_secret (account_id d) rg ref d2 = Inr (s\<lparr>s_deleted_at := [], s_recovery_window := sm_window b\<rparr>) \<and>
       read d1 = read d \<and> read d2 = read d"
proof -
  let ?a = "account_id d"
  define f where "f x = x\<lparr>s_state := secret_pending, s_deleted_at := rfc3339 (e_now env), s_recovery_window := sm_window b\<rparr>"
    for x :: secret
  define g where "g x = x\<lparr>s_state := secret_active, s_deleted_at := []\<rparr>" for x :: secret
  define d1 where "d1 = update_secret ?a rg (s_name s) f d"
  define d2 where "d2 = update_secret ?a rg (s_name s) g d1"
  have f: "s_name (f x) = s_name x" "s_region (f x) = s_region x" "s_arn (f x) = s_arn x"
    "s_state (f x) = secret_pending" for x by (simp_all add: f_def)
  have g: "s_name (g x) = s_name x" "s_region (g x) = s_region x" "s_arn (g x) = s_arn x"
    "s_state (g x) = secret_active" for x by (simp_all add: g_def)
  note up1 = get_secret_updated [of ?a rg ref d s f, OF assms(1,3,4) f(1-3), folded d1_def]
  note up2 = get_secret_updated [of ?a rg ref d1 "f s" g, OF up1(1,3,4) g(1-3), unfolded f(1), folded d2_def]
  have acc: "account_id d1 = ?a" "account_id d2 = ?a" by (simp_all add: d1_def d2_def)
  have v: "secret_versions d1 = secret_versions d" "secret_versions d2 = secret_versions d" by (simp_all add: d1_def d2_def)
  have del: "r_status (fst (handle_secrets_manager env rg (sm_call ''DeleteSecret'' b) d)) = 200"
    "snd (handle_secrets_manager env rg (sm_call ''DeleteSecret'' b) d) = d1"
    using assms(6) up1(2) by (simp_all add: handle_sm_call sm_dispatch_simps sm_delete_secret_def sm_well_typed_def assms(1,2,5,7)
        schedule_secret_deletion_def Let_def f_def [abs_def] d1_def)
  have res: "r_status (fst (handle_secrets_manager env' rg (sm_call ''RestoreSecret'' b') d1)) = 200"
    "snd (handle_secrets_manager env' rg (sm_call ''RestoreSecret'' b') d1) = d2"
    using up2(2) by (simp_all add: handle_sm_call sm_dispatch_simps sm_restore_secret_def acc assms(8) restore_secret_def
        up1(1) f g_def [abs_def] d2_def Let_def)
  have gf: "g (f s) = s\<lparr>s_deleted_at := [], s_recovery_window := sm_window b\<rparr>"
    using assms(2) by (simp add: f_def g_def)
  have "sm_get_secret_value ?a rg b'' d1 = sm_get_secret_value ?a rg b'' d"
    by (rule sm_get_secret_value_cong [of _ _ _ _ s _ "f s"]) (simp_all add: assms(1,2,9) up1(1) f v)
  moreover have "sm_get_secret_value ?a rg b'' d2 = sm_get_secret_value ?a rg b'' d"
    by (rule sm_get_secret_value_cong [of _ _ _ _ s _ "g (f s)"]) (simp_all add: assms(1,2,9) up2(1) f g v)
  ultimately show ?thesis
    using del res up1(1) [unfolded f_def] up2(1) [unfolded gf]
    by (simp add: split_beta Let_def handle_sm_call sm_dispatch_simps acc)
qed

section \<open>Rotation\<close>

lemma current_not_demoted: "aws_current \<notin> set (demote_stages sts)"
  by (induction sts rule: demote_stages.induct) (auto simp: aws_current_def aws_previous_def)

lemma previous_demoted: "aws_previous \<in> set (demote_stages sts) \<longleftrightarrow> aws_current \<in> set sts"
  by (induction sts rule: demote_stages.induct) (auto simp: aws_current_def aws_previous_def)

text \<open>The versions of a secret after a successful put: the old ones demoted, and the new one.\<close>

lemma put_secret_value_live:
  assumes "get_secret_active_or_pending a rg ref d = Inr s"
    and "\<And>r. r \<in> set (secret_versions d) \<Longrightarrow> version_pk r \<noteq> (a, rg, s_name s, nv_id v)"
  shows "put_secret_value a rg ref v d = (None, d\<lparr>secret_versions :=
    sql_update (of_secret a rg (s_name s)) demote_row (secret_versions d) @ [version_of a rg (s_name s) v]\<rparr>)"
proof -
  have "version_pk (version_of a rg (s_name s) v) = (a, rg, s_name s, nv_id v)"
    by (simp add: version_pk_def version_of_def)
  then have "find (\<lambda>r. version_pk r = version_pk (version_of a rg (s_name s) v))
      (sql_update (of_secret a rg (s_name s)) demote_row (secret_versions d)) = None"
    using assms(2) by (auto simp: find_None_iff sql_update_def)
  with assms(1) show ?thesis by (simp add: put_secret_value_def Let_def insert_row_find)
qed

lemma set_versions_of:
  "set (versions_of a rg n d) = vr_version ` {r \<in> set (secret_versions d). of_secret a rg n r}"
  by (auto simp: versions_of_def)

lemma set_versions_after_put:
  "set (versions_of a rg n (d\<lparr>secret_versions := sql_update (of_secret a rg n) demote_row (secret_versions d) @
       [version_of a rg n v]\<rparr>)) =
     insert (vr_version (version_of a rg n v))
       ((\<lambda>x. x\<lparr>v_stages := demote_stages (v_stages x)\<rparr>) ` set (versions_of a rg n d))"
proof -
  have o: "of_secret a rg n (demote_row r) = of_secret a rg n r" for r by (simp add: of_secret_def)
  have n: "of_secret a rg n (version_of a rg n v)" by (simp add: of_secret_def version_of_def)
  have u: "{r \<in> set (sql_update (of_secret a rg n) demote_row t). of_secret a rg n r} =
      demote_row ` {r \<in> set t. of_secret a rg n r}" for t
    by (auto simp: sql_update_def o image_iff split: if_splits)
  have "{r \<in> set (sql_update (of_secret a rg n) demote_row t @ [version_of a rg n v]). of_secret a rg n r} =
      insert (version_of a rg n v) (demote_row ` {r \<in> set t. of_secret a rg n r})" for t
    unfolding u [symmetric] using n by auto
  then show ?thesis by (simp add: set_versions_of image_image demote_row_def)
qed

lemma find_version:
  assumes "v \<in> set vs" and "version_wanted st vid v"
    and "\<And>x. x \<in> set vs \<Longrightarrow> version_wanted st vid x \<Longrightarrow> x = v"
  shows "find (version_wanted st vid) vs = Some v"
  using assms by (intro find_unique)

definition secret_string_of :: "response \<Rightarrow> json option" where
  "secret_string_of r = (case r_body r of Json_body j \<Rightarrow> obj_get ''SecretString'' j | _ \<Rightarrow> None)"

definition sm_new_version :: "env \<Rightarrow> json option \<Rightarrow> new_version" where
  "sm_new_version env b = \<lparr>nv_id = sm_version_id 0 env, nv_string = snd (unmarshal (field_string ''SecretString'') b),
     nv_stages = snd (unmarshal (field_opt_strings ''VersionStages'') b), nv_created_at = rfc3339 (e_now env)\<rparr>"

text \<open>PutSecretValue as a client sees it: the answer, and what a default or staged read then finds.\<close>

lemma handle_put_value:
  assumes "get_secret (account_id d) rg (sm_secret_id b) d = Inr s" and "s_state s \<noteq> secret_destroyed"
    and "sm_well_typed b"
    and "\<And>r. r \<in> set (secret_versions d) \<Longrightarrow> version_pk r \<noteq> (account_id d, rg, s_name s, sm_version_id 0 env)"
  shows "handle_secrets_manager env rg (sm_call ''PutSecretValue'' b) d =
    (sm_created_answer (sm_version_id 0 env) s, d\<lparr>secret_versions :=
       sql_update (of_secret (account_id d) rg (s_name s)) demote_row (secret_versions d) @
       [version_of (account_id d) rg (s_name s) (sm_new_version env b)]\<rparr>)"
proof -
  have "put_secret_value (account_id d) rg (sm_secret_id b) (sm_new_version env b) d =
      (None, d\<lparr>secret_versions := sql_update (of_secret (account_id d) rg (s_name s)) demote_row (secret_versions d) @
         [version_of (account_id d) rg (s_name s) (sm_new_version env b)]\<rparr>)"
    using assms(4) by (intro put_secret_value_live get_secret_live assms(1,2)) (simp add: sm_new_version_def)
  with assms(1,3) show ?thesis
    by (simp add: handle_sm_call sm_dispatch_simps sm_put_secret_value_def sm_well_typed_def sm_new_version_def Let_def)
qed

lemma handle_get_value:
  assumes "get_secret (account_id d) rg (sm_secret_id b) d = Inr s" and "s_state s \<noteq> secret_destroyed"
    and "snd (unmarshal (field_string ''VersionId'') b) = []"
    and "st = (if snd (unmarshal (field_string ''VersionStage'') b) = [] then aws_current
               else snd (unmarshal (field_string ''VersionStage'') b))"
  shows "find (version_wanted st []) (versions_of (account_id d) rg (s_name s) d) = Some v \<Longrightarrow>
      secret_string_of (fst (handle_secrets_manager env rg (sm_call ''GetSecretValue'' b) d)) = Some (JStr (v_secret_string v))"
    and "find (version_wanted st []) (versions_of (account_id d) rg (s_name s) d) = None \<Longrightarrow>
      handle_secrets_manager env rg (sm_call ''GetSecretValue'' b) d = (write_aws_error Shape_json11 ErrNotFound, d)"
  using assms by (simp_all add: handle_sm_call sm_dispatch_simps sm_get_secret_value_def get_secret_value_def
      get_secret_live secret_string_of_def)

text \<open>C11. PutSecretValue without VersionStages rotates: GetSecretValue by default then reads the new
  string, and with VersionStage AWSPREVIOUS the one that was current before.\<close>

theorem secrets_rotate:
  assumes "get_secret (account_id d) rg ref d = Inr s" and "s_state s \<noteq> secret_destroyed"
    and "v0 \<in> set (versions_of (account_id d) rg (s_name s) d)" and "aws_current \<in> set (v_stages v0)"
    and "\<And>v. v \<in> set (versions_of (account_id d) rg (s_name s) d) \<Longrightarrow> aws_current \<in> set (v_stages v) \<Longrightarrow> v = v0"
    and "\<And>r. r \<in> set (secret_versions d) \<Longrightarrow> version_pk r \<noteq> (account_id d, rg, s_name s, sm_version_id 0 env)"
    and "sm_secret_id b = ref" "sm_well_typed b" "snd (unmarshal (field_opt_strings ''VersionStages'') b) = None"
    and "sm_secret_id cur = ref" "snd (unmarshal (field_string ''VersionStage'') cur) = []"
      "snd (unmarshal (field_string ''VersionId'') cur) = []"
    and "sm_secret_id prev = ref" "snd (unmarshal (field_string ''VersionStage'') prev) = aws_previous"
      "snd (unmarshal (field_string ''VersionId'') prev) = []"
  shows "let (put, d') = handle_secrets_manager env rg (sm_call ''PutSecretValue'' b) d
    in r_status put = 200 \<and>
       secret_string_of (fst (handle_secrets_manager env' rg (sm_call ''GetSecretValue'' cur) d')) =
         Some (JStr (snd (unmarshal (field_string ''SecretString'') b))) \<and>
       secret_string_of (fst (handle_secrets_manager env'' rg (sm_call ''GetSecretValue'' prev) d')) =
         Some (JStr (v_secret_string v0))"
proof -
  let ?a = "account_id d" and ?n = "s_name s" and ?v = "sm_new_version env b"
  define d' where "d' = d\<lparr>secret_versions := sql_update (of_secret ?a rg ?n) demote_row (secret_versions d) @ [version_of ?a rg ?n ?v]\<rparr>"
  have put: "handle_secrets_manager env rg (sm_call ''PutSecretValue'' b) d = (sm_created_answer (sm_version_id 0 env) s, d')"
    unfolding d'_def using assms(1,2,6-8) by (intro handle_put_value) simp_all
  have vs: "set (versions_of ?a rg ?n d') = insert (vr_version (version_of ?a rg ?n ?v))
      ((\<lambda>x. x\<lparr>v_stages := demote_stages (v_stages x)\<rparr>) ` set (versions_of ?a rg ?n d))"
    unfolding d'_def by (rule set_versions_after_put)
  have st: "v_stages (vr_version (version_of ?a rg ?n ?v)) = [aws_current]"
    using assms(9) by (simp add: version_of_def sm_new_version_def)
  have ne: "aws_current \<noteq> []" "aws_previous \<noteq> []" "aws_previous \<noteq> aws_current"
    by (simp_all add: aws_current_def aws_previous_def)
  have get: "get_secret ?a rg ref d' = Inr s" "account_id d' = ?a" using assms(1) by (simp_all add: d'_def)
  have "find (version_wanted aws_current []) (versions_of ?a rg ?n d') = Some (vr_version (version_of ?a rg ?n ?v))"
    by (rule find_version) (auto simp: vs st version_wanted_def ne current_not_demoted)
  with handle_get_value(1) [of d' rg cur s aws_current] have
    "secret_string_of (fst (handle_secrets_manager env' rg (sm_call ''GetSecretValue'' cur) d')) =
      Some (JStr (v_secret_string (vr_version (version_of ?a rg ?n ?v))))"
    by (simp add: get assms(2,10-12))
  moreover have "find (version_wanted aws_previous []) (versions_of ?a rg ?n d') =
      Some (v0\<lparr>v_stages := demote_stages (v_stages v0)\<rparr>)"
  proof (rule find_version)
    show "v0\<lparr>v_stages := demote_stages (v_stages v0)\<rparr> \<in> set (versions_of ?a rg ?n d')"
      using assms(3) by (simp add: vs)
    show "version_wanted aws_previous [] (v0\<lparr>v_stages := demote_stages (v_stages v0)\<rparr>)"
      using assms(4) by (simp add: version_wanted_def ne previous_demoted)
    fix x assume x: "x \<in> set (versions_of ?a rg ?n d')" "version_wanted aws_previous [] x"
    then have "x \<noteq> vr_version (version_of ?a rg ?n ?v)" by (auto simp: version_wanted_def st ne)
    with x(1) obtain y where y: "y \<in> set (versions_of ?a rg ?n d)" "x = y\<lparr>v_stages := demote_stages (v_stages y)\<rparr>"
      unfolding vs by blast
    with x(2) have "aws_current \<in> set (v_stages y)" by (simp add: version_wanted_def previous_demoted)
    from assms(5) [OF y(1) this] y(2) show "x = v0\<lparr>v_stages := demote_stages (v_stages v0)\<rparr>" by simp
  qed
  with handle_get_value(1) [of d' rg prev s aws_previous] have
    "secret_string_of (fst (handle_secrets_manager env'' rg (sm_call ''GetSecretValue'' prev) d')) = Some (JStr (v_secret_string v0))"
    by (simp add: get assms(2,13-15) ne)
  ultimately show ?thesis by (simp add: put sm_created_answer_def version_of_def sm_new_version_def)
qed

text \<open>PutSecretValue with VersionStages that leave out AWSCURRENT still takes the stage from the old
  version: the call answers 200, and then the secret has no current value, so that a default
  GetSecretValue answers 404 ResourceNotFoundException.\<close>

theorem secrets_put_loses_current:
  assumes "get_secret (account_id d) rg ref d = Inr s" and "s_state s \<noteq> secret_destroyed"
    and "\<And>r. r \<in> set (secret_versions d) \<Longrightarrow> version_pk r \<noteq> (account_id d, rg, s_name s, sm_version_id 0 env)"
    and "sm_secret_id b = ref" "sm_well_typed b"
      "snd (unmarshal (field_opt_strings ''VersionStages'') b) = Some sts" "aws_current \<notin> set sts"
    and "sm_secret_id cur = ref" "snd (unmarshal (field_string ''VersionStage'') cur) = []"
      "snd (unmarshal (field_string ''VersionId'') cur) = []"
  shows "let (put, d') = handle_secrets_manager env rg (sm_call ''PutSecretValue'' b) d
    in r_status put = 200 \<and>
       refused_as 404 ''ResourceNotFoundException'' d' (handle_secrets_manager env' rg (sm_call ''GetSecretValue'' cur) d')"
proof -
  let ?a = "account_id d" and ?n = "s_name s" and ?v = "sm_new_version env b"
  define d' where "d' = d\<lparr>secret_versions := sql_update (of_secret ?a rg ?n) demote_row (secret_versions d) @ [version_of ?a rg ?n ?v]\<rparr>"
  have put: "handle_secrets_manager env rg (sm_call ''PutSecretValue'' b) d = (sm_created_answer (sm_version_id 0 env) s, d')"
    unfolding d'_def using assms(1-5) by (intro handle_put_value) simp_all
  have vs: "set (versions_of ?a rg ?n d') = insert (vr_version (version_of ?a rg ?n ?v))
      ((\<lambda>x. x\<lparr>v_stages := demote_stages (v_stages x)\<rparr>) ` set (versions_of ?a rg ?n d))"
    unfolding d'_def by (rule set_versions_after_put)
  have st: "v_stages (vr_version (version_of ?a rg ?n ?v)) = sts"
    using assms(6) by (simp add: version_of_def sm_new_version_def)
  have get: "get_secret ?a rg ref d' = Inr s" "account_id d' = ?a" using assms(1) by (simp_all add: d'_def)
  have "\<not> version_wanted aws_current [] x" if "x \<in> set (versions_of ?a rg ?n d')" for x
    using that assms(7) by (auto simp: vs st version_wanted_def current_not_demoted)
  then have "find (version_wanted aws_current []) (versions_of ?a rg ?n d') = None" by (simp add: find_None_iff)
  with handle_get_value(2) [of d' rg cur s aws_current] have
    "handle_secrets_manager env' rg (sm_call ''GetSecretValue'' cur) d' = (write_aws_error Shape_json11 ErrNotFound, d')"
    by (simp add: get assms(2,8-10))
  then show ?thesis by (simp add: put sm_created_answer_def)
qed

text \<open>A secret pending deletion is not hidden from clients: DescribeSecret still answers it with 200,
  and ListSecrets still lists it.\<close>

theorem secrets_pending_visible:
  assumes "get_secret (account_id d) rg (sm_secret_id b) d = Inr s" and "s_state s = secret_pending"
  shows "r_status (fst (handle_secrets_manager env rg (sm_call ''DescribeSecret'' b) d)) = 200 \<and>
    (\<exists>ss. fst (handle_secrets_manager env' rg (sm_call ''ListSecrets'' b') d) = write_json11 200 (JObj [(''SecretList'', JArr ss)]) \<and>
       JObj [(''ARN'', JStr (s_arn s)), (''Name'', JStr (s_name s)), (''Description'', JStr (s_description s))] \<in> set ss)"
proof -
  obtain r where r: "r \<in> set (secrets d)" "secret_match (account_id d) rg (sm_secret_id b) r" "sr_secret r = s"
    by (rule get_secret_row [OF assms(1)])
  then have "s \<in> set (list_secrets (account_id d) rg d)"
    using assms(2) by (auto simp: list_secrets_def secret_match_def intro!: image_eqI [of _ _ r])
  moreover have "get_secret_active_or_pending (account_id d) rg (sm_secret_id b) d = Inr s"
    using assms by (intro get_secret_live) simp_all
  ultimately show ?thesis
    by (intro conjI exI [of _ "map (\<lambda>s. JObj [(''ARN'', JStr (s_arn s)), (''Name'', JStr (s_name s)),
          (''Description'', JStr (s_description s))]) (list_secrets (account_id d) rg d)"])
      (auto simp: handle_sm_call sm_dispatch_simps sm_describe_secret_def sm_list_secrets_def)
qed

section \<open>Examples\<close>

definition sample_secret :: "string \<Rightarrow> secret" where
  "sample_secret st = \<lparr>s_name = ''db'', s_arn = secret_arn ''us-east-1'' fake_account_id ''db'' ''010203'',
     s_description = [], s_kms_key_id = [], s_recovery_window = 30, s_deleted_at = [], s_state = st, s_tags = [],
     s_region = ''us-east-1'', s_created_at = ''1970-01-01T00:00:00Z''\<rparr>"

definition sample_version :: secret_version where
  "sample_version = \<lparr>v_secret_name = ''db'', v_version_id = ''VID-1'', v_secret_string = ''old'',
     v_stages = [aws_current], v_region = ''us-east-1'', v_created_at = ''1970-01-01T00:00:00Z''\<rparr>"

definition sample_secret_db :: "string \<Rightarrow> db" where
  "sample_secret_db st = empty_db\<lparr>secrets := [\<lparr>sr_account = fake_account_id, sr_secret = sample_secret st\<rparr>],
     secret_versions := [\<lparr>vr_account = fake_account_id, vr_version = sample_version\<rparr>]\<rparr>"

definition sm_sample_env :: env where
  "sm_sample_env = \<lparr>e_now = 100 * nanos_per_second, e_rand = [[1, 2, 3], [4, 5, 6]]\<rparr>"

definition sample_put_body :: "json option" where
  "sample_put_body = Some (JObj [(''SecretId'', JStr ''db''), (''SecretString'', JStr ''new'')])"

definition sample_unstaged_body :: "json option" where
  "sample_unstaged_body = Some (JObj [(''SecretId'', JStr ''db''), (''VersionStages'', JArr [])])"

definition sample_prev_body :: "json option" where
  "sample_prev_body = Some (JObj [(''SecretId'', JStr ''db''), (''VersionStage'', JStr ''AWSPREVIOUS'')])"

lemma sample_secret_bodies:
  "sm_secret_id sample_put_body = ''db''" "sm_well_typed sample_put_body"
  "snd (unmarshal (field_opt_strings ''VersionStages'') sample_put_body) = None"
  "snd (unmarshal (field_string ''VersionStage'') sample_put_body) = []"
  "snd (unmarshal (field_string ''VersionId'') sample_put_body) = []"
  "snd (unmarshal (field_string ''SecretString'') sample_put_body) = ''new''"
  "sm_secret_id sample_prev_body = ''db''"
  "snd (unmarshal (field_string ''VersionStage'') sample_prev_body) = aws_previous"
  "snd (unmarshal (field_string ''VersionId'') sample_prev_body) = []"
  "sm_secret_id sample_unstaged_body = ''db''" "sm_well_typed sample_unstaged_body"
  "snd (unmarshal (field_opt_strings ''VersionStages'') sample_unstaged_body) = Some []"
  "sm_window sample_put_body \<noteq> 0"
  by code_simp+

lemma sample_secret_lookup:
  "account_id (sample_secret_db st) = fake_account_id"
  "get_secret fake_account_id ''us-east-1'' ''db'' (sample_secret_db st) = Inr (sample_secret st)"
  by (simp_all add: account_id_def get_identity_def sample_secret_db_def empty_db_def get_secret_def secret_match_def
      sample_secret_def)

lemma sample_secret_wf:
  "keys_ok (sample_secret_db st)" "secrets_wf (sample_secret_db st)"
  "secret_refs_ok fake_account_id ''us-east-1'' (sample_secret_db st)"
proof -
  show k: "keys_ok (sample_secret_db st)" by (simp add: sample_secret_db_def keys_ok_def empty_db_def pk_def)
  then show "secrets_wf (sample_secret_db st)"
    by (simp add: secrets_wf_def sample_secret_db_def version_owned_def secret_pk_def sample_version_def sample_secret_def)
  show "secret_refs_ok fake_account_id ''us-east-1'' (sample_secret_db st)"
    by (simp add: secret_refs_ok_def sample_secret_db_def secret_ref_key_def sample_secret_def secret_arn_def)
qed

lemma sample_secret_versions:
  "versions_of fake_account_id ''us-east-1'' ''db'' (sample_secret_db st) = [sample_version]"
  by (simp add: versions_of_def sample_secret_db_def of_secret_def sample_version_def)

lemma sample_secret_fresh:
  "r \<in> set (secret_versions (sample_secret_db st)) \<Longrightarrow> version_pk r \<noteq> (a, rg, n, sm_version_id 0 sm_sample_env)"
proof -
  have "sm_version_id 0 sm_sample_env = ''VID-010203040506''" by code_simp
  then show "r \<in> set (secret_versions (sample_secret_db st)) \<Longrightarrow> ?thesis"
    by (simp add: sample_secret_db_def version_pk_def sample_version_def)
qed

lemma sample_secret_name [simp]: "s_name (sample_secret st) = ''db''" "s_state (sample_secret st) = st"
  by (simp_all add: sample_secret_def)

theorem secrets_persist_witness:
  "secrets_wf (sm_run [(sm_sample_env, ''us-east-1'', sm_call ''DeleteSecret'' sample_put_body)] (sample_secret_db secret_active))"
proof -
  have "stored_secret (fake_account_id, ''us-east-1'', ''db'') (sample_secret_db secret_active) = Some (sample_secret secret_active)"
    by (simp add: stored_secret_def sample_secret_db_def secret_pk_def sample_secret_def)
  from secrets_persist [OF sample_secret_wf(2) this] show ?thesis by blast
qed


theorem secrets_delete_restore_witness:
  "r_status (fst (handle_secrets_manager sm_sample_env ''us-east-1'' (sm_call ''RestoreSecret'' sample_put_body)
     (snd (handle_secrets_manager sm_sample_env ''us-east-1'' (sm_call ''DeleteSecret'' sample_put_body)
       (sample_secret_db secret_active))))) = 200"
proof -
  have "get_secret (account_id (sample_secret_db secret_active)) ''us-east-1'' ''db'' (sample_secret_db secret_active) =
      Inr (sample_secret secret_active)" "secret_refs_ok (account_id (sample_secret_db secret_active)) ''us-east-1'' (sample_secret_db secret_active)"
    by (simp_all add: sample_secret_lookup sample_secret_wf)
  from secrets_delete_restore [OF this(1) sample_secret_name(2) sample_secret_wf(1) this(2) sample_secret_bodies(1,2,13,1,1),
      of sm_sample_env sm_sample_env]
  show ?thesis by (simp add: split_beta Let_def)
qed

theorem secrets_rotate_witness:
  "let d' = snd (handle_secrets_manager sm_sample_env ''us-east-1'' (sm_call ''PutSecretValue'' sample_put_body) (sample_secret_db secret_active))
   in secret_string_of (fst (handle_secrets_manager sm_sample_env ''us-east-1'' (sm_call ''GetSecretValue'' sample_put_body) d')) = Some (JStr ''new'') \<and>
      secret_string_of (fst (handle_secrets_manager sm_sample_env ''us-east-1'' (sm_call ''GetSecretValue'' sample_prev_body) d')) = Some (JStr ''old'')"
proof -
  let ?d = "sample_secret_db secret_active"
  have 1: "get_secret (account_id ?d) ''us-east-1'' ''db'' ?d = Inr (sample_secret secret_active)"
    "s_state (sample_secret secret_active) \<noteq> secret_destroyed"
    "set (versions_of (account_id ?d) ''us-east-1'' (s_name (sample_secret secret_active)) ?d) = {sample_version}"
    "v_stages sample_version = [aws_current]" "v_secret_string sample_version = ''old''"
    by (simp_all add: sample_secret_lookup sample_secret_versions sample_version_def)
  have 2: "sample_version \<in> set (versions_of (account_id ?d) ''us-east-1'' (s_name (sample_secret secret_active)) ?d)"
    "aws_current \<in> set (v_stages sample_version)" by (simp_all only: 1(3,4)) simp_all
  have 3: "v = sample_version" if "v \<in> set (versions_of (account_id ?d) ''us-east-1'' (s_name (sample_secret secret_active)) ?d)" for v
    using that unfolding 1(3) by simp
  from secrets_rotate [OF 1(1,2) 2 3 sample_secret_fresh sample_secret_bodies(1,2,3,1,4,5,7,8,9),
      where env' = sm_sample_env and env'' = sm_sample_env]
  show ?thesis by (simp add: split_beta Let_def 1(5) sample_secret_bodies(6))
qed

theorem secrets_put_loses_current_witness:
  "let d' = snd (handle_secrets_manager sm_sample_env ''us-east-1'' (sm_call ''PutSecretValue'' sample_unstaged_body) (sample_secret_db secret_active))
   in refused_as 404 ''ResourceNotFoundException'' d'
        (handle_secrets_manager sm_sample_env ''us-east-1'' (sm_call ''GetSecretValue'' sample_put_body) d')"
proof -
  let ?d = "sample_secret_db secret_active"
  have 1: "get_secret (account_id ?d) ''us-east-1'' ''db'' ?d = Inr (sample_secret secret_active)"
    "s_state (sample_secret secret_active) \<noteq> secret_destroyed" "aws_current \<notin> set []"
    by (simp_all add: sample_secret_lookup)
  from secrets_put_loses_current [OF 1(1,2) sample_secret_fresh sample_secret_bodies(10-12) 1(3) sample_secret_bodies(1,4,5),
      where env' = sm_sample_env]
  show ?thesis by (simp add: split_beta Let_def)
qed

theorem secrets_pending_visible_witness:
  "r_status (fst (handle_secrets_manager sm_sample_env ''us-east-1'' (sm_call ''DescribeSecret'' sample_put_body)
     (sample_secret_db secret_pending))) = 200"
proof -
  have "get_secret (account_id (sample_secret_db secret_pending)) ''us-east-1'' (sm_secret_id sample_put_body)
      (sample_secret_db secret_pending) = Inr (sample_secret secret_pending)"
    by (simp add: sample_secret_lookup sample_secret_bodies)
  from secrets_pending_visible [OF this sample_secret_name(2), of sm_sample_env] show ?thesis by simp
qed

end
