(* ===== verification/Dynamodb.thy ===== *)
theory Dynamodb
  imports Identity Gotime Tags
begin

text \<open>
  DynamoDB: repository/dynamodb.go and handlers/dynamodb.go. A table has a hash key and perhaps a range
  key; its items are attribute maps, stored whole under the values of their keys. An item row belongs to
  a table row and goes with it.
\<close>

section \<open>Tables (repository)\<close>

definition ddb_table_defaults :: "ddb_table \<Rightarrow> ddb_table" where
  "ddb_table_defaults t = t\<lparr>t_billing_mode := (if t_billing_mode t = [] then ''PAY_PER_REQUEST'' else t_billing_mode t),
     t_status := (if t_status t = [] then ''ACTIVE'' else t_status t)\<rparr>"

definition create_ddb_table :: "string \<Rightarrow> ddb_table \<Rightarrow> db \<Rightarrow> go_error option \<times> db" where
  "create_ddb_table account t d =
     (case insert_row ddb_table_pk \<lparr>tr_account = account, tr_table = ddb_table_defaults t\<rparr> (ddb_tables d) of
        Inl e \<Rightarrow> (Some e, d)
      | Inr ts \<Rightarrow> (None, d\<lparr>ddb_tables := ts\<rparr>))"

definition get_ddb_table :: "string \<Rightarrow> string \<Rightarrow> string \<Rightarrow> db \<Rightarrow> ddb_table result" where
  "get_ddb_table account region name d =
     (case find (\<lambda>r. ddb_table_pk r = (account, region, name)) (ddb_tables d) of
        None \<Rightarrow> Inl ErrNotFound
      | Some r \<Rightarrow> Inr (tr_table r))"

definition list_ddb_tables :: "string \<Rightarrow> string \<Rightarrow> db \<Rightarrow> ddb_table list" where
  "list_ddb_tables account region d =
     sort_key t_name (map tr_table (filter (\<lambda>r. tr_account r = account \<and>
        (region = [] \<or> t_region (tr_table r) = region)) (ddb_tables d)))"

text \<open>The items of one table; the foreign key takes them away with the table, and the trigger its tags.\<close>

definition of_table :: "string \<Rightarrow> string \<Rightarrow> string \<Rightarrow> ddb_item_row \<Rightarrow> bool" where
  "of_table account region name r \<longleftrightarrow>
     ir_account r = account \<and> ir_region r = region \<and> i_table_name (ir_item r) = name"

definition delete_ddb_table :: "string \<Rightarrow> string \<Rightarrow> string \<Rightarrow> db \<Rightarrow> go_error option \<times> db" where
  "delete_ddb_table account region name d =
     (case find (\<lambda>r. ddb_table_pk r = (account, region, name)) (ddb_tables d) of
        None \<Rightarrow> (Some ErrNotFound, d)
      | Some r \<Rightarrow> (None, drop_resource_tags account (t_arn (tr_table r))
          (d\<lparr>ddb_tables := sql_delete (\<lambda>r. ddb_table_pk r = (account, region, name)) (ddb_tables d),
             ddb_items := sql_delete (of_table account region name) (ddb_items d)\<rparr>)))"

section \<open>Items (repository)\<close>

definition put_ddb_item :: "string \<Rightarrow> string \<Rightarrow> ddb_item \<Rightarrow> db \<Rightarrow> go_error option \<times> db" where
  "put_ddb_item account region item d =
     (case get_ddb_table account region (i_table_name item) d of
        Inl e \<Rightarrow> (Some e, d)
      | Inr _ \<Rightarrow> (None, d\<lparr>ddb_items :=
          sql_replace ddb_item_pk \<lparr>ir_account = account, ir_region = region, ir_item = item\<rparr> (ddb_items d)\<rparr>))"

definition get_ddb_item :: "string \<Rightarrow> string \<Rightarrow> string \<Rightarrow> string \<Rightarrow> string \<Rightarrow> db \<Rightarrow> ddb_item result" where
  "get_ddb_item account region name hv rv d =
     (case find (\<lambda>r. ddb_item_pk r = (account, region, name, hv, rv)) (ddb_items d) of
        None \<Rightarrow> Inl ErrNotFound
      | Some r \<Rightarrow> Inr \<lparr>i_table_name = name, i_hash_value = hv, i_range_value = rv, i_item = i_item (ir_item r)\<rparr>)"

definition delete_ddb_item :: "string \<Rightarrow> string \<Rightarrow> string \<Rightarrow> string \<Rightarrow> string \<Rightarrow> db \<Rightarrow> go_error option \<times> db" where
  "delete_ddb_item account region name hv rv d =
     (let p = (\<lambda>r. ddb_item_pk r = (account, region, name, hv, rv))
      in (if affected p (ddb_items d) = 0 then Some ErrNotFound else None,
          d\<lparr>ddb_items := sql_delete p (ddb_items d)\<rparr>))"

definition scan_ddb_table :: "string \<Rightarrow> string \<Rightarrow> string \<Rightarrow> db \<Rightarrow> ddb_item list result" where
  "scan_ddb_table account region name d =
     (case get_ddb_table account region name d of
        Inl e \<Rightarrow> Inl e
      | Inr _ \<Rightarrow> Inr (sort_key (\<lambda>i. (i_hash_value i, i_range_value i))
          (map ir_item (filter (of_table account region name) (ddb_items d)))))"

section \<open>Attribute values\<close>

text \<open>
  map[string]json.RawMessage and the map of those that items and keys are: None is the nil map, which a
  null decodes to and which encodes as null.
\<close>

type_synonym attr_value = "(string \<times> json) list option"
type_synonym attr_map = "(string \<times> attr_value) list option"

definition dec_attr_value :: "attr_value dec" where
  "dec_attr_value = dec_nilable (dec_map JNull dec_raw)"

definition dec_attr_map :: "attr_map dec" where
  "dec_attr_map = dec_nilable (dec_map None dec_attr_value)"

definition field_attr_map :: "string \<Rightarrow> json \<Rightarrow> bool \<times> attr_map" where
  "field_attr_map = field_nilable (dec_map None dec_attr_value)"

definition marshal_attr_value :: "attr_value \<Rightarrow> json" where
  "marshal_attr_value av = (case av of None \<Rightarrow> JNull | Some m \<Rightarrow> JObj m)"

definition marshal_attr_map :: "attr_map \<Rightarrow> json" where
  "marshal_attr_map am = (case am of None \<Rightarrow> JNull | Some m \<Rightarrow> JObj (map (\<lambda>(k, av). (k, marshal_attr_value av)) m))"

text \<open>Indexing a map: the zero value where there is no entry.\<close>

definition attr_of :: "attr_map \<Rightarrow> string \<Rightarrow> attr_value" where
  "attr_of am k = (case am of None \<Rightarrow> None | Some m \<Rightarrow> (case map_of m k of None \<Rightarrow> None | Some av \<Rightarrow> av))"

fun extract_from :: "attr_value \<Rightarrow> string list \<Rightarrow> string" where
  "extract_from av [] = []"
| "extract_from av (t # ts) =
     (case (case av of None \<Rightarrow> None | Some m \<Rightarrow> map_of m t) of
        None \<Rightarrow> extract_from av ts
      | Some raw \<Rightarrow> (case dec_string raw of (True, s) \<Rightarrow> or_zero [] s | (False, _) \<Rightarrow> extract_from av ts))"

definition extract_key_value :: "attr_value \<Rightarrow> string" where
  "extract_key_value av = extract_from av [''S'', ''N'', ''B'']"

text \<open>The hash and range values under which a table keeps an item with these attributes.\<close>

definition item_key :: "ddb_table \<Rightarrow> attr_map \<Rightarrow> string \<times> string" where
  "item_key t am = (extract_key_value (attr_of am (t_hash_key t)),
     if t_range_key t = [] then [] else extract_key_value (attr_of am (t_range_key t)))"

section \<open>Handlers\<close>

definition ddb_conflict :: response where
  "ddb_conflict = write_aws_error Shape_json11 ErrConflict"

definition ddb_table_to_description :: "ddb_table \<Rightarrow> json" where
  "ddb_table_to_description t = JObj
     [(''TableName'', JStr (t_name t)), (''TableStatus'', JStr (t_status t)),
      (''AttributeDefinitions'', if t_attributes t = [] then JNull else JArr (map (\<lambda>a. JObj
         [(''AttributeName'', JStr (a_name a)), (''AttributeType'', JStr (a_type a))]) (t_attributes t))),
      (''KeySchema'', JArr (JObj [(''AttributeName'', JStr (t_hash_key t)), (''KeyType'', JStr ''HASH'')] #
         (if t_range_key t = [] then []
          else [JObj [(''AttributeName'', JStr (t_range_key t)), (''KeyType'', JStr ''RANGE'')]]))),
      (''BillingModeSummary'', JObj [(''BillingMode'', JStr (t_billing_mode t))]),
      (''TableArn'', JStr (t_arn t))]"

text \<open>The loop over KeySchema: the last element of each type wins.\<close>

fun key_schema :: "(string \<times> string) list \<Rightarrow> string \<times> string \<Rightarrow> string \<times> string" where
  "key_schema [] hr = hr"
| "key_schema ((attr, kt) # ks) (h, r) =
     key_schema ks (if kt = ''HASH'' then (attr, r) else if kt = ''RANGE'' then (h, attr) else (h, r))"

definition ddb_new_table :: "env \<Rightarrow> string \<Rightarrow> string \<Rightarrow> json option \<Rightarrow> ddb_table" where
  "ddb_new_table env account region b =
     (let name = snd (unmarshal (field_string ''TableName'') b);
          (hash, range) = key_schema (snd (unmarshal (field_pairs ''AttributeName'' ''KeyType'' ''KeySchema'') b)) ([], []);
          billing = snd (unmarshal (field_string ''BillingMode'') b)
      in \<lparr>t_name = name, t_hash_key = hash, t_range_key = range,
          t_attributes = map (\<lambda>(n, ty). \<lparr>a_name = n, a_type = ty\<rparr>)
            (snd (unmarshal (field_pairs ''AttributeName'' ''AttributeType'' ''AttributeDefinitions'') b)),
          t_billing_mode = (if billing = [] then ''PAY_PER_REQUEST'' else billing), t_status = ''ACTIVE'',
          t_region = region, t_arn = dynamodb_table_arn region account name, t_created_at = rfc3339 (e_now env)\<rparr>)"

definition ddb_create_decodes :: "json option \<Rightarrow> bool" where
  "ddb_create_decodes b \<longleftrightarrow> fst (unmarshal (field_string ''TableName'') b) \<and> fst (unmarshal (field_string ''BillingMode'') b) \<and>
     fst (unmarshal (field_pairs ''AttributeName'' ''KeyType'' ''KeySchema'') b) \<and>
     fst (unmarshal (field_pairs ''AttributeName'' ''AttributeType'' ''AttributeDefinitions'') b) \<and>
     fst (unmarshal (field_pairs ''Key'' ''Value'' ''Tags'') b)"

definition ddb_create_table :: "env \<Rightarrow> string \<Rightarrow> string \<Rightarrow> json option \<Rightarrow> db \<Rightarrow> response \<times> db" where
  "ddb_create_table env account region b d =
     (let t = ddb_new_table env account region b
      in if \<not> ddb_create_decodes b then (ddb_conflict, d)
         else if t_name t = [] then (ddb_conflict, d)
         else if t_hash_key t = [] then (ddb_conflict, d)
         else (case create_ddb_table account t d of
             (Some e, d') \<Rightarrow> (write_aws_error Shape_json11 e, d')
           | (None, d') \<Rightarrow>
               (case tag_created account Tags_DynamoDB_table (t_arn t)
                      (gm_set_all (snd (unmarshal (field_pairs ''Key'' ''Value'' ''Tags'') b)) [])
                      (delete_ddb_table account region (t_name t)) d' of
                  (Some e, d'') \<Rightarrow> (write_aws_error Shape_json11 e, d'')
                | (None, d'') \<Rightarrow> (write_json11 200 (JObj [(''TableDescription'', ddb_table_to_description t)]), d''))))"

text \<open>The calls that name a table and read it: what each answers for a table that exists.\<close>

definition ddb_read_table :: "(ddb_table \<Rightarrow> json) \<Rightarrow> string \<Rightarrow> string \<Rightarrow> json option \<Rightarrow> db \<Rightarrow> response" where
  "ddb_read_table answer account region b d =
     (if \<not> fst (unmarshal (field_string ''TableName'') b) then ddb_conflict
      else case get_ddb_table account region (snd (unmarshal (field_string ''TableName'') b)) d of
        Inl e \<Rightarrow> write_aws_error Shape_json11 e
      | Inr t \<Rightarrow> write_json11 200 (answer t))"

definition ddb_describe_table :: "string \<Rightarrow> string \<Rightarrow> json option \<Rightarrow> db \<Rightarrow> response" where
  "ddb_describe_table = ddb_read_table (\<lambda>t. JObj [(''Table'', ddb_table_to_description t)])"

definition ddb_describe_continuous_backups :: "string \<Rightarrow> string \<Rightarrow> json option \<Rightarrow> db \<Rightarrow> response" where
  "ddb_describe_continuous_backups = ddb_read_table (\<lambda>_. JObj [(''ContinuousBackupsDescription'', JObj
     [(''ContinuousBackupsStatus'', JStr ''DISABLED''),
      (''PointInTimeRecoveryDescription'', JObj [(''PointInTimeRecoveryStatus'', JStr ''DISABLED'')])])])"

definition ddb_describe_time_to_live :: "string \<Rightarrow> string \<Rightarrow> json option \<Rightarrow> db \<Rightarrow> response" where
  "ddb_describe_time_to_live =
     ddb_read_table (\<lambda>_. JObj [(''TimeToLiveDescription'', JObj [(''TimeToLiveStatus'', JStr ''DISABLED'')])])"

definition ddb_delete_table :: "string \<Rightarrow> string \<Rightarrow> json option \<Rightarrow> db \<Rightarrow> response \<times> db" where
  "ddb_delete_table account region b d =
     (let name = snd (unmarshal (field_string ''TableName'') b)
      in case get_ddb_table account region name d of
           Inl e \<Rightarrow> (write_aws_error Shape_json11 e, d)
         | Inr t \<Rightarrow> (case delete_ddb_table account region name d of
             (Some e, d') \<Rightarrow> (write_aws_error Shape_json11 e, d')
           | (None, d') \<Rightarrow> (write_json11 200 (JObj [(''TableDescription'', ddb_table_to_description t)]), d')))"

section \<open>Tags\<close>

definition ddb_tag_decodes :: "json option \<Rightarrow> bool" where
  "ddb_tag_decodes b \<longleftrightarrow> fst (unmarshal (field_string ''ResourceArn'') b) \<and>
     fst (unmarshal (field_pairs ''Key'' ''Value'' ''Tags'') b) \<and> fst (unmarshal (field_strings ''TagKeys'') b)"

definition ddb_tag_arn :: "json option \<Rightarrow> string" where
  "ddb_tag_arn b = snd (unmarshal (field_string ''ResourceArn'') b)"

definition ddb_write_tag_error :: "string \<Rightarrow> go_error \<Rightarrow> response" where
  "ddb_write_tag_error arn e =
     (if errors_is e ErrNotFound
      then write_service_error Shape_json11 400 ''ResourceNotFoundException''
             (''Requested resource not found: ResourceArn: '' @ arn @ '' not found'')
      else write_aws_error Shape_json11 e)"

definition ddb_list_tags_of_resource :: "string \<Rightarrow> json option \<Rightarrow> db \<Rightarrow> response" where
  "ddb_list_tags_of_resource account b d =
     (if \<not> ddb_tag_decodes b then ddb_conflict
      else case resource_tag_map account Tags_DynamoDB_table (ddb_tag_arn b) d of
        Inl e \<Rightarrow> ddb_write_tag_error (ddb_tag_arn b) e
      | Inr tags \<Rightarrow> write_json11 200 (JObj [(''Tags'', JArr (tag_list tags
          (\<lambda>k v. JObj [(''Key'', JStr k), (''Value'', JStr v)])))]))"

definition ddb_tag_answer :: "json option \<Rightarrow> go_error option \<times> db \<Rightarrow> response \<times> db" where
  "ddb_tag_answer b x = (case x of
       (Some e, d') \<Rightarrow> (ddb_write_tag_error (ddb_tag_arn b) e, d')
     | (None, d') \<Rightarrow> (write_json11 200 (JObj []), d'))"

definition ddb_tag_resource :: "string \<Rightarrow> json option \<Rightarrow> db \<Rightarrow> response \<times> db" where
  "ddb_tag_resource account b d =
     (if \<not> ddb_tag_decodes b then (ddb_conflict, d)
      else ddb_tag_answer b (tag_resource account Tags_DynamoDB_table (ddb_tag_arn b)
             (gm_set_all (snd (unmarshal (field_pairs ''Key'' ''Value'' ''Tags'') b)) []) d))"

definition ddb_untag_resource :: "string \<Rightarrow> json option \<Rightarrow> db \<Rightarrow> response \<times> db" where
  "ddb_untag_resource account b d =
     (if \<not> ddb_tag_decodes b then (ddb_conflict, d)
      else ddb_tag_answer b (untag_resource account Tags_DynamoDB_table (ddb_tag_arn b)
             (snd (unmarshal (field_strings ''TagKeys'') b)) d))"

section \<open>Items\<close>

text \<open>
  A stored item is answered as the value it is. (The code decodes it into map[string]any and encodes it
  again, which would round a bare number beyond a float64's integers and drop a repeated name; attribute
  values hold their numbers as strings.)
\<close>

definition ddb_table_of :: "json option \<Rightarrow> string" where
  "ddb_table_of b = snd (unmarshal (field_string ''TableName'') b)"

definition ddb_attrs :: "string \<Rightarrow> json option \<Rightarrow> attr_map" where
  "ddb_attrs f b = snd (unmarshal (field_attr_map f) b)"

definition ddb_item_decodes :: "string list \<Rightarrow> json option \<Rightarrow> bool" where
  "ddb_item_decodes fs b \<longleftrightarrow> fst (unmarshal (field_string ''TableName'') b) \<and>
     list_all (\<lambda>f. fst (unmarshal (field_attr_map f) b)) fs"

definition ddb_put_item :: "string \<Rightarrow> string \<Rightarrow> json option \<Rightarrow> db \<Rightarrow> response \<times> db" where
  "ddb_put_item account region b d =
     (if \<not> ddb_item_decodes [''Item''] b then (ddb_conflict, d)
      else case get_ddb_table account region (ddb_table_of b) d of
        Inl e \<Rightarrow> (write_aws_error Shape_json11 e, d)
      | Inr t \<Rightarrow>
          (let (hv, rv) = item_key t (ddb_attrs ''Item'' b)
           in case put_ddb_item account region \<lparr>i_table_name = ddb_table_of b, i_hash_value = hv, i_range_value = rv,
                     i_item = marshal_attr_map (ddb_attrs ''Item'' b)\<rparr> d of
                (Some e, d') \<Rightarrow> (write_aws_error Shape_json11 e, d')
              | (None, d') \<Rightarrow> (write_json11 200 (JObj []), d')))"

definition ddb_get_item :: "string \<Rightarrow> string \<Rightarrow> json option \<Rightarrow> db \<Rightarrow> response" where
  "ddb_get_item account region b d =
     (if \<not> ddb_item_decodes [''Key''] b then ddb_conflict
      else case get_ddb_table account region (ddb_table_of b) d of
        Inl e \<Rightarrow> write_aws_error Shape_json11 e
      | Inr t \<Rightarrow>
          (let (hv, rv) = item_key t (ddb_attrs ''Key'' b)
           in case get_ddb_item account region (ddb_table_of b) hv rv d of
                Inl e \<Rightarrow> write_json11 200 (JObj [])
              | Inr i \<Rightarrow> write_json11 200 (JObj [(''Item'', i_item i)])))"

definition ddb_delete_item :: "string \<Rightarrow> string \<Rightarrow> json option \<Rightarrow> db \<Rightarrow> response \<times> db" where
  "ddb_delete_item account region b d =
     (if \<not> ddb_item_decodes [''Key''] b then (ddb_conflict, d)
      else case get_ddb_table account region (ddb_table_of b) d of
        Inl e \<Rightarrow> (write_aws_error Shape_json11 e, d)
      | Inr t \<Rightarrow>
          (let (hv, rv) = item_key t (ddb_attrs ''Key'' b)
           in (write_json11 200 (JObj []), snd (delete_ddb_item account region (ddb_table_of b) hv rv d))))"

text \<open>
  UpdateItem: the stored item (or a new map), the key's attributes over it, then the Value of each
  attribute update that has one. A stored null makes the map nil, and an assignment to it panics.
\<close>

definition stored_attrs :: "json \<Rightarrow> attr_map" where
  "stored_attrs j = or_zero (Some []) (snd (dec_attr_map j))"

definition update_value :: "attr_value \<Rightarrow> attr_value option" where
  "update_value payload =
     (case (case payload of None \<Rightarrow> None | Some p \<Rightarrow> map_of p ''Value'') of
        None \<Rightarrow> None
      | Some raw \<Rightarrow> (case dec_attr_value raw of (True, av) \<Rightarrow> Some (or_zero None av) | (False, _) \<Rightarrow> None))"

definition update_assignments :: "attr_map \<Rightarrow> attr_map \<Rightarrow> (string \<times> attr_value) list" where
  "update_assignments key updates =
     or_zero [] key @
     concat (map (\<lambda>(k, p). case update_value p of None \<Rightarrow> [] | Some av \<Rightarrow> [(k, av)]) (or_zero [] updates))"

definition assign_attrs :: "(string \<times> attr_value) list \<Rightarrow> attr_map \<Rightarrow> attr_map option" where
  "assign_attrs asg am = (case am of
       Some m \<Rightarrow> Some (Some (gm_set_all asg m))
     | None \<Rightarrow> (if asg = [] then Some None else None))"

definition ddb_update_item :: "string \<Rightarrow> string \<Rightarrow> json option \<Rightarrow> db \<Rightarrow> response \<times> db" where
  "ddb_update_item account region b d =
     (if \<not> ddb_item_decodes [''Key'', ''AttributeUpdates''] b then (ddb_conflict, d)
      else case get_ddb_table account region (ddb_table_of b) d of
        Inl e \<Rightarrow> (write_aws_error Shape_json11 e, d)
      | Inr t \<Rightarrow>
          (let (hv, rv) = item_key t (ddb_attrs ''Key'' b);
               old = (case get_ddb_item account region (ddb_table_of b) hv rv d of
                        Inl e \<Rightarrow> Some [] | Inr i \<Rightarrow> stored_attrs (i_item i))
           in case assign_attrs (update_assignments (ddb_attrs ''Key'' b) (ddb_attrs ''AttributeUpdates'' b)) old of
                None \<Rightarrow> (write_panic, d)
              | Some new \<Rightarrow>
                  (case put_ddb_item account region \<lparr>i_table_name = ddb_table_of b, i_hash_value = hv,
                          i_range_value = rv, i_item = marshal_attr_map new\<rparr> d of
                     (Some e, d') \<Rightarrow> (write_aws_error Shape_json11 e, d')
                   | (None, d') \<Rightarrow> (write_json11 200 (JObj []), d'))))"

definition ddb_scan_or_query :: "string \<Rightarrow> string \<Rightarrow> json option \<Rightarrow> db \<Rightarrow> response" where
  "ddb_scan_or_query account region b d =
     (if \<not> fst (unmarshal (field_string ''TableName'') b) then ddb_conflict
      else case scan_ddb_table account region (ddb_table_of b) d of
        Inl e \<Rightarrow> write_aws_error Shape_json11 e
      | Inr items \<Rightarrow> write_json11 200 (JObj
          [(''Items'', JArr (map i_item items)), (''Count'', JInt (int (length items)))]))"

definition ddb_dispatch :: "env \<Rightarrow> string \<Rightarrow> string \<Rightarrow> string \<Rightarrow> json option \<Rightarrow> db \<Rightarrow> response \<times> db" where
  "ddb_dispatch env account region oper b d =
     (if oper = ''CreateTable'' then ddb_create_table env account region b d
      else if oper = ''DescribeTable'' then (ddb_describe_table account region b d, d)
      else if oper = ''DeleteTable'' then ddb_delete_table account region b d
      else if oper = ''PutItem'' then ddb_put_item account region b d
      else if oper = ''GetItem'' then (ddb_get_item account region b d, d)
      else if oper = ''DeleteItem'' then ddb_delete_item account region b d
      else if oper = ''UpdateItem'' then ddb_update_item account region b d
      else if oper = ''Query'' \<or> oper = ''Scan'' then (ddb_scan_or_query account region b d, d)
      else if oper = ''DescribeContinuousBackups'' then (ddb_describe_continuous_backups account region b d, d)
      else if oper = ''DescribeTimeToLive'' then (ddb_describe_time_to_live account region b d, d)
      else if oper = ''ListTagsOfResource'' then (ddb_list_tags_of_resource account b d, d)
      else if oper = ''TagResource'' then ddb_tag_resource account b d
      else if oper = ''UntagResource'' then ddb_untag_resource account b d
      else (mark_class Not_modelled_404 (write_aws_error Shape_json11 ErrNotFound), d))"

definition handle_dynamodb :: "env \<Rightarrow> string \<Rightarrow> request \<Rightarrow> db \<Rightarrow> response \<times> db" where
  "handle_dynamodb env region r d =
     (case parse_x_amz_target r of
        Inl e \<Rightarrow> (ddb_conflict, d)
      | Inr q \<Rightarrow> ddb_dispatch env (account_id d) region (x_operation q) (x_body q) d)"

text \<open>The dynamodb block of /mock/state.\<close>

definition gather_dynamodb_state :: "string \<Rightarrow> db \<Rightarrow> json" where
  "gather_dynamodb_state account d =
     (let scan = (\<lambda>t. scan_ddb_table account (t_region t) (t_name t) d);
          ts = filter (\<lambda>t. case scan t of Inl _ \<Rightarrow> False | Inr _ \<Rightarrow> True) (list_ddb_tables account [] d)
      in JObj
        [(''tables'', JArr (map (\<lambda>t. JObj [(''name'', JStr (t_name t)), (''hash_key'', JStr (t_hash_key t)),
            (''range_key'', JStr (t_range_key t)), (''billing_mode'', JStr (t_billing_mode t)), (''status'', JStr (t_status t)),
            (''region'', JStr (t_region t)), (''arn'', JStr (t_arn t))]) ts)),
         (''items'', JArr (concat (map (\<lambda>t. case scan t of Inl _ \<Rightarrow> [] | Inr is \<Rightarrow> map (\<lambda>i. JObj
            [(''table_name'', JStr (t_name t)), (''region'', JStr (t_region t)), (''hash_value'', JStr (i_hash_value i)),
             (''range_value'', JStr (i_range_value i)), (''item'', i_item i)]) is) ts)))])"

section \<open>What the operations keep\<close>

text \<open>A table's ARN is that of its name, and every item row belongs to a stored table.\<close>

definition table_row_wf :: "ddb_table_row \<Rightarrow> bool" where
  "table_row_wf r \<longleftrightarrow>
     t_arn (tr_table r) = dynamodb_table_arn (t_region (tr_table r)) (tr_account r) (t_name (tr_table r)) \<and>
     t_hash_key (tr_table r) \<noteq> [] \<and> t_name (tr_table r) \<noteq> []"

definition item_owned :: "db \<Rightarrow> ddb_item_row \<Rightarrow> bool" where
  "item_owned d r \<longleftrightarrow> (ir_account r, ir_region r, i_table_name (ir_item r)) \<in> set (map ddb_table_pk (ddb_tables d))"

definition ddb_wf :: "db \<Rightarrow> bool" where
  "ddb_wf d \<longleftrightarrow> keys_ok d \<and> (\<forall>r\<in>set (ddb_tables d). table_row_wf r) \<and> (\<forall>r\<in>set (ddb_items d). item_owned d r)"

definition ddb_rest :: "db \<Rightarrow> db" where
  "ddb_rest d = d\<lparr>ddb_tables := [], ddb_items := [], resource_tags := []\<rparr>"

definition ddb_keeps :: "db \<Rightarrow> db \<Rightarrow> bool" where
  "ddb_keeps d d' \<longleftrightarrow> ddb_rest d' = ddb_rest d \<and> (ddb_wf d \<longrightarrow> ddb_wf d') \<and> (keys_ok d \<longrightarrow> keys_ok d')"

lemma ddb_keeps_refl [simp]: "ddb_keeps d d"
  by (simp add: ddb_keeps_def)

lemma ddb_keeps_trans: "ddb_keeps d d1 \<Longrightarrow> ddb_keeps d1 d2 \<Longrightarrow> ddb_keeps d d2"
  by (simp add: ddb_keeps_def)

lemma ddb_keeps_tags:
  assumes "pk tag_pk (resource_tags d) \<Longrightarrow> pk tag_pk t"
  shows "ddb_keeps d (d\<lparr>resource_tags := t\<rparr>)"
  using assms by (auto simp: ddb_keeps_def ddb_wf_def keys_ok_def item_owned_def ddb_rest_def)

lemma ddb_keeps_change_tags: "ddb_keeps d (snd (change_resource_tags a tbl arn add remove d))"
  by (auto simp: change_resource_tags_eq intro!: ddb_keeps_tags intro: tbl_intros)

lemma ddb_keeps_drop_tags: "ddb_keeps d (drop_resource_tags a arn d)"
  unfolding drop_resource_tags_def by (rule ddb_keeps_tags) (rule pk_delete)

lemma ddb_keeps_create:
  assumes "t_arn t = dynamodb_table_arn (t_region t) a (t_name t)" "t_hash_key t \<noteq> []" "t_name t \<noteq> []"
  shows "ddb_keeps d (snd (create_ddb_table a t d))"
proof (cases "insert_row ddb_table_pk \<lparr>tr_account = a, tr_table = ddb_table_defaults t\<rparr> (ddb_tables d)")
  case (Inr ts)
  let ?r = "\<lparr>tr_account = a, tr_table = ddb_table_defaults t\<rparr>"
  have ts: "ts = ddb_tables d @ [?r]" using Inr by (simp add: insert_row_find split: option.splits)
  have "pk ddb_table_pk (ddb_tables d) \<Longrightarrow> pk ddb_table_pk ts" by (rule pk_insert_row [OF _ Inr])
  moreover have "table_row_wf ?r" using assms by (simp add: table_row_wf_def ddb_table_defaults_def)
  ultimately show ?thesis
    using Inr by (auto simp: create_ddb_table_def ddb_keeps_def ddb_wf_def keys_ok_def item_owned_def ddb_rest_def ts)
qed (simp add: create_ddb_table_def)

lemma get_ddb_table_row:
  assumes "get_ddb_table a rg n d = Inr t"
  obtains r where "r \<in> set (ddb_tables d)" "ddb_table_pk r = (a, rg, n)" "tr_table r = t"
proof -
  obtain r where "find (\<lambda>r. ddb_table_pk r = (a, rg, n)) (ddb_tables d) = Some r" "tr_table r = t"
    using assms by (auto simp: get_ddb_table_def split: option.splits)
  then show thesis by (intro that [of r]) (auto simp: find_Some_iff)
qed

lemma of_table_key: "of_table a rg n r \<longleftrightarrow> (ir_account r, ir_region r, i_table_name (ir_item r)) = (a, rg, n)"
  by (auto simp: of_table_def)

lemma ddb_keeps_delete: "ddb_keeps d (snd (delete_ddb_table a rg n d))"
proof (cases "find (\<lambda>r. ddb_table_pk r = (a, rg, n)) (ddb_tables d)")
  case None
  then show ?thesis by (simp add: delete_ddb_table_def)
next
  case (Some r)
  let ?ts = "sql_delete (\<lambda>r. ddb_table_pk r = (a, rg, n)) (ddb_tables d)"
    and ?is = "sql_delete (of_table a rg n) (ddb_items d)"
  let ?d = "d\<lparr>ddb_tables := ?ts, ddb_items := ?is\<rparr>"
  have keys: "set (map ddb_table_pk ?ts) = set (map ddb_table_pk (ddb_tables d)) - {(a, rg, n)}"
    by (auto simp: sql_delete_def)
  have "item_owned ?d r" if "r \<in> set ?is" "item_owned d r" for r
  proof -
    have "\<not> of_table a rg n r" using that(1) by (simp add: sql_delete_def)
    with that(2) show ?thesis unfolding item_owned_def of_table_key by (simp add: keys del: set_map)
  qed
  moreover have "set ?ts \<subseteq> set (ddb_tables d)" "set ?is \<subseteq> set (ddb_items d)" by (auto simp: sql_delete_def)
  moreover have "keys_ok d \<longrightarrow> keys_ok ?d" by (simp add: keys_ok_def pk_delete)
  ultimately have "ddb_keeps d ?d" unfolding ddb_keeps_def ddb_wf_def by (auto simp: ddb_rest_def)
  from ddb_keeps_trans [OF this ddb_keeps_drop_tags] Some show ?thesis by (simp add: delete_ddb_table_def)
qed

lemma ddb_keeps_items:
  assumes "pk ddb_item_pk (ddb_items d) \<Longrightarrow> pk ddb_item_pk t"
    and "\<And>r. r \<in> set t \<Longrightarrow> r \<in> set (ddb_items d) \<or> item_owned d r"
  shows "ddb_keeps d (d\<lparr>ddb_items := t\<rparr>)"
proof -
  have "item_owned (d\<lparr>ddb_items := t\<rparr>) = item_owned d" by (simp add: item_owned_def fun_eq_iff)
  then show ?thesis
    using assms unfolding ddb_keeps_def ddb_wf_def by (auto simp: keys_ok_def ddb_rest_def)
qed

lemma ddb_keeps_put: "ddb_keeps d (snd (put_ddb_item a rg i d))"
proof (cases "get_ddb_table a rg (i_table_name i) d")
  case (Inr t)
  obtain r0 where r0: "r0 \<in> set (ddb_tables d)" "ddb_table_pk r0 = (a, rg, i_table_name i)"
    by (rule get_ddb_table_row [OF Inr])
  let ?r = "\<lparr>ir_account = a, ir_region = rg, ir_item = i\<rparr>"
  have "item_owned d ?r" using imageI [OF r0(1), of ddb_table_pk] r0(2) by (simp add: item_owned_def)
  then have "ddb_keeps d (d\<lparr>ddb_items := sql_replace ddb_item_pk ?r (ddb_items d)\<rparr>)"
    by (intro ddb_keeps_items pk_replace) (auto simp: sql_replace_def)
  with Inr show ?thesis by (simp add: put_ddb_item_def)
qed (simp add: put_ddb_item_def)

lemma ddb_keeps_delete_item: "ddb_keeps d (snd (delete_ddb_item a rg n hv rv d))"
proof -
  have "ddb_keeps d (d\<lparr>ddb_items := sql_delete p (ddb_items d)\<rparr>)" for p
    by (rule ddb_keeps_items) (auto simp: sql_delete_def pk_def distinct_map_filter)
  then show ?thesis by (simp add: delete_ddb_item_def Let_def)
qed

text \<open>So does every request.\<close>

lemma ddb_keeps_tag_created:
  assumes "\<And>d. ddb_keeps d (snd (undo d))"
  shows "ddb_keeps d (snd (tag_created a tbl arn tags undo d))"
proof (cases "tag_resource a tbl arn tags d")
  case (Pair e d1)
  have "ddb_keeps d d1" using ddb_keeps_change_tags [of d a tbl arn tags "[]"] Pair by (simp add: tag_resource_def)
  with assms [of d1] show ?thesis
    by (auto simp: tag_created_def Pair split: option.split prod.split dest: ddb_keeps_trans)
qed

lemma ddb_new_table_simps [simp]:
  "t_name (ddb_new_table env a rg b) = ddb_table_of b" "t_region (ddb_new_table env a rg b) = rg"
  "t_arn (ddb_new_table env a rg b) = dynamodb_table_arn rg a (ddb_table_of b)"
  by (simp_all add: ddb_new_table_def Let_def ddb_table_of_def split: prod.split)

lemma ddb_create_table_keeps: "ddb_keeps d (snd (ddb_create_table env a rg b d))"
proof -
  define t where "t = ddb_new_table env a rg b"
  have 1: "ddb_keeps d (snd (create_ddb_table a t d))" if "t_name t \<noteq> []" "t_hash_key t \<noteq> []"
    by (rule ddb_keeps_create) (use that in \<open>simp_all add: t_def\<close>)
  have 2: "ddb_keeps d (snd (tag_created a tbl arn tags (delete_ddb_table a rg n) (snd (create_ddb_table a t d))))"
    if "t_name t \<noteq> []" "t_hash_key t \<noteq> []" for tbl arn tags n
    by (rule ddb_keeps_trans [OF 1 [OF that] ddb_keeps_tag_created]) (rule ddb_keeps_delete)
  show ?thesis
    unfolding ddb_create_table_def Let_def t_def [symmetric]
    using 1 2 by (simp add: split_beta split: option.split)
qed

lemma ddb_keeps_case:
  "ddb_keeps d (snd x) \<Longrightarrow> ddb_keeps d (snd (case x of (Some e, d') \<Rightarrow> (f e, d') | (None, d') \<Rightarrow> (g, d')))"
  by (simp add: split_beta split: option.split)

lemma ddb_op_keeps:
  "ddb_keeps d (snd (ddb_delete_table a rg b d))" "ddb_keeps d (snd (ddb_put_item a rg b d))"
  "ddb_keeps d (snd (ddb_delete_item a rg b d))" "ddb_keeps d (snd (ddb_update_item a rg b d))"
  "ddb_keeps d (snd (ddb_tag_resource a b d))" "ddb_keeps d (snd (ddb_untag_resource a b d))"
proof -
  show "ddb_keeps d (snd (ddb_delete_table a rg b d))"
    unfolding ddb_delete_table_def Let_def
    by (cases "get_ddb_table a rg (snd (unmarshal (field_string ''TableName'') b)) d")
      (simp_all add: ddb_keeps_case ddb_keeps_delete)
  show "ddb_keeps d (snd (ddb_put_item a rg b d))"
    by (simp add: ddb_put_item_def split_beta Let_def ddb_keeps_put split: sum.split option.split)
  show "ddb_keeps d (snd (ddb_delete_item a rg b d))"
    by (auto simp: ddb_delete_item_def split_beta Let_def intro!: ddb_keeps_delete_item split: sum.split)
  show "ddb_keeps d (snd (ddb_update_item a rg b d))"
    by (simp add: ddb_update_item_def split_beta Let_def ddb_keeps_put split: sum.split option.split)
  show "ddb_keeps d (snd (ddb_tag_resource a b d))" "ddb_keeps d (snd (ddb_untag_resource a b d))"
    by (auto simp: ddb_tag_resource_def ddb_untag_resource_def ddb_tag_answer_def tag_resource_def untag_resource_def
        intro!: ddb_keeps_case ddb_keeps_change_tags)
qed

lemma ddb_if_keeps: "ddb_keeps d (snd x) \<Longrightarrow> ddb_keeps d (snd y) \<Longrightarrow> ddb_keeps d (snd (if c then x else y))"
  by simp

lemma ddb_read_keeps: "ddb_keeps d (snd (r, d))"
  by simp

lemma ddb_dispatch_keeps: "ddb_keeps d (snd (ddb_dispatch env a rg oper b d))"
  unfolding ddb_dispatch_def by (intro ddb_if_keeps ddb_read_keeps ddb_create_table_keeps ddb_op_keeps)

lemma handle_dynamodb_keeps: "ddb_keeps d (snd (handle_dynamodb env rg r d))"
  unfolding handle_dynamodb_def by (cases "parse_x_amz_target r") (simp_all add: ddb_dispatch_keeps)

lemma account_id_ddb_keeps: "ddb_keeps d d' \<Longrightarrow> account_id d' = account_id d"
  by (auto simp: ddb_keeps_def ddb_rest_def account_id_def get_identity_def dest!: arg_cong [where f = identity_tbl])

lemma account_id_handle_dynamodb [simp]: "account_id (snd (handle_dynamodb env rg r d)) = account_id d"
  by (rule account_id_ddb_keeps) (rule handle_dynamodb_keeps)

lemma keys_ok_handle_dynamodb: "keys_ok d \<Longrightarrow> keys_ok (snd (handle_dynamodb env rg r d))"
  using handle_dynamodb_keeps [of d env rg r] by (simp add: ddb_keeps_def)

section \<open>Items as a store\<close>

text \<open>An item's row is found by account, region, table and key values, and holds one JSON value.\<close>

type_synonym item_id = "string \<times> string \<times> string \<times> string \<times> string"

definition item_at :: "item_id \<Rightarrow> ddb_item_row list \<Rightarrow> json option" where
  "item_at k t = map_option (\<lambda>r. i_item (ir_item r)) (find (\<lambda>r. ddb_item_pk r = k) t)"

fun item_row :: "item_id \<Rightarrow> json \<Rightarrow> ddb_item_row" where
  "item_row (a, rg, n, hv, rv) j = \<lparr>ir_account = a, ir_region = rg,
     ir_item = \<lparr>i_table_name = n, i_hash_value = hv, i_range_value = rv, i_item = j\<rparr>\<rparr>"

definition item_put :: "item_id \<Rightarrow> json \<Rightarrow> ddb_item_row list \<Rightarrow> ddb_item_row list" where
  "item_put k j t = sql_replace ddb_item_pk (item_row k j) t"

definition item_rem :: "item_id \<Rightarrow> ddb_item_row list \<Rightarrow> ddb_item_row list" where
  "item_rem k t = sql_delete (\<lambda>r. ddb_item_pk r = k) t"

lemma item_row_pk [simp]: "ddb_item_pk (item_row k j) = k" "i_item (ir_item (item_row k j)) = j"
  by (cases k, simp add: ddb_item_pk_def)+

interpretation ddb_store: store item_at item_put item_rem "pk ddb_item_pk"
  by unfold_locales
    (auto simp: item_at_def item_put_def item_rem_def find_sql_replace find_sql_delete_key intro: tbl_intros)

lemma put_ddb_item_store:
  "get_ddb_table a rg (i_table_name i) d = Inr t \<Longrightarrow>
     put_ddb_item a rg i d = (None, d\<lparr>ddb_items := item_put (a, rg, i_table_name i, i_hash_value i, i_range_value i) (i_item i) (ddb_items d)\<rparr>)"
  by (cases i) (simp add: put_ddb_item_def item_put_def)

lemma get_ddb_item_store:
  "get_ddb_item a rg n hv rv d = (case item_at (a, rg, n, hv, rv) (ddb_items d) of
     None \<Rightarrow> Inl ErrNotFound
   | Some j \<Rightarrow> Inr \<lparr>i_table_name = n, i_hash_value = hv, i_range_value = rv, i_item = j\<rparr>)"
  by (simp add: get_ddb_item_def item_at_def split: option.split)


section \<open>Calls by operation\<close>

definition ddb_call :: "string \<Rightarrow> json option \<Rightarrow> request" where
  "ddb_call oper b = amz_call ''DynamoDB_20120810'' oper b"

lemma handle_ddb_call: "handle_dynamodb env rg (ddb_call oper b) d = ddb_dispatch env (account_id d) rg oper b d"
proof -
  have "parse_x_amz_target (ddb_call oper b) = Inr \<lparr>x_service = ''DynamoDB_20120810'', x_operation = oper, x_body = b\<rparr>"
    unfolding ddb_call_def by (rule parse_amz_call) simp
  then show ?thesis by (simp add: handle_dynamodb_def)
qed

lemma ddb_dispatch_simps:
  "ddb_dispatch env a rg ''CreateTable'' b d = ddb_create_table env a rg b d"
  "ddb_dispatch env a rg ''DeleteTable'' b d = ddb_delete_table a rg b d"
  "ddb_dispatch env a rg ''PutItem'' b d = ddb_put_item a rg b d"
  "ddb_dispatch env a rg ''GetItem'' b d = (ddb_get_item a rg b d, d)"
  "ddb_dispatch env a rg ''DeleteItem'' b d = ddb_delete_item a rg b d"
  "ddb_dispatch env a rg ''UpdateItem'' b d = ddb_update_item a rg b d"
  "ddb_dispatch env a rg ''Scan'' b d = (ddb_scan_or_query a rg b d, d)"
  by (simp_all add: ddb_dispatch_def)

definition ddb_run :: "(env \<times> string \<times> request) list \<Rightarrow> db \<Rightarrow> db" where
  "ddb_run qs d = fold (\<lambda>(env, rg, r) d. snd (handle_dynamodb env rg r d)) qs d"

lemma ddb_run_keeps: "ddb_keeps d (ddb_run qs d)"
proof (induction qs arbitrary: d)
  case (Cons q qs)
  obtain env rg r where q: "q = (env, rg, r)" by (cases q)
  show ?case
    using ddb_keeps_trans [OF handle_dynamodb_keeps [of d env rg r] Cons.IH] by (simp add: ddb_run_def q)
qed (simp add: ddb_run_def)

lemma ddb_items_frame [simp]:
  "get_ddb_table a rg n (d\<lparr>ddb_items := t\<rparr>) = get_ddb_table a rg n d"
  "account_id (d\<lparr>ddb_items := t\<rparr>) = account_id d"
  by (simp_all add: get_ddb_table_def account_id_def get_identity_def)

text \<open>The item operations in terms of the store.\<close>

definition item_ref :: "string \<Rightarrow> string \<Rightarrow> string \<Rightarrow> ddb_table \<Rightarrow> attr_map \<Rightarrow> item_id" where
  "item_ref a rg n t am = (a, rg, n, item_key t am)"

lemma ddb_put_item_store:
  assumes "get_ddb_table a rg (ddb_table_of b) d = Inr t" and "ddb_item_decodes [''Item''] b"
  shows "ddb_put_item a rg b d = (write_json11 200 (JObj []), d\<lparr>ddb_items :=
    item_put (item_ref a rg (ddb_table_of b) t (ddb_attrs ''Item'' b)) (marshal_attr_map (ddb_attrs ''Item'' b)) (ddb_items d)\<rparr>)"
  using assms by (simp add: ddb_put_item_def Let_def split_beta put_ddb_item_store [where t = t] item_ref_def)

lemma ddb_get_item_store:
  assumes "get_ddb_table a rg (ddb_table_of b) d = Inr t" and "ddb_item_decodes [''Key''] b"
  shows "ddb_get_item a rg b d = write_json11 200 (JObj
    (case item_at (item_ref a rg (ddb_table_of b) t (ddb_attrs ''Key'' b)) (ddb_items d) of
       None \<Rightarrow> [] | Some j \<Rightarrow> [(''Item'', j)]))"
  using assms by (simp add: ddb_get_item_def Let_def split_beta get_ddb_item_store item_ref_def split: option.split)


lemma ddb_update_item_store:
  assumes "get_ddb_table a rg (ddb_table_of b) d = Inr t" and "ddb_item_decodes [''Key'', ''AttributeUpdates''] b"
  shows "ddb_update_item a rg b d =
    (let k = item_ref a rg (ddb_table_of b) t (ddb_attrs ''Key'' b)
     in case assign_attrs (update_assignments (ddb_attrs ''Key'' b) (ddb_attrs ''AttributeUpdates'' b))
            (case item_at k (ddb_items d) of None \<Rightarrow> Some [] | Some j \<Rightarrow> stored_attrs j) of
          None \<Rightarrow> (write_panic, d)
        | Some new \<Rightarrow> (write_json11 200 (JObj []), d\<lparr>ddb_items := item_put k (marshal_attr_map new) (ddb_items d)\<rparr>))"
  using assms by (auto simp: ddb_update_item_def Let_def split_beta get_ddb_item_store put_ddb_item_store [where t = t]
      item_ref_def split: option.split)

section \<open>Properties\<close>

text \<open>C12. Whatever DynamoDB requests arrive, in whatever regions, every table keeps a name, a hash key and
  the ARN of its name, and every stored item belongs to a stored table.\<close>

theorem ddb_invariant:
  assumes "ddb_wf d"
  shows "ddb_wf (ddb_run qs d)"
  using ddb_run_keeps [of d qs] assms by (simp add: ddb_keeps_def)


text \<open>DeleteTable takes the table's items and tags with it: the table is not found, no tag of its ARN is
  left, and a table created again under the name scans as empty.\<close>

theorem ddb_delete_table_cascades:
  assumes "get_ddb_table (account_id d) rg n d = Inr t" and "ddb_wf d" and "ddb_table_of b = n"
    and "ddb_table_of c = n" "ddb_create_decodes c" "t_hash_key (ddb_new_table env' (account_id d) rg c) \<noteq> []"
      "snd (unmarshal (field_pairs ''Key'' ''Value'' ''Tags'') c) = []"
    and "ddb_table_of s = n" "fst (unmarshal (field_string ''TableName'') s)"
  shows "let (deleted, d1) = handle_dynamodb env rg (ddb_call ''DeleteTable'' b) d;
             (created, d2) = handle_dynamodb env' rg (ddb_call ''CreateTable'' c) d1
    in r_status deleted = 200 \<and> get_ddb_table (account_id d) rg n d1 = Inl ErrNotFound \<and>
       tags_of (account_id d) (t_arn t) (resource_tags d1) = [] \<and> r_status created = 200 \<and>
       fst (handle_dynamodb env'' rg (ddb_call ''Scan'' s) d2) =
         write_json11 200 (JObj [(''Items'', JArr []), (''Count'', JInt 0)])"
proof -
  let ?a = "account_id d" and ?nt = "ddb_new_table env' (account_id d) rg c"
  obtain r where r: "find (\<lambda>r. ddb_table_pk r = (?a, rg, n)) (ddb_tables d) = Some r" "tr_table r = t"
    using assms(1) by (auto simp: get_ddb_table_def split: option.splits)
  define d1 where "d1 = drop_resource_tags ?a (t_arn t)
      (d\<lparr>ddb_tables := sql_delete (\<lambda>r. ddb_table_pk r = (?a, rg, n)) (ddb_tables d),
         ddb_items := sql_delete (of_table ?a rg n) (ddb_items d)\<rparr>)"
  have acc: "account_id d1 = ?a" by (simp add: d1_def account_id_def get_identity_def)
  have b: "snd (unmarshal (field_string ''TableName'') b) = n" using assms(3) by (simp add: ddb_table_of_def)
  have del: "handle_dynamodb env rg (ddb_call ''DeleteTable'' b) d =
      (write_json11 200 (JObj [(''TableDescription'', ddb_table_to_description t)]), d1)"
    using r assms(1) by (simp add: handle_ddb_call ddb_dispatch_simps ddb_delete_table_def b delete_ddb_table_def d1_def)
  have none: "find (\<lambda>r. ddb_table_pk r = (?a, rg, n)) (ddb_tables d1) = None"
    by (simp add: d1_def find_sql_delete_key)
  have gone: "get_ddb_table ?a rg n d1 = Inl ErrNotFound" by (simp add: get_ddb_table_def none)
  have "t_name t = n" "table_row_wf r"
    using r assms(2) by (auto simp: ddb_wf_def find_Some_iff ddb_table_pk_def)
  then have n: "n \<noteq> []" using r(2) by (auto simp: table_row_wf_def)
  let ?r = "\<lparr>tr_account = ?a, tr_table = ddb_table_defaults ?nt\<rparr>"
  have pk: "ddb_table_pk ?r = (?a, rg, n)" by (simp add: ddb_table_pk_def ddb_table_defaults_def assms(4))
  define d2 where "d2 = d1\<lparr>ddb_tables := ddb_tables d1 @ [?r]\<rparr>"
  have cre: "handle_dynamodb env' rg (ddb_call ''CreateTable'' c) d1 =
      (write_json11 200 (JObj [(''TableDescription'', ddb_table_to_description ?nt)]), d2)"
    using assms(4-7) by (simp add: handle_ddb_call ddb_dispatch_simps ddb_create_table_def acc Let_def n create_ddb_table_def
        insert_row_find pk none tag_created_def d2_def)
  have items: "filter (of_table ?a rg n) (ddb_items d2) = []"
    by (auto simp: d2_def d1_def sql_delete_def filter_empty_conv)
  have "get_ddb_table ?a rg n d2 = Inr (ddb_table_defaults ?nt)"
    by (simp add: get_ddb_table_def d2_def find_snoc none pk)
  moreover have "account_id d2 = ?a" using acc by (simp add: d2_def account_id_def get_identity_def)
  ultimately have "fst (handle_dynamodb env'' rg (ddb_call ''Scan'' s) d2) =
      write_json11 200 (JObj [(''Items'', JArr []), (''Count'', JInt 0)])"
    using assms(8,9) by (simp add: handle_ddb_call ddb_dispatch_simps ddb_scan_or_query_def scan_ddb_table_def items)
  moreover have "tags_of ?a (t_arn t) (resource_tags d1) = []" by (simp add: d1_def)
  ultimately show ?thesis by (simp add: del cre gone)
qed

lemma gm_wf_dec_attrs: "snd (dec_nilable (dec_map z dec) j) = Some v \<Longrightarrow> gm_wf (or_zero [] v)"
  by (cases j) (auto simp: dec_nilable_def dec_map_def or_zero_def)

lemma gm_wf_ddb_attrs: "gm_wf (or_zero [] (ddb_attrs f b))"
proof -
  have "gm_wf (or_zero [] (snd (field_attr_map f j)))" for j
    unfolding field_attr_map_def field_nilable_def
    by (rule dec_members_invariant) (auto simp: or_zero_def dest: gm_wf_dec_attrs)
  then show ?thesis
    by (auto simp: ddb_attrs_def unmarshal_def dec_struct_def split: option.split prod.split) (metis snd_conv)
qed

text \<open>What an update does to one attribute.\<close>

definition updated_attr :: "attr_map \<Rightarrow> string \<Rightarrow> attr_value option" where
  "updated_attr updates k = (case map_of (or_zero [] updates) k of None \<Rightarrow> None | Some p \<Rightarrow> update_value p)"

lemma map_of_updates:
  assumes "gm_wf ups"
  shows "map_of (rev (concat (map (\<lambda>(k, p). case update_value p of None \<Rightarrow> [] | Some av \<Rightarrow> [(k, av)]) ups))) k =
    (case map_of ups k of None \<Rightarrow> None | Some p \<Rightarrow> update_value p)"
  using assms
proof (induction ups)
  case (Cons kp ups)
  obtain k' p where kp: "kp = (k', p)" by (cases kp)
  have wf: "gm_wf ups" and new: "k' \<notin> fst ` set ups" using Cons.prems by (auto simp: gm_wf_def kp)
  from new have "map_of ups k' = None" by (simp add: map_of_eq_None_iff)
  with Cons.IH [OF wf] show ?case by (auto simp: kp map_add_def split: option.split)
qed simp

lemma map_of_assigned:
  "map_of (gm_set_all (update_assignments (ddb_attrs f b) (ddb_attrs g b')) m) k =
     (case updated_attr (ddb_attrs g b') k of
        Some av \<Rightarrow> Some av
      | None \<Rightarrow> (case map_of (or_zero [] (ddb_attrs f b)) k of Some av \<Rightarrow> Some av | None \<Rightarrow> map_of m k))"
  by (simp add: update_assignments_def map_of_gm_set_all map_of_updates gm_wf_ddb_attrs updated_attr_def
      map_of_rev_gm_wf map_add_def split: option.split)

text \<open>UpdateItem merges: GetItem under the same key then answers an item in which an attribute with an
  update has the update's Value, an attribute of the key its key value, and any other what was stored.\<close>

theorem ddb_update_merges:
  assumes "get_ddb_table (account_id d) rg n d = Inr t" and "keys_ok d"
    and "ddb_table_of b = n" "ddb_item_decodes [''Key'', ''AttributeUpdates''] b"
    and "(case item_at (item_ref (account_id d) rg n t (ddb_attrs ''Key'' b)) (ddb_items d) of
            None \<Rightarrow> Some [] | Some j \<Rightarrow> stored_attrs j) = Some old"
  shows "let (resp, d') = handle_dynamodb env rg (ddb_call ''UpdateItem'' b) d
    in r_status resp = 200 \<and>
       (\<exists>new. fst (handle_dynamodb env' rg (ddb_call ''GetItem'' b) d') =
           write_json11 200 (JObj [(''Item'', marshal_attr_map (Some new))]) \<and>
         (\<forall>k. map_of new k = (case updated_attr (ddb_attrs ''AttributeUpdates'' b) k of
            Some av \<Rightarrow> Some av
          | None \<Rightarrow> (case map_of (or_zero [] (ddb_attrs ''Key'' b)) k of Some av \<Rightarrow> Some av | None \<Rightarrow> map_of old k))))"
proof -
  let ?a = "account_id d" and ?i = "item_ref (account_id d) rg n t (ddb_attrs ''Key'' b)"
  let ?new = "gm_set_all (update_assignments (ddb_attrs ''Key'' b) (ddb_attrs ''AttributeUpdates'' b)) old"
  let ?d = "d\<lparr>ddb_items := item_put ?i (marshal_attr_map (Some ?new)) (ddb_items d)\<rparr>"
  have pk: "pk ddb_item_pk (ddb_items d)" using assms(2) by (simp add: keys_ok_def)
  have upd: "handle_dynamodb env rg (ddb_call ''UpdateItem'' b) d = (write_json11 200 (JObj []), ?d)"
    using ddb_update_item_store [of ?a rg b d t] assms(1,3-5)
    by (simp add: handle_ddb_call ddb_dispatch_simps assign_attrs_def)
  have "ddb_item_decodes [''Key''] b" using assms(4) by (simp add: ddb_item_decodes_def)
  then have "fst (handle_dynamodb env' rg (ddb_call ''GetItem'' b) ?d) =
      write_json11 200 (JObj [(''Item'', marshal_attr_map (Some ?new))])"
    using ddb_get_item_store [of ?a rg b ?d t] assms(1,3)
    by (simp add: handle_ddb_call ddb_dispatch_simps ddb_store.look_put [OF pk])
  then show ?thesis unfolding upd by (auto simp: map_of_assigned)
qed

text \<open>PutItem without an Item is accepted and stores null; UpdateItem of that item then panics: it answers
  500 with no body, and the item stays.\<close>

theorem ddb_null_item_panics:
  assumes "get_ddb_table (account_id d) rg n d = Inr t" and "keys_ok d"
    and "ddb_table_of b = n" "ddb_item_decodes [''Item''] b" "ddb_attrs ''Item'' b = None"
    and "ddb_table_of u = n" "ddb_item_decodes [''Key'', ''AttributeUpdates''] u"
    and "or_zero [] (ddb_attrs ''Key'' u) \<noteq> []" "item_key t (ddb_attrs ''Key'' u) = ([], [])"
  shows "let (put, d') = handle_dynamodb env rg (ddb_call ''PutItem'' b) d
    in r_status put = 200 \<and> handle_dynamodb env' rg (ddb_call ''UpdateItem'' u) d' = (write_panic, d')"
proof -
  let ?a = "account_id d" and ?i = "(account_id d, rg, n, [], [])"
  let ?d = "d\<lparr>ddb_items := item_put ?i JNull (ddb_items d)\<rparr>"
  have pk: "pk ddb_item_pk (ddb_items d)" using assms(2) by (simp add: keys_ok_def)
  have "item_key t None = ([], [])" by (simp add: item_key_def attr_of_def extract_key_value_def)
  then have put: "handle_dynamodb env rg (ddb_call ''PutItem'' b) d = (write_json11 200 (JObj []), ?d)"
    using ddb_put_item_store [of ?a rg b d t] assms(1,3-5)
    by (simp add: handle_ddb_call ddb_dispatch_simps item_ref_def marshal_attr_map_def)
  have "stored_attrs JNull = None" by (simp add: stored_attrs_def dec_attr_map_def dec_nilable_def or_zero_def)
  moreover have "update_assignments (ddb_attrs ''Key'' u) (ddb_attrs ''AttributeUpdates'' u) \<noteq> []"
    using assms(8) by (simp add: update_assignments_def)
  ultimately have "handle_dynamodb env' rg (ddb_call ''UpdateItem'' u) ?d = (write_panic, ?d)"
    using ddb_update_item_store [of ?a rg u ?d t] assms(1,6,7,9)
    by (simp add: handle_ddb_call ddb_dispatch_simps item_ref_def ddb_store.look_put [OF pk] assign_attrs_def Let_def)
  then show ?thesis by (simp add: put)
qed

section \<open>Examples\<close>

definition sample_ddb_table :: ddb_table where
  "sample_ddb_table = \<lparr>t_name = ''users'', t_hash_key = ''id'', t_range_key = [], t_attributes = [\<lparr>a_name = ''id'', a_type = ''S''\<rparr>],
     t_billing_mode = ''PAY_PER_REQUEST'', t_status = ''ACTIVE'', t_region = ''us-east-1'',
     t_arn = dynamodb_table_arn ''us-east-1'' fake_account_id ''users'', t_created_at = ''1970-01-01T00:00:00Z''\<rparr>"

definition sample_ddb_db :: db where
  "sample_ddb_db = empty_db\<lparr>ddb_tables := [\<lparr>tr_account = fake_account_id, tr_table = sample_ddb_table\<rparr>]\<rparr>"

definition ddb_sample_env :: env where
  "ddb_sample_env = \<lparr>e_now = 0, e_rand = []\<rparr>"

definition attr_s :: "string \<Rightarrow> json" where
  "attr_s s = JObj [(''S'', JStr s)]"

definition sample_item_body :: "json option" where
  "sample_item_body = Some (JObj [(''TableName'', JStr ''users''),
     (''Item'', JObj [(''id'', attr_s ''u1''), (''name'', attr_s ''ann'')])])"

definition sample_key_body :: "json option" where
  "sample_key_body = Some (JObj [(''TableName'', JStr ''users''), (''Key'', JObj [(''id'', attr_s ''u1'')]),
     (''AttributeUpdates'', JObj [(''name'', JObj [(''Action'', JStr ''PUT''), (''Value'', attr_s ''bob'')])])])"

definition sample_create_body :: "json option" where
  "sample_create_body = Some (JObj [(''TableName'', JStr ''users''),
     (''KeySchema'', JArr [JObj [(''AttributeName'', JStr ''id''), (''KeyType'', JStr ''HASH'')]])])"

definition sample_empty_key_body :: "json option" where
  "sample_empty_key_body = Some (JObj [(''TableName'', JStr ''users''), (''Key'', JObj [(''id'', attr_s [])])])"

lemma sample_ddb_bodies:
  "ddb_table_of sample_item_body = ''users''" "ddb_item_decodes [''Item''] sample_item_body"
  "ddb_table_of sample_key_body = ''users''" "ddb_item_decodes [''Key''] sample_key_body"
  "ddb_item_decodes [''Key'', ''AttributeUpdates''] sample_key_body"
  "item_key sample_ddb_table (ddb_attrs ''Key'' sample_key_body) = item_key sample_ddb_table (ddb_attrs ''Item'' sample_item_body)"
  "ddb_table_of sample_create_body = ''users''" "ddb_create_decodes sample_create_body"
  "t_hash_key (ddb_new_table ddb_sample_env a rg sample_create_body) \<noteq> []"
  "snd (unmarshal (field_pairs ''Key'' ''Value'' ''Tags'') sample_create_body) = []"
  "fst (unmarshal (field_string ''TableName'') sample_create_body)"
  "ddb_item_decodes [''Item''] sample_create_body" "ddb_attrs ''Item'' sample_create_body = None"
  "ddb_table_of sample_empty_key_body = ''users''" "ddb_item_decodes [''Key'', ''AttributeUpdates''] sample_empty_key_body"
  "or_zero [] (ddb_attrs ''Key'' sample_empty_key_body) \<noteq> []"
  "item_key sample_ddb_table (ddb_attrs ''Key'' sample_empty_key_body) = ([], [])"
  by code_simp+

lemma sample_ddb_lookup:
  "account_id sample_ddb_db = fake_account_id"
  "get_ddb_table (account_id sample_ddb_db) ''us-east-1'' ''users'' sample_ddb_db = Inr sample_ddb_table"
  "ddb_items sample_ddb_db = []"
  by (simp_all add: account_id_def get_identity_def sample_ddb_db_def empty_db_def get_ddb_table_def ddb_table_pk_def
      sample_ddb_table_def)

lemma sample_ddb_wf: "keys_ok sample_ddb_db" "ddb_wf sample_ddb_db"
  by (simp_all add: ddb_wf_def keys_ok_def sample_ddb_db_def empty_db_def pk_def table_row_wf_def sample_ddb_table_def)

theorem ddb_invariant_witness:
  "ddb_wf (ddb_run [(ddb_sample_env, ''us-east-1'', ddb_call ''PutItem'' sample_item_body)] sample_ddb_db)"
  by (rule ddb_invariant [OF sample_ddb_wf(2)])


theorem ddb_delete_table_cascades_witness:
  "r_status (fst (handle_dynamodb ddb_sample_env ''us-east-1'' (ddb_call ''DeleteTable'' sample_create_body) sample_ddb_db)) = 200"
  using ddb_delete_table_cascades [OF sample_ddb_lookup(2) sample_ddb_wf(2) sample_ddb_bodies(7,7-10,7,11), of ddb_sample_env]
  by (simp add: split_beta Let_def)

theorem ddb_update_merges_witness:
  "\<exists>new. fst (handle_dynamodb ddb_sample_env ''us-east-1'' (ddb_call ''GetItem'' sample_key_body)
     (snd (handle_dynamodb ddb_sample_env ''us-east-1'' (ddb_call ''UpdateItem'' sample_key_body) sample_ddb_db))) =
     write_json11 200 (JObj [(''Item'', marshal_attr_map (Some new))]) \<and> map_of new ''name'' = Some (Some [(''S'', JStr ''bob'')])"
proof -
  have old: "(case item_at (item_ref (account_id sample_ddb_db) ''us-east-1'' ''users'' sample_ddb_table
       (ddb_attrs ''Key'' sample_key_body)) (ddb_items sample_ddb_db) of None \<Rightarrow> Some [] | Some j \<Rightarrow> stored_attrs j) = Some []"
    by (simp add: sample_ddb_lookup item_at_def)
  have u: "updated_attr (ddb_attrs ''AttributeUpdates'' sample_key_body) ''name'' = Some (Some [(''S'', JStr ''bob'')])"
    by code_simp
  from ddb_update_merges [OF sample_ddb_lookup(2) sample_ddb_wf(1) sample_ddb_bodies(3,5) old, of ddb_sample_env ddb_sample_env]
  obtain new where new: "fst (handle_dynamodb ddb_sample_env ''us-east-1'' (ddb_call ''GetItem'' sample_key_body)
     (snd (handle_dynamodb ddb_sample_env ''us-east-1'' (ddb_call ''UpdateItem'' sample_key_body) sample_ddb_db))) =
     write_json11 200 (JObj [(''Item'', marshal_attr_map (Some new))])"
    "\<forall>k. map_of new k = (case updated_attr (ddb_attrs ''AttributeUpdates'' sample_key_body) k of Some av \<Rightarrow> Some av
       | None \<Rightarrow> (case map_of (or_zero [] (ddb_attrs ''Key'' sample_key_body)) k of Some av \<Rightarrow> Some av | None \<Rightarrow> map_of [] k))"
    by (auto simp: split_beta Let_def)
  from new(2) u have "map_of new ''name'' = Some (Some [(''S'', JStr ''bob'')])" by simp
  with new(1) show ?thesis by blast
qed

theorem ddb_null_item_panics_witness:
  "r_status (fst (handle_dynamodb ddb_sample_env ''us-east-1'' (ddb_call ''UpdateItem'' sample_empty_key_body)
     (snd (handle_dynamodb ddb_sample_env ''us-east-1'' (ddb_call ''PutItem'' sample_create_body) sample_ddb_db)))) = 500"
  using ddb_null_item_panics [OF sample_ddb_lookup(2) sample_ddb_wf(1) sample_ddb_bodies(7,12-17), of ddb_sample_env ddb_sample_env]
  by (simp add: split_beta Let_def write_panic_def)

end
