(* ===== verification/Rest.thy ===== *)
theory Rest
  imports Awsproto
begin

text \<open>
  XML documents and REST requests: package encoding/xml as the XML services use it, and what the REST
  handlers (S3, Route 53, EKS) read of a request. A document is its element tree without attributes,
  comments or processing instructions; the field tags of the code name no namespace, so a decoder
  matches local names only. None is a body that is not well formed.
\<close>

section \<open>Text of numbers\<close>

definition is_space :: "char \<Rightarrow> bool" where
  "is_space c \<longleftrightarrow> c \<in> {CHR 0x09, CHR 0x0A, CHR 0x0B, CHR 0x0C, CHR 0x0D, CHR '' ''}"

text \<open>strings.TrimSpace on ASCII text.\<close>

definition trim_space :: "string \<Rightarrow> string" where
  "trim_space s = rev (dropWhile is_space (rev (dropWhile is_space s)))"

definition digit_value :: "char \<Rightarrow> int option" where
  "digit_value c = map_of (zip ''0123456789'' [0, 1, 2, 3, 4, 5, 6, 7, 8, 9]) c"

fun parse_digits :: "int \<Rightarrow> string \<Rightarrow> int option" where
  "parse_digits acc [] = Some acc"
| "parse_digits acc (c # s) = (case digit_value c of None \<Rightarrow> None | Some d \<Rightarrow> parse_digits (10 * acc + d) s)"

text \<open>
  strconv.ParseInt in base 10 and strconv.Atoi; None for text that is no 64-bit integer. Atoi's value beside
  its error is 0 for text that is no number and the nearest int for one out of range.
\<close>

definition signed_digits :: "string \<Rightarrow> int option" where
  "signed_digits s =
     (let (neg, ds) = (case s of c # t \<Rightarrow> if c = CHR ''-'' then (True, t) else if c = CHR ''+'' then (False, t) else (False, s)
                               | [] \<Rightarrow> (False, []))
      in if ds = [] then None else map_option (\<lambda>n. if neg then - n else n) (parse_digits 0 ds))"

definition parse_int :: "string \<Rightarrow> int option" where
  "parse_int s = (case signed_digits s of None \<Rightarrow> None | Some v \<Rightarrow> (if int64_range v then Some v else None))"

definition atoi_value :: "string \<Rightarrow> int" where
  "atoi_value s = (case signed_digits s of None \<Rightarrow> 0 | Some v \<Rightarrow> max (- (2 ^ 63)) (min (2 ^ 63 - 1) v))"

text \<open>strconv.ParseBool.\<close>

definition parse_bool :: "string \<Rightarrow> bool option" where
  "parse_bool s =
     (if s \<in> {''1'', ''t'', ''T'', ''TRUE'', ''true'', ''True''} then Some True
      else if s \<in> {''0'', ''f'', ''F'', ''FALSE'', ''false'', ''False''} then Some False else None)"

text \<open>strings.ToUpper on ASCII letters.\<close>

definition upper_char :: "char \<Rightarrow> char" where
  "upper_char c =
     (case map_of (zip ''abcdefghijklmnopqrstuvwxyz'' ''ABCDEFGHIJKLMNOPQRSTUVWXYZ'') c of
        None \<Rightarrow> c | Some d \<Rightarrow> d)"

definition upper :: "string \<Rightarrow> string" where
  "upper s = map upper_char s"

section \<open>xml.Unmarshal\<close>

fun xml_kids :: "xml \<Rightarrow> xml list" where
  "xml_kids (Elem n xs) = xs"
| "xml_kids (Text s) = []"

fun xml_name :: "xml \<Rightarrow> string" where
  "xml_name (Elem n xs) = n"
| "xml_name (Text s) = []"

text \<open>The character data of an element, that of nested elements left out.\<close>

fun xml_chars :: "xml list \<Rightarrow> string" where
  "xml_chars [] = []"
| "xml_chars (Text s # xs) = s @ xml_chars xs"
| "xml_chars (Elem n ys # xs) = xml_chars xs"

fun xml_children :: "string \<Rightarrow> xml list \<Rightarrow> xml list" where
  "xml_children n [] = []"
| "xml_children n (Text s # xs) = xml_children n xs"
| "xml_children n (Elem m ys # xs) = (if m = n then Elem m ys # xml_children n xs else xml_children n xs)"

text \<open>
  A string field: of several elements of its name the last one wins. A struct field is filled from
  each element of its name in turn, so it decodes from their contents one after the other; a pointer
  field is nil without one. A slice field \<open>a>b\<close> collects the b elements of every a element.
\<close>

definition xml_string :: "string \<Rightarrow> xml list \<Rightarrow> string" where
  "xml_string n xs = (case xml_children n xs of [] \<Rightarrow> [] | es \<Rightarrow> xml_chars (xml_kids (last es)))"

definition xml_struct :: "string \<Rightarrow> xml list \<Rightarrow> xml list" where
  "xml_struct n xs = concat (map xml_kids (xml_children n xs))"

definition xml_pointer :: "string \<Rightarrow> xml list \<Rightarrow> xml list option" where
  "xml_pointer n xs = (if xml_children n xs = [] then None else Some (xml_struct n xs))"

definition xml_slice :: "string \<Rightarrow> string \<Rightarrow> xml list \<Rightarrow> xml list list" where
  "xml_slice a b xs = map xml_kids (xml_children b (xml_struct a xs))"

text \<open>Fields of other types: empty text is the zero value, and text that does not parse is an error.\<close>

definition xml_leaves :: "(string \<Rightarrow> 'a option) \<Rightarrow> 'a \<Rightarrow> string \<Rightarrow> xml list \<Rightarrow> 'a option" where
  "xml_leaves parse zero n xs =
     fold (\<lambda>e acc. case acc of None \<Rightarrow> None | Some _ \<Rightarrow>
        (let s = xml_chars (xml_kids e) in if s = [] then Some zero else parse (trim_space s)))
       (xml_children n xs) (Some zero)"

definition xml_int :: "string \<Rightarrow> xml list \<Rightarrow> int option" where
  "xml_int = xml_leaves parse_int 0"

definition xml_bool :: "string \<Rightarrow> xml list \<Rightarrow> bool option" where
  "xml_bool = xml_leaves parse_bool False"

text \<open>The contents of a document whose root element must have a name.\<close>

definition xml_root :: "string \<Rightarrow> xml option \<Rightarrow> xml list option" where
  "xml_root n doc = (case doc of Some (Elem m xs) \<Rightarrow> (if m = n then Some xs else None) | _ \<Rightarrow> None)"

fun all_some :: "'a option list \<Rightarrow> 'a list option" where
  "all_some [] = Some []"
| "all_some (x # xs) = (case x of None \<Rightarrow> None | Some v \<Rightarrow> map_option (Cons v) (all_some xs))"

lemma all_some_length: "all_some xs = Some ys \<Longrightarrow> length ys = length xs"
  by (induction xs arbitrary: ys) (auto split: option.splits)

lemma all_some_map_Some [simp]: "all_some (map (\<lambda>x. Some (f x)) xs) = Some (map f xs)"
  by (induction xs) auto

section \<open>xml.Marshal\<close>

text \<open>A field with omitempty; the parents of an \<open>a>b\<close> field are written even around no element.\<close>

definition leaf_omitempty :: "string \<Rightarrow> string \<Rightarrow> xml list" where
  "leaf_omitempty n s = (if s = [] then [] else [leaf n s])"

definition bool_text :: "bool \<Rightarrow> string" where
  "bool_text b = (if b then ''true'' else ''false'')"

text \<open>What a client decodes of an answer: the contents of its root element.\<close>

definition answer_xml :: "string \<Rightarrow> response \<Rightarrow> xml list" where
  "answer_xml n r = (case r_body r of Xml_body x \<Rightarrow> (case xml_root n (Some x) of None \<Rightarrow> [] | Some xs \<Rightarrow> xs) | _ \<Rightarrow> [])"

section \<open>Requests\<close>

datatype http_method = GET | HEAD | PUT | POST | DELETE

text \<open>
  The parsed query, the body as text, as an XML document (the root's namespace beside it) and as JSON.
  Reading the body does not fail in the model.
\<close>

record rest_request =
  rr_query :: "(string \<times> string list) list"
  rr_body :: string
  rr_xml :: "xml option"
  rr_xmlns :: string
  rr_json :: "json option"

definition query_has :: "string \<Rightarrow> rest_request \<Rightarrow> bool" where
  "query_has k r \<longleftrightarrow> k \<in> fst ` set (rr_query r)"

definition query_get :: "string \<Rightarrow> rest_request \<Rightarrow> string" where
  "query_get k r = form_get (rr_query r) k"

definition bare_request :: rest_request where
  "bare_request = \<lparr>rr_query = [], rr_body = [], rr_xml = None, rr_xmlns = [], rr_json = None\<rparr>"

text \<open>What decoding gives back of what was written.\<close>

lemma xml_children_leaf [simp]: "xml_children n (leaf m s # xs) = (if m = n then leaf m s # xml_children n xs else xml_children n xs)"
  by (simp add: leaf_def)

lemma xml_kids_leaf [simp]: "xml_kids (leaf n s) = [Text s]"
  by (simp add: leaf_def)

lemma xml_children_append [simp]: "xml_children n (xs @ ys) = xml_children n xs @ xml_children n ys"
  by (induction n xs rule: xml_children.induct) auto

lemma xml_children_map_elem: "xml_children n (map (\<lambda>x. Elem n (f x)) xs) = map (\<lambda>x. Elem n (f x)) xs"
  by (induction xs) auto

lemma xml_slice_map: "xml_slice a b [Elem a (map (\<lambda>x. Elem b (f x)) xs)] = map f xs"
  by (simp add: xml_slice_def xml_struct_def xml_children_map_elem)

end
