(* ===== verification/S3.thy ===== *)
theory S3
  imports Identity Gotime Rest
begin

text \<open>
  S3: repository/s3.go and handlers/s3.go. Buckets, and one configuration row per bucket and kind;
  object requests keep nothing. A route is the method and the path's parameters, as the router hands
  them to a handler. The Location and ETag headers of PUT answers are left out, like all headers but
  the content type.
\<close>

section \<open>Buckets (repository)\<close>

definition create_bucket :: "string \<Rightarrow> s3_bucket \<Rightarrow> db \<Rightarrow> go_error option \<times> db" where
  "create_bucket account b d =
     (case insert_row s3_bucket_pk \<lparr>br_account = account, br_bucket = b\<rparr> (s3_buckets (s3_tbls d)) of
        Inl e \<Rightarrow> (Some e, d)
      | Inr t \<Rightarrow> (None, d\<lparr>s3_tbls := (s3_tbls d)\<lparr>s3_buckets := t\<rparr>\<rparr>))"

definition get_bucket :: "string \<Rightarrow> string \<Rightarrow> db \<Rightarrow> s3_bucket result" where
  "get_bucket account name d =
     (case find (\<lambda>r. s3_bucket_pk r = (account, name)) (s3_buckets (s3_tbls d)) of
        None \<Rightarrow> Inl ErrNotFound
      | Some r \<Rightarrow> Inr (br_bucket r))"

definition list_buckets :: "string \<Rightarrow> db \<Rightarrow> s3_bucket list" where
  "list_buckets account d =
     sort_key b_name (map br_bucket (filter (\<lambda>r. br_account r = account) (s3_buckets (s3_tbls d))))"

text \<open>The foreign key takes a bucket's configurations away with it.\<close>

definition of_bucket :: "string \<Rightarrow> string \<Rightarrow> s3_config_row \<Rightarrow> bool" where
  "of_bucket account name r \<longleftrightarrow> cr_account r = account \<and> cr_bucket r = name"

definition delete_bucket :: "string \<Rightarrow> string \<Rightarrow> db \<Rightarrow> go_error option \<times> db" where
  "delete_bucket account name d =
     (let p = (\<lambda>r. s3_bucket_pk r = (account, name)); t = s3_tbls d
      in if affected p (s3_buckets t) = 0 then (Some ErrNotFound, d)
         else (None, d\<lparr>s3_tbls := t\<lparr>s3_buckets := sql_delete p (s3_buckets t),
                                    s3_configs := sql_delete (of_bucket account name) (s3_configs t)\<rparr>\<rparr>))"

section \<open>Configurations (repository)\<close>

definition s3_versioning :: string where "s3_versioning = ''versioning''"
definition s3_encryption :: string where "s3_encryption = ''encryption''"
definition s3_policy :: string where "s3_policy = ''policy''"
definition s3_public_access_block :: string where "s3_public_access_block = ''public_access_block''"
definition s3_ownership_controls :: string where "s3_ownership_controls = ''ownership_controls''"
definition s3_tagging :: string where "s3_tagging = ''tagging''"

definition put_bucket_config :: "string \<Rightarrow> string \<Rightarrow> string \<Rightarrow> json \<Rightarrow> db \<Rightarrow> go_error option \<times> db" where
  "put_bucket_config account bucket kind payload d =
     (case get_bucket account bucket d of
        Inl e \<Rightarrow> (Some e, d)
      | Inr _ \<Rightarrow> (None, d\<lparr>s3_tbls := (s3_tbls d)\<lparr>s3_configs :=
          sql_upsert s3_config_pk (\<lambda>old new. old\<lparr>cr_data := cr_data new\<rparr>)
            \<lparr>cr_account = account, cr_bucket = bucket, cr_kind = kind, cr_data = payload\<rparr>
            (s3_configs (s3_tbls d))\<rparr>\<rparr>))"

definition get_bucket_config :: "string \<Rightarrow> string \<Rightarrow> string \<Rightarrow> db \<Rightarrow> json result" where
  "get_bucket_config account bucket kind d =
     (case get_bucket account bucket d of
        Inl e \<Rightarrow> Inl e
      | Inr _ \<Rightarrow>
          (case find (\<lambda>r. s3_config_pk r = (account, bucket, kind)) (s3_configs (s3_tbls d)) of
             None \<Rightarrow> Inl ErrNotFound
           | Some r \<Rightarrow> Inr (cr_data r)))"

definition delete_bucket_config :: "string \<Rightarrow> string \<Rightarrow> string \<Rightarrow> db \<Rightarrow> go_error option \<times> db" where
  "delete_bucket_config account bucket kind d =
     (case get_bucket account bucket d of
        Inl e \<Rightarrow> (Some e, d)
      | Inr _ \<Rightarrow>
          (let p = (\<lambda>r. s3_config_pk r = (account, bucket, kind)); t = s3_tbls d
           in (if affected p (s3_configs t) = 0 then Some ErrNotFound else None,
               d\<lparr>s3_tbls := t\<lparr>s3_configs := sql_delete p (s3_configs t)\<rparr>\<rparr>)))"

definition list_bucket_configs :: "string \<Rightarrow> string \<Rightarrow> db \<Rightarrow> (string \<times> json) list result" where
  "list_bucket_configs account bucket d =
     (case get_bucket account bucket d of
        Inl e \<Rightarrow> Inl e
      | Inr _ \<Rightarrow> Inr (gm_set_all (map (\<lambda>r. (cr_kind r, cr_data r))
          (filter (of_bucket account bucket) (s3_configs (s3_tbls d)))) []))"

section \<open>Handlers\<close>

definition xml_header :: string where
  "xml_header = ''<?xml version=\"1.0\" encoding=\"UTF-8\"?>'' @ [CHR 0x0A]"

definition s3_no_such_config :: "string \<Rightarrow> string option" where
  "s3_no_such_config kind = map_of
     [(s3_policy, ''NoSuchBucketPolicy''),
      (s3_encryption, ''ServerSideEncryptionConfigurationNotFoundError''),
      (s3_public_access_block, ''NoSuchPublicAccessBlockConfiguration''),
      (s3_ownership_controls, ''OwnershipControlsNotFoundError''),
      (s3_tagging, ''NoSuchTagSet'')] kind"

definition s3_write_config_error :: "string \<Rightarrow> go_error \<Rightarrow> response" where
  "s3_write_config_error kind e = (case s3_no_such_config kind of
       Some code \<Rightarrow> (if errors_is e ErrNotFound
         then write_service_error Shape_xml 404 code (''The bucket has no '' @ kind @ '' configuration'')
         else write_aws_error Shape_xml e)
     | None \<Rightarrow> write_aws_error Shape_xml e)"

definition s3_write_bucket_error :: "go_error \<Rightarrow> response" where
  "s3_write_bucket_error e =
     (if errors_is e ErrNotFound
      then write_service_error Shape_xml 404 ''NoSuchBucket'' ''The specified bucket does not exist''
      else write_aws_error Shape_xml e)"

definition s3_empty :: "int \<Rightarrow> response" where
  "s3_empty status = respond status [] No_body"

subsection \<open>Reading and writing one configuration\<close>

definition s3_versioning_answer :: "string \<Rightarrow> response" where
  "s3_versioning_answer status = write_xml 200 (Elem ''VersioningConfiguration'' (leaf_omitempty ''Status'' status))"

definition s3_get_versioning :: "string \<Rightarrow> string \<Rightarrow> db \<Rightarrow> response" where
  "s3_get_versioning account bucket d =
     (case get_bucket_config account bucket s3_versioning d of
        Inl e \<Rightarrow> (if errors_is e ErrNotFound then s3_versioning_answer [] else write_aws_error Shape_xml e)
      | Inr raw \<Rightarrow> s3_versioning_answer (snd (field_string ''Status'' raw)))"

text \<open>The struct as encoding/json stores it, its XMLName included.\<close>

definition s3_versioning_data :: "string \<Rightarrow> string \<Rightarrow> json" where
  "s3_versioning_data ns status = JObj
     [(''XMLName'', JObj [(''Space'', JStr ns), (''Local'', JStr ''VersioningConfiguration'')]), (''Status'', JStr status)]"

definition s3_stored :: "int \<Rightarrow> go_error option \<times> db \<Rightarrow> response \<times> db" where
  "s3_stored status x = (case x of
       (Some e, d) \<Rightarrow> (s3_write_bucket_error e, d)
     | (None, d) \<Rightarrow> (s3_empty status, d))"

definition s3_put_versioning :: "rest_request \<Rightarrow> string \<Rightarrow> string \<Rightarrow> db \<Rightarrow> response \<times> db" where
  "s3_put_versioning r account bucket d =
     (case xml_root ''VersioningConfiguration'' (rr_xml r) of
        None \<Rightarrow> (write_aws_error Shape_xml ErrConflict, d)
      | Some xs \<Rightarrow> s3_stored 200 (put_bucket_config account bucket s3_versioning
          (s3_versioning_data (rr_xmlns r) (xml_string ''Status'' xs)) d))"

definition s3_get_policy :: "string \<Rightarrow> string \<Rightarrow> db \<Rightarrow> response" where
  "s3_get_policy account bucket d =
     (case get_bucket_config account bucket s3_policy d of
        Inl e \<Rightarrow> s3_write_config_error s3_policy e
      | Inr raw \<Rightarrow> respond 200 ''application/json'' (Json_body raw))"

definition s3_put_policy :: "rest_request \<Rightarrow> string \<Rightarrow> string \<Rightarrow> db \<Rightarrow> response \<times> db" where
  "s3_put_policy r account bucket d =
     (case rr_json r of
        None \<Rightarrow> (write_aws_error Shape_xml ErrConflict, d)
      | Some j \<Rightarrow> s3_stored 204 (put_bucket_config account bucket s3_policy j d))"

definition s3_replay :: "string \<Rightarrow> string \<Rightarrow> response" where
  "s3_replay root stored = respond 200 ''application/xml'' (Raw_body (xml_header @
     (if stored \<noteq> [] then stored else ''<'' @ root @ ''/>'' @ [CHR 0x0A])))"

definition s3_get_generic_config :: "string \<Rightarrow> string \<Rightarrow> string \<Rightarrow> string \<Rightarrow> db \<Rightarrow> response" where
  "s3_get_generic_config account bucket kind root d =
     (case get_bucket_config account bucket kind d of
        Inl e \<Rightarrow> s3_write_config_error kind e
      | Inr raw \<Rightarrow> s3_replay root (case dec_string raw of (True, s) \<Rightarrow> or_zero [] s | (False, _) \<Rightarrow> []))"

definition s3_put_generic_config :: "rest_request \<Rightarrow> string \<Rightarrow> string \<Rightarrow> string \<Rightarrow> db \<Rightarrow> response \<times> db" where
  "s3_put_generic_config r account bucket kind d =
     s3_stored 200 (put_bucket_config account bucket kind (JStr (rr_body r)) d)"

definition s3_get_location :: "string \<Rightarrow> string \<Rightarrow> db \<Rightarrow> response" where
  "s3_get_location account bucket d =
     (case get_bucket account bucket d of
        Inl e \<Rightarrow> s3_write_bucket_error e
      | Inr b \<Rightarrow> write_xml 200 (leaf ''LocationConstraint'' (b_region b)))"

definition s3_list_objects :: "string \<Rightarrow> response" where
  "s3_list_objects bucket = write_xml 200 (Elem ''ListBucketResult''
     [leaf ''Name'' bucket, leaf ''KeyCount'' ''0'', leaf ''MaxKeys'' ''1000'', leaf ''IsTruncated'' ''false''])"

subsection \<open>Bucket requests\<close>

definition bucket_region_from_request :: "rest_request \<Rightarrow> string" where
  "bucket_region_from_request r =
     (if rr_body r = [] then ''us-east-1''
      else case xml_root ''CreateBucketConfiguration'' (rr_xml r) of
        None \<Rightarrow> ''us-east-1''
      | Some xs \<Rightarrow> (let loc = trim_space (xml_string ''LocationConstraint'' xs)
                   in if loc = [] then ''us-east-1'' else loc))"

definition s3_new_bucket :: "env \<Rightarrow> rest_request \<Rightarrow> string \<Rightarrow> s3_bucket" where
  "s3_new_bucket env r bucket = \<lparr>b_name = bucket, b_region = bucket_region_from_request r,
     b_arn = s3_bucket_arn bucket, b_created_at = rfc3339 (e_now env)\<rparr>"

definition s3_put_bucket :: "env \<Rightarrow> rest_request \<Rightarrow> string \<Rightarrow> string \<Rightarrow> db \<Rightarrow> response \<times> db" where
  "s3_put_bucket env r account bucket d =
     (if query_has ''versioning'' r then s3_put_versioning r account bucket d
      else if query_has ''encryption'' r then s3_put_generic_config r account bucket s3_encryption d
      else if query_has ''policy'' r then s3_put_policy r account bucket d
      else if query_has ''publicAccessBlock'' r then s3_put_generic_config r account bucket s3_public_access_block d
      else if query_has ''ownershipControls'' r then s3_put_generic_config r account bucket s3_ownership_controls d
      else if query_has ''tagging'' r then s3_put_generic_config r account bucket s3_tagging d
      else if bucket = [] then (write_aws_error Shape_xml ErrConflict, d)
      else (case create_bucket account (s3_new_bucket env r bucket) d of
          (Some e, d') \<Rightarrow> (write_aws_error Shape_xml e, d')
        | (None, d') \<Rightarrow> (s3_empty 200, d')))"

definition s3_head_bucket :: "string \<Rightarrow> string \<Rightarrow> db \<Rightarrow> response" where
  "s3_head_bucket account bucket d =
     (case get_bucket account bucket d of Inl e \<Rightarrow> s3_empty 404 | Inr _ \<Rightarrow> s3_empty 200)"

definition s3_get_bucket_or_list_objects :: "rest_request \<Rightarrow> string \<Rightarrow> string \<Rightarrow> db \<Rightarrow> response" where
  "s3_get_bucket_or_list_objects r account bucket d =
     (case get_bucket account bucket d of
        Inl e \<Rightarrow> s3_write_bucket_error e
      | Inr _ \<Rightarrow>
         (if query_has ''versioning'' r then s3_get_versioning account bucket d
          else if query_has ''encryption'' r
            then s3_get_generic_config account bucket s3_encryption ''ServerSideEncryptionConfiguration'' d
          else if query_has ''policy'' r then s3_get_policy account bucket d
          else if query_has ''publicAccessBlock'' r
            then s3_get_generic_config account bucket s3_public_access_block ''PublicAccessBlockConfiguration'' d
          else if query_has ''ownershipControls'' r
            then s3_get_generic_config account bucket s3_ownership_controls ''OwnershipControls'' d
          else if query_has ''tagging'' r then s3_get_generic_config account bucket s3_tagging ''Tagging'' d
          else if query_has ''location'' r then s3_get_location account bucket d
          else s3_list_objects bucket))"

definition s3_delete_bucket :: "rest_request \<Rightarrow> string \<Rightarrow> string \<Rightarrow> db \<Rightarrow> response \<times> db" where
  "s3_delete_bucket r account bucket d =
     (if query_has ''policy'' r then
        (case delete_bucket_config account bucket s3_policy d of
           (Some e, d') \<Rightarrow> (write_aws_error Shape_xml e, d')
         | (None, d') \<Rightarrow> (s3_empty 204, d'))
      else if query_has ''publicAccessBlock'' r then
        (s3_empty 204, snd (delete_bucket_config account bucket s3_public_access_block d))
      else if query_has ''tagging'' r then
        (s3_empty 204, snd (delete_bucket_config account bucket s3_tagging d))
      else (case delete_bucket account bucket d of
          (Some e, d') \<Rightarrow> (write_aws_error Shape_xml e, d')
        | (None, d') \<Rightarrow> (s3_empty 204, d')))"

definition s3_list_buckets :: "string \<Rightarrow> db \<Rightarrow> response" where
  "s3_list_buckets account d = write_xml 200 (Elem ''ListAllMyBucketsResult''
     [Elem ''Owner'' [leaf ''ID'' account, leaf ''DisplayName'' ''fakeaws''],
      Elem ''Buckets'' (map (\<lambda>b. Elem ''Bucket'' [leaf ''Name'' (b_name b), leaf ''CreationDate'' (b_created_at b)])
        (list_buckets account d))])"

subsection \<open>Object requests\<close>

definition s3_put_object :: "string \<Rightarrow> string \<Rightarrow> db \<Rightarrow> response" where
  "s3_put_object account bucket d =
     (case get_bucket account bucket d of Inl e \<Rightarrow> s3_write_bucket_error e | Inr _ \<Rightarrow> s3_empty 200)"

datatype s3_route = S3_root http_method | S3_bucket http_method string | S3_object http_method string string

definition handle_s3 :: "env \<Rightarrow> s3_route \<Rightarrow> rest_request \<Rightarrow> db \<Rightarrow> response \<times> db" where
  "handle_s3 env route r d =
     (let account = account_id d
      in case route of
        S3_root GET \<Rightarrow> (s3_list_buckets account d, d)
      | S3_bucket PUT bucket \<Rightarrow> s3_put_bucket env r account bucket d
      | S3_bucket HEAD bucket \<Rightarrow> (s3_head_bucket account bucket d, d)
      | S3_bucket GET bucket \<Rightarrow> (s3_get_bucket_or_list_objects r account bucket d, d)
      | S3_bucket DELETE bucket \<Rightarrow> s3_delete_bucket r account bucket d
      | S3_object PUT bucket key \<Rightarrow> (s3_put_object account bucket d, d)
      | S3_object HEAD bucket key \<Rightarrow> (s3_empty 404, d)
      | S3_object GET bucket key \<Rightarrow> (write_aws_error Shape_xml ErrNotFound, d)
      | S3_object DELETE bucket key \<Rightarrow> (s3_empty 204, d)
      | _ \<Rightarrow> (write_unimplemented, d))"

text \<open>The s3 block of /mock/state.\<close>

definition gather_s3_state :: "string \<Rightarrow> db \<Rightarrow> json" where
  "gather_s3_state account d =
     JObj [(''buckets'', JArr (concat (map (\<lambda>b. case list_bucket_configs account (b_name b) d of
        Inl e \<Rightarrow> []
      | Inr cs \<Rightarrow> [JObj ([(''name'', JStr (b_name b)), (''region'', JStr (b_region b)), (''arn'', JStr (b_arn b)),
            (''created_at'', JStr (b_created_at b))] @ (if cs = [] then [] else [(''configs'', JObj cs)]))])
        (list_buckets account d))))]"

section \<open>What the operations keep\<close>

text \<open>A bucket's ARN is that of its name and its region is set; every configuration belongs to a bucket.\<close>

definition bucket_row_wf :: "s3_bucket_row \<Rightarrow> bool" where
  "bucket_row_wf r \<longleftrightarrow> b_arn (br_bucket r) = s3_bucket_arn (b_name (br_bucket r)) \<and>
     b_name (br_bucket r) \<noteq> [] \<and> b_region (br_bucket r) \<noteq> []"

definition config_owned :: "s3_db \<Rightarrow> s3_config_row \<Rightarrow> bool" where
  "config_owned t r \<longleftrightarrow> (cr_account r, cr_bucket r) \<in> set (map s3_bucket_pk (s3_buckets t))"

definition s3_tbls_wf :: "s3_db \<Rightarrow> bool" where
  "s3_tbls_wf t \<longleftrightarrow> s3_keys_ok t \<and> (\<forall>r\<in>set (s3_buckets t). bucket_row_wf r) \<and> (\<forall>r\<in>set (s3_configs t). config_owned t r)"

definition s3_rest :: "db \<Rightarrow> db" where
  "s3_rest d = d\<lparr>s3_tbls := \<lparr>s3_buckets = [], s3_configs = []\<rparr>\<rparr>"

text \<open>Every step changes the S3 tables only, and keeps their invariant and their keys.\<close>

definition s3_keeps :: "db \<Rightarrow> db \<Rightarrow> bool" where
  "s3_keeps d d' \<longleftrightarrow> s3_rest d' = s3_rest d \<and> (s3_tbls_wf (s3_tbls d) \<longrightarrow> s3_tbls_wf (s3_tbls d')) \<and>
     (s3_keys_ok (s3_tbls d) \<longrightarrow> s3_keys_ok (s3_tbls d'))"

lemma s3_keeps_refl [simp]: "s3_keeps d d"
  by (simp add: s3_keeps_def)

lemma s3_keeps_trans: "s3_keeps d d1 \<Longrightarrow> s3_keeps d1 d2 \<Longrightarrow> s3_keeps d d2"
  by (simp add: s3_keeps_def)

lemma s3_keeps_buckets:
  assumes "bucket_row_wf \<lparr>br_account = a, br_bucket = b\<rparr>"
  shows "s3_keeps d (snd (create_bucket a b d))"
proof (cases "insert_row s3_bucket_pk \<lparr>br_account = a, br_bucket = b\<rparr> (s3_buckets (s3_tbls d))")
  case (Inr t)
  then have t: "t = s3_buckets (s3_tbls d) @ [\<lparr>br_account = a, br_bucket = b\<rparr>]"
    by (simp add: insert_row_find split: option.splits)
  have "pk s3_bucket_pk (s3_buckets (s3_tbls d)) \<Longrightarrow> pk s3_bucket_pk t" by (rule pk_insert_row [OF _ Inr])
  with Inr assms show ?thesis
    by (auto simp: create_bucket_def s3_keeps_def s3_rest_def s3_tbls_wf_def s3_keys_ok_def config_owned_def t)
qed (simp add: create_bucket_def)

lemma s3_keeps_configs:
  assumes "pk s3_config_pk (s3_configs (s3_tbls d)) \<Longrightarrow> pk s3_config_pk t"
    and "\<And>r. r \<in> set t \<Longrightarrow> (\<exists>r'\<in>set (s3_configs (s3_tbls d)). cr_account r = cr_account r' \<and> cr_bucket r = cr_bucket r') \<or>
      config_owned (s3_tbls d) r"
  shows "s3_keeps d (d\<lparr>s3_tbls := (s3_tbls d)\<lparr>s3_configs := t\<rparr>\<rparr>)"
proof -
  have "config_owned ((s3_tbls d)\<lparr>s3_configs := t\<rparr>) = config_owned (s3_tbls d)"
    by (simp add: config_owned_def fun_eq_iff)
  moreover have "config_owned (s3_tbls d) r" if "r \<in> set t" "\<forall>r\<in>set (s3_configs (s3_tbls d)). config_owned (s3_tbls d) r" for r
    using assms(2) [OF that(1)] that(2) by (auto simp: config_owned_def)
  ultimately show ?thesis
    using assms(1) by (auto simp: s3_keeps_def s3_rest_def s3_tbls_wf_def s3_keys_ok_def)
qed

lemma get_bucket_row:
  assumes "get_bucket a n d = Inr b"
  shows "(a, n) \<in> set (map s3_bucket_pk (s3_buckets (s3_tbls d)))"
proof -
  from assms have "find (\<lambda>r. s3_bucket_pk r = (a, n)) (s3_buckets (s3_tbls d)) \<noteq> None"
    by (auto simp: get_bucket_def split: option.splits)
  then show ?thesis by (simp only: find_pk_eq_None not_not)
qed

lemma set_upsert_config:
  "r \<in> set (sql_upsert s3_config_pk (\<lambda>old new. old\<lparr>cr_data := cr_data new\<rparr>) x t) \<Longrightarrow>
     r = x \<or> (\<exists>r'\<in>set t. cr_account r = cr_account r' \<and> cr_bucket r = cr_bucket r')"
  by (auto simp: sql_upsert_def split: if_splits)

lemma s3_keeps_put_config: "s3_keeps d (snd (put_bucket_config a n k j d))"
proof (cases "get_bucket a n d")
  case (Inr b)
  let ?r = "\<lparr>cr_account = a, cr_bucket = n, cr_kind = k, cr_data = j\<rparr>"
  have "config_owned (s3_tbls d) ?r" using get_bucket_row [OF Inr] by (simp add: config_owned_def)
  then have "s3_keeps d (d\<lparr>s3_tbls := (s3_tbls d)\<lparr>s3_configs :=
      sql_upsert s3_config_pk (\<lambda>old new. old\<lparr>cr_data := cr_data new\<rparr>) ?r (s3_configs (s3_tbls d))\<rparr>\<rparr>)"
    by (intro s3_keeps_configs pk_upsert) (auto simp: s3_config_pk_def dest!: set_upsert_config)
  with Inr show ?thesis by (simp add: put_bucket_config_def)
qed (simp add: put_bucket_config_def)

lemma s3_keeps_delete_config: "s3_keeps d (snd (delete_bucket_config a n k d))"
proof (cases "get_bucket a n d")
  case (Inr b)
  have "s3_keeps d (d\<lparr>s3_tbls := (s3_tbls d)\<lparr>s3_configs := sql_delete p (s3_configs (s3_tbls d))\<rparr>\<rparr>)" for p
    by (rule s3_keeps_configs, rule pk_delete) (auto simp: sql_delete_def)
  with Inr show ?thesis by (simp add: delete_bucket_config_def Let_def)
qed (simp add: delete_bucket_config_def)

lemma s3_keeps_delete_bucket: "s3_keeps d (snd (delete_bucket a n d))"
proof -
  let ?t = "s3_tbls d"
  let ?bs = "sql_delete (\<lambda>r. s3_bucket_pk r = (a, n)) (s3_buckets ?t)" and ?cs = "sql_delete (of_bucket a n) (s3_configs ?t)"
  let ?t' = "?t\<lparr>s3_buckets := ?bs, s3_configs := ?cs\<rparr>"
  have keys: "set (map s3_bucket_pk ?bs) = set (map s3_bucket_pk (s3_buckets ?t)) - {(a, n)}"
    by (auto simp: sql_delete_def)
  have "config_owned ?t' r" if "r \<in> set ?cs" "config_owned ?t r" for r
  proof -
    have "config_owned ?t' r \<longleftrightarrow> (cr_account r, cr_bucket r) \<in> set (map s3_bucket_pk (s3_buckets ?t)) - {(a, n)}"
      by (simp add: config_owned_def keys del: set_map)
    with that show ?thesis by (auto simp: config_owned_def sql_delete_def of_bucket_def)
  qed
  moreover have "set ?bs \<subseteq> set (s3_buckets ?t)" "set ?cs \<subseteq> set (s3_configs ?t)" by (auto simp: sql_delete_def)
  ultimately have "s3_keeps d (d\<lparr>s3_tbls := ?t'\<rparr>)"
    unfolding s3_keeps_def s3_tbls_wf_def s3_keys_ok_def by (auto simp: s3_rest_def pk_delete)
  then show ?thesis by (simp add: delete_bucket_def Let_def)
qed

lemma s3_stored_snd [simp]: "snd (s3_stored n x) = snd x"
  by (simp add: s3_stored_def split: prod.split option.split)

lemma bucket_region_set [simp]: "bucket_region_from_request r \<noteq> []"
  by (simp add: bucket_region_from_request_def Let_def split: option.split)

lemma s3_keeps_put_bucket: "s3_keeps d (snd (s3_put_bucket env r a n d))"
proof -
  have "s3_keeps d (snd (create_bucket a (s3_new_bucket env r n) d))" if "n \<noteq> []"
    using that by (intro s3_keeps_buckets) (simp add: bucket_row_wf_def s3_new_bucket_def)
  then show ?thesis
    by (simp add: s3_put_bucket_def s3_put_versioning_def s3_put_policy_def s3_put_generic_config_def
        s3_keeps_put_config snd_case_result split: option.split)
qed

lemma s3_keeps_delete: "s3_keeps d (snd (s3_delete_bucket r a n d))"
  using s3_keeps_delete_bucket [of d a n] s3_keeps_delete_config [of d a n]
  by (simp add: s3_delete_bucket_def snd_case_result)

lemma handle_s3_keeps: "s3_keeps d (snd (handle_s3 env route r d))"
  by (simp add: handle_s3_def Let_def s3_keeps_put_bucket s3_keeps_delete split: s3_route.split http_method.split)

lemma account_id_s3_keeps: "s3_keeps d d' \<Longrightarrow> account_id d' = account_id d"
proof -
  assume "s3_keeps d d'"
  then have "identity_tbl (s3_rest d') = identity_tbl (s3_rest d)" by (simp add: s3_keeps_def)
  then show ?thesis by (simp add: s3_rest_def account_id_def get_identity_def)
qed

lemma account_id_handle_s3 [simp]: "account_id (snd (handle_s3 env route r d)) = account_id d"
  by (rule account_id_s3_keeps) (rule handle_s3_keeps)

text \<open>A run of S3 requests, as the router serialises them.\<close>

type_synonym s3_event = "env \<times> s3_route \<times> rest_request"

definition s3_run :: "s3_event list \<Rightarrow> db \<Rightarrow> db" where
  "s3_run es d = fold (\<lambda>(env, route, r) d. snd (handle_s3 env route r d)) es d"

lemma s3_run_keeps: "s3_keeps d (s3_run es d)"
proof (induction es arbitrary: d)
  case (Cons e es)
  have "s3_keeps d (snd (handle_s3 (fst e) (fst (snd e)) (snd (snd e)) d))" by (rule handle_s3_keeps)
  then show ?case using Cons.IH by (auto simp: s3_run_def split_beta intro: s3_keeps_trans)
qed (simp add: s3_run_def)

section \<open>Configurations as registers\<close>

text \<open>The rows of the configurations are a store under account, bucket and kind.\<close>

type_synonym config_ref = "string \<times> string \<times> string"

definition config_at :: "config_ref \<Rightarrow> s3_config_row list \<Rightarrow> json option" where
  "config_at k t = map_option cr_data (find (\<lambda>r. s3_config_pk r = k) t)"

definition config_put :: "config_ref \<Rightarrow> json \<Rightarrow> s3_config_row list \<Rightarrow> s3_config_row list" where
  "config_put k j t = sql_upsert s3_config_pk (\<lambda>old new. old\<lparr>cr_data := cr_data new\<rparr>)
     \<lparr>cr_account = fst k, cr_bucket = fst (snd k), cr_kind = snd (snd k), cr_data = j\<rparr> t"

definition config_rem :: "config_ref \<Rightarrow> s3_config_row list \<Rightarrow> s3_config_row list" where
  "config_rem k t = sql_delete (\<lambda>r. s3_config_pk r = k) t"

interpretation s3_store: store config_at config_put config_rem "pk s3_config_pk"
proof (unfold_locales, goal_cases)
  case (1 s k' k v)
  have k: "s3_config_pk \<lparr>cr_account = fst k, cr_bucket = fst (snd k), cr_kind = snd (snd k), cr_data = v\<rparr> = k"
    by (simp add: s3_config_pk_def)
  have "s3_config_pk x = k \<Longrightarrow> s3_config_pk (x\<lparr>cr_data := w\<rparr>) = k" for x w by (simp add: s3_config_pk_def)
  then show ?case by (simp add: config_put_def config_at_def find_sql_upsert k split: option.split)
next
  case (2 s k' k)
  then show ?case by (simp add: config_rem_def config_at_def find_sql_delete_key)
next
  case (3 s k v)
  then show ?case unfolding config_put_def by (rule pk_upsert) (simp add: s3_config_pk_def)
qed (simp add: config_rem_def pk_delete)

lemma put_bucket_config_store:
  "get_bucket a n d = Inr b \<Longrightarrow> put_bucket_config a n k j d =
     (None, d\<lparr>s3_tbls := (s3_tbls d)\<lparr>s3_configs := config_put (a, n, k) j (s3_configs (s3_tbls d))\<rparr>\<rparr>)"
  by (simp add: put_bucket_config_def config_put_def)

lemma get_bucket_config_store:
  "get_bucket a n d = Inr b \<Longrightarrow> get_bucket_config a n k d =
     (case config_at (a, n, k) (s3_configs (s3_tbls d)) of None \<Rightarrow> Inl ErrNotFound | Some j \<Rightarrow> Inr j)"
  by (simp add: get_bucket_config_def config_at_def split: option.split)

lemma get_bucket_configs [simp]:
  "get_bucket a n (d\<lparr>s3_tbls := t\<lparr>s3_configs := cs\<rparr>\<rparr>) = get_bucket a n (d\<lparr>s3_tbls := t\<rparr>)"
  by (simp add: get_bucket_def)

lemma account_id_s3_tbls [simp]: "account_id (d\<lparr>s3_tbls := t\<rparr>) = account_id d"
  by (simp add: account_id_def get_identity_def)

text \<open>
  The specification: the six sub-resources a PUT writes, what a GET answers for stored data, and what
  it answers when a bucket has none.
\<close>

datatype s3_config = Versioning | Encryption | Policy | Public_access | Ownership | Bucket_tags

fun sub_name :: "s3_config \<Rightarrow> string" where
  "sub_name Versioning = ''versioning''"
| "sub_name Encryption = ''encryption''"
| "sub_name Policy = ''policy''"
| "sub_name Public_access = ''publicAccessBlock''"
| "sub_name Ownership = ''ownershipControls''"
| "sub_name Bucket_tags = ''tagging''"

fun sub_kind :: "s3_config \<Rightarrow> string" where
  "sub_kind Versioning = s3_versioning"
| "sub_kind Encryption = s3_encryption"
| "sub_kind Policy = s3_policy"
| "sub_kind Public_access = s3_public_access_block"
| "sub_kind Ownership = s3_ownership_controls"
| "sub_kind Bucket_tags = s3_tagging"

fun sub_root :: "s3_config \<Rightarrow> string" where
  "sub_root Versioning = ''VersioningConfiguration''"
| "sub_root Encryption = ''ServerSideEncryptionConfiguration''"
| "sub_root Policy = []"
| "sub_root Public_access = ''PublicAccessBlockConfiguration''"
| "sub_root Ownership = ''OwnershipControls''"
| "sub_root Bucket_tags = ''Tagging''"

text \<open>What GET replays of an accepted PUT body; None is a body the PUT refuses.\<close>

definition replayed :: "s3_config \<Rightarrow> rest_request \<Rightarrow> response option" where
  "replayed c r = (case c of
       Versioning \<Rightarrow> map_option (\<lambda>xs. s3_versioning_answer (xml_string ''Status'' xs)) (xml_root (sub_root c) (rr_xml r))
     | Policy \<Rightarrow> map_option (\<lambda>j. respond 200 ''application/json'' (Json_body j)) (rr_json r)
     | _ \<Rightarrow> Some (s3_replay (sub_root c) (rr_body r)))"

definition not_configured :: "s3_config \<Rightarrow> response" where
  "not_configured c = (case c of Versioning \<Rightarrow> s3_versioning_answer []
     | _ \<Rightarrow> s3_write_config_error (sub_kind c) ErrNotFound)"

definition sub_request :: "s3_config \<Rightarrow> rest_request \<Rightarrow> rest_request" where
  "sub_request c r = r\<lparr>rr_query := [(sub_name c, [[]])]\<rparr>"

lemma sub_request_fields [simp]:
  "rr_json (sub_request c r) = rr_json r" "rr_xml (sub_request c r) = rr_xml r"
  "rr_xmlns (sub_request c r) = rr_xmlns r" "rr_body (sub_request c r) = rr_body r"
  by (simp_all add: sub_request_def)

text \<open>What a client reads of one configuration of one bucket.\<close>

definition config_view :: "db \<Rightarrow> string \<Rightarrow> s3_config \<Rightarrow> response" where
  "config_view d n c = fst (handle_s3 \<lparr>e_now = 0, e_rand = []\<rparr> (S3_bucket GET n) (sub_request c bare_request) d)"

definition stored_answer :: "s3_config \<Rightarrow> json option \<Rightarrow> response" where
  "stored_answer c raw = (case raw of
       None \<Rightarrow> not_configured c
     | Some j \<Rightarrow> (case c of
          Versioning \<Rightarrow> s3_versioning_answer (snd (field_string ''Status'' j))
        | Policy \<Rightarrow> respond 200 ''application/json'' (Json_body j)
        | _ \<Rightarrow> s3_replay (sub_root c) (case dec_string j of (True, s) \<Rightarrow> or_zero [] s | (False, _) \<Rightarrow> [])))"

lemma query_has_sub [simp]: "query_has k (sub_request c r) \<longleftrightarrow> k = sub_name c"
  by (auto simp: query_has_def sub_request_def)

lemma config_view_store:
  "config_view d n c = (if get_bucket (account_id d) n d = Inl ErrNotFound then s3_write_bucket_error ErrNotFound
     else stored_answer c (config_at (account_id d, n, sub_kind c) (s3_configs (s3_tbls d))))"
proof (cases "get_bucket (account_id d) n d")
  case (Inr b)
  then show ?thesis
    by (cases c) (simp_all add: config_view_def handle_s3_def s3_get_bucket_or_list_objects_def s3_get_versioning_def
        s3_get_generic_config_def s3_get_policy_def get_bucket_config_store [OF Inr] stored_answer_def not_configured_def
        split: option.split)
next
  case (Inl e)
  then have "e = ErrNotFound" by (auto simp: get_bucket_def split: option.splits)
  with Inl show ?thesis by (simp add: config_view_def handle_s3_def s3_get_bucket_or_list_objects_def)
qed

definition stored_form :: "s3_config \<Rightarrow> rest_request \<Rightarrow> json option" where
  "stored_form c r = (case c of
       Versioning \<Rightarrow> map_option (\<lambda>xs. s3_versioning_data (rr_xmlns r) (xml_string ''Status'' xs)) (xml_root (sub_root c) (rr_xml r))
     | Policy \<Rightarrow> rr_json r
     | _ \<Rightarrow> Some (JStr (rr_body r)))"

lemma stored_form_replayed:
  "(stored_form c r = None \<longleftrightarrow> replayed c r = None) \<and>
   (\<forall>j. stored_form c r = Some j \<longrightarrow> replayed c r = Some (stored_answer c (Some j)))"
  by (cases c) (auto simp: stored_form_def replayed_def stored_answer_def s3_versioning_data_def field_string_def
      members_def dec_members_def dec_string_def or_zero_def lower_def lower_char_def)

lemma put_config_store:
  assumes "get_bucket (account_id d) n d = Inr b"
  shows "handle_s3 env (S3_bucket PUT n) (sub_request c r) d = (case stored_form c r of
      None \<Rightarrow> (write_aws_error Shape_xml ErrConflict, d)
    | Some j \<Rightarrow> (s3_empty (if c = Policy then 204 else 200), d\<lparr>s3_tbls := (s3_tbls d)\<lparr>s3_configs :=
        config_put (account_id d, n, sub_kind c) j (s3_configs (s3_tbls d))\<rparr>\<rparr>))"
  by (cases c) (simp_all add: handle_s3_def s3_put_bucket_def s3_put_versioning_def s3_put_generic_config_def
      s3_put_policy_def put_bucket_config_store [OF assms] s3_stored_def stored_form_def split: option.split)

lemma sub_kind_inject [simp]: "sub_kind c = sub_kind c' \<longleftrightarrow> c = c'"
  by (cases c; cases c') (simp_all add: s3_versioning_def s3_encryption_def s3_policy_def s3_public_access_block_def
      s3_ownership_controls_def s3_tagging_def)

text \<open>A bucket lookup after each change.\<close>

lemma get_bucket_deleted:
  "get_bucket a' n' (snd (delete_bucket a n d)) =
     (if a' = a \<and> n' = n then Inl ErrNotFound else get_bucket a' n' d)"
proof (cases "affected (\<lambda>r. s3_bucket_pk r = (a, n)) (s3_buckets (s3_tbls d)) = 0")
  case True
  then have "find (\<lambda>r. s3_bucket_pk r = (a, n)) (s3_buckets (s3_tbls d)) = None" by (simp add: affected_0_iff)
  with True show ?thesis by (auto simp: delete_bucket_def get_bucket_def)
next
  case False
  then show ?thesis by (auto simp: delete_bucket_def get_bucket_def Let_def find_sql_delete_key)
qed

lemma config_at_of_bucket [simp]:
  "config_at (a', n', k) (sql_delete (of_bucket a n) t) = (if a' = a \<and> n' = n then None else config_at (a', n', k) t)"
proof -
  have "find (\<lambda>r. s3_config_pk r = (a', n', k)) (sql_delete (of_bucket a n) t) =
      (if a' = a \<and> n' = n then None else find (\<lambda>r. s3_config_pk r = (a', n', k)) t)"
    by (rule find_sql_delete_class) (auto simp: of_bucket_def s3_config_pk_def)
  then show ?thesis by (simp add: config_at_def)
qed

lemma delete_bucket_found:
  assumes "get_bucket a n d = Inr b"
  shows "delete_bucket a n d = (None, d\<lparr>s3_tbls := (s3_tbls d)
     \<lparr>s3_buckets := sql_delete (\<lambda>r. s3_bucket_pk r = (a, n)) (s3_buckets (s3_tbls d)),
      s3_configs := sql_delete (of_bucket a n) (s3_configs (s3_tbls d))\<rparr>\<rparr>)"
  using assms by (simp add: delete_bucket_def affected_0_iff get_bucket_def Let_def split: option.splits)

lemma config_view_deleted:
  assumes "get_bucket (account_id d) n d = Inr b"
  shows "config_view (snd (delete_bucket (account_id d) n d)) n' c =
    (if n' = n then s3_write_bucket_error ErrNotFound else config_view d n' c)"
proof -
  have "account_id (snd (delete_bucket (account_id d) n d)) = account_id d"
    by (simp add: delete_bucket_found [OF assms])
  moreover have "config_at (account_id d, n', k) (s3_configs (s3_tbls (snd (delete_bucket (account_id d) n d)))) =
      (if n' = n then None else config_at (account_id d, n', k) (s3_configs (s3_tbls d)))" for k
    by (simp add: delete_bucket_found [OF assms])
  ultimately show ?thesis by (simp add: config_view_store get_bucket_deleted)
qed

lemma s3_unconfigured_answers: "stored_answer c None = not_configured c"
  by (simp add: stored_answer_def)

section \<open>Properties\<close>

text \<open>C15. Whatever the S3 requests, a bucket keeps the ARN of its name and a region, bucket names and
  configurations stay unique, no configuration outlives its bucket, and no other service's rows change.\<close>

theorem s3_invariant:
  assumes "s3_tbls_wf (s3_tbls d)"
  shows "s3_tbls_wf (s3_tbls (s3_run es d)) \<and> s3_rest (s3_run es d) = s3_rest d"
  using assms s3_run_keeps [of d es] by (simp add: s3_keeps_def)

text \<open>C14. The configurations of the buckets are independent registers: a PUT of one that its handler accepts is
  what the next GET of that bucket's sub-resource replays, and a GET of every other sub-resource, of this
  and of every other bucket, answers what it answered before. A PUT whose body the handler refuses answers
  409 and changes nothing.\<close>

theorem s3_config_registers:
  assumes "get_bucket (account_id d) n d = Inr b" and "s3_keys_ok (s3_tbls d)"
  shows "let (resp, d') = handle_s3 env (S3_bucket PUT n) (sub_request c r) d
    in case replayed c r of
         None \<Rightarrow> r_status resp = 409 \<and> d' = d
       | Some answer \<Rightarrow> r_status resp \<in> {200, 204} \<and>
           (\<forall>n' c'. config_view d' n' c' = (if n' = n \<and> c' = c then answer else config_view d n' c'))"
proof (cases "stored_form c r")
  case None
  then have "replayed c r = None" using stored_form_replayed [of c r] by simp
  with None show ?thesis by (simp add: put_config_store [OF assms(1)])
next
  case (Some j)
  then have rep: "replayed c r = Some (stored_answer c (Some j))" using stored_form_replayed [of c r] by simp
  have pk: "pk s3_config_pk (s3_configs (s3_tbls d))" using assms(2) by (simp add: s3_keys_ok_def)
  let ?d = "d\<lparr>s3_tbls := (s3_tbls d)\<lparr>s3_configs := config_put (account_id d, n, sub_kind c) j (s3_configs (s3_tbls d))\<rparr>\<rparr>"
  have "config_view ?d n' c' = (if n' = n \<and> c' = c then stored_answer c (Some j) else config_view d n' c')" for n' c'
    using assms(1) by (auto simp: config_view_store s3_store.look_put [OF pk])
  then show ?thesis by (simp add: put_config_store [OF assms(1)] Some rep s3_empty_def)
qed

text \<open>DELETE of a sub-resource takes away that configuration alone for policy, publicAccessBlock and
  tagging. For versioning, encryption and ownershipControls the handler has no case: the request is taken
  as DeleteBucket, answers 204 and deletes the bucket with all its configurations.\<close>

theorem s3_delete_subresource:
  assumes "get_bucket (account_id d) n d = Inr b" and "s3_keys_ok (s3_tbls d)"
    and "config_at (account_id d, n, sub_kind c) (s3_configs (s3_tbls d)) \<noteq> None"
  shows "let (resp, d') = handle_s3 env (S3_bucket DELETE n) (sub_request c r) d
    in r_status resp = 204 \<and>
       (\<forall>n' c'. config_view d' n' c' =
          (if n' = n \<and> c \<in> {Versioning, Encryption, Ownership} then s3_write_bucket_error ErrNotFound
           else if n' = n \<and> c' = c then not_configured c else config_view d n' c'))"
proof (cases "c \<in> {Versioning, Encryption, Ownership}")
  case True
  then have "handle_s3 env (S3_bucket DELETE n) (sub_request c r) d = (s3_empty 204, snd (delete_bucket (account_id d) n d))"
    by (auto simp: handle_s3_def s3_delete_bucket_def delete_bucket_found [OF assms(1)])
  with True show ?thesis by (auto simp: config_view_deleted [OF assms(1)] s3_empty_def)
next
  case False
  have pk: "pk s3_config_pk (s3_configs (s3_tbls d))" using assms(2) by (simp add: s3_keys_ok_def)
  let ?d = "d\<lparr>s3_tbls := (s3_tbls d)\<lparr>s3_configs := config_rem (account_id d, n, sub_kind c) (s3_configs (s3_tbls d))\<rparr>\<rparr>"
  have "find (\<lambda>r. s3_config_pk r = (account_id d, n, sub_kind c)) (s3_configs (s3_tbls d)) \<noteq> None"
    using assms(3) by (auto simp: config_at_def)
  then have "delete_bucket_config (account_id d) n (sub_kind c) d = (None, ?d)"
    using assms(1) by (simp add: delete_bucket_config_def config_rem_def affected_0_iff Let_def)
  with False have "handle_s3 env (S3_bucket DELETE n) (sub_request c r) d = (s3_empty 204, ?d)"
    by (cases c) (simp_all add: handle_s3_def s3_delete_bucket_def)
  moreover have "config_view ?d n' c' = (if n' = n \<and> c' = c then not_configured c else config_view d n' c')" for n' c'
    using assms(1) by (auto simp: config_view_store s3_store.look_rem [OF pk] s3_unconfigured_answers)
  ultimately show ?thesis using False by (simp add: s3_empty_def)
qed

text \<open>DELETE of a bucket forgets it: its HEAD answers 404, and a bucket made again under the name has none
  of the configurations it had before; other buckets keep theirs.\<close>

theorem s3_recreated_bucket:
  assumes "get_bucket (account_id d) n d = Inr b" and "n \<noteq> []" and "rr_query r = []" "rr_query r' = []"
  shows "let (deleted, d1) = handle_s3 env (S3_bucket DELETE n) r d; (created, d2) = handle_s3 env' (S3_bucket PUT n) r' d1
    in r_status deleted = 204 \<and> r_status (fst (handle_s3 env (S3_bucket HEAD n) r d1)) = 404 \<and>
       r_status created = 200 \<and> (\<exists>b'. get_bucket (account_id d) n d2 = Inr b' \<and> b_region b' = bucket_region_from_request r') \<and>
       (\<forall>n' c. config_view d2 n' c = (if n' = n then not_configured c else config_view d n' c))"
proof -
  let ?a = "account_id d" and ?d1 = "snd (delete_bucket (account_id d) n d)"
  have q: "\<not> query_has k r" "\<not> query_has k r'" for k using assms(3,4) by (simp_all add: query_has_def)
  have acc: "account_id ?d1 = ?a" by (simp add: delete_bucket_found [OF assms(1)])
  have del: "handle_s3 env (S3_bucket DELETE n) r d = (s3_empty 204, ?d1)"
    using assms(1) by (simp add: handle_s3_def s3_delete_bucket_def q delete_bucket_found)
  have gone: "get_bucket ?a n ?d1 = Inl ErrNotFound" by (simp add: get_bucket_deleted)
  then have none: "find (\<lambda>r. s3_bucket_pk r = (?a, n)) (s3_buckets (s3_tbls ?d1)) = None"
    by (simp add: get_bucket_def split: option.splits)
  let ?b = "\<lparr>br_account = ?a, br_bucket = s3_new_bucket env' r' n\<rparr>"
  have key: "s3_bucket_pk ?b = (?a, n)" by (simp add: s3_bucket_pk_def s3_new_bucket_def)
  define d2 where "d2 = ?d1\<lparr>s3_tbls := (s3_tbls ?d1)\<lparr>s3_buckets := s3_buckets (s3_tbls ?d1) @ [?b]\<rparr>\<rparr>"
  have acc2: "account_id d2 = ?a" by (simp add: d2_def acc)
  have cre: "handle_s3 env' (S3_bucket PUT n) r' ?d1 = (s3_empty 200, d2)"
    by (simp add: handle_s3_def s3_put_bucket_def q assms(2) acc create_bucket_def insert_row_find key none d2_def Let_def)
  have get: "get_bucket ?a n' d2 = (if n' = n then Inr (s3_new_bucket env' r' n) else get_bucket ?a n' d)" for n'
  proof -
    have "get_bucket ?a n' d2 = (if n' = n then Inr (s3_new_bucket env' r' n) else get_bucket ?a n' ?d1)"
      using none by (auto simp: get_bucket_def d2_def find_snoc key split: option.split)
    then show ?thesis by (simp add: get_bucket_deleted)
  qed
  have "config_at (?a, n', k) (s3_configs (s3_tbls d2)) =
      (if n' = n then None else config_at (?a, n', k) (s3_configs (s3_tbls d)))" for n' k
    by (simp add: d2_def delete_bucket_found [OF assms(1)])
  then have "config_view d2 n' c = (if n' = n then not_configured c else config_view d n' c)" for n' c
    using acc2 by (simp add: config_view_store get s3_unconfigured_answers)
  moreover have "r_status (fst (handle_s3 env (S3_bucket HEAD n) r ?d1)) = 404"
    by (simp add: handle_s3_def s3_head_bucket_def acc gone s3_empty_def)
  ultimately show ?thesis by (simp add: del cre get s3_empty_def s3_new_bucket_def)
qed

section \<open>Examples\<close>

definition s3_env :: env where
  "s3_env = \<lparr>e_now = 0, e_rand = []\<rparr>"

definition sample_bucket :: s3_bucket where
  "sample_bucket = \<lparr>b_name = ''logs'', b_region = ''eu-west-1'', b_arn = s3_bucket_arn ''logs'', b_created_at = ''1970-01-01T00:00:00Z''\<rparr>"

definition sample_s3_db :: db where
  "sample_s3_db = empty_db\<lparr>s3_tbls :=
     \<lparr>s3_buckets = [\<lparr>br_account = fake_account_id, br_bucket = sample_bucket\<rparr>],
      s3_configs = [\<lparr>cr_account = fake_account_id, cr_bucket = ''logs'', cr_kind = s3_encryption, cr_data = JStr ''<E/>''\<rparr>]\<rparr>\<rparr>"

definition sample_put :: rest_request where
  "sample_put = bare_request\<lparr>rr_body := ''<Tagging/>'', rr_xml := Some (Elem ''Tagging'' [])\<rparr>"

lemma sample_s3:
  "account_id sample_s3_db = fake_account_id" "get_bucket (account_id sample_s3_db) ''logs'' sample_s3_db = Inr sample_bucket"
  "s3_keys_ok (s3_tbls sample_s3_db)" "s3_tbls_wf (s3_tbls sample_s3_db)"
  "config_at (account_id sample_s3_db, ''logs'', sub_kind Encryption) (s3_configs (s3_tbls sample_s3_db)) = Some (JStr ''<E/>'')"
  by (simp_all add: account_id_def get_identity_def sample_s3_db_def empty_db_def get_bucket_def s3_bucket_pk_def sample_bucket_def
      s3_keys_ok_def s3_tbls_wf_def pk_def bucket_row_wf_def config_owned_def config_at_def s3_config_pk_def)

theorem s3_invariant_witness: "s3_tbls_wf (s3_tbls (s3_run [(s3_env, S3_bucket DELETE ''logs'', bare_request)] sample_s3_db))"
  using s3_invariant [OF sample_s3(4)] by blast

theorem s3_config_registers_witness:
  "config_view (snd (handle_s3 s3_env (S3_bucket PUT ''logs'') (sub_request Bucket_tags sample_put) sample_s3_db)) ''logs'' Bucket_tags =
     s3_replay ''Tagging'' ''<Tagging/>''"
  using s3_config_registers [OF sample_s3(2,3), of s3_env Bucket_tags sample_put]
  by (simp add: split_beta Let_def replayed_def sample_put_def bare_request_def)

theorem s3_delete_subresource_witness:
  "r_status (config_view (snd (handle_s3 s3_env (S3_bucket DELETE ''logs'') (sub_request Encryption bare_request) sample_s3_db))
     ''logs'' Policy) = 404"
proof -
  have "config_at (account_id sample_s3_db, ''logs'', sub_kind Encryption) (s3_configs (s3_tbls sample_s3_db)) \<noteq> None"
    by (simp only: sample_s3(5) option.distinct not_False_eq_True)
  from s3_delete_subresource [OF sample_s3(2,3) this, of s3_env bare_request] show ?thesis
    by (simp add: split_beta Let_def s3_write_bucket_error_def)
qed

theorem s3_recreated_bucket_witness:
  "config_view (snd (handle_s3 s3_env (S3_bucket PUT ''logs'') bare_request
     (snd (handle_s3 s3_env (S3_bucket DELETE ''logs'') bare_request sample_s3_db)))) ''logs'' Encryption = not_configured Encryption"
proof -
  have "rr_query bare_request = []" by (simp add: bare_request_def)
  from s3_recreated_bucket [OF sample_s3(2) _ this this, of s3_env s3_env] show ?thesis by (simp add: split_beta Let_def)
qed

end
