(* ===== verification/Route53.thy ===== *)
theory Route53
  imports Identity Gotime Tags Rest
begin

text \<open>
  Route 53: repository/route53.go and handlers/route53.go. Hosted zones with their record sets, which a
  batch of changes edits all or nothing, and the change records. A record set is kept under its name
  with the trailing dot; a new zone is seeded with the NS and SOA record sets of its apex.
\<close>

section \<open>Hosted zones and record sets (repository)\<close>

definition get_hosted_zone :: "string \<Rightarrow> string \<Rightarrow> db \<Rightarrow> r53_zone result" where
  "get_hosted_zone account zid d =
     (case find (\<lambda>r. r53_zone_pk r = (account, zid)) (r53_zones (r53_tbls d)) of
        None \<Rightarrow> Inl ErrNotFound
      | Some r \<Rightarrow> Inr (zr_zone r))"

definition list_hosted_zones :: "string \<Rightarrow> db \<Rightarrow> r53_zone list" where
  "list_hosted_zones account d =
     sort_key z_id (map zr_zone (filter (\<lambda>r. zr_account r = account) (r53_zones (r53_tbls d))))"

definition put_record_set :: "string \<Rightarrow> r53_record_set \<Rightarrow> db \<Rightarrow> go_error option \<times> db" where
  "put_record_set account rs d =
     (case get_hosted_zone account (rs_zone_id rs) d of
        Inl e \<Rightarrow> (Some e, d)
      | Inr _ \<Rightarrow> (None, d\<lparr>r53_tbls := (r53_tbls d)\<lparr>r53_records :=
          sql_replace r53_record_pk \<lparr>rr_account = account, rr_set = rs\<rparr> (r53_records (r53_tbls d))\<rparr>\<rparr>))"

fun put_record_sets :: "string \<Rightarrow> r53_record_set list \<Rightarrow> db \<Rightarrow> go_error option \<times> db" where
  "put_record_sets account [] d = (None, d)"
| "put_record_sets account (rs # rss) d =
     (case put_record_set account rs d of
        (Some e, d') \<Rightarrow> (Some e, d')
      | (None, d') \<Rightarrow> put_record_sets account rss d')"

definition soa_text :: string where
  "soa_text = ''ns-fakeaws-1.awsdns-99.net. awsdns-hostmaster.amazon.com. 1 7200 900 1209600 86400''"

definition default_records :: "r53_zone \<Rightarrow> r53_record_set list" where
  "default_records z =
     [\<lparr>rs_zone_id = z_id z, rs_name = z_name z, rs_type = ''NS'', rs_ttl = 172800,
       rs_records = [''ns-fakeaws-1.awsdns-99.net.'', ''ns-fakeaws-2.awsdns-99.com.''], rs_alias = None, rs_set_id = []\<rparr>,
      \<lparr>rs_zone_id = z_id z, rs_name = z_name z, rs_type = ''SOA'', rs_ttl = 900,
       rs_records = [soa_text], rs_alias = None, rs_set_id = []\<rparr>]"

definition create_hosted_zone :: "string \<Rightarrow> r53_zone \<Rightarrow> db \<Rightarrow> go_error option \<times> db" where
  "create_hosted_zone account z d =
     (case insert_row r53_zone_pk \<lparr>zr_account = account, zr_zone = z\<rparr> (r53_zones (r53_tbls d)) of
        Inl e \<Rightarrow> (Some e, d)
      | Inr t \<Rightarrow> put_record_sets account (default_records z) (d\<lparr>r53_tbls := (r53_tbls d)\<lparr>r53_zones := t\<rparr>\<rparr>))"

definition of_zone :: "string \<Rightarrow> string \<Rightarrow> r53_record_row \<Rightarrow> bool" where
  "of_zone account zid r \<longleftrightarrow> rr_account r = account \<and> rs_zone_id (rr_set r) = zid"

text \<open>The seeded record sets by type and name, whoever wrote them.\<close>

definition default_record :: "string \<Rightarrow> r53_record_set \<Rightarrow> bool" where
  "default_record zname rs \<longleftrightarrow> rs_type rs \<in> {''NS'', ''SOA''} \<and> rs_name rs = zname"

definition not_empty_text :: "string \<Rightarrow> nat \<Rightarrow> string" where
  "not_empty_text zid n = ''hosted zone '' @ go_quote zid @ '' has '' @ show_nat n @
     '' non-default record(s); delete them first: '' @ error_text ErrConflict"

text \<open>The foreign key takes the record sets away with the zone, and the trigger its tags.\<close>

definition delete_hosted_zone :: "string \<Rightarrow> string \<Rightarrow> db \<Rightarrow> go_error option \<times> db" where
  "delete_hosted_zone account zid d =
     (case get_hosted_zone account zid d of
        Inl e \<Rightarrow> (Some e, d)
      | Inr z \<Rightarrow>
          (let t = r53_tbls d;
               n = affected (\<lambda>r. of_zone account zid r \<and> \<not> default_record (z_name z) (rr_set r)) (r53_records t)
           in if n > 0 then (Some (ErrWrap ErrConflict (not_empty_text zid n)), d)
              else (None, drop_resource_tags account (z_arn z)
                (d\<lparr>r53_tbls := t\<lparr>r53_zones := sql_delete (\<lambda>r. r53_zone_pk r = (account, zid)) (r53_zones t),
                                   r53_records := sql_delete (of_zone account zid) (r53_records t)\<rparr>\<rparr>))))"

text \<open>What GetRecordSet answers; its callers only ask whether there is one.\<close>

definition get_record_set :: "string \<Rightarrow> string \<Rightarrow> string \<Rightarrow> string \<Rightarrow> string \<Rightarrow> db \<Rightarrow> r53_record_set result" where
  "get_record_set account zid name typ setid d =
     (case find (\<lambda>r. r53_record_pk r = (account, zid, name, typ, setid)) (r53_records (r53_tbls d)) of
        None \<Rightarrow> Inl ErrNotFound
      | Some r \<Rightarrow> Inr (rr_set r))"

definition list_record_sets :: "string \<Rightarrow> string \<Rightarrow> db \<Rightarrow> r53_record_set list result" where
  "list_record_sets account zid d =
     (case get_hosted_zone account zid d of
        Inl e \<Rightarrow> Inl e
      | Inr _ \<Rightarrow> Inr (sort_key (\<lambda>rs. (rs_name rs, rs_type rs, rs_set_id rs))
          (map rr_set (filter (of_zone account zid) (r53_records (r53_tbls d))))))"

definition delete_record_set :: "string \<Rightarrow> string \<Rightarrow> string \<Rightarrow> string \<Rightarrow> string \<Rightarrow> db \<Rightarrow> go_error option \<times> db" where
  "delete_record_set account zid name typ setid d =
     (let p = (\<lambda>r. r53_record_pk r = (account, zid, name, typ, setid)); t = r53_tbls d
      in (if affected p (r53_records t) = 0 then Some ErrNotFound else None,
          d\<lparr>r53_tbls := t\<lparr>r53_records := sql_delete p (r53_records t)\<rparr>\<rparr>))"

text \<open>RecordChange, whose error its callers drop.\<close>

definition record_change :: "string \<Rightarrow> r53_change \<Rightarrow> db \<Rightarrow> db" where
  "record_change account c d =
     (case insert_row r53_change_pk \<lparr>hr_account = account, hr_change = c\<rparr> (r53_changes (r53_tbls d)) of
        Inl e \<Rightarrow> d
      | Inr t \<Rightarrow> d\<lparr>r53_tbls := (r53_tbls d)\<lparr>r53_changes := t\<rparr>\<rparr>)"

definition get_change :: "string \<Rightarrow> string \<Rightarrow> db \<Rightarrow> r53_change result" where
  "get_change account cid d =
     (case find (\<lambda>r. r53_change_pk r = (account, cid)) (r53_changes (r53_tbls d)) of
        None \<Rightarrow> Inl ErrNotFound
      | Some r \<Rightarrow> Inr (hr_change r))"

section \<open>Names\<close>

definition trim_dot :: "string \<Rightarrow> string" where
  "trim_dot s = (if has_suffix s ''.'' then butlast s else s)"

definition r53_normalise_name :: "string \<Rightarrow> string" where
  "r53_normalise_name name = trim_dot (lower name)"

definition r53_fqdn :: "string \<Rightarrow> string" where
  "r53_fqdn name = (if name \<noteq> [] \<and> \<not> has_suffix name ''.'' then name @ ''.'' else name)"

definition r53_is_apex :: "string \<Rightarrow> string \<Rightarrow> bool" where
  "r53_is_apex record_name zone_name \<longleftrightarrow> trim_dot record_name = trim_dot zone_name"

definition r53_rand_id :: "nat \<Rightarrow> env \<Rightarrow> string" where
  "r53_rand_id i env = upper (hex_encode (rand_read i env)) @ ''FAKEAWS''"

section \<open>Errors\<close>

abbreviation r53_shape :: wire_shape where
  "r53_shape \<equiv> Shape_query_rpc"

type_synonym r53_code = "int \<times> string"

definition r53_no_such_hosted_zone :: r53_code where "r53_no_such_hosted_zone = (404, ''NoSuchHostedZone'')"
definition r53_no_such_change :: r53_code where "r53_no_such_change = (404, ''NoSuchChange'')"
definition r53_hosted_zone_not_empty :: r53_code where "r53_hosted_zone_not_empty = (400, ''HostedZoneNotEmpty'')"
definition r53_hosted_zone_already_exists :: r53_code where "r53_hosted_zone_already_exists = (409, ''HostedZoneAlreadyExists'')"

definition r53_write_error :: "go_error \<Rightarrow> r53_code \<Rightarrow> r53_code option \<Rightarrow> response" where
  "r53_write_error e not_found conflict =
     (if errors_is e ErrNotFound then write_service_error r53_shape (fst not_found) (snd not_found) (error_text e)
      else case conflict of
        Some c \<Rightarrow> (if errors_is e ErrConflict then write_service_error r53_shape (fst c) (snd c) (error_text e)
                  else write_aws_error r53_shape e)
      | None \<Rightarrow> write_aws_error r53_shape e)"

definition r53_invalid_input :: "string \<Rightarrow> response" where
  "r53_invalid_input msg = write_service_error r53_shape 400 ''InvalidInput'' msg"

definition r53_invalid_change_batch :: "string \<Rightarrow> response" where
  "r53_invalid_change_batch msg = write_service_error r53_shape 400 ''InvalidChangeBatch'' msg"

section \<open>Hosted zone requests\<close>

definition synth_delegation_set :: "string \<Rightarrow> xml" where
  "synth_delegation_set zid = Elem ''DelegationSet'' [Elem ''NameServers''
     [leaf ''NameServer'' (''ns-1.'' @ zid @ ''.awsdns-01.com''), leaf ''NameServer'' (''ns-2.'' @ zid @ ''.awsdns-02.net''),
      leaf ''NameServer'' (''ns-3.'' @ zid @ ''.awsdns-03.org''), leaf ''NameServer'' (''ns-4.'' @ zid @ ''.awsdns-04.co.uk'')]]"

definition r53_zone_to_xml :: "r53_zone \<Rightarrow> xml list" where
  "r53_zone_to_xml z = [leaf ''Id'' (''/hostedzone/'' @ z_id z), leaf ''Name'' (z_name z)] @
     (if z_comment z \<noteq> [] \<or> z_private z
      then [Elem ''Config'' (leaf_omitempty ''Comment'' (z_comment z) @ [leaf ''PrivateZone'' (bool_text (z_private z))])]
      else [])"

definition r53_change_info :: "r53_change \<Rightarrow> xml" where
  "r53_change_info c = Elem ''ChangeInfo''
     [leaf ''Id'' (''/change/'' @ ch_id c), leaf ''Status'' (ch_status c), leaf ''SubmittedAt'' (ch_submitted_at c)]"

definition r53_new_change :: "nat \<Rightarrow> env \<Rightarrow> string \<Rightarrow> r53_change" where
  "r53_new_change i env zid = \<lparr>ch_id = ''C'' @ r53_rand_id i env, ch_zone_id = zid, ch_status = ''INSYNC'',
     ch_submitted_at = rfc3339 (e_now env)\<rparr>"

text \<open>The zone a CreateHostedZone request asks for; None is XML that does not decode.\<close>

definition r53_new_zone :: "env \<Rightarrow> rest_request \<Rightarrow> r53_zone option" where
  "r53_new_zone env r =
     (case xml_root ''CreateHostedZoneRequest'' (rr_xml r) of
        None \<Rightarrow> None
      | Some xs \<Rightarrow>
          (let config = xml_struct ''HostedZoneConfig'' xs; zid = ''Z'' @ r53_rand_id 0 env
           in map_option (\<lambda>priv. \<lparr>z_id = zid, z_name = xml_string ''Name'' xs, z_comment = xml_string ''Comment'' config,
                z_private = priv, z_arn = route53_zone_arn zid, z_created_at = rfc3339 (e_now env)\<rparr>)
              (xml_bool ''PrivateZone'' config)))"

definition r53_create_hosted_zone :: "env \<Rightarrow> string \<Rightarrow> rest_request \<Rightarrow> db \<Rightarrow> response \<times> db" where
  "r53_create_hosted_zone env account r d =
     (case r53_new_zone env r of
        None \<Rightarrow> (r53_invalid_input ''could not parse the request XML'', d)
      | Some z \<Rightarrow>
         (if z_name z = [] then (r53_invalid_input ''Name is required'', d)
          else (case create_hosted_zone account z d of
              (Some e, d') \<Rightarrow> (r53_write_error e r53_no_such_hosted_zone (Some r53_hosted_zone_already_exists), d')
            | (None, d') \<Rightarrow>
                (let c = r53_new_change 1 env (z_id z)
                 in (write_xml 200 (Elem ''CreateHostedZoneResponse''
                       [Elem ''HostedZone'' (r53_zone_to_xml z), r53_change_info c, synth_delegation_set (z_id z)]),
                     record_change account c d')))))"

definition r53_get_hosted_zone :: "string \<Rightarrow> string \<Rightarrow> db \<Rightarrow> response" where
  "r53_get_hosted_zone account path d =
     (case get_hosted_zone account (trim_prefix path ''/hostedzone/'') d of
        Inl e \<Rightarrow> r53_write_error e r53_no_such_hosted_zone None
      | Inr z \<Rightarrow> write_xml 200 (Elem ''GetHostedZoneResponse''
          [Elem ''HostedZone'' (r53_zone_to_xml z), synth_delegation_set (z_id z)]))"

definition r53_list_hosted_zones :: "string \<Rightarrow> db \<Rightarrow> response" where
  "r53_list_hosted_zones account d = write_xml 200 (Elem ''ListHostedZonesResponse''
     [Elem ''HostedZones'' (map (\<lambda>z. Elem ''HostedZone'' (r53_zone_to_xml z)) (list_hosted_zones account d)),
      leaf ''IsTruncated'' ''false''])"

definition r53_delete_hosted_zone :: "env \<Rightarrow> string \<Rightarrow> string \<Rightarrow> db \<Rightarrow> response \<times> db" where
  "r53_delete_hosted_zone env account path d =
     (let zid = trim_prefix path ''/hostedzone/''
      in case delete_hosted_zone account zid d of
        (Some e, d') \<Rightarrow> (r53_write_error e r53_no_such_hosted_zone (Some r53_hosted_zone_not_empty), d')
      | (None, d') \<Rightarrow>
          (let c = r53_new_change 0 env zid
           in (write_xml 200 (Elem ''DeleteHostedZoneResponse'' [r53_change_info c]), record_change account c d')))"

section \<open>Change batches\<close>

record r53_alias_target =
  al_hosted_zone_id :: string
  al_dns_name :: string
  al_evaluate_target_health :: bool

record r53_record_xml =
  x_name :: string
  x_type :: string
  x_ttl :: int
  x_values :: "string list"
  x_set_identifier :: string
  x_alias_target :: "r53_alias_target option"

record r53_batch_change =
  bc_action :: string
  bc_set :: r53_record_xml

definition dec_alias :: "xml list \<Rightarrow> r53_alias_target option" where
  "dec_alias xs = map_option (\<lambda>h. \<lparr>al_hosted_zone_id = xml_string ''HostedZoneId'' xs,
     al_dns_name = xml_string ''DNSName'' xs, al_evaluate_target_health = h\<rparr>) (xml_bool ''EvaluateTargetHealth'' xs)"

definition dec_record_set :: "xml list \<Rightarrow> r53_record_xml option" where
  "dec_record_set xs =
     (case xml_int ''TTL'' xs of
        None \<Rightarrow> None
      | Some ttl \<Rightarrow>
          (case (case xml_pointer ''AliasTarget'' xs of None \<Rightarrow> Some None | Some as \<Rightarrow> map_option Some (dec_alias as)) of
             None \<Rightarrow> None
           | Some al \<Rightarrow> Some \<lparr>x_name = xml_string ''Name'' xs, x_type = xml_string ''Type'' xs, x_ttl = ttl,
               x_values = map (xml_string ''Value'') (xml_slice ''ResourceRecords'' ''ResourceRecord'' xs),
               x_set_identifier = xml_string ''SetIdentifier'' xs, x_alias_target = al\<rparr>))"

definition dec_change :: "xml list \<Rightarrow> r53_batch_change option" where
  "dec_change xs = map_option (\<lambda>rs. \<lparr>bc_action = xml_string ''Action'' xs, bc_set = rs\<rparr>)
     (dec_record_set (xml_struct ''ResourceRecordSet'' xs))"

definition dec_change_batch :: "rest_request \<Rightarrow> r53_batch_change list option" where
  "dec_change_batch r =
     (case xml_root ''ChangeResourceRecordSetsRequest'' (rr_xml r) of
        None \<Rightarrow> None
      | Some xs \<Rightarrow> all_some (map dec_change (xml_slice ''Changes'' ''Change'' (xml_struct ''ChangeBatch'' xs))))"

type_synonym r53_record_key = "string \<times> string \<times> string"

definition change_key :: "r53_batch_change \<Rightarrow> r53_record_key" where
  "change_key ch = (r53_fqdn (x_name (bc_set ch)), x_type (bc_set ch), x_set_identifier (bc_set ch))"

definition existence_text :: "string \<Rightarrow> r53_record_key \<Rightarrow> string \<Rightarrow> string" where
  "existence_text verb k outcome = ''Tried to '' @ verb @ '' resource record set [name='' @ [CHR 0x27] @ fst k @ [CHR 0x27] @
     '', type='' @ [CHR 0x27] @ fst (snd k) @ [CHR 0x27] @ ''] but it '' @ outcome"

text \<open>r53ExistenceError: the message, if any, and the batch map after the change.\<close>

definition r53_existence_error ::
  "string \<Rightarrow> string \<Rightarrow> r53_batch_change \<Rightarrow> (r53_record_key \<times> bool) list \<Rightarrow> db \<Rightarrow> string option \<times> (r53_record_key \<times> bool) list" where
  "r53_existence_error account zid ch batch d =
     (let k = change_key ch;
          exists = (case map_of batch k of Some b \<Rightarrow> b
                    | None \<Rightarrow> (case get_record_set account zid (fst k) (fst (snd k)) (snd (snd k)) d of Inl _ \<Rightarrow> False | Inr _ \<Rightarrow> True))
      in (if bc_action ch = ''CREATE'' \<and> exists then Some (existence_text ''create'' k ''already exists'')
          else if bc_action ch = ''DELETE'' \<and> \<not> exists then Some (existence_text ''delete'' k ''was not found'')
          else None,
          (k, bc_action ch \<noteq> ''DELETE'') # batch))"

fun validate_changes ::
  "string \<Rightarrow> r53_zone \<Rightarrow> db \<Rightarrow> nat \<Rightarrow> (r53_record_key \<times> bool) list \<Rightarrow> r53_batch_change list \<Rightarrow> string option" where
  "validate_changes account z d i batch [] = None"
| "validate_changes account z d i batch (ch # chs) =
     (if bc_action ch \<notin> {''CREATE'', ''UPSERT'', ''DELETE''}
      then Some (''unknown Action '' @ go_quote (bc_action ch) @ '' at index '' @ show_nat i)
      else if x_type (bc_set ch) = ''CNAME'' \<and> r53_is_apex (x_name (bc_set ch)) (z_name z)
      then Some (''apex CNAME forbidden on '' @ go_quote (z_name z) @ '' (use ALIAS)'')
      else if x_name (bc_set ch) = [] \<or> x_type (bc_set ch) = []
      then Some (''Name and Type required at index '' @ show_nat i)
      else case r53_existence_error account (z_id z) ch batch d of
        (Some msg, _) \<Rightarrow> Some msg
      | (None, batch') \<Rightarrow> validate_changes account z d (Suc i) batch' chs)"

definition alias_json :: "r53_alias_target \<Rightarrow> json" where
  "alias_json a = JObj [(''HostedZoneId'', JStr (al_hosted_zone_id a)), (''DNSName'', JStr (al_dns_name a)),
     (''EvaluateTargetHealth'', JBool (al_evaluate_target_health a))]"

definition stored_record :: "string \<Rightarrow> r53_record_xml \<Rightarrow> r53_record_set" where
  "stored_record zid x = \<lparr>rs_zone_id = zid, rs_name = r53_fqdn (x_name x), rs_type = x_type x, rs_ttl = x_ttl x,
     rs_records = x_values x, rs_alias = map_option alias_json (x_alias_target x), rs_set_id = x_set_identifier x\<rparr>"

definition apply_change :: "string \<Rightarrow> string \<Rightarrow> r53_batch_change \<Rightarrow> db \<Rightarrow> go_error option \<times> db" where
  "apply_change account zid ch d =
     (if bc_action ch \<in> {''CREATE'', ''UPSERT''} then put_record_set account (stored_record zid (bc_set ch)) d
      else if bc_action ch = ''DELETE''
      then delete_record_set account zid (r53_fqdn (x_name (bc_set ch))) (x_type (bc_set ch)) (x_set_identifier (bc_set ch)) d
      else (None, d))"

fun apply_changes :: "string \<Rightarrow> string \<Rightarrow> r53_batch_change list \<Rightarrow> db \<Rightarrow> go_error option \<times> db" where
  "apply_changes account zid [] d = (None, d)"
| "apply_changes account zid (ch # chs) d =
     (case apply_change account zid ch d of
        (Some e, d') \<Rightarrow> (Some e, d')
      | (None, d') \<Rightarrow> apply_changes account zid chs d')"

definition r53_change_resource_record_sets :: "env \<Rightarrow> string \<Rightarrow> string \<Rightarrow> rest_request \<Rightarrow> db \<Rightarrow> response \<times> db" where
  "r53_change_resource_record_sets env account path r d =
     (let zid = trim_prefix path ''/hostedzone/''
      in case get_hosted_zone account zid d of
        Inl e \<Rightarrow> (r53_write_error e r53_no_such_hosted_zone None, d)
      | Inr z \<Rightarrow>
          (case dec_change_batch r of
             None \<Rightarrow> (r53_invalid_input ''could not parse the request XML'', d)
           | Some chs \<Rightarrow>
               (case validate_changes account z d 0 [] chs of
                  Some msg \<Rightarrow> (r53_invalid_change_batch msg, d)
                | None \<Rightarrow>
                    (case apply_changes account zid chs d of
                       (Some e, d') \<Rightarrow> (r53_write_error e r53_no_such_hosted_zone None, d')
                     | (None, d') \<Rightarrow>
                         (let c = r53_new_change 0 env zid
                          in (write_xml 200 (Elem ''ChangeResourceRecordSetsResponse'' [r53_change_info c]),
                              record_change account c d'))))))"

section \<open>Listing record sets\<close>

definition record_order :: "r53_record_set \<Rightarrow> string \<times> string \<times> string" where
  "record_order rs = (r53_normalise_name (rs_name rs), rs_type rs, rs_set_id rs)"

text \<open>The records a start key leaves out.\<close>

definition before_start :: "string \<Rightarrow> string \<Rightarrow> string \<Rightarrow> r53_record_set \<Rightarrow> bool" where
  "before_start name typ setid rs \<longleftrightarrow> name \<noteq> [] \<and>
     (let n = r53_normalise_name (rs_name rs); s = r53_normalise_name name
      in n < s \<or> n = s \<and> typ \<noteq> [] \<and> (rs_type rs < typ \<or> rs_type rs = typ \<and> setid \<noteq> [] \<and> rs_set_id rs < setid))"

definition max_items :: "rest_request \<Rightarrow> int" where
  "max_items r = (let v = query_get ''maxitems'' r
     in if v = [] then 0 else case parse_int v of Some n \<Rightarrow> n | None \<Rightarrow> 0)"

definition take_items :: "int \<Rightarrow> 'a list \<Rightarrow> 'a list" where
  "take_items n xs = (if n > 0 \<and> int (length xs) > n then take (nat n) xs else xs)"

definition listed_record_sets :: "rest_request \<Rightarrow> r53_record_set list \<Rightarrow> r53_record_set list" where
  "listed_record_sets r rss = take_items (max_items r)
     (filter (\<lambda>rs. \<not> before_start (query_get ''name'' r) (query_get ''type'' r) (query_get ''identifier'' r) rs)
       (sort_key record_order rss))"

definition alias_xml :: "json \<Rightarrow> xml list" where
  "alias_xml j =
     (if is_obj j \<and> fst (field_string ''HostedZoneId'' j) \<and> fst (field_string ''DNSName'' j) \<and>
         fst (field_bool ''EvaluateTargetHealth'' j)
      then [Elem ''AliasTarget'' [leaf ''HostedZoneId'' (snd (field_string ''HostedZoneId'' j)),
        leaf ''DNSName'' (snd (field_string ''DNSName'' j)),
        leaf ''EvaluateTargetHealth'' (bool_text (snd (field_bool ''EvaluateTargetHealth'' j)))]]
      else [])"

definition record_set_xml :: "r53_record_set \<Rightarrow> xml" where
  "record_set_xml rs = Elem ''ResourceRecordSet''
     ([leaf ''Name'' (if has_suffix (rs_name rs) ''.'' then rs_name rs else rs_name rs @ ''.''), leaf ''Type'' (rs_type rs)] @
      (if rs_ttl rs = 0 then [] else [leaf ''TTL'' (show_int (rs_ttl rs))]) @
      [Elem ''ResourceRecords'' (map (\<lambda>v. Elem ''ResourceRecord'' [leaf ''Value'' v]) (rs_records rs))] @
      leaf_omitempty ''SetIdentifier'' (rs_set_id rs) @
      (case rs_alias rs of None \<Rightarrow> [] | Some j \<Rightarrow> alias_xml j))"

definition r53_list_resource_record_sets :: "string \<Rightarrow> string \<Rightarrow> rest_request \<Rightarrow> db \<Rightarrow> response" where
  "r53_list_resource_record_sets account path r d =
     (case list_record_sets account (trim_prefix path ''/hostedzone/'') d of
        Inl e \<Rightarrow> r53_write_error e r53_no_such_hosted_zone None
      | Inr rss \<Rightarrow> write_xml 200 (Elem ''ListResourceRecordSetsResponse''
          [Elem ''ResourceRecordSets'' (map record_set_xml (listed_record_sets r rss)), leaf ''IsTruncated'' ''false'']))"

section \<open>Changes, DNSSEC and tags\<close>

definition r53_get_change :: "string \<Rightarrow> string \<Rightarrow> db \<Rightarrow> response" where
  "r53_get_change account path d =
     (case get_change account (trim_prefix path ''/change/'') d of
        Inl e \<Rightarrow> r53_write_error e r53_no_such_change None
      | Inr c \<Rightarrow> write_xml 200 (Elem ''GetChangeResponse'' [r53_change_info c]))"

definition r53_get_dnssec :: response where
  "r53_get_dnssec = write_xml 200 (Elem ''GetDNSSECResponse''
     [Elem ''Status'' [leaf ''ServeSignature'' ''NOT_SIGNING''], Elem ''KeySigningKeys'' []])"

text \<open>r53TagTarget: the zone's ARN, or the refusal of a resource type without tags.\<close>

definition r53_tag_target :: "string \<Rightarrow> string \<Rightarrow> response + string" where
  "r53_tag_target rtype rid =
     (if rtype \<noteq> ''hostedzone''
      then Inl (mark_class Filter_refused (write_service_error r53_shape 400 ''InvalidInput''
             (''fakeaws does not tag Route53 resource type '' @ go_quote rtype)))
      else Inr (route53_zone_arn rid))"

definition r53_list_tags_for_resource :: "string \<Rightarrow> string \<Rightarrow> string \<Rightarrow> db \<Rightarrow> response" where
  "r53_list_tags_for_resource account rtype rid d =
     (case r53_tag_target rtype rid of
        Inl resp \<Rightarrow> resp
      | Inr arn \<Rightarrow>
          (case resource_tag_map account Tags_Route53_zone arn d of
             Inl e \<Rightarrow> r53_write_error e r53_no_such_hosted_zone None
           | Inr tags \<Rightarrow> write_xml 200 (Elem ''ListTagsForResourceResponse'' [Elem ''ResourceTagSet''
               [leaf ''ResourceType'' rtype, leaf ''ResourceId'' rid,
                Elem ''Tags'' (tag_list tags (\<lambda>k v. Elem ''Tag'' [leaf ''Key'' k, leaf ''Value'' v]))]])))"

definition r53_change_tags_for_resource :: "string \<Rightarrow> string \<Rightarrow> string \<Rightarrow> rest_request \<Rightarrow> db \<Rightarrow> response \<times> db" where
  "r53_change_tags_for_resource account rtype rid r d =
     (case r53_tag_target rtype rid of
        Inl resp \<Rightarrow> (resp, d)
      | Inr arn \<Rightarrow>
          (case xml_root ''ChangeTagsForResourceRequest'' (rr_xml r) of
             None \<Rightarrow> (r53_invalid_input ''could not parse the request XML'', d)
           | Some xs \<Rightarrow>
               (let add = gm_set_all (map (\<lambda>t. (xml_string ''Key'' t, xml_string ''Value'' t)) (xml_slice ''AddTags'' ''Tag'' xs)) [];
                    remove = map xml_chars (xml_slice ''RemoveTagKeys'' ''Key'' xs)
                in case change_resource_tags account Tags_Route53_zone arn add remove d of
                     (Some e, d') \<Rightarrow> (r53_write_error e r53_no_such_hosted_zone None, d')
                   | (None, d') \<Rightarrow> (write_xml 200 (Elem ''ChangeTagsForResourceResponse'' []), d'))))"

section \<open>Routes\<close>

datatype r53_route =
    R53_zones http_method
  | R53_zone http_method string
  | R53_rrset http_method string
  | R53_change http_method string
  | R53_tags http_method string string
  | R53_dnssec http_method string

definition handle_r53 :: "env \<Rightarrow> r53_route \<Rightarrow> rest_request \<Rightarrow> db \<Rightarrow> response \<times> db" where
  "handle_r53 env route r d =
     (let account = account_id d
      in case route of
        R53_zones GET \<Rightarrow> (r53_list_hosted_zones account d, d)
      | R53_zones POST \<Rightarrow> r53_create_hosted_zone env account r d
      | R53_zone GET path \<Rightarrow> (r53_get_hosted_zone account path d, d)
      | R53_zone DELETE path \<Rightarrow> r53_delete_hosted_zone env account path d
      | R53_rrset POST path \<Rightarrow> r53_change_resource_record_sets env account path r d
      | R53_rrset GET path \<Rightarrow> (r53_list_resource_record_sets account path r d, d)
      | R53_change GET path \<Rightarrow> (r53_get_change account path d, d)
      | R53_tags GET rtype rid \<Rightarrow> (r53_list_tags_for_resource account rtype rid d, d)
      | R53_tags POST rtype rid \<Rightarrow> r53_change_tags_for_resource account rtype rid r d
      | R53_dnssec GET path \<Rightarrow> (r53_get_dnssec, d)
      | _ \<Rightarrow> (write_unimplemented, d))"

text \<open>The route53 block of /mock/state.\<close>

definition gather_route53_state :: "string \<Rightarrow> db \<Rightarrow> json" where
  "gather_route53_state account d =
     (let zs = concat (map (\<lambda>z. case list_record_sets account (z_id z) d of Inl e \<Rightarrow> [] | Inr rss \<Rightarrow> [(z, rss)])
                 (list_hosted_zones account d))
      in JObj
        [(''hosted_zones'', JArr (map (\<lambda>(z, _). JObj [(''id'', JStr (z_id z)), (''name'', JStr (z_name z)),
            (''comment'', JStr (z_comment z)), (''private'', JBool (z_private z)), (''arn'', JStr (z_arn z))]) zs)),
         (''record_sets'', JArr (concat (map (\<lambda>(z, rss). map (\<lambda>rs. JObj
            ([(''zone_id'', JStr (rs_zone_id rs)), (''name'', JStr (rs_name rs)), (''type'', JStr (rs_type rs)),
              (''ttl'', JInt (rs_ttl rs)), (''records'', json_strings (rs_records rs)), (''set_identifier'', JStr (rs_set_id rs))] @
             (case rs_alias rs of None \<Rightarrow> [] | Some j \<Rightarrow> [(''alias_target'', j)])))
            (filter (\<lambda>rs. \<not> default_record (z_name z) rs) rss)) zs)))])"

section \<open>What the operations keep\<close>

text \<open>
  A zone's ARN is that of its id, and every record set belongs to a zone, has a name and a type, and is
  no CNAME at the apex of its zone.
\<close>

definition zone_row_ok :: "r53_zone_row \<Rightarrow> bool" where
  "zone_row_ok r \<longleftrightarrow> z_arn (zr_zone r) = route53_zone_arn (z_id (zr_zone r)) \<and> z_name (zr_zone r) \<noteq> []"

definition record_ok :: "r53_zone \<Rightarrow> r53_record_set \<Rightarrow> bool" where
  "record_ok z rs \<longleftrightarrow> rs_name rs \<noteq> [] \<and> rs_type rs \<noteq> [] \<and>
     (rs_type rs = ''CNAME'' \<longrightarrow> \<not> r53_is_apex (rs_name rs) (z_name z))"

definition record_row_ok :: "r53_zone_row list \<Rightarrow> r53_record_row \<Rightarrow> bool" where
  "record_row_ok zs r \<longleftrightarrow>
     (\<exists>zr\<in>set zs. r53_zone_pk zr = (rr_account r, rs_zone_id (rr_set r)) \<and> record_ok (zr_zone zr) (rr_set r))"

definition r53_tbls_wf :: "r53_db \<Rightarrow> bool" where
  "r53_tbls_wf t \<longleftrightarrow> r53_keys_ok t \<and> (\<forall>r\<in>set (r53_zones t). zone_row_ok r) \<and>
     (\<forall>r\<in>set (r53_records t). record_row_ok (r53_zones t) r)"

definition r53_rest :: "db \<Rightarrow> db" where
  "r53_rest d = d\<lparr>r53_tbls := \<lparr>r53_zones = [], r53_records = [], r53_changes = []\<rparr>, resource_tags := []\<rparr>"

definition r53_keeps :: "db \<Rightarrow> db \<Rightarrow> bool" where
  "r53_keeps d d' \<longleftrightarrow> r53_rest d' = r53_rest d \<and> (r53_tbls_wf (r53_tbls d) \<longrightarrow> r53_tbls_wf (r53_tbls d')) \<and>
     (pk tag_pk (resource_tags d) \<longrightarrow> pk tag_pk (resource_tags d'))"

lemma r53_keeps_refl [simp]: "r53_keeps d d"
  by (simp add: r53_keeps_def)

lemma r53_keeps_trans: "r53_keeps d d1 \<Longrightarrow> r53_keeps d1 d2 \<Longrightarrow> r53_keeps d d2"
  by (simp add: r53_keeps_def)

lemma r53_keeps_tags:
  "(pk tag_pk (resource_tags d) \<Longrightarrow> pk tag_pk t) \<Longrightarrow> r53_keeps d (d\<lparr>resource_tags := t\<rparr>)"
  by (simp add: r53_keeps_def r53_rest_def)

lemma r53_keeps_change_tags: "r53_keeps d (snd (change_resource_tags a tbl arn add remove d))"
  by (auto simp: change_resource_tags_eq intro!: r53_keeps_tags intro: tbl_intros)

lemma r53_keeps_drop_tags: "r53_keeps d (drop_resource_tags a arn d)"
  unfolding drop_resource_tags_def by (rule r53_keeps_tags) (rule pk_delete)

lemma r53_keeps_tbls:
  assumes "r53_tbls_wf (r53_tbls d) \<Longrightarrow> r53_tbls_wf t"
  shows "r53_keeps d (d\<lparr>r53_tbls := t\<rparr>)"
  using assms by (simp add: r53_keeps_def r53_rest_def)

lemma r53_keeps_record_change: "r53_keeps d (record_change a c d)"
proof (cases "insert_row r53_change_pk \<lparr>hr_account = a, hr_change = c\<rparr> (r53_changes (r53_tbls d))")
  case (Inr t)
  then have "pk r53_change_pk (r53_changes (r53_tbls d)) \<Longrightarrow> pk r53_change_pk t" by (rule pk_insert_row [rotated])
  with Inr show ?thesis
    by (auto simp: record_change_def r53_tbls_wf_def r53_keys_ok_def intro!: r53_keeps_tbls)
qed (simp add: record_change_def)

lemma get_hosted_zone_row:
  assumes "get_hosted_zone a zid d = Inr z"
  obtains r where "r \<in> set (r53_zones (r53_tbls d))" "r53_zone_pk r = (a, zid)" "zr_zone r = z"
proof -
  obtain r where "find (\<lambda>r. r53_zone_pk r = (a, zid)) (r53_zones (r53_tbls d)) = Some r" "zr_zone r = z"
    using assms by (auto simp: get_hosted_zone_def split: option.splits)
  then show thesis by (intro that [of r]) (auto simp: find_Some_iff)
qed

lemma r53_keeps_put:
  assumes "\<And>z. get_hosted_zone a (rs_zone_id rs) d = Inr z \<Longrightarrow> record_ok z rs"
  shows "r53_keeps d (snd (put_record_set a rs d))"
proof (cases "get_hosted_zone a (rs_zone_id rs) d")
  case (Inr z)
  obtain zr where zr: "zr \<in> set (r53_zones (r53_tbls d))" "r53_zone_pk zr = (a, rs_zone_id rs)" "zr_zone zr = z"
    by (rule get_hosted_zone_row [OF Inr])
  have "record_row_ok (r53_zones (r53_tbls d)) \<lparr>rr_account = a, rr_set = rs\<rparr>"
    using zr assms [OF Inr] by (auto simp: record_row_ok_def)
  then have "r53_keeps d (d\<lparr>r53_tbls := (r53_tbls d)\<lparr>r53_records :=
      sql_replace r53_record_pk \<lparr>rr_account = a, rr_set = rs\<rparr> (r53_records (r53_tbls d))\<rparr>\<rparr>)"
    by (intro r53_keeps_tbls) (auto simp: r53_tbls_wf_def r53_keys_ok_def pk_replace, auto simp: sql_replace_def)
  with Inr show ?thesis by (simp add: put_record_set_def)
qed (simp add: put_record_set_def)

lemma get_hosted_zone_put [simp]: "get_hosted_zone a zid (snd (put_record_set a' rs d)) = get_hosted_zone a zid d"
  by (simp add: put_record_set_def get_hosted_zone_def split: sum.split)

lemma r53_keeps_puts:
  assumes "\<And>z rs. rs \<in> set rss \<Longrightarrow> get_hosted_zone a (rs_zone_id rs) d = Inr z \<Longrightarrow> record_ok z rs"
  shows "r53_keeps d (snd (put_record_sets a rss d))"
  using assms
proof (induction rss arbitrary: d)
  case (Cons rs rss)
  let ?d = "snd (put_record_set a rs d)"
  have "r53_keeps d ?d" using Cons.prems by (intro r53_keeps_put) auto
  moreover have "r53_keeps ?d (snd (put_record_sets a rss ?d))" using Cons.prems by (intro Cons.IH) auto
  ultimately show ?case by (auto simp: split_beta split: option.split intro: r53_keeps_trans)
qed simp

lemma record_row_ok_mono: "record_row_ok zs r \<Longrightarrow> set zs \<subseteq> set zs' \<Longrightarrow> record_row_ok zs' r"
  by (auto simp: record_row_ok_def)

lemma r53_keeps_create:
  assumes "zone_row_ok \<lparr>zr_account = a, zr_zone = z\<rparr>"
  shows "r53_keeps d (snd (create_hosted_zone a z d))"
proof (cases "insert_row r53_zone_pk \<lparr>zr_account = a, zr_zone = z\<rparr> (r53_zones (r53_tbls d))")
  case (Inr t)
  let ?r = "\<lparr>zr_account = a, zr_zone = z\<rparr>" and ?d = "d\<lparr>r53_tbls := (r53_tbls d)\<lparr>r53_zones := t\<rparr>\<rparr>"
  have t: "t = r53_zones (r53_tbls d) @ [?r]" and none: "find (\<lambda>x. r53_zone_pk x = (a, z_id z)) (r53_zones (r53_tbls d)) = None"
    using Inr by (simp_all add: insert_row_find r53_zone_pk_def split: option.splits)
  have "pk r53_zone_pk (r53_zones (r53_tbls d)) \<Longrightarrow> pk r53_zone_pk t" by (rule pk_insert_row [OF _ Inr])
  moreover have "record_row_ok (r53_zones (r53_tbls d)) r \<Longrightarrow> record_row_ok (r53_zones (r53_tbls d) @ [?r]) r" for r
    by (erule record_row_ok_mono) auto
  ultimately have "r53_keeps d ?d"
    using assms by (intro r53_keeps_tbls) (auto simp: r53_tbls_wf_def r53_keys_ok_def t)
  moreover have "get_hosted_zone a (z_id z) ?d = Inr z"
    using none by (simp add: get_hosted_zone_def t find_snoc r53_zone_pk_def)
  then have "r53_keeps ?d (snd (put_record_sets a (default_records z) ?d))"
    using assms by (intro r53_keeps_puts) (auto simp: default_records_def record_ok_def zone_row_ok_def)
  ultimately show ?thesis using Inr by (auto simp: create_hosted_zone_def intro: r53_keeps_trans)
qed (simp add: create_hosted_zone_def)

lemma r53_keeps_delete_record: "r53_keeps d (snd (delete_record_set a zid n ty s d))"
proof -
  have "r53_keeps d (d\<lparr>r53_tbls := (r53_tbls d)\<lparr>r53_records := sql_delete p (r53_records (r53_tbls d))\<rparr>\<rparr>)" for p
    by (intro r53_keeps_tbls) (auto simp: r53_tbls_wf_def r53_keys_ok_def pk_delete, auto simp: sql_delete_def)
  then show ?thesis by (simp add: delete_record_set_def Let_def)
qed

lemma r53_keeps_delete_zone: "r53_keeps d (snd (delete_hosted_zone a zid d))"
proof (cases "get_hosted_zone a zid d")
  case (Inr z)
  let ?t = "r53_tbls d"
  let ?zs = "sql_delete (\<lambda>r. r53_zone_pk r = (a, zid)) (r53_zones ?t)" and ?rs = "sql_delete (of_zone a zid) (r53_records ?t)"
  have "record_row_ok ?zs r" if "r \<in> set ?rs" "record_row_ok (r53_zones ?t) r" for r
    using that by (auto simp: record_row_ok_def sql_delete_def of_zone_def)
  moreover have "set ?zs \<subseteq> set (r53_zones ?t)" "set ?rs \<subseteq> set (r53_records ?t)" by (auto simp: sql_delete_def)
  ultimately have "r53_tbls_wf ?t \<Longrightarrow> r53_tbls_wf (?t\<lparr>r53_zones := ?zs, r53_records := ?rs\<rparr>)"
    by (simp add: r53_tbls_wf_def r53_keys_ok_def pk_delete) blast
  then have "r53_keeps d (d\<lparr>r53_tbls := ?t\<lparr>r53_zones := ?zs, r53_records := ?rs\<rparr>\<rparr>)" by (rule r53_keeps_tbls)
  from r53_keeps_trans [OF this r53_keeps_drop_tags] Inr show ?thesis by (simp add: delete_hosted_zone_def Let_def)
qed (simp add: delete_hosted_zone_def)

text \<open>A change that passed the batch's validation stores no bad record set.\<close>

definition change_ok :: "r53_zone \<Rightarrow> r53_batch_change \<Rightarrow> bool" where
  "change_ok z ch \<longleftrightarrow> bc_action ch \<in> {''CREATE'', ''UPSERT'', ''DELETE''} \<and>
     \<not> (x_type (bc_set ch) = ''CNAME'' \<and> r53_is_apex (x_name (bc_set ch)) (z_name z)) \<and>
     x_name (bc_set ch) \<noteq> [] \<and> x_type (bc_set ch) \<noteq> []"

lemma trim_dot_snoc [simp]: "trim_dot (s @ ''.'') = s"
  by (simp add: trim_dot_def)

lemma trim_dot_fqdn [simp]: "trim_dot (r53_fqdn n) = trim_dot n"
  by (simp add: r53_fqdn_def) (simp add: trim_dot_def)

lemma r53_fqdn_Nil [simp]: "r53_fqdn n = [] \<longleftrightarrow> n = []"
  by (simp add: r53_fqdn_def)

lemma change_ok_record: "change_ok z ch \<Longrightarrow> record_ok z (stored_record zid (bc_set ch))"
  by (auto simp: change_ok_def record_ok_def stored_record_def r53_is_apex_def)

lemma validate_changes_Cons:
  "validate_changes a z d i batch (ch # chs) = None \<longleftrightarrow> change_ok z ch \<and>
     fst (r53_existence_error a (z_id z) ch batch d) = None \<and>
     validate_changes a z d (Suc i) (snd (r53_existence_error a (z_id z) ch batch d)) chs = None"
  by (auto simp: change_ok_def split: prod.split option.split)

declare validate_changes.simps(2) [simp del]

lemma validate_changes_ok: "validate_changes a z d i batch chs = None \<Longrightarrow> ch \<in> set chs \<Longrightarrow> change_ok z ch"
  by (induction chs arbitrary: i batch) (auto simp: validate_changes_Cons)

lemma get_hosted_zone_apply [simp]: "get_hosted_zone a zid' (snd (apply_change a zid ch d)) = get_hosted_zone a zid' d"
proof -
  have "get_hosted_zone a zid' (snd (delete_record_set a zid n ty s d)) = get_hosted_zone a zid' d" for n ty s
    by (simp add: delete_record_set_def Let_def get_hosted_zone_def)
  then show ?thesis by (simp add: apply_change_def)
qed

lemma r53_keeps_apply:
  assumes "get_hosted_zone a zid d = Inr z" and "\<And>ch. ch \<in> set chs \<Longrightarrow> change_ok z ch"
  shows "r53_keeps d (snd (apply_changes a zid chs d))"
  using assms
proof (induction chs arbitrary: d)
  case (Cons ch chs)
  let ?d = "snd (apply_change a zid ch d)"
  have "record_ok z (stored_record zid (bc_set ch))" using Cons.prems(2) by (intro change_ok_record) simp
  then have "r53_keeps d (snd (put_record_set a (stored_record zid (bc_set ch)) d))"
    using Cons.prems(1) by (intro r53_keeps_put) (simp add: stored_record_def)
  then have "r53_keeps d ?d" by (simp add: apply_change_def r53_keeps_delete_record)
  moreover have "r53_keeps ?d (snd (apply_changes a zid chs ?d))" using Cons.prems by (intro Cons.IH) auto
  ultimately show ?case by (auto simp: split_beta split: option.split intro: r53_keeps_trans)
qed simp

text \<open>So does every request.\<close>

lemma r53_keeps_then: "r53_keeps d d1 \<Longrightarrow> r53_keeps d (record_change a c d1)"
  using r53_keeps_trans [OF _ r53_keeps_record_change] .

lemma r53_keeps_batch: "r53_keeps d (snd (r53_change_resource_record_sets env a path r d))"
proof (cases "get_hosted_zone a (trim_prefix path ''/hostedzone/'') d")
  case (Inr z)
  have "r53_keeps d (snd (apply_changes a (trim_prefix path ''/hostedzone/'') chs d))"
    if "validate_changes a z d 0 [] chs = None" for chs
    using that by (intro r53_keeps_apply [OF Inr]) (rule validate_changes_ok)
  then show ?thesis
    using Inr by (auto simp: r53_change_resource_record_sets_def Let_def split_beta
        split: option.split intro: r53_keeps_then)
qed (simp add: r53_change_resource_record_sets_def)

lemma r53_new_zone_ok: "r53_new_zone env r = Some z \<Longrightarrow> z_name z \<noteq> [] \<Longrightarrow> zone_row_ok \<lparr>zr_account = a, zr_zone = z\<rparr>"
  by (auto simp: r53_new_zone_def zone_row_ok_def Let_def split: option.splits)

lemma r53_keeps_create_zone: "r53_keeps d (snd (r53_create_hosted_zone env a r d))"
proof (cases "r53_new_zone env r")
  case (Some z)
  have "r53_keeps d (snd (create_hosted_zone a z d))" if "z_name z \<noteq> []"
    using r53_new_zone_ok [OF Some that] by (rule r53_keeps_create)
  with Some show ?thesis
    by (auto simp: r53_create_hosted_zone_def Let_def split_beta split: option.split intro: r53_keeps_then)
qed (simp add: r53_create_hosted_zone_def)

lemma r53_keeps_delete: "r53_keeps d (snd (r53_delete_hosted_zone env a path d))"
  using r53_keeps_delete_zone [of d a "trim_prefix path ''/hostedzone/''"]
  by (auto simp: r53_delete_hosted_zone_def Let_def split_beta split: option.split intro: r53_keeps_then)

lemma r53_keeps_tag_request: "r53_keeps d (snd (r53_change_tags_for_resource a rt rid r d))"
  using r53_keeps_change_tags [of d]
  by (auto simp: r53_change_tags_for_resource_def Let_def split_beta split: option.split sum.split)

lemma handle_r53_keeps: "r53_keeps d (snd (handle_r53 env route r d))"
  by (simp add: handle_r53_def Let_def r53_keeps_batch r53_keeps_create_zone r53_keeps_delete r53_keeps_tag_request
      split: r53_route.split http_method.split)

lemma account_id_r53_rest: "account_id d = account_id (r53_rest d)"
  by (simp add: account_id_def get_identity_def r53_rest_def)

lemma account_id_handle_r53 [simp]: "account_id (snd (handle_r53 env route r d)) = account_id d"
  using handle_r53_keeps [of d env route r] account_id_r53_rest [of d]
    account_id_r53_rest [of "snd (handle_r53 env route r d)"]
  by (simp add: r53_keeps_def)

type_synonym r53_event = "env \<times> r53_route \<times> rest_request"

definition r53_run :: "r53_event list \<Rightarrow> db \<Rightarrow> db" where
  "r53_run es d = fold (\<lambda>(env, route, r) d. snd (handle_r53 env route r d)) es d"

lemma r53_run_keeps: "r53_keeps d (r53_run es d)"
proof (induction es arbitrary: d)
  case (Cons e es)
  have "r53_keeps d (snd (handle_r53 (fst e) (fst (snd e)) (snd (snd e)) d))" by (rule handle_r53_keeps)
  then show ?case using Cons.IH by (auto simp: r53_run_def split_beta intro: r53_keeps_trans)
qed (simp add: r53_run_def)

section \<open>The abstract zone\<close>

text \<open>
  The specification of a batch: a zone is a map from record keys to what they hold, and a batch is
  applied change by change, each checked against the map the earlier ones left, or refused whole.
\<close>

type_synonym record_content = "int \<times> string list \<times> json option"
type_synonym zone_map = "r53_record_key \<Rightarrow> record_content option"

definition record_content :: "r53_record_set \<Rightarrow> record_content" where
  "record_content rs = (rs_ttl rs, rs_records rs, rs_alias rs)"

definition zone_view :: "string \<Rightarrow> string \<Rightarrow> db \<Rightarrow> zone_map" where
  "zone_view account zid d k = map_option (\<lambda>r. record_content (rr_set r))
     (find (\<lambda>r. r53_record_pk r = (account, zid, k)) (r53_records (r53_tbls d)))"

definition spec_change :: "r53_zone \<Rightarrow> r53_batch_change \<Rightarrow> zone_map \<Rightarrow> zone_map option" where
  "spec_change z ch m =
     (if \<not> change_ok z ch then None
      else if bc_action ch = ''CREATE'' \<and> change_key ch \<in> dom m then None
      else if bc_action ch = ''DELETE'' \<and> change_key ch \<notin> dom m then None
      else if bc_action ch = ''DELETE'' then Some (m(change_key ch := None))
      else Some (m(change_key ch \<mapsto> record_content (stored_record (z_id z) (bc_set ch)))))"

fun spec_batch :: "r53_zone \<Rightarrow> r53_batch_change list \<Rightarrow> zone_map \<Rightarrow> zone_map option" where
  "spec_batch z [] m = Some m"
| "spec_batch z (ch # chs) m = (case spec_change z ch m of None \<Rightarrow> None | Some m' \<Rightarrow> spec_batch z chs m')"

definition key_exists :: "string \<Rightarrow> string \<Rightarrow> db \<Rightarrow> (r53_record_key \<times> bool) list \<Rightarrow> r53_record_key \<Rightarrow> bool" where
  "key_exists account zid d batch k = (case map_of batch k of Some b \<Rightarrow> b | None \<Rightarrow> k \<in> dom (zone_view account zid d))"

lemma get_record_set_view:
  "(case get_record_set a zid (fst k) (fst (snd k)) (snd (snd k)) d of Inl _ \<Rightarrow> False | Inr _ \<Rightarrow> True) \<longleftrightarrow>
     k \<in> dom (zone_view a zid d)"
  by (auto simp: get_record_set_def zone_view_def dom_def split: option.split)

lemma existence_error_iff:
  "fst (r53_existence_error a zid ch batch d) = None \<longleftrightarrow>
     \<not> (bc_action ch = ''CREATE'' \<and> key_exists a zid d batch (change_key ch)) \<and>
     \<not> (bc_action ch = ''DELETE'' \<and> \<not> key_exists a zid d batch (change_key ch))"
  by (cases "map_of batch (change_key ch)")
     (simp_all add: r53_existence_error_def Let_def key_exists_def get_record_set_view)

lemma snd_existence_error:
  "snd (r53_existence_error a zid ch batch d) = (change_key ch, bc_action ch \<noteq> ''DELETE'') # batch"
  by (simp add: r53_existence_error_def Let_def)

text \<open>The validation accepts exactly the batches the specification does.\<close>

lemma validate_changes_spec:
  assumes "\<And>k. key_exists a (z_id z) d batch k \<longleftrightarrow> k \<in> dom m"
  shows "validate_changes a z d i batch chs = None \<longleftrightarrow> spec_batch z chs m \<noteq> None"
  using assms
proof (induction chs arbitrary: i batch m)
  case (Cons ch chs)
  show ?case
  proof (cases "spec_change z ch m")
    case None
    then show ?thesis
      using Cons.prems by (auto simp: validate_changes_Cons existence_error_iff spec_change_def split: if_splits)
  next
    case (Some m')
    then have ok: "change_ok z ch" "fst (r53_existence_error a (z_id z) ch batch d) = None"
      using Cons.prems by (auto simp: existence_error_iff spec_change_def split: if_splits)
    have "dom m' = (if bc_action ch = ''DELETE'' then dom m - {change_key ch} else insert (change_key ch) (dom m))"
      using Some [symmetric] by (simp add: spec_change_def split: if_splits)
    then have "key_exists a (z_id z) d ((change_key ch, bc_action ch \<noteq> ''DELETE'') # batch) k \<longleftrightarrow> k \<in> dom m'" for k
      using Cons.prems [of k] by (auto simp: key_exists_def)
    from Cons.IH [of _ m' "Suc i", OF this] ok Some show ?thesis
      by (simp add: validate_changes_Cons snd_existence_error)
  qed
qed simp

lemma change_key_pk:
  "r53_record_pk \<lparr>rr_account = a, rr_set = stored_record zid (bc_set ch)\<rparr> = (a, zid, change_key ch)"
  by (simp add: r53_record_pk_def stored_record_def change_key_def)

text \<open>One accepted change does to the stored zone what it does to the abstract one.\<close>

lemma zone_view_delete:
  "zone_view a' zid' (d\<lparr>r53_tbls := (r53_tbls d)\<lparr>r53_records :=
       sql_delete (\<lambda>r. r53_record_pk r = (a, zid, k)) (r53_records (r53_tbls d))\<rparr>\<rparr>) =
     (if a' = a \<and> zid' = zid then (zone_view a zid d)(k := None) else zone_view a' zid' d)"
  by (rule ext) (simp add: zone_view_def find_sql_delete_key)

lemma zone_view_replace:
  assumes "r53_record_pk \<lparr>rr_account = a, rr_set = rs\<rparr> = (a, zid, k)"
  shows "zone_view a' zid' (d\<lparr>r53_tbls := (r53_tbls d)\<lparr>r53_records :=
       sql_replace r53_record_pk \<lparr>rr_account = a, rr_set = rs\<rparr> (r53_records (r53_tbls d))\<rparr>\<rparr>) =
     (if a' = a \<and> zid' = zid then (zone_view a zid d)(k \<mapsto> record_content rs) else zone_view a' zid' d)"
  by (rule ext) (simp add: zone_view_def find_sql_replace assms)

lemma apply_change_spec:
  assumes "get_hosted_zone a (z_id z) d = Inr z" and "spec_change z ch (zone_view a (z_id z) d) = Some m"
  shows "fst (apply_change a (z_id z) ch d) = None \<and>
    zone_view a' zid' (snd (apply_change a (z_id z) ch d)) = (if a' = a \<and> zid' = z_id z then m else zone_view a' zid' d)"
proof (cases "bc_action ch = ''DELETE''")
  case True
  let ?d = "d\<lparr>r53_tbls := (r53_tbls d)\<lparr>r53_records :=
       sql_delete (\<lambda>r. r53_record_pk r = (a, z_id z, change_key ch)) (r53_records (r53_tbls d))\<rparr>\<rparr>"
  from True assms(2) have m: "m = (zone_view a (z_id z) d)(change_key ch := None)" and k: "change_key ch \<in> dom (zone_view a (z_id z) d)"
    by (simp_all add: spec_change_def split: if_splits)
  from k have "affected (\<lambda>r. r53_record_pk r = (a, z_id z, change_key ch)) (r53_records (r53_tbls d)) \<noteq> 0"
    by (auto simp: affected_0_iff zone_view_def)
  with True have "apply_change a (z_id z) ch d = (None, ?d)"
    by (simp add: apply_change_def delete_record_set_def Let_def change_key_def)
  then show ?thesis by (simp add: m zone_view_delete)
next
  case False
  let ?rs = "stored_record (z_id z) (bc_set ch)"
  let ?d = "d\<lparr>r53_tbls := (r53_tbls d)\<lparr>r53_records :=
       sql_replace r53_record_pk \<lparr>rr_account = a, rr_set = ?rs\<rparr> (r53_records (r53_tbls d))\<rparr>\<rparr>"
  from False assms(2) have m: "m = (zone_view a (z_id z) d)(change_key ch \<mapsto> record_content ?rs)" and
    act: "bc_action ch \<in> {''CREATE'', ''UPSERT''}"
    by (auto simp: spec_change_def change_ok_def split: if_splits)
  have "rs_zone_id ?rs = z_id z" by (simp add: stored_record_def)
  with act assms(1) have "apply_change a (z_id z) ch d = (None, ?d)"
    by (simp only: apply_change_def put_record_set_def if_True sum.case)
  then show ?thesis by (simp add: m zone_view_replace [OF change_key_pk])
qed

lemma apply_changes_spec:
  assumes "get_hosted_zone a (z_id z) d = Inr z" and "spec_batch z chs (zone_view a (z_id z) d) = Some m"
  shows "fst (apply_changes a (z_id z) chs d) = None \<and>
    zone_view a' zid' (snd (apply_changes a (z_id z) chs d)) = (if a' = a \<and> zid' = z_id z then m else zone_view a' zid' d)"
  using assms
proof (induction chs arbitrary: d)
  case (Cons ch chs)
  obtain m1 where m1: "spec_change z ch (zone_view a (z_id z) d) = Some m1" "spec_batch z chs m1 = Some m"
    using Cons.prems(2) by (auto split: option.splits)
  let ?d = "snd (apply_change a (z_id z) ch d)"
  have step: "fst (apply_change a (z_id z) ch d) = None"
    "zone_view a'' zid'' ?d = (if a'' = a \<and> zid'' = z_id z then m1 else zone_view a'' zid'' d)" for a'' zid''
    using apply_change_spec [OF Cons.prems(1) m1(1)] by blast+
  have "get_hosted_zone a (z_id z) ?d = Inr z" "spec_batch z chs (zone_view a (z_id z) ?d) = Some m"
    using Cons.prems(1) m1(2) by (simp_all add: step(2))
  from Cons.IH [OF this] step show ?case by (auto simp: split_beta)
qed auto

lemma zone_view_record_change [simp]: "zone_view a zid (record_change a' c d) = zone_view a zid d"
  by (simp add: record_change_def zone_view_def fun_eq_iff split: sum.split)

lemma get_hosted_zone_id: "get_hosted_zone a zid d = Inr z \<Longrightarrow> z_id z = zid"
  by (erule get_hosted_zone_row) (auto simp: r53_zone_pk_def)

lemma get_hosted_zone_record_change [simp]: "get_hosted_zone a zid (record_change a' c d) = get_hosted_zone a zid d"
  by (simp add: record_change_def get_hosted_zone_def split: sum.split)

lemma get_hosted_zone_applies [simp]:
  "get_hosted_zone a zid' (snd (apply_changes a zid chs d)) = get_hosted_zone a zid' d"
  by (induction chs arbitrary: d) (auto simp: split_beta split: option.split)

text \<open>The least element of a sorted list comes first.\<close>

lemma take_least:
  fixes f :: "'a \<Rightarrow> 'b :: linorder"
  assumes "sorted (map f xs)" and "x \<in> set xs" and "\<And>y. y \<in> set xs \<Longrightarrow> y = x \<or> f x < f y"
  shows "take_items 1 xs = [x]"
proof (cases xs)
  case (Cons y ys)
  have "y = x"
  proof (rule ccontr)
    assume "y \<noteq> x"
    with assms(3) [of y] Cons have less: "f x < f y" by simp
    from \<open>y \<noteq> x\<close> assms(2) Cons have "x \<in> set ys" by simp
    with assms(1) Cons have "f y \<le> f x" by simp
    with less show False by simp
  qed
  with Cons show ?thesis by (cases ys) (simp_all add: take_items_def)
qed (use assms(2) in simp)

lemma sorted_filter_key: "sorted (map f xs) \<Longrightarrow> sorted (map f (filter p xs))"
  by (induction xs) auto

text \<open>The two answers the change and delete requests build on.\<close>

lemma r53_batch_accepted:
  assumes "get_hosted_zone (account_id d) (trim_prefix path ''/hostedzone/'') d = Inr z" and "dec_change_batch r = Some chs"
    and "spec_batch z chs (zone_view (account_id d) (z_id z) d) = Some m"
  obtains d1 where "handle_r53 env (R53_rrset POST path) r d =
      (write_xml 200 (Elem ''ChangeResourceRecordSetsResponse'' [r53_change_info (r53_new_change 0 env (z_id z))]), d1)"
    and "\<And>zid. get_hosted_zone (account_id d) zid d1 = get_hosted_zone (account_id d) zid d"
    and "\<And>a zid. zone_view a zid d1 = (if a = account_id d \<and> zid = z_id z then m else zone_view a zid d)"
proof -
  let ?a = "account_id d"
  have zid: "trim_prefix path ''/hostedzone/'' = z_id z" using get_hosted_zone_id [OF assms(1)] by simp
  with assms(1) have z: "get_hosted_zone ?a (z_id z) d = Inr z" by simp
  have val: "validate_changes ?a z d 0 [] chs = None"
    using validate_changes_spec [of ?a z d "[]" "zone_view ?a (z_id z) d" 0 chs] assms(3) by (simp add: key_exists_def)
  obtain d1 where d1: "apply_changes ?a (z_id z) chs d = (None, d1)"
    using apply_changes_spec [OF z assms(3)] by (cases "apply_changes ?a (z_id z) chs d") auto
  show thesis
  proof (rule that)
    show "handle_r53 env (R53_rrset POST path) r d =
        (write_xml 200 (Elem ''ChangeResourceRecordSetsResponse'' [r53_change_info (r53_new_change 0 env (z_id z))]),
         record_change ?a (r53_new_change 0 env (z_id z)) d1)"
      by (simp add: handle_r53_def r53_change_resource_record_sets_def zid z val assms(2) d1 Let_def)
    show "zone_view a zid (record_change ?a (r53_new_change 0 env (z_id z)) d1) =
        (if a = ?a \<and> zid = z_id z then m else zone_view a zid d)" for a zid
      using apply_changes_spec [OF z assms(3), of a zid] by (simp add: d1)
    show "get_hosted_zone ?a zid (record_change ?a (r53_new_change 0 env (z_id z)) d1) = get_hosted_zone ?a zid d" for zid
      using get_hosted_zone_applies [of ?a zid "z_id z" chs d] by (simp add: d1)
  qed
qed

lemma r53_delete_refused:
  assumes "get_hosted_zone (account_id d) (trim_prefix path ''/hostedzone/'') d = Inr z"
    and "\<exists>x\<in>set (r53_records (r53_tbls d)). of_zone (account_id d) (z_id z) x \<and> \<not> default_record (z_name z) (rr_set x)"
  obtains msg where "handle_r53 env (R53_zone DELETE path) r d = (write_service_error r53_shape 400 ''HostedZoneNotEmpty'' msg, d)"
proof -
  let ?n = "affected (\<lambda>r. of_zone (account_id d) (z_id z) r \<and> \<not> default_record (z_name z) (rr_set r)) (r53_records (r53_tbls d))"
  have zid: "trim_prefix path ''/hostedzone/'' = z_id z" using get_hosted_zone_id [OF assms(1)] by simp
  have "?n \<noteq> 0" using assms(2) by (auto simp: affected_0_iff find_None_iff)
  then have "delete_hosted_zone (account_id d) (z_id z) d = (Some (ErrWrap ErrConflict (not_empty_text (z_id z) ?n)), d)"
    using assms(1) by (simp add: delete_hosted_zone_def zid Let_def)
  then show thesis
    by (intro that) (simp add: handle_r53_def r53_delete_hosted_zone_def zid r53_write_error_def r53_hosted_zone_not_empty_def Let_def)
qed

section \<open>Properties\<close>

text \<open>C17. Whatever the Route 53 requests, zones keep the ARN of their id and a name, every record set belongs to
  a zone and has a name and a type, no CNAME stands at the apex of a zone, keys stay unique, and only the
  Route 53 tables and the tags change.\<close>

theorem r53_invariant:
  assumes "r53_tbls_wf (r53_tbls d)"
  shows "r53_tbls_wf (r53_tbls (r53_run es d)) \<and> r53_rest (r53_run es d) = r53_rest d"
  using assms r53_run_keeps [of d es] by (simp add: r53_keeps_def)

text \<open>C16. ChangeResourceRecordSets implements the abstract batch: when the specification refuses the batch it
  answers 400 InvalidChangeBatch and changes nothing, however many of its changes were good; when the
  specification accepts it, it answers 200, the zone holds exactly the specified record sets and every
  other zone what it held.\<close>

theorem r53_batch_refines:
  assumes "get_hosted_zone (account_id d) (trim_prefix path ''/hostedzone/'') d = Inr z" and "dec_change_batch r = Some chs"
  shows "let (resp, d') = handle_r53 env (R53_rrset POST path) r d
    in case spec_batch z chs (zone_view (account_id d) (z_id z) d) of
         None \<Rightarrow> r_status resp = 400 \<and> error_code resp = Some ''InvalidChangeBatch'' \<and> d' = d
       | Some m \<Rightarrow> r_status resp = 200 \<and>
           (\<forall>a zid. get_hosted_zone (account_id d) zid d' = get_hosted_zone (account_id d) zid d \<and>
              zone_view a zid d' = (if a = account_id d \<and> zid = z_id z then m else zone_view a zid d))"
proof (cases "spec_batch z chs (zone_view (account_id d) (z_id z) d)")
  case None
  let ?a = "account_id d"
  have zid: "trim_prefix path ''/hostedzone/'' = z_id z" using get_hosted_zone_id [OF assms(1)] by simp
  with assms(1) have z: "get_hosted_zone ?a (z_id z) d = Inr z" by simp
  have "validate_changes ?a z d 0 [] chs \<noteq> None"
    using validate_changes_spec [of ?a z d "[]" "zone_view ?a (z_id z) d" 0 chs] None by (simp add: key_exists_def)
  then obtain msg where "validate_changes ?a z d 0 [] chs = Some msg" by auto
  with None show ?thesis
    by (simp add: handle_r53_def r53_change_resource_record_sets_def zid z assms(2) r53_invalid_change_batch_def error_code_service)
next
  case (Some m)
  obtain d1 where "handle_r53 env (R53_rrset POST path) r d =
      (write_xml 200 (Elem ''ChangeResourceRecordSetsResponse'' [r53_change_info (r53_new_change 0 env (z_id z))]), d1)"
    and "\<And>zid. get_hosted_zone (account_id d) zid d1 = get_hosted_zone (account_id d) zid d"
    and "\<And>a zid. zone_view a zid d1 = (if a = account_id d \<and> zid = z_id z then m else zone_view a zid d)"
    by (rule r53_batch_accepted [OF assms Some, of env]) blast
  then show ?thesis by (simp add: Some write_xml_def)
qed

text \<open>The provider's read of one record set finds it: a list from its name (in any case, with or without the
  trailing dot) and type with maxitems 1 answers exactly that record set, wherever it stands in the zone.\<close>

theorem r53_read_record:
  assumes "get_hosted_zone (account_id d) (trim_prefix path ''/hostedzone/'') d = Inr z"
    and "x \<in> set (r53_records (r53_tbls d))" "of_zone (account_id d) (z_id z) x" "rr_set x = rs"
    and "\<And>y. y \<in> set (r53_records (r53_tbls d)) \<Longrightarrow> of_zone (account_id d) (z_id z) y \<Longrightarrow>
      r53_normalise_name (rs_name (rr_set y)) = r53_normalise_name (rs_name rs) \<Longrightarrow> rs_type (rr_set y) = rs_type rs \<Longrightarrow> rr_set y = rs"
    and "r53_normalise_name (query_get ''name'' r) = r53_normalise_name (rs_name rs)" "query_get ''name'' r \<noteq> []"
    and "query_get ''type'' r = rs_type rs" "rs_type rs \<noteq> []" "query_get ''identifier'' r = []" "query_get ''maxitems'' r = ''1''"
  shows "handle_r53 env (R53_rrset GET path) r d =
    (write_xml 200 (Elem ''ListResourceRecordSetsResponse''
       [Elem ''ResourceRecordSets'' [record_set_xml rs], leaf ''IsTruncated'' ''false'']), d)"
proof -
  let ?a = "account_id d"
  let ?sets = "map rr_set (filter (of_zone ?a (z_id z)) (r53_records (r53_tbls d)))"
  let ?all = "sort_key record_order (sort_key (\<lambda>rs. (rs_name rs, rs_type rs, rs_set_id rs)) ?sets)"
  let ?from = "filter (\<lambda>y. \<not> before_start (query_get ''name'' r) (query_get ''type'' r) (query_get ''identifier'' r) y) ?all"
  have in_set: "rs \<in> set ?all" using assms(2-4) by auto
  have start: "before_start (query_get ''name'' r) (query_get ''type'' r) (query_get ''identifier'' r) y \<longleftrightarrow>
      (r53_normalise_name (rs_name y), rs_type y) < (r53_normalise_name (rs_name rs), rs_type rs)" for y
    using assms(6-10) by (auto simp: before_start_def Let_def less_prod_def)
  have "y = rs \<or> record_order rs < record_order y" if "y \<in> set ?from" for y
  proof (cases "r53_normalise_name (rs_name y) = r53_normalise_name (rs_name rs) \<and> rs_type y = rs_type rs")
    case True
    with that assms(5) show ?thesis by auto
  next
    case False
    from that have "\<not> (r53_normalise_name (rs_name y), rs_type y) < (r53_normalise_name (rs_name rs), rs_type rs)"
      by (simp add: start)
    with False show ?thesis by (auto simp: record_order_def less_prod_def)
  qed
  moreover have "rs \<in> set ?from" using in_set by (simp add: start)
  moreover have "sorted (map record_order ?from)" by (rule sorted_filter_key) simp
  ultimately have "take_items 1 ?from = [rs]" by (intro take_least [of record_order]) auto
  moreover have "max_items r = 1" by (simp add: max_items_def assms(11) parse_int_def signed_digits_def digit_value_def int64_range_def)
  ultimately have "listed_record_sets r (sort_key (\<lambda>rs. (rs_name rs, rs_type rs, rs_set_id rs)) ?sets) = [rs]"
    by (simp only: listed_record_sets_def)
  moreover have "trim_prefix path ''/hostedzone/'' = z_id z" using get_hosted_zone_id [OF assms(1)] by simp
  ultimately show ?thesis
    using assms(1) by (simp add: handle_r53_def r53_list_resource_record_sets_def list_record_sets_def)
qed

text \<open>C18. DeleteHostedZone refuses a zone that holds any record set but the NS and SOA of its name, with 400
  HostedZoneNotEmpty, and changes nothing; otherwise the zone, its record sets and its tags are gone and
  the other zones keep theirs.\<close>

theorem r53_delete_zone:
  assumes "get_hosted_zone (account_id d) (trim_prefix path ''/hostedzone/'') d = Inr z"
  shows "let (resp, d') = handle_r53 env (R53_zone DELETE path) r d
    in if \<exists>x\<in>set (r53_records (r53_tbls d)). of_zone (account_id d) (z_id z) x \<and> \<not> default_record (z_name z) (rr_set x)
       then r_status resp = 400 \<and> error_code resp = Some ''HostedZoneNotEmpty'' \<and> d' = d
       else r_status resp = 200 \<and> tags_of (account_id d) (z_arn z) (resource_tags d') = [] \<and>
         (\<forall>zid. get_hosted_zone (account_id d) zid d' =
             (if zid = z_id z then Inl ErrNotFound else get_hosted_zone (account_id d) zid d) \<and>
           zone_view (account_id d) zid d' = (if zid = z_id z then Map.empty else zone_view (account_id d) zid d))"
proof -
  let ?a = "account_id d" and ?t = "r53_tbls d"
  have zid: "trim_prefix path ''/hostedzone/'' = z_id z" using get_hosted_zone_id [OF assms] by simp
  with assms have z: "get_hosted_zone ?a (z_id z) d = Inr z" by simp
  let ?n = "affected (\<lambda>r. of_zone ?a (z_id z) r \<and> \<not> default_record (z_name z) (rr_set r)) (r53_records ?t)"
  have n: "?n = 0 \<longleftrightarrow> \<not> (\<exists>x\<in>set (r53_records ?t). of_zone ?a (z_id z) x \<and> \<not> default_record (z_name z) (rr_set x))"
    by (auto simp: affected_0_iff find_None_iff)
  show ?thesis
  proof (cases "?n = 0")
    case False
    with n have ex: "\<exists>x\<in>set (r53_records (r53_tbls d)). of_zone ?a (z_id z) x \<and> \<not> default_record (z_name z) (rr_set x)" by blast
    obtain msg where "handle_r53 env (R53_zone DELETE path) r d = (write_service_error r53_shape 400 ''HostedZoneNotEmpty'' msg, d)"
      by (rule r53_delete_refused [OF assms ex])
    with ex show ?thesis by (simp add: error_code_service)
  next
    case True
    let ?d = "drop_resource_tags ?a (z_arn z) (d\<lparr>r53_tbls := ?t\<lparr>r53_zones := sql_delete (\<lambda>r. r53_zone_pk r = (?a, z_id z)) (r53_zones ?t),
       r53_records := sql_delete (of_zone ?a (z_id z)) (r53_records ?t)\<rparr>\<rparr>)"
    have "delete_hosted_zone ?a (z_id z) d = (None, ?d)" using True by (simp add: delete_hosted_zone_def z Let_def)
    then have del: "handle_r53 env (R53_zone DELETE path) r d =
        (write_xml 200 (Elem ''DeleteHostedZoneResponse'' [r53_change_info (r53_new_change 0 env (z_id z))]),
         record_change ?a (r53_new_change 0 env (z_id z)) ?d)"
      by (simp add: handle_r53_def r53_delete_hosted_zone_def zid Let_def)
    have "find (\<lambda>r. r53_record_pk r = (?a, zid, k)) (sql_delete (of_zone ?a (z_id z)) (r53_records ?t)) =
        (if zid = z_id z then None else find (\<lambda>r. r53_record_pk r = (?a, zid, k)) (r53_records ?t))" for zid k
      by (rule find_sql_delete_class) (auto simp: of_zone_def r53_record_pk_def)
    then have "zone_view ?a zid ?d = (if zid = z_id z then Map.empty else zone_view ?a zid d)" for zid
      by (auto simp: zone_view_def fun_eq_iff)
    moreover have "get_hosted_zone ?a zid ?d = (if zid = z_id z then Inl ErrNotFound else get_hosted_zone ?a zid d)" for zid
      by (simp add: get_hosted_zone_def find_sql_delete_key)
    moreover have "resource_tags (record_change ?a c ?d) = resource_tags ?d" for c
      by (simp add: record_change_def split: sum.split)
    ultimately show ?thesis using True n by (simp add: del write_xml_def)
  qed
qed

lemma zone_view_record:
  assumes "zone_view a zid d (n, ty, s) = Some c"
  shows "\<exists>x\<in>set (r53_records (r53_tbls d)). of_zone a zid x \<and> rs_name (rr_set x) = n \<and> rs_type (rr_set x) = ty"
  using assms by (auto simp: zone_view_def find_Some_iff of_zone_def r53_record_pk_def dest!: nth_mem)

text \<open>The seeded record sets of a zone named without the trailing dot stand under the bare name, and every
  change is stored under the dotted one: an UPSERT of the apex NS leaves the seeded NS in place beside a
  second one, and DeleteHostedZone then refuses the zone as not empty.\<close>

theorem r53_undotted_apex:
  assumes "get_hosted_zone (account_id d) (trim_prefix path ''/hostedzone/'') d = Inr z"
    and "\<not> has_suffix (z_name z) ''.''" "z_name z \<noteq> []"
    and "dec_change_batch r = Some [\<lparr>bc_action = ''UPSERT'', bc_set = x\<rparr>]"
    and "x_name x = z_name z" "x_type x = ''NS''" "x_set_identifier x = []"
  shows "let (upserted, d1) = handle_r53 env (R53_rrset POST path) r d; (deleted, d2) = handle_r53 env' (R53_zone DELETE path) r' d1
    in r_status upserted = 200 \<and>
       zone_view (account_id d) (z_id z) d1 (z_name z, ''NS'', []) = zone_view (account_id d) (z_id z) d (z_name z, ''NS'', []) \<and>
       r_status deleted = 400 \<and> error_code deleted = Some ''HostedZoneNotEmpty'' \<and> d2 = d1"
proof -
  let ?a = "account_id d" and ?ch = "\<lparr>bc_action = ''UPSERT'', bc_set = x\<rparr>" and ?m = "zone_view (account_id d) (z_id z) d"
  let ?m' = "?m((z_name z @ ''.'', ''NS'', []) \<mapsto> record_content (stored_record (z_id z) x))"
  have "change_key ?ch = (z_name z @ ''.'', ''NS'', [])"
    using assms(2,3,5-7) by (simp add: change_key_def r53_fqdn_def)
  then have spec: "spec_batch z [?ch] ?m = Some ?m'"
    using assms(3,5,6) by (simp add: spec_change_def change_ok_def)
  obtain d1 where h: "handle_r53 env (R53_rrset POST path) r d =
        (write_xml 200 (Elem ''ChangeResourceRecordSetsResponse'' [r53_change_info (r53_new_change 0 env (z_id z))]), d1)"
    and zone: "\<And>zid. get_hosted_zone ?a zid d1 = get_hosted_zone ?a zid d" and view: "zone_view ?a (z_id z) d1 = ?m'"
    by (rule r53_batch_accepted [OF assms(1,4) spec, of env]) auto
  have acc: "account_id d1 = ?a" using account_id_handle_r53 [of env "R53_rrset POST path" r d] by (simp add: h)
  from view zone_view_record [of ?a "z_id z" d1 "z_name z @ ''.''" "''NS''" "[]"] obtain y
    where "y \<in> set (r53_records (r53_tbls d1))" "of_zone ?a (z_id z) y" "rs_name (rr_set y) = z_name z @ ''.''" by auto
  then have ex: "\<exists>y\<in>set (r53_records (r53_tbls d1)). of_zone (account_id d1) (z_id z) y \<and> \<not> default_record (z_name z) (rr_set y)"
    by (intro bexI [of _ y]) (simp_all add: acc default_record_def)
  have "get_hosted_zone (account_id d1) (trim_prefix path ''/hostedzone/'') d1 = Inr z"
    using assms(1) by (simp add: acc zone)
  from r53_delete_refused [OF this ex, of env' r'] obtain msg
    where "handle_r53 env' (R53_zone DELETE path) r' d1 = (write_service_error r53_shape 400 ''HostedZoneNotEmpty'' msg, d1)" .
  then show ?thesis by (simp add: h view error_code_service write_xml_def)
qed

section \<open>Examples\<close>

definition r53_env :: env where
  "r53_env = \<lparr>e_now = 0, e_rand = [[1, 2, 3, 4], [5, 6, 7, 8]]\<rparr>"

definition sample_zone :: r53_zone where
  "sample_zone = \<lparr>z_id = ''Z1'', z_name = ''example.com'', z_comment = [], z_private = False,
     z_arn = route53_zone_arn ''Z1'', z_created_at = ''1970-01-01T00:00:00Z''\<rparr>"

definition sample_r53_db :: db where
  "sample_r53_db = empty_db\<lparr>r53_tbls := \<lparr>r53_zones = [\<lparr>zr_account = fake_account_id, zr_zone = sample_zone\<rparr>],
     r53_records = map (\<lambda>rs. \<lparr>rr_account = fake_account_id, rr_set = rs\<rparr>) (default_records sample_zone), r53_changes = []\<rparr>\<rparr>"

definition sample_change_xml :: "string \<Rightarrow> string \<Rightarrow> string \<Rightarrow> xml" where
  "sample_change_xml act n ty = Elem ''Change'' [leaf ''Action'' act, Elem ''ResourceRecordSet''
     [leaf ''Name'' n, leaf ''Type'' ty, leaf ''TTL'' ''300'',
      Elem ''ResourceRecords'' [Elem ''ResourceRecord'' [leaf ''Value'' ''10.0.0.1'']]]]"

definition sample_batch :: "xml list \<Rightarrow> rest_request" where
  "sample_batch chs = bare_request\<lparr>rr_xml := Some (Elem ''ChangeResourceRecordSetsRequest''
     [Elem ''ChangeBatch'' [Elem ''Changes'' chs]])\<rparr>"

lemma sample_r53:
  "account_id sample_r53_db = fake_account_id" "trim_prefix ''Z1'' ''/hostedzone/'' = ''Z1''"
  "get_hosted_zone (account_id sample_r53_db) (trim_prefix ''Z1'' ''/hostedzone/'') sample_r53_db = Inr sample_zone"
  "r53_tbls_wf (r53_tbls sample_r53_db)"
  by (simp_all add: account_id_def get_identity_def sample_r53_db_def empty_db_def get_hosted_zone_def r53_zone_pk_def
      sample_zone_def trim_prefix_def has_prefix_def r53_tbls_wf_def r53_keys_ok_def pk_def zone_row_ok_def record_row_ok_def
      record_ok_def default_records_def r53_record_pk_def)

theorem r53_invariant_witness:
  "r53_tbls_wf (r53_tbls (r53_run [(r53_env, R53_rrset POST ''Z1'', sample_batch [sample_change_xml ''CREATE'' ''www.example.com'' ''CNAME''])]
     sample_r53_db))"
  using r53_invariant [OF sample_r53(4)] by blast

lemma sample_batches:
  "dec_change_batch (sample_batch [sample_change_xml ''CREATE'' ''a.example.com'' ''A'', sample_change_xml ''CREATE'' ''example.com.'' ''CNAME'']) =
     Some [\<lparr>bc_action = ''CREATE'', bc_set = \<lparr>x_name = ''a.example.com'', x_type = ''A'', x_ttl = 300, x_values = [''10.0.0.1''],
             x_set_identifier = [], x_alias_target = None\<rparr>\<rparr>,
           \<lparr>bc_action = ''CREATE'', bc_set = \<lparr>x_name = ''example.com.'', x_type = ''CNAME'', x_ttl = 300, x_values = [''10.0.0.1''],
             x_set_identifier = [], x_alias_target = None\<rparr>\<rparr>]"
  "dec_change_batch (sample_batch [sample_change_xml ''UPSERT'' ''example.com'' ''NS'']) =
     Some [\<lparr>bc_action = ''UPSERT'', bc_set = \<lparr>x_name = ''example.com'', x_type = ''NS'', x_ttl = 300, x_values = [''10.0.0.1''],
             x_set_identifier = [], x_alias_target = None\<rparr>\<rparr>]"
  by code_simp+

theorem r53_batch_refines_witness:
  "snd (handle_r53 r53_env (R53_rrset POST ''Z1'')
     (sample_batch [sample_change_xml ''CREATE'' ''a.example.com'' ''A'', sample_change_xml ''CREATE'' ''example.com.'' ''CNAME'']) sample_r53_db) =
   sample_r53_db"
proof -
  have "r53_is_apex ''example.com.'' (z_name sample_zone)" by code_simp
  then have "spec_batch sample_zone
      [\<lparr>bc_action = ''CREATE'', bc_set = \<lparr>x_name = ''a.example.com'', x_type = ''A'', x_ttl = 300, x_values = [''10.0.0.1''],
             x_set_identifier = [], x_alias_target = None\<rparr>\<rparr>,
       \<lparr>bc_action = ''CREATE'', bc_set = \<lparr>x_name = ''example.com.'', x_type = ''CNAME'', x_ttl = 300, x_values = [''10.0.0.1''],
             x_set_identifier = [], x_alias_target = None\<rparr>\<rparr>] m = None" for m
    by (auto simp: spec_change_def change_ok_def split: option.split)
  with r53_batch_refines [OF sample_r53(3) sample_batches(1), of r53_env] show ?thesis by (simp add: split_beta Let_def)
qed

theorem r53_read_record_witness:
  "r_body (fst (handle_r53 r53_env (R53_rrset GET ''Z1'')
     (bare_request\<lparr>rr_query := [(''name'', [''EXAMPLE.com.'']), (''type'', [''SOA'']), (''maxitems'', [''1''])]\<rparr>) sample_r53_db)) =
   Xml_body (Elem ''ListResourceRecordSetsResponse''
     [Elem ''ResourceRecordSets'' [record_set_xml (default_records sample_zone ! 1)], leaf ''IsTruncated'' ''false''])"
proof -
  let ?r = "bare_request\<lparr>rr_query := [(''name'', [''EXAMPLE.com.'']), (''type'', [''SOA'']), (''maxitems'', [''1''])]\<rparr>"
  let ?x = "\<lparr>rr_account = fake_account_id, rr_set = default_records sample_zone ! 1\<rparr>"
  have x: "?x \<in> set (r53_records (r53_tbls sample_r53_db))" "of_zone (account_id sample_r53_db) (z_id sample_zone) ?x"
    by (simp_all add: sample_r53(1), simp_all add: sample_r53_db_def default_records_def of_zone_def)
  have u: "rr_set y = default_records sample_zone ! 1" if "y \<in> set (r53_records (r53_tbls sample_r53_db))"
    "rs_type (rr_set y) = rs_type (default_records sample_zone ! 1)" for y
    using that by (auto simp: sample_r53_db_def default_records_def)
  have q: "query_get ''name'' ?r = ''EXAMPLE.com.''" "query_get ''type'' ?r = ''SOA''" "query_get ''identifier'' ?r = []"
    "query_get ''maxitems'' ?r = ''1''" "rs_type (default_records sample_zone ! 1) = ''SOA''"
    "rs_name (default_records sample_zone ! 1) = ''example.com''"
    by (simp_all add: query_get_def form_get_def bare_request_def default_records_def sample_zone_def)
  have "r53_normalise_name ''EXAMPLE.com.'' = r53_normalise_name ''example.com''" by code_simp
  then have n: "r53_normalise_name (query_get ''name'' ?r) = r53_normalise_name (rs_name (default_records sample_zone ! 1))"
    by (simp only: q)
  have "query_get ''name'' ?r \<noteq> []" "rs_type (default_records sample_zone ! 1) \<noteq> []" "query_get ''type'' ?r = rs_type (default_records sample_zone ! 1)"
    by (simp_all only: q list.distinct not_False_eq_True)
  from r53_read_record [OF sample_r53(3) x _ u n this(1,3,2) q(3,4), where env = r53_env, simplified] show ?thesis
    by (simp add: write_xml_def)
qed

theorem r53_delete_zone_witness:
  "r_status (fst (handle_r53 r53_env (R53_zone DELETE ''Z1'') bare_request sample_r53_db)) = 200"
proof -
  have "\<not> (\<exists>x\<in>set (r53_records (r53_tbls sample_r53_db)). of_zone (account_id sample_r53_db) (z_id sample_zone) x \<and>
      \<not> default_record (z_name sample_zone) (rr_set x))"
    by (simp add: sample_r53_db_def default_records_def default_record_def)
  with r53_delete_zone [OF sample_r53(3), of r53_env bare_request] show ?thesis by (simp add: split_beta Let_def)
qed

theorem r53_undotted_apex_witness:
  "r_status (fst (handle_r53 r53_env (R53_zone DELETE ''Z1'') bare_request
     (snd (handle_r53 r53_env (R53_rrset POST ''Z1'') (sample_batch [sample_change_xml ''UPSERT'' ''example.com'' ''NS'']) sample_r53_db)))) = 400"
proof -
  have "\<not> has_suffix (z_name sample_zone) ''.''" by code_simp
  moreover have "z_name sample_zone \<noteq> []" "z_name sample_zone = ''example.com''" by (simp_all add: sample_zone_def)
  ultimately show ?thesis
    using r53_undotted_apex [OF sample_r53(3) _ _ sample_batches(2), of r53_env r53_env bare_request]
    by (simp add: split_beta Let_def)
qed

end
