(* ===== verification/IamRepo.thy ===== *)
theory IamRepo
  imports Tags Gotime
begin

text \<open>
  IAM in the repository (repository/iam.go): roles, policies, instance profiles, users with their access
  keys, and what hangs on them: attachments of managed policies, inline policies and the role an
  instance profile holds. The foreign keys and triggers of the schema are part of each statement.
\<close>

section \<open>Roles\<close>

definition create_role :: "string \<Rightarrow> iam_role \<Rightarrow> db \<Rightarrow> go_error option \<times> db" where
  "create_role account role d =
     (let t = iam_tbls d
      in case insert_row iam_role_pk \<lparr>or_account = account, or_role = role\<rparr> (iam_roles t) of
        Inl e \<Rightarrow> (Some e, d)
      | Inr rows \<Rightarrow> (None, d\<lparr>iam_tbls := t\<lparr>iam_roles := rows\<rparr>\<rparr>))"

definition get_role :: "string \<Rightarrow> string \<Rightarrow> db \<Rightarrow> iam_role result" where
  "get_role account name d =
     (case find (\<lambda>r. iam_role_pk r = (account, name)) (iam_roles (iam_tbls d)) of
        None \<Rightarrow> Inl ErrNotFound
      | Some r \<Rightarrow> Inr (or_role r))"

definition list_roles :: "string \<Rightarrow> db \<Rightarrow> iam_role list" where
  "list_roles account d =
     sort_key ro_name (map or_role (filter (\<lambda>r. or_account r = account) (iam_roles (iam_tbls d))))"

definition update_role :: "string \<Rightarrow> iam_role \<Rightarrow> db \<Rightarrow> go_error option \<times> db" where
  "update_role account role d =
     (let t = iam_tbls d; p = (\<lambda>r. iam_role_pk r = (account, ro_name role))
      in if affected p (iam_roles t) = 0 then (Some ErrNotFound, d)
         else (None, d\<lparr>iam_tbls := t\<lparr>iam_roles := sql_update p (\<lambda>r. r\<lparr>or_role := role\<rparr>) (iam_roles t)\<rparr>\<rparr>))"

text \<open>An attachment, and an inline policy, of an owner.\<close>

definition attached_to :: "string \<Rightarrow> string \<Rightarrow> iam_attachment \<Rightarrow> bool" where
  "attached_to account owner a \<longleftrightarrow> at_account a = account \<and> at_owner a = owner"

definition inline_of :: "string \<Rightarrow> string \<Rightarrow> iam_inline \<Rightarrow> bool" where
  "inline_of account owner i \<longleftrightarrow> il_account i = account \<and> il_owner i = owner"

definition role_attached_text :: "string \<Rightarrow> string" where
  "role_attached_text name = error_text ErrInUse @ '': role '' @ name @ '' has managed policies attached''"

text \<open>The instance profiles and the inline policies of a role refuse its delete (RESTRICT).\<close>

definition role_restricted :: "string \<Rightarrow> string \<Rightarrow> iam_db \<Rightarrow> bool" where
  "role_restricted account name t \<longleftrightarrow>
     (\<exists>x\<in>set (profile_roles t). xr_account x = account \<and> xr_role x = name) \<or>
     (\<exists>i\<in>set (role_inlines t). inline_of account name i)"

definition delete_role :: "string \<Rightarrow> string \<Rightarrow> db \<Rightarrow> go_error option \<times> db" where
  "delete_role account name d =
     (let t = iam_tbls d; p = (\<lambda>r. iam_role_pk r = (account, name))
      in case find (\<lambda>r. p r \<and> \<not> (\<exists>a\<in>set (role_attachments t). attached_to account name a)) (iam_roles t) of
        Some r \<Rightarrow>
          (if role_restricted account name t then (Some (map_delete_error (sql_text Fk_failed)), d)
           else (None, drop_resource_tags account (ro_arn (or_role r)) (d\<lparr>iam_tbls := t\<lparr>iam_roles := sql_delete p (iam_roles t)\<rparr>\<rparr>)))
      | None \<Rightarrow> (case get_role account name d of
            Inl e \<Rightarrow> (Some e, d)
          | Inr _ \<Rightarrow> (Some (ErrWrap ErrInUse (role_attached_text name)), d)))"

section \<open>Policies\<close>

definition iam_managed_policy_prefix :: string where
  "iam_managed_policy_prefix = ''arn:aws:iam::aws:policy/''"

text \<open>INSERT OR IGNORE: a row under the key stays, whatever its ARN.\<close>

definition seed_managed_policy :: "int \<Rightarrow> string \<Rightarrow> string \<Rightarrow> db \<Rightarrow> db" where
  "seed_managed_policy now account arn d =
     (if \<not> has_prefix arn iam_managed_policy_prefix then d
      else (let name = trim_prefix arn iam_managed_policy_prefix; t = iam_tbls d;
                p = \<lparr>po_name = name, po_path = ''/'', po_arn = arn, po_document = [], po_description = [],
                     po_created_at = rfc3339 now\<rparr>
            in case insert_row iam_policy_pk \<lparr>op_account = account, op_policy = p\<rparr> (iam_policies t) of
                 Inl _ \<Rightarrow> d
               | Inr rows \<Rightarrow> d\<lparr>iam_tbls := t\<lparr>iam_policies := rows\<rparr>\<rparr>))"

definition create_policy :: "string \<Rightarrow> iam_policy \<Rightarrow> db \<Rightarrow> go_error option \<times> db" where
  "create_policy account p d =
     (let t = iam_tbls d
      in case insert_row iam_policy_pk \<lparr>op_account = account, op_policy = p\<rparr> (iam_policies t) of
        Inl e \<Rightarrow> (Some e, d)
      | Inr rows \<Rightarrow> (None, d\<lparr>iam_tbls := t\<lparr>iam_policies := rows\<rparr>\<rparr>))"

definition get_policy :: "string \<Rightarrow> string \<Rightarrow> db \<Rightarrow> iam_policy result" where
  "get_policy account name d =
     (case find (\<lambda>r. iam_policy_pk r = (account, name)) (iam_policies (iam_tbls d)) of
        None \<Rightarrow> Inl ErrNotFound
      | Some r \<Rightarrow> Inr (op_policy r))"

definition list_policies :: "string \<Rightarrow> db \<Rightarrow> iam_policy list" where
  "list_policies account d =
     sort_key po_name (map op_policy (filter (\<lambda>r. op_account r = account) (iam_policies (iam_tbls d))))"

definition policy_attached :: "iam_db \<Rightarrow> iam_policy_row \<Rightarrow> bool" where
  "policy_attached t r \<longleftrightarrow>
     (\<exists>a\<in>set (role_attachments t). at_account a = op_account r \<and> at_policy_arn a = po_arn (op_policy r)) \<or>
     (\<exists>a\<in>set (user_attachments t). at_account a = op_account r \<and> at_policy_arn a = po_arn (op_policy r))"

definition policy_attached_text :: "string \<Rightarrow> string" where
  "policy_attached_text name = error_text ErrInUse @ '': policy '' @ name @ '' is attached''"

definition delete_policy :: "string \<Rightarrow> string \<Rightarrow> db \<Rightarrow> go_error option \<times> db" where
  "delete_policy account name d =
     (let t = iam_tbls d; p = (\<lambda>r. iam_policy_pk r = (account, name))
      in case find (\<lambda>r. p r \<and> \<not> policy_attached t r) (iam_policies t) of
        Some r \<Rightarrow> (None, drop_resource_tags account (po_arn (op_policy r))
            (d\<lparr>iam_tbls := t\<lparr>iam_policies := sql_delete (\<lambda>r. p r \<and> \<not> policy_attached t r) (iam_policies t)\<rparr>\<rparr>))
      | None \<Rightarrow> (case get_policy account name d of
            Inl e \<Rightarrow> (Some e, d)
          | Inr _ \<Rightarrow> (Some (ErrWrap ErrInUse (policy_attached_text name)), d)))"

section \<open>Instance profiles\<close>

definition create_instance_profile :: "string \<Rightarrow> iam_profile \<Rightarrow> db \<Rightarrow> go_error option \<times> db" where
  "create_instance_profile account p d =
     (let t = iam_tbls d
      in case insert_row iam_profile_pk \<lparr>oi_account = account, oi_profile = p\<rparr> (iam_profiles t) of
        Inl e \<Rightarrow> (Some e, d)
      | Inr rows \<Rightarrow> (None, d\<lparr>iam_tbls := t\<lparr>iam_profiles := rows\<rparr>\<rparr>))"

text \<open>A profile with the role it holds, from the left join.\<close>

definition hydrate_profile :: "iam_db \<Rightarrow> iam_profile_row \<Rightarrow> iam_profile" where
  "hydrate_profile t r =
     (case find (\<lambda>x. iam_profile_role_pk x = iam_profile_pk r) (profile_roles t) of
        None \<Rightarrow> oi_profile r
      | Some x \<Rightarrow> (oi_profile r)\<lparr>ip_attached_role := xr_role x\<rparr>)"

definition get_instance_profile :: "string \<Rightarrow> string \<Rightarrow> db \<Rightarrow> iam_profile result" where
  "get_instance_profile account name d =
     (case find (\<lambda>r. iam_profile_pk r = (account, name)) (iam_profiles (iam_tbls d)) of
        None \<Rightarrow> Inl ErrNotFound
      | Some r \<Rightarrow> Inr (hydrate_profile (iam_tbls d) r))"

definition list_instance_profiles :: "string \<Rightarrow> db \<Rightarrow> iam_profile list" where
  "list_instance_profiles account d =
     sort_key ip_name (map (hydrate_profile (iam_tbls d)) (filter (\<lambda>r. oi_account r = account) (iam_profiles (iam_tbls d))))"

definition holds_role :: "iam_db \<Rightarrow> string \<Rightarrow> iam_profile_row \<Rightarrow> bool" where
  "holds_role t role r \<longleftrightarrow>
     (case find (\<lambda>x. iam_profile_role_pk x = iam_profile_pk r) (profile_roles t) of
        None \<Rightarrow> False | Some x \<Rightarrow> xr_role x = role)"

definition list_instance_profiles_for_role :: "string \<Rightarrow> string \<Rightarrow> db \<Rightarrow> iam_profile list" where
  "list_instance_profiles_for_role account role d =
     (let t = iam_tbls d
      in sort_key ip_name (map (hydrate_profile t) (filter (\<lambda>r. oi_account r = account \<and> holds_role t role r) (iam_profiles t))))"

definition delete_instance_profile :: "string \<Rightarrow> string \<Rightarrow> db \<Rightarrow> go_error option \<times> db" where
  "delete_instance_profile account name d =
     (let t = iam_tbls d; p = (\<lambda>r. iam_profile_pk r = (account, name))
      in case find p (iam_profiles t) of
        None \<Rightarrow> (Some ErrNotFound, d)
      | Some r \<Rightarrow> (None, drop_resource_tags account (ip_arn (oi_profile r))
          (d\<lparr>iam_tbls := t\<lparr>iam_profiles := sql_delete p (iam_profiles t),
               profile_roles := sql_delete (\<lambda>x. iam_profile_role_pk x = (account, name)) (profile_roles t)\<rparr>\<rparr>)))"

definition add_role_to_instance_profile :: "string \<Rightarrow> string \<Rightarrow> string \<Rightarrow> db \<Rightarrow> go_error option \<times> db" where
  "add_role_to_instance_profile account profile role d =
     (case get_instance_profile account profile d of
        Inl e \<Rightarrow> (Some e, d)
      | Inr _ \<Rightarrow> (case get_role account role d of
          Inl e \<Rightarrow> (Some e, d)
        | Inr _ \<Rightarrow>
            (let t = iam_tbls d
             in case insert_row iam_profile_role_pk \<lparr>xr_account = account, xr_profile = profile, xr_role = role\<rparr> (profile_roles t) of
               Inl e \<Rightarrow> (Some e, d)
             | Inr rows \<Rightarrow> (None, d\<lparr>iam_tbls := t\<lparr>profile_roles := rows\<rparr>\<rparr>))))"

definition remove_role_from_instance_profile :: "string \<Rightarrow> string \<Rightarrow> string \<Rightarrow> db \<Rightarrow> go_error option \<times> db" where
  "remove_role_from_instance_profile account profile role d =
     (let t = iam_tbls d; p = (\<lambda>x. iam_profile_role_pk x = (account, profile) \<and> xr_role x = role)
      in if affected p (profile_roles t) = 0 then (Some ErrNotFound, d)
         else (None, d\<lparr>iam_tbls := t\<lparr>profile_roles := sql_delete p (profile_roles t)\<rparr>\<rparr>))"

section \<open>Users and access keys\<close>

definition create_user :: "string \<Rightarrow> iam_user \<Rightarrow> db \<Rightarrow> go_error option \<times> db" where
  "create_user account u d =
     (let t = iam_tbls d
      in case insert_row iam_user_pk \<lparr>ou_account = account, ou_user = u\<rparr> (iam_users t) of
        Inl e \<Rightarrow> (Some e, d)
      | Inr rows \<Rightarrow> (None, d\<lparr>iam_tbls := t\<lparr>iam_users := rows\<rparr>\<rparr>))"

definition get_user :: "string \<Rightarrow> string \<Rightarrow> db \<Rightarrow> iam_user result" where
  "get_user account name d =
     (case find (\<lambda>r. iam_user_pk r = (account, name)) (iam_users (iam_tbls d)) of
        None \<Rightarrow> Inl ErrNotFound
      | Some r \<Rightarrow> Inr (ou_user r))"

definition list_users :: "string \<Rightarrow> db \<Rightarrow> iam_user list" where
  "list_users account d =
     sort_key us_name (map ou_user (filter (\<lambda>r. ou_account r = account) (iam_users (iam_tbls d))))"

definition key_of :: "string \<Rightarrow> string \<Rightarrow> iam_key_row \<Rightarrow> bool" where
  "key_of account user k \<longleftrightarrow> ok_account k = account \<and> ak_user (ok_key k) = user"

definition user_held :: "string \<Rightarrow> string \<Rightarrow> iam_db \<Rightarrow> bool" where
  "user_held account name t \<longleftrightarrow> (\<exists>a\<in>set (user_attachments t). attached_to account name a) \<or>
     (\<exists>i\<in>set (user_inlines t). inline_of account name i) \<or> (\<exists>k\<in>set (iam_keys t). key_of account name k)"

definition user_held_text :: "string \<Rightarrow> string" where
  "user_held_text name = error_text ErrInUse @ '': user '' @ name @ '' has policies or access keys''"

definition delete_user :: "string \<Rightarrow> string \<Rightarrow> db \<Rightarrow> go_error option \<times> db" where
  "delete_user account name d =
     (let t = iam_tbls d; p = (\<lambda>r. iam_user_pk r = (account, name))
      in case find (\<lambda>r. p r \<and> \<not> user_held account name t) (iam_users t) of
        Some r \<Rightarrow> (None, drop_resource_tags account (us_arn (ou_user r)) (d\<lparr>iam_tbls := t\<lparr>iam_users := sql_delete p (iam_users t)\<rparr>\<rparr>))
      | None \<Rightarrow> (case get_user account name d of
            Inl e \<Rightarrow> (Some e, d)
          | Inr _ \<Rightarrow> (Some (ErrWrap ErrInUse (user_held_text name)), d)))"

definition create_access_key :: "string \<Rightarrow> iam_access_key \<Rightarrow> db \<Rightarrow> go_error option \<times> db" where
  "create_access_key account k d =
     (case get_user account (ak_user k) d of
        Inl e \<Rightarrow> (Some e, d)
      | Inr _ \<Rightarrow>
          (let t = iam_tbls d
           in case insert_row iam_key_pk \<lparr>ok_account = account, ok_key = k\<rparr> (iam_keys t) of
             Inl e \<Rightarrow> (Some e, d)
           | Inr rows \<Rightarrow> (None, d\<lparr>iam_tbls := t\<lparr>iam_keys := rows\<rparr>\<rparr>)))"

text \<open>The secret is not selected; no user name asks for the keys of every user.\<close>

definition list_access_keys :: "string \<Rightarrow> string \<Rightarrow> db \<Rightarrow> iam_access_key list" where
  "list_access_keys account user d =
     sort_key (\<lambda>k. (ak_user k, ak_id k)) (map (\<lambda>r. (ok_key r)\<lparr>ak_secret := []\<rparr>)
       (filter (\<lambda>r. ok_account r = account \<and> (user = [] \<or> ak_user (ok_key r) = user)) (iam_keys (iam_tbls d))))"

definition delete_access_key :: "string \<Rightarrow> string \<Rightarrow> string \<Rightarrow> db \<Rightarrow> go_error option \<times> db" where
  "delete_access_key account user kid d =
     (let t = iam_tbls d; p = (\<lambda>r. iam_key_pk r = (account, user, kid))
      in if affected p (iam_keys t) = 0 then (Some ErrNotFound, d)
         else (None, d\<lparr>iam_tbls := t\<lparr>iam_keys := sql_delete p (iam_keys t)\<rparr>\<rparr>))"

section \<open>Attachments of managed policies\<close>

definition policy_stored :: "string \<Rightarrow> string \<Rightarrow> iam_db \<Rightarrow> bool" where
  "policy_stored account arn t \<longleftrightarrow> (\<exists>r\<in>set (iam_policies t). op_account r = account \<and> po_arn (op_policy r) = arn)"

text \<open>INSERT ... SELECT ... WHERE EXISTS and insertPolicyAttachment: no row inserted is a missing policy.\<close>

definition insert_policy_attachment :: "string \<Rightarrow> string \<Rightarrow> string \<Rightarrow> iam_db \<Rightarrow> iam_attachment list \<Rightarrow> iam_attachment list result" where
  "insert_policy_attachment account owner arn t as =
     (if policy_stored account arn t
      then insert_row iam_attachment_pk \<lparr>at_account = account, at_owner = owner, at_policy_arn = arn\<rparr> as
      else Inl ErrNotFound)"

definition attach_role_policy :: "string \<Rightarrow> string \<Rightarrow> string \<Rightarrow> db \<Rightarrow> go_error option \<times> db" where
  "attach_role_policy account role arn d =
     (case get_role account role d of
        Inl e \<Rightarrow> (Some e, d)
      | Inr _ \<Rightarrow>
          (let t = iam_tbls d
           in case insert_policy_attachment account role arn t (role_attachments t) of
             Inl e \<Rightarrow> (Some e, d)
           | Inr rows \<Rightarrow> (None, d\<lparr>iam_tbls := t\<lparr>role_attachments := rows\<rparr>\<rparr>)))"

definition detach_role_policy :: "string \<Rightarrow> string \<Rightarrow> string \<Rightarrow> db \<Rightarrow> go_error option \<times> db" where
  "detach_role_policy account role arn d =
     (let t = iam_tbls d; p = (\<lambda>a. iam_attachment_pk a = (account, role, arn))
      in if affected p (role_attachments t) = 0 then (Some ErrNotFound, d)
         else (None, d\<lparr>iam_tbls := t\<lparr>role_attachments := sql_delete p (role_attachments t)\<rparr>\<rparr>))"

definition list_attached_role_policies :: "string \<Rightarrow> string \<Rightarrow> db \<Rightarrow> string list" where
  "list_attached_role_policies account role d =
     sort_key (\<lambda>a. a) (map at_policy_arn (filter (attached_to account role) (role_attachments (iam_tbls d))))"

definition attach_user_policy :: "string \<Rightarrow> string \<Rightarrow> string \<Rightarrow> db \<Rightarrow> go_error option \<times> db" where
  "attach_user_policy account user arn d =
     (case get_user account user d of
        Inl e \<Rightarrow> (Some e, d)
      | Inr _ \<Rightarrow>
          (let t = iam_tbls d
           in case insert_policy_attachment account user arn t (user_attachments t) of
             Inl e \<Rightarrow> (Some e, d)
           | Inr rows \<Rightarrow> (None, d\<lparr>iam_tbls := t\<lparr>user_attachments := rows\<rparr>\<rparr>)))"

definition detach_user_policy :: "string \<Rightarrow> string \<Rightarrow> string \<Rightarrow> db \<Rightarrow> go_error option \<times> db" where
  "detach_user_policy account user arn d =
     (let t = iam_tbls d; p = (\<lambda>a. iam_attachment_pk a = (account, user, arn))
      in if affected p (user_attachments t) = 0 then (Some ErrNotFound, d)
         else (None, d\<lparr>iam_tbls := t\<lparr>user_attachments := sql_delete p (user_attachments t)\<rparr>\<rparr>))"

definition list_attached_user_policies :: "string \<Rightarrow> string \<Rightarrow> db \<Rightarrow> string list" where
  "list_attached_user_policies account user d =
     sort_key (\<lambda>a. a) (map at_policy_arn (filter (attached_to account user) (user_attachments (iam_tbls d))))"

section \<open>Inline policies\<close>

definition put_inline :: "string \<Rightarrow> string \<Rightarrow> string \<Rightarrow> string \<Rightarrow> iam_inline list \<Rightarrow> iam_inline list" where
  "put_inline account owner name doc is =
     sql_upsert iam_inline_pk (\<lambda>old new. old\<lparr>il_document := il_document new\<rparr>)
       \<lparr>il_account = account, il_owner = owner, il_name = name, il_document = doc\<rparr> is"

definition put_user_policy :: "string \<Rightarrow> string \<Rightarrow> string \<Rightarrow> string \<Rightarrow> db \<Rightarrow> go_error option \<times> db" where
  "put_user_policy account user name doc d =
     (case get_user account user d of
        Inl e \<Rightarrow> (Some e, d)
      | Inr _ \<Rightarrow> (let t = iam_tbls d in (None, d\<lparr>iam_tbls := t\<lparr>user_inlines := put_inline account user name doc (user_inlines t)\<rparr>\<rparr>)))"

definition get_user_policy :: "string \<Rightarrow> string \<Rightarrow> string \<Rightarrow> db \<Rightarrow> string result" where
  "get_user_policy account user name d =
     (case find (\<lambda>i. iam_inline_pk i = (account, user, name)) (user_inlines (iam_tbls d)) of
        None \<Rightarrow> Inl ErrNotFound | Some i \<Rightarrow> Inr (il_document i))"

definition delete_user_policy :: "string \<Rightarrow> string \<Rightarrow> string \<Rightarrow> db \<Rightarrow> go_error option \<times> db" where
  "delete_user_policy account user name d =
     (let t = iam_tbls d; p = (\<lambda>i. iam_inline_pk i = (account, user, name))
      in if affected p (user_inlines t) = 0 then (Some ErrNotFound, d)
         else (None, d\<lparr>iam_tbls := t\<lparr>user_inlines := sql_delete p (user_inlines t)\<rparr>\<rparr>))"

definition list_user_policies :: "string \<Rightarrow> string \<Rightarrow> db \<Rightarrow> string list" where
  "list_user_policies account user d =
     sort_key (\<lambda>n. n) (map il_name (filter (inline_of account user) (user_inlines (iam_tbls d))))"

text \<open>A missing role fails the foreign key.\<close>

definition put_role_policy :: "string \<Rightarrow> string \<Rightarrow> string \<Rightarrow> string \<Rightarrow> db \<Rightarrow> go_error option \<times> db" where
  "put_role_policy account role name doc d =
     (case get_role account role d of
        Inl _ \<Rightarrow> (Some (map_insert_error (sql_text Fk_failed)), d)
      | Inr _ \<Rightarrow> (let t = iam_tbls d in (None, d\<lparr>iam_tbls := t\<lparr>role_inlines := put_inline account role name doc (role_inlines t)\<rparr>\<rparr>)))"

definition get_role_policy :: "string \<Rightarrow> string \<Rightarrow> string \<Rightarrow> db \<Rightarrow> string result" where
  "get_role_policy account role name d =
     (case find (\<lambda>i. iam_inline_pk i = (account, role, name)) (role_inlines (iam_tbls d)) of
        None \<Rightarrow> Inl ErrNotFound | Some i \<Rightarrow> Inr (il_document i))"

definition delete_role_policy :: "string \<Rightarrow> string \<Rightarrow> string \<Rightarrow> db \<Rightarrow> go_error option \<times> db" where
  "delete_role_policy account role name d =
     (let t = iam_tbls d; p = (\<lambda>i. iam_inline_pk i = (account, role, name))
      in if affected p (role_inlines t) = 0 then (Some ErrNotFound, d)
         else (None, d\<lparr>iam_tbls := t\<lparr>role_inlines := sql_delete p (role_inlines t)\<rparr>\<rparr>))"

definition list_role_policies :: "string \<Rightarrow> string \<Rightarrow> db \<Rightarrow> string list" where
  "list_role_policies account role d =
     sort_key (\<lambda>n. n) (map il_name (filter (inline_of account role) (role_inlines (iam_tbls d))))"


section \<open>Referential integrity\<close>

text \<open>
  What the schema's foreign keys promise, and two promises that are the statements' own: an attachment's
  policy is stored, and neither a role nor a user goes while something is attached to it.
\<close>

definition role_keys :: "iam_db \<Rightarrow> (string \<times> string) set" where
  "role_keys t = iam_role_pk ` set (iam_roles t)"

definition user_keys :: "iam_db \<Rightarrow> (string \<times> string) set" where
  "user_keys t = iam_user_pk ` set (iam_users t)"

definition profile_keys :: "iam_db \<Rightarrow> (string \<times> string) set" where
  "profile_keys t = iam_profile_pk ` set (iam_profiles t)"

definition policy_arns :: "iam_db \<Rightarrow> (string \<times> string) set" where
  "policy_arns t = (\<lambda>r. (op_account r, po_arn (op_policy r))) ` set (iam_policies t)"

definition attachment_ok :: "(string \<times> string) set \<Rightarrow> (string \<times> string) set \<Rightarrow> iam_attachment \<Rightarrow> bool" where
  "attachment_ok owners arns a \<longleftrightarrow> (at_account a, at_owner a) \<in> owners \<and> (at_account a, at_policy_arn a) \<in> arns"

definition inline_ok :: "(string \<times> string) set \<Rightarrow> iam_inline \<Rightarrow> bool" where
  "inline_ok owners i \<longleftrightarrow> (il_account i, il_owner i) \<in> owners"

definition iam_refs_ok :: "iam_db \<Rightarrow> bool" where
  "iam_refs_ok t \<longleftrightarrow>
     (\<forall>a\<in>set (role_attachments t). attachment_ok (role_keys t) (policy_arns t) a) \<and>
     (\<forall>a\<in>set (user_attachments t). attachment_ok (user_keys t) (policy_arns t) a) \<and>
     (\<forall>i\<in>set (role_inlines t). inline_ok (role_keys t) i) \<and>
     (\<forall>i\<in>set (user_inlines t). inline_ok (user_keys t) i) \<and>
     (\<forall>k\<in>set (iam_keys t). (ok_account k, ak_user (ok_key k)) \<in> user_keys t) \<and>
     (\<forall>x\<in>set (profile_roles t). iam_profile_role_pk x \<in> profile_keys t \<and> (xr_account x, xr_role x) \<in> role_keys t)"

definition iam_tbls_wf :: "iam_db \<Rightarrow> bool" where
  "iam_tbls_wf t \<longleftrightarrow> iam_keys_ok t \<and> iam_refs_ok t"

lemma iam_tbls_wf_empty [simp]: "iam_tbls_wf empty_iam_db"
  by (simp add: iam_tbls_wf_def iam_refs_ok_def)

definition iam_rest :: "db \<Rightarrow> db" where
  "iam_rest d = d\<lparr>iam_tbls := empty_iam_db, resource_tags := []\<rparr>"

definition iam_keeps :: "db \<Rightarrow> db \<Rightarrow> bool" where
  "iam_keeps d d' \<longleftrightarrow> iam_rest d' = iam_rest d \<and> (iam_tbls_wf (iam_tbls d) \<longrightarrow> iam_tbls_wf (iam_tbls d')) \<and>
     (pk tag_pk (resource_tags d) \<longrightarrow> pk tag_pk (resource_tags d'))"

lemma iam_keeps_refl [simp]: "iam_keeps d d"
  by (simp add: iam_keeps_def)

lemma iam_keeps_trans: "iam_keeps d d1 \<Longrightarrow> iam_keeps d1 d2 \<Longrightarrow> iam_keeps d d2"
  by (simp add: iam_keeps_def)

lemma iam_keeps_tags: "(pk tag_pk (resource_tags d) \<Longrightarrow> pk tag_pk t) \<Longrightarrow> iam_keeps d (d\<lparr>resource_tags := t\<rparr>)"
  by (simp add: iam_keeps_def iam_rest_def)

lemma iam_keeps_change_tags: "iam_keeps d (snd (change_resource_tags a tbl arn add remove d))"
  by (auto simp: change_resource_tags_eq intro!: iam_keeps_tags intro: tbl_intros)

lemma iam_keeps_drop_tags: "iam_keeps d (drop_resource_tags a arn d)"
  unfolding drop_resource_tags_def by (rule iam_keeps_tags) (rule pk_delete)

lemma iam_keeps_tbls:
  assumes "iam_tbls_wf (iam_tbls d) \<Longrightarrow> iam_tbls_wf t"
  shows "iam_keeps d (d\<lparr>iam_tbls := t\<rparr>)"
  using assms by (simp add: iam_keeps_def iam_rest_def)

lemma iam_keeps_tbls_drop:
  assumes "iam_tbls_wf (iam_tbls d) \<Longrightarrow> iam_tbls_wf t"
  shows "iam_keeps d (drop_resource_tags a arn (d\<lparr>iam_tbls := t\<rparr>))"
  by (rule iam_keeps_trans [OF iam_keeps_tbls [OF assms] iam_keeps_drop_tags])

lemma insert_row_set: "insert_row key r t = Inr t' \<Longrightarrow> set t' = insert r (set t)"
  by (auto simp: insert_row_find split: option.splits)

lemma set_sql_delete [simp]: "set (sql_delete p t) = {x \<in> set t. \<not> p x}"
  by (auto simp: sql_delete_def)

lemmas iam_wf_simps = iam_tbls_wf_def iam_keys_ok_def iam_refs_ok_def attachment_ok_def inline_ok_def
  role_keys_def user_keys_def profile_keys_def policy_arns_def

lemmas iam_frame_simps = iam_tbls_wf_def iam_keys_ok_def iam_refs_ok_def role_keys_def user_keys_def profile_keys_def
  policy_arns_def

lemmas iam_pk_simps = iam_role_pk_def iam_user_pk_def iam_profile_pk_def iam_policy_pk_def iam_profile_role_pk_def

lemma find_key_image: "find (\<lambda>r. key r = k) t = Some r \<Longrightarrow> k \<in> key ` set t"
  by (auto simp: find_Some_iff)

lemma get_role_key: "get_role a n d = Inr r \<Longrightarrow> (a, n) \<in> role_keys (iam_tbls d)"
  by (auto simp: get_role_def role_keys_def split: option.splits dest: find_key_image)

lemma get_user_key: "get_user a n d = Inr r \<Longrightarrow> (a, n) \<in> user_keys (iam_tbls d)"
  by (auto simp: get_user_def user_keys_def split: option.splits dest: find_key_image)

lemma get_profile_key: "get_instance_profile a n d = Inr r \<Longrightarrow> (a, n) \<in> profile_keys (iam_tbls d)"
  by (auto simp: get_instance_profile_def profile_keys_def split: option.splits dest: find_key_image)

section \<open>Every operation keeps it\<close>

lemma iam_keeps_create_role: "iam_keeps d (snd (create_role a x d))"
  by (auto simp: create_role_def Let_def iam_wf_simps pk_insert_row insert_row_set split: sum.split intro!: iam_keeps_tbls)

lemma iam_keeps_create_user: "iam_keeps d (snd (create_user a x d))"
  by (auto simp: create_user_def Let_def iam_wf_simps pk_insert_row insert_row_set split: sum.split intro!: iam_keeps_tbls)

lemma iam_keeps_create_policy: "iam_keeps d (snd (create_policy a x d))"
  by (auto simp: create_policy_def Let_def iam_wf_simps pk_insert_row insert_row_set split: sum.split intro!: iam_keeps_tbls)

lemma iam_keeps_create_instance_profile: "iam_keeps d (snd (create_instance_profile a x d))"
  by (auto simp: create_instance_profile_def Let_def iam_wf_simps pk_insert_row insert_row_set split: sum.split intro!: iam_keeps_tbls)

lemma iam_keeps_seed: "iam_keeps d (seed_managed_policy now a arn d)"
  by (auto simp: seed_managed_policy_def Let_def iam_wf_simps pk_insert_row insert_row_set split: sum.split intro!: iam_keeps_tbls)

lemma role_keys_update: "role_keys (t\<lparr>iam_roles := sql_update (\<lambda>r. iam_role_pk r = (a, ro_name x)) (\<lambda>r. r\<lparr>or_role := x\<rparr>) (iam_roles t)\<rparr>) = role_keys t"
proof -
  let ?u = "sql_update (\<lambda>r. iam_role_pk r = (a, ro_name x)) (\<lambda>r. r\<lparr>or_role := x\<rparr>) (iam_roles t)"
  have "map iam_role_pk ?u = map iam_role_pk (iam_roles t)" by (rule map_key_update) (auto simp: iam_role_pk_def)
  then have "set (map iam_role_pk ?u) = set (map iam_role_pk (iam_roles t))" by (rule arg_cong)
  then show ?thesis by (simp add: role_keys_def)
qed

lemma iam_keeps_update_role: "iam_keeps d (snd (update_role a x d))"
proof -
  let ?u = "sql_update (\<lambda>r. iam_role_pk r = (a, ro_name x)) (\<lambda>r. r\<lparr>or_role := x\<rparr>) (iam_roles (iam_tbls d))"
  have "pk iam_role_pk (iam_roles (iam_tbls d)) \<Longrightarrow> pk iam_role_pk ?u"
    by (rule pk_update) (auto simp: iam_role_pk_def)
  then have "iam_tbls_wf (iam_tbls d) \<Longrightarrow> iam_tbls_wf ((iam_tbls d)\<lparr>iam_roles := ?u\<rparr>)"
    by (simp add: iam_tbls_wf_def iam_keys_ok_def iam_refs_ok_def role_keys_update)
       (simp add: user_keys_def profile_keys_def policy_arns_def)
  then show ?thesis by (simp add: update_role_def Let_def iam_keeps_tbls)
qed

lemma image_delete_key: "key ` {x \<in> set t. key x \<noteq> k} = key ` set t - {k}"
  by auto

text \<open>Taking away an owner that nothing hangs on.\<close>

lemma iam_wf_delete_role:
  assumes "iam_tbls_wf t" and "\<forall>x\<in>set (role_attachments t). \<not> attached_to a n x" "\<not> role_restricted a n t"
  shows "iam_tbls_wf (t\<lparr>iam_roles := sql_delete (\<lambda>r. iam_role_pk r = (a, n)) (iam_roles t)\<rparr>)"
  using assms by (auto simp: iam_wf_simps pk_delete image_delete_key attached_to_def inline_of_def role_restricted_def)

lemma iam_wf_delete_user:
  assumes "iam_tbls_wf t" and "\<not> user_held a n t"
  shows "iam_tbls_wf (t\<lparr>iam_users := sql_delete (\<lambda>r. iam_user_pk r = (a, n)) (iam_users t)\<rparr>)"
  using assms by (auto simp: iam_wf_simps pk_delete image_delete_key attached_to_def inline_of_def user_held_def key_of_def)

lemma iam_keeps_delete_role: "iam_keeps d (snd (delete_role a n d))"
  by (auto simp: delete_role_def Let_def find_Some_iff split: sum.split option.split
      intro!: iam_keeps_tbls_drop iam_wf_delete_role)

lemma iam_keeps_delete_user: "iam_keeps d (snd (delete_user a n d))"
  by (auto simp: delete_user_def Let_def find_Some_iff split: sum.split option.split
      intro!: iam_keeps_tbls_drop iam_wf_delete_user)

lemma policy_arns_delete:
  assumes "(a, arn) \<in> policy_arns t" and "\<And>r. policy_attached t r \<longleftrightarrow> (op_account r, po_arn (op_policy r)) \<in> A" "(a, arn) \<in> A"
  shows "(a, arn) \<in> (\<lambda>r. (op_account r, po_arn (op_policy r))) ` set (sql_delete (\<lambda>r. p r \<and> \<not> policy_attached t r) (iam_policies t))"
  using assms by (force simp: policy_arns_def)

lemma iam_keeps_delete_policy: "iam_keeps d (snd (delete_policy a n d))"
proof -
  let ?t = "iam_tbls d" and ?p = "\<lambda>r. iam_policy_pk r = (a, n)"
  let ?t' = "?t\<lparr>iam_policies := sql_delete (\<lambda>r. ?p r \<and> \<not> policy_attached ?t r) (iam_policies ?t)\<rparr>"
  let ?A = "(\<lambda>x. (at_account x, at_policy_arn x)) ` (set (role_attachments ?t) \<union> set (user_attachments ?t))"
  have att: "policy_attached ?t r \<longleftrightarrow> (op_account r, po_arn (op_policy r)) \<in> ?A" for r
    unfolding policy_attached_def image_iff bex_Un by (auto intro: sym)
  have "(at_account x, at_policy_arn x) \<in> policy_arns ?t'"
    if "(at_account x, at_policy_arn x) \<in> policy_arns ?t" "x \<in> set (role_attachments ?t) \<union> set (user_attachments ?t)" for x
    unfolding policy_arns_def using policy_arns_delete [OF that(1) att] that(2) by simp
  then have "iam_refs_ok ?t \<Longrightarrow> iam_refs_ok ?t'"
    by (simp add: iam_refs_ok_def attachment_ok_def role_keys_def user_keys_def profile_keys_def)
  then have "iam_tbls_wf ?t \<Longrightarrow> iam_tbls_wf ?t'" by (simp add: iam_tbls_wf_def iam_keys_ok_def pk_delete)
  then show ?thesis
    by (auto simp: delete_policy_def Let_def split: sum.split option.split intro!: iam_keeps_tbls_drop)
qed

lemma iam_keeps_delete_instance_profile: "iam_keeps d (snd (delete_instance_profile a n d))"
proof -
  have "iam_tbls_wf t \<Longrightarrow> iam_tbls_wf (t\<lparr>iam_profiles := sql_delete (\<lambda>r. iam_profile_pk r = (a, n)) (iam_profiles t),
      profile_roles := sql_delete (\<lambda>x. iam_profile_role_pk x = (a, n)) (profile_roles t)\<rparr>)" for t
    by (simp add: iam_wf_simps pk_delete image_delete_key)
  then show ?thesis
    by (auto simp: delete_instance_profile_def Let_def split: option.split intro!: iam_keeps_tbls_drop)
qed

lemma iam_keeps_add_role: "iam_keeps d (snd (add_role_to_instance_profile a p r d))"
proof (cases "get_instance_profile a p d"; cases "get_role a r d")
  fix pr ro assume *: "get_instance_profile a p d = Inr pr" "get_role a r d = Inr ro"
  with get_profile_key [OF *(1)] get_role_key [OF *(2)] show ?thesis
    by (auto simp: add_role_to_instance_profile_def Let_def iam_frame_simps pk_insert_row insert_row_set
        iam_profile_role_pk_def split: sum.split intro!: iam_keeps_tbls)
qed (simp_all add: add_role_to_instance_profile_def)

lemma iam_keeps_remove_role: "iam_keeps d (snd (remove_role_from_instance_profile a p r d))"
  by (auto simp: remove_role_from_instance_profile_def Let_def iam_frame_simps pk_delete intro!: iam_keeps_tbls)

lemma iam_keeps_create_access_key: "iam_keeps d (snd (create_access_key a k d))"
proof (cases "get_user a (ak_user k) d")
  case (Inr u)
  with get_user_key [OF Inr] show ?thesis
    by (auto simp: create_access_key_def Let_def iam_frame_simps pk_insert_row insert_row_set split: sum.split intro!: iam_keeps_tbls)
qed (simp add: create_access_key_def)

lemma iam_keeps_delete_access_key: "iam_keeps d (snd (delete_access_key a u k d))"
  by (auto simp: delete_access_key_def Let_def iam_frame_simps pk_delete intro!: iam_keeps_tbls)

text \<open>An attachment is stored only with its policy.\<close>

lemma insert_policy_attachment_ok:
  assumes "insert_policy_attachment a n arn t as = Inr rows" and "(a, n) \<in> owners"
  shows "(pk iam_attachment_pk as \<longrightarrow> pk iam_attachment_pk rows) \<and>
    ((\<forall>x\<in>set as. attachment_ok owners (policy_arns t) x) \<longrightarrow> (\<forall>x\<in>set rows. attachment_ok owners (policy_arns t) x))"
  using assms by (auto simp: insert_policy_attachment_def insert_row_set pk_insert_row attachment_ok_def policy_stored_def
      policy_arns_def split: if_splits)

lemma iam_keeps_attach_role: "iam_keeps d (snd (attach_role_policy a n arn d))"
proof (cases "get_role a n d"; cases "insert_policy_attachment a n arn (iam_tbls d) (role_attachments (iam_tbls d))")
  fix r rows assume *: "get_role a n d = Inr r" "insert_policy_attachment a n arn (iam_tbls d) (role_attachments (iam_tbls d)) = Inr rows"
  with insert_policy_attachment_ok [OF *(2) get_role_key [OF *(1)]] show ?thesis
    by (auto simp: attach_role_policy_def iam_frame_simps intro!: iam_keeps_tbls)
qed (simp_all add: attach_role_policy_def)

lemma iam_keeps_attach_user: "iam_keeps d (snd (attach_user_policy a n arn d))"
proof (cases "get_user a n d"; cases "insert_policy_attachment a n arn (iam_tbls d) (user_attachments (iam_tbls d))")
  fix u rows assume *: "get_user a n d = Inr u" "insert_policy_attachment a n arn (iam_tbls d) (user_attachments (iam_tbls d)) = Inr rows"
  with insert_policy_attachment_ok [OF *(2) get_user_key [OF *(1)]] show ?thesis
    by (auto simp: attach_user_policy_def iam_frame_simps intro!: iam_keeps_tbls)
qed (simp_all add: attach_user_policy_def)

lemma iam_keeps_detach_role: "iam_keeps d (snd (detach_role_policy a n arn d))"
  by (auto simp: detach_role_policy_def Let_def iam_frame_simps pk_delete intro!: iam_keeps_tbls)

lemma iam_keeps_detach_user: "iam_keeps d (snd (detach_user_policy a n arn d))"
  by (auto simp: detach_user_policy_def Let_def iam_frame_simps pk_delete intro!: iam_keeps_tbls)

text \<open>Inline policies are a store of documents under their owner and name.\<close>

definition inline_doc :: "string \<times> string \<times> string \<Rightarrow> iam_inline list \<Rightarrow> string option" where
  "inline_doc k is = map_option il_document (find (\<lambda>i. iam_inline_pk i = k) is)"

lemma iam_inline_pk_upd [simp]: "iam_inline_pk (i\<lparr>il_document := doc\<rparr>) = iam_inline_pk i"
  by (simp add: iam_inline_pk_def)

interpretation inlines: store inline_doc "\<lambda>(a, n, m). put_inline a n m" "\<lambda>k. sql_delete (\<lambda>i. iam_inline_pk i = k)" "pk iam_inline_pk"
proof (unfold_locales, goal_cases)
  case (1 s k' k v)
  have k: "iam_inline_pk \<lparr>il_account = fst k, il_owner = fst (snd k), il_name = snd (snd k), il_document = v\<rparr> = k"
    by (simp add: iam_inline_pk_def)
  show ?case by (auto simp: case_prod_beta put_inline_def inline_doc_def find_sql_upsert k split: option.splits)
next
  case (2 s k' k)
  then show ?case by (simp add: inline_doc_def find_sql_delete_key)
next
  case (3 s k v)
  then show ?case by (cases k) (auto simp: put_inline_def intro!: pk_upsert)
qed (rule pk_delete)

lemma get_role_policy_doc:
  "get_role_policy a r n d = (case inline_doc (a, r, n) (role_inlines (iam_tbls d)) of None \<Rightarrow> Inl ErrNotFound | Some doc \<Rightarrow> Inr doc)"
  by (simp add: get_role_policy_def inline_doc_def split: option.split)

lemma get_user_policy_doc:
  "get_user_policy a u n d = (case inline_doc (a, u, n) (user_inlines (iam_tbls d)) of None \<Rightarrow> Inl ErrNotFound | Some doc \<Rightarrow> Inr doc)"
  by (simp add: get_user_policy_def inline_doc_def split: option.split)

lemma put_inline_ok:
  assumes "(a, n) \<in> owners" and "x \<in> set (put_inline a n m doc is)" and "\<forall>i\<in>set is. inline_ok owners i"
  shows "inline_ok owners x"
  using assms by (auto simp: put_inline_def sql_upsert_def inline_ok_def split: if_splits)

lemma pk_put_inline: "pk iam_inline_pk is \<Longrightarrow> pk iam_inline_pk (put_inline a n m doc is)"
  using inlines.ok_put [of "is" "(a, n, m)" doc] by simp

lemma iam_keeps_put_role_policy: "iam_keeps d (snd (put_role_policy a r n doc d))"
proof (cases "get_role a r d")
  case (Inr x)
  with put_inline_ok [OF get_role_key [OF Inr]] show ?thesis
    by (auto simp: put_role_policy_def Let_def iam_frame_simps pk_put_inline intro!: iam_keeps_tbls)
qed (simp add: put_role_policy_def)

lemma iam_keeps_put_user_policy: "iam_keeps d (snd (put_user_policy a u n doc d))"
proof (cases "get_user a u d")
  case (Inr x)
  with put_inline_ok [OF get_user_key [OF Inr]] show ?thesis
    by (auto simp: put_user_policy_def Let_def iam_frame_simps pk_put_inline intro!: iam_keeps_tbls)
qed (simp add: put_user_policy_def)

lemma iam_keeps_delete_role_policy: "iam_keeps d (snd (delete_role_policy a r n d))"
  by (auto simp: delete_role_policy_def Let_def iam_frame_simps pk_delete intro!: iam_keeps_tbls)

lemma iam_keeps_delete_user_policy: "iam_keeps d (snd (delete_user_policy a u n d))"
  by (auto simp: delete_user_policy_def Let_def iam_frame_simps pk_delete intro!: iam_keeps_tbls)

lemmas iam_keeps_repo = iam_keeps_create_role iam_keeps_create_user iam_keeps_create_policy iam_keeps_create_instance_profile
  iam_keeps_seed iam_keeps_update_role iam_keeps_delete_role iam_keeps_delete_user iam_keeps_delete_policy
  iam_keeps_delete_instance_profile iam_keeps_add_role iam_keeps_remove_role iam_keeps_create_access_key
  iam_keeps_delete_access_key iam_keeps_attach_role iam_keeps_attach_user iam_keeps_detach_role iam_keeps_detach_user
  iam_keeps_put_role_policy iam_keeps_put_user_policy iam_keeps_delete_role_policy iam_keeps_delete_user_policy
  iam_keeps_change_tags

end
