(* ===== verification/Refs.thy ===== *)
theory Refs
  imports Rest
begin

text \<open>
  What requests name things by: URL escaping, a reference to a resource of the own account by name or
  ARN (ResolveSameAccountName of repository/repository.go), and the flattened lists of Query-RPC
  parameters (handlers/ec2.go, handlers/ec2_filters.go, handlers/tags.go).
\<close>

section \<open>URL escaping\<close>

definition hex_val :: "char \<Rightarrow> nat option" where
  "hex_val c = map_of (zip ''0123456789abcdefABCDEF'' [0, 1, 2, 3, 4, 5, 6, 7, 8, 9, 10, 11, 12, 13, 14, 15, 10, 11, 12, 13, 14, 15]) c"

text \<open>url.QueryUnescape; None is its error.\<close>

fun query_unescape :: "string \<Rightarrow> string option" where
  "query_unescape [] = Some []"
| "query_unescape (c # s) =
     (if c = CHR ''%'' then
        (case s of
           x # y # t \<Rightarrow> (case (hex_val x, hex_val y) of
               (Some i, Some j) \<Rightarrow> map_option (Cons (char_of (16 * i + j))) (query_unescape t)
             | _ \<Rightarrow> None)
         | _ \<Rightarrow> None)
      else map_option (Cons (if c = CHR ''+'' then CHR '' '' else c)) (query_unescape s))"

definition url_safe :: "char \<Rightarrow> bool" where
  "url_safe c \<longleftrightarrow> c \<in> set ''ABCDEFGHIJKLMNOPQRSTUVWXYZabcdefghijklmnopqrstuvwxyz0123456789-_.~''"

definition hex_upper :: "nat \<Rightarrow> char" where
  "hex_upper n = ''0123456789ABCDEF'' ! (n mod 16)"

text \<open>url.QueryEscape.\<close>

definition query_escape_char :: "char \<Rightarrow> string" where
  "query_escape_char c =
     (if url_safe c then [c]
      else if c = CHR '' '' then ''+''
      else CHR ''%'' # [hex_upper (of_char c div 16), hex_upper (of_char c)])"

definition query_escape :: "string \<Rightarrow> string" where
  "query_escape s = concat (map query_escape_char s)"

section \<open>References\<close>

text \<open>What is left of a tail after the collection's prefix.\<close>

definition strip_collection :: "string \<Rightarrow> string \<Rightarrow> string" where
  "strip_collection collection tail =
     (if collection \<noteq> [] \<and> has_prefix tail (collection @ ''/'') then trim_prefix tail (collection @ ''/'')
      else if collection \<noteq> [] \<and> has_prefix tail (collection @ '':'') then trim_prefix tail (collection @ '':'')
      else tail)"

definition resolve_same_account_name :: "string \<Rightarrow> string \<Rightarrow> string \<Rightarrow> string result" where
  "resolve_same_account_name account ref collection =
     (if ref = [] then Inr []
      else if \<not> list_ex (\<lambda>c. c \<in> set ''/:'') ref then Inr ref
      else if has_prefix ref ''arn:aws:'' then
        (case split_n 6 (CHR '':'') ref of
           [_, _, _, _, arn_account, tail] \<Rightarrow>
             (if arn_account \<noteq> [] \<and> arn_account \<noteq> account then Inl ErrNotFound
              else if collection \<noteq> [] \<and> \<not> has_prefix tail (collection @ ''/'') \<and>
                      \<not> has_prefix tail (collection @ '':'') \<and> tail \<noteq> collection then Inl ErrNotFound
              else Inr (strip_collection collection tail))
         | _ \<Rightarrow> Inl ErrNotFound)
      else (let tail = after_last (CHR '':'') (after_last (CHR ''/'') ref)
            in if tail = [] then Inl ErrNotFound
               else Inr (case query_unescape tail of None \<Rightarrow> tail | Some t \<Rightarrow> t)))"

section \<open>Query-RPC lists\<close>

text \<open>Indexes in numeric order: 2 before 10.\<close>

definition ec2_is_index :: "string \<Rightarrow> bool" where
  "ec2_is_index s \<longleftrightarrow> s \<noteq> [] \<and> list_all (\<lambda>c. c \<in> set ''0123456789'') s"

definition index_order :: "string \<Rightarrow> nat \<times> string" where
  "index_order s = (length s, s)"

type_synonym query_params = "(string \<times> string list) list"

definition query_list_items :: "query_params \<Rightarrow> string \<Rightarrow> string list" where
  "query_list_items p pre =
     (let rest = map (\<lambda>(k, _). drop (length pre) k) (filter (\<lambda>(k, _). has_prefix k pre) p);
          ns = concat (map (\<lambda>r. case str_cut r ''.'' of Some (n, _) \<Rightarrow> if n = [] then [] else [n] | None \<Rightarrow> []) rest)
      in map (\<lambda>n. pre @ n @ ''.'') (sort_key index_order (remdups ns)))"

definition query_list_values :: "query_params \<Rightarrow> string \<Rightarrow> string list" where
  "query_list_values p pre =
     (let ns = filter ec2_is_index (map (\<lambda>(k, _). drop (length pre) k) (filter (\<lambda>(k, _). has_prefix k pre) p))
      in concat (map (\<lambda>n. case map_of p (pre @ n) of Some vs \<Rightarrow> vs | None \<Rightarrow> []) (sort_key index_order ns)))"

definition query_ids :: "query_params \<Rightarrow> string \<Rightarrow> string list" where
  "query_ids p pre = rev (remdups (rev (query_list_values p pre)))"

definition query_tags :: "query_params \<Rightarrow> string \<Rightarrow> gomap" where
  "query_tags p pre = gm_set_all (map (\<lambda>it. (form_get p (it @ ''Key''), form_get p (it @ ''Value''))) (query_list_items p pre)) []"

lemma gm_wf_query_tags [simp]: "gm_wf (query_tags p pre)"
  by (simp add: query_tags_def)

section \<open>Unescaping gives back what was escaped\<close>

lemma hex_val_upper: "n < 16 \<Longrightarrow> hex_val (hex_upper n) = Some n"
proof -
  assume "n < 16"
  then have "n \<in> set [0, 1, 2, 3, 4, 5, 6, 7, 8, 9, 10, 11, 12, 13, 14, 15]" by (simp add: numeral_eq_Suc less_Suc_eq)
  then show ?thesis by (auto simp: hex_val_def hex_upper_def)
qed

lemma hex_upper_mod: "hex_upper n = hex_upper (n mod 16)"
  by (simp add: hex_upper_def)

lemma query_unescape_char: "query_unescape (query_escape_char c @ s) = map_option (Cons c) (query_unescape s)"
proof (cases "url_safe c")
  case True
  then have "c \<noteq> CHR ''%''" "c \<noteq> CHR ''+''" by (auto simp: url_safe_def)
  with True show ?thesis by (simp add: query_escape_char_def)
next
  case False
  have "(of_char c :: nat) < 256" by simp
  then have "(of_char c :: nat) div 16 < 16" by (simp add: div_less_iff_less_mult)
  then have "hex_val (hex_upper (of_char c div 16)) = Some (of_char c div 16)" by (rule hex_val_upper)
  moreover have "hex_val (hex_upper (of_char c)) = Some (of_char c mod 16)"
    by (subst hex_upper_mod) (rule hex_val_upper, simp)
  moreover have "16 * (of_char c div 16) + of_char c mod 16 = (of_char c :: nat)" by simp
  ultimately show ?thesis using False by (simp add: query_escape_char_def)
qed

lemma query_unescape_escape: "query_unescape (query_escape s) = Some s"
  by (induction s) (simp_all add: query_escape_def query_unescape_char)

text \<open>ARNs in their six parts.\<close>

definition arn_parts :: "string \<Rightarrow> string \<Rightarrow> string \<Rightarrow> string \<Rightarrow> string" where
  "arn_parts service region account tail =
     ''arn:aws:'' @ service @ '':'' @ region @ '':'' @ account @ '':'' @ tail"

lemma split_arn:
  assumes "CHR '':'' \<notin> set service" "CHR '':'' \<notin> set region" "CHR '':'' \<notin> set account"
  shows "split_n 6 (CHR '':'') (arn_parts service region account tail) = [''arn'', ''aws'', service, region, account, tail]"
proof -
  have 1: "str_cut (''arn'' @ CHR '':'' # t) '':'' = Some (''arn'', t)" "str_cut (''aws'' @ CHR '':'' # t) '':'' = Some (''aws'', t)" for t
    by (rule str_cut_char, simp)+
  have 2: "str_cut (s @ CHR '':'' # t) '':'' = Some (s, t)" if "s \<in> {service, region, account}" for s t
    using that assms by (intro str_cut_char) auto
  have "arn_parts service region account tail = ''arn'' @ CHR '':'' # ''aws'' @ CHR '':'' # service @ CHR '':'' # region @
      CHR '':'' # account @ CHR '':'' # tail"
    by (simp add: arn_parts_def)
  moreover have "(6 :: nat) = Suc (Suc (Suc (Suc (Suc (Suc 0)))))" by simp
  ultimately show ?thesis by (simp only: split_n.simps 1 2 insertI1 insertI2 option.case prod.case)
qed

lemma resolve_arn:
  assumes "CHR '':'' \<notin> set service" "CHR '':'' \<notin> set region" "CHR '':'' \<notin> set account'"
  shows "resolve_same_account_name account (arn_parts service region account' tail) collection =
    (if account' \<noteq> [] \<and> account' \<noteq> account then Inl ErrNotFound
     else if collection \<noteq> [] \<and> \<not> has_prefix tail (collection @ ''/'') \<and> \<not> has_prefix tail (collection @ '':'') \<and>
             tail \<noteq> collection then Inl ErrNotFound
     else Inr (strip_collection collection tail))"
proof -
  have "arn_parts service region account' tail = ''arn:aws:'' @ (service @ '':'' @ region @ '':'' @ account' @ '':'' @ tail)"
    by (simp add: arn_parts_def)
  then have "has_prefix (arn_parts service region account' tail) ''arn:aws:''" by (simp only: has_prefix_append)
  moreover have "arn_parts service region account' tail \<noteq> []" "list_ex (\<lambda>c. c \<in> set ''/:'') (arn_parts service region account' tail)"
    by (simp_all add: arn_parts_def)
  ultimately show ?thesis
    by (simp only: resolve_same_account_name_def split_arn [OF assms] if_False if_True list.case simp_thms not_False_eq_True)
qed

section \<open>Properties\<close>

text \<open>A reference to another account's resource is refused, and one to the wrong kind of resource; an ARN
  of the own account resolves to the name it was built from, slashes and colons in the name included.\<close>

theorem resolve_own_account_only:
  assumes "CHR '':'' \<notin> set service" "CHR '':'' \<notin> set region" "CHR '':'' \<notin> set account'" "account' \<noteq> []"
    and "collection \<noteq> []" and "\<not> has_prefix tail collection"
  shows "resolve_same_account_name account (arn_parts service region account' (collection @ ''/'' @ name)) collection =
      (if account' = account then Inr name else Inl ErrNotFound) \<and>
    resolve_same_account_name account (arn_parts service region account' tail) collection = Inl ErrNotFound"
proof -
  have "has_prefix (collection @ ''/'' @ name) (collection @ ''/'')"
    using has_prefix_append [of "collection @ ''/''" name] by simp
  moreover have "trim_prefix (collection @ ''/'' @ name) (collection @ ''/'') = name"
    using trim_prefix_append [of "collection @ ''/''" name] by simp
  moreover have "\<not> has_prefix tail (collection @ s)" for s
    using assms(6) by (auto simp: has_prefix_iff)
  moreover have "tail \<noteq> collection" using assms(6) by (auto simp: has_prefix_def)
  ultimately show ?thesis
    using assms(4,5) by (simp add: resolve_arn [OF assms(1-3)] strip_collection_def)
qed

section \<open>Examples\<close>

theorem resolve_own_account_only_witness:
  "resolve_same_account_name ''111122223333'' ''arn:aws:iam::111122223333:policy/team/p'' ''policy'' = Inr ''team/p''"
proof -
  have "arn_parts ''iam'' [] ''111122223333'' (''policy'' @ ''/'' @ ''team/p'') = ''arn:aws:iam::111122223333:policy/team/p''"
    by (simp add: arn_parts_def)
  moreover have "\<not> has_prefix ''role/p'' ''policy''" by code_simp
  ultimately show ?thesis
    using resolve_own_account_only [of "''iam''" "[]" "''111122223333''" "''policy''" "''role/p''" "''111122223333''" "''team/p''"]
    by simp
qed

end
