(* ===== verification/Iam.thy ===== *)
theory Iam
  imports IamRepo Refs Identity
begin

text \<open>
  IAM on the wire (handlers/iam.go): the Query-RPC dispatcher and the action handlers over the
  repository's \<open>IamRepo\<close>. A payload struct with an XMLName keeps its element in the Result, and in a list
  too; any other is the list of its fields.
\<close>

section \<open>Errors\<close>

datatype iam_error =
    Iam_invalid string
  | Iam_not_modelled
  | Iam_limit_exceeded
  | Iam_err go_error

text \<open>What a message names: a kind and how the call identified it.\<close>

type_synonym iam_entity = "string \<times> string"

definition iam_named :: "string \<Rightarrow> string \<Rightarrow> iam_entity" where
  "iam_named kind name = (kind, ''name '' @ name)"

definition iam_by_arn :: "string \<Rightarrow> string \<Rightarrow> iam_entity" where
  "iam_by_arn kind arn = (kind, ''ARN '' @ arn)"

definition iam_child_entity :: "'a result \<Rightarrow> iam_entity \<Rightarrow> iam_entity \<Rightarrow> iam_entity" where
  "iam_child_entity lookup parent child =
     (case lookup of Inl e \<Rightarrow> if errors_is e ErrNotFound then parent else child | Inr _ \<Rightarrow> child)"

definition upper_first :: "string \<Rightarrow> string" where
  "upper_first s = upper (take 1 s) @ drop 1 s"

definition iam_limit_text :: string where
  "iam_limit_text = ''Cannot exceed quota for InstanceSessionsPerInstanceProfile: 1''"

definition iam_conflict_text :: "string \<Rightarrow> string" where
  "iam_conflict_text named = ''Cannot delete entity, must first remove everything attached to '' @ named @ ''.''"

definition iam_write_error :: "iam_error \<Rightarrow> iam_entity \<Rightarrow> response" where
  "iam_write_error err e =
     (let named = (if fst e \<noteq> [] then ''the '' @ fst e @ '' with '' @ snd e else ''the entity'');
          write = write_service_error Shape_query_rpc
      in case err of
        Iam_invalid s \<Rightarrow> write 400 ''ValidationError'' s
      | Iam_not_modelled \<Rightarrow> write 404 ''ResourceNotFoundException''
          (''IAM '' @ fst e @ '' '' @ snd e @ '' is not modelled by fakeaws.'')
      | Iam_limit_exceeded \<Rightarrow> write 409 ''LimitExceeded'' iam_limit_text
      | Iam_err g \<Rightarrow>
          (if errors_is g ErrNotFound then write 404 ''NoSuchEntity'' (upper_first named @ '' cannot be found.'')
           else if errors_is g ErrInUse then write 409 ''DeleteConflict'' (iam_conflict_text named)
           else if errors_is g ErrConflict
           then write 409 ''EntityAlreadyExists'' (upper_first (trim_prefix named ''the '') @ '' already exists.'')
           else write 500 ''InternalFailure'' ''An internal error occurred.''))"

text \<open>A handler that answers what an operation returned: nothing, or its error naming an entity.\<close>

definition iam_done :: "string \<Rightarrow> iam_entity \<Rightarrow> go_error option \<times> db \<Rightarrow> response \<times> db" where
  "iam_done action e res = (case res of
       (Some g, d') \<Rightarrow> (iam_write_error (Iam_err g) e, d')
     | (None, d') \<Rightarrow> (write_query_rpc_nil action, d'))"

section \<open>Helpers\<close>

definition path_or_slash :: "string \<Rightarrow> string" where
  "path_or_slash p = (if p = [] then ''/'' else p)"

text \<open>A space is %20 in an answered document, not +.\<close>

definition url_escape_if_not_empty :: "string \<Rightarrow> string" where
  "url_escape_if_not_empty s =
     (if s = [] then s else concat (map (\<lambda>c. if c = CHR ''+'' then ''%20'' else [c]) (query_escape s)))"

definition rand_hex :: "nat list \<Rightarrow> string" where
  "rand_hex b = upper (hex_encode b)"

text \<open>fmt.Sscanf with %d into an int: the new value, or None where the scan fails and leaves the old one.\<close>

fun scan_skip :: "string \<Rightarrow> string option" where
  "scan_skip [] = Some []"
| "scan_skip [c] = (if c = CHR 0x0A then None else if is_space c then Some [] else Some [c])"
| "scan_skip (c # x # s) =
     (if c = CHR 0x0D \<and> x = CHR 0x0A then scan_skip s
      else if c = CHR 0x0A then None
      else if is_space c then scan_skip (x # s) else Some (c # x # s))"

definition scan_int :: "string \<Rightarrow> int option" where
  "scan_int s =
     (case scan_skip s of
        None \<Rightarrow> None
      | Some t \<Rightarrow>
          (let sign = takeWhile (\<lambda>c. c \<in> set ''+-'') (take 1 t);
               ds = takeWhile (\<lambda>c. digit_value c \<noteq> None) (drop (length sign) t)
           in if ds = [] then None else parse_int (sign @ ds)))"

definition scan_into :: "string \<Rightarrow> int \<Rightarrow> int" where
  "scan_into s old = (case scan_int s of None \<Rightarrow> old | Some n \<Rightarrow> n)"

text \<open>utf8.RuneCountInString: the continuation bytes the rune at the front takes, and the count.\<close>

definition rune_tail :: "char \<Rightarrow> string \<Rightarrow> nat" where
  "rune_tail c s =
     (let b = (of_char c :: nat); x = (\<lambda>i. if i < length s then of_char (s ! i) else (0 :: nat));
          cont = (\<lambda>i. 0x80 \<le> x i \<and> x i \<le> 0xBF)
      in if 0xC2 \<le> b \<and> b \<le> 0xDF then (if cont 0 then 1 else 0)
         else if 0xE0 \<le> b \<and> b \<le> 0xEF then
           (if cont 0 \<and> cont 1 \<and> (b = 0xE0 \<longrightarrow> 0xA0 \<le> x 0) \<and> (b = 0xED \<longrightarrow> x 0 \<le> 0x9F) then 2 else 0)
         else if 0xF0 \<le> b \<and> b \<le> 0xF4 then
           (if cont 0 \<and> cont 1 \<and> cont 2 \<and> (b = 0xF0 \<longrightarrow> 0x90 \<le> x 0) \<and> (b = 0xF4 \<longrightarrow> x 0 \<le> 0x8F) then 3 else 0)
         else 0)"

fun rune_count :: "string \<Rightarrow> nat" where
  "rune_count [] = 0"
| "rune_count (c # s) = Suc (rune_count (drop (rune_tail c s) s))"

definition iam_tags_xml :: "gomap \<Rightarrow> xml list" where
  "iam_tags_xml tags = tag_list tags (\<lambda>k v. Elem ''member'' [leaf ''Key'' k, leaf ''Value'' v])"

text \<open>The answer of a list with its IsTruncated.\<close>

definition iam_list :: "string \<Rightarrow> string \<Rightarrow> xml list \<Rightarrow> response" where
  "iam_list action field xs = write_query_rpc action [Elem field xs, leaf ''IsTruncated'' ''false'']"

section \<open>Roles\<close>

definition boundary_xml :: "(string \<times> string) option \<Rightarrow> xml list" where
  "boundary_xml b = (case b of None \<Rightarrow> []
     | Some (ty, arn) \<Rightarrow> [Elem ''PermissionsBoundary'' [leaf ''PermissionsBoundaryType'' ty, leaf ''PermissionsBoundaryArn'' arn]])"

definition role_to_xml :: "iam_role \<Rightarrow> gomap \<Rightarrow> xml list" where
  "role_to_xml r tags =
     [leaf ''RoleName'' (ro_name r), leaf ''Path'' (path_or_slash (ro_path r)), leaf ''Arn'' (ro_arn r)] @
     leaf_omitempty ''RoleId'' (ro_role_id r) @
     leaf_omitempty ''AssumeRolePolicyDocument'' (url_escape_if_not_empty (ro_assume_role_policy_document r)) @
     leaf_omitempty ''Description'' (ro_description r) @
     (if ro_max_session_duration r = 0 then [] else [leaf ''MaxSessionDuration'' (show_int (ro_max_session_duration r))]) @
     boundary_xml (ro_permissions_boundary r) @
     [leaf ''CreateDate'' (ro_created_at r), Elem ''Tags'' (iam_tags_xml tags)]"

definition iam_role_result :: "string \<Rightarrow> iam_role \<Rightarrow> gomap \<Rightarrow> response" where
  "iam_role_result action r tags = write_query_rpc action [Elem ''Role'' (role_to_xml r tags)]"

definition iam_new_role :: "env \<Rightarrow> string \<Rightarrow> query_params \<Rightarrow> iam_role" where
  "iam_new_role env account p =
     \<lparr>ro_name = form_get p ''RoleName'', ro_path = path_or_slash (form_get p ''Path''),
      ro_arn = iam_role_arn account (form_get p ''RoleName''),
      ro_assume_role_policy_document = form_get p ''AssumeRolePolicyDocument'', ro_description = form_get p ''Description'',
      ro_max_session_duration = (if form_get p ''MaxSessionDuration'' = [] then 0 else scan_into (form_get p ''MaxSessionDuration'') 0),
      ro_created_at = rfc3339 (e_now env), ro_role_id = [], ro_permissions_boundary = None\<rparr>"

definition iam_create_role :: "env \<Rightarrow> string \<Rightarrow> query_params \<Rightarrow> db \<Rightarrow> response \<times> db" where
  "iam_create_role env account p d =
     (let name = form_get p ''RoleName''; role = iam_new_role env account p; tags = query_tags p ''Tags.member.''
      in if name = [] then (iam_write_error (Iam_invalid ''RoleName is required.'') ([], []), d)
         else case create_role account role d of
           (Some e, d') \<Rightarrow> (iam_write_error (Iam_err e) (iam_named ''role'' name), d')
         | (None, d') \<Rightarrow>
             (case tag_created account Tags_IAM_role (ro_arn role) tags (delete_role account name) d' of
                (Some e, d'') \<Rightarrow> (iam_write_error (Iam_err e) (iam_named ''role'' name), d'')
              | (None, d'') \<Rightarrow> (iam_role_result ''CreateRole'' role tags, d'')))"

definition iam_get_role :: "string \<Rightarrow> query_params \<Rightarrow> db \<Rightarrow> response" where
  "iam_get_role account p d =
     (let name = form_get p ''RoleName''
      in case get_role account name d of
        Inl e \<Rightarrow> iam_write_error (Iam_err e) (iam_named ''role'' name)
      | Inr role \<Rightarrow> (case resource_tag_map account Tags_IAM_role (ro_arn role) d of
          Inl e \<Rightarrow> iam_write_error (Iam_err e) (iam_named ''role'' name)
        | Inr tags \<Rightarrow> iam_role_result ''GetRole'' role tags))"

definition iam_list_roles :: "string \<Rightarrow> db \<Rightarrow> response" where
  "iam_list_roles account d =
     iam_list ''ListRoles'' ''Roles''
       (map (\<lambda>r. Elem ''member'' (role_to_xml (r\<lparr>ro_permissions_boundary := None\<rparr>) [])) (list_roles account d))"

definition iam_update_role :: "string \<Rightarrow> query_params \<Rightarrow> db \<Rightarrow> response \<times> db" where
  "iam_update_role account p d =
     (let name = form_get p ''RoleName''
      in case get_role account name d of
        Inl e \<Rightarrow> (iam_write_error (Iam_err e) (iam_named ''role'' name), d)
      | Inr role \<Rightarrow>
          (let r1 = (if form_get p ''Description'' \<noteq> [] then role\<lparr>ro_description := form_get p ''Description''\<rparr> else role);
               r2 = (if form_get p ''MaxSessionDuration'' \<noteq> []
                     then r1\<lparr>ro_max_session_duration := scan_into (form_get p ''MaxSessionDuration'') (ro_max_session_duration r1)\<rparr>
                     else r1)
           in iam_done ''UpdateRole'' (iam_named ''role'' name) (update_role account r2 d)))"

definition iam_max_role_description :: nat where
  "iam_max_role_description = 1000"

definition iam_description_text :: string where
  "iam_description_text =
     ''Value at 'description' failed to satisfy constraint: Member must have length less than or equal to '' @
     show_nat iam_max_role_description"

definition iam_update_role_description :: "string \<Rightarrow> query_params \<Rightarrow> db \<Rightarrow> response \<times> db" where
  "iam_update_role_description account p d =
     (let name = form_get p ''RoleName''; description = form_get p ''Description''
      in if name = [] then (iam_write_error (Iam_invalid ''RoleName is required.'') ([], []), d)
         else if rune_count description > iam_max_role_description
         then (iam_write_error (Iam_invalid iam_description_text) ([], []), d)
         else case get_role account name d of
           Inl e \<Rightarrow> (iam_write_error (Iam_err e) (iam_named ''role'' name), d)
         | Inr role \<Rightarrow>
             (let r = role\<lparr>ro_description := description\<rparr>
              in case update_role account r d of
                   (Some e, d') \<Rightarrow> (iam_write_error (Iam_err e) (iam_named ''role'' name), d')
                 | (None, d') \<Rightarrow> (iam_role_result ''UpdateRoleDescription'' r [], d')))"

definition iam_delete_role :: "string \<Rightarrow> query_params \<Rightarrow> db \<Rightarrow> response \<times> db" where
  "iam_delete_role account p d =
     (let name = form_get p ''RoleName''
      in iam_done ''DeleteRole'' (iam_named ''role'' name) (delete_role account name d))"

section \<open>Policies\<close>

definition policy_to_xml :: "iam_policy \<Rightarrow> gomap \<Rightarrow> xml" where
  "policy_to_xml p tags = Elem ''Policy''
     ([leaf ''PolicyName'' (po_name p), leaf ''Path'' (path_or_slash (po_path p)), leaf ''Arn'' (po_arn p)] @
      leaf_omitempty ''Description'' (po_description p) @
      [leaf ''CreateDate'' (po_created_at p), leaf ''DefaultVersionId'' ''v1'', Elem ''Tags'' (iam_tags_xml tags)])"

definition iam_new_policy :: "env \<Rightarrow> string \<Rightarrow> query_params \<Rightarrow> iam_policy" where
  "iam_new_policy env account p =
     \<lparr>po_name = form_get p ''PolicyName'', po_path = path_or_slash (form_get p ''Path''),
      po_arn = iam_policy_arn account (form_get p ''PolicyName''), po_document = form_get p ''PolicyDocument'',
      po_description = form_get p ''Description'', po_created_at = rfc3339 (e_now env)\<rparr>"

definition iam_create_policy :: "env \<Rightarrow> string \<Rightarrow> query_params \<Rightarrow> db \<Rightarrow> response \<times> db" where
  "iam_create_policy env account p d =
     (let name = form_get p ''PolicyName''; policy = iam_new_policy env account p; tags = query_tags p ''Tags.member.''
      in if name = [] then (iam_write_error (Iam_invalid ''PolicyName is required.'') ([], []), d)
         else case create_policy account policy d of
           (Some e, d') \<Rightarrow> (iam_write_error (Iam_err e) (iam_named ''policy'' name), d')
         | (None, d') \<Rightarrow>
             (case tag_created account Tags_IAM_policy (po_arn policy) tags (delete_policy account name) d' of
                (Some e, d'') \<Rightarrow> (iam_write_error (Iam_err e) (iam_named ''policy'' name), d'')
              | (None, d'') \<Rightarrow> (write_query_rpc ''CreatePolicy'' [policy_to_xml policy tags], d'')))"

text \<open>A policy is asked for by its name or by its ARN; an ARN that does not resolve leaves the name empty.\<close>

definition policy_name_of :: "string \<Rightarrow> query_params \<Rightarrow> string" where
  "policy_name_of account p =
     (let name = form_get p ''PolicyName''; arn = form_get p ''PolicyArn''
      in if name = [] \<and> arn \<noteq> []
         then (case resolve_same_account_name account arn ''policy'' of Inl _ \<Rightarrow> [] | Inr n \<Rightarrow> n) else name)"

definition iam_get_policy :: "string \<Rightarrow> query_params \<Rightarrow> db \<Rightarrow> response" where
  "iam_get_policy account p d =
     (let name = policy_name_of account p
      in case get_policy account name d of
        Inl e \<Rightarrow> iam_write_error (Iam_err e) (iam_named ''policy'' name)
      | Inr policy \<Rightarrow> (case resource_tag_map account Tags_IAM_policy (po_arn policy) d of
          Inl e \<Rightarrow> iam_write_error (Iam_err e) (iam_named ''policy'' name)
        | Inr tags \<Rightarrow> write_query_rpc ''GetPolicy'' [policy_to_xml policy tags]))"

definition policy_version_xml :: "string \<Rightarrow> iam_policy \<Rightarrow> xml list" where
  "policy_version_xml doc p = leaf_omitempty ''Document'' doc @
     [leaf ''VersionId'' ''v1'', leaf ''IsDefaultVersion'' ''true'', leaf ''CreateDate'' (po_created_at p)]"

definition iam_get_policy_version :: "string \<Rightarrow> query_params \<Rightarrow> db \<Rightarrow> response" where
  "iam_get_policy_version account p d =
     (let name = policy_name_of account p
      in case get_policy account name d of
        Inl e \<Rightarrow> iam_write_error (Iam_err e) (iam_named ''policy'' name)
      | Inr policy \<Rightarrow> write_query_rpc ''GetPolicyVersion''
          [Elem ''PolicyVersion'' (policy_version_xml (url_escape_if_not_empty (po_document policy)) policy)])"

definition iam_list_policy_versions :: "string \<Rightarrow> query_params \<Rightarrow> db \<Rightarrow> response" where
  "iam_list_policy_versions account p d =
     (let name = policy_name_of account p
      in case get_policy account name d of
        Inl e \<Rightarrow> iam_write_error (Iam_err e) (iam_named ''policy'' name)
      | Inr policy \<Rightarrow> write_query_rpc ''ListPolicyVersions''
          [Elem ''Versions'' [Elem ''member'' (policy_version_xml [] policy)]])"

definition iam_list_policies :: "string \<Rightarrow> db \<Rightarrow> response" where
  "iam_list_policies account d =
     iam_list ''ListPolicies'' ''Policies'' (map (\<lambda>p. policy_to_xml p []) (list_policies account d))"

definition iam_delete_policy :: "string \<Rightarrow> query_params \<Rightarrow> db \<Rightarrow> response \<times> db" where
  "iam_delete_policy account p d =
     (let name = policy_name_of account p
      in iam_done ''DeletePolicy'' (iam_named ''policy'' name) (delete_policy account name d))"

section \<open>Instance profiles\<close>

definition profile_role_xml :: "iam_role \<Rightarrow> xml" where
  "profile_role_xml r = Elem ''member''
     ([leaf ''RoleName'' (ro_name r), leaf ''Path'' (path_or_slash (ro_path r)), leaf ''Arn'' (ro_arn r)] @
      leaf_omitempty ''RoleId'' (ro_role_id r) @
      leaf_omitempty ''AssumeRolePolicyDocument'' (url_escape_if_not_empty (ro_assume_role_policy_document r)) @
      [leaf ''CreateDate'' (ro_created_at r)])"

definition instance_profile_to_xml :: "iam_profile \<Rightarrow> iam_role option \<Rightarrow> gomap \<Rightarrow> xml list" where
  "instance_profile_to_xml p attached tags =
     leaf ''InstanceProfileName'' (ip_name p) # leaf_omitempty ''InstanceProfileId'' (ip_id p) @
     [leaf ''Path'' (path_or_slash (ip_path p)), leaf ''Arn'' (ip_arn p), leaf ''CreateDate'' (ip_created_at p),
      Elem ''Roles'' (case attached of None \<Rightarrow> [] | Some r \<Rightarrow> [profile_role_xml r]),
      Elem ''Tags'' (iam_tags_xml tags)]"

definition iam_create_instance_profile :: "env \<Rightarrow> string \<Rightarrow> query_params \<Rightarrow> db \<Rightarrow> response \<times> db" where
  "iam_create_instance_profile env account p d =
     (let name = form_get p ''InstanceProfileName''; tags = query_tags p ''Tags.member.'';
          prof = \<lparr>ip_name = name, ip_path = path_or_slash (form_get p ''Path''), ip_arn = iam_instance_profile_arn account name,
                  ip_attached_role = [], ip_created_at = rfc3339 (e_now env), ip_id = []\<rparr>
      in if name = [] then (iam_write_error (Iam_invalid ''InstanceProfileName is required.'') ([], []), d)
         else case create_instance_profile account prof d of
           (Some e, d') \<Rightarrow> (iam_write_error (Iam_err e) (iam_named ''instance profile'' name), d')
         | (None, d') \<Rightarrow>
             (case tag_created account Tags_IAM_profile (ip_arn prof) tags (delete_instance_profile account name) d' of
                (Some e, d'') \<Rightarrow> (iam_write_error (Iam_err e) (iam_named ''instance profile'' name), d'')
              | (None, d'') \<Rightarrow> (write_query_rpc ''CreateInstanceProfile''
                    [Elem ''InstanceProfile'' (instance_profile_to_xml prof None tags)], d'')))"

definition role_or_none :: "string \<Rightarrow> iam_profile \<Rightarrow> db \<Rightarrow> iam_role option" where
  "role_or_none account p d =
     (if ip_attached_role p = [] then None
      else case get_role account (ip_attached_role p) d of Inl _ \<Rightarrow> None | Inr r \<Rightarrow> Some r)"

definition iam_get_instance_profile :: "string \<Rightarrow> query_params \<Rightarrow> db \<Rightarrow> response" where
  "iam_get_instance_profile account p d =
     (let name = form_get p ''InstanceProfileName''
      in case get_instance_profile account name d of
        Inl e \<Rightarrow> iam_write_error (Iam_err e) (iam_named ''instance profile'' name)
      | Inr prof \<Rightarrow> (case resource_tag_map account Tags_IAM_profile (ip_arn prof) d of
          Inl e \<Rightarrow> iam_write_error (Iam_err e) (iam_named ''instance profile'' name)
        | Inr tags \<Rightarrow> write_query_rpc ''GetInstanceProfile''
            [Elem ''InstanceProfile'' (instance_profile_to_xml prof (role_or_none account prof d) tags)]))"

definition iam_list_instance_profiles :: "string \<Rightarrow> db \<Rightarrow> response" where
  "iam_list_instance_profiles account d =
     iam_list ''ListInstanceProfiles'' ''InstanceProfiles''
       (map (\<lambda>p. Elem ''member'' (instance_profile_to_xml p (role_or_none account p d) [])) (list_instance_profiles account d))"

definition iam_delete_instance_profile :: "string \<Rightarrow> query_params \<Rightarrow> db \<Rightarrow> response \<times> db" where
  "iam_delete_instance_profile account p d =
     (let name = form_get p ''InstanceProfileName''
      in iam_done ''DeleteInstanceProfile'' (iam_named ''instance profile'' name) (delete_instance_profile account name d))"

definition iam_add_role_to_instance_profile :: "string \<Rightarrow> query_params \<Rightarrow> db \<Rightarrow> response \<times> db" where
  "iam_add_role_to_instance_profile account p d =
     (let profile = form_get p ''InstanceProfileName''; role = form_get p ''RoleName''
      in case add_role_to_instance_profile account profile role d of
        (Some g, d') \<Rightarrow>
          (iam_write_error (if errors_is g ErrConflict then Iam_limit_exceeded else Iam_err g)
             (iam_child_entity (get_instance_profile account profile d') (iam_named ''instance profile'' profile) (iam_named ''role'' role)), d')
      | (None, d') \<Rightarrow> (write_query_rpc_nil ''AddRoleToInstanceProfile'', d'))"

text \<open>What the calls on a child of an owner answer; on an error the owner is looked up in the state the operation left.\<close>

definition iam_child_done ::
  "string \<Rightarrow> (db \<Rightarrow> 'a result) \<Rightarrow> iam_entity \<Rightarrow> iam_entity \<Rightarrow> go_error option \<times> db \<Rightarrow> response \<times> db" where
  "iam_child_done action owner parent child res =
     iam_done action (iam_child_entity (owner (snd res)) parent child) res"

definition iam_remove_role_from_instance_profile :: "string \<Rightarrow> query_params \<Rightarrow> db \<Rightarrow> response \<times> db" where
  "iam_remove_role_from_instance_profile account p d =
     (let profile = form_get p ''InstanceProfileName''; role = form_get p ''RoleName''
      in iam_child_done ''RemoveRoleFromInstanceProfile'' (get_instance_profile account profile)
           (iam_named ''instance profile'' profile) (iam_named ''role'' role)
           (remove_role_from_instance_profile account profile role d))"

definition iam_list_instance_profiles_for_role :: "string \<Rightarrow> query_params \<Rightarrow> db \<Rightarrow> response" where
  "iam_list_instance_profiles_for_role account p d =
     (let name = form_get p ''RoleName''
      in case get_role account name d of
        Inl e \<Rightarrow> iam_write_error (Iam_err e) (iam_named ''role'' name)
      | Inr role \<Rightarrow> iam_list ''ListInstanceProfilesForRole'' ''InstanceProfiles''
          (map (\<lambda>pr. Elem ''member'' (instance_profile_to_xml pr (Some role) [])) (list_instance_profiles_for_role account name d)))"

section \<open>Users and access keys\<close>

definition user_to_xml :: "iam_user \<Rightarrow> gomap \<Rightarrow> xml" where
  "user_to_xml u tags = Elem ''User''
     [leaf ''UserName'' (us_name u), leaf ''Path'' (path_or_slash (us_path u)), leaf ''Arn'' (us_arn u),
      leaf ''UserId'' (''AIDA'' @ upper (us_name u)), leaf ''CreateDate'' (us_created_at u), Elem ''Tags'' (iam_tags_xml tags)]"

definition iam_create_user :: "env \<Rightarrow> string \<Rightarrow> query_params \<Rightarrow> db \<Rightarrow> response \<times> db" where
  "iam_create_user env account p d =
     (let name = form_get p ''UserName''; tags = query_tags p ''Tags.member.'';
          u = \<lparr>us_name = name, us_path = path_or_slash (form_get p ''Path''), us_arn = iam_user_arn account name,
               us_created_at = rfc3339 (e_now env)\<rparr>
      in if name = [] then (iam_write_error (Iam_invalid ''UserName is required.'') ([], []), d)
         else case create_user account u d of
           (Some e, d') \<Rightarrow> (iam_write_error (Iam_err e) (iam_named ''user'' name), d')
         | (None, d') \<Rightarrow>
             (case tag_created account Tags_IAM_user (us_arn u) tags (delete_user account name) d' of
                (Some e, d'') \<Rightarrow> (iam_write_error (Iam_err e) (iam_named ''user'' name), d'')
              | (None, d'') \<Rightarrow> (write_query_rpc ''CreateUser'' [user_to_xml u tags], d'')))"

definition iam_get_user :: "string \<Rightarrow> query_params \<Rightarrow> db \<Rightarrow> response" where
  "iam_get_user account p d =
     (let name = form_get p ''UserName''
      in case get_user account name d of
        Inl e \<Rightarrow> iam_write_error (Iam_err e) (iam_named ''user'' name)
      | Inr u \<Rightarrow> (case resource_tag_map account Tags_IAM_user (us_arn u) d of
          Inl e \<Rightarrow> iam_write_error (Iam_err e) (iam_named ''user'' name)
        | Inr tags \<Rightarrow> write_query_rpc ''GetUser'' [user_to_xml u tags]))"

definition iam_list_users :: "string \<Rightarrow> db \<Rightarrow> response" where
  "iam_list_users account d = iam_list ''ListUsers'' ''Users'' (map (\<lambda>u. user_to_xml u []) (list_users account d))"

definition iam_delete_user :: "string \<Rightarrow> query_params \<Rightarrow> db \<Rightarrow> response \<times> db" where
  "iam_delete_user account p d =
     (let name = form_get p ''UserName''
      in iam_done ''DeleteUser'' (iam_named ''user'' name) (delete_user account name d))"

definition iam_delete_login_profile :: "query_params \<Rightarrow> response" where
  "iam_delete_login_profile p = iam_write_error (Iam_err ErrNotFound) (iam_named ''login profile for user'' (form_get p ''UserName''))"

definition iam_new_access_key :: "env \<Rightarrow> query_params \<Rightarrow> iam_access_key" where
  "iam_new_access_key env p =
     \<lparr>ak_id = ''AKIA'' @ upper (rand_hex (rand_read 0 env)), ak_user = form_get p ''UserName'',
      ak_secret = rand_hex (rand_read 1 env), ak_status = ''Active'', ak_created_at = rfc3339 (e_now env)\<rparr>"

definition iam_create_access_key :: "env \<Rightarrow> string \<Rightarrow> query_params \<Rightarrow> db \<Rightarrow> response \<times> db" where
  "iam_create_access_key env account p d =
     (let k = iam_new_access_key env p
      in case create_access_key account k d of
        (Some e, d') \<Rightarrow> (iam_write_error (Iam_err e) (iam_named ''user'' (ak_user k)), d')
      | (None, d') \<Rightarrow> (write_query_rpc ''CreateAccessKey'' [Elem ''AccessKey''
            ([leaf ''UserName'' (ak_user k), leaf ''AccessKeyId'' (ak_id k), leaf ''Status'' ''Active''] @
             leaf_omitempty ''SecretAccessKey'' (ak_secret k) @ [leaf ''CreateDate'' (ak_created_at k)])], d'))"

definition iam_list_access_keys :: "string \<Rightarrow> query_params \<Rightarrow> db \<Rightarrow> response" where
  "iam_list_access_keys account p d =
     (let user = form_get p ''UserName''
      in iam_list ''ListAccessKeys'' ''AccessKeyMetadata''
           (map (\<lambda>k. Elem ''member'' [leaf ''UserName'' user, leaf ''AccessKeyId'' (ak_id k), leaf ''Status'' (ak_status k),
                leaf ''CreateDate'' (ak_created_at k)]) (list_access_keys account user d)))"

definition iam_delete_access_key :: "string \<Rightarrow> query_params \<Rightarrow> db \<Rightarrow> response \<times> db" where
  "iam_delete_access_key account p d =
     (let user = form_get p ''UserName''; kid = form_get p ''AccessKeyId''
      in iam_child_done ''DeleteAccessKey'' (get_user account user) (iam_named ''user'' user) (''access key'', ''id '' @ kid)
           (delete_access_key account user kid d))"

section \<open>Attachments\<close>

definition iam_attach_role_policy :: "env \<Rightarrow> string \<Rightarrow> query_params \<Rightarrow> db \<Rightarrow> response \<times> db" where
  "iam_attach_role_policy env account p d =
     (let role = form_get p ''RoleName''; arn = form_get p ''PolicyArn'';
          d1 = (if has_prefix arn iam_managed_policy_prefix then seed_managed_policy (e_now env) account arn d else d)
      in iam_child_done ''AttachRolePolicy'' (get_role account role) (iam_named ''role'' role) (iam_by_arn ''policy'' arn)
           (attach_role_policy account role arn d1))"

definition iam_attach_user_policy :: "env \<Rightarrow> string \<Rightarrow> query_params \<Rightarrow> db \<Rightarrow> response \<times> db" where
  "iam_attach_user_policy env account p d =
     (let user = form_get p ''UserName''; arn = form_get p ''PolicyArn'';
          d1 = (if has_prefix arn iam_managed_policy_prefix then seed_managed_policy (e_now env) account arn d else d)
      in iam_child_done ''AttachUserPolicy'' (get_user account user) (iam_named ''user'' user) (iam_by_arn ''policy'' arn)
           (attach_user_policy account user arn d1))"

definition iam_detach_role_policy :: "string \<Rightarrow> query_params \<Rightarrow> db \<Rightarrow> response \<times> db" where
  "iam_detach_role_policy account p d =
     (let role = form_get p ''RoleName''; arn = form_get p ''PolicyArn''
      in iam_child_done ''DetachRolePolicy'' (get_role account role) (iam_named ''role'' role) (iam_by_arn ''policy'' arn)
           (detach_role_policy account role arn d))"

definition iam_detach_user_policy :: "string \<Rightarrow> query_params \<Rightarrow> db \<Rightarrow> response \<times> db" where
  "iam_detach_user_policy account p d =
     (let user = form_get p ''UserName''; arn = form_get p ''PolicyArn''
      in iam_child_done ''DetachUserPolicy'' (get_user account user) (iam_named ''user'' user) (iam_by_arn ''policy'' arn)
           (detach_user_policy account user arn d))"

text \<open>An attached policy is named by its ARN's last segment.\<close>

definition iam_attached_policy_of :: "string \<Rightarrow> xml" where
  "iam_attached_policy_of arn = Elem ''member'' [leaf ''PolicyName'' (after_last (CHR ''/'') arn), leaf ''PolicyArn'' arn]"

definition iam_list_attached_role_policies :: "string \<Rightarrow> query_params \<Rightarrow> db \<Rightarrow> response" where
  "iam_list_attached_role_policies account p d =
     iam_list ''ListAttachedRolePolicies'' ''AttachedPolicies''
       (map iam_attached_policy_of (list_attached_role_policies account (form_get p ''RoleName'') d))"

definition iam_list_attached_user_policies :: "string \<Rightarrow> query_params \<Rightarrow> db \<Rightarrow> response" where
  "iam_list_attached_user_policies account p d =
     iam_list ''ListAttachedUserPolicies'' ''AttachedPolicies''
       (map iam_attached_policy_of (list_attached_user_policies account (form_get p ''UserName'') d))"

section \<open>Inline policies\<close>

definition iam_put_user_policy :: "string \<Rightarrow> query_params \<Rightarrow> db \<Rightarrow> response \<times> db" where
  "iam_put_user_policy account p d =
     (let user = form_get p ''UserName''; name = form_get p ''PolicyName''
      in iam_child_done ''PutUserPolicy'' (get_user account user) (iam_named ''user'' user) (iam_named ''user policy'' name)
           (put_user_policy account user name (form_get p ''PolicyDocument'') d))"

definition iam_delete_user_policy :: "string \<Rightarrow> query_params \<Rightarrow> db \<Rightarrow> response \<times> db" where
  "iam_delete_user_policy account p d =
     (let user = form_get p ''UserName''; name = form_get p ''PolicyName''
      in iam_child_done ''DeleteUserPolicy'' (get_user account user) (iam_named ''user'' user) (iam_named ''user policy'' name)
           (delete_user_policy account user name d))"

definition iam_get_user_policy :: "string \<Rightarrow> query_params \<Rightarrow> db \<Rightarrow> response" where
  "iam_get_user_policy account p d =
     (let user = form_get p ''UserName''; name = form_get p ''PolicyName''
      in case get_user_policy account user name d of
        Inl e \<Rightarrow> iam_write_error (Iam_err e)
          (iam_child_entity (get_user account user d) (iam_named ''user'' user) (iam_named ''user policy'' name))
      | Inr doc \<Rightarrow> write_query_rpc ''GetUserPolicy''
          [leaf ''UserName'' user, leaf ''PolicyName'' name, leaf ''PolicyDocument'' (url_escape_if_not_empty doc)])"

definition iam_list_user_policies :: "string \<Rightarrow> query_params \<Rightarrow> db \<Rightarrow> response" where
  "iam_list_user_policies account p d =
     iam_list ''ListUserPolicies'' ''PolicyNames'' (map (leaf ''member'') (list_user_policies account (form_get p ''UserName'') d))"

definition iam_write_role_policy_error :: "string \<Rightarrow> query_params \<Rightarrow> db \<Rightarrow> go_error \<Rightarrow> response" where
  "iam_write_role_policy_error account p d e =
     (let role = form_get p ''RoleName''
      in iam_write_error (Iam_err e)
           (iam_child_entity (get_role account role d) (iam_named ''role'' role) (iam_named ''role policy'' (form_get p ''PolicyName''))))"

definition iam_role_policy_done :: "string \<Rightarrow> string \<Rightarrow> query_params \<Rightarrow> go_error option \<times> db \<Rightarrow> response \<times> db" where
  "iam_role_policy_done action account p res = (case res of
       (Some e, d') \<Rightarrow> (iam_write_role_policy_error account p d' e, d')
     | (None, d') \<Rightarrow> (write_query_rpc_nil action, d'))"

definition iam_put_role_policy :: "string \<Rightarrow> query_params \<Rightarrow> db \<Rightarrow> response \<times> db" where
  "iam_put_role_policy account p d =
     iam_role_policy_done ''PutRolePolicy'' account p
       (put_role_policy account (form_get p ''RoleName'') (form_get p ''PolicyName'') (form_get p ''PolicyDocument'') d)"

definition iam_delete_role_policy :: "string \<Rightarrow> query_params \<Rightarrow> db \<Rightarrow> response \<times> db" where
  "iam_delete_role_policy account p d =
     iam_role_policy_done ''DeleteRolePolicy'' account p
       (delete_role_policy account (form_get p ''RoleName'') (form_get p ''PolicyName'') d)"

definition iam_get_role_policy :: "string \<Rightarrow> query_params \<Rightarrow> db \<Rightarrow> response" where
  "iam_get_role_policy account p d =
     (let role = form_get p ''RoleName''; name = form_get p ''PolicyName''
      in case get_role_policy account role name d of
        Inl e \<Rightarrow> iam_write_role_policy_error account p d e
      | Inr doc \<Rightarrow> write_query_rpc ''GetRolePolicy''
          [leaf ''RoleName'' role, leaf ''PolicyName'' name, leaf ''PolicyDocument'' (url_escape_if_not_empty doc)])"

definition iam_list_role_policies :: "string \<Rightarrow> query_params \<Rightarrow> db \<Rightarrow> response" where
  "iam_list_role_policies account p d =
     (let name = form_get p ''RoleName''
      in case get_role account name d of
        Inl e \<Rightarrow> iam_write_role_policy_error account p d e
      | Inr _ \<Rightarrow> iam_list ''ListRolePolicies'' ''PolicyNames'' (map (leaf ''member'') (list_role_policies account name d)))"

section \<open>Tags\<close>

record iam_tagged_kind =
  tk_table :: tagged_table
  tk_param :: string
  tk_entity :: "string \<Rightarrow> iam_entity"

definition iam_tagged_kinds :: "string \<Rightarrow> iam_tagged_kind" where
  "iam_tagged_kinds k =
     (if k = ''Role'' then \<lparr>tk_table = Tags_IAM_role, tk_param = ''RoleName'', tk_entity = iam_named ''role''\<rparr>
      else if k = ''User'' then \<lparr>tk_table = Tags_IAM_user, tk_param = ''UserName'', tk_entity = iam_named ''user''\<rparr>
      else if k = ''Policy'' then \<lparr>tk_table = Tags_IAM_policy, tk_param = ''PolicyArn'', tk_entity = iam_by_arn ''policy''\<rparr>
      else \<lparr>tk_table = Tags_IAM_profile, tk_param = ''InstanceProfileName'', tk_entity = iam_named ''instance profile''\<rparr>)"

definition iam_tagged_arn :: "string \<Rightarrow> iam_tagged_kind \<Rightarrow> string \<Rightarrow> db \<Rightarrow> string result" where
  "iam_tagged_arn account k i d =
     (if tk_table k = Tags_IAM_policy then Inr i else arn_by_name account (tk_table k) i d)"

definition iam_list_tags :: "string \<Rightarrow> string \<Rightarrow> query_params \<Rightarrow> iam_tagged_kind \<Rightarrow> db \<Rightarrow> response" where
  "iam_list_tags account action p k d =
     (let i = form_get p (tk_param k)
      in case iam_tagged_arn account k i d of
        Inl e \<Rightarrow> iam_write_error (Iam_err e) (tk_entity k i)
      | Inr arn \<Rightarrow> (case resource_tag_map account (tk_table k) arn d of
          Inl e \<Rightarrow> iam_write_error (Iam_err e) (tk_entity k i)
        | Inr tags \<Rightarrow> iam_list action ''Tags'' (iam_tags_xml tags)))"

definition iam_tag :: "string \<Rightarrow> string \<Rightarrow> query_params \<Rightarrow> iam_tagged_kind \<Rightarrow> db \<Rightarrow> response \<times> db" where
  "iam_tag account action p k d =
     (let i = form_get p (tk_param k)
      in case iam_tagged_arn account k i d of
        Inl e \<Rightarrow> (iam_write_error (Iam_err e) (tk_entity k i), d)
      | Inr arn \<Rightarrow> iam_done action (tk_entity k i) (tag_resource account (tk_table k) arn (query_tags p ''Tags.member.'') d))"

definition iam_untag :: "string \<Rightarrow> string \<Rightarrow> query_params \<Rightarrow> iam_tagged_kind \<Rightarrow> db \<Rightarrow> response \<times> db" where
  "iam_untag account action p k d =
     (let i = form_get p (tk_param k)
      in case iam_tagged_arn account k i d of
        Inl e \<Rightarrow> (iam_write_error (Iam_err e) (tk_entity k i), d)
      | Inr arn \<Rightarrow> iam_done action (tk_entity k i) (untag_resource account (tk_table k) arn (query_list_values p ''TagKeys.member.'') d))"

section \<open>Dispatch\<close>

text \<open>The actions that read, and the ones whose answer is fixed.\<close>

definition iam_reads :: "string \<Rightarrow> string \<Rightarrow> query_params \<Rightarrow> db \<Rightarrow> response option" where
  "iam_reads account action p d =
     (if action = ''GetRole'' then Some (iam_get_role account p d)
      else if action = ''ListRoles'' then Some (iam_list_roles account d)
      else if action = ''GetPolicy'' then Some (iam_get_policy account p d)
      else if action = ''GetPolicyVersion'' then Some (iam_get_policy_version account p d)
      else if action = ''ListPolicies'' then Some (iam_list_policies account d)
      else if action = ''ListPolicyVersions'' then Some (iam_list_policy_versions account p d)
      else if action = ''GetInstanceProfile'' then Some (iam_get_instance_profile account p d)
      else if action = ''ListInstanceProfiles'' then Some (iam_list_instance_profiles account d)
      else if action = ''GetUser'' then Some (iam_get_user account p d)
      else if action = ''ListUsers'' then Some (iam_list_users account d)
      else if action = ''ListGroupsForUser'' then Some (write_query_rpc action [])
      else if action = ''ListSSHPublicKeys'' then Some (iam_list action ''SSHPublicKeys'' [])
      else if action = ''ListServiceSpecificCredentials'' then Some (write_query_rpc action [Elem ''ServiceSpecificCredentials'' []])
      else if action = ''ListMFADevices'' then Some (iam_list action ''MFADevices'' [])
      else if action = ''ListSigningCertificates'' then Some (iam_list action ''Certificates'' [])
      else if action = ''ListVirtualMFADevices'' then Some (iam_list action ''VirtualMFADevices'' [])
      else if action \<in> {''DeleteLoginProfile'', ''GetLoginProfile''} then Some (iam_delete_login_profile p)
      else if action = ''GetUserPolicy'' then Some (iam_get_user_policy account p d)
      else if action = ''ListUserPolicies'' then Some (iam_list_user_policies account p d)
      else if action = ''ListAttachedUserPolicies'' then Some (iam_list_attached_user_policies account p d)
      else if action = ''ListAccessKeys'' then Some (iam_list_access_keys account p d)
      else if action = ''ListAttachedRolePolicies'' then Some (iam_list_attached_role_policies account p d)
      else if action = ''ListRolePolicies'' then Some (iam_list_role_policies account p d)
      else if action = ''GetRolePolicy'' then Some (iam_get_role_policy account p d)
      else if action \<in> {''ListRoleTags'', ''ListUserTags'', ''ListPolicyTags'', ''ListInstanceProfileTags''}
      then Some (iam_list_tags account action p (iam_tagged_kinds (take (length action - 8) (drop 4 action))) d)
      else if action = ''ListInstanceProfilesForRole'' then Some (iam_list_instance_profiles_for_role account p d)
      else None)"

definition iam_writes :: "env \<Rightarrow> string \<Rightarrow> string \<Rightarrow> query_params \<Rightarrow> db \<Rightarrow> response \<times> db" where
  "iam_writes env account action p d =
     (if action = ''CreateRole'' then iam_create_role env account p d
      else if action = ''UpdateRole'' then iam_update_role account p d
      else if action = ''UpdateRoleDescription'' then iam_update_role_description account p d
      else if action = ''DeleteRole'' then iam_delete_role account p d
      else if action = ''CreatePolicy'' then iam_create_policy env account p d
      else if action = ''DeletePolicy'' then iam_delete_policy account p d
      else if action = ''CreateInstanceProfile'' then iam_create_instance_profile env account p d
      else if action = ''DeleteInstanceProfile'' then iam_delete_instance_profile account p d
      else if action = ''AddRoleToInstanceProfile'' then iam_add_role_to_instance_profile account p d
      else if action = ''RemoveRoleFromInstanceProfile'' then iam_remove_role_from_instance_profile account p d
      else if action = ''CreateUser'' then iam_create_user env account p d
      else if action = ''DeleteUser'' then iam_delete_user account p d
      else if action = ''AttachUserPolicy'' then iam_attach_user_policy env account p d
      else if action = ''DetachUserPolicy'' then iam_detach_user_policy account p d
      else if action = ''PutUserPolicy'' then iam_put_user_policy account p d
      else if action = ''DeleteUserPolicy'' then iam_delete_user_policy account p d
      else if action = ''CreateAccessKey'' then iam_create_access_key env account p d
      else if action = ''DeleteAccessKey'' then iam_delete_access_key account p d
      else if action = ''AttachRolePolicy'' then iam_attach_role_policy env account p d
      else if action = ''DetachRolePolicy'' then iam_detach_role_policy account p d
      else if action = ''PutRolePolicy'' then iam_put_role_policy account p d
      else if action = ''DeleteRolePolicy'' then iam_delete_role_policy account p d
      else if action \<in> {''TagRole'', ''TagUser'', ''TagPolicy'', ''TagInstanceProfile''}
      then iam_tag account action p (iam_tagged_kinds (drop 3 action)) d
      else if action \<in> {''UntagRole'', ''UntagUser'', ''UntagPolicy'', ''UntagInstanceProfile''}
      then iam_untag account action p (iam_tagged_kinds (drop 5 action)) d
      else (mark_class Not_modelled_404 (iam_write_error Iam_not_modelled (''action'', action)), d))"

definition handle_iam :: "env \<Rightarrow> request \<Rightarrow> db \<Rightarrow> response \<times> db" where
  "handle_iam env r d =
     (case parse_query_rpc r of
        Inl _ \<Rightarrow> (iam_write_error (Iam_invalid ''The request could not be parsed.'') ([], []), d)
      | Inr q \<Rightarrow>
          (case iam_reads (account_id d) (qr_action q) (qr_params q) d of
             Some resp \<Rightarrow> (resp, d)
           | None \<Rightarrow> iam_writes env (account_id d) (qr_action q) (qr_params q) d))"

text \<open>The iam block of /mock/state: the seeded AWS-managed policies are left out.\<close>

definition gather_iam_state :: "string \<Rightarrow> db \<Rightarrow> json" where
  "gather_iam_state account d = JObj
     [(''roles'', JArr (map (\<lambda>r. JObj [(''name'', JStr (ro_name r)), (''arn'', JStr (ro_arn r)), (''path'', JStr (ro_path r)),
         (''description'', JStr (ro_description r)), (''created_at'', JStr (ro_created_at r))]) (list_roles account d))),
      (''policies'', JArr (map (\<lambda>p. JObj [(''name'', JStr (po_name p)), (''arn'', JStr (po_arn p)), (''path'', JStr (po_path p)),
         (''created_at'', JStr (po_created_at p))])
         (filter (\<lambda>p. \<not> has_prefix (po_arn p) iam_managed_policy_prefix) (list_policies account d)))),
      (''instance_profiles'', JArr (map (\<lambda>p. JObj [(''name'', JStr (ip_name p)), (''arn'', JStr (ip_arn p)), (''path'', JStr (ip_path p)),
         (''attached_role'', JStr (ip_attached_role p)), (''created_at'', JStr (ip_created_at p))]) (list_instance_profiles account d))),
      (''users'', JArr (map (\<lambda>u. JObj [(''name'', JStr (us_name u)), (''arn'', JStr (us_arn u)), (''path'', JStr (us_path u)),
         (''created_at'', JStr (us_created_at u))]) (list_users account d))),
      (''access_keys'', JArr (map (\<lambda>k. JObj [(''user_name'', JStr (ak_user k)), (''access_key_id'', JStr (ak_id k)),
         (''status'', JStr (ak_status k)), (''created_at'', JStr (ak_created_at k))]) (list_access_keys account [] d)))]"

section \<open>What the requests keep\<close>

lemma snd_iam_done [simp]: "snd (iam_done action e res) = snd res"
  by (simp add: iam_done_def split: prod.split option.split)

lemma snd_iam_child_done [simp]: "snd (iam_child_done action owner parent child res) = snd res"
  by (simp add: iam_child_done_def)

lemma snd_iam_role_policy_done [simp]: "snd (iam_role_policy_done action account p res) = snd res"
  by (simp add: iam_role_policy_done_def split: prod.split option.split)

lemma iam_keeps_tag_created:
  assumes "\<And>d. iam_keeps d (snd (undo d))"
  shows "iam_keeps d (snd (tag_created a tbl arn tags undo d))"
proof (cases "tag_resource a tbl arn tags d")
  case (Pair e d1)
  then have "iam_keeps d d1" using iam_keeps_change_tags [of d a tbl arn tags "[]"] by (simp add: tag_resource_def)
  moreover have "iam_keeps d1 (snd (undo d1))" by (rule assms)
  ultimately show ?thesis
    by (auto simp: tag_created_def Pair split: option.split prod.split dest: iam_keeps_trans)
qed

text \<open>A create with its tags.\<close>

lemma iam_keeps_create_tagged:
  assumes "iam_keeps d (snd res)" and "\<And>d. iam_keeps d (snd (undo d))"
  shows "iam_keeps d (snd (case res of
      (Some e, d') \<Rightarrow> (f e, d')
    | (None, d') \<Rightarrow> (case tag_created a tbl arn tags undo d' of (Some e, d'') \<Rightarrow> (f e, d'') | (None, d'') \<Rightarrow> (g, d''))))"
proof (cases res)
  case (Pair e d1)
  have "iam_keeps d1 (snd (tag_created a tbl arn tags undo d1))" by (rule iam_keeps_tag_created) (rule assms(2))
  with assms(1) Pair show ?thesis
    by (auto split: option.split prod.split intro: iam_keeps_trans)
qed

lemma iam_keeps_creates:
  "iam_keeps d (snd (iam_create_role env a p d))" "iam_keeps d (snd (iam_create_policy env a p d))"
  "iam_keeps d (snd (iam_create_instance_profile env a p d))" "iam_keeps d (snd (iam_create_user env a p d))"
  unfolding iam_create_role_def iam_create_policy_def iam_create_instance_profile_def iam_create_user_def Let_def
  by (simp_all add: iam_keeps_create_tagged iam_keeps_repo)

lemma iam_keeps_updates:
  "iam_keeps d (snd (iam_update_role a p d))" "iam_keeps d (snd (iam_update_role_description a p d))"
  by (simp_all add: iam_update_role_def iam_update_role_description_def Let_def snd_case_result iam_keeps_update_role split: sum.split)

lemma iam_keeps_attach:
  "iam_keeps d (snd (iam_attach_role_policy env a p d))" "iam_keeps d (snd (iam_attach_user_policy env a p d))"
  by (auto simp: iam_attach_role_policy_def iam_attach_user_policy_def Let_def intro: iam_keeps_trans iam_keeps_repo)

lemma iam_keeps_tag_calls:
  "iam_keeps d (snd (iam_tag a action p k d))" "iam_keeps d (snd (iam_untag a action p k d))"
  by (simp_all add: iam_tag_def iam_untag_def tag_resource_def untag_resource_def Let_def iam_keeps_change_tags split: sum.split)

lemma iam_keeps_others:
  "iam_keeps d (snd (iam_delete_role a p d))" "iam_keeps d (snd (iam_delete_policy a p d))"
  "iam_keeps d (snd (iam_delete_instance_profile a p d))" "iam_keeps d (snd (iam_delete_user a p d))"
  "iam_keeps d (snd (iam_add_role_to_instance_profile a p d))" "iam_keeps d (snd (iam_remove_role_from_instance_profile a p d))"
  "iam_keeps d (snd (iam_create_access_key env a p d))" "iam_keeps d (snd (iam_delete_access_key a p d))"
  "iam_keeps d (snd (iam_detach_role_policy a p d))" "iam_keeps d (snd (iam_detach_user_policy a p d))"
  "iam_keeps d (snd (iam_put_user_policy a p d))" "iam_keeps d (snd (iam_delete_user_policy a p d))"
  "iam_keeps d (snd (iam_put_role_policy a p d))" "iam_keeps d (snd (iam_delete_role_policy a p d))"
  by (simp_all add: iam_delete_role_def iam_delete_policy_def iam_delete_instance_profile_def iam_delete_user_def
      iam_add_role_to_instance_profile_def iam_remove_role_from_instance_profile_def iam_create_access_key_def
      iam_delete_access_key_def iam_detach_role_policy_def iam_detach_user_policy_def iam_put_user_policy_def
      iam_delete_user_policy_def iam_put_role_policy_def iam_delete_role_policy_def Let_def snd_case_result iam_keeps_repo)

lemma iam_writes_keeps: "iam_keeps d (snd (iam_writes env a action p d))"
  by (simp add: iam_writes_def iam_keeps_creates iam_keeps_updates iam_keeps_attach iam_keeps_tag_calls iam_keeps_others)

lemma handle_iam_keeps: "iam_keeps d (snd (handle_iam env r d))"
  by (simp add: handle_iam_def iam_writes_keeps split: sum.split option.split)

lemma account_id_iam_rest: "account_id (iam_rest d) = account_id d"
  by (simp add: account_id_def get_identity_def iam_rest_def)

lemma account_id_handle_iam [simp]: "account_id (snd (handle_iam env r d)) = account_id d"
  using handle_iam_keeps [of d env r] account_id_iam_rest [of d] account_id_iam_rest [of "snd (handle_iam env r d)"]
  by (simp add: iam_keeps_def)

type_synonym iam_event = "env \<times> request"

definition iam_run :: "iam_event list \<Rightarrow> db \<Rightarrow> db" where
  "iam_run es d = fold (\<lambda>(env, r) d. snd (handle_iam env r d)) es d"

lemma iam_run_keeps: "iam_keeps d (iam_run es d)"
proof (induction es arbitrary: d)
  case (Cons e es)
  have "iam_keeps d (snd (handle_iam (fst e) (snd e) d))" by (rule handle_iam_keeps)
  then show ?case using Cons.IH by (auto simp: iam_run_def split_beta intro: iam_keeps_trans)
qed (simp add: iam_run_def)

section \<open>Calls\<close>

lemma iam_asks_handle:
  assumes "query_asks r action kvs"
  obtains p where "\<And>k v. (k, v) \<in> set kvs \<Longrightarrow> form_get p k = v"
    and "\<And>env d. handle_iam env r d = (case iam_reads (account_id d) action p d of
       Some resp \<Rightarrow> (resp, d) | None \<Rightarrow> iam_writes env (account_id d) action p d)"
proof -
  obtain q where "parse_query_rpc r = Inr q" "qr_action q = action" "\<And>k v. (k, v) \<in> set kvs \<Longrightarrow> form_get (qr_params q) k = v"
    by (rule query_asksE [OF assms]) (rule that)
  then show thesis by (intro that [of "qr_params q"]) (auto simp: handle_iam_def)
qed

lemma iam_ask_delete_role:
  assumes "query_asks r ''DeleteRole'' [(''RoleName'', n)]"
  shows "handle_iam env r d = iam_done ''DeleteRole'' (iam_named ''role'' n) (delete_role (account_id d) n d)"
proof -
  obtain p where "form_get p ''RoleName'' = n" and h: "handle_iam env r d = (case iam_reads (account_id d) ''DeleteRole'' p d of
      Some resp \<Rightarrow> (resp, d) | None \<Rightarrow> iam_writes env (account_id d) ''DeleteRole'' p d)"
    by (rule iam_asks_handle [OF assms]) auto
  then show ?thesis by (simp add: iam_reads_def iam_writes_def iam_delete_role_def)
qed

section \<open>Documents come back as they were put\<close>

definition pct_escape_char :: "char \<Rightarrow> string" where
  "pct_escape_char c = (if c = CHR '' '' then ''%20'' else query_escape_char c)"

lemma hex_upper_in: "hex_upper n \<in> set ''0123456789ABCDEF''"
  unfolding hex_upper_def by (rule nth_mem) simp

lemma hex_upper_no_plus [simp]: "hex_upper n \<noteq> CHR ''+''"
  using hex_upper_in [of n] by auto

lemma swap_plus_char: "concat (map (\<lambda>c. if c = CHR ''+'' then ''%20'' else [c]) (query_escape_char c)) = pct_escape_char c"
  by (auto simp: query_escape_char_def pct_escape_char_def url_safe_def)

lemma swap_plus: "concat (map (\<lambda>c. if c = CHR ''+'' then ''%20'' else [c]) (query_escape s)) = concat (map pct_escape_char s)"
  by (induction s) (simp_all add: query_escape_def swap_plus_char)

lemma query_unescape_pct_char: "query_unescape (pct_escape_char c @ s) = map_option (Cons c) (query_unescape s)"
proof (cases "c = CHR '' ''")
  case True
  have "hex_val CHR ''2'' = Some 2" "hex_val CHR ''0'' = Some 0" by (simp_all add: hex_val_def)
  moreover have "char_of (16 * 2 + 0 :: nat) = CHR '' ''" by code_simp
  ultimately show ?thesis using True by (simp add: pct_escape_char_def)
qed (simp add: pct_escape_char_def query_unescape_char)

lemma query_unescape_document: "query_unescape (url_escape_if_not_empty s) = Some s"
proof -
  have "query_unescape (concat (map pct_escape_char s)) = Some s"
    by (induction s) (simp_all add: query_unescape_pct_char)
  then show ?thesis by (simp add: url_escape_if_not_empty_def swap_plus)
qed

lemma put_role_policy_some:
  assumes "get_role a n d = Inr ro"
  shows "put_role_policy a n m doc d =
    (None, d\<lparr>iam_tbls := (iam_tbls d)\<lparr>role_inlines := put_inline a n m doc (role_inlines (iam_tbls d))\<rparr>\<rparr>)"
  using assms by (simp add: put_role_policy_def Let_def)

lemma iam_rest_tbls [simp]: "iam_rest (d\<lparr>iam_tbls := t\<rparr>) = iam_rest d"
  by (simp add: iam_rest_def)

lemma iam_rest_drop [simp]: "iam_rest (drop_resource_tags a arn d) = iam_rest d"
  by (simp add: iam_rest_def drop_resource_tags_def)

lemma get_role_drop [simp]: "get_role a n (drop_resource_tags a' arn d) = get_role a n d"
  by (simp add: get_role_def)

lemma delete_role_eq:
  assumes "get_role a n d = Inr ro"
  shows "delete_role a n d =
    (if \<exists>x\<in>set (role_attachments (iam_tbls d)). attached_to a n x then (Some (ErrWrap ErrInUse (role_attached_text n)), d)
     else if role_restricted a n (iam_tbls d) then (Some ErrInUse, d)
     else (None, drop_resource_tags a (ro_arn ro)
       (d\<lparr>iam_tbls := (iam_tbls d)\<lparr>iam_roles := sql_delete (\<lambda>r. iam_role_pk r = (a, n)) (iam_roles (iam_tbls d))\<rparr>\<rparr>)))"
proof (cases "\<exists>x\<in>set (role_attachments (iam_tbls d)). attached_to a n x")
  case True
  then have none: "find (\<lambda>r. iam_role_pk r = (a, n) \<and> \<not> (\<exists>x\<in>set (role_attachments (iam_tbls d)). attached_to a n x))
      (iam_roles (iam_tbls d)) = None" by (simp add: find_None_iff)
  show ?thesis unfolding delete_role_def Let_def none using True assms by simp
next
  case False
  obtain row where "find (\<lambda>r. iam_role_pk r = (a, n)) (iam_roles (iam_tbls d)) = Some row" "or_role row = ro"
    using assms by (auto simp: get_role_def split: option.splits)
  with False show ?thesis by (simp add: delete_role_def Let_def del: sql_text.simps)
qed

text \<open>The calls of the properties, as their handlers take them.\<close>

lemma iam_ask_put_role_policy:
  assumes "query_asks r ''PutRolePolicy'' [(''RoleName'', n), (''PolicyName'', m), (''PolicyDocument'', doc)]"
    and "get_role (account_id d) n d = Inr ro"
  shows "handle_iam env r d = (write_query_rpc_nil ''PutRolePolicy'', d\<lparr>iam_tbls := (iam_tbls d)\<lparr>role_inlines :=
    put_inline (account_id d) n m doc (role_inlines (iam_tbls d))\<rparr>\<rparr>)"
proof -
  obtain p where "form_get p ''RoleName'' = n" "form_get p ''PolicyName'' = m" "form_get p ''PolicyDocument'' = doc"
    and h: "handle_iam env r d = (case iam_reads (account_id d) ''PutRolePolicy'' p d of
      Some resp \<Rightarrow> (resp, d) | None \<Rightarrow> iam_writes env (account_id d) ''PutRolePolicy'' p d)"
    by (rule iam_asks_handle [OF assms(1)]) auto
  then show ?thesis
    by (simp add: iam_reads_def iam_writes_def iam_put_role_policy_def put_role_policy_some [OF assms(2)] iam_role_policy_done_def)
qed

lemma iam_ask_get_role_policy:
  assumes "query_asks r ''GetRolePolicy'' [(''RoleName'', n), (''PolicyName'', m)]"
  shows "handle_iam env r d = (case get_role_policy (account_id d) n m d of
      Inl e \<Rightarrow> iam_write_error (Iam_err e) (iam_child_entity (get_role (account_id d) n d) (iam_named ''role'' n) (iam_named ''role policy'' m))
    | Inr doc \<Rightarrow> write_query_rpc ''GetRolePolicy''
        [leaf ''RoleName'' n, leaf ''PolicyName'' m, leaf ''PolicyDocument'' (url_escape_if_not_empty doc)], d)"
proof -
  obtain p where "form_get p ''RoleName'' = n" "form_get p ''PolicyName'' = m"
    and h: "handle_iam env r d = (case iam_reads (account_id d) ''GetRolePolicy'' p d of
      Some resp \<Rightarrow> (resp, d) | None \<Rightarrow> iam_writes env (account_id d) ''GetRolePolicy'' p d)"
    by (rule iam_asks_handle [OF assms(1)]) auto
  then show ?thesis
    by (simp add: iam_reads_def iam_get_role_policy_def iam_write_role_policy_error_def Let_def cong: sum.case_cong)
qed

lemma iam_ask_attach:
  assumes "query_asks r ''AttachRolePolicy'' [(''RoleName'', n), (''PolicyArn'', arn)]"
  shows "handle_iam env r d =
    (let d1 = (if has_prefix arn iam_managed_policy_prefix then seed_managed_policy (e_now env) (account_id d) arn d else d)
     in iam_child_done ''AttachRolePolicy'' (get_role (account_id d) n) (iam_named ''role'' n) (iam_by_arn ''policy'' arn)
          (attach_role_policy (account_id d) n arn d1))"
proof -
  obtain p where "form_get p ''RoleName'' = n" "form_get p ''PolicyArn'' = arn"
    and h: "handle_iam env r d = (case iam_reads (account_id d) ''AttachRolePolicy'' p d of
      Some resp \<Rightarrow> (resp, d) | None \<Rightarrow> iam_writes env (account_id d) ''AttachRolePolicy'' p d)"
    by (rule iam_asks_handle [OF assms(1)]) auto
  then show ?thesis by (simp add: iam_reads_def iam_writes_def iam_attach_role_policy_def)
qed

lemma iam_ask_create_policy:
  assumes "query_asks r ''CreatePolicy'' [(''PolicyName'', m)]" and "m \<noteq> []" and "get_policy (account_id d) m d = Inr po"
  shows "handle_iam env r d = (iam_write_error (Iam_err ErrConflict) (iam_named ''policy'' m), d)"
proof -
  obtain p where p: "form_get p ''PolicyName'' = m"
    and h: "handle_iam env r d = (case iam_reads (account_id d) ''CreatePolicy'' p d of
      Some resp \<Rightarrow> (resp, d) | None \<Rightarrow> iam_writes env (account_id d) ''CreatePolicy'' p d)"
    by (rule iam_asks_handle [OF assms(1)]) auto
  have "create_policy (account_id d) (iam_new_policy env (account_id d) p) d = (Some ErrConflict, d)"
    using assms(3) by (auto simp: create_policy_def Let_def insert_row_find iam_policy_pk_def iam_new_policy_def p
        get_policy_def split: option.splits)
  then show ?thesis using assms(2) by (simp add: h p iam_reads_def iam_writes_def iam_create_policy_def Let_def)
qed

section \<open>Properties\<close>

text \<open>C21. Whatever the IAM requests, names and keys stay unique, every attachment, inline policy, access key and
  profile binding hangs on a stored role, user or profile, every attached policy is stored, and only the IAM
  tables and the tags change.\<close>

theorem iam_invariant:
  assumes "iam_tbls_wf (iam_tbls d)"
  shows "iam_tbls_wf (iam_tbls (iam_run es d)) \<and> iam_rest (iam_run es d) = iam_rest d"
  using assms iam_run_keeps [of d es] by (simp add: iam_keeps_def)


text \<open>C22. An inline policy is read back as it was put: the document IAM answers URL-encoded decodes to the one
  sent, whatever its bytes, and every other role's and policy's GetRolePolicy answers what it did.\<close>

theorem iam_inline_policy_read_back:
  assumes "query_asks r ''PutRolePolicy'' [(''RoleName'', n), (''PolicyName'', m), (''PolicyDocument'', doc)]"
    and "query_asks g ''GetRolePolicy'' [(''RoleName'', n'), (''PolicyName'', m')]"
    and "get_role (account_id d) n d = Inr ro" and "iam_keys_ok (iam_tbls d)"
  shows "let (resp, d') = handle_iam env r d; got = fst (handle_iam env' g d')
    in r_status resp = 200 \<and>
       (if n' = n \<and> m' = m
        then r_status got = 200 \<and> (\<exists>s. response_xml ''PolicyDocument'' got = Some s \<and> query_unescape s = Some doc)
        else got = fst (handle_iam env' g d))"
proof -
  let ?a = "account_id d" and ?t = "iam_tbls d"
  let ?d' = "d\<lparr>iam_tbls := ?t\<lparr>role_inlines := put_inline ?a n m doc (role_inlines ?t)\<rparr>\<rparr>"
  have pk: "pk iam_inline_pk (role_inlines ?t)" using assms(4) by (simp add: iam_keys_ok_def)
  have "get_role_policy ?a n' m' ?d' = (if n' = n \<and> m' = m then Inr doc else get_role_policy ?a n' m' d)"
    using inlines.look_put [OF pk, of "(?a, n', m')" "(?a, n, m)" doc] by (simp add: get_role_policy_doc)
  moreover have "get_role ?a n' ?d' = get_role ?a n' d" by (simp add: get_role_def)
  moreover have "account_id ?d' = ?a" by (simp add: account_id_def get_identity_def)
  ultimately have "fst (handle_iam env' g ?d') = (if n' = n \<and> m' = m
      then write_query_rpc ''GetRolePolicy'' [leaf ''RoleName'' n, leaf ''PolicyName'' m, leaf ''PolicyDocument'' (url_escape_if_not_empty doc)]
      else fst (handle_iam env' g d))"
    by (simp only: iam_ask_get_role_policy [OF assms(2)] fst_conv sum.case split: if_split) auto
  then show ?thesis
    by (auto simp: iam_ask_put_role_policy [OF assms(1,3)] response_xml_def write_query_rpc_def leaf_def respond_def
        query_unescape_document Let_def)
qed

text \<open>An AWS-managed policy is seeded on its first attach, under its name in the account's own policies. Where
  a customer's policy already has that name, nothing is seeded and the attach answers 404 NoSuchEntity
  and changes nothing; where none has, the attach succeeds and a CreatePolicy of the name then answers 409.\<close>

theorem iam_managed_policy_name_clash:
  assumes "query_asks r ''AttachRolePolicy'' [(''RoleName'', n), (''PolicyArn'', iam_managed_policy_prefix @ m)]"
    and "get_role (account_id d) n d = Inr ro" and "iam_refs_ok (iam_tbls d)" and "m \<noteq> []"
    and "\<not> policy_stored (account_id d) (iam_managed_policy_prefix @ m) (iam_tbls d)"
    and "query_asks c ''CreatePolicy'' [(''PolicyName'', m)]"
  shows "let (attached, d1) = handle_iam env r d; (created, d2) = handle_iam env' c d1
    in case get_policy (account_id d) m d of
         Inr po \<Rightarrow> r_status attached = 404 \<and> error_code attached = Some ''NoSuchEntity'' \<and> d1 = d
       | Inl _ \<Rightarrow> r_status attached = 200 \<and> iam_managed_policy_prefix @ m \<in> set (list_attached_role_policies (account_id d) n d1) \<and>
           r_status created = 409 \<and> error_code created = Some ''EntityAlreadyExists'' \<and> d2 = d1"
proof (cases "get_policy (account_id d) m d")
  case (Inr po)
  then have "seed_managed_policy (e_now env) (account_id d) (iam_managed_policy_prefix @ m) d = d"
    by (auto simp: seed_managed_policy_def Let_def insert_row_find iam_policy_pk_def get_policy_def split: option.splits)
  then have "handle_iam env r d = (iam_write_error (Iam_err ErrNotFound) (iam_by_arn ''policy'' (iam_managed_policy_prefix @ m)), d)"
    using assms(2,5)
    by (simp add: iam_ask_attach [OF assms(1)] attach_role_policy_def insert_policy_attachment_def iam_child_done_def iam_done_def
        iam_child_entity_def)
  with Inr show ?thesis by (simp add: iam_write_error_def error_code_service split: prod.split)
next
  case (Inl e)
  let ?a = "account_id d" and ?arn = "iam_managed_policy_prefix @ m" and ?t = "iam_tbls d"
  let ?p = "\<lparr>op_account = ?a, op_policy = \<lparr>po_name = m, po_path = ''/'', po_arn = ?arn, po_document = [],
      po_description = [], po_created_at = rfc3339 (e_now env)\<rparr>\<rparr>"
  let ?at = "\<lparr>at_account = ?a, at_owner = n, at_policy_arn = ?arn\<rparr>"
  have none: "find (\<lambda>r. iam_policy_pk r = (?a, m)) (iam_policies ?t) = None"
    using Inl by (auto simp: get_policy_def split: option.splits)
  have seed: "seed_managed_policy (e_now env) ?a ?arn d = d\<lparr>iam_tbls := ?t\<lparr>iam_policies := iam_policies ?t @ [?p]\<rparr>\<rparr>"
    using none by (simp add: seed_managed_policy_def Let_def insert_row_find iam_policy_pk_def)
  have "iam_attachment_pk x \<noteq> (?a, n, ?arn)" if "x \<in> set (role_attachments ?t)" for x
    using that assms(3,5) by (auto simp: iam_refs_ok_def attachment_ok_def policy_arns_def policy_stored_def iam_attachment_pk_def)
  then have "find (\<lambda>x. iam_attachment_pk x = (?a, n, ?arn)) (role_attachments ?t) = None" by (auto simp: find_None_iff)
  then have ins: "insert_policy_attachment ?a n ?arn (?t\<lparr>iam_policies := iam_policies ?t @ [?p]\<rparr>) (role_attachments ?t) =
      Inr (role_attachments ?t @ [?at])"
    by (simp add: insert_policy_attachment_def policy_stored_def insert_row_find iam_attachment_pk_def)
  let ?d1 = "d\<lparr>iam_tbls := ?t\<lparr>iam_policies := iam_policies ?t @ [?p], role_attachments := role_attachments ?t @ [?at]\<rparr>\<rparr>"
  have h: "handle_iam env r d = (write_query_rpc_nil ''AttachRolePolicy'', ?d1)"
    using assms(2) by (simp add: iam_ask_attach [OF assms(1)] seed attach_role_policy_def get_role_def ins Let_def
        iam_child_done_def iam_done_def split: option.splits)
  have acc: "account_id ?d1 = ?a" by (simp add: account_id_def get_identity_def)
  have "?at \<in> set (filter (attached_to ?a n) (role_attachments (iam_tbls ?d1)))" by (simp add: attached_to_def)
  from imageI [OF this, of at_policy_arn] have listed: "?arn \<in> set (list_attached_role_policies ?a n ?d1)"
    unfolding list_attached_role_policies_def set_sort set_map by simp
  have "get_policy (account_id ?d1) m ?d1 = Inr (op_policy ?p)"
    using none by (simp add: acc get_policy_def find_snoc iam_policy_pk_def)
  from iam_ask_create_policy [OF assms(6,4) this, of env'] show ?thesis using Inl
    using listed by (simp add: h acc iam_write_error_def error_code_service)
qed

section \<open>Taking a role apart\<close>

text \<open>
  What the provider's destroy of a role sends before DeleteRole: a detach for every attached policy, a
  delete for every inline policy and a removal from every instance profile that the lists answer.
\<close>

definition call_detach :: "string \<Rightarrow> string \<Rightarrow> request" where
  "call_detach n arn = query_call ''DetachRolePolicy'' [(''RoleName'', n), (''PolicyArn'', arn)]"

definition call_delete_policy :: "string \<Rightarrow> string \<Rightarrow> request" where
  "call_delete_policy n m = query_call ''DeleteRolePolicy'' [(''RoleName'', n), (''PolicyName'', m)]"

definition call_remove :: "string \<Rightarrow> string \<Rightarrow> request" where
  "call_remove n p = query_call ''RemoveRoleFromInstanceProfile'' [(''InstanceProfileName'', p), (''RoleName'', n)]"

definition role_teardown :: "string \<Rightarrow> string \<Rightarrow> db \<Rightarrow> request list" where
  "role_teardown a n d = map (call_detach n) (list_attached_role_policies a n d) @
     map (call_delete_policy n) (list_role_policies a n d) @
     map (\<lambda>p. call_remove n (ip_name p)) (list_instance_profiles_for_role a n d)"

lemma sql_delete_none: "affected p t = 0 \<Longrightarrow> sql_delete p t = t"
  by (simp add: affected_0_iff find_None_iff sql_delete_def)

lemma snd_call_detach:
  "snd (handle_iam env (call_detach n arn) d) = d\<lparr>iam_tbls := (iam_tbls d)\<lparr>role_attachments :=
     sql_delete (\<lambda>x. iam_attachment_pk x = (account_id d, n, arn)) (role_attachments (iam_tbls d))\<rparr>\<rparr>"
proof -
  have asks: "query_asks (call_detach n arn) ''DetachRolePolicy'' [(''RoleName'', n), (''PolicyArn'', arn)]"
    unfolding call_detach_def by (rule query_call_asks) simp_all
  obtain p where "form_get p ''RoleName'' = n" "form_get p ''PolicyArn'' = arn"
    and h: "handle_iam env (call_detach n arn) d = (case iam_reads (account_id d) ''DetachRolePolicy'' p d of
      Some resp \<Rightarrow> (resp, d) | None \<Rightarrow> iam_writes env (account_id d) ''DetachRolePolicy'' p d)"
    by (rule iam_asks_handle [OF asks]) auto
  then show ?thesis
    by (simp add: iam_reads_def iam_writes_def iam_detach_role_policy_def detach_role_policy_def Let_def sql_delete_none)
qed

lemma snd_call_delete_policy:
  "snd (handle_iam env (call_delete_policy n m) d) = d\<lparr>iam_tbls := (iam_tbls d)\<lparr>role_inlines :=
     sql_delete (\<lambda>x. iam_inline_pk x = (account_id d, n, m)) (role_inlines (iam_tbls d))\<rparr>\<rparr>"
proof -
  have asks: "query_asks (call_delete_policy n m) ''DeleteRolePolicy'' [(''RoleName'', n), (''PolicyName'', m)]"
    unfolding call_delete_policy_def by (rule query_call_asks) simp_all
  obtain p where "form_get p ''RoleName'' = n" "form_get p ''PolicyName'' = m"
    and h: "handle_iam env (call_delete_policy n m) d = (case iam_reads (account_id d) ''DeleteRolePolicy'' p d of
      Some resp \<Rightarrow> (resp, d) | None \<Rightarrow> iam_writes env (account_id d) ''DeleteRolePolicy'' p d)"
    by (rule iam_asks_handle [OF asks]) auto
  then show ?thesis
    by (simp add: iam_reads_def iam_writes_def iam_delete_role_policy_def delete_role_policy_def Let_def sql_delete_none)
qed

lemma snd_call_remove:
  "snd (handle_iam env (call_remove n pr) d) = d\<lparr>iam_tbls := (iam_tbls d)\<lparr>profile_roles :=
     sql_delete (\<lambda>x. iam_profile_role_pk x = (account_id d, pr) \<and> xr_role x = n) (profile_roles (iam_tbls d))\<rparr>\<rparr>"
proof -
  have asks: "query_asks (call_remove n pr) ''RemoveRoleFromInstanceProfile'' [(''InstanceProfileName'', pr), (''RoleName'', n)]"
    unfolding call_remove_def by (rule query_call_asks) simp_all
  obtain p where "form_get p ''InstanceProfileName'' = pr" "form_get p ''RoleName'' = n"
    and h: "handle_iam env (call_remove n pr) d = (case iam_reads (account_id d) ''RemoveRoleFromInstanceProfile'' p d of
      Some resp \<Rightarrow> (resp, d) | None \<Rightarrow> iam_writes env (account_id d) ''RemoveRoleFromInstanceProfile'' p d)"
    by (rule iam_asks_handle [OF asks]) auto
  then show ?thesis
    by (simp add: iam_reads_def iam_writes_def iam_remove_role_from_instance_profile_def
        remove_role_from_instance_profile_def Let_def sql_delete_none)
qed

lemma sql_delete_twice: "sql_delete q (sql_delete p t) = sql_delete (\<lambda>x. p x \<or> q x) t"
  unfolding sql_delete_def filter_filter by (rule filter_cong) auto

lemma sql_delete_cong: "(\<And>x. p x = q x) \<Longrightarrow> sql_delete p t = sql_delete q t"
  by (simp add: sql_delete_def)

lemma iam_run_simps [simp]:
  "iam_run [] d = d" "iam_run ((env, r) # es) d = iam_run es (snd (handle_iam env r d))"
  "iam_run (es @ es') d = iam_run es' (iam_run es d)"
  by (simp_all add: iam_run_def)

lemma account_id_iam_tbls [simp]: "account_id (d\<lparr>iam_tbls := t\<rparr>) = account_id d"
  by (simp add: account_id_def get_identity_def)

lemma run_detach:
  "iam_run (map (\<lambda>arn. (env, call_detach n arn)) arns) d = d\<lparr>iam_tbls := (iam_tbls d)\<lparr>role_attachments :=
     sql_delete (\<lambda>x. attached_to (account_id d) n x \<and> at_policy_arn x \<in> set arns) (role_attachments (iam_tbls d))\<rparr>\<rparr>"
proof (induction arns arbitrary: d)
  case (Cons arn arns)
  have "sql_delete (\<lambda>x. iam_attachment_pk x = (a, n, arn) \<or> attached_to a n x \<and> at_policy_arn x \<in> set arns) t =
      sql_delete (\<lambda>x. attached_to a n x \<and> at_policy_arn x \<in> set (arn # arns)) t" for a t
    by (rule sql_delete_cong) (auto simp: attached_to_def iam_attachment_pk_def)
  then show ?case by (simp add: snd_call_detach Cons.IH sql_delete_twice del: set_simps)
qed (simp add: sql_delete_def)

lemma run_delete_policies:
  "iam_run (map (\<lambda>m. (env, call_delete_policy n m)) ms) d = d\<lparr>iam_tbls := (iam_tbls d)\<lparr>role_inlines :=
     sql_delete (\<lambda>x. inline_of (account_id d) n x \<and> il_name x \<in> set ms) (role_inlines (iam_tbls d))\<rparr>\<rparr>"
proof (induction ms arbitrary: d)
  case (Cons m ms)
  have "sql_delete (\<lambda>x. iam_inline_pk x = (a, n, m) \<or> inline_of a n x \<and> il_name x \<in> set ms) t =
      sql_delete (\<lambda>x. inline_of a n x \<and> il_name x \<in> set (m # ms)) t" for a t
    by (rule sql_delete_cong) (auto simp: inline_of_def iam_inline_pk_def)
  then show ?case by (simp add: snd_call_delete_policy Cons.IH sql_delete_twice del: set_simps)
qed (simp add: sql_delete_def)

lemma run_remove:
  "iam_run (map (\<lambda>p. (env, call_remove n (ip_name p))) ps) d = d\<lparr>iam_tbls := (iam_tbls d)\<lparr>profile_roles :=
     sql_delete (\<lambda>x. xr_account x = account_id d \<and> xr_role x = n \<and> xr_profile x \<in> ip_name ` set ps) (profile_roles (iam_tbls d))\<rparr>\<rparr>"
proof (induction ps arbitrary: d)
  case (Cons p ps)
  have "sql_delete (\<lambda>x. iam_profile_role_pk x = (a, ip_name p) \<and> xr_role x = n \<or>
        xr_account x = a \<and> xr_role x = n \<and> xr_profile x \<in> ip_name ` set ps) t =
      sql_delete (\<lambda>x. xr_account x = a \<and> xr_role x = n \<and> xr_profile x \<in> ip_name ` set (p # ps)) t" for a t
    by (rule sql_delete_cong) (auto simp: iam_profile_role_pk_def)
  then show ?case by (simp add: snd_call_remove Cons.IH sql_delete_twice del: set_simps)
qed (simp add: sql_delete_def)

text \<open>The lists name everything that holds the role.\<close>

lemma attached_listed: "x \<in> set (role_attachments (iam_tbls d)) \<Longrightarrow> attached_to a n x \<Longrightarrow>
    at_policy_arn x \<in> set (list_attached_role_policies a n d)"
  by (simp add: list_attached_role_policies_def)

lemma inline_listed: "x \<in> set (role_inlines (iam_tbls d)) \<Longrightarrow> inline_of a n x \<Longrightarrow> il_name x \<in> set (list_role_policies a n d)"
  by (simp add: list_role_policies_def)

lemma profile_listed:
  assumes "iam_tbls_wf (iam_tbls d)" and "x \<in> set (profile_roles (iam_tbls d))" "xr_account x = a" "xr_role x = n"
  shows "xr_profile x \<in> ip_name ` set (list_instance_profiles_for_role a n d)"
proof -
  let ?t = "iam_tbls d"
  have pk: "pk iam_profile_role_pk (profile_roles ?t)" using assms(1) by (simp add: iam_tbls_wf_def iam_keys_ok_def)
  from assms(1,2) have "iam_profile_role_pk x \<in> profile_keys ?t" by (simp add: iam_tbls_wf_def iam_refs_ok_def)
  then obtain r where r: "r \<in> set (iam_profiles ?t)" "iam_profile_pk r = iam_profile_role_pk x" by (auto simp: profile_keys_def)
  have "find (\<lambda>y. iam_profile_role_pk y = iam_profile_pk r) (profile_roles ?t) = Some x"
    using assms(2) r(2) by (simp add: find_pk_eq_Some [OF pk])
  then have "holds_role ?t n r" "ip_name (hydrate_profile ?t r) = xr_profile x"
    using assms(4) r(2) by (simp_all add: holds_role_def hydrate_profile_def iam_profile_pk_def iam_profile_role_pk_def)
  moreover have "oi_account r = a" using r(2) assms(3) by (simp add: iam_profile_pk_def iam_profile_role_pk_def)
  ultimately have "hydrate_profile ?t r \<in> set (list_instance_profiles_for_role a n d)"
    using r(1) by (simp add: list_instance_profiles_for_role_def Let_def)
  then show ?thesis using \<open>ip_name (hydrate_profile ?t r) = xr_profile x\<close> by (auto intro: image_eqI [rotated])
qed

text \<open>C20. A role can always be destroyed: after the detaches, deletes and removals its lists name, whatever they are,
  DeleteRole answers 200 and the role is gone.\<close>

theorem iam_role_teardown:
  assumes "iam_tbls_wf (iam_tbls d)" and "get_role (account_id d) n d = Inr ro"
    and "query_asks r ''DeleteRole'' [(''RoleName'', n)]"
  shows "let (resp, d') = handle_iam env r (iam_run (map (Pair env) (role_teardown (account_id d) n d)) d)
    in r_status resp = 200 \<and> get_role (account_id d) n d' = Inl ErrNotFound"
proof -
  let ?a = "account_id d" and ?d1 = "iam_run (map (Pair env) (role_teardown (account_id d) n d)) d"
  define rows where "rows = sql_delete (\<lambda>x. attached_to ?a n x \<and> at_policy_arn x \<in> set (list_attached_role_policies ?a n d)) (role_attachments (iam_tbls d))"
  define inl where "inl = sql_delete (\<lambda>x. inline_of ?a n x \<and> il_name x \<in> set (list_role_policies ?a n d)) (role_inlines (iam_tbls d))"
  define prs where "prs = sql_delete (\<lambda>x. xr_account x = ?a \<and> xr_role x = n \<and> xr_profile x \<in> ip_name ` set (list_instance_profiles_for_role ?a n d)) (profile_roles (iam_tbls d))"
  have d1: "?d1 = d\<lparr>iam_tbls := (iam_tbls d)\<lparr>role_attachments := rows, role_inlines := inl, profile_roles := prs\<rparr>\<rparr>"
    by (simp add: role_teardown_def o_def run_detach run_delete_policies run_remove rows_def inl_def prs_def)
  have "\<not> (\<exists>x\<in>set rows. attached_to ?a n x)" by (auto simp: rows_def dest: attached_listed)
  moreover have "\<not> role_restricted ?a n (iam_tbls ?d1)"
    using profile_listed [OF assms(1)] by (auto simp: role_restricted_def d1 inl_def prs_def dest: inline_listed)
  moreover have "get_role ?a n ?d1 = Inr ro" using assms(2) by (simp add: d1 get_role_def)
  ultimately have "delete_role ?a n ?d1 = (None, drop_resource_tags ?a (ro_arn ro)
      (?d1\<lparr>iam_tbls := (iam_tbls ?d1)\<lparr>iam_roles := sql_delete (\<lambda>r. iam_role_pk r = (?a, n)) (iam_roles (iam_tbls ?d1))\<rparr>\<rparr>))"
    by (simp add: delete_role_eq d1)
  then show ?thesis
    by (simp add: iam_ask_delete_role [OF assms(3)] d1 iam_done_def) (simp add: get_role_def find_sql_delete_key)
qed

section \<open>Lists as a client decodes them\<close>

definition listed_members :: "string \<Rightarrow> string \<Rightarrow> response \<Rightarrow> xml list list" where
  "listed_members action field resp =
     xml_slice field ''member'' (xml_struct (action @ ''Result'') (answer_xml (action @ ''Response'') resp))"

lemma listed_members_list: "listed_members action field (iam_list action field xs) = map xml_kids (xml_children ''member'' xs)"
proof (cases "field = ''IsTruncated''")
  case True
  then show ?thesis
    by (simp add: listed_members_def iam_list_def write_query_rpc_def answer_xml_def respond_def xml_root_def xml_slice_def
        xml_struct_def leaf_def)
qed (simp add: listed_members_def iam_list_def write_query_rpc_def answer_xml_def respond_def xml_root_def xml_slice_def
    xml_struct_def leaf_def)

lemma children_named: "xml_children n (map (\<lambda>x. Elem n (f x)) ys) = map (\<lambda>x. Elem n (f x)) ys"
  by (induction ys) auto

lemma children_other: "(\<And>x. xml_name (f x) \<noteq> n \<and> xml_kids (f x) \<noteq> []) \<Longrightarrow> xml_children n (map f ys) = []"
proof (induction ys)
  case (Cons y ys)
  then show ?case by (cases "f y") (auto dest: spec [of _ y], metis xml_name.simps(1))
qed simp

lemma iam_ask_list:
  assumes "query_asks r action []" and "action \<in> {''ListPolicies'', ''ListUsers'', ''ListRoles''}"
  shows "fst (handle_iam env r d) =
    (if action = ''ListPolicies'' then iam_list_policies (account_id d) d
     else if action = ''ListUsers'' then iam_list_users (account_id d) d else iam_list_roles (account_id d) d)"
proof -
  obtain p where h: "handle_iam env r d = (case iam_reads (account_id d) action p d of
      Some resp \<Rightarrow> (resp, d) | None \<Rightarrow> iam_writes env (account_id d) action p d)"
    by (rule iam_asks_handle [OF assms(1)]) auto
  from assms(2) consider "action = ''ListPolicies''" | "action = ''ListUsers''" | "action = ''ListRoles''" by blast
  then show ?thesis by cases (simp_all add: h iam_reads_def)
qed

text \<open>ListRoles answers a member element for every role. ListPolicies and ListUsers write their entries as Policy
  and User elements instead, so a client that reads the members of the list decodes none, however many
  policies and users there are.\<close>

theorem iam_lists_without_members:
  assumes "query_asks p ''ListPolicies'' []" and "query_asks u ''ListUsers'' []" and "query_asks r ''ListRoles'' []"
  shows "listed_members ''ListPolicies'' ''Policies'' (fst (handle_iam env p d)) = [] \<and>
    listed_members ''ListUsers'' ''Users'' (fst (handle_iam env u d)) = [] \<and>
    length (listed_members ''ListRoles'' ''Roles'' (fst (handle_iam env r d))) = length (list_roles (account_id d) d)"
  by (simp add: iam_ask_list [OF assms(1)] iam_ask_list [OF assms(2)] iam_ask_list [OF assms(3)] iam_list_policies_def
      iam_list_users_def iam_list_roles_def listed_members_list children_named children_other policy_to_xml_def user_to_xml_def)

section \<open>Examples\<close>

definition iam_env :: env where
  "iam_env = \<lparr>e_now = 0, e_rand = []\<rparr>"

definition sample_role :: iam_role where
  "sample_role = \<lparr>ro_name = ''app'', ro_path = ''/'', ro_arn = iam_role_arn fake_account_id ''app'',
     ro_assume_role_policy_document = ''{}'', ro_description = [], ro_max_session_duration = 0,
     ro_created_at = ''1970-01-01T00:00:00Z'', ro_role_id = [], ro_permissions_boundary = None\<rparr>"

definition sample_policy :: iam_policy where
  "sample_policy = \<lparr>po_name = ''ReadOnlyAccess'', po_path = ''/'', po_arn = iam_policy_arn fake_account_id ''ReadOnlyAccess'',
     po_document = ''{}'', po_description = [], po_created_at = ''1970-01-01T00:00:00Z''\<rparr>"

definition sample_iam_db :: db where
  "sample_iam_db = empty_db\<lparr>iam_tbls := empty_iam_db\<lparr>
     iam_roles := [\<lparr>or_account = fake_account_id, or_role = sample_role\<rparr>],
     iam_policies := [\<lparr>op_account = fake_account_id, op_policy = sample_policy\<rparr>],
     role_attachments := [\<lparr>at_account = fake_account_id, at_owner = ''app'',
        at_policy_arn = iam_policy_arn fake_account_id ''ReadOnlyAccess''\<rparr>]\<rparr>\<rparr>"

lemma sample_iam:
  "account_id sample_iam_db = fake_account_id" "get_role (account_id sample_iam_db) ''app'' sample_iam_db = Inr sample_role"
  "get_policy (account_id sample_iam_db) ''ReadOnlyAccess'' sample_iam_db = Inr sample_policy" "iam_tbls_wf (iam_tbls sample_iam_db)"
  by (simp_all add: account_id_def get_identity_def sample_iam_db_def empty_db_def get_role_def get_policy_def iam_role_pk_def
      iam_policy_pk_def sample_role_def sample_policy_def iam_wf_simps pk_def)

theorem iam_invariant_witness:
  "iam_tbls_wf (iam_tbls (iam_run [(iam_env, query_call ''DeleteRole'' [(''RoleName'', ''app'')])] sample_iam_db))"
  using iam_invariant [OF sample_iam(4)] by blast


theorem iam_inline_policy_read_back_witness:
  "\<exists>s. response_xml ''PolicyDocument'' (fst (handle_iam iam_env (query_call ''GetRolePolicy'' [(''RoleName'', ''app''), (''PolicyName'', ''p'')])
     (snd (handle_iam iam_env (query_call ''PutRolePolicy'' [(''RoleName'', ''app''), (''PolicyName'', ''p''),
       (''PolicyDocument'', ''{ }+'')]) sample_iam_db)))) = Some s \<and> query_unescape s = Some ''{ }+''"
proof -
  have put: "query_asks (query_call ''PutRolePolicy'' [(''RoleName'', ''app''), (''PolicyName'', ''p''), (''PolicyDocument'', ''{ }+'')])
      ''PutRolePolicy'' [(''RoleName'', ''app''), (''PolicyName'', ''p''), (''PolicyDocument'', ''{ }+'')]"
    by (rule query_call_asks) simp_all
  have get: "query_asks (query_call ''GetRolePolicy'' [(''RoleName'', ''app''), (''PolicyName'', ''p'')])
      ''GetRolePolicy'' [(''RoleName'', ''app''), (''PolicyName'', ''p'')]"
    by (rule query_call_asks) simp_all
  have ok: "iam_keys_ok (iam_tbls sample_iam_db)" using sample_iam(4) by (simp add: iam_tbls_wf_def)
  from iam_inline_policy_read_back [OF put get sample_iam(2) ok, of iam_env iam_env] show ?thesis
    by (simp add: split_beta Let_def)
qed

theorem iam_managed_policy_name_clash_witness:
  "r_status (fst (handle_iam iam_env (query_call ''AttachRolePolicy'' [(''RoleName'', ''app''),
     (''PolicyArn'', iam_managed_policy_prefix @ ''ReadOnlyAccess'')]) sample_iam_db)) = 404"
proof -
  have attach: "query_asks (query_call ''AttachRolePolicy'' [(''RoleName'', ''app''), (''PolicyArn'', iam_managed_policy_prefix @ ''ReadOnlyAccess'')])
      ''AttachRolePolicy'' [(''RoleName'', ''app''), (''PolicyArn'', iam_managed_policy_prefix @ ''ReadOnlyAccess'')]"
    by (rule query_call_asks) simp_all
  have create: "query_asks (query_call ''CreatePolicy'' [(''PolicyName'', ''ReadOnlyAccess'')]) ''CreatePolicy'' [(''PolicyName'', ''ReadOnlyAccess'')]"
    by (rule query_call_asks) simp_all
  have "iam_refs_ok (iam_tbls sample_iam_db)" using sample_iam(4) by (simp add: iam_tbls_wf_def)
  moreover have "\<not> policy_stored (account_id sample_iam_db) (iam_managed_policy_prefix @ ''ReadOnlyAccess'') (iam_tbls sample_iam_db)"
    unfolding sample_iam(1) by (simp add: sample_iam_db_def policy_stored_def sample_policy_def iam_policy_arn_def fake_account_id_def
        iam_managed_policy_prefix_def)
  ultimately show ?thesis
    using iam_managed_policy_name_clash [OF attach sample_iam(2) _ _ _ create, of iam_env iam_env] sample_iam(3)
    by (simp add: split_beta Let_def)
qed

theorem iam_role_teardown_witness:
  "get_role (account_id sample_iam_db) ''app'' (snd (handle_iam iam_env (query_call ''DeleteRole'' [(''RoleName'', ''app'')])
     (iam_run (map (Pair iam_env) (role_teardown (account_id sample_iam_db) ''app'' sample_iam_db)) sample_iam_db))) = Inl ErrNotFound"
proof -
  have asks: "query_asks (query_call ''DeleteRole'' [(''RoleName'', ''app'')]) ''DeleteRole'' [(''RoleName'', ''app'')]"
    by (rule query_call_asks) simp_all
  from iam_role_teardown [OF sample_iam(4,2) asks, of iam_env] show ?thesis by (simp add: split_beta Let_def)
qed

theorem iam_lists_without_members_witness:
  "listed_members ''ListPolicies'' ''Policies'' (fst (handle_iam iam_env (query_call ''ListPolicies'' []) sample_iam_db)) = []"
proof -
  have "query_asks (query_call a []) a []" if "a \<noteq> []" for a using that by (intro query_call_asks) simp_all
  then show ?thesis using iam_lists_without_members [of _ _ _ iam_env sample_iam_db] by blast
qed

end
