(* ===== verification/Netip.thy ===== *)
theory Netip
  imports Rest
begin

text \<open>
  Package net/netip as the EC2 code uses it: parsing of address prefixes, their overlap and what they
  contain, and the text of an IPv4 address. An address is its family and its value as a number; a zone
  never gets past ParsePrefix, so it has none.
\<close>

datatype ip_addr = Ip4 nat | Ip6 nat

record ip_prefix =
  px_addr :: ip_addr
  px_bits :: nat

fun addr_is4 :: "ip_addr \<Rightarrow> bool" where
  "addr_is4 (Ip4 a) = True"
| "addr_is4 (Ip6 a) = False"

fun addr_value :: "ip_addr \<Rightarrow> nat" where
  "addr_value (Ip4 a) = a"
| "addr_value (Ip6 a) = a"

fun addr_width :: "ip_addr \<Rightarrow> nat" where
  "addr_width (Ip4 a) = 32"
| "addr_width (Ip6 a) = 128"

section \<open>Parsing\<close>

text \<open>strings.Split with a one-character separator.\<close>

fun split_on :: "char \<Rightarrow> string \<Rightarrow> string list" where
  "split_on c [] = [[]]"
| "split_on c (x # s) =
     (if x = c then [] # split_on c s
      else case split_on c s of h # t \<Rightarrow> (x # h) # t | [] \<Rightarrow> [[x]])"

text \<open>One field of a dotted address: digits without a leading zero, at most 255.\<close>

definition parse_octet :: "string \<Rightarrow> nat option" where
  "parse_octet s =
     (if s = [] \<or> (1 < length s \<and> hd s = CHR ''0'') then None
      else case parse_digits 0 s of
        None \<Rightarrow> None
      | Some n \<Rightarrow> (if n \<le> 255 then Some (nat n) else None))"

definition parse_v4 :: "string \<Rightarrow> nat option" where
  "parse_v4 s =
     (case map parse_octet (split_on (CHR ''.'') s) of
        [Some a, Some b, Some c, Some d] \<Rightarrow> Some (((a * 256 + b) * 256 + c) * 256 + d)
      | _ \<Rightarrow> None)"

definition hex_value :: "char \<Rightarrow> nat option" where
  "hex_value c = map_of (zip ''0123456789abcdefABCDEF'' [0, 1, 2, 3, 4, 5, 6, 7, 8, 9, 10, 11, 12, 13, 14, 15, 10, 11, 12, 13, 14, 15]) c"

definition hex_number :: "string \<Rightarrow> nat" where
  "hex_number s = fold (\<lambda>c n. 16 * n + (case hex_value c of None \<Rightarrow> 0 | Some d \<Rightarrow> d)) s 0"

text \<open>
  The 16-bit groups of an IPv6 address with the place of its ellipsis. The first argument bounds the
  groups still to come; the text of a trailing dotted address stands for the last two.
\<close>

fun v6_groups :: "nat \<Rightarrow> nat list \<Rightarrow> nat option \<Rightarrow> string \<Rightarrow> (nat list \<times> nat option) option" where
  "v6_groups 0 acc ell s = (if s = [] then Some (acc, ell) else None)"
| "v6_groups (Suc n) acc ell s =
     (let h = takeWhile (\<lambda>c. hex_value c \<noteq> None) s; rest = drop (length h) s; acc' = acc @ [hex_number h]
      in if h = [] \<or> 4 < length h then None
         else if rest \<noteq> [] \<and> hd rest = CHR ''.'' then
           (if ell = None \<and> length acc \<noteq> 6 then None
            else if 6 < length acc then None
            else case parse_v4 s of None \<Rightarrow> None | Some a \<Rightarrow> Some (acc @ [a div 65536, a mod 65536], ell))
         else case rest of
           [] \<Rightarrow> Some (acc', ell)
         | c # t \<Rightarrow>
             (if c \<noteq> CHR '':'' \<or> t = [] then None
              else if hd t = CHR '':'' then
                (if ell \<noteq> None then None
                 else if tl t = [] then Some (acc', Some (length acc'))
                 else v6_groups n acc' (Some (length acc')) (tl t))
              else v6_groups n acc' ell t))"

text \<open>The ellipsis stands for at least one group of zeros.\<close>

definition v6_expand :: "nat list \<times> nat option \<Rightarrow> nat list option" where
  "v6_expand p = (case p of (gs, ell) \<Rightarrow>
     (if length gs < 8 then
        (case ell of None \<Rightarrow> None | Some k \<Rightarrow> Some (take k gs @ replicate (8 - length gs) 0 @ drop k gs))
      else if ell \<noteq> None then None else Some gs))"

definition parse_v6 :: "string \<Rightarrow> nat option" where
  "parse_v6 s =
     (let r = (if has_prefix s ''::'' then
                 (if drop 2 s = [] then Some ([], Some 0) else v6_groups 8 [] (Some 0) (drop 2 s))
               else v6_groups 8 [] None s)
      in case Option.bind r v6_expand of
           None \<Rightarrow> None
         | Some gs \<Rightarrow> Some (fold (\<lambda>g n. 65536 * n + g) gs 0))"

text \<open>netip.ParseAddr, refusing a zone.\<close>

definition parse_addr :: "string \<Rightarrow> ip_addr option" where
  "parse_addr s =
     (if CHR ''%'' \<in> set s then None
      else case dropWhile (\<lambda>c. c \<noteq> CHR ''.'' \<and> c \<noteq> CHR '':'') s of
        [] \<Rightarrow> None
      | c # _ \<Rightarrow> (if c = CHR ''.'' then map_option Ip4 (parse_v4 s) else map_option Ip6 (parse_v6 s)))"

text \<open>The digits of the length have no sign and no leading zero.\<close>

definition parse_bits :: "string \<Rightarrow> nat option" where
  "parse_bits s =
     (if s = [] \<or> (1 < length s \<and> hd s \<notin> set ''123456789'') then None
      else case parse_digits 0 s of None \<Rightarrow> None | Some n \<Rightarrow> Some (nat n))"

definition parse_prefix :: "string \<Rightarrow> ip_prefix option" where
  "parse_prefix s =
     (if CHR ''/'' \<notin> set s then None
      else let b = after_last (CHR ''/'') s; a = take (length s - length b - 1) s
        in case (parse_addr a, parse_bits b) of
          (Some ip, Some n) \<Rightarrow> (if n \<le> addr_width ip then Some \<lparr>px_addr = ip, px_bits = n\<rparr> else None)
        | _ \<Rightarrow> None)"

section \<open>Prefixes\<close>

definition px_shift :: "ip_prefix \<Rightarrow> nat" where
  "px_shift p = addr_width (px_addr p) - px_bits p"

text \<open>Prefix.Contains.\<close>

definition prefix_contains :: "ip_prefix \<Rightarrow> ip_addr \<Rightarrow> bool" where
  "prefix_contains p a \<longleftrightarrow> addr_is4 (px_addr p) = addr_is4 a \<and>
     addr_value (px_addr p) div 2 ^ px_shift p = addr_value a div 2 ^ px_shift p"

text \<open>Prefix.Overlaps compares both addresses cut to the shorter length.\<close>

definition prefix_overlaps :: "ip_prefix \<Rightarrow> ip_prefix \<Rightarrow> bool" where
  "prefix_overlaps p q \<longleftrightarrow>
     (if p = q then True
      else if addr_is4 (px_addr p) \<noteq> addr_is4 (px_addr q) then False
      else let k = addr_width (px_addr p) - min (px_bits p) (px_bits q)
        in addr_value (px_addr p) div 2 ^ k = addr_value (px_addr q) div 2 ^ k)"

text \<open>The first and the last address of a prefix (Masked and the end of its range).\<close>

definition px_first :: "ip_prefix \<Rightarrow> nat" where
  "px_first p = addr_value (px_addr p) div 2 ^ px_shift p * 2 ^ px_shift p"

definition px_last :: "ip_prefix \<Rightarrow> nat" where
  "px_last p = px_first p + 2 ^ px_shift p - 1"

text \<open>Addr.String of an IPv4 address.\<close>

definition show_v4 :: "nat \<Rightarrow> string" where
  "show_v4 a = show_nat (a div 16777216 mod 256) @ CHR ''.'' # show_nat (a div 65536 mod 256) @
     CHR ''.'' # show_nat (a div 256 mod 256) @ CHR ''.'' # show_nat (a mod 256)"

section \<open>What they guarantee\<close>

definition prefix_ok :: "ip_prefix \<Rightarrow> bool" where
  "prefix_ok p \<longleftrightarrow> px_bits p \<le> addr_width (px_addr p)"

lemma parse_prefix_ok: "parse_prefix s = Some p \<Longrightarrow> prefix_ok p"
  by (auto simp: parse_prefix_def prefix_ok_def Let_def split: if_splits option.splits)

lemma addr_width_family: "addr_is4 a = addr_is4 b \<Longrightarrow> addr_width a = addr_width b"
  by (cases a; cases b) simp_all

lemma prefix_contains_self: "prefix_contains p (px_addr p)"
  by (simp add: prefix_contains_def)

lemma div_pow_coarser:
  assumes "x div 2 ^ j = y div 2 ^ j" and "j \<le> k"
  shows "(x :: nat) div 2 ^ k = y div 2 ^ k"
proof -
  have e: "z div 2 ^ k = z div 2 ^ j div 2 ^ (k - j)" for z :: nat
  proof -
    have "(2 :: nat) ^ k = 2 ^ j * 2 ^ (k - j)" using assms(2) by (simp flip: power_add)
    then show ?thesis by (simp add: div_mult2_eq)
  qed
  show ?thesis by (simp only: e assms(1))
qed

lemma prefix_overlaps_alt:
  "prefix_overlaps p q \<longleftrightarrow> addr_is4 (px_addr p) = addr_is4 (px_addr q) \<and>
     addr_value (px_addr p) div 2 ^ (addr_width (px_addr p) - min (px_bits p) (px_bits q)) =
     addr_value (px_addr q) div 2 ^ (addr_width (px_addr p) - min (px_bits p) (px_bits q))"
  by (cases "p = q") (simp_all only: prefix_overlaps_def Let_def, simp_all)

lemma prefix_overlaps_sym: "prefix_overlaps p q = prefix_overlaps q p"
proof (cases "addr_is4 (px_addr p) = addr_is4 (px_addr q)")
  case True
  then have "addr_width (px_addr q) = addr_width (px_addr p)" by (metis addr_width_family)
  then show ?thesis
    unfolding prefix_overlaps_alt min.commute [of "px_bits q"] by (metis True)
qed (simp add: prefix_overlaps_alt)

lemma prefix_overlaps_shorter:
  assumes "px_bits p \<le> px_bits q"
  shows "prefix_overlaps p q \<longleftrightarrow> prefix_contains p (px_addr q)"
proof -
  have "min (px_bits p) (px_bits q) = px_bits p" using assms by simp
  then show ?thesis unfolding prefix_overlaps_alt prefix_contains_def px_shift_def by simp
qed

text \<open>Two prefixes overlap just when some address is in both.\<close>

lemma prefix_overlaps_iff: "prefix_overlaps p q \<longleftrightarrow> (\<exists>a. prefix_contains p a \<and> prefix_contains q a)"
proof -
  have *: "prefix_overlaps p q \<longleftrightarrow> (\<exists>a. prefix_contains p a \<and> prefix_contains q a)"
    if "px_bits p \<le> px_bits q" for p q
  proof
    assume "prefix_overlaps p q"
    with that show "\<exists>a. prefix_contains p a \<and> prefix_contains q a"
      using prefix_contains_self [of q] unfolding prefix_overlaps_shorter [OF that] by blast
  next
    assume "\<exists>a. prefix_contains p a \<and> prefix_contains q a"
    then obtain a where a: "prefix_contains p a" "prefix_contains q a" by blast
    then have f: "addr_is4 (px_addr p) = addr_is4 a" "addr_is4 (px_addr q) = addr_is4 a"
      by (simp_all add: prefix_contains_def)
    then have sh: "px_shift q \<le> px_shift p"
      using that addr_width_family [of "px_addr p" "px_addr q"] by (simp add: px_shift_def)
    have "addr_value (px_addr q) div 2 ^ px_shift q = addr_value a div 2 ^ px_shift q"
      using a(2) by (simp only: prefix_contains_def)
    then have "addr_value (px_addr q) div 2 ^ px_shift p = addr_value a div 2 ^ px_shift p"
      by (rule div_pow_coarser [OF _ sh])
    with a(1) f have "prefix_contains p (px_addr q)" unfolding prefix_contains_def by (simp only:)
    with that show "prefix_overlaps p q" by (simp add: prefix_overlaps_shorter)
  qed
  show ?thesis
  proof (cases "px_bits p \<le> px_bits q")
    case False
    then have "prefix_overlaps q p \<longleftrightarrow> (\<exists>a. prefix_contains q a \<and> prefix_contains p a)"
      by (intro *) simp
    then show ?thesis unfolding prefix_overlaps_sym [of p q] by blast
  qed (rule *)
qed

lemma px_first_le: "px_first p \<le> addr_value (px_addr p)"
  by (simp add: px_first_def)

text \<open>The addresses of a prefix are the range from its first to its last.\<close>

lemma prefix_contains_range:
  "prefix_contains p a \<longleftrightarrow> addr_is4 (px_addr p) = addr_is4 a \<and> px_first p \<le> addr_value a \<and> addr_value a \<le> px_last p"
proof -
  define m where "m = (2 :: nat) ^ px_shift p"
  have m: "0 < m" by (simp add: m_def)
  have "x div m = y div m \<longleftrightarrow> x div m * m \<le> y \<and> y \<le> x div m * m + m - 1" for x y
  proof
    assume "x div m = y div m"
    moreover have "y div m * m \<le> y" "y < y div m * m + m"
      using m div_mult_mod_eq [of y m] mod_less_divisor [OF m, of y] by linarith+
    ultimately show "x div m * m \<le> y \<and> y \<le> x div m * m + m - 1" using m by auto
  next
    assume "x div m * m \<le> y \<and> y \<le> x div m * m + m - 1"
    then have "y = x div m * m + (y - x div m * m)" "y - x div m * m < m" using m by auto
    then have "y div m = x div m" by (metis div_mult_self3 div_less add.right_neutral m not_gr_zero)
    then show "x div m = y div m" ..
  qed
  then show ?thesis unfolding prefix_contains_def px_last_def px_first_def m_def [symmetric] by blast
qed

text \<open>The text of a number is its digits, and parses back.\<close>

lemma digit_value_char: "digit_value (digit_char d) = Some (int (d mod 10))"
proof -
  have small: "digit_value (''0123456789'' ! n) = Some (int n)" if "n < 10" for n
  proof -
    from that have "n = 0 \<or> n = 1 \<or> n = 2 \<or> n = 3 \<or> n = 4 \<or> n = 5 \<or> n = 6 \<or> n = 7 \<or> n = 8 \<or> n = 9"
      by presburger
    then show ?thesis by (elim disjE) (simp_all add: digit_value_def)
  qed
  show ?thesis unfolding digit_char_def by (rule small) simp
qed

lemma parse_digits_append:
  "parse_digits acc (s @ t) = Option.bind (parse_digits acc s) (\<lambda>v. parse_digits v t)"
  by (induction acc s rule: parse_digits.induct) (auto split: option.split)

lemma parse_digits_show_nat: "parse_digits 0 (show_nat n) = Some (int n)"
proof (induction n rule: show_nat.induct)
  case (1 n)
  show ?case
  proof (cases "n < 10")
    case True
    then show ?thesis by (simp add: show_nat.simps [of n] digit_value_char)
  next
    case False
    moreover have "10 * int (n div 10) + int (n mod 10) = int n"
      by (simp add: zdiv_int zmod_int)
    ultimately show ?thesis using 1
      by (simp add: show_nat.simps [of n] parse_digits_append digit_value_char)
  qed
qed

lemma show_nat_digits: "set (show_nat n) \<subseteq> set ''0123456789''"
proof (induction n rule: show_nat.induct)
  case (1 n)
  define D where "D = set ''0123456789''"
  have "digit_char k \<in> D" for k
    unfolding D_def digit_char_def by (rule nth_mem) simp
  then show ?case using 1 unfolding D_def [symmetric] by (subst show_nat.simps) simp
qed

lemma show_nat_nonempty [simp]: "show_nat n \<noteq> []"
  by (subst show_nat.simps) simp

lemma show_nat_small: "n < 10 \<Longrightarrow> show_nat n = [digit_char n]"
  by (simp add: show_nat.simps [of n])

lemma digit_char_zero: "0 < d \<Longrightarrow> d < 10 \<Longrightarrow> digit_char d \<noteq> CHR ''0''"
proof -
  assume "0 < d" "d < 10"
  then have "d = 1 \<or> d = 2 \<or> d = 3 \<or> d = 4 \<or> d = 5 \<or> d = 6 \<or> d = 7 \<or> d = 8 \<or> d = 9"
    by linarith
  then show ?thesis by (elim disjE) (simp_all add: digit_char_def)
qed

lemma show_nat_no_leading_zero: "0 < n \<Longrightarrow> hd (show_nat n) \<noteq> CHR ''0''"
proof (induction n rule: show_nat.induct)
  case (1 n)
  show ?case
  proof (cases "n < 10")
    case True
    with 1(2) show ?thesis by (simp add: show_nat_small digit_char_zero)
  next
    case False
    then show ?thesis using 1 by (subst show_nat.simps) (simp add: hd_append div_greater_zero_iff)
  qed
qed

lemma parse_octet_show: "n < 256 \<Longrightarrow> parse_octet (show_nat n) = Some n"
proof -
  assume n: "n < 256"
  have "\<not> (1 < length (show_nat n) \<and> hd (show_nat n) = CHR ''0'')"
  proof (cases "n = 0")
    case True
    then show ?thesis by (simp add: show_nat_small)
  next
    case False
    then show ?thesis by (simp add: show_nat_no_leading_zero)
  qed
  with n show ?thesis by (simp add: parse_octet_def parse_digits_show_nat)
qed

lemma split_on_none: "c \<notin> set s \<Longrightarrow> split_on c s = [s]"
  by (induction s) auto

lemma split_on_append: "c \<notin> set u \<Longrightarrow> split_on c (u @ c # v) = u # split_on c v"
  by (induction u) auto

lemma dot_notin_show_nat [simp]: "CHR ''.'' \<notin> set (show_nat n)"
  using show_nat_digits [of n] by auto

lemma v4_bytes:
  assumes "a < 4294967296"
  shows "((a div 16777216 mod 256 * 256 + a div 65536 mod 256) * 256 + a div 256 mod 256) * 256 + a mod 256 = (a :: nat)"
proof -
  have 1: "a div 256 * 256 + a mod 256 = a" by (rule div_mult_mod_eq)
  have 2: "a div 256 div 256 * 256 + a div 256 mod 256 = a div 256" by (rule div_mult_mod_eq)
  have 3: "a div 256 div 256 div 256 * 256 + a div 256 div 256 mod 256 = a div 256 div 256" by (rule div_mult_mod_eq)
  have "a div 256 div 256 div 256 mod 256 = a div 256 div 256 div 256"
    using assms by (intro mod_less) (simp add: div_mult2_eq [symmetric] less_mult_imp_div_less)
  moreover have "a div 65536 = a div 256 div 256" "a div 16777216 = a div 256 div 256 div 256"
    by (simp_all add: div_mult2_eq [symmetric])
  ultimately show ?thesis by (simp only: 1 2 3)
qed

lemma parse_show_v4:
  assumes "a < 4294967296"
  shows "parse_v4 (show_v4 a) = Some a"
proof -
  have "map parse_octet (split_on (CHR ''.'') (show_v4 a)) =
      [Some (a div 16777216 mod 256), Some (a div 65536 mod 256), Some (a div 256 mod 256), Some (a mod 256)]"
    by (simp add: show_v4_def split_on_append split_on_none parse_octet_show)
  then show ?thesis by (simp only: parse_v4_def list.case option.case v4_bytes [OF assms])
qed

lemma show_v4_inj: "a < 4294967296 \<Longrightarrow> b < 4294967296 \<Longrightarrow> show_v4 a = show_v4 b \<longleftrightarrow> a = b"
  by (metis parse_show_v4 option.inject)

end
