(* ===== verification/Ec2Net.thy ===== *)
theory Ec2Net
  imports Tags Netip Identity
begin

text \<open>
  EC2 networking in the repository (repository/ec2.go): VPCs with their default security group and main
  route table, subnets, internet gateways, route tables with their routes and associations, security
  groups and their rules, Elastic IPs and availability zones. The foreign keys, unique indexes, checks
  and tag triggers of the schema are part of each statement; a transaction commits all or nothing.
\<close>

section \<open>Errors and statements\<close>

text \<open>
  What an operation refuses with: an error of package models or of the database, or one of the errors
  repository/ec2.go and repository/ec2_compute.go name.
\<close>

datatype ec2_error =
    Ec2_plain go_error
  | Err_subnet_conflict
  | Err_main_route_table
  | Err_main_association
  | Err_local_route
  | Err_group_held
  | Rule_not_found string
  | Err_termination_protected
  | Instance_error string ec2_error

fun ec2_go_error :: "ec2_error \<Rightarrow> go_error" where
  "ec2_go_error (Ec2_plain e) = e"
| "ec2_go_error Err_subnet_conflict = ErrOther ''subnet CIDR conflicts with another subnet''"
| "ec2_go_error Err_main_route_table = ErrOther ''the route table is its VPC's main route table''"
| "ec2_go_error Err_main_association = ErrOther ''cannot disassociate the main route table association''"
| "ec2_go_error Err_local_route = ErrOther ''cannot remove a route table's local route''"
| "ec2_go_error Err_group_held =
     ErrWrap ErrInUse (error_text ErrInUse @ '': a network interface holds the security group'')"
| "ec2_go_error (Rule_not_found i) = ErrWrap ErrNotFound (''security group rule '' @ i @ '' not found'')"
| "ec2_go_error Err_termination_protected =
     ErrWrap ErrConflict (''disableApiTermination is set: '' @ error_text ErrConflict)"
| "ec2_go_error (Instance_error i e) =
     ErrWrap (ec2_go_error e) (''instance '' @ i @ '': '' @ error_text (ec2_go_error e))"

definition res_bind :: "'e + 'a \<Rightarrow> ('a \<Rightarrow> 'e + 'b) \<Rightarrow> 'e + 'b" where
  "res_bind r f = (case r of Inl e \<Rightarrow> Inl e | Inr x \<Rightarrow> f x)"

text \<open>An INSERT's error as the driver gives it, and through mapInsertError.\<close>

definition raw_insert :: "sql_error + 'a \<Rightarrow> 'a result" where
  "raw_insert r = (case r of Inl e \<Rightarrow> Inl (ErrOther (sql_text e)) | Inr x \<Rightarrow> Inr x)"

definition mapped_insert :: "sql_error + 'a \<Rightarrow> 'a result" where
  "mapped_insert r = (case r of Inl e \<Rightarrow> Inl (map_insert_error (sql_text e)) | Inr x \<Rightarrow> Inr x)"

text \<open>An INSERT: unique indexes are checked row by row, foreign keys at the end of the statement.\<close>

definition insert_checked :: "bool \<Rightarrow> bool \<Rightarrow> 'r \<Rightarrow> 'r list \<Rightarrow> sql_error + 'r list" where
  "insert_checked clash fk r t = (if clash then Inl Unique_failed else if \<not> fk then Inl Fk_failed else Inr (t @ [r]))"

definition has_key :: "('r \<Rightarrow> 'k) \<Rightarrow> 'k \<Rightarrow> 'r list \<Rightarrow> bool" where
  "has_key key k t \<longleftrightarrow> k \<in> key ` set t"

text \<open>A transaction over EC2's tables.\<close>

definition commit :: "'e + ec2_db \<Rightarrow> db \<Rightarrow> 'e option \<times> db" where
  "commit r d = (case r of Inl e \<Rightarrow> (Some e, d) | Inr t \<Rightarrow> (None, d\<lparr>ec2_tbls := t\<rparr>))"

text \<open>The AFTER DELETE triggers, for the rows of an account that went.\<close>

definition drop_ec2_tags :: "string \<Rightarrow> string list \<Rightarrow> db \<Rightarrow> db" where
  "drop_ec2_tags account ids d =
     d\<lparr>ec2_tags := sql_delete (\<lambda>r. er_account r = account \<and> e_resource_id (er_tag r) \<in> set ids) (ec2_tags d)\<rparr>"

section \<open>Inserts\<close>

definition insert_vpc :: "string \<Rightarrow> ec2_vpc \<Rightarrow> ec2_db \<Rightarrow> sql_error + ec2_db" where
  "insert_vpc account v t = map_sum id (\<lambda>rows. t\<lparr>ec2_vpcs := rows\<rparr>)
     (insert_checked (has_key vpc_pk (account, vp_id v) (ec2_vpcs t)) True \<lparr>ow_account = account, ow_data = v\<rparr> (ec2_vpcs t))"

definition insert_subnet :: "string \<Rightarrow> ec2_subnet \<Rightarrow> ec2_db \<Rightarrow> sql_error + ec2_db" where
  "insert_subnet account s t = map_sum id (\<lambda>rows. t\<lparr>ec2_subnets := rows\<rparr>)
     (insert_checked (has_key subnet_pk (account, sn_id s) (ec2_subnets t)) (has_key vpc_pk (account, sn_vpc s) (ec2_vpcs t))
        \<lparr>ow_account = account, ow_data = s\<rparr> (ec2_subnets t))"

definition insert_internet_gateway :: "string \<Rightarrow> ec2_igw \<Rightarrow> ec2_db \<Rightarrow> sql_error + ec2_db" where
  "insert_internet_gateway account g t = map_sum id (\<lambda>rows. t\<lparr>ec2_igws := rows\<rparr>)
     (insert_checked (has_key igw_pk (account, gw_id g) (ec2_igws t)) True \<lparr>ow_account = account, ow_data = g\<rparr> (ec2_igws t))"

definition insert_route_table :: "string \<Rightarrow> ec2_rtb \<Rightarrow> ec2_db \<Rightarrow> sql_error + ec2_db" where
  "insert_route_table account rt t = map_sum id (\<lambda>rows. t\<lparr>ec2_rtbs := rows\<rparr>)
     (insert_checked (has_key rtb_pk (account, rt_id rt) (ec2_rtbs t)) (has_key vpc_pk (account, rt_vpc rt) (ec2_vpcs t))
        \<lparr>ow_account = account, ow_data = rt\<rparr> (ec2_rtbs t))"

definition insert_route :: "string \<Rightarrow> ec2_route \<Rightarrow> ec2_db \<Rightarrow> sql_error + ec2_db" where
  "insert_route account x t = map_sum id (\<lambda>rows. t\<lparr>ec2_routes := rows\<rparr>)
     (insert_checked (has_key route_pk (account, rx_rtb x, rx_dest x) (ec2_routes t)) (has_key rtb_pk (account, rx_rtb x) (ec2_rtbs t))
        \<lparr>ow_account = account, ow_data = x\<rparr> (ec2_routes t))"

text \<open>One association per subnet and one main association per VPC; NULLs are never alike.\<close>

definition assoc_subnet_key :: "ec2_assoc owned \<Rightarrow> string \<times> string" where
  "assoc_subnet_key = owned_pk as_subnet"

definition assoc_main_key :: "ec2_assoc owned \<Rightarrow> string \<times> string" where
  "assoc_main_key = owned_pk as_vpc"

definition has_subnet :: "ec2_assoc owned \<Rightarrow> bool" where
  "has_subnet r \<longleftrightarrow> as_subnet (ow_data r) \<noteq> []"

definition is_main :: "ec2_assoc owned \<Rightarrow> bool" where
  "is_main r \<longleftrightarrow> as_main (ow_data r)"

definition insert_association :: "string \<Rightarrow> string \<Rightarrow> ec2_assoc \<Rightarrow> ec2_db \<Rightarrow> sql_error + ec2_db" where
  "insert_association account vpc a t =
     (let r = \<lparr>ow_account = account, ow_data = a\<lparr>as_vpc := vpc\<rparr>\<rparr>
      in map_sum id (\<lambda>rows. t\<lparr>ec2_assocs := rows\<rparr>)
       (insert_checked
          (has_key assoc_pk (assoc_pk r) (ec2_assocs t) \<or>
           has_subnet r \<and> has_key assoc_subnet_key (assoc_subnet_key r) (filter has_subnet (ec2_assocs t)) \<or>
           is_main r \<and> has_key assoc_main_key (assoc_main_key r) (filter is_main (ec2_assocs t)))
          (has_key rtb_pk (account, as_rtb a) (ec2_rtbs t) \<and>
           (as_subnet a = [] \<or> has_key subnet_pk (account, as_subnet a) (ec2_subnets t)))
          r (ec2_assocs t)))"

definition sg_name_key :: "ec2_sg owned \<Rightarrow> string \<times> string \<times> string" where
  "sg_name_key = owned_pk (\<lambda>g. (sg_vpc g, sg_name g))"

definition insert_security_group :: "string \<Rightarrow> ec2_sg \<Rightarrow> ec2_db \<Rightarrow> ec2_db result" where
  "insert_security_group account g t = mapped_insert (map_sum id (\<lambda>rows. t\<lparr>ec2_sgs := rows\<rparr>)
     (insert_checked
        (has_key sg_pk (account, sg_id g) (ec2_sgs t) \<or> has_key sg_name_key (account, sg_vpc g, sg_name g) (ec2_sgs t))
        (has_key vpc_pk (account, sg_vpc g) (ec2_vpcs t)) \<lparr>ow_account = account, ow_data = g\<rparr> (ec2_sgs t)))"

definition insert_eip :: "string \<Rightarrow> ec2_eip \<Rightarrow> ec2_db \<Rightarrow> ec2_db result" where
  "insert_eip account e t = mapped_insert (map_sum id (\<lambda>rows. t\<lparr>ec2_eips := rows\<rparr>)
     (insert_checked (has_key eip_pk (account, ei_id e) (ec2_eips t)) True \<lparr>ow_account = account, ow_data = e\<rparr> (ec2_eips t)))"

section \<open>VPCs\<close>

definition default_group_name :: string where
  "default_group_name = ''default''"

definition local_gateway :: string where
  "local_gateway = ''local''"

definition local_route :: "string \<Rightarrow> ec2_rtb \<Rightarrow> ec2_route" where
  "local_route cidr rt = \<lparr>rx_rtb = rt_id rt, rx_dest = cidr, rx_gateway = local_gateway, rx_nat = [], rx_instance = [],
     rx_eni = [], rx_origin = ''CreateRouteTable'', rx_state = ''active''\<rparr>"

definition insert_route_table_with_local :: "string \<Rightarrow> string \<Rightarrow> ec2_rtb \<Rightarrow> ec2_db \<Rightarrow> sql_error + ec2_db" where
  "insert_route_table_with_local account cidr rt t =
     res_bind (insert_route_table account rt t) (\<lambda>t'. insert_route account (local_route cidr rt) t')"

record main_route_table =
  mr_table :: ec2_rtb
  mr_assoc :: ec2_assoc

definition insert_main_route_table :: "string \<Rightarrow> string \<Rightarrow> main_route_table \<Rightarrow> ec2_db \<Rightarrow> ec2_db result" where
  "insert_main_route_table account cidr main t =
     res_bind (raw_insert (insert_route_table_with_local account cidr (mr_table main) t))
       (\<lambda>t'. raw_insert (insert_association account (rt_vpc (mr_table main)) (mr_assoc main) t'))"

definition create_vpc_with_defaults ::
  "string \<Rightarrow> ec2_vpc \<Rightarrow> ec2_sg \<Rightarrow> main_route_table \<Rightarrow> db \<Rightarrow> go_error option \<times> db" where
  "create_vpc_with_defaults account v sg main d =
     commit (res_bind (mapped_insert (insert_vpc account v (ec2_tbls d)))
       (\<lambda>t1. res_bind (insert_security_group account sg t1)
         (\<lambda>t2. insert_main_route_table account (vp_cidr v) main t2))) d"

definition get_vpc :: "string \<Rightarrow> string \<Rightarrow> string \<Rightarrow> db \<Rightarrow> ec2_vpc result" where
  "get_vpc account region i d = get_scoped vp_region vp_id account region i (ec2_vpcs (ec2_tbls d))"

definition list_vpcs :: "string \<Rightarrow> string \<Rightarrow> db \<Rightarrow> ec2_vpc list" where
  "list_vpcs account region d = list_scoped vp_region vp_id account region (ec2_vpcs (ec2_tbls d))"

definition update_vpc :: "string \<Rightarrow> string \<Rightarrow> string \<Rightarrow> (ec2_vpc \<Rightarrow> ec2_vpc) \<Rightarrow> db \<Rightarrow> go_error option \<times> db" where
  "update_vpc account region i change d = (case get_vpc account region i d of
       Inl e \<Rightarrow> (Some e, d)
     | Inr v \<Rightarrow> (let t = ec2_tbls d in
         (None, d\<lparr>ec2_tbls := t\<lparr>ec2_vpcs := sql_update (\<lambda>r. vpc_pk r = (account, i)) (put_data (\<lambda>_. change v)) (ec2_vpcs t)\<rparr>\<rparr>)))"

text \<open>
  What a delete of subnets, route tables or groups takes along. The interfaces and instances of a subnet
  refuse its delete.
\<close>

definition subnet_in_use :: "string \<Rightarrow> string \<Rightarrow> ec2_db \<Rightarrow> bool" where
  "subnet_in_use account i t \<longleftrightarrow>
     (\<exists>r\<in>set (ec2_instances t). owned_where account (\<lambda>x. in_subnet x = i) r) \<or>
     (\<exists>r\<in>set (ec2_enis t). owned_where account (\<lambda>x. ni_subnet x = i) r)"

definition drop_subnets :: "string \<Rightarrow> string list \<Rightarrow> ec2_db \<Rightarrow> ec2_db" where
  "drop_subnets account ids t = t\<lparr>
     ec2_subnets := sql_delete (owned_where account (\<lambda>s. sn_id s \<in> set ids)) (ec2_subnets t),
     ec2_assocs := sql_delete (owned_where account (\<lambda>a. as_subnet a \<noteq> [] \<and> as_subnet a \<in> set ids)) (ec2_assocs t)\<rparr>"

definition drop_rtbs :: "string \<Rightarrow> string list \<Rightarrow> ec2_db \<Rightarrow> ec2_db" where
  "drop_rtbs account ids t = t\<lparr>
     ec2_rtbs := sql_delete (owned_where account (\<lambda>rt. rt_id rt \<in> set ids)) (ec2_rtbs t),
     ec2_assocs := sql_delete (owned_where account (\<lambda>a. as_rtb a \<in> set ids)) (ec2_assocs t),
     ec2_routes := sql_delete (owned_where account (\<lambda>x. rx_rtb x \<in> set ids)) (ec2_routes t)\<rparr>"

definition drop_sgs :: "string \<Rightarrow> string list \<Rightarrow> ec2_db \<Rightarrow> ec2_db" where
  "drop_sgs account ids t = t\<lparr>
     ec2_sgs := sql_delete (owned_where account (\<lambda>g. sg_id g \<in> set ids)) (ec2_sgs t),
     ec2_rules := sql_delete (owned_where account (\<lambda>r. ru_group r \<in> set ids)) (ec2_rules t)\<rparr>"

text \<open>The SET clause of every detach.\<close>

definition igw_detach :: "ec2_igw \<Rightarrow> ec2_igw" where
  "igw_detach g = g\<lparr>gw_vpc := [], gw_state := []\<rparr>"

definition detach_igws :: "string \<Rightarrow> string \<Rightarrow> ec2_db \<Rightarrow> ec2_db" where
  "detach_igws account vpc t =
     t\<lparr>ec2_igws := sql_update (owned_where account (\<lambda>g. gw_vpc g \<noteq> [] \<and> gw_vpc g = vpc)) (put_data igw_detach) (ec2_igws t)\<rparr>"

definition vpc_subnets :: "string \<Rightarrow> string \<Rightarrow> ec2_db \<Rightarrow> string list" where
  "vpc_subnets account vpc t = owned_ids sn_id account (\<lambda>s. sn_vpc s = vpc) (ec2_subnets t)"

definition vpc_rtbs :: "string \<Rightarrow> string \<Rightarrow> ec2_db \<Rightarrow> string list" where
  "vpc_rtbs account vpc t = owned_ids rt_id account (\<lambda>rt. rt_vpc rt = vpc) (ec2_rtbs t)"

definition vpc_sgs :: "string \<Rightarrow> string \<Rightarrow> ec2_db \<Rightarrow> string list" where
  "vpc_sgs account vpc t = owned_ids sg_id account (\<lambda>g. sg_vpc g = vpc) (ec2_sgs t)"

definition group_rules :: "string \<Rightarrow> string list \<Rightarrow> ec2_db \<Rightarrow> string list" where
  "group_rules account groups t = owned_ids ru_id account (\<lambda>r. ru_group r \<in> set groups) (ec2_rules t)"

definition drop_vpc :: "string \<Rightarrow> string \<Rightarrow> ec2_db \<Rightarrow> ec2_db" where
  "drop_vpc account i t = drop_sgs account (vpc_sgs account i t) (drop_rtbs account (vpc_rtbs account i t)
     (drop_subnets account (vpc_subnets account i t)
       ((detach_igws account i t)\<lparr>ec2_vpcs := sql_delete (\<lambda>r. vpc_pk r = (account, i)) (ec2_vpcs t)\<rparr>)))"

definition delete_vpc :: "string \<Rightarrow> string \<Rightarrow> string \<Rightarrow> db \<Rightarrow> go_error option \<times> db" where
  "delete_vpc account region i d =
     (let t = ec2_tbls d; sgs = vpc_sgs account i t
      in if affected (\<lambda>r. in_scope vp_region account region r \<and> vp_id (ow_data r) = i) (ec2_vpcs t) = 0
         then (Some ErrNotFound, d)
         else if \<exists>s\<in>set (vpc_subnets account i t). subnet_in_use account s t
         then (Some (map_delete_error (sql_text Fk_failed)), d)
         else (None, drop_ec2_tags account (i # vpc_subnets account i t @ vpc_rtbs account i t @ sgs @ group_rules account sgs t)
                (d\<lparr>ec2_tbls := drop_vpc account i t\<rparr>)))"

text \<open>
  BackfillVPCDefaults: the VPCs without a default group, and then those without a main association, get
  one; \<open>mk_group\<close> and \<open>mk_main\<close> make them, the n-th call's random ids its own. A VPC row's keys order the list.
\<close>

definition vpcs_without :: "(ec2_vpc owned \<Rightarrow> bool) \<Rightarrow> ec2_db \<Rightarrow> ec2_vpc owned list" where
  "vpcs_without has t = sort_key vpc_pk (filter (\<lambda>v. \<not> has v) (ec2_vpcs t))"

definition has_default_group :: "ec2_db \<Rightarrow> ec2_vpc owned \<Rightarrow> bool" where
  "has_default_group t v \<longleftrightarrow> has_key sg_name_key (ow_account v, vp_id (ow_data v), default_group_name) (ec2_sgs t)"

definition has_main_table :: "ec2_db \<Rightarrow> ec2_vpc owned \<Rightarrow> bool" where
  "has_main_table t v \<longleftrightarrow> has_key assoc_main_key (vpc_pk v) (filter is_main (ec2_assocs t))"

fun backfill_each :: "(nat \<Rightarrow> ec2_vpc owned \<Rightarrow> ec2_db \<Rightarrow> ec2_db result) \<Rightarrow> nat \<Rightarrow> ec2_vpc owned list \<Rightarrow> ec2_db \<Rightarrow> ec2_db result" where
  "backfill_each f n [] t = Inr t"
| "backfill_each f n (v # vs) t = res_bind (f n v t) (\<lambda>t'. backfill_each f (Suc n) vs t')"

definition backfill_vpc_defaults ::
  "(nat \<Rightarrow> string \<Rightarrow> string \<Rightarrow> string \<Rightarrow> ec2_sg) \<Rightarrow> (nat \<Rightarrow> string \<Rightarrow> string \<Rightarrow> string \<Rightarrow> main_route_table) \<Rightarrow>
   db \<Rightarrow> go_error option \<times> db" where
  "backfill_vpc_defaults mk_group mk_main d =
     (if db_loaded d then (None, d)
      else commit
       (res_bind (backfill_each (\<lambda>n v. insert_security_group (ow_account v)
            (mk_group n (ow_account v) (vp_region (ow_data v)) (vp_id (ow_data v)))) 0
            (vpcs_without (has_default_group (ec2_tbls d)) (ec2_tbls d)) (ec2_tbls d))
         (\<lambda>t. backfill_each (\<lambda>n v. insert_main_route_table (ow_account v) (vp_cidr (ow_data v))
            (mk_main n (ow_account v) (vp_region (ow_data v)) (vp_id (ow_data v)))) 0
            (vpcs_without (has_main_table t) t) t)) d)"

section \<open>Subnets\<close>

text \<open>The text of a parse error after the quoted CIDR is the parser's and left out.\<close>

fun subnet_overlap :: "ip_prefix \<Rightarrow> ec2_subnet list \<Rightarrow> ec2_error option" where
  "subnet_overlap cidr [] = None"
| "subnet_overlap cidr (s # ss) = (case parse_prefix (sn_cidr s) of
       None \<Rightarrow> Some (Ec2_plain (ErrOther (''stored subnet cidr '' @ go_quote (sn_cidr s) @ '': '')))
     | Some p \<Rightarrow> (if prefix_overlaps p cidr then Some Err_subnet_conflict else subnet_overlap cidr ss))"

definition vpc_siblings :: "string \<Rightarrow> string \<Rightarrow> ec2_db \<Rightarrow> ec2_subnet list" where
  "vpc_siblings account vpc t = map ow_data (filter (owned_where account (\<lambda>s. sn_vpc s = vpc)) (ec2_subnets t))"

definition create_subnet :: "string \<Rightarrow> ec2_subnet \<Rightarrow> db \<Rightarrow> ec2_error option \<times> db" where
  "create_subnet account s d =
     (let t = ec2_tbls d
      in case parse_prefix (sn_cidr s) of
        None \<Rightarrow> (Some (Ec2_plain (ErrOther (''subnet cidr '' @ go_quote (sn_cidr s) @ '': ''))), d)
      | Some cidr \<Rightarrow>
          (if find (\<lambda>r. in_scope vp_region account (sn_region s) r \<and> vp_id (ow_data r) = sn_vpc s) (ec2_vpcs t) = None
           then (Some (Ec2_plain ErrNotFound), d)
           else case subnet_overlap cidr (vpc_siblings account (sn_vpc s) t) of
             Some e \<Rightarrow> (Some e, d)
           | None \<Rightarrow> commit (map_sum Ec2_plain id (mapped_insert (insert_subnet account s t))) d))"

definition get_subnet :: "string \<Rightarrow> string \<Rightarrow> string \<Rightarrow> db \<Rightarrow> ec2_subnet result" where
  "get_subnet account region i d = get_scoped sn_region sn_id account region i (ec2_subnets (ec2_tbls d))"

definition list_subnets :: "string \<Rightarrow> string \<Rightarrow> db \<Rightarrow> ec2_subnet list" where
  "list_subnets account region d = list_scoped sn_region sn_id account region (ec2_subnets (ec2_tbls d))"

definition update_subnet :: "string \<Rightarrow> string \<Rightarrow> string \<Rightarrow> (ec2_subnet \<Rightarrow> ec2_subnet) \<Rightarrow> db \<Rightarrow> go_error option \<times> db" where
  "update_subnet account region i change d = (case get_subnet account region i d of
       Inl e \<Rightarrow> (Some e, d)
     | Inr s \<Rightarrow> (let t = ec2_tbls d; s' = change s in
         (None, d\<lparr>ec2_tbls := t\<lparr>ec2_subnets := sql_update
            (\<lambda>r. subnet_pk r = (account, i) \<and> sn_region (ow_data r) = sn_region s') (put_data (\<lambda>_. s')) (ec2_subnets t)\<rparr>\<rparr>)))"

definition delete_subnet :: "string \<Rightarrow> string \<Rightarrow> string \<Rightarrow> db \<Rightarrow> go_error option \<times> db" where
  "delete_subnet account region i d =
     (let t = ec2_tbls d
      in if affected (\<lambda>r. in_scope sn_region account region r \<and> sn_id (ow_data r) = i) (ec2_subnets t) = 0
         then (Some ErrNotFound, d)
         else if subnet_in_use account i t then (Some (map_delete_error (sql_text Fk_failed)), d)
         else (None, drop_ec2_tags account [i] (d\<lparr>ec2_tbls := drop_subnets account [i] t\<rparr>)))"

section \<open>Internet gateways\<close>

definition create_internet_gateway :: "string \<Rightarrow> ec2_igw \<Rightarrow> db \<Rightarrow> go_error option \<times> db" where
  "create_internet_gateway account g d = commit (mapped_insert (insert_internet_gateway account g (ec2_tbls d))) d"

definition get_internet_gateway :: "string \<Rightarrow> string \<Rightarrow> string \<Rightarrow> db \<Rightarrow> ec2_igw result" where
  "get_internet_gateway account region i d = get_scoped gw_region gw_id account region i (ec2_igws (ec2_tbls d))"

definition list_internet_gateways :: "string \<Rightarrow> string \<Rightarrow> db \<Rightarrow> ec2_igw list" where
  "list_internet_gateways account region d = list_scoped gw_region gw_id account region (ec2_igws (ec2_tbls d))"

definition attach_internet_gateway :: "string \<Rightarrow> string \<Rightarrow> string \<Rightarrow> string \<Rightarrow> db \<Rightarrow> go_error option \<times> db" where
  "attach_internet_gateway account region i vpc d = (case get_vpc account region vpc d of
       Inl e \<Rightarrow> (Some e, d)
     | Inr _ \<Rightarrow> (case get_internet_gateway account region i d of
           Inl e \<Rightarrow> (Some e, d)
         | Inr _ \<Rightarrow> (let t = ec2_tbls d in
             (None, d\<lparr>ec2_tbls := t\<lparr>ec2_igws := sql_update (\<lambda>r. igw_pk r = (account, i))
                (put_data (\<lambda>g. g\<lparr>gw_vpc := vpc, gw_state := ''available''\<rparr>)) (ec2_igws t)\<rparr>\<rparr>))))"

definition detach_internet_gateway :: "string \<Rightarrow> string \<Rightarrow> string \<Rightarrow> db \<Rightarrow> go_error option \<times> db" where
  "detach_internet_gateway account region i d = (case get_internet_gateway account region i d of
       Inl e \<Rightarrow> (Some e, d)
     | Inr _ \<Rightarrow> (let t = ec2_tbls d in
         (None, d\<lparr>ec2_tbls := t\<lparr>ec2_igws := sql_update (\<lambda>r. igw_pk r = (account, i)) (put_data igw_detach) (ec2_igws t)\<rparr>\<rparr>)))"

definition delete_internet_gateway :: "string \<Rightarrow> string \<Rightarrow> string \<Rightarrow> db \<Rightarrow> go_error option \<times> db" where
  "delete_internet_gateway account region i d =
     (let t = ec2_tbls d; p = (\<lambda>r. in_scope gw_region account region r \<and> gw_id (ow_data r) = i)
      in if affected p (ec2_igws t) = 0 then (Some ErrNotFound, d)
         else (None, drop_ec2_tags account [i] (d\<lparr>ec2_tbls := t\<lparr>ec2_igws := sql_delete p (ec2_igws t)\<rparr>\<rparr>)))"

section \<open>Route tables, associations and routes\<close>

definition create_route_table :: "string \<Rightarrow> ec2_rtb \<Rightarrow> db \<Rightarrow> go_error option \<times> db" where
  "create_route_table account rt d = (case get_vpc account (rt_region rt) (rt_vpc rt) d of
       Inl e \<Rightarrow> (Some e, d)
     | Inr v \<Rightarrow> commit (mapped_insert (insert_route_table_with_local account (vp_cidr v) rt (ec2_tbls d))) d)"

definition get_route_table :: "string \<Rightarrow> string \<Rightarrow> string \<Rightarrow> db \<Rightarrow> ec2_rtb result" where
  "get_route_table account region i d = get_scoped rt_region rt_id account region i (ec2_rtbs (ec2_tbls d))"

definition list_route_tables :: "string \<Rightarrow> string \<Rightarrow> db \<Rightarrow> ec2_rtb list" where
  "list_route_tables account region d = list_scoped rt_region rt_id account region (ec2_rtbs (ec2_tbls d))"

definition holds_main :: "string \<Rightarrow> string \<Rightarrow> ec2_db \<Rightarrow> bool" where
  "holds_main account i t \<longleftrightarrow> (\<exists>r\<in>set (ec2_assocs t). owned_where account (\<lambda>a. as_rtb a = i \<and> as_main a) r)"

definition delete_route_table :: "string \<Rightarrow> string \<Rightarrow> string \<Rightarrow> db \<Rightarrow> ec2_error option \<times> db" where
  "delete_route_table account region i d =
     (let t = ec2_tbls d; p = (\<lambda>r. in_scope rt_region account region r \<and> rt_id (ow_data r) = i)
      in if affected (\<lambda>r. p r \<and> \<not> holds_main account i t) (ec2_rtbs t) > 0
         then (None, drop_ec2_tags account [i] (d\<lparr>ec2_tbls := drop_rtbs account [i] t\<rparr>))
         else case get_route_table account region i d of
           Inl e \<Rightarrow> (Some (Ec2_plain e), d)
         | Inr _ \<Rightarrow> (Some Err_main_route_table, d))"

definition associate_route_table :: "string \<Rightarrow> string \<Rightarrow> ec2_assoc \<Rightarrow> db \<Rightarrow> go_error option \<times> db" where
  "associate_route_table account region a d = (case get_route_table account region (as_rtb a) d of
       Inl e \<Rightarrow> (Some e, d)
     | Inr rt \<Rightarrow> (case get_subnet account region (as_subnet a) d of
           Inl e \<Rightarrow> (Some e, d)
         | Inr _ \<Rightarrow> commit (mapped_insert (insert_association account (rt_vpc rt) a (ec2_tbls d))) d))"

definition disassociate_route_table :: "string \<Rightarrow> string \<Rightarrow> db \<Rightarrow> ec2_error option \<times> db" where
  "disassociate_route_table account i d =
     (let t = ec2_tbls d
      in case find (\<lambda>r. assoc_pk r = (account, i)) (ec2_assocs t) of
        None \<Rightarrow> (Some (Ec2_plain ErrNotFound), d)
      | Some r \<Rightarrow> (if as_main (ow_data r) then (Some Err_main_association, d)
          else (None, d\<lparr>ec2_tbls := t\<lparr>ec2_assocs := sql_delete (\<lambda>r. assoc_pk r = (account, i)) (ec2_assocs t)\<rparr>\<rparr>)))"

definition create_route :: "string \<Rightarrow> string \<Rightarrow> ec2_route \<Rightarrow> db \<Rightarrow> go_error option \<times> db" where
  "create_route account region x d = (case get_route_table account region (rx_rtb x) d of
       Inl e \<Rightarrow> (Some e, d)
     | Inr _ \<Rightarrow> commit (mapped_insert (insert_route account x (ec2_tbls d))) d)"

definition delete_route :: "string \<Rightarrow> string \<Rightarrow> string \<Rightarrow> string \<Rightarrow> db \<Rightarrow> ec2_error option \<times> db" where
  "delete_route account region rtb dest d =
     (let t = ec2_tbls d; p = (\<lambda>r. route_pk r = (account, rtb, dest))
      in case (if region = [] then Inr [] else map_sum id (\<lambda>_. []) (get_route_table account region rtb d)) :: string result of
        Inl e \<Rightarrow> (Some (Ec2_plain e), d)
      | Inr _ \<Rightarrow> (case find p (ec2_routes t) of
            None \<Rightarrow> (Some (Ec2_plain ErrNotFound), d)
          | Some r \<Rightarrow> (if rx_gateway (ow_data r) = local_gateway then (Some Err_local_route, d)
              else (None, d\<lparr>ec2_tbls := t\<lparr>ec2_routes := sql_delete p (ec2_routes t)\<rparr>\<rparr>))))"

definition list_routes :: "string \<Rightarrow> db \<Rightarrow> ec2_route list" where
  "list_routes account d = sort_key (\<lambda>x. (rx_rtb x, rx_dest x))
     (map ow_data (filter (\<lambda>r. ow_account r = account) (ec2_routes (ec2_tbls d))))"

definition list_associations :: "string \<Rightarrow> db \<Rightarrow> ec2_assoc list" where
  "list_associations account d = sort_key as_id
     (map ow_data (filter (\<lambda>r. ow_account r = account) (ec2_assocs (ec2_tbls d))))"

end
