(* ===== verification/Ec2Groups.thy ===== *)
theory Ec2Groups
  imports Ec2Net
begin

text \<open>
  Security groups and their rules in the repository (repository/ec2.go). A rule is one source of one
  permission; its ordinals are the permission's place in its direction and the source's in its permission.
\<close>

section \<open>Security groups\<close>

definition create_security_group :: "string \<Rightarrow> ec2_sg \<Rightarrow> db \<Rightarrow> go_error option \<times> db" where
  "create_security_group account g d = (case get_vpc account (sg_region g) (sg_vpc g) d of
       Inl e \<Rightarrow> (Some e, d)
     | Inr _ \<Rightarrow> commit (insert_security_group account g (ec2_tbls d)) d)"

definition get_security_group :: "string \<Rightarrow> string \<Rightarrow> string \<Rightarrow> db \<Rightarrow> ec2_sg result" where
  "get_security_group account region i d = get_scoped sg_region sg_id account region i (ec2_sgs (ec2_tbls d))"

definition list_security_groups :: "string \<Rightarrow> string \<Rightarrow> db \<Rightarrow> ec2_sg list" where
  "list_security_groups account region d = list_scoped sg_region sg_id account region (ec2_sgs (ec2_tbls d))"

definition security_group_region :: "string \<Rightarrow> string \<Rightarrow> string \<Rightarrow> ec2_db \<Rightarrow> string result" where
  "security_group_region account region i t = map_sum id sg_region (get_scoped sg_region sg_id account region i (ec2_sgs t))"

text \<open>The interfaces' groups are in their data, which no foreign key sees.\<close>

definition group_held :: "string \<Rightarrow> string \<Rightarrow> ec2_db \<Rightarrow> bool" where
  "group_held account i t \<longleftrightarrow> (\<exists>r\<in>set (ec2_enis t). owned_where account (\<lambda>x. i \<in> set (ni_groups x)) r)"

definition delete_security_group :: "string \<Rightarrow> string \<Rightarrow> string \<Rightarrow> db \<Rightarrow> ec2_error option \<times> db" where
  "delete_security_group account region i d =
     (let t = ec2_tbls d; p = (\<lambda>r. in_scope sg_region account region r \<and> sg_id (ow_data r) = i)
      in if affected (\<lambda>r. p r \<and> \<not> group_held account i t) (ec2_sgs t) > 0
         then (None, drop_ec2_tags account (i # group_rules account [i] t) (d\<lparr>ec2_tbls := drop_sgs account [i] t\<rparr>))
         else case get_security_group account region i d of
           Inl e \<Rightarrow> (Some (Ec2_plain e), d)
         | Inr _ \<Rightarrow> (Some Err_group_held, d))"

section \<open>Rules\<close>

text \<open>Rules of one permission (ruleMatch) and of one source of it (ruleSourceMatch).\<close>

definition rule_match :: "string \<Rightarrow> ec2_rule \<Rightarrow> ec2_rule owned \<Rightarrow> bool" where
  "rule_match account x = owned_where account (\<lambda>r. ru_group r = ru_group x \<and> ru_egress r = ru_egress x \<and>
     ru_protocol r = ru_protocol x \<and> ru_from r = ru_from x \<and> ru_to r = ru_to x)"

definition rule_source :: "ec2_rule \<Rightarrow> string \<times> string \<times> string \<times> string" where
  "rule_source x = (ru_v4 x, ru_v6 x, ru_prefix_list x, ru_ref_group x)"

definition rule_source_match :: "ec2_rule \<Rightarrow> ec2_rule owned \<Rightarrow> bool" where
  "rule_source_match x r \<longleftrightarrow> rule_source (ow_data r) = rule_source x"

text \<open>COALESCE(MIN(f), d) and COALESCE(MAX(f) + 1, 0) over the rows a query selects.\<close>

definition min_or :: "int \<Rightarrow> int list \<Rightarrow> int" where
  "min_or d xs = (if xs = [] then d else Min (set xs))"

definition next_ord :: "int list \<Rightarrow> int" where
  "next_ord xs = (if xs = [] then 0 else Max (set xs) + 1)"

text \<open>ruleOrdinals: where the rule goes, and whether its permission already holds its source.\<close>

definition rule_ordinals :: "string \<Rightarrow> ec2_rule \<Rightarrow> ec2_rule owned list \<Rightarrow> int \<times> int \<times> bool" where
  "rule_ordinals account x t =
     (let same = filter (rule_match account x) t;
          dir = filter (owned_where account (\<lambda>r. ru_group r = ru_group x \<and> ru_egress r = ru_egress x)) t
      in (min_or (next_ord (map (\<lambda>r. ru_perm_ord (ow_data r)) dir)) (map (\<lambda>r. ru_perm_ord (ow_data r)) same),
          next_ord (map (\<lambda>r. ru_src_ord (ow_data r)) same),
          list_ex (rule_source_match x) same))"

definition rule_order :: "ec2_rule \<Rightarrow> bool \<times> int \<times> int" where
  "rule_order x = (ru_egress x, ru_perm_ord x, ru_src_ord x)"

definition list_security_group_rules :: "string \<Rightarrow> string \<Rightarrow> string \<Rightarrow> db \<Rightarrow> ec2_rule list result" where
  "list_security_group_rules account region i d =
     map_sum id (\<lambda>_. sort_key rule_order (map ow_data (filter (owned_where account (\<lambda>r. ru_group r = i)) (ec2_rules (ec2_tbls d)))))
       (security_group_region account region i (ec2_tbls d))"

definition list_region_security_group_rules :: "string \<Rightarrow> string \<Rightarrow> db \<Rightarrow> ec2_rule list" where
  "list_region_security_group_rules account region d = sort_key (\<lambda>x. (ru_group x, rule_order x))
     (map ow_data (filter (in_scope ru_region account region) (ec2_rules (ec2_tbls d))))"

definition get_security_group_rule :: "string \<Rightarrow> string \<Rightarrow> string \<Rightarrow> db \<Rightarrow> ec2_error + ec2_rule" where
  "get_security_group_rule account region i d =
     (case get_scoped ru_region ru_id account region i (ec2_rules (ec2_tbls d)) of
        Inl _ \<Rightarrow> Inl (Rule_not_found i)
      | Inr x \<Rightarrow> Inr x)"

text \<open>The row's CHECKs: exactly one source, and a user only beside a group.\<close>

definition one_source :: "ec2_rule \<Rightarrow> bool" where
  "one_source x \<longleftrightarrow> length (filter (\<lambda>s. s \<noteq> []) [ru_v4 x, ru_v6 x, ru_prefix_list x, ru_ref_group x]) = 1 \<and>
     (ru_ref_user x = [] \<or> ru_ref_group x \<noteq> [])"

definition check_failed_text :: string where
  "check_failed_text = ''CHECK constraint failed: ec2_security_group_rules''"

definition rule_place :: "ec2_rule owned \<Rightarrow> string \<times> string \<times> bool \<times> int \<times> int" where
  "rule_place = owned_pk (\<lambda>x. (ru_group x, rule_order x))"

definition insert_rule :: "string \<Rightarrow> string \<Rightarrow> ec2_rule \<Rightarrow> ec2_db \<Rightarrow> ec2_db result" where
  "insert_rule account region x t =
     (let r = \<lparr>ow_account = account, ow_data = x\<lparr>ru_region := region\<rparr>\<rparr>
      in if \<not> one_source x then Inl (ErrOther check_failed_text)
         else mapped_insert (map_sum id (\<lambda>rows. t\<lparr>ec2_rules := rows\<rparr>)
           (insert_checked
              (has_key rule_pk (rule_pk r) (ec2_rules t) \<or> has_key rule_place (rule_place r) (ec2_rules t))
              (has_key sg_pk (account, ru_group x) (ec2_sgs t)) r (ec2_rules t))))"

fun authorize_each :: "string \<Rightarrow> string \<Rightarrow> string \<Rightarrow> ec2_rule list \<Rightarrow> ec2_rule list \<Rightarrow> ec2_db \<Rightarrow> go_error + (ec2_rule list \<times> ec2_db)" where
  "authorize_each account region i [] added t = Inr (rev added, t)"
| "authorize_each account region i (x # xs) added t =
     (case rule_ordinals account (x\<lparr>ru_group := i\<rparr>) (ec2_rules t) of (perm, src, held) \<Rightarrow>
        let x' = x\<lparr>ru_group := i, ru_perm_ord := perm, ru_src_ord := src\<rparr>
        in if held then authorize_each account region i xs added t
           else res_bind (insert_rule account region x' t) (\<lambda>t'. authorize_each account region i xs (x' # added) t'))"

definition authorize_security_group_rules ::
  "string \<Rightarrow> string \<Rightarrow> string \<Rightarrow> ec2_rule list \<Rightarrow> db \<Rightarrow> go_error + (ec2_rule list \<times> db)" where
  "authorize_security_group_rules account region i xs d =
     map_sum id (\<lambda>(added, t). (added, d\<lparr>ec2_tbls := t\<rparr>))
       (res_bind (security_group_region account region i (ec2_tbls d))
         (\<lambda>reg. authorize_each account reg i xs [] (ec2_tbls d)))"

definition revoke_rule_by_id :: "string \<Rightarrow> ec2_rule \<Rightarrow> ec2_rule owned \<Rightarrow> bool" where
  "revoke_rule_by_id account x =
     owned_where account (\<lambda>r. ru_group r = ru_group x \<and> ru_egress r = ru_egress x \<and> ru_id r = ru_id x)"

text \<open>The rules deleted by one of a revoke's: the trigger drops their tags when the transaction commits.\<close>

fun revoke_each :: "string \<Rightarrow> string \<Rightarrow> ec2_rule list \<Rightarrow> ec2_rule owned list \<Rightarrow> ec2_error + ec2_rule owned list" where
  "revoke_each account i [] t = Inr t"
| "revoke_each account i (x # xs) t =
     (let x' = x\<lparr>ru_group := i\<rparr>
      in if ru_id x \<noteq> [] then
           (if affected (revoke_rule_by_id account x') t = 0 then Inl (Rule_not_found (ru_id x))
            else revoke_each account i xs (sql_delete (revoke_rule_by_id account x') t))
         else revoke_each account i xs (sql_delete (\<lambda>r. rule_match account x' r \<and> rule_source_match x' r) t))"

definition gone_rules :: "string \<Rightarrow> ec2_rule owned list \<Rightarrow> ec2_rule owned list \<Rightarrow> string list" where
  "gone_rules account old new = map (\<lambda>r. ru_id (ow_data r)) (filter (\<lambda>r. ow_account r = account \<and> r \<notin> set new) old)"

definition revoke_security_group_rules ::
  "string \<Rightarrow> string \<Rightarrow> string \<Rightarrow> ec2_rule list \<Rightarrow> db \<Rightarrow> ec2_error option \<times> db" where
  "revoke_security_group_rules account region i xs d =
     (let t = ec2_tbls d
      in case security_group_region account region i t of
        Inl e \<Rightarrow> (Some (Ec2_plain e), d)
      | Inr _ \<Rightarrow> (case revoke_each account i xs (ec2_rules t) of
            Inl e \<Rightarrow> (Some e, d)
          | Inr rules \<Rightarrow> (None, drop_ec2_tags account (gone_rules account (ec2_rules t) rules) (d\<lparr>ec2_tbls := t\<lparr>ec2_rules := rules\<rparr>\<rparr>))))"

section \<open>Availability zones\<close>

definition put_availability_zone :: "string \<Rightarrow> ec2_zone \<Rightarrow> db \<Rightarrow> db" where
  "put_availability_zone account z d = (let t = ec2_tbls d in
     d\<lparr>ec2_tbls := t\<lparr>ec2_zones := sql_replace zone_pk \<lparr>ow_account = account, ow_data = z\<rparr> (ec2_zones t)\<rparr>\<rparr>)"

definition list_availability_zones :: "string \<Rightarrow> string \<Rightarrow> db \<Rightarrow> ec2_zone list" where
  "list_availability_zones account region d = sort_key az_name
     (map ow_data (filter (owned_where account (\<lambda>z. az_region z = region)) (ec2_zones (ec2_tbls d))))"

end
