(* ===== verification/Ec2Compute.thy ===== *)
theory Ec2Compute
  imports Ec2Groups IamRepo
begin

text \<open>
  EC2 compute in the repository (repository/ec2_compute.go, repository/ec2_volumes.go) and the Elastic IPs of
  repository/ec2.go, which write network interfaces: instances with their primary interface, the private
  and public addresses they get, the state machine of SetInstanceState, volumes, key pairs and images.
\<close>

section \<open>Addresses\<close>

text \<open>Go's remainder takes the sign of the dividend.\<close>

definition go_rem :: "int \<Rightarrow> int \<Rightarrow> int" where
  "go_rem a b = (if a < 0 then - ((- a) mod b) else a mod b)"

text \<open>freeIP walks the /24 of the wanted address, from it up and around.\<close>

definition ip_step :: "string \<Rightarrow> int \<Rightarrow> nat \<Rightarrow> string" where
  "ip_step net start step = net @ show_int (go_rem (wrap64 (start + int step)) 256)"

definition free_ip :: "string \<Rightarrow> string list \<Rightarrow> string result" where
  "free_ip want held =
     (let net = take (length want - length (after_last (CHR ''.'') want)) want
      in case (if CHR ''.'' \<in> set want then parse_int (after_last (CHR ''.'') want) else None) of
        None \<Rightarrow> Inl (ErrOther (''public IP '' @ go_quote want @ '' is not IPv4''))
      | Some start \<Rightarrow> (case find (\<lambda>ip. ip \<notin> set held) (map (ip_step net start) [0..<256]) of
            Some ip \<Rightarrow> Inr ip
          | None \<Rightarrow> Inl (ErrWrap ErrConflict (''every address in '' @ net @ ''0/24 is allocated: '' @ error_text ErrConflict))))"

text \<open>
  privateIP walks the usable addresses of the subnet: AWS reserves the first four and the last. Past
  the family's last address Next has no IPv4 address, which no prefix contains.
\<close>

function first_free :: "string list \<Rightarrow> string \<Rightarrow> nat \<Rightarrow> nat \<Rightarrow> string option" where
  "first_free used want hi a =
     (if hi < Suc a then None
      else if show_v4 a \<notin> set used \<and> (want = [] \<or> want = show_v4 a) then Some (show_v4 a)
      else first_free used want hi (Suc a))"
  by pat_completeness auto

termination first_free
  by (relation "measure (\<lambda>(used, want, hi, a). Suc hi - a)") auto

declare first_free.simps [simp del]

definition private_ip :: "string \<Rightarrow> string \<Rightarrow> string list \<Rightarrow> string result" where
  "private_ip cidr want used =
     (case Option.bind (parse_prefix cidr) (\<lambda>p. if addr_is4 (px_addr p) then Some p else None) of
        None \<Rightarrow> Inl (ErrWrap ErrConflict (''subnet cidr '' @ go_quote cidr @ '' is not an IPv4 prefix: '' @ error_text ErrConflict))
      | Some p \<Rightarrow> (case first_free used want (px_last p) (px_first p + 4) of
            Some ip \<Rightarrow> Inr ip
          | None \<Rightarrow> Inl (ErrWrap ErrConflict
              (if want \<noteq> [] then ''private IP '' @ go_quote want @ '' is not a free, usable address in '' @ cidr @ '': '' @ error_text ErrConflict
               else ''InsufficientFreeAddressesInSubnet: no free address in '' @ cidr @ '': '' @ error_text ErrConflict))))"

text \<open>subnetPrivateIPs: each interface's primary address and every address a loaded one names.\<close>

definition subnet_private_ips :: "string \<Rightarrow> string \<Rightarrow> ec2_db \<Rightarrow> string list" where
  "subnet_private_ips account subnet t =
     (let enis = filter (owned_where account (\<lambda>x. ni_subnet x = subnet)) (ec2_enis t)
      in map (\<lambda>r. ni_private_ip (ow_data r)) enis @ concat (map (\<lambda>r. map pa_address (ni_addresses (ow_data r))) enis))"

definition held_public_ips :: "string \<Rightarrow> ec2_eni \<Rightarrow> ec2_db \<Rightarrow> string list" where
  "held_public_ips account x t =
     map (\<lambda>r. ni_public_ip (ow_data r))
       (filter (owned_where account (\<lambda>y. ni_region y = ni_region x \<and> ni_id y \<noteq> ni_id x)) (ec2_enis t))"

definition claim_public_ip :: "string \<Rightarrow> ec2_eni \<Rightarrow> ec2_db \<Rightarrow> ec2_eni result" where
  "claim_public_ip account x t =
     (if ni_public_ip x = [] then Inr x
      else map_sum id (\<lambda>ip. x\<lparr>ni_public_ip := ip\<rparr>) (free_ip (ni_public_ip x) (held_public_ips account x t)))"

section \<open>Network interfaces\<close>

definition eni_ip_key :: "ec2_eni owned \<Rightarrow> string \<times> string \<times> string" where
  "eni_ip_key = owned_pk (\<lambda>x. (ni_subnet x, ni_private_ip x))"

definition insert_eni :: "string \<Rightarrow> ec2_eni \<Rightarrow> ec2_db \<Rightarrow> ec2_db result" where
  "insert_eni account x t = mapped_insert (map_sum id (\<lambda>rows. t\<lparr>ec2_enis := rows\<rparr>)
     (insert_checked
        (has_key eni_pk (account, ni_id x) (ec2_enis t) \<or> has_key eni_ip_key (account, ni_subnet x, ni_private_ip x) (ec2_enis t))
        ((ni_instance x = [] \<or> has_key instance_pk (account, ni_instance x) (ec2_instances t)) \<and>
         has_key subnet_pk (account, ni_subnet x) (ec2_subnets t))
        \<lparr>ow_account = account, ow_data = x\<rparr> (ec2_enis t)))"

definition list_network_interfaces :: "string \<Rightarrow> string \<Rightarrow> db \<Rightarrow> ec2_eni list" where
  "list_network_interfaces account region d = list_scoped ni_region ni_id account region (ec2_enis (ec2_tbls d))"

definition get_network_interface :: "string \<Rightarrow> string \<Rightarrow> string \<Rightarrow> db \<Rightarrow> ec2_eni result" where
  "get_network_interface account region i d =
     (case find (owned_where account (\<lambda>x. ni_region x = region \<and> ni_id x = i)) (ec2_enis (ec2_tbls d)) of
        None \<Rightarrow> Inl ErrNotFound
      | Some r \<Rightarrow> Inr (ow_data r))"

definition update_network_interface :: "string \<Rightarrow> string \<Rightarrow> string \<Rightarrow> (ec2_eni \<Rightarrow> ec2_eni) \<Rightarrow> db \<Rightarrow> go_error option \<times> db" where
  "update_network_interface account region i change d = (case get_network_interface account region i d of
       Inl e \<Rightarrow> (Some e, d)
     | Inr x \<Rightarrow> (let t = ec2_tbls d in
         (None, d\<lparr>ec2_tbls := t\<lparr>ec2_enis := sql_update (owned_where account (\<lambda>y. ni_region y = region \<and> ni_id y = i))
            (put_data (\<lambda>_. change x)) (ec2_enis t)\<rparr>\<rparr>)))"

definition update_eni_tx :: "string \<Rightarrow> ec2_eni \<Rightarrow> ec2_db \<Rightarrow> ec2_db result" where
  "update_eni_tx account x t =
     (let p = (\<lambda>r. eni_pk r = (account, ni_id x))
      in if affected p (ec2_enis t) = 0 then Inl ErrNotFound
         else Inr (t\<lparr>ec2_enis := sql_update p (put_data (\<lambda>_. x)) (ec2_enis t)\<rparr>))"

section \<open>Elastic IPs\<close>

definition create_eip :: "string \<Rightarrow> ec2_eip \<Rightarrow> db \<Rightarrow> go_error + (ec2_eip \<times> db)" where
  "create_eip account e d =
     (let t = ec2_tbls d;
          held = map (\<lambda>r. ei_public_ip (ow_data r)) (filter (owned_where account (\<lambda>x. ei_region x = ei_region e)) (ec2_eips t))
      in res_bind (free_ip (ei_public_ip e) held) (\<lambda>ip. let e' = e\<lparr>ei_public_ip := ip\<rparr>
         in map_sum id (\<lambda>t'. (e', d\<lparr>ec2_tbls := t'\<rparr>)) (insert_eip account e' t)))"

definition get_eip :: "string \<Rightarrow> string \<Rightarrow> string \<Rightarrow> db \<Rightarrow> ec2_eip result" where
  "get_eip account region i d = get_scoped ei_region ei_id account region i (ec2_eips (ec2_tbls d))"

definition list_eips :: "string \<Rightarrow> string \<Rightarrow> db \<Rightarrow> ec2_eip list" where
  "list_eips account region d = list_scoped ei_region ei_id account region (ec2_eips (ec2_tbls d))"

definition associate_eip :: "string \<Rightarrow> ec2_eip \<Rightarrow> ec2_eni \<Rightarrow> db \<Rightarrow> go_error option \<times> db" where
  "associate_eip account e x d =
     (let t = ec2_tbls d;
          taken = (\<exists>r\<in>set (ec2_eips t). owned_where account (\<lambda>y. ei_eni y \<noteq> [] \<and> ei_eni y = ei_eni e) r);
          p = (\<lambda>r. eip_pk r = (account, ei_id e) \<and> ei_assoc (ow_data r) = [] \<and> \<not> taken)
      in if affected p (ec2_eips t) = 0
         then (Some (if has_key eip_pk (account, ei_id e) (ec2_eips t) then ErrConflict else ErrNotFound), d)
         else commit (update_eni_tx account x (t\<lparr>ec2_eips := sql_update p (put_data (\<lambda>_. e)) (ec2_eips t)\<rparr>)) d)"

definition disassociate_eip :: "string \<Rightarrow> ec2_eip \<Rightarrow> ec2_eni option \<Rightarrow> db \<Rightarrow> go_error option \<times> db" where
  "disassociate_eip account e x d =
     (let t = ec2_tbls d; p = (\<lambda>r. eip_pk r = (account, ei_id e));
          t' = t\<lparr>ec2_eips := sql_update p (put_data (\<lambda>_. e)) (ec2_eips t)\<rparr>
      in if affected p (ec2_eips t) = 0 then (Some ErrNotFound, d)
         else case x of
           None \<Rightarrow> commit (Inr t') d
         | Some eni \<Rightarrow> commit (res_bind (claim_public_ip account eni t') (\<lambda>eni'. update_eni_tx account eni' t')) d)"

definition delete_eip :: "string \<Rightarrow> string \<Rightarrow> string \<Rightarrow> db \<Rightarrow> go_error option \<times> db" where
  "delete_eip account region i d =
     (let t = ec2_tbls d; p = (\<lambda>r. in_scope ei_region account region r \<and> ei_id (ow_data r) = i \<and> ei_assoc (ow_data r) = [])
      in if affected p (ec2_eips t) > 0
         then (None, drop_ec2_tags account [i] (d\<lparr>ec2_tbls := t\<lparr>ec2_eips := sql_delete p (ec2_eips t)\<rparr>\<rparr>))
         else case get_eip account region i d of Inl e \<Rightarrow> (Some e, d) | Inr _ \<Rightarrow> (Some ErrInUse, d))"

section \<open>Instances\<close>

definition insert_instance :: "string \<Rightarrow> ec2_instance \<Rightarrow> ec2_db \<Rightarrow> ec2_db result" where
  "insert_instance account x t = mapped_insert (map_sum id (\<lambda>rows. t\<lparr>ec2_instances := rows\<rparr>)
     (insert_checked (has_key instance_pk (account, in_id x) (ec2_instances t))
        (has_key subnet_pk (account, in_subnet x) (ec2_subnets t)) \<lparr>ow_account = account, ow_data = x\<rparr> (ec2_instances t)))"

definition get_ami :: "string \<Rightarrow> string \<Rightarrow> string \<Rightarrow> db \<Rightarrow> ec2_ami result" where
  "get_ami account region i d = (case find (\<lambda>r. ami_pk r = (account, region, i)) (ec2_amis (ec2_tbls d)) of
       None \<Rightarrow> Inl ErrNotFound
     | Some r \<Rightarrow> Inr (ow_data r))"

text \<open>The rows a launch names: its subnet, image, instance profile and groups, in the order they are read.\<close>

fun groups_exist :: "string \<Rightarrow> string \<Rightarrow> string list \<Rightarrow> db \<Rightarrow> unit result" where
  "groups_exist account region [] d = Inr ()"
| "groups_exist account region (g # gs) d =
     res_bind (get_security_group account region g d) (\<lambda>_. groups_exist account region gs d)"

definition launch_parents :: "string \<Rightarrow> ec2_instance \<Rightarrow> ec2_eni \<Rightarrow> db \<Rightarrow> ec2_subnet result" where
  "launch_parents account x eni d =
     res_bind (get_subnet account (in_region x) (in_subnet x) d) (\<lambda>s.
     res_bind (if in_ami x = [] then Inr () else map_sum id (\<lambda>_. ()) (get_ami account (in_region x) (in_ami x) d)) (\<lambda>_.
     res_bind (if in_profile_name x = [] then Inr () else map_sum id (\<lambda>_. ()) (get_instance_profile account (in_profile_name x) d)) (\<lambda>_.
     res_bind (groups_exist account (in_region x) (ni_groups eni) d) (\<lambda>_. Inr s))))"

text \<open>The instance and the interface as stored are the answer, as the caller reads both back.\<close>

definition fill_instance :: "ec2_instance \<Rightarrow> ec2_instance" where
  "fill_instance x = (if in_state x = [] then x\<lparr>in_state := ''running''\<rparr> else x)"

definition fill_eni :: "ec2_instance \<Rightarrow> ec2_subnet \<Rightarrow> ec2_eni \<Rightarrow> ec2_eni" where
  "fill_eni x s eni = eni\<lparr>ni_instance := in_id x, ni_subnet := sn_id s, ni_vpc := sn_vpc s, ni_region := in_region x\<rparr>"

definition store_launch :: "string \<Rightarrow> ec2_instance \<Rightarrow> ec2_subnet \<Rightarrow> ec2_eni \<Rightarrow> ec2_db \<Rightarrow> go_error + (ec2_eni \<times> ec2_db)" where
  "store_launch account x s eni t =
     res_bind (insert_instance account x t) (\<lambda>t1.
     res_bind (private_ip (sn_cidr s) (ni_private_ip eni) (subnet_private_ips account (sn_id s) t1)) (\<lambda>ip.
     res_bind (claim_public_ip account (eni\<lparr>ni_private_ip := ip\<rparr>) t1) (\<lambda>eni'.
     res_bind (insert_eni account eni' t1) (\<lambda>t2. Inr (eni', t2)))))"

definition create_instance ::
  "string \<Rightarrow> ec2_instance \<Rightarrow> ec2_eni \<Rightarrow> db \<Rightarrow> go_error + (ec2_instance \<times> ec2_eni \<times> db)" where
  "create_instance account x eni d =
     res_bind (launch_parents account x eni d) (\<lambda>s.
     res_bind (store_launch account (fill_instance x) s (fill_eni x s eni) (ec2_tbls d))
       (\<lambda>(eni', t). Inr (fill_instance x, eni', d\<lparr>ec2_tbls := t\<rparr>)))"

definition get_instance :: "string \<Rightarrow> string \<Rightarrow> string \<Rightarrow> db \<Rightarrow> ec2_instance result" where
  "get_instance account region i d = get_scoped in_region in_id account region i (ec2_instances (ec2_tbls d))"

definition get_instance_tx :: "string \<Rightarrow> string \<Rightarrow> string \<Rightarrow> ec2_db \<Rightarrow> ec2_instance result" where
  "get_instance_tx account region i t =
     (case find (owned_where account (\<lambda>x. in_region x = region \<and> in_id x = i)) (ec2_instances t) of
        None \<Rightarrow> Inl ErrNotFound
      | Some r \<Rightarrow> Inr (ow_data r))"

definition list_instances :: "string \<Rightarrow> string \<Rightarrow> db \<Rightarrow> ec2_instance list" where
  "list_instances account region d = list_scoped in_region in_id account region (ec2_instances (ec2_tbls d))"

definition put_instance :: "string \<Rightarrow> string \<Rightarrow> ec2_instance \<Rightarrow> ec2_db \<Rightarrow> ec2_db" where
  "put_instance account i x t =
     t\<lparr>ec2_instances := sql_update (\<lambda>r. instance_pk r = (account, i)) (put_data (\<lambda>_. x)) (ec2_instances t)\<rparr>"

definition of_instance :: "string \<Rightarrow> string \<Rightarrow> ec2_eni owned \<Rightarrow> bool" where
  "of_instance account i = owned_where account (\<lambda>n. ni_instance n \<noteq> [] \<and> ni_instance n = i)"

definition update_instance_attributes ::
  "string \<Rightarrow> string \<Rightarrow> string \<Rightarrow> (ec2_instance \<Rightarrow> ec2_instance) option \<Rightarrow> bool option \<Rightarrow> db \<Rightarrow> go_error option \<times> db" where
  "update_instance_attributes account region i change source_dest d =
     commit (res_bind (get_instance_tx account region i (ec2_tbls d)) (\<lambda>x.
       if in_state x = ''terminated''
       then Inl (ErrWrap ErrTerminalState (''instance '' @ i @ '' is terminated: '' @ error_text ErrTerminalState))
       else let t1 = put_instance account i (case change of None \<Rightarrow> x | Some f \<Rightarrow> f x) (ec2_tbls d)
            in case source_dest of
              None \<Rightarrow> Inr t1
            | Some b \<Rightarrow>
                (if affected (of_instance account i) (ec2_enis t1) = 0
                 then Inl (ErrWrap ErrConflict (''instance '' @ i @ '' has no network interface: '' @ error_text ErrConflict))
                 else Inr (t1\<lparr>ec2_enis := sql_update (of_instance account i) (put_data (\<lambda>n. n\<lparr>ni_source_dest := b\<rparr>)) (ec2_enis t1)\<rparr>)))) d"

section \<open>Volumes\<close>

definition list_volumes :: "string \<Rightarrow> string \<Rightarrow> db \<Rightarrow> ec2_volume list" where
  "list_volumes account region d = list_scoped vo_region vo_id account region (ec2_volumes (ec2_tbls d))"

definition get_volume :: "string \<Rightarrow> string \<Rightarrow> string \<Rightarrow> db \<Rightarrow> ec2_volume result" where
  "get_volume account region i d =
     (case find (owned_where account (\<lambda>v. vo_region v = region \<and> vo_id v = i)) (ec2_volumes (ec2_tbls d)) of
        None \<Rightarrow> Inl ErrNotFound
      | Some r \<Rightarrow> Inr (ow_data r))"

definition insert_volume :: "string \<Rightarrow> ec2_volume \<Rightarrow> ec2_db \<Rightarrow> ec2_db result" where
  "insert_volume account v t = mapped_insert (map_sum id (\<lambda>rows. t\<lparr>ec2_volumes := rows\<rparr>)
     (insert_checked (has_key volume_pk (account, vo_id v) (ec2_volumes t)) True \<lparr>ow_account = account, ow_data = v\<rparr> (ec2_volumes t)))"

definition volume_attached_to :: "string \<Rightarrow> ec2_volume \<Rightarrow> bool" where
  "volume_attached_to i v \<longleftrightarrow> (\<exists>a\<in>set (vo_attachments v). va_instance a = i)"

text \<open>A volume that goes with the instance, and what a volume that stays becomes.\<close>

definition volume_goes :: "ec2_volume \<Rightarrow> bool" where
  "volume_goes v \<longleftrightarrow> length (vo_attachments v) = 1 \<and> va_delete (hd (vo_attachments v)) = ''true''"

definition detach_volume :: "string \<Rightarrow> ec2_volume \<Rightarrow> ec2_volume" where
  "detach_volume i v =
     (let rest = filter (\<lambda>a. va_instance a \<noteq> i) (vo_attachments v)
      in v\<lparr>vo_attachments := rest, vo_state := (if rest = [] then ''available'' else vo_state v)\<rparr>)"

definition terminate_volume :: "string \<Rightarrow> string \<Rightarrow> ec2_volume \<Rightarrow> ec2_db \<Rightarrow> ec2_db" where
  "terminate_volume account i v t =
     (let p = (\<lambda>r. volume_pk r = (account, vo_id v))
      in if volume_goes v then t\<lparr>ec2_volumes := sql_delete p (ec2_volumes t)\<rparr>
         else t\<lparr>ec2_volumes := sql_update p (put_data (\<lambda>_. detach_volume i v)) (ec2_volumes t)\<rparr>)"

definition instance_volumes :: "string \<Rightarrow> string \<Rightarrow> ec2_db \<Rightarrow> ec2_volume list" where
  "instance_volumes account i t = map ow_data (filter (owned_where account (volume_attached_to i)) (ec2_volumes t))"

definition terminate_volumes :: "string \<Rightarrow> string \<Rightarrow> ec2_db \<Rightarrow> ec2_db" where
  "terminate_volumes account i t = fold (terminate_volume account i) (instance_volumes account i t) t"

section \<open>The state of instances\<close>

text \<open>
  An interface attached with deleteOnTermination false stays, detached and available, and its Elastic IP's
  association with it; the instance's other interfaces go, and their addresses' associations with them.
\<close>

definition detach_eni :: "ec2_eni \<Rightarrow> ec2_eni" where
  "detach_eni n = n\<lparr>ni_instance := [], ni_attachment := [], ni_keep := False, ni_status := ''available''\<rparr>"

definition keep_kept_enis :: "string \<Rightarrow> string \<Rightarrow> ec2_db \<Rightarrow> ec2_db" where
  "keep_kept_enis account i t = t\<lparr>ec2_enis :=
     sql_update (\<lambda>r. of_instance account i r \<and> ni_keep (ow_data r)) (put_data detach_eni) (ec2_enis t)\<rparr>"

definition drop_instance_enis :: "string \<Rightarrow> string \<Rightarrow> ec2_db \<Rightarrow> ec2_db" where
  "drop_instance_enis account i t = t\<lparr>ec2_enis := sql_delete (of_instance account i) (ec2_enis t)\<rparr>"

definition eip_of_instance :: "string \<Rightarrow> string \<Rightarrow> ec2_eip owned \<Rightarrow> bool" where
  "eip_of_instance account i = owned_where account (\<lambda>e. ei_instance e \<noteq> [] \<and> ei_instance e = i)"

definition eip_eni_stored :: "ec2_db \<Rightarrow> ec2_eip owned \<Rightarrow> bool" where
  "eip_eni_stored t r \<longleftrightarrow> ei_eni (ow_data r) \<noteq> [] \<and> has_key eni_pk (ow_account r, ei_eni (ow_data r)) (ec2_enis t)"

definition eip_cleared :: "ec2_eip \<Rightarrow> ec2_eip" where
  "eip_cleared e = e\<lparr>ei_eni := [], ei_instance := [], ei_assoc := [], ei_private_ip := []\<rparr>"

definition release_eips :: "string \<Rightarrow> string \<Rightarrow> ec2_db \<Rightarrow> ec2_db" where
  "release_eips account i t = t\<lparr>ec2_eips :=
     sql_update (eip_of_instance account i) (put_data eip_cleared)
       (sql_update (\<lambda>r. eip_of_instance account i r \<and> eip_eni_stored t r) (put_data (\<lambda>e. e\<lparr>ei_instance := []\<rparr>)) (ec2_eips t))\<rparr>"

definition terminate_tx :: "string \<Rightarrow> string \<Rightarrow> ec2_db \<Rightarrow> ec2_db" where
  "terminate_tx account i t =
     release_eips account i (drop_instance_enis account i (keep_kept_enis account i (terminate_volumes account i t)))"

definition set_instance_state_tx :: "string \<Rightarrow> string \<Rightarrow> string \<Rightarrow> string \<Rightarrow> ec2_db \<Rightarrow> ec2_error + (string \<times> ec2_db)" where
  "set_instance_state_tx account region i state t =
     (case get_instance_tx account region i t of
        Inl e \<Rightarrow> Inl (Ec2_plain e)
      | Inr x \<Rightarrow>
          (let was = in_state x
           in if was = ''terminated'' \<and> state = ''terminated'' then Inr (was, t)
              else if was = ''terminated'' then Inl (Ec2_plain ErrConflict)
              else if state = ''terminated'' \<and> in_disable_termination x then Inl Err_termination_protected
              else let t1 = put_instance account i (x\<lparr>in_state := state\<rparr>) t
                   in Inr (was, if state = ''terminated'' then terminate_tx account i t1 else t1)))"

fun set_states :: "string \<Rightarrow> string \<Rightarrow> string \<Rightarrow> string list \<Rightarrow> ec2_db \<Rightarrow> ec2_error + (string list \<times> ec2_db)" where
  "set_states account region state [] t = Inr ([], t)"
| "set_states account region state (i # is) t =
     (case set_instance_state_tx account region i state t of
        Inl e \<Rightarrow> Inl (Instance_error i e)
      | Inr (was, t1) \<Rightarrow> map_sum id (\<lambda>(ws, t2). (was # ws, t2)) (set_states account region state is t1))"

text \<open>The rows of interfaces and volumes that go take their tags along, by their AFTER DELETE triggers.\<close>

definition gone_ids :: "('a \<Rightarrow> string) \<Rightarrow> string \<Rightarrow> 'a owned list \<Rightarrow> 'a owned list \<Rightarrow> string list" where
  "gone_ids key account old new =
     filter (\<lambda>i. \<not> has_key (owned_pk key) (account, i) new) (owned_ids key account (\<lambda>_. True) old)"

definition set_instance_state ::
  "string \<Rightarrow> string \<Rightarrow> string \<Rightarrow> string list \<Rightarrow> db \<Rightarrow> ec2_error + (string list \<times> db)" where
  "set_instance_state account region state is d =
     (let t = ec2_tbls d
      in map_sum id (\<lambda>(ws, t'). (ws, drop_ec2_tags account
             (gone_ids ni_id account (ec2_enis t) (ec2_enis t') @ gone_ids vo_id account (ec2_volumes t) (ec2_volumes t'))
             (d\<lparr>ec2_tbls := t'\<rparr>)))
           (set_states account region state is t))"

definition delete_instance :: "string \<Rightarrow> string \<Rightarrow> string \<Rightarrow> db \<Rightarrow> go_error option \<times> db" where
  "delete_instance account region i d =
     (let t = ec2_tbls d; p = (\<lambda>r. in_scope in_region account region r \<and> in_id (ow_data r) = i)
      in if affected p (ec2_instances t) = 0 then (Some ErrNotFound, d)
         else (None, drop_ec2_tags account (i # owned_ids ni_id account (\<lambda>n. ni_instance n \<noteq> [] \<and> ni_instance n = i) (ec2_enis t))
                (d\<lparr>ec2_tbls := drop_instance_enis account i (t\<lparr>ec2_instances := sql_delete p (ec2_instances t)\<rparr>)\<rparr>)))"

section \<open>Key pairs\<close>

definition create_key_pair :: "string \<Rightarrow> ec2_key_pair \<Rightarrow> db \<Rightarrow> go_error option \<times> db" where
  "create_key_pair account k d = (let t = ec2_tbls d in
     commit (mapped_insert (map_sum id (\<lambda>rows. t\<lparr>ec2_key_pairs := rows\<rparr>)
       (insert_checked (has_key key_pair_pk (account, kp_region k, kp_name k) (ec2_key_pairs t)) True
          \<lparr>ow_account = account, ow_data = k\<rparr> (ec2_key_pairs t)))) d)"

definition get_key_pair :: "string \<Rightarrow> string \<Rightarrow> string \<Rightarrow> db \<Rightarrow> ec2_key_pair result" where
  "get_key_pair account region name d = (case find (\<lambda>r. key_pair_pk r = (account, region, name)) (ec2_key_pairs (ec2_tbls d)) of
       None \<Rightarrow> Inl ErrNotFound
     | Some r \<Rightarrow> Inr (ow_data r))"

text \<open>A row stored before key pairs had an id has none, and no id is empty.\<close>

definition get_key_pair_by_id :: "string \<Rightarrow> string \<Rightarrow> string \<Rightarrow> db \<Rightarrow> ec2_key_pair result" where
  "get_key_pair_by_id account region i d =
     (case find (owned_where account (\<lambda>k. kp_region k = region \<and> kp_id k \<noteq> [] \<and> kp_id k = i)) (ec2_key_pairs (ec2_tbls d)) of
        None \<Rightarrow> Inl ErrNotFound
      | Some r \<Rightarrow> Inr (ow_data r))"

definition list_key_pairs :: "string \<Rightarrow> string \<Rightarrow> db \<Rightarrow> ec2_key_pair list" where
  "list_key_pairs account region d = sort_key (\<lambda>k. (kp_region k, kp_name k))
     (map ow_data (filter (in_scope kp_region account region) (ec2_key_pairs (ec2_tbls d))))"

definition delete_key_pair :: "string \<Rightarrow> string \<Rightarrow> string \<Rightarrow> db \<Rightarrow> go_error option \<times> db" where
  "delete_key_pair account region name d =
     (let t = ec2_tbls d; p = (\<lambda>r. key_pair_pk r = (account, region, name))
      in if affected p (ec2_key_pairs t) = 0 then (Some ErrNotFound, d)
         else (None, drop_ec2_tags account (map (\<lambda>r. kp_id (ow_data r)) (filter (\<lambda>r. p r \<and> kp_id (ow_data r) \<noteq> []) (ec2_key_pairs t)))
                (d\<lparr>ec2_tbls := t\<lparr>ec2_key_pairs := sql_delete p (ec2_key_pairs t)\<rparr>\<rparr>)))"

section \<open>Images\<close>

definition seed_ami :: "string \<Rightarrow> ec2_ami \<Rightarrow> db \<Rightarrow> db" where
  "seed_ami account a d =
     (let t = ec2_tbls d
      in d\<lparr>ec2_tbls := t\<lparr>ec2_amis := sql_upsert ami_pk (\<lambda>old new. old) \<lparr>ow_account = account, ow_data = a\<rparr> (ec2_amis t)\<rparr>\<rparr>)"

definition list_amis :: "string \<Rightarrow> string \<Rightarrow> db \<Rightarrow> ec2_ami list" where
  "list_amis account region d = sort_key am_id
     (map ow_data (filter (owned_where account (\<lambda>a. am_region a = region)) (ec2_amis (ec2_tbls d))))"

end
