(* ===== verification/Ec2Wf.thy ===== *)
theory Ec2Wf
  imports Ec2Compute
begin

text \<open>
  The invariant of EC2's tables (primary keys, unique indexes, foreign keys, and the two references the schema
  leaves to the code: a gateway's VPC and an association's) and that every statement of Ec2Net, Ec2Groups
  and Ec2Compute keeps it.
\<close>

section \<open>References between tables\<close>

definition refs :: "('a \<Rightarrow> 'k) \<Rightarrow> 'a list \<Rightarrow> ('b \<Rightarrow> 'k) \<Rightarrow> 'b list \<Rightarrow> bool" where
  "refs f xs key ys \<longleftrightarrow> f ` set xs \<subseteq> key ` set ys"

named_theorems refs_intros \<open>how statements keep a reference\<close>

lemma refs_Nil [simp]: "refs f [] key ys"
  by (simp add: refs_def)

lemma refsD: "refs f xs key ys \<Longrightarrow> x \<in> set xs \<Longrightarrow> \<exists>y\<in>set ys. key y = f x"
  by (force simp: refs_def image_iff)

lemma refs_insert_parent: "refs f xs key ys \<Longrightarrow> refs f xs key (ys @ [y])"
  by (auto simp: refs_def)

lemma refs_snoc: "refs f (xs @ [x]) key ys \<longleftrightarrow> refs f xs key ys \<and> has_key key (f x) ys"
  by (auto simp: refs_def has_key_def)

lemma refs_filter_snoc: "refs f (filter p (xs @ [x])) key ys \<longleftrightarrow> refs f (filter p xs) key ys \<and> (p x \<longrightarrow> has_key key (f x) ys)"
  by (auto simp: refs_def has_key_def)

lemma refs_update_child: "refs f xs key ys \<Longrightarrow> (\<And>x. p x \<Longrightarrow> f (g x) = f x) \<Longrightarrow> refs f (sql_update p g xs) key ys"
  by (auto simp: refs_def sql_update_def)

lemma refs_map_key: "map key ys' = map key ys \<Longrightarrow> refs f xs key ys' = refs f xs key ys"
  unfolding refs_def by (metis list.set_map)

lemma refs_update_parent: "refs f xs key ys \<Longrightarrow> (\<And>y. p y \<Longrightarrow> key (g y) = key y) \<Longrightarrow> refs f xs key (sql_update p g ys)"
  by (subst refs_map_key [OF map_key_update])

lemma refs_sub: "refs f xs key ys \<Longrightarrow> set xs' \<subseteq> set xs \<Longrightarrow> refs f xs' key ys"
  by (auto simp: refs_def)

lemma refs_delete_child: "refs f xs key ys \<Longrightarrow> refs f (sql_delete p xs) key ys"
  by (auto simp: refs_def)

lemma refs_delete:
  assumes "refs f xs key ys" and "\<And>x y. x \<in> set xs \<Longrightarrow> y \<in> set ys \<Longrightarrow> key y = f x \<Longrightarrow> p y \<Longrightarrow> q x"
  shows "refs f (sql_delete q xs) key (sql_delete p ys)"
  unfolding refs_def
proof
  fix k assume "k \<in> f ` set (sql_delete q xs)"
  then obtain x where x: "x \<in> set xs" "\<not> q x" "k = f x" by auto
  obtain y where "y \<in> set ys" "key y = f x" using refsD [OF assms(1) x(1)] by blast
  with x assms(2) [of x y] show "k \<in> key ` set (sql_delete p ys)" by force
qed

lemma refs_delete_parent:
  assumes "refs f xs key ys" and "\<And>x y. x \<in> set xs \<Longrightarrow> y \<in> set ys \<Longrightarrow> key y = f x \<Longrightarrow> \<not> p y"
  shows "refs f xs key (sql_delete p ys)"
proof -
  have "sql_delete (\<lambda>_. False) xs = xs" by (simp add: sql_delete_def)
  with refs_delete [OF assms(1), of p "\<lambda>_. False"] assms(2) show ?thesis by auto
qed

section \<open>The invariant\<close>

definition eni_has_instance :: "ec2_eni owned \<Rightarrow> bool" where
  "eni_has_instance r \<longleftrightarrow> ni_instance (ow_data r) \<noteq> []"

definition igw_attached :: "ec2_igw owned \<Rightarrow> bool" where
  "igw_attached r \<longleftrightarrow> gw_vpc (ow_data r) \<noteq> []"

definition ec2_unique_ok :: "ec2_db \<Rightarrow> bool" where
  "ec2_unique_ok t \<longleftrightarrow> pk sg_name_key (ec2_sgs t) \<and> pk assoc_subnet_key (filter has_subnet (ec2_assocs t)) \<and>
     pk assoc_main_key (filter is_main (ec2_assocs t)) \<and> pk rule_place (ec2_rules t) \<and> pk eni_ip_key (ec2_enis t)"

definition vpc_refs_ok :: "ec2_db \<Rightarrow> bool" where
  "vpc_refs_ok t \<longleftrightarrow>
     refs (owned_pk sn_vpc) (ec2_subnets t) vpc_pk (ec2_vpcs t) \<and>
     refs (owned_pk rt_vpc) (ec2_rtbs t) vpc_pk (ec2_vpcs t) \<and>
     refs (owned_pk sg_vpc) (ec2_sgs t) vpc_pk (ec2_vpcs t) \<and>
     refs (owned_pk gw_vpc) (filter igw_attached (ec2_igws t)) vpc_pk (ec2_vpcs t)"

definition subnet_refs_ok :: "ec2_db \<Rightarrow> bool" where
  "subnet_refs_ok t \<longleftrightarrow>
     refs (owned_pk as_subnet) (filter has_subnet (ec2_assocs t)) subnet_pk (ec2_subnets t) \<and>
     refs (owned_pk in_subnet) (ec2_instances t) subnet_pk (ec2_subnets t) \<and>
     refs (owned_pk ni_subnet) (ec2_enis t) subnet_pk (ec2_subnets t)"

definition table_place :: "ec2_rtb owned \<Rightarrow> string \<times> string \<times> string" where
  "table_place = owned_pk (\<lambda>rt. (rt_id rt, rt_vpc rt))"

definition table_refs_ok :: "ec2_db \<Rightarrow> bool" where
  "table_refs_ok t \<longleftrightarrow>
     refs (owned_pk (\<lambda>a. (as_rtb a, as_vpc a))) (ec2_assocs t) table_place (ec2_rtbs t) \<and>
     refs (owned_pk rx_rtb) (ec2_routes t) rtb_pk (ec2_rtbs t) \<and>
     refs (owned_pk ru_group) (ec2_rules t) sg_pk (ec2_sgs t) \<and>
     refs (owned_pk ni_instance) (filter eni_has_instance (ec2_enis t)) instance_pk (ec2_instances t)"

text \<open>What no key states: the subnets of a VPC do not overlap.\<close>

definition cidrs_apart :: "string \<Rightarrow> string \<Rightarrow> bool" where
  "cidrs_apart c e \<longleftrightarrow> (case (parse_prefix c, parse_prefix e) of (Some p, Some q) \<Rightarrow> \<not> prefix_overlaps p q | _ \<Rightarrow> True)"

definition subnets_apart :: "ec2_subnet owned list \<Rightarrow> bool" where
  "subnets_apart rows \<longleftrightarrow> (\<forall>r\<in>set rows. \<forall>s\<in>set rows. owned_pk sn_vpc r = owned_pk sn_vpc s \<longrightarrow> subnet_pk r \<noteq> subnet_pk s \<longrightarrow>
     cidrs_apart (sn_cidr (ow_data r)) (sn_cidr (ow_data s)))"

definition ec2_wf :: "ec2_db \<Rightarrow> bool" where
  "ec2_wf t \<longleftrightarrow> ec2_keys_ok t \<and> ec2_unique_ok t \<and> vpc_refs_ok t \<and> subnet_refs_ok t \<and> table_refs_ok t \<and>
     subnets_apart (ec2_subnets t)"

lemmas ec2_wf_defs = ec2_wf_def ec2_keys_ok_def ec2_unique_ok_def vpc_refs_ok_def subnet_refs_ok_def table_refs_ok_def

lemma cidrs_apart_sym: "cidrs_apart c e = cidrs_apart e c"
  by (auto simp: cidrs_apart_def prefix_overlaps_sym split: option.splits)

lemma subnets_apart_Nil [simp]: "subnets_apart []"
  by (simp add: subnets_apart_def)

lemma subnets_apart_sub: "subnets_apart t \<Longrightarrow> set t' \<subseteq> set t \<Longrightarrow> subnets_apart t'"
  unfolding subnets_apart_def by blast

lemma subnets_apart_delete: "subnets_apart t \<Longrightarrow> subnets_apart (sql_delete p t)"
  by (rule subnets_apart_sub) auto

lemma subnets_apart_snoc:
  assumes "subnets_apart t"
    and "\<And>r. r \<in> set t \<Longrightarrow> owned_pk sn_vpc r = owned_pk sn_vpc x \<Longrightarrow> cidrs_apart (sn_cidr (ow_data r)) (sn_cidr (ow_data x))"
  shows "subnets_apart (t @ [x])"
  using assms unfolding subnets_apart_def by simp (metis cidrs_apart_sym)

lemma subnets_apart_update:
  assumes "subnets_apart t"
    and "\<And>r. p r \<Longrightarrow> subnet_pk (f r) = subnet_pk r \<and> owned_pk sn_vpc (f r) = owned_pk sn_vpc r \<and> sn_cidr (ow_data (f r)) = sn_cidr (ow_data r)"
  shows "subnets_apart (sql_update p f t)"
proof -
  have "\<exists>r\<in>set t. subnet_pk r = subnet_pk x \<and> owned_pk sn_vpc r = owned_pk sn_vpc x \<and> sn_cidr (ow_data r) = sn_cidr (ow_data x)"
    if "x \<in> set (sql_update p f t)" for x
  proof -
    from that obtain r where "r \<in> set t" "x = (if p r then f r else r)" by (auto simp: sql_update_def)
    with assms(2) [of r] show ?thesis by (auto intro!: bexI [of _ r])
  qed
  then show ?thesis using assms(1) unfolding subnets_apart_def by metis
qed

lemma ec2_wf_empty [simp]: "ec2_wf empty_ec2_db"
  by (simp add: ec2_wf_defs)

text \<open>An INSERT that succeeds.\<close>

lemma insert_checked_Inr:
  "insert_checked clash fk r t = Inr t' \<longleftrightarrow> \<not> clash \<and> fk \<and> t' = t @ [r]"
  by (auto simp: insert_checked_def)

lemma pk_snoc: "pk key (t @ [r]) \<longleftrightarrow> pk key t \<and> \<not> has_key key (key r) t"
  by (auto simp: pk_def has_key_def)

lemma pk_filter_snoc: "pk key (filter p (t @ [r])) \<longleftrightarrow> pk key (filter p t) \<and> (p r \<longrightarrow> \<not> has_key key (key r) (filter p t))"
  by (auto simp: pk_def has_key_def)

lemma pk_filter: "pk key t \<Longrightarrow> pk key (filter p t)"
  by (simp add: pk_def distinct_map_filter)

lemma filter_filter_comm: "filter p (filter q t) = filter q (filter p t)"
  by (simp add: filter_filter conj_commute)

lemma map_sum_Inr: "map_sum g f r = Inr y \<longleftrightarrow> (\<exists>x. r = Inr x \<and> y = f x)"
  by (cases r) auto

lemma mapped_insert_Inr: "mapped_insert r = Inr y \<longleftrightarrow> r = Inr y"
  by (simp add: mapped_insert_def split: sum.split)

lemma raw_insert_Inr: "raw_insert r = Inr y \<longleftrightarrow> r = Inr y"
  by (simp add: raw_insert_def split: sum.split)

lemma res_bind_Inr: "res_bind r f = Inr y \<longleftrightarrow> (\<exists>x. r = Inr x \<and> f x = Inr y)"
  by (simp add: res_bind_def split: sum.split)

lemmas inserted = map_sum_Inr insert_checked_Inr mapped_insert_Inr raw_insert_Inr

lemmas snocs = pk_snoc pk_filter_snoc refs_snoc refs_filter_snoc

lemmas key_fns = ec2_pk_defs sg_name_key_def assoc_subnet_key_def assoc_main_key_def rule_place_def eni_ip_key_def table_place_def

section \<open>Inserts\<close>

text \<open>A statement's new tables, once it succeeds, are the old ones with the row at the end of its own.\<close>

lemma insert_vpc_wf: "ec2_wf t \<Longrightarrow> insert_vpc a v t = Inr t' \<Longrightarrow> ec2_wf t'"
  by (auto simp: insert_vpc_def inserted ec2_wf_defs snocs vpc_pk_def intro!: refs_insert_parent)

lemma insert_subnet_wf:
  assumes "ec2_wf t" and "insert_subnet a s t = Inr t'"
    and "\<And>x. x \<in> set (vpc_siblings a (sn_vpc s) t) \<Longrightarrow> cidrs_apart (sn_cidr x) (sn_cidr s)"
  shows "ec2_wf t'"
proof -
  have "subnets_apart (ec2_subnets t @ [\<lparr>ow_account = a, ow_data = s\<rparr>])"
    by (rule subnets_apart_snoc) (use assms(1,3) in \<open>auto simp: ec2_wf_defs vpc_siblings_def owned_where_def owned_pk_def\<close>)
  with assms(1,2) show ?thesis
    by (auto simp: insert_subnet_def inserted ec2_wf_defs snocs subnet_pk_def intro!: refs_insert_parent)
qed

lemma insert_igw_wf:
  "ec2_wf t \<Longrightarrow> insert_internet_gateway a g t = Inr t' \<Longrightarrow> gw_vpc g = [] \<or> has_key vpc_pk (a, gw_vpc g) (ec2_vpcs t) \<Longrightarrow> ec2_wf t'"
  by (auto simp: insert_internet_gateway_def inserted ec2_wf_defs snocs igw_pk_def igw_attached_def simp del: filter_append)

lemma insert_route_table_wf: "ec2_wf t \<Longrightarrow> insert_route_table a rt t = Inr t' \<Longrightarrow> ec2_wf t'"
  by (auto simp: insert_route_table_def inserted ec2_wf_defs snocs rtb_pk_def intro!: refs_insert_parent)

lemma insert_route_wf: "ec2_wf t \<Longrightarrow> insert_route a x t = Inr t' \<Longrightarrow> ec2_wf t'"
  by (auto simp: insert_route_def inserted ec2_wf_defs snocs route_pk_def)

lemma insert_association_wf:
  assumes "ec2_wf t" and "insert_association a vpc x t = Inr t'"
    and "has_key table_place (a, as_rtb x, vpc) (ec2_rtbs t)"
  shows "ec2_wf t'"
  using assms
  by (auto simp: insert_association_def Let_def inserted ec2_wf_defs snocs assoc_pk_def has_subnet_def simp del: filter_append)

lemma insert_security_group_wf: "ec2_wf t \<Longrightarrow> insert_security_group a g t = Inr t' \<Longrightarrow> ec2_wf t'"
  by (auto simp: insert_security_group_def inserted ec2_wf_defs snocs sg_pk_def sg_name_key_def intro!: refs_insert_parent)

lemma insert_rule_wf: "ec2_wf t \<Longrightarrow> insert_rule a reg x t = Inr t' \<Longrightarrow> ec2_wf t'"
  by (auto simp: insert_rule_def Let_def inserted ec2_wf_defs snocs split: if_splits)

lemma insert_eip_wf: "ec2_wf t \<Longrightarrow> insert_eip a e t = Inr t' \<Longrightarrow> ec2_wf t'"
  by (auto simp: insert_eip_def inserted ec2_wf_defs snocs eip_pk_def)

lemma insert_instance_wf: "ec2_wf t \<Longrightarrow> insert_instance a x t = Inr t' \<Longrightarrow> ec2_wf t'"
  by (auto simp: insert_instance_def inserted ec2_wf_defs snocs instance_pk_def intro!: refs_insert_parent)

lemma insert_eni_wf: "ec2_wf t \<Longrightarrow> insert_eni a x t = Inr t' \<Longrightarrow> ec2_wf t'"
  by (auto simp: insert_eni_def inserted ec2_wf_defs snocs eni_pk_def eni_ip_key_def eni_has_instance_def simp del: filter_append)

lemma insert_volume_wf: "ec2_wf t \<Longrightarrow> insert_volume a v t = Inr t' \<Longrightarrow> ec2_wf t'"
  by (auto simp: insert_volume_def inserted ec2_wf_defs snocs volume_pk_def)

section \<open>Updates\<close>

lemma filter_update: "(\<And>x. p x \<Longrightarrow> q (f x) = q x) \<Longrightarrow> filter q (sql_update p f t) = sql_update p f (filter q t)"
  by (auto simp: sql_update_def filter_map o_def if_distrib intro!: arg_cong [where f = "map _"] filter_cong)

lemma vpcs_update_wf:
  "ec2_wf t \<Longrightarrow> (\<And>r. p r \<Longrightarrow> vpc_pk (f r) = vpc_pk r) \<Longrightarrow> ec2_wf (t\<lparr>ec2_vpcs := sql_update p f (ec2_vpcs t)\<rparr>)"
  by (auto simp: ec2_wf_defs intro!: pk_update refs_update_parent)

lemma subnets_update_wf:
  "ec2_wf t \<Longrightarrow>
   (\<And>r. p r \<Longrightarrow> subnet_pk (f r) = subnet_pk r \<and> owned_pk sn_vpc (f r) = owned_pk sn_vpc r \<and> sn_cidr (ow_data (f r)) = sn_cidr (ow_data r)) \<Longrightarrow>
   ec2_wf (t\<lparr>ec2_subnets := sql_update p f (ec2_subnets t)\<rparr>)"
  by (auto simp: ec2_wf_defs intro!: pk_update refs_update_parent refs_update_child subnets_apart_update)

lemma igws_update_wf:
  assumes "ec2_wf t" and "\<And>r. p r \<Longrightarrow> igw_pk (f r) = igw_pk r"
    and "\<And>r. p r \<Longrightarrow> igw_attached (f r) \<Longrightarrow> has_key vpc_pk (owned_pk gw_vpc (f r)) (ec2_vpcs t)"
  shows "ec2_wf (t\<lparr>ec2_igws := sql_update p f (ec2_igws t)\<rparr>)"
proof -
  have "refs (owned_pk gw_vpc) (filter igw_attached (sql_update p f (ec2_igws t))) vpc_pk (ec2_vpcs t)"
    using assms(1,3) by (force simp: ec2_wf_defs refs_def sql_update_def has_key_def)
  with assms(1,2) show ?thesis by (auto simp: ec2_wf_defs intro!: pk_update)
qed

lemma eips_update_wf:
  "ec2_wf t \<Longrightarrow> (\<And>r. p r \<Longrightarrow> eip_pk (f r) = eip_pk r) \<Longrightarrow> ec2_wf (t\<lparr>ec2_eips := sql_update p f (ec2_eips t)\<rparr>)"
  by (auto simp: ec2_wf_defs intro!: pk_update)

lemma volumes_update_wf:
  "ec2_wf t \<Longrightarrow> (\<And>r. p r \<Longrightarrow> volume_pk (f r) = volume_pk r) \<Longrightarrow> ec2_wf (t\<lparr>ec2_volumes := sql_update p f (ec2_volumes t)\<rparr>)"
  by (auto simp: ec2_wf_defs intro!: pk_update)

lemma instances_update_wf:
  "ec2_wf t \<Longrightarrow> (\<And>r. p r \<Longrightarrow> instance_pk (f r) = instance_pk r \<and> owned_pk in_subnet (f r) = owned_pk in_subnet r) \<Longrightarrow>
   ec2_wf (t\<lparr>ec2_instances := sql_update p f (ec2_instances t)\<rparr>)"
  by (auto simp: ec2_wf_defs intro!: pk_update refs_update_parent refs_update_child)

text \<open>An interface may leave its instance, never move to another.\<close>

lemma enis_update_wf:
  assumes "ec2_wf t" and "\<And>r. p r \<Longrightarrow> eni_pk (f r) = eni_pk r \<and> eni_ip_key (f r) = eni_ip_key r"
    and "\<And>r. p r \<Longrightarrow> eni_has_instance (f r) \<Longrightarrow> ni_instance (ow_data (f r)) = ni_instance (ow_data r)"
  shows "ec2_wf (t\<lparr>ec2_enis := sql_update p f (ec2_enis t)\<rparr>)"
proof -
  have same: "owned_pk ni_subnet (f r) = owned_pk ni_subnet r \<and> ow_account (f r) = ow_account r" if "p r" for r
    using assms(2) [OF that] by (simp add: eni_ip_key_def owned_pk_def)
  have "refs (owned_pk ni_instance) (filter eni_has_instance (sql_update p f (ec2_enis t))) instance_pk (ec2_instances t)"
    unfolding refs_def
  proof
    fix k assume "k \<in> owned_pk ni_instance ` set (filter eni_has_instance (sql_update p f (ec2_enis t)))"
    then obtain r where r: "r \<in> set (ec2_enis t)" "eni_has_instance (if p r then f r else r)" "k = owned_pk ni_instance (if p r then f r else r)"
      by (auto simp: sql_update_def)
    then have k: "k = owned_pk ni_instance r" "eni_has_instance r"
      using same [of r] assms(3) [of r] by (auto simp: owned_pk_def eni_has_instance_def split: if_splits)
    from assms(1) have "refs (owned_pk ni_instance) (filter eni_has_instance (ec2_enis t)) instance_pk (ec2_instances t)"
      by (simp add: ec2_wf_defs)
    with r(1) k show "k \<in> instance_pk ` set (ec2_instances t)" by (auto simp: refs_def)
  qed
  with assms(1,2) same show ?thesis by (auto simp: ec2_wf_defs intro!: pk_update refs_update_child)
qed

section \<open>Deletes\<close>

lemma filter_sql_delete_comm: "filter q (sql_delete p xs) = sql_delete p (filter q xs)"
  by (simp add: sql_delete_def filter_filter conj_commute)

lemma drop_subnets_wf:
  assumes "ec2_wf t" and "\<And>i. i \<in> set ids \<Longrightarrow> \<not> subnet_in_use a i t"
  shows "ec2_wf (drop_subnets a ids t)"
proof -
  let ?p = "owned_where a (\<lambda>s. sn_id s \<in> set ids)" and ?q = "owned_where a (\<lambda>x. as_subnet x \<noteq> [] \<and> as_subnet x \<in> set ids)"
  have "refs (owned_pk as_subnet) (filter has_subnet (sql_delete ?q (ec2_assocs t))) subnet_pk (sql_delete ?p (ec2_subnets t))"
    unfolding filter_sql_delete_comm
    by (rule refs_delete) (use assms(1) in \<open>auto simp: ec2_wf_defs owned_where_def subnet_pk_def owned_pk_def has_subnet_def\<close>)
  moreover have "refs (owned_pk in_subnet) (ec2_instances t) subnet_pk (sql_delete ?p (ec2_subnets t))"
    by (rule refs_delete_parent)
      (use assms in \<open>auto simp: ec2_wf_defs owned_where_def subnet_pk_def owned_pk_def subnet_in_use_def\<close>)
  moreover have "refs (owned_pk ni_subnet) (ec2_enis t) subnet_pk (sql_delete ?p (ec2_subnets t))"
    by (rule refs_delete_parent)
      (use assms in \<open>auto simp: ec2_wf_defs owned_where_def subnet_pk_def owned_pk_def subnet_in_use_def\<close>)
  ultimately show ?thesis using assms(1)
    by (auto simp: drop_subnets_def ec2_wf_defs filter_sql_delete_comm intro!: pk_delete refs_delete_child subnets_apart_delete)
qed

lemma drop_rtbs_wf:
  assumes "ec2_wf t" shows "ec2_wf (drop_rtbs a ids t)"
proof -
  let ?p = "owned_where a (\<lambda>rt. rt_id rt \<in> set ids)"
  have "refs (owned_pk (\<lambda>x. (as_rtb x, as_vpc x))) (sql_delete (owned_where a (\<lambda>x. as_rtb x \<in> set ids)) (ec2_assocs t))
      table_place (sql_delete ?p (ec2_rtbs t))"
    by (rule refs_delete) (use assms in \<open>auto simp: ec2_wf_defs owned_where_def table_place_def owned_pk_def\<close>)
  moreover have "refs (owned_pk rx_rtb) (sql_delete (owned_where a (\<lambda>x. rx_rtb x \<in> set ids)) (ec2_routes t)) rtb_pk (sql_delete ?p (ec2_rtbs t))"
    by (rule refs_delete) (use assms in \<open>auto simp: ec2_wf_defs owned_where_def rtb_pk_def owned_pk_def\<close>)
  ultimately show ?thesis using assms
    by (auto simp: drop_rtbs_def ec2_wf_defs filter_sql_delete_comm intro!: pk_delete refs_delete_child)
qed

lemma drop_sgs_wf:
  assumes "ec2_wf t" shows "ec2_wf (drop_sgs a ids t)"
proof -
  have "refs (owned_pk ru_group) (sql_delete (owned_where a (\<lambda>r. ru_group r \<in> set ids)) (ec2_rules t)) sg_pk
      (sql_delete (owned_where a (\<lambda>g. sg_id g \<in> set ids)) (ec2_sgs t))"
    by (rule refs_delete) (use assms in \<open>auto simp: ec2_wf_defs owned_where_def sg_pk_def owned_pk_def\<close>)
  with assms show ?thesis by (auto simp: drop_sgs_def ec2_wf_defs intro!: pk_delete refs_delete_child)
qed

lemma igws_delete_wf: "ec2_wf t \<Longrightarrow> ec2_wf (t\<lparr>ec2_igws := sql_delete p (ec2_igws t)\<rparr>)"
  by (auto simp: ec2_wf_defs filter_sql_delete_comm intro!: pk_delete refs_delete_child)

lemma assocs_delete_wf: "ec2_wf t \<Longrightarrow> ec2_wf (t\<lparr>ec2_assocs := sql_delete p (ec2_assocs t)\<rparr>)"
  by (auto simp: ec2_wf_defs filter_sql_delete_comm intro!: pk_delete refs_delete_child)

lemma routes_delete_wf: "ec2_wf t \<Longrightarrow> ec2_wf (t\<lparr>ec2_routes := sql_delete p (ec2_routes t)\<rparr>)"
  by (auto simp: ec2_wf_defs intro!: pk_delete refs_delete_child)

lemma rules_delete_wf: "ec2_wf t \<Longrightarrow> ec2_wf (t\<lparr>ec2_rules := sql_delete p (ec2_rules t)\<rparr>)"
  by (auto simp: ec2_wf_defs intro!: pk_delete refs_delete_child)

lemma eips_delete_wf: "ec2_wf t \<Longrightarrow> ec2_wf (t\<lparr>ec2_eips := sql_delete p (ec2_eips t)\<rparr>)"
  by (auto simp: ec2_wf_defs intro!: pk_delete)

lemma volumes_delete_wf: "ec2_wf t \<Longrightarrow> ec2_wf (t\<lparr>ec2_volumes := sql_delete p (ec2_volumes t)\<rparr>)"
  by (auto simp: ec2_wf_defs intro!: pk_delete)

lemma key_pairs_delete_wf: "ec2_wf t \<Longrightarrow> ec2_wf (t\<lparr>ec2_key_pairs := sql_delete p (ec2_key_pairs t)\<rparr>)"
  by (auto simp: ec2_wf_defs intro!: pk_delete)

lemma enis_delete_wf: "ec2_wf t \<Longrightarrow> ec2_wf (t\<lparr>ec2_enis := sql_delete p (ec2_enis t)\<rparr>)"
  by (auto simp: ec2_wf_defs filter_sql_delete_comm intro!: pk_delete refs_delete_child)

text \<open>A VPC goes with everything in it; its gateways stay, detached.\<close>

lemma vpc_delete_wf:
  assumes "ec2_wf t" and "\<And>r. r \<in> set (ec2_subnets t) \<Longrightarrow> owned_pk sn_vpc r \<noteq> (a, i)"
    and "\<And>r. r \<in> set (ec2_rtbs t) \<Longrightarrow> owned_pk rt_vpc r \<noteq> (a, i)"
    and "\<And>r. r \<in> set (ec2_sgs t) \<Longrightarrow> owned_pk sg_vpc r \<noteq> (a, i)"
    and "\<And>r. r \<in> set (ec2_igws t) \<Longrightarrow> igw_attached r \<Longrightarrow> owned_pk gw_vpc r \<noteq> (a, i)"
  shows "ec2_wf (t\<lparr>ec2_vpcs := sql_delete (\<lambda>r. vpc_pk r = (a, i)) (ec2_vpcs t)\<rparr>)"
proof -
  let ?p = "\<lambda>r. vpc_pk r = (a, i)"
  have keep: "refs f xs vpc_pk (sql_delete ?p (ec2_vpcs t))"
    if "refs f xs vpc_pk (ec2_vpcs t)" "\<And>r. r \<in> set xs \<Longrightarrow> f r \<noteq> (a, i)" for f :: "'x \<Rightarrow> string \<times> string" and xs
    using that(1) by (rule refs_delete_parent) (use that(2) in metis)
  have w: "vpc_refs_ok t" using assms(1) by (simp add: ec2_wf_def)
  have "vpc_refs_ok (t\<lparr>ec2_vpcs := sql_delete ?p (ec2_vpcs t)\<rparr>)"
    unfolding vpc_refs_ok_def
  proof (simp, intro conjI)
    show "refs (owned_pk sn_vpc) (ec2_subnets t) vpc_pk (sql_delete ?p (ec2_vpcs t))"
      by (rule keep) (use w assms(2) in \<open>auto simp: vpc_refs_ok_def\<close>)
    show "refs (owned_pk rt_vpc) (ec2_rtbs t) vpc_pk (sql_delete ?p (ec2_vpcs t))"
      by (rule keep) (use w assms(3) in \<open>auto simp: vpc_refs_ok_def\<close>)
    show "refs (owned_pk sg_vpc) (ec2_sgs t) vpc_pk (sql_delete ?p (ec2_vpcs t))"
      by (rule keep) (use w assms(4) in \<open>auto simp: vpc_refs_ok_def\<close>)
    show "refs (owned_pk gw_vpc) (filter igw_attached (ec2_igws t)) vpc_pk (sql_delete ?p (ec2_vpcs t))"
      by (rule keep) (use w assms(5) in \<open>auto simp: vpc_refs_ok_def\<close>)
  qed
  with assms(1) show ?thesis
    by (simp add: ec2_wf_def ec2_keys_ok_def ec2_unique_ok_def subnet_refs_ok_def table_refs_ok_def pk_delete)
qed

lemma detach_igws_wf: "ec2_wf t \<Longrightarrow> ec2_wf (detach_igws a i t)"
  unfolding detach_igws_def by (rule igws_update_wf) (auto simp: igw_pk_def owned_pk_def igw_attached_def igw_detach_def)

lemma drop_vpc_commute:
  "drop_vpc a i t = (let t' = drop_sgs a (vpc_sgs a i t) (drop_rtbs a (vpc_rtbs a i t) (drop_subnets a (vpc_subnets a i t) (detach_igws a i t)))
     in t'\<lparr>ec2_vpcs := sql_delete (\<lambda>r. vpc_pk r = (a, i)) (ec2_vpcs t')\<rparr>)"
  by (simp add: drop_vpc_def drop_sgs_def drop_rtbs_def drop_subnets_def detach_igws_def)

lemma not_in_owned_ids: "r \<in> set t \<Longrightarrow> owned_where a p r \<Longrightarrow> key (ow_data r) \<in> set (owned_ids key a p t)"
  by (auto simp: owned_ids_def)

text \<open>Nothing that stays names the VPC.\<close>

lemma gone_children: "r \<in> set (sql_delete (owned_where a (\<lambda>x. key x \<in> set (owned_ids key a (\<lambda>x. par x = i) t))) t) \<Longrightarrow> owned_pk par r \<noteq> (a, i)"
  by (auto simp: owned_pk_def owned_where_def owned_ids_def)

lemma set_sql_update: "r \<in> set (sql_update p f t) \<Longrightarrow> (\<exists>r0\<in>set t. p r0 \<and> r = f r0) \<or> (r \<in> set t \<and> \<not> p r)"
  by (auto simp: sql_update_def)

lemma gone_gateways:
  assumes "r \<in> set (ec2_igws (detach_igws a i t))" and "igw_attached r" shows "owned_pk gw_vpc r \<noteq> (a, i)"
proof
  assume e: "owned_pk gw_vpc r = (a, i)"
  have "(\<exists>r0. r = put_data igw_detach r0) \<or> \<not> owned_where a (\<lambda>g. gw_vpc g \<noteq> [] \<and> gw_vpc g = i) r"
    using set_sql_update [of r] assms(1) unfolding detach_igws_def by auto
  with assms(2) e show False by (auto simp: igw_attached_def igw_detach_def owned_where_def owned_pk_def)
qed

lemma drop_vpc_wf:
  assumes "ec2_wf t" and "\<And>s. s \<in> set (vpc_subnets a i t) \<Longrightarrow> \<not> subnet_in_use a s t"
  shows "ec2_wf (drop_vpc a i t)"
  unfolding drop_vpc_commute Let_def
proof (rule vpc_delete_wf)
  let ?t = "drop_sgs a (vpc_sgs a i t) (drop_rtbs a (vpc_rtbs a i t) (drop_subnets a (vpc_subnets a i t) (detach_igws a i t)))"
  have "ec2_wf (drop_subnets a (vpc_subnets a i t) (detach_igws a i t))"
    by (rule drop_subnets_wf [OF detach_igws_wf [OF assms(1)]]) (use assms(2) in \<open>simp add: subnet_in_use_def detach_igws_def\<close>)
  then show "ec2_wf ?t" by (intro drop_sgs_wf drop_rtbs_wf)
  have tbls: "ec2_subnets ?t = sql_delete (owned_where a (\<lambda>s. sn_id s \<in> set (owned_ids sn_id a (\<lambda>s. sn_vpc s = i) (ec2_subnets t)))) (ec2_subnets t)"
    "ec2_rtbs ?t = sql_delete (owned_where a (\<lambda>s. rt_id s \<in> set (owned_ids rt_id a (\<lambda>s. rt_vpc s = i) (ec2_rtbs t)))) (ec2_rtbs t)"
    "ec2_sgs ?t = sql_delete (owned_where a (\<lambda>s. sg_id s \<in> set (owned_ids sg_id a (\<lambda>s. sg_vpc s = i) (ec2_sgs t)))) (ec2_sgs t)"
    "ec2_igws ?t = ec2_igws (detach_igws a i t)"
    by (simp_all add: drop_sgs_def drop_rtbs_def drop_subnets_def detach_igws_def vpc_sgs_def vpc_rtbs_def vpc_subnets_def)
  show "owned_pk sn_vpc r \<noteq> (a, i)" if "r \<in> set (ec2_subnets ?t)" for r using that unfolding tbls by (rule gone_children)
  show "owned_pk rt_vpc r \<noteq> (a, i)" if "r \<in> set (ec2_rtbs ?t)" for r using that unfolding tbls by (rule gone_children)
  show "owned_pk sg_vpc r \<noteq> (a, i)" if "r \<in> set (ec2_sgs ?t)" for r using that unfolding tbls by (rule gone_children)
  show "owned_pk gw_vpc r \<noteq> (a, i)" if "r \<in> set (ec2_igws ?t)" "igw_attached r" for r
    using that unfolding tbls by (rule gone_gateways)
qed

lemma instance_delete_wf:
  assumes "ec2_wf t" and "\<And>r. p r \<Longrightarrow> instance_pk r = (a, i)"
  shows "ec2_wf (drop_instance_enis a i (t\<lparr>ec2_instances := sql_delete p (ec2_instances t)\<rparr>))"
proof -
  have "refs (owned_pk ni_instance) (filter eni_has_instance (sql_delete (of_instance a i) (ec2_enis t))) instance_pk
      (sql_delete p (ec2_instances t))"
    unfolding filter_sql_delete_comm
    by (rule refs_delete)
      (use assms in \<open>auto simp: ec2_wf_defs of_instance_def owned_where_def owned_pk_def eni_has_instance_def\<close>)
  with assms show ?thesis
    by (auto simp: drop_instance_enis_def ec2_wf_defs intro!: pk_delete refs_delete_child)
qed

section \<open>The operations keep the invariant\<close>

text \<open>An EC2 operation writes EC2's tables and their tags, and nothing else.\<close>

definition ec2_rest :: "db \<Rightarrow> db" where
  "ec2_rest d = d\<lparr>ec2_tbls := empty_ec2_db, ec2_tags := []\<rparr>"

definition ec2_keeps :: "db \<Rightarrow> db \<Rightarrow> bool" where
  "ec2_keeps d d' \<longleftrightarrow> ec2_rest d' = ec2_rest d \<and> (ec2_wf (ec2_tbls d) \<longrightarrow> ec2_wf (ec2_tbls d')) \<and>
     (pk ec2_tag_pk (ec2_tags d) \<longrightarrow> pk ec2_tag_pk (ec2_tags d'))"

lemma ec2_keeps_refl [simp]: "ec2_keeps d d"
  by (simp add: ec2_keeps_def)

lemma ec2_keeps_trans: "ec2_keeps d d1 \<Longrightarrow> ec2_keeps d1 d2 \<Longrightarrow> ec2_keeps d d2"
  by (simp add: ec2_keeps_def)

lemma ec2_keeps_tbls: "(ec2_wf (ec2_tbls d) \<Longrightarrow> ec2_wf t) \<Longrightarrow> ec2_keeps d (d\<lparr>ec2_tbls := t\<rparr>)"
  by (simp add: ec2_keeps_def ec2_rest_def)

lemma ec2_keeps_drop: "ec2_keeps d d' \<Longrightarrow> ec2_keeps d (drop_ec2_tags a ids d')"
  by (auto simp: ec2_keeps_def ec2_rest_def drop_ec2_tags_def intro: pk_delete)

lemma ec2_keeps_commit:
  "(\<And>t. ec2_wf (ec2_tbls d) \<Longrightarrow> r = Inr t \<Longrightarrow> ec2_wf t) \<Longrightarrow> ec2_keeps d (snd (commit r d))"
  by (auto simp: commit_def intro: ec2_keeps_tbls split: sum.split)

lemma with_local_wf:
  "ec2_wf t \<Longrightarrow> insert_route_table_with_local a cidr rt t = Inr t' \<Longrightarrow> ec2_wf t'"
  by (auto simp: insert_route_table_with_local_def res_bind_Inr intro: insert_route_wf insert_route_table_wf)

lemma with_local_rtbs:
  "insert_route_table_with_local a cidr rt t = Inr t' \<Longrightarrow> ec2_rtbs t' = ec2_rtbs t @ [\<lparr>ow_account = a, ow_data = rt\<rparr>]"
  by (auto simp: insert_route_table_with_local_def res_bind_Inr insert_route_table_def insert_route_def inserted)

lemma insert_main_wf:
  assumes "ec2_wf t" and "insert_main_route_table a cidr m t = Inr t'" and "as_rtb (mr_assoc m) = rt_id (mr_table m)"
  shows "ec2_wf t'"
proof -
  obtain t1 where t1: "insert_route_table_with_local a cidr (mr_table m) t = Inr t1"
    and t': "insert_association a (rt_vpc (mr_table m)) (mr_assoc m) t1 = Inr t'"
    using assms(2) by (auto simp: insert_main_route_table_def res_bind_Inr inserted)
  have "has_key table_place (a, as_rtb (mr_assoc m), rt_vpc (mr_table m)) (ec2_rtbs t1)"
    using with_local_rtbs [OF t1] assms(3) by (simp add: has_key_def table_place_def)
  with with_local_wf [OF assms(1) t1] t' show ?thesis by (rule insert_association_wf)
qed

lemma create_vpc_keeps:
  assumes "as_rtb (mr_assoc m) = rt_id (mr_table m)"
  shows "ec2_keeps d (snd (create_vpc_with_defaults a v sg m d))"
  unfolding create_vpc_with_defaults_def
proof (rule ec2_keeps_commit)
  fix t assume w: "ec2_wf (ec2_tbls d)" and r: "res_bind (mapped_insert (insert_vpc a v (ec2_tbls d)))
    (\<lambda>t1. res_bind (insert_security_group a sg t1) (\<lambda>t2. insert_main_route_table a (vp_cidr v) m t2)) = Inr t"
  from r obtain t1 t2 where "insert_vpc a v (ec2_tbls d) = Inr t1" "insert_security_group a sg t1 = Inr t2"
    "insert_main_route_table a (vp_cidr v) m t2 = Inr t"
    by (auto simp: res_bind_Inr mapped_insert_Inr)
  note i = this
  have "ec2_wf t2" by (rule insert_security_group_wf [OF insert_vpc_wf [OF w i(1)] i(2)])
  then show "ec2_wf t" using i(3) assms by (rule insert_main_wf)
qed

text \<open>The change an update makes keeps the row's key.\<close>

lemma update_vpc_keeps:
  assumes "\<And>v. vp_id (f v) = vp_id v"
  shows "ec2_keeps d (snd (update_vpc a region i f d))"
proof (cases "get_vpc a region i d")
  case (Inr v)
  then have "vp_id v = i" unfolding get_vpc_def by (rule get_scoped_Inr)
  with Inr assms [of v] show ?thesis
    by (auto simp: update_vpc_def Let_def vpc_pk_def owned_pk_def intro!: ec2_keeps_tbls vpcs_update_wf)
qed (simp add: update_vpc_def)

lemma update_subnet_keeps:
  assumes "\<And>s. sn_id (f s) = sn_id s \<and> sn_vpc (f s) = sn_vpc s \<and> sn_cidr (f s) = sn_cidr s"
  shows "ec2_keeps d (snd (update_subnet a region i f d))"
proof (cases "get_subnet a region i d")
  case (Inr s)
  then have s: "\<lparr>ow_account = a, ow_data = s\<rparr> \<in> set (ec2_subnets (ec2_tbls d))" "sn_id s = i"
    unfolding get_subnet_def by (auto dest: get_scoped_Inr)
  have "ec2_wf (ec2_tbls d\<lparr>ec2_subnets := sql_update (\<lambda>r. subnet_pk r = (a, i) \<and> sn_region (ow_data r) = sn_region (f s))
      (put_data (\<lambda>_. f s)) (ec2_subnets (ec2_tbls d))\<rparr>)" if w: "ec2_wf (ec2_tbls d)"
  proof -
    have "sql_update (\<lambda>r. subnet_pk r = (a, i) \<and> sn_region (ow_data r) = sn_region (f s)) (put_data (\<lambda>_. f s)) (ec2_subnets (ec2_tbls d)) =
      sql_update (\<lambda>r. r = \<lparr>ow_account = a, ow_data = s\<rparr> \<and> sn_region s = sn_region (f s)) (put_data (\<lambda>_. f s)) (ec2_subnets (ec2_tbls d))"
      unfolding sql_update_def
    proof (rule map_cong [OF refl])
      fix r assume r: "r \<in> set (ec2_subnets (ec2_tbls d))"
      have "subnet_pk r = (a, i) \<longleftrightarrow> r = \<lparr>ow_account = a, ow_data = s\<rparr>"
        using w s r pk_eq [of subnet_pk "ec2_subnets (ec2_tbls d)" r "\<lparr>ow_account = a, ow_data = s\<rparr>"]
        by (auto simp: subnet_pk_def ec2_wf_def ec2_keys_ok_def)
      then show "(if subnet_pk r = (a, i) \<and> sn_region (ow_data r) = sn_region (f s) then put_data (\<lambda>_. f s) r else r) =
        (if r = \<lparr>ow_account = a, ow_data = s\<rparr> \<and> sn_region s = sn_region (f s) then put_data (\<lambda>_. f s) r else r)" by auto
    qed
    moreover have "ec2_wf (ec2_tbls d\<lparr>ec2_subnets := sql_update (\<lambda>r. r = \<lparr>ow_account = a, ow_data = s\<rparr> \<and> sn_region s = sn_region (f s))
        (put_data (\<lambda>_. f s)) (ec2_subnets (ec2_tbls d))\<rparr>)"
      using w by (rule subnets_update_wf) (auto simp: subnet_pk_def owned_pk_def assms)
    ultimately show ?thesis by simp
  qed
  with Inr show ?thesis by (auto simp: update_subnet_def Let_def intro!: ec2_keeps_tbls)
qed (simp add: update_subnet_def)

lemma delete_vpc_keeps: "ec2_keeps d (snd (delete_vpc a region i d))"
  by (auto simp: delete_vpc_def Let_def intro!: ec2_keeps_drop ec2_keeps_tbls drop_vpc_wf)

text \<open>CreateSubnet finds no overlap exactly when every sibling is apart.\<close>

lemma subnet_overlap_None: "subnet_overlap p ss = None \<Longrightarrow> parse_prefix c = Some p \<Longrightarrow> x \<in> set ss \<Longrightarrow> cidrs_apart (sn_cidr x) c"
  by (induction p ss rule: subnet_overlap.induct) (auto simp: cidrs_apart_def split: option.splits if_splits)

lemma create_subnet_keeps: "ec2_keeps d (snd (create_subnet a s d))"
  unfolding create_subnet_def Let_def
  by (auto simp: map_sum_Inr mapped_insert_Inr intro!: ec2_keeps_commit elim!: insert_subnet_wf dest: subnet_overlap_None split: option.split)

lemma delete_subnet_keeps: "ec2_keeps d (snd (delete_subnet a region i d))"
  by (auto simp: delete_subnet_def Let_def intro!: ec2_keeps_drop ec2_keeps_tbls drop_subnets_wf)

lemma create_internet_gateway_keeps: "gw_vpc g = [] \<Longrightarrow> ec2_keeps d (snd (create_internet_gateway a g d))"
  by (auto simp: create_internet_gateway_def mapped_insert_Inr intro!: ec2_keeps_commit dest: insert_igw_wf)

lemma attach_internet_gateway_keeps: "ec2_keeps d (snd (attach_internet_gateway a region i vpc d))"
proof (cases "get_vpc a region vpc d")
  case (Inr v)
  then have "\<lparr>ow_account = a, ow_data = v\<rparr> \<in> set (ec2_vpcs (ec2_tbls d))" "vp_id v = vpc"
    unfolding get_vpc_def by (auto dest: get_scoped_Inr)
  then have "has_key vpc_pk (a, vpc) (ec2_vpcs (ec2_tbls d))" by (force simp: has_key_def vpc_pk_def image_iff)
  with Inr show ?thesis
    by (auto simp: attach_internet_gateway_def Let_def igw_pk_def owned_pk_def split: sum.split intro!: ec2_keeps_tbls igws_update_wf)
qed (simp add: attach_internet_gateway_def)

lemma detach_internet_gateway_keeps: "ec2_keeps d (snd (detach_internet_gateway a region i d))"
  by (auto simp: detach_internet_gateway_def Let_def igw_pk_def owned_pk_def igw_detach_def igw_attached_def
      split: sum.split intro!: ec2_keeps_tbls igws_update_wf)

lemma delete_internet_gateway_keeps: "ec2_keeps d (snd (delete_internet_gateway a region i d))"
  by (auto simp: delete_internet_gateway_def Let_def intro!: ec2_keeps_drop ec2_keeps_tbls igws_delete_wf)

text \<open>Route tables, associations and routes.\<close>

lemma create_route_table_keeps: "ec2_keeps d (snd (create_route_table a rt d))"
  by (auto simp: create_route_table_def mapped_insert_Inr intro!: ec2_keeps_commit dest: with_local_wf split: sum.split)

lemma delete_route_table_keeps: "ec2_keeps d (snd (delete_route_table a region i d))"
  by (auto simp: delete_route_table_def Let_def intro!: ec2_keeps_drop ec2_keeps_tbls drop_rtbs_wf split: sum.split)

lemma associate_route_table_keeps: "ec2_keeps d (snd (associate_route_table a region x d))"
proof (cases "get_route_table a region (as_rtb x) d")
  case (Inr rt)
  then have "\<lparr>ow_account = a, ow_data = rt\<rparr> \<in> set (ec2_rtbs (ec2_tbls d))" "rt_id rt = as_rtb x"
    unfolding get_route_table_def by (auto dest: get_scoped_Inr)
  then have k: "has_key table_place (a, as_rtb x, rt_vpc rt) (ec2_rtbs (ec2_tbls d))"
    by (force simp: has_key_def table_place_def image_iff)
  show ?thesis
  proof (cases "get_subnet a region (as_subnet x) d")
    case (Inr s)
    with \<open>get_route_table a region (as_rtb x) d = Inr rt\<close> show ?thesis
      using insert_association_wf [OF _ _ k]
      by (auto simp: associate_route_table_def mapped_insert_Inr intro!: ec2_keeps_commit)
  qed (simp add: associate_route_table_def Inr)
qed (simp add: associate_route_table_def)

lemma disassociate_route_table_keeps: "ec2_keeps d (snd (disassociate_route_table a i d))"
  by (auto simp: disassociate_route_table_def Let_def intro!: ec2_keeps_tbls assocs_delete_wf split: option.split)

lemma create_route_keeps: "ec2_keeps d (snd (create_route a region x d))"
  by (auto simp: create_route_def mapped_insert_Inr intro!: ec2_keeps_commit dest: insert_route_wf split: sum.split)

lemma delete_route_keeps: "ec2_keeps d (snd (delete_route a region rtb dest d))"
  by (auto simp: delete_route_def Let_def intro!: ec2_keeps_tbls routes_delete_wf split: option.split sum.split)

text \<open>Security groups and rules.\<close>

lemma create_security_group_keeps: "ec2_keeps d (snd (create_security_group a g d))"
  by (auto simp: create_security_group_def intro!: ec2_keeps_commit dest: insert_security_group_wf split: sum.split)

lemma delete_security_group_keeps: "ec2_keeps d (snd (delete_security_group a region i d))"
  by (auto simp: delete_security_group_def Let_def intro!: ec2_keeps_drop ec2_keeps_tbls drop_sgs_wf split: sum.split)

lemma authorize_each_wf: "ec2_wf t \<Longrightarrow> authorize_each a reg i xs added t = Inr (out, t') \<Longrightarrow> ec2_wf t'"
proof (induction xs arbitrary: added t)
  case (Cons x xs)
  obtain perm src held where o: "rule_ordinals a (x\<lparr>ru_group := i\<rparr>) (ec2_rules t) = (perm, src, held)" by (metis prod_cases3)
  show ?case
  proof (cases held)
    case True
    with Cons o show ?thesis by simp
  next
    case False
    with Cons.prems(2) o obtain t1 y added' where "insert_rule a reg y t = Inr t1" "authorize_each a reg i xs added' t1 = Inr (out, t')"
      by (auto simp: Let_def res_bind_Inr)
    with Cons.IH Cons.prems(1) insert_rule_wf show ?thesis by blast
  qed
qed simp

lemma authorize_keeps: "authorize_security_group_rules a region i xs d = Inr (added, d') \<Longrightarrow> ec2_keeps d d'"
  by (auto simp: authorize_security_group_rules_def map_sum_Inr res_bind_Inr dest: authorize_each_wf intro!: ec2_keeps_tbls)

lemma revoke_each_wf: "ec2_wf t \<Longrightarrow> revoke_each a i xs (ec2_rules t) = Inr rules \<Longrightarrow> ec2_wf (t\<lparr>ec2_rules := rules\<rparr>)"
proof (induction xs arbitrary: t)
  case (Cons x xs)
  then obtain p where "revoke_each a i xs (sql_delete p (ec2_rules t)) = Inr rules"
    by (auto simp: Let_def split: if_splits)
  with Cons.IH [of "t\<lparr>ec2_rules := sql_delete p (ec2_rules t)\<rparr>"] rules_delete_wf [OF Cons.prems(1)] show ?case by simp
next
  case Nil
  then show ?case by (cases t) simp
qed

lemma revoke_keeps: "ec2_keeps d (snd (revoke_security_group_rules a region i xs d))"
  by (auto simp: revoke_security_group_rules_def Let_def intro!: ec2_keeps_drop ec2_keeps_tbls revoke_each_wf split: sum.split)

lemma put_availability_zone_keeps: "ec2_keeps d (put_availability_zone a z d)"
  by (auto simp: put_availability_zone_def Let_def ec2_wf_defs intro!: ec2_keeps_tbls pk_replace)

text \<open>Interfaces and Elastic IPs.\<close>

text \<open>An UPDATE of one interface by what a read of it gave is an UPDATE by the change.\<close>

lemma update_read_row:
  assumes "pk (owned_pk key) t" and "\<lparr>ow_account = a, ow_data = n\<rparr> \<in> set t" and "\<And>x. p x \<Longrightarrow> owned_pk key x = (a, key n)"
  shows "sql_update p (put_data (\<lambda>_. f n)) t = sql_update p (put_data f) t"
  unfolding sql_update_def
proof (rule map_cong [OF refl])
  fix x assume x: "x \<in> set t"
  have "p x \<longrightarrow> x = \<lparr>ow_account = a, ow_data = n\<rparr>"
    using assms(3) pk_eq [OF assms(1) x assms(2)] by auto
  then show "(if p x then put_data (\<lambda>_. f n) x else x) = (if p x then put_data f x else x)"
    by (auto simp: put_data_def)
qed

definition eni_keeps_place :: "(ec2_eni \<Rightarrow> ec2_eni) \<Rightarrow> bool" where
  "eni_keeps_place f \<longleftrightarrow> (\<forall>n. ni_id (f n) = ni_id n \<and> ni_subnet (f n) = ni_subnet n \<and> ni_private_ip (f n) = ni_private_ip n \<and>
     (ni_instance (f n) = [] \<or> ni_instance (f n) = ni_instance n))"

lemma enis_put_wf: "ec2_wf t \<Longrightarrow> eni_keeps_place f \<Longrightarrow> ec2_wf (t\<lparr>ec2_enis := sql_update p (put_data f) (ec2_enis t)\<rparr>)"
  by (rule enis_update_wf) (auto simp: eni_keeps_place_def eni_pk_def eni_ip_key_def owned_pk_def eni_has_instance_def)

lemma get_network_interface_Inr:
  assumes "get_network_interface a region i d = Inr n"
  shows "\<lparr>ow_account = a, ow_data = n\<rparr> \<in> set (ec2_enis (ec2_tbls d))" and "ni_id n = i" and "ni_region n = region"
proof -
  obtain r where r: "find (owned_where a (\<lambda>y. ni_region y = region \<and> ni_id y = i)) (ec2_enis (ec2_tbls d)) = Some r" "n = ow_data r"
    using assms by (auto simp: get_network_interface_def split: option.splits)
  then have "r \<in> set (ec2_enis (ec2_tbls d))" "ow_account r = a" "ni_id n = i" "ni_region n = region"
    by (auto simp: find_Some_iff owned_where_def)
  with r(2) show "\<lparr>ow_account = a, ow_data = n\<rparr> \<in> set (ec2_enis (ec2_tbls d))" "ni_id n = i" "ni_region n = region"
    by (simp_all add: owned_eta)
qed

lemma update_network_interface_keeps:
  assumes "eni_keeps_place f"
  shows "ec2_keeps d (snd (update_network_interface a region i f d))"
proof (cases "get_network_interface a region i d")
  case (Inr n)
  let ?t = "ec2_tbls d" and ?p = "owned_where a (\<lambda>y. ni_region y = region \<and> ni_id y = i)"
  have "ec2_wf (?t\<lparr>ec2_enis := sql_update ?p (put_data (\<lambda>_. f n)) (ec2_enis ?t)\<rparr>)" if w: "ec2_wf ?t"
  proof -
    have "sql_update ?p (put_data (\<lambda>_. f n)) (ec2_enis ?t) = sql_update ?p (put_data f) (ec2_enis ?t)"
      using w get_network_interface_Inr [OF Inr]
      by (intro update_read_row [where key = ni_id and a = a]) (auto simp: ec2_wf_def ec2_keys_ok_def eni_pk_def owned_pk_def owned_where_def)
    with enis_put_wf [OF w assms] show ?thesis by simp
  qed
  with Inr show ?thesis by (auto simp: update_network_interface_def Let_def intro!: ec2_keeps_tbls)
qed (simp add: update_network_interface_def)

lemma update_eni_tx_wf:
  assumes "ec2_wf t" and "update_eni_tx a x t = Inr t'" and "\<lparr>ow_account = a, ow_data = n\<rparr> \<in> set (ec2_enis t)"
    and "eni_keeps_place f" and "x = f n"
  shows "ec2_wf t'"
proof -
  have i: "ni_id x = ni_id n" using assms(4,5) by (simp add: eni_keeps_place_def)
  have "sql_update (\<lambda>r. eni_pk r = (a, ni_id x)) (put_data (\<lambda>_. f n)) (ec2_enis t) = sql_update (\<lambda>r. eni_pk r = (a, ni_id x)) (put_data f) (ec2_enis t)"
    using assms(1,3) by (intro update_read_row [where key = ni_id and a = a]) (auto simp: ec2_wf_def ec2_keys_ok_def eni_pk_def i)
  with enis_put_wf [OF assms(1,4)] assms(2,5) show ?thesis by (auto simp: update_eni_tx_def Let_def split: if_splits)
qed

lemma create_eip_keeps: "create_eip a e d = Inr (e', d') \<Longrightarrow> ec2_keeps d d'"
  by (auto simp: create_eip_def Let_def res_bind_Inr map_sum_Inr intro!: ec2_keeps_tbls dest: insert_eip_wf)

text \<open>The address is the one read, changed but for its id.\<close>

lemma eips_put_wf:
  assumes "ec2_wf t" and "\<And>r. p r \<Longrightarrow> eip_pk r = (a, ei_id e)"
  shows "ec2_wf (t\<lparr>ec2_eips := sql_update p (put_data (\<lambda>_. e)) (ec2_eips t)\<rparr>)"
  using assms(1) by (rule eips_update_wf) (use assms(2) in \<open>auto simp: eip_pk_def owned_pk_def\<close>)

lemma associate_eip_keeps:
  assumes "\<lparr>ow_account = a, ow_data = n\<rparr> \<in> set (ec2_enis (ec2_tbls d))" and "eni_keeps_place f"
  shows "ec2_keeps d (snd (associate_eip a e (f n) d))"
proof -
  let ?t = "ec2_tbls d"
  have "ec2_wf t'" if "ec2_wf ?t" "update_eni_tx a (f n) (?t\<lparr>ec2_eips := sql_update p (put_data (\<lambda>_. e)) (ec2_eips ?t)\<rparr>) = Inr t'"
    "\<And>r. p r \<Longrightarrow> eip_pk r = (a, ei_id e)" for p t'
    by (rule update_eni_tx_wf [OF eips_put_wf [OF that(1,3)] that(2) _ assms(2) refl]) (use assms(1) in auto)
  then show ?thesis by (auto simp: associate_eip_def Let_def intro!: ec2_keeps_commit)
qed

lemma claim_public_ip_Inr: "claim_public_ip a x t = Inr y \<Longrightarrow> \<exists>ip. y = x\<lparr>ni_public_ip := ip\<rparr>"
  by (auto simp: claim_public_ip_def map_sum_Inr split: if_splits intro: exI [of _ "ni_public_ip x"])

lemma disassociate_eip_keeps:
  assumes "\<And>x. eni = Some x \<Longrightarrow> \<exists>n f. \<lparr>ow_account = a, ow_data = n\<rparr> \<in> set (ec2_enis (ec2_tbls d)) \<and> eni_keeps_place f \<and> x = f n"
  shows "ec2_keeps d (snd (disassociate_eip a e eni d))"
proof -
  let ?t' = "ec2_tbls d\<lparr>ec2_eips := sql_update (\<lambda>r. eip_pk r = (a, ei_id e)) (put_data (\<lambda>_. e)) (ec2_eips (ec2_tbls d))\<rparr>"
  have w: "ec2_wf (ec2_tbls d) \<Longrightarrow> ec2_wf ?t'" by (rule eips_put_wf) simp_all
  show ?thesis
  proof (cases eni)
    case None
    with w show ?thesis by (auto simp: disassociate_eip_def Let_def intro!: ec2_keeps_commit)
  next
    case (Some x)
    obtain n f where n: "\<lparr>ow_account = a, ow_data = n\<rparr> \<in> set (ec2_enis (ec2_tbls d))" "eni_keeps_place f" "x = f n"
      using assms [OF Some] by blast
    have "ec2_wf t" if "ec2_wf (ec2_tbls d)" "claim_public_ip a x ?t' = Inr y" "update_eni_tx a y ?t' = Inr t" for y t
    proof -
      from claim_public_ip_Inr [OF that(2)] obtain ip where y: "y = x\<lparr>ni_public_ip := ip\<rparr>" ..
      have k: "eni_keeps_place (\<lambda>n. (f n)\<lparr>ni_public_ip := ip\<rparr>)" using n(2) by (simp add: eni_keeps_place_def)
      show ?thesis
        by (rule update_eni_tx_wf [OF w [OF that(1)] that(3) _ k, of n]) (use n y in simp_all)
    qed
    with Some show ?thesis by (auto simp: disassociate_eip_def Let_def res_bind_Inr intro!: ec2_keeps_commit)
  qed
qed

lemma delete_eip_keeps: "ec2_keeps d (snd (delete_eip a region i d))"
  by (auto simp: delete_eip_def Let_def intro!: ec2_keeps_drop ec2_keeps_tbls eips_delete_wf split: sum.split)

text \<open>Instances.\<close>

lemma store_launch_steps:
  assumes "store_launch a x s eni t = Inr (eni', t')"
  obtains t1 ip where "insert_instance a x t = Inr t1"
    "private_ip (sn_cidr s) (ni_private_ip eni) (subnet_private_ips a (sn_id s) t1) = Inr ip"
    "claim_public_ip a (eni\<lparr>ni_private_ip := ip\<rparr>) t1 = Inr eni'" "insert_eni a eni' t1 = Inr t'"
  using assms that by (auto simp: store_launch_def res_bind_Inr)

lemma store_launch_wf: "ec2_wf t \<Longrightarrow> store_launch a x s eni t = Inr (eni', t') \<Longrightarrow> ec2_wf t'"
  by (erule store_launch_steps) (blast intro: insert_instance_wf insert_eni_wf)

lemma create_instance_Inr:
  "create_instance a x eni d = Inr (x', eni', d') \<longleftrightarrow> (\<exists>s t. launch_parents a x eni d = Inr s \<and>
     store_launch a (fill_instance x) s (fill_eni x s eni) (ec2_tbls d) = Inr (eni', t) \<and> x' = fill_instance x \<and> d' = d\<lparr>ec2_tbls := t\<rparr>)"
  by (auto simp: create_instance_def res_bind_Inr)

lemma create_instance_keeps: "create_instance a x eni d = Inr (x', eni', d') \<Longrightarrow> ec2_keeps d d'"
  by (auto simp: create_instance_Inr intro!: ec2_keeps_tbls intro: store_launch_wf)

lemma put_instance_wf:
  assumes "ec2_wf t" and "get_instance_tx a region i t = Inr x" and "in_id y = in_id x" "in_subnet y = in_subnet x"
  shows "ec2_wf (put_instance a i y t)"
proof -
  obtain r where "find (owned_where a (\<lambda>x. in_region x = region \<and> in_id x = i)) (ec2_instances t) = Some r" "x = ow_data r"
    using assms(2) by (auto simp: get_instance_tx_def split: option.splits)
  then have r: "r \<in> set (ec2_instances t)" "instance_pk r = (a, i)" "in_id x = i" "x = ow_data r" "ow_account r = a"
    by (auto simp: find_Some_iff owned_where_def instance_pk_def owned_pk_def)
  have "sql_update (\<lambda>r. instance_pk r = (a, i)) (put_data (\<lambda>_. y)) (ec2_instances t) =
      sql_update (\<lambda>r. instance_pk r = (a, i)) (put_data (\<lambda>z. y\<lparr>in_id := in_id z, in_subnet := in_subnet z\<rparr>)) (ec2_instances t)"
    unfolding sql_update_def
  proof (rule map_cong [OF refl])
    fix z assume z: "z \<in> set (ec2_instances t)"
    have "instance_pk z = (a, i) \<longrightarrow> z = r"
      using assms(1) z r(1,2) pk_eq [of instance_pk "ec2_instances t" z r] by (auto simp: ec2_wf_def ec2_keys_ok_def)
    moreover have "y\<lparr>in_id := in_id x, in_subnet := in_subnet x\<rparr> = y" using assms(3,4) by (cases y) simp
    ultimately show "(if instance_pk z = (a, i) then put_data (\<lambda>_. y) z else z) =
      (if instance_pk z = (a, i) then put_data (\<lambda>z. y\<lparr>in_id := in_id z, in_subnet := in_subnet z\<rparr>) z else z)"
      by (auto simp: put_data_def r(4))
  qed
  moreover have "ec2_wf (t\<lparr>ec2_instances := sql_update (\<lambda>r. instance_pk r = (a, i))
      (put_data (\<lambda>z. y\<lparr>in_id := in_id z, in_subnet := in_subnet z\<rparr>)) (ec2_instances t)\<rparr>)"
    using assms(1) by (rule instances_update_wf) (auto simp: instance_pk_def owned_pk_def)
  ultimately show ?thesis by (simp add: put_instance_def)
qed

lemma update_instance_attributes_keeps:
  assumes "\<And>f x. change = Some f \<Longrightarrow> in_id (f x) = in_id x \<and> in_subnet (f x) = in_subnet x"
  shows "ec2_keeps d (snd (update_instance_attributes a region i change sd d))"
proof -
  have "ec2_wf (put_instance a i (case change of None \<Rightarrow> x | Some f \<Rightarrow> f x) (ec2_tbls d))"
    if "ec2_wf (ec2_tbls d)" "get_instance_tx a region i (ec2_tbls d) = Inr x" for x
    using that by (rule put_instance_wf) (use assms in \<open>auto split: option.split\<close>)
  then show ?thesis
    by (auto simp: update_instance_attributes_def Let_def res_bind_Inr eni_keeps_place_def
        intro!: ec2_keeps_commit enis_put_wf split: if_splits option.splits)
qed

lemma terminate_volume_wf: "ec2_wf t \<Longrightarrow> ec2_wf (terminate_volume a i v t)"
  by (auto simp: terminate_volume_def Let_def detach_volume_def volume_pk_def owned_pk_def intro!: volumes_delete_wf volumes_update_wf)

lemma terminate_each_wf: "ec2_wf t \<Longrightarrow> ec2_wf (fold (terminate_volume a i) vs t)"
  by (induction vs arbitrary: t) (simp_all add: terminate_volume_wf)

lemma release_eips_wf:
  assumes "ec2_wf u" shows "ec2_wf (release_eips a i u)"
proof -
  let ?p = "\<lambda>r. eip_of_instance a i r \<and> eip_eni_stored u r" and ?f = "put_data (\<lambda>e. e\<lparr>ei_instance := []\<rparr>)"
  have "ec2_wf (u\<lparr>ec2_eips := sql_update ?p ?f (ec2_eips u)\<rparr>)"
    using assms by (rule eips_update_wf) (simp add: eip_pk_def owned_pk_def)
  from eips_update_wf [OF this, of "eip_of_instance a i" "put_data eip_cleared"]
  show ?thesis by (simp add: release_eips_def eip_pk_def owned_pk_def eip_cleared_def)
qed

lemma terminate_tx_wf: "ec2_wf t \<Longrightarrow> ec2_wf (terminate_tx a i t)"
proof -
  assume "ec2_wf t"
  then have "ec2_wf (terminate_volumes a i t)" unfolding terminate_volumes_def by (rule terminate_each_wf)
  then have "ec2_wf (keep_kept_enis a i (terminate_volumes a i t))"
    unfolding keep_kept_enis_def by (rule enis_put_wf) (simp add: eni_keeps_place_def detach_eni_def)
  then have "ec2_wf (drop_instance_enis a i (keep_kept_enis a i (terminate_volumes a i t)))"
    unfolding drop_instance_enis_def by (rule enis_delete_wf)
  then show ?thesis unfolding terminate_tx_def by (rule release_eips_wf)
qed

lemma set_instance_state_tx_wf: "ec2_wf t \<Longrightarrow> set_instance_state_tx a region i state t = Inr (was, t') \<Longrightarrow> ec2_wf t'"
  by (auto simp: set_instance_state_tx_def Let_def put_instance_wf split: sum.splits if_splits intro!: terminate_tx_wf)

lemma set_states_wf: "ec2_wf t \<Longrightarrow> set_states a region state is t = Inr (ws, t') \<Longrightarrow> ec2_wf t'"
proof (induction "is" arbitrary: t ws)
  case (Cons i "is")
  from Cons.prems(2) obtain was t1 ws1 where "set_instance_state_tx a region i state t = Inr (was, t1)"
    "set_states a region state is t1 = Inr (ws1, t')"
    by (auto simp: map_sum_Inr split: sum.splits)
  with Cons.IH Cons.prems(1) set_instance_state_tx_wf show ?case by blast
qed simp

lemma set_instance_state_keeps: "set_instance_state a region state is d = Inr (ws, d') \<Longrightarrow> ec2_keeps d d'"
  by (auto simp: set_instance_state_def Let_def map_sum_Inr intro!: ec2_keeps_drop ec2_keeps_tbls intro: set_states_wf)

lemma delete_instance_keeps: "ec2_keeps d (snd (delete_instance a region i d))"
  by (auto simp: delete_instance_def Let_def in_scope_def instance_pk_def owned_pk_def
      intro!: ec2_keeps_drop ec2_keeps_tbls instance_delete_wf)

text \<open>Key pairs and images.\<close>

lemma create_key_pair_keeps: "ec2_keeps d (snd (create_key_pair a k d))"
  by (auto simp: create_key_pair_def Let_def inserted ec2_wf_defs snocs key_pair_pk_def intro!: ec2_keeps_commit)

lemma delete_key_pair_keeps: "ec2_keeps d (snd (delete_key_pair a region name d))"
  by (auto simp: delete_key_pair_def Let_def intro!: ec2_keeps_drop ec2_keeps_tbls key_pairs_delete_wf)

lemma seed_ami_keeps: "ec2_keeps d (seed_ami a x d)"
  by (auto simp: seed_ami_def Let_def ec2_wf_defs intro!: ec2_keeps_tbls pk_upsert)

end
