(* ===== verification/Ec2Filters.thy ===== *)
theory Ec2Filters
  imports Ec2Wf Refs
begin

text \<open>
  The filters of EC2's Describe calls and the refusals of what fakeaws does not model
  (handlers/ec2_filters.go, ec2Refuse of handlers/ec2.go). A value too large for regexp.Compile, millions of
  wildcards, is left out; a character is a byte.
\<close>

section \<open>Answers\<close>

definition ec2_answer_error :: "go_error \<Rightarrow> response" where
  "ec2_answer_error = write_aws_error Shape_ec2_query"

definition ec2_bad :: "string \<Rightarrow> string \<Rightarrow> response" where
  "ec2_bad = write_service_error Shape_ec2_query 400"

text \<open>slices.Sorted and slices.Compact: each name once, in the order of the bytes.\<close>

definition sorted_names :: "string list \<Rightarrow> string list" where
  "sorted_names names = sort (remdups names)"

definition ec2_not_modelled :: string where
  "ec2_not_modelled = ''not modelled by fakeaws''"

definition ec2_refuse :: "string \<Rightarrow> string list \<Rightarrow> response" where
  "ec2_refuse action names = mark_class Filter_refused (write_service_error Shape_ec2_query 501 ''NotImplemented''
     (action @ '': '' @ ec2_not_modelled @ '': '' @ join_with '', '' (sorted_names names)))"

section \<open>Wildcards\<close>

datatype wild = Wild_char char | Wild_run | Wild_one

text \<open>ec2Wildcard: a star is any run of characters, a question mark zero or one, a backslash makes the next literal.\<close>

fun wild_parse :: "string \<Rightarrow> wild list" where
  "wild_parse [] = []"
| "wild_parse [c] = [if c = CHR ''*'' then Wild_run else if c = CHR ''?'' then Wild_one else Wild_char c]"
| "wild_parse (c # x # s) =
     (if c = CHR 0x5C then Wild_char x # wild_parse s
      else (if c = CHR ''*'' then Wild_run else if c = CHR ''?'' then Wild_one else Wild_char c) # wild_parse (x # s))"

fun wild_match :: "wild list \<Rightarrow> string \<Rightarrow> bool" where
  "wild_match [] s = (s = [])"
| "wild_match (Wild_char c # ps) [] = False"
| "wild_match (Wild_char c # ps) (x # s) = (x = c \<and> wild_match ps s)"
| "wild_match (Wild_one # ps) [] = wild_match ps []"
| "wild_match (Wild_one # ps) (x # s) = (wild_match ps (x # s) \<or> wild_match ps s)"
| "wild_match (Wild_run # ps) [] = wild_match ps []"
| "wild_match (Wild_run # ps) (x # s) = (wild_match ps (x # s) \<or> wild_match (Wild_run # ps) s)"

definition ec2_wildcard :: "string \<Rightarrow> string \<Rightarrow> bool" where
  "ec2_wildcard value s = wild_match (wild_parse value) s"

section \<open>Parsing\<close>

record ec2_filter =
  fi_n :: string
  fi_name :: string
  fi_values :: "string list"
  fi_unreadable :: bool

text \<open>What one param key says of the filter it belongs to: its N and the rest of the key.\<close>

definition filter_key :: "string \<Rightarrow> (string \<times> string) option" where
  "filter_key k =
     (if has_prefix k ''Filter.''
      then Some (case str_cut (trim_prefix k ''Filter.'') ''.'' of Some nf \<Rightarrow> nf | None \<Rightarrow> (trim_prefix k ''Filter.'', []))
      else None)"

definition read_filter_field :: "string \<Rightarrow> string list \<Rightarrow> ec2_filter \<Rightarrow> ec2_filter" where
  "read_filter_field field vs f =
     (if field = ''Name'' \<and> length vs = 1 then f\<lparr>fi_name := hd vs\<rparr>
      else if has_prefix field ''Value.'' \<and> ec2_is_index (trim_prefix field ''Value.'') then f\<lparr>fi_values := fi_values f @ vs\<rparr>
      else f\<lparr>fi_unreadable := True\<rparr>)"

definition read_filter :: "query_params \<Rightarrow> string \<Rightarrow> ec2_filter" where
  "read_filter p n =
     fold (\<lambda>(k, vs) f. case filter_key k of
         Some (m, field) \<Rightarrow> (if m = n then read_filter_field field vs f else f)
       | None \<Rightarrow> f) p \<lparr>fi_n = n, fi_name = [], fi_values = [], fi_unreadable = \<not> ec2_is_index n\<rparr>"

definition parse_ec2_filters :: "query_params \<Rightarrow> ec2_filter list" where
  "parse_ec2_filters p =
     map (read_filter p) (sort_key index_order (remdups (concat (map (\<lambda>(k, _). case filter_key k of Some (n, _) \<Rightarrow> [n] | None \<Rightarrow> []) p))))"

text \<open>A param by its shape, each list index written N.\<close>

definition ec2_param_name :: "string \<Rightarrow> string" where
  "ec2_param_name k = join_with ''.'' (map (\<lambda>s. if ec2_is_index s then ''N'' else s) (split_on (CHR ''.'') k))"

definition unread_params :: "query_params \<Rightarrow> string list \<Rightarrow> string list" where
  "unread_params p reads =
     filter (\<lambda>k. ec2_param_name k \<notin> set reads \<or> ''N'' \<in> set (split_on (CHR ''.'') k)) (map fst p)"

text \<open>The refusal of a call with params it does not read, None without any.\<close>

definition ec2_refuse_unread :: "query_request \<Rightarrow> string list \<Rightarrow> response option" where
  "ec2_refuse_unread req reads =
     (let keys = unread_params (qr_params req) reads
      in if keys = [] then None else Some (ec2_refuse (qr_action req) (map ec2_param_name keys)))"

section \<open>Filter tables\<close>

text \<open>The tags of an account's resources by id.\<close>

definition tag_sets :: "string \<Rightarrow> db \<Rightarrow> string \<Rightarrow> gomap" where
  "tag_sets account d i = map (\<lambda>t. (e_key t, e_value t)) (filter (\<lambda>t. e_resource_id t = i) (list_ec2_tags account [] d))"

record 'r filter_table =
  ft_values :: "(string \<times> ('r \<Rightarrow> string list)) list"
  ft_empty_is_value :: "string list"
  ft_tag_id :: "('r \<Rightarrow> string) option"

definition ec2_no_filters :: "unit filter_table" where
  "ec2_no_filters = \<lparr>ft_values = [], ft_empty_is_value = [], ft_tag_id = None\<rparr>"

text \<open>valuesFor: how the table reads a filter's values off a row; the empty text is no value but for a tag's.\<close>

definition tag_values :: "string \<Rightarrow> gomap \<Rightarrow> string list option" where
  "tag_values name tags =
     (if name = ''tag-key'' then Some (map fst tags)
      else if name = ''tag-value'' then Some (map snd tags)
      else if has_prefix name ''tag:'' \<and> trim_prefix name ''tag:'' \<noteq> []
      then Some (map snd (filter (\<lambda>t. fst t = trim_prefix name ''tag:'') tags))
      else None)"

definition values_for :: "'r filter_table \<Rightarrow> string \<Rightarrow> ('r \<Rightarrow> (string \<Rightarrow> gomap) \<Rightarrow> string list) option" where
  "values_for t name =
     (case map_of (ft_values t) name of
        Some get \<Rightarrow> Some (\<lambda>row tags. if name \<in> set (ft_empty_is_value t) then get row else filter (\<lambda>v. v \<noteq> []) (get row))
      | None \<Rightarrow> (case ft_tag_id t of
            None \<Rightarrow> None
          | Some tid \<Rightarrow> (if tag_values name [] = None then None
              else Some (\<lambda>row tags. case tag_values name (tags (tid row)) of None \<Rightarrow> [] | Some vs \<Rightarrow> vs))))"

definition unmodelled_filters :: "'r filter_table \<Rightarrow> ec2_filter list \<Rightarrow> string list" where
  "unmodelled_filters t fs = concat (map (\<lambda>f.
     if fi_name f = [] \<or> fi_values f = [] \<or> fi_unreadable f then [''Filter.'' @ fi_n f]
     else if values_for t (fi_name f) = None then [fi_name f] else []) fs)"

definition filter_passes :: "'r filter_table \<Rightarrow> 'r \<Rightarrow> (string \<Rightarrow> gomap) \<Rightarrow> ec2_filter \<Rightarrow> bool" where
  "filter_passes t row tags f =
     (case values_for t (fi_name f) of
        None \<Rightarrow> False
      | Some get \<Rightarrow> list_ex (\<lambda>v. list_ex (\<lambda>p. ec2_wildcard p v) (fi_values f)) (get row tags))"

definition matches_filters :: "'r filter_table \<Rightarrow> 'r \<Rightarrow> ec2_filter list \<Rightarrow> (string \<Rightarrow> gomap) \<Rightarrow> bool" where
  "matches_filters t row fs tags = list_all (filter_passes t row tags) fs"

definition unread_beside_filters :: "query_params \<Rightarrow> string list \<Rightarrow> string list" where
  "unread_beside_filters p reads =
     filter (\<lambda>k. \<not> has_prefix k ''Filter.'') (unread_params p (reads @ [''MaxResults'', ''NextToken'']))"

text \<open>refuse: the refusal of all that is not honoured, None without any.\<close>

definition refuse_filters :: "'r filter_table \<Rightarrow> string \<Rightarrow> ec2_filter list \<Rightarrow> string list \<Rightarrow> string list \<Rightarrow> response option" where
  "refuse_filters t action fs keys others =
     (let names = unmodelled_filters t fs @ others @ map ec2_param_name keys
      in if names = [] then None else Some (ec2_refuse action names))"

definition read_filters :: "'r filter_table \<Rightarrow> query_request \<Rightarrow> string list \<Rightarrow> response + ec2_filter list" where
  "read_filters t req reads =
     (let fs = parse_ec2_filters (qr_params req)
      in case refuse_filters t (qr_action req) fs (unread_beside_filters (qr_params req) reads) [] of
        Some r \<Rightarrow> Inl r
      | None \<Rightarrow> Inr fs)"

end
