(* ===== verification/Ec2Vpc.thy ===== *)
theory Ec2Vpc
  imports Ec2Filters Iam Gotime
begin

text \<open>
  EC2's networking on the wire (handlers/ec2.go): VPCs, subnets, availability zones, internet gateways, route
  tables, their associations and routes. A call is its params and account; a new id is 8 bytes of
  crypto/rand in hex, the reads numbered in the order the code makes them.
\<close>

section \<open>What the handlers share\<close>

definition ec2_rand_id :: "nat \<Rightarrow> env \<Rightarrow> string" where
  "ec2_rand_id i env = hex_encode (rand_read i env)"

definition has_param :: "query_params \<Rightarrow> string \<Rightarrow> bool" where
  "has_param p k \<longleftrightarrow> map_of p k \<noteq> None"

definition ec2_done :: "string \<Rightarrow> go_error option \<times> db \<Rightarrow> response \<times> db" where
  "ec2_done action res = (case res of
       (Some e, d') \<Rightarrow> (ec2_answer_error e, d')
     | (None, d') \<Rightarrow> (write_ec2_query action [], d'))"

definition ec2_no_op_success :: "string \<Rightarrow> response" where
  "ec2_no_op_success action = write_ec2_query action [leaf ''return'' ''true'']"

text \<open>refuseInvalidValues: the params in name order, the first with a value not among its own.\<close>

definition invalid_value_text :: "query_params \<Rightarrow> string \<Rightarrow> string list \<Rightarrow> string" where
  "invalid_value_text p param values = ''Value ('' @ form_get p param @ '') for parameter '' @ param @
     '' is invalid. Expected: '' @ CHR 0x27 # join_with [CHR 0x27, CHR '','', CHR '' '', CHR 0x27] values @ [CHR 0x27, CHR ''.'']"

definition refuse_invalid_values :: "query_params \<Rightarrow> (string \<times> string list) list \<Rightarrow> response option" where
  "refuse_invalid_values p values =
     map_option (\<lambda>(param, vs). ec2_bad ''InvalidParameterValue'' (invalid_value_text p param vs))
       (find (\<lambda>(param, vs). has_param p param \<and> form_get p param \<notin> set vs) (sort_key fst values))"

definition ec2_bool :: "string list" where
  "ec2_bool = [''true'', ''false'']"

definition quoted :: "string \<Rightarrow> string" where
  "quoted s = CHR 0x27 # s @ [CHR 0x27]"

text \<open>Tags of a call: parseTags, tagSpecifications (the first type the operation cannot tag) and onResource.\<close>

definition parse_ec2_tags :: "query_params \<Rightarrow> string \<Rightarrow> (string \<times> string) list" where
  "parse_ec2_tags p pre = map (\<lambda>it. (form_get p (it @ ''Key''), form_get p (it @ ''Value''))) (query_list_items p pre)"

definition tag_specifications :: "query_params \<Rightarrow> string list \<Rightarrow> string + (string \<Rightarrow> (string \<times> string) list)" where
  "tag_specifications p allowed =
     (let specs = map (\<lambda>spec. (form_get p (spec @ ''ResourceType''), parse_ec2_tags p (spec @ ''Tag.''))) (query_list_items p ''TagSpecification.'')
      in case find (\<lambda>(rt, _). rt \<notin> set allowed) specs of
        Some (rt, _) \<Rightarrow> Inl rt
      | None \<Rightarrow> Inr (\<lambda>rt. concat (map snd (filter (\<lambda>s. fst s = rt) specs))))"

definition refuse_tag_specifications :: "query_params \<Rightarrow> string list \<Rightarrow> response + (string \<Rightarrow> (string \<times> string) list)" where
  "refuse_tag_specifications p allowed = (case tag_specifications p allowed of
       Inl rt \<Rightarrow> Inl (ec2_bad ''InvalidParameterValue'' (quoted rt @ '' is not a valid taggable resource type for this operation.''))
     | Inr specs \<Rightarrow> Inr specs)"

definition on_resource :: "(string \<times> string) list \<Rightarrow> string \<Rightarrow> string \<Rightarrow> ec2_tag list" where
  "on_resource tags i kind = map (\<lambda>(k, v). \<lparr>e_resource_id = i, e_resource_type = kind, e_key = k, e_value = v\<rparr>) tags"

text \<open>tagNew: storing tags fails on database errors only, which do not occur, so nothing is undone.\<close>

definition tag_new :: "string \<Rightarrow> string \<Rightarrow> ec2_tag list \<Rightarrow> db \<Rightarrow> db" where
  "tag_new account region tags d = put_ec2_tags account region tags d"

definition tag_set_xml :: "gomap \<Rightarrow> xml list" where
  "tag_set_xml tags = map (\<lambda>(k, v). Elem ''item'' [leaf ''key'' k, leaf ''value'' v]) tags"

text \<open>A lookup of each id, the first that fails answering.\<close>

fun lookup_each :: "(string \<Rightarrow> 'a result) \<Rightarrow> (string \<Rightarrow> go_error \<Rightarrow> response) \<Rightarrow> string list \<Rightarrow> response + 'a list" where
  "lookup_each get failed [] = Inr []"
| "lookup_each get failed (i # is) = (case get i of
       Inl e \<Rightarrow> Inl (failed i e)
     | Inr x \<Rightarrow> map_sum id ((#) x) (lookup_each get failed is))"

definition describe_each :: "(string \<Rightarrow> 'a result) \<Rightarrow> (string \<Rightarrow> response) \<Rightarrow> string list \<Rightarrow> response + 'a list" where
  "describe_each get missing = lookup_each get (\<lambda>i e. if errors_is e ErrNotFound then missing i else ec2_answer_error e)"

section \<open>VPCs\<close>

definition new_ec2_vpc :: "env \<Rightarrow> string \<Rightarrow> string \<Rightarrow> string \<Rightarrow> string \<Rightarrow> ec2_vpc" where
  "new_ec2_vpc env account region i cidr =
     \<lparr>vp_id = i, vp_cidr = cidr, vp_region = region, vp_arn = ec2_arn ''vpc'' region account i, vp_state = ''available'',
      vp_created_at = rfc3339 (e_now env), vp_owner = account, vp_is_default = False, vp_dhcp = ''dopt-fakeaws-default'',
      vp_tenancy = ''default'',
      vp_assocs = [\<lparr>ca_id = ''vpc-cidr-assoc-'' @ i, ca_cidr = cidr, ca_state = ''associated'', ca_message = [], ca_pool = [],
        ca_border_group = [], ca_source = [], ca_attribute = []\<rparr>],
      vp_ipv6_assocs = [], vp_dns_support = True, vp_dns_hostnames = False\<rparr>"

definition new_ec2_security_group :: "env \<Rightarrow> nat \<Rightarrow> string \<Rightarrow> string \<Rightarrow> string \<Rightarrow> string \<Rightarrow> string \<Rightarrow> ec2_sg" where
  "new_ec2_security_group env i account region vpc name desc =
     (let gid = ''sg-'' @ ec2_rand_id i env
      in \<lparr>sg_id = gid, sg_vpc = vpc, sg_name = name, sg_description = desc, sg_region = region,
          sg_arn = ec2_arn ''security-group'' region account gid, sg_created_at = rfc3339 (e_now env), sg_owner = account\<rparr>)"

definition new_default_group :: "env \<Rightarrow> nat \<Rightarrow> string \<Rightarrow> string \<Rightarrow> string \<Rightarrow> ec2_sg" where
  "new_default_group env i account region vpc =
     new_ec2_security_group env i account region vpc default_group_name ''default VPC security group''"

definition new_ec2_route_table :: "env \<Rightarrow> nat \<Rightarrow> string \<Rightarrow> string \<Rightarrow> string \<Rightarrow> ec2_rtb" where
  "new_ec2_route_table env i account region vpc =
     (let rid = ''rtb-'' @ ec2_rand_id i env
      in \<lparr>rt_id = rid, rt_vpc = vpc, rt_region = region, rt_arn = ec2_arn ''route-table'' region account rid,
          rt_created_at = rfc3339 (e_now env), rt_owner = account\<rparr>)"

text \<open>The association's VPC is the repository's to fill.\<close>

definition new_main_route_table :: "env \<Rightarrow> nat \<Rightarrow> string \<Rightarrow> string \<Rightarrow> string \<Rightarrow> main_route_table" where
  "new_main_route_table env i account region vpc =
     (let rt = new_ec2_route_table env i account region vpc
      in \<lparr>mr_table = rt, mr_assoc = \<lparr>as_id = ''rtbassoc-'' @ ec2_rand_id (Suc i) env, as_rtb = rt_id rt, as_vpc = [],
            as_subnet = [], as_gateway = [], as_main = True, as_state = ''associated''\<rparr>\<rparr>)"

definition cidr_block_state :: "string \<Rightarrow> cidr_assoc \<Rightarrow> xml" where
  "cidr_block_state name a = Elem name (leaf ''state'' (ca_state a) # leaf_omitempty ''statusMessage'' (ca_message a))"

definition vpc_to_xml :: "ec2_vpc \<Rightarrow> gomap \<Rightarrow> xml list" where
  "vpc_to_xml v tags =
     [leaf ''vpcId'' (vp_id v), leaf ''state'' (vp_state v), leaf ''cidrBlock'' (vp_cidr v), leaf ''dhcpOptionsId'' (vp_dhcp v),
      leaf ''instanceTenancy'' (vp_tenancy v), leaf ''ownerId'' (vp_owner v), leaf ''isDefault'' (bool_text (vp_is_default v)),
      Elem ''cidrBlockAssociationSet'' (map (\<lambda>a. Elem ''item'' [leaf ''associationId'' (ca_id a), leaf ''cidrBlock'' (ca_cidr a),
        cidr_block_state ''cidrBlockState'' a]) (vp_assocs v)),
      Elem ''ipv6CidrBlockAssociationSet'' (map (\<lambda>a. Elem ''item'' ([leaf ''associationId'' (ca_id a), leaf ''ipv6CidrBlock'' (ca_cidr a),
        cidr_block_state ''ipv6CidrBlockState'' a] @ leaf_omitempty ''ipv6Pool'' (ca_pool a) @
        leaf_omitempty ''networkBorderGroup'' (ca_border_group a) @ leaf_omitempty ''ipSource'' (ca_source a) @
        leaf_omitempty ''ipv6AddressAttribute'' (ca_attribute a))) (vp_ipv6_assocs v)),
      Elem ''tagSet'' (tag_set_xml tags)]"

definition ec2_create_vpc :: "env \<Rightarrow> string \<Rightarrow> string \<Rightarrow> query_request \<Rightarrow> db \<Rightarrow> response \<times> db" where
  "ec2_create_vpc env account region req d =
     (let p = qr_params req; cidr = form_get p ''CidrBlock''
      in if cidr = [] then (ec2_refuse (qr_action req) [''no CidrBlock''], d)
         else case refuse_tag_specifications p [''vpc''] of
           Inl r \<Rightarrow> (r, d)
         | Inr specs \<Rightarrow>
             (let i = ''vpc-'' @ ec2_rand_id 0 env; v = new_ec2_vpc env account region i cidr
              in case create_vpc_with_defaults account v (new_default_group env 1 account region i)
                        (new_main_route_table env 2 account region i) d of
                (Some e, d') \<Rightarrow> (ec2_answer_error e, d')
              | (None, d') \<Rightarrow> (write_ec2_query ''CreateVpc'' [Elem ''vpc'' (vpc_to_xml v [])],
                   tag_new account region (on_resource (specs ''vpc'') i ''vpc'') d')))"

definition vpc_filters :: "ec2_vpc filter_table" where
  "vpc_filters = \<lparr>ft_values =
     [(''vpc-id'', \<lambda>v. [vp_id v]), (''cidr'', \<lambda>v. [vp_cidr v]), (''state'', \<lambda>v. [vp_state v]), (''owner-id'', \<lambda>v. [vp_owner v]),
      (''cidr-block-association.cidr-block'', \<lambda>v. map ca_cidr (vp_assocs v)),
      (''is-default'', \<lambda>v. [bool_text (vp_is_default v)]), (''isDefault'', \<lambda>v. [bool_text (vp_is_default v)])],
     ft_empty_is_value = [], ft_tag_id = Some vp_id\<rparr>"

definition ec2_describe_vpcs :: "string \<Rightarrow> string \<Rightarrow> query_request \<Rightarrow> db \<Rightarrow> response" where
  "ec2_describe_vpcs account region req d = (case read_filters vpc_filters req [''VpcId.N''] of
       Inl r \<Rightarrow> r
     | Inr fs \<Rightarrow>
         (let ids = query_ids (qr_params req) ''VpcId.''; tags = tag_sets account d
          in case (if ids = [] then Inr (list_vpcs account region d)
                   else describe_each (\<lambda>i. get_vpc account region i d)
                     (\<lambda>i. ec2_bad ''InvalidVpcID.NotFound'' (''The vpc ID '' @ quoted i @ '' does not exist'')) ids) of
            Inl r \<Rightarrow> r
          | Inr vs \<Rightarrow> write_ec2_query ''DescribeVpcs'' [Elem ''vpcSet''
              (map (\<lambda>v. Elem ''item'' (vpc_to_xml v (tags (vp_id v)))) (filter (\<lambda>v. matches_filters vpc_filters v fs tags) vs))]))"

definition ec2_vpc_dns_attributes :: "string list" where
  "ec2_vpc_dns_attributes = [''enableDnsSupport'', ''enableDnsHostnames'']"

definition vpc_dns :: "ec2_vpc \<Rightarrow> string \<Rightarrow> bool" where
  "vpc_dns v attr = (if attr = ''enableDnsSupport'' then vp_dns_support v else vp_dns_hostnames v)"

definition vpc_dns_param :: "string \<Rightarrow> string" where
  "vpc_dns_param attr = upper (take 1 attr) @ drop 1 attr @ ''.Value''"

definition ec2_bool_value :: "string \<Rightarrow> bool \<Rightarrow> xml" where
  "ec2_bool_value name b = Elem name [leaf ''value'' (bool_text b)]"

definition ec2_vpc_attribute :: "ec2_vpc \<Rightarrow> string \<Rightarrow> xml list" where
  "ec2_vpc_attribute v attr = leaf ''vpcId'' (vp_id v) #
     (if attr \<in> set ec2_vpc_dns_attributes then [ec2_bool_value attr (vpc_dns v attr)]
      else if attr = ''enableNetworkAddressUsageMetrics'' then [ec2_bool_value attr False] else [])"

definition ec2_describe_vpc_attribute :: "string \<Rightarrow> string \<Rightarrow> query_request \<Rightarrow> db \<Rightarrow> response" where
  "ec2_describe_vpc_attribute account region req d =
     (case get_vpc account region (form_get (qr_params req) ''VpcId'') d of
        Inl e \<Rightarrow> ec2_answer_error e
      | Inr v \<Rightarrow> write_ec2_query ''DescribeVpcAttribute'' (ec2_vpc_attribute v (form_get (qr_params req) ''Attribute'')))"

definition set_vpc_dns :: "query_params \<Rightarrow> ec2_vpc \<Rightarrow> ec2_vpc" where
  "set_vpc_dns p v =
     (let read = (\<lambda>attr old. if has_param p (vpc_dns_param attr) then form_get p (vpc_dns_param attr) = ''true'' else old)
      in v\<lparr>vp_dns_support := read ''enableDnsSupport'' (vp_dns_support v), vp_dns_hostnames := read ''enableDnsHostnames'' (vp_dns_hostnames v)\<rparr>)"

definition both_dns_text :: string where
  "both_dns_text = ''You cannot modify the DNS resolution and DNS hostnames attributes in the same request. Use separate requests for each attribute.''"

definition dns_hostnames_text :: string where
  "dns_hostnames_text = ''You can only enable DNS hostnames if you'' @ CHR 0x27 # ''ve enabled DNS support.''"

definition ec2_modify_vpc_attribute :: "string \<Rightarrow> string \<Rightarrow> query_request \<Rightarrow> db \<Rightarrow> response \<times> db" where
  "ec2_modify_vpc_attribute account region req d =
     (let p = qr_params req; support = vpc_dns_param ''enableDnsSupport''; hostnames = vpc_dns_param ''enableDnsHostnames''
      in case refuse_invalid_values p (map (\<lambda>attr. (vpc_dns_param attr, ec2_bool)) ec2_vpc_dns_attributes) of
        Some r \<Rightarrow> (r, d)
      | None \<Rightarrow>
          (if has_param p support \<and> has_param p hostnames then (ec2_bad ''InvalidParameterValue'' both_dns_text, d)
           else case get_vpc account region (form_get p ''VpcId'') d of
             Inl e \<Rightarrow> (ec2_answer_error e, d)
           | Inr v \<Rightarrow>
               (if form_get p hostnames = ''true'' \<and> \<not> vp_dns_support v
                then (ec2_bad ''InvalidParameterValue'' dns_hostnames_text, d)
                else ec2_done ''ModifyVpcAttribute'' (update_vpc account region (vp_id v) (set_vpc_dns p) d))))"

definition ec2_delete_vpc :: "string \<Rightarrow> string \<Rightarrow> query_request \<Rightarrow> db \<Rightarrow> response \<times> db" where
  "ec2_delete_vpc account region req d = ec2_done ''DeleteVpc'' (delete_vpc account region (form_get (qr_params req) ''VpcId'') d)"

section \<open>Availability zones\<close>

definition ec2_fixed_zone_letters :: string where
  "ec2_fixed_zone_letters = ''abc''"

definition ec2_zones :: "string \<Rightarrow> string \<Rightarrow> db \<Rightarrow> ec2_zone list \<times> (string \<Rightarrow> string)" where
  "ec2_zones account region d =
     (if \<not> db_loaded d
      then (map (\<lambda>c. \<lparr>az_region = region, az_name = region @ [c], az_id = [], az_state = ''available'',
               az_opt_in = ''opt-in-not-required'', az_type = ''availability-zone'', az_group = region, az_border_group = region\<rparr>)
             ec2_fixed_zone_letters, \<lambda>zone. zone @ ''-az1'')
      else (let zones = list_availability_zones account region d
            in (zones, \<lambda>zone. case map_of (rev (map (\<lambda>z. (az_name z, az_id z)) zones)) zone of Some i \<Rightarrow> i | None \<Rightarrow> [])))"

text \<open>ec2ZoneToXML: the zone as answered, with its id.\<close>

definition zone_answered :: "(string \<Rightarrow> string) \<Rightarrow> ec2_zone \<Rightarrow> ec2_zone" where
  "zone_answered zone_id z = z\<lparr>az_id := zone_id (az_name z)\<rparr>"

definition zone_to_xml :: "ec2_zone \<Rightarrow> xml" where
  "zone_to_xml z = Elem ''item'' [leaf ''zoneName'' (az_name z), leaf ''zoneId'' (az_id z), leaf ''zoneState'' (az_state z),
     leaf ''regionName'' (az_region z), leaf ''optInStatus'' (az_opt_in z), leaf ''zoneType'' (az_type z),
     leaf ''groupName'' (az_group z), leaf ''networkBorderGroup'' (az_border_group z)]"

definition zone_filters :: "ec2_zone filter_table" where
  "zone_filters = \<lparr>ft_values =
     [(''zone-name'', \<lambda>z. [az_name z]), (''zone-id'', \<lambda>z. [az_id z]), (''state'', \<lambda>z. [az_state z]),
      (''region-name'', \<lambda>z. [az_region z]), (''opt-in-status'', \<lambda>z. [az_opt_in z]), (''zone-type'', \<lambda>z. [az_type z]),
      (''group-name'', \<lambda>z. [az_group z]), (''network-border-group'', \<lambda>z. [az_border_group z])],
     ft_empty_is_value = [], ft_tag_id = None\<rparr>"

definition refuse_unknown_zone :: "string list \<Rightarrow> string list \<Rightarrow> string \<Rightarrow> response option" where
  "refuse_unknown_zone wanted known what =
     map_option (\<lambda>v. ec2_bad ''InvalidParameterValue'' (''The '' @ what @ CHR '' '' # quoted v @ '' does not exist.''))
       (find (\<lambda>v. v \<notin> set known) wanted)"

definition ec2_describe_availability_zones :: "string \<Rightarrow> string \<Rightarrow> query_request \<Rightarrow> db \<Rightarrow> response" where
  "ec2_describe_availability_zones account region req d =
     (case read_filters zone_filters req [''ZoneName.N'', ''ZoneId.N'', ''AllAvailabilityZones''] of
        Inl r \<Rightarrow> r
      | Inr fs \<Rightarrow> (case refuse_invalid_values (qr_params req) [(''AllAvailabilityZones'', ec2_bool)] of
          Some r \<Rightarrow> r
        | None \<Rightarrow>
            (let (zones, zone_id) = ec2_zones account region d; xs = map (zone_answered zone_id) zones;
                 names = query_list_values (qr_params req) ''ZoneName.''; ids = query_list_values (qr_params req) ''ZoneId.'';
                 everything = (form_get (qr_params req) ''AllAvailabilityZones'' = ''true'');
                 shown = filter (\<lambda>x. (everything \<or> az_opt_in x \<noteq> ''not-opted-in'') \<and> (names = [] \<or> az_name x \<in> set names) \<and>
                   (ids = [] \<or> az_id x \<in> set ids) \<and> matches_filters zone_filters x fs (\<lambda>_. [])) xs;
                 answer = write_ec2_query (qr_action req) [Elem ''availabilityZoneInfo'' (map zone_to_xml shown)]
             in if zones = [] then mark_class Empty_collection answer
                else case refuse_unknown_zone names (map az_name xs) ''zone'' of
                  Some r \<Rightarrow> r
                | None \<Rightarrow> (case refuse_unknown_zone ids (map az_id xs) ''zone ID'' of Some r \<Rightarrow> r | None \<Rightarrow> answer))))"

section \<open>Subnets\<close>

text \<open>1 << (32 - bits) on 64-bit ints: a prefix between /16 and /28 loses no bits.\<close>

definition subnet_available_ips :: "string \<Rightarrow> int" where
  "subnet_available_ips cidr = (case parse_prefix cidr of
       None \<Rightarrow> 251
     | Some p \<Rightarrow> (if px_bits p < 16 \<or> px_bits p > 28 then 251 else 2 ^ (32 - px_bits p) - 5))"

definition new_ec2_subnet :: "env \<Rightarrow> string \<Rightarrow> string \<Rightarrow> string \<Rightarrow> string \<Rightarrow> string \<Rightarrow> string \<Rightarrow> ec2_subnet" where
  "new_ec2_subnet env account region i vpc cidr az =
     \<lparr>sn_id = i, sn_vpc = vpc, sn_cidr = cidr, sn_zone = az, sn_region = region, sn_arn = ec2_arn ''subnet'' region account i,
      sn_state = ''available'', sn_created_at = rfc3339 (e_now env), sn_map_public = False, sn_owner = account,
      sn_available = subnet_available_ips cidr, sn_default_for_az = False, sn_assign_ipv6 = False, sn_customer_owned = Some False,
      sn_dns64 = Some False, sn_ipv6_native = Some False, sn_lni_index = None, sn_customer_pool = [], sn_outpost = [],
      sn_ipv6_assocs = [], sn_dns_options = Some \<lparr>pd_hostname_type = ''ip-name'', pd_a_record = False, pd_aaaa_record = False\<rparr>\<rparr>"

definition leaf_opt :: "string \<Rightarrow> string option \<Rightarrow> xml list" where
  "leaf_opt n v = (case v of None \<Rightarrow> [] | Some s \<Rightarrow> [leaf n s])"

definition subnet_to_xml :: "(string \<Rightarrow> string) \<Rightarrow> ec2_subnet \<Rightarrow> gomap \<Rightarrow> xml list" where
  "subnet_to_xml zone_id s tags =
     [leaf ''subnetId'' (sn_id s), leaf ''vpcId'' (sn_vpc s), leaf ''state'' (sn_state s), leaf ''cidrBlock'' (sn_cidr s),
      leaf ''availabilityZone'' (sn_zone s), leaf ''availabilityZoneId'' (zone_id (sn_zone s)),
      leaf ''availableIpAddressCount'' (show_int (sn_available s)), leaf ''ownerId'' (sn_owner s), leaf ''subnetArn'' (sn_arn s),
      leaf ''defaultForAz'' (bool_text (sn_default_for_az s)), leaf ''mapPublicIpOnLaunch'' (bool_text (sn_map_public s))] @
     leaf_opt ''mapCustomerOwnedIpOnLaunch'' (map_option bool_text (sn_customer_owned s)) @
     [leaf ''assignIpv6AddressOnCreation'' (bool_text (sn_assign_ipv6 s))] @
     leaf_opt ''enableDns64'' (map_option bool_text (sn_dns64 s)) @
     leaf_opt ''ipv6Native'' (map_option bool_text (sn_ipv6_native s)) @
     leaf_opt ''enableLniAtDeviceIndex'' (map_option show_int (sn_lni_index s)) @
     leaf_omitempty ''customerOwnedIpv4Pool'' (sn_customer_pool s) @ leaf_omitempty ''outpostArn'' (sn_outpost s) @
     [Elem ''ipv6CidrBlockAssociationSet'' (map (\<lambda>a. Elem ''item'' [leaf ''associationId'' (ca_id a), leaf ''ipv6CidrBlock'' (ca_cidr a),
        cidr_block_state ''ipv6CidrBlockState'' a]) (sn_ipv6_assocs s))] @
     (case sn_dns_options s of None \<Rightarrow> []
      | Some opt \<Rightarrow> [Elem ''privateDnsNameOptionsOnLaunch'' [leaf ''hostnameType'' (pd_hostname_type opt),
          leaf ''enableResourceNameDnsARecord'' (bool_text (pd_a_record opt)),
          leaf ''enableResourceNameDnsAAAARecord'' (bool_text (pd_aaaa_record opt))]]) @
     [Elem ''tagSet'' (tag_set_xml tags)]"

definition subnet_cidr_in_range :: "string \<Rightarrow> string \<Rightarrow> bool" where
  "subnet_cidr_in_range vpc_cidr cidr =
     (case (parse_prefix vpc_cidr, parse_prefix cidr) of
        (Some vpc, Some sub) \<Rightarrow> 16 \<le> px_bits sub \<and> px_bits sub \<le> 28 \<and> px_bits vpc \<le> px_bits sub \<and> prefix_contains vpc (px_addr sub)
      | _ \<Rightarrow> False)"

definition subnet_zone :: "query_params \<Rightarrow> string \<Rightarrow> ec2_zone list \<Rightarrow> (string \<Rightarrow> string) \<Rightarrow> string option" where
  "subnet_zone p region zones zone_id =
     (let az = form_get p ''AvailabilityZone''; or_first = (\<lambda>z. if z = [] then region @ ''a'' else z)
      in if has_param p ''AvailabilityZoneId'' then
           (case find (\<lambda>z. zone_id (az_name z) = form_get p ''AvailabilityZoneId'') zones of
              None \<Rightarrow> None
            | Some z \<Rightarrow> (if az \<noteq> [] \<and> az \<noteq> az_name z then None else Some (or_first (az_name z))))
         else Some (or_first az))"

definition ec2_create_subnet :: "env \<Rightarrow> string \<Rightarrow> string \<Rightarrow> query_request \<Rightarrow> db \<Rightarrow> response \<times> db" where
  "ec2_create_subnet env account region req d =
     (let p = qr_params req; vpc_id = form_get p ''VpcId''; cidr = form_get p ''CidrBlock''
      in if vpc_id = [] \<or> cidr = [] then (ec2_refuse (qr_action req) [''no VpcId or CidrBlock''], d)
         else case get_vpc account region vpc_id d of
           Inl e \<Rightarrow> (ec2_answer_error e, d)
         | Inr vpc \<Rightarrow>
             (if \<not> subnet_cidr_in_range (vp_cidr vpc) cidr
              then (ec2_bad ''InvalidSubnet.Range'' (''The CIDR '' @ quoted cidr @ '' is invalid.''), d)
              else let (zones, zone_id) = ec2_zones account region d in
                case subnet_zone p region zones zone_id of
                  None \<Rightarrow> (ec2_refuse (qr_action req) [''AvailabilityZoneId''], d)
                | Some az \<Rightarrow> (case refuse_tag_specifications p [''subnet''] of
                    Inl r \<Rightarrow> (r, d)
                  | Inr specs \<Rightarrow>
                      (let i = ''subnet-'' @ ec2_rand_id 0 env; s = new_ec2_subnet env account region i vpc_id cidr az
                       in case create_subnet account s d of
                         (Some Err_subnet_conflict, d') \<Rightarrow>
                           (ec2_bad ''InvalidSubnet.Conflict'' (''The CIDR '' @ quoted cidr @ '' conflicts with another subnet''), d')
                       | (Some e, d') \<Rightarrow> (ec2_answer_error (ec2_go_error e), d')
                       | (None, d') \<Rightarrow> (write_ec2_query ''CreateSubnet'' [Elem ''subnet'' (subnet_to_xml zone_id s [])],
                           tag_new account region (on_resource (specs ''subnet'') i ''subnet'') d')))))"

text \<open>A subnet as answered, with the id of its zone.\<close>

definition subnet_filters :: "(string \<Rightarrow> string) \<Rightarrow> ec2_subnet filter_table" where
  "subnet_filters zone_id = \<lparr>ft_values =
     [(''subnet-id'', \<lambda>s. [sn_id s]), (''vpc-id'', \<lambda>s. [sn_vpc s]), (''state'', \<lambda>s. [sn_state s]), (''owner-id'', \<lambda>s. [sn_owner s]),
      (''cidr-block'', \<lambda>s. [sn_cidr s]), (''cidr'', \<lambda>s. [sn_cidr s]), (''cidrBlock'', \<lambda>s. [sn_cidr s]),
      (''availability-zone'', \<lambda>s. [sn_zone s]), (''availabilityZone'', \<lambda>s. [sn_zone s]),
      (''availability-zone-id'', \<lambda>s. [zone_id (sn_zone s)]), (''availabilityZoneId'', \<lambda>s. [zone_id (sn_zone s)]),
      (''default-for-az'', \<lambda>s. [bool_text (sn_default_for_az s)]), (''defaultForAz'', \<lambda>s. [bool_text (sn_default_for_az s)]),
      (''map-public-ip-on-launch'', \<lambda>s. [bool_text (sn_map_public s)])],
     ft_empty_is_value = [], ft_tag_id = Some sn_id\<rparr>"

definition ec2_subnet_not_found :: string where
  "ec2_subnet_not_found = ''InvalidSubnetID.NotFound''"

definition ec2_describe_subnets :: "string \<Rightarrow> string \<Rightarrow> query_request \<Rightarrow> db \<Rightarrow> response" where
  "ec2_describe_subnets account region req d =
     (let (zones, zone_id) = ec2_zones account region d; ft = subnet_filters zone_id
      in case read_filters ft req [''SubnetId.N''] of
        Inl r \<Rightarrow> r
      | Inr fs \<Rightarrow>
          (let ids = query_list_values (qr_params req) ''SubnetId.''; subnets = list_subnets account region d; tags = tag_sets account d
           in case find (\<lambda>i. i \<notin> set (map sn_id subnets)) ids of
             Some i \<Rightarrow> ec2_bad ec2_subnet_not_found (''The subnet ID '' @ quoted i @ '' does not exist'')
           | None \<Rightarrow> write_ec2_query ''DescribeSubnets'' [Elem ''subnetSet'' (map (\<lambda>s. Elem ''item'' (subnet_to_xml zone_id s (tags (sn_id s))))
               (filter (\<lambda>s. (ids = [] \<or> sn_id s \<in> set ids) \<and> matches_filters ft s fs tags) subnets))]))"

definition ec2_modify_subnet_attribute :: "string \<Rightarrow> string \<Rightarrow> query_request \<Rightarrow> db \<Rightarrow> response \<times> db" where
  "ec2_modify_subnet_attribute account region req d =
     (let p = qr_params req; v = form_get p ''MapPublicIpOnLaunch.Value''
      in case update_subnet account region (form_get p ''SubnetId'')
                (\<lambda>s. if v \<noteq> [] then s\<lparr>sn_map_public := (v = ''true'')\<rparr> else s) d of
        (Some e, d') \<Rightarrow> (ec2_answer_error e, d')
      | (None, d') \<Rightarrow> (ec2_no_op_success ''ModifySubnetAttribute'', d'))"

text \<open>The terminated instances of the subnet go first, as AWS drops them in time.\<close>

definition purge_terminated :: "string \<Rightarrow> string \<Rightarrow> string \<Rightarrow> db \<Rightarrow> db" where
  "purge_terminated account region subnet d =
     fold (\<lambda>x d. snd (delete_instance account region (in_id x) d))
       (filter (\<lambda>x. in_subnet x = subnet \<and> in_state x = ''terminated'') (list_instances account region d)) d"

definition ec2_delete_subnet :: "string \<Rightarrow> string \<Rightarrow> query_request \<Rightarrow> db \<Rightarrow> response \<times> db" where
  "ec2_delete_subnet account region req d =
     (let subnet = form_get (qr_params req) ''SubnetId''
      in ec2_done ''DeleteSubnet'' (delete_subnet account region subnet (purge_terminated account region subnet d)))"

section \<open>Internet gateways\<close>

definition igw_to_xml :: "ec2_igw \<Rightarrow> gomap \<Rightarrow> xml list" where
  "igw_to_xml g tags = [leaf ''internetGatewayId'' (gw_id g), leaf ''ownerId'' (gw_owner g),
     Elem ''attachmentSet'' (if gw_vpc g = [] then [] else [Elem ''item'' [leaf ''vpcId'' (gw_vpc g), leaf ''state'' (gw_state g)]]),
     Elem ''tagSet'' (tag_set_xml tags)]"

definition new_ec2_igw :: "env \<Rightarrow> string \<Rightarrow> string \<Rightarrow> ec2_igw" where
  "new_ec2_igw env account region =
     (let i = ''igw-'' @ ec2_rand_id 0 env
      in \<lparr>gw_id = i, gw_vpc = [], gw_region = region, gw_arn = ec2_arn ''internet-gateway'' region account i,
          gw_created_at = rfc3339 (e_now env), gw_owner = account, gw_state = []\<rparr>)"

definition ec2_create_internet_gateway :: "env \<Rightarrow> string \<Rightarrow> string \<Rightarrow> query_request \<Rightarrow> db \<Rightarrow> response \<times> db" where
  "ec2_create_internet_gateway env account region req d =
     (case refuse_tag_specifications (qr_params req) [''internet-gateway''] of
        Inl r \<Rightarrow> (r, d)
      | Inr specs \<Rightarrow>
          (let g = new_ec2_igw env account region
           in case create_internet_gateway account g d of
             (Some e, d') \<Rightarrow> (ec2_answer_error e, d')
           | (None, d') \<Rightarrow> (write_ec2_query ''CreateInternetGateway'' [Elem ''internetGateway'' (igw_to_xml g [])],
               tag_new account region (on_resource (specs ''internet-gateway'') (gw_id g) ''internet-gateway'') d')))"

text \<open>A detached gateway has no attachment.\<close>

definition igw_filters :: "ec2_igw filter_table" where
  "igw_filters = \<lparr>ft_values =
     [(''internet-gateway-id'', \<lambda>g. [gw_id g]), (''owner-id'', \<lambda>g. [gw_owner g]),
      (''attachment.vpc-id'', \<lambda>g. if gw_vpc g = [] then [] else [gw_vpc g]),
      (''attachment.state'', \<lambda>g. if gw_vpc g = [] then [] else [gw_state g])],
     ft_empty_is_value = [], ft_tag_id = Some gw_id\<rparr>"

definition ec2_describe_internet_gateways :: "string \<Rightarrow> string \<Rightarrow> query_request \<Rightarrow> db \<Rightarrow> response" where
  "ec2_describe_internet_gateways account region req d = (case read_filters igw_filters req [''InternetGatewayId.N''] of
       Inl r \<Rightarrow> r
     | Inr fs \<Rightarrow>
         (let ids = query_ids (qr_params req) ''InternetGatewayId.''; tags = tag_sets account d
          in case (if ids = [] then Inr (list_internet_gateways account region d)
                   else describe_each (\<lambda>i. get_internet_gateway account region i d)
                     (\<lambda>i. ec2_bad ''InvalidInternetGatewayID.NotFound'' (''The internetGateway ID '' @ quoted i @ '' does not exist'')) ids) of
            Inl r \<Rightarrow> r
          | Inr gs \<Rightarrow> write_ec2_query ''DescribeInternetGateways'' [Elem ''internetGatewaySet''
              (map (\<lambda>g. Elem ''item'' (igw_to_xml g (tags (gw_id g)))) (filter (\<lambda>g. matches_filters igw_filters g fs tags) gs))]))"

text \<open>A missing param: the error wraps ErrConflict under a text of its own.\<close>

definition ec2_required :: "string \<Rightarrow> response" where
  "ec2_required what = ec2_answer_error (ErrWrap ErrConflict (what @ '' required: '' @ error_text ErrConflict))"

definition ec2_attach_internet_gateway :: "string \<Rightarrow> string \<Rightarrow> query_request \<Rightarrow> db \<Rightarrow> response \<times> db" where
  "ec2_attach_internet_gateway account region req d =
     (let igw = form_get (qr_params req) ''InternetGatewayId''; vpc = form_get (qr_params req) ''VpcId''
      in if igw = [] \<or> vpc = [] then (ec2_required ''InternetGatewayId and VpcId'', d)
         else ec2_done ''AttachInternetGateway'' (attach_internet_gateway account region igw vpc d))"

definition ec2_detach_internet_gateway :: "string \<Rightarrow> string \<Rightarrow> query_request \<Rightarrow> db \<Rightarrow> response \<times> db" where
  "ec2_detach_internet_gateway account region req d =
     ec2_done ''DetachInternetGateway'' (detach_internet_gateway account region (form_get (qr_params req) ''InternetGatewayId'') d)"

definition ec2_delete_internet_gateway :: "string \<Rightarrow> string \<Rightarrow> query_request \<Rightarrow> db \<Rightarrow> response \<times> db" where
  "ec2_delete_internet_gateway account region req d =
     ec2_done ''DeleteInternetGateway'' (delete_internet_gateway account region (form_get (qr_params req) ''InternetGatewayId'') d)"

section \<open>Route tables\<close>

definition association_to_xml :: "ec2_assoc \<Rightarrow> xml" where
  "association_to_xml a = Elem ''item'' ([leaf ''routeTableAssociationId'' (as_id a), leaf ''routeTableId'' (as_rtb a)] @
     leaf_omitempty ''subnetId'' (as_subnet a) @ leaf_omitempty ''gatewayId'' (as_gateway a) @ [leaf ''main'' (bool_text (as_main a))] @
     (if as_state a = [] then [] else [Elem ''associationState'' [leaf ''state'' (as_state a)]]))"

definition route_to_xml :: "ec2_route \<Rightarrow> xml" where
  "route_to_xml x = Elem ''item'' (leaf ''destinationCidrBlock'' (rx_dest x) # leaf_omitempty ''gatewayId'' (rx_gateway x) @
     leaf_omitempty ''natGatewayId'' (rx_nat x) @ leaf_omitempty ''instanceId'' (rx_instance x) @
     leaf_omitempty ''networkInterfaceId'' (rx_eni x) @ [leaf ''state'' (rx_state x), leaf ''origin'' (rx_origin x)])"

text \<open>A table as answered: with its routes and associations.\<close>

type_synonym rtb_answered = "ec2_rtb \<times> ec2_route list \<times> ec2_assoc list"

definition route_table_to_xml :: "rtb_answered \<Rightarrow> gomap \<Rightarrow> xml list" where
  "route_table_to_xml x tags = (case x of (rt, routes, assocs) \<Rightarrow>
     [leaf ''routeTableId'' (rt_id rt), leaf ''vpcId'' (rt_vpc rt), leaf ''ownerId'' (rt_owner rt),
      Elem ''routeSet'' (map route_to_xml routes), Elem ''associationSet'' (map association_to_xml assocs),
      Elem ''tagSet'' (tag_set_xml tags)])"

definition rtb_answer :: "string \<Rightarrow> db \<Rightarrow> ec2_rtb \<Rightarrow> rtb_answered" where
  "rtb_answer account d rt = (rt, filter (\<lambda>x. rx_rtb x = rt_id rt) (list_routes account d),
     filter (\<lambda>a. as_rtb a = rt_id rt) (list_associations account d))"

definition ec2_create_route_table :: "env \<Rightarrow> string \<Rightarrow> string \<Rightarrow> query_request \<Rightarrow> db \<Rightarrow> response \<times> db" where
  "ec2_create_route_table env account region req d =
     (let p = qr_params req; vpc = form_get p ''VpcId''
      in if vpc = [] then (ec2_required ''VpcId'', d)
         else case refuse_tag_specifications p [''route-table''] of
           Inl r \<Rightarrow> (r, d)
         | Inr specs \<Rightarrow>
             (let rt = new_ec2_route_table env 0 account region vpc
              in case create_route_table account rt d of
                (Some e, d') \<Rightarrow> (ec2_answer_error e, d')
              | (None, d') \<Rightarrow> (write_ec2_query ''CreateRouteTable'' [Elem ''routeTable'' (route_table_to_xml (rt, [], []) [])],
                  tag_new account region (on_resource (specs ''route-table'') (rt_id rt) ''route-table'') d')))"

definition rt_filters :: "rtb_answered filter_table" where
  "rt_filters = \<lparr>ft_values =
     [(''route-table-id'', \<lambda>(rt, _). [rt_id rt]), (''vpc-id'', \<lambda>(rt, _). [rt_vpc rt]),
      (''association.subnet-id'', \<lambda>(_, _, assocs). map as_subnet assocs),
      (''association.route-table-association-id'', \<lambda>(_, _, assocs). map as_id assocs),
      (''association.main'', \<lambda>(_, _, assocs). map (\<lambda>a. bool_text (as_main a)) assocs)],
     ft_empty_is_value = [], ft_tag_id = Some (\<lambda>(rt, _). rt_id rt)\<rparr>"

definition rtb_missing :: "string \<Rightarrow> response" where
  "rtb_missing i = write_service_error Shape_ec2_query 404 ''InvalidRouteTableID.NotFound''
     (''The route table ID '' @ quoted i @ '' does not exist'')"

definition ec2_describe_route_tables :: "string \<Rightarrow> string \<Rightarrow> query_request \<Rightarrow> db \<Rightarrow> response" where
  "ec2_describe_route_tables account region req d = (case read_filters rt_filters req [''RouteTableId.N''] of
       Inl r \<Rightarrow> r
     | Inr fs \<Rightarrow>
         (let wanted = query_ids (qr_params req) ''RouteTableId.''; tags = tag_sets account d
          in case (if wanted = [] then Inr (list_route_tables account region d)
                   else describe_each (\<lambda>i. get_route_table account region i d) rtb_missing wanted) of
            Inl r \<Rightarrow> r
          | Inr rts \<Rightarrow> write_ec2_query ''DescribeRouteTables'' [Elem ''routeTableSet''
              (map (\<lambda>x. Elem ''item'' (route_table_to_xml x (tags (rt_id (fst x)))))
                (filter (\<lambda>x. matches_filters rt_filters x fs tags) (map (rtb_answer account d) rts)))]))"

definition ec2_delete_route_table :: "string \<Rightarrow> string \<Rightarrow> query_request \<Rightarrow> db \<Rightarrow> response \<times> db" where
  "ec2_delete_route_table account region req d =
     (let i = form_get (qr_params req) ''RouteTableId''
      in case delete_route_table account region i d of
        (Some Err_main_route_table, d') \<Rightarrow>
          (ec2_bad ''DependencyViolation'' (''The routeTable '' @ quoted i @ '' has dependencies and cannot be deleted.''), d')
      | (Some e, d') \<Rightarrow> (ec2_answer_error (ec2_go_error e), d')
      | (None, d') \<Rightarrow> (write_ec2_query ''DeleteRouteTable'' [], d'))"

definition ec2_associate_route_table :: "env \<Rightarrow> string \<Rightarrow> string \<Rightarrow> query_request \<Rightarrow> db \<Rightarrow> response \<times> db" where
  "ec2_associate_route_table env account region req d =
     (let rtb = form_get (qr_params req) ''RouteTableId''; subnet = form_get (qr_params req) ''SubnetId'';
          a = \<lparr>as_id = ''rtbassoc-'' @ ec2_rand_id 0 env, as_rtb = rtb, as_vpc = [], as_subnet = subnet, as_gateway = [],
               as_main = False, as_state = ''associated''\<rparr>
      in if rtb = [] \<or> subnet = [] then (ec2_refuse (qr_action req) [''no RouteTableId or SubnetId''], d)
         else case associate_route_table account region a d of
           (Some e, d') \<Rightarrow> (ec2_answer_error e, d')
         | (None, d') \<Rightarrow> (write_ec2_query ''AssociateRouteTable'' [leaf ''associationId'' (as_id a)], d'))"

definition ec2_disassociate_route_table :: "string \<Rightarrow> query_request \<Rightarrow> db \<Rightarrow> response \<times> db" where
  "ec2_disassociate_route_table account req d =
     (let i = form_get (qr_params req) ''AssociationId''
      in case disassociate_route_table account i d of
        (Some Err_main_association, d') \<Rightarrow>
          (ec2_bad ''InvalidParameterValue'' (''cannot disassociate the main route table association '' @ i), d')
      | (Some e, d') \<Rightarrow> (ec2_answer_error (ec2_go_error e), d')
      | (None, d') \<Rightarrow> (write_ec2_query ''DisassociateRouteTable'' [], d'))"

definition ec2_create_route :: "string \<Rightarrow> string \<Rightarrow> query_request \<Rightarrow> db \<Rightarrow> response \<times> db" where
  "ec2_create_route account region req d =
     (let p = qr_params req;
          x = \<lparr>rx_rtb = form_get p ''RouteTableId'', rx_dest = form_get p ''DestinationCidrBlock'', rx_gateway = form_get p ''GatewayId'',
               rx_nat = form_get p ''NatGatewayId'', rx_instance = form_get p ''InstanceId'', rx_eni = form_get p ''NetworkInterfaceId'',
               rx_origin = ''CreateRoute'', rx_state = ''active''\<rparr>
      in if rx_rtb x = [] \<or> rx_dest x = [] then (ec2_refuse (qr_action req) [''no RouteTableId or DestinationCidrBlock''], d)
         else case create_route account region x d of
           (Some e, d') \<Rightarrow> (ec2_answer_error e, d')
         | (None, d') \<Rightarrow> (write_ec2_query ''CreateRoute'' [leaf ''return'' ''true''], d'))"

definition ec2_delete_route :: "string \<Rightarrow> string \<Rightarrow> query_request \<Rightarrow> db \<Rightarrow> response \<times> db" where
  "ec2_delete_route account region req d =
     (let rtb = form_get (qr_params req) ''RouteTableId''; dest = form_get (qr_params req) ''DestinationCidrBlock''
      in case delete_route account region rtb dest d of
        (Some Err_local_route, d') \<Rightarrow>
          (ec2_bad ''InvalidParameterValue'' (''cannot remove local route '' @ dest @ '' in route table '' @ rtb), d')
      | (Some e, d') \<Rightarrow> (ec2_answer_error (ec2_go_error e), d')
      | (None, d') \<Rightarrow> (write_ec2_query ''DeleteRoute'' [], d'))"

end
