(* ===== verification/Ec2Addr.thy ===== *)
theory Ec2Addr
  imports Ec2Vpc
begin

text \<open>
  Elastic IPs on the wire (handlers/ec2.go): the addresses of the test net 203.0.113.0/24, their association
  with an instance's primary interface or an interface named directly.
\<close>

section \<open>What an address derives from\<close>

definition ec2_eip_net :: string where
  "ec2_eip_net = ''203.0.113.''"

definition ec2_auto_ip_net :: string where
  "ec2_auto_ip_net = ''192.0.2.''"

text \<open>A byte mask is the remainder by 256, and the sum stays below it, so no int overflows.\<close>

definition ip_sum :: "string \<Rightarrow> int" where
  "ip_sum i = fold (\<lambda>b sum. (sum * 31 + of_char b) mod 256) i 0"

definition ec2_derive_public_ip :: "string \<Rightarrow> string \<Rightarrow> string" where
  "ec2_derive_public_ip net i = net @ show_int (ip_sum i)"

section \<open>Lookups\<close>

text \<open>enisByInstance of the account's interfaces: the last of an instance's interfaces, in id order.\<close>

definition instance_enis :: "string \<Rightarrow> db \<Rightarrow> string \<Rightarrow> ec2_eni option" where
  "instance_enis account d i = find (\<lambda>x. ni_instance x = i) (rev (list_network_interfaces account [] d))"

definition write_instance_error :: "string \<Rightarrow> go_error \<Rightarrow> response" where
  "write_instance_error i e =
     (if errors_is e ErrNotFound then ec2_bad ''InvalidInstanceID.NotFound'' (''The instance ID '' @ quoted i @ '' does not exist'')
      else ec2_answer_error e)"

definition eni_not_found_text :: "string \<Rightarrow> string" where
  "eni_not_found_text i = ''The networkInterface ID '' @ quoted i @ '' does not exist''"

definition write_eni_not_found :: "string \<Rightarrow> response" where
  "write_eni_not_found i = write_service_error Shape_ec2_query 404 ''InvalidNetworkInterfaceID.NotFound'' (eni_not_found_text i)"

definition write_eip_error :: "string \<Rightarrow> go_error \<Rightarrow> response" where
  "write_eip_error i e =
     (if errors_is e ErrNotFound then ec2_bad ''InvalidAllocationID.NotFound'' (''The allocation ID '' @ quoted i @ '' does not exist'')
      else if errors_is e ErrInUse then ec2_bad ''InvalidIPAddress.InUse'' (''Address '' @ quoted i @ '' is in use.'')
      else ec2_answer_error e)"

definition ec2_find_addresses :: "string \<Rightarrow> string \<Rightarrow> query_request \<Rightarrow> db \<Rightarrow> response + ec2_eip list" where
  "ec2_find_addresses account region req d =
     (let ids = query_ids (qr_params req) ''AllocationId.''
      in if ids = [] then Inr (list_eips account region d)
         else lookup_each (\<lambda>i. get_eip account region i d) write_eip_error ids)"

section \<open>Allocation\<close>

definition address_to_xml :: "string \<Rightarrow> ec2_eip \<Rightarrow> gomap \<Rightarrow> xml" where
  "address_to_xml account e tags = Elem ''item''
     ([leaf ''allocationId'' (ei_id e), leaf ''publicIp'' (ei_public_ip e), leaf ''domain'' (ei_domain e)] @
      leaf_omitempty ''associationId'' (ei_assoc e) @ leaf_omitempty ''instanceId'' (ei_instance e) @
      leaf_omitempty ''networkInterfaceId'' (ei_eni e) @
      leaf_omitempty ''networkInterfaceOwnerId'' (if ei_eni e \<noteq> [] then account else []) @
      leaf_omitempty ''privateIpAddress'' (ei_private_ip e) @ leaf_omitempty ''publicIpv4Pool'' (ei_pool e) @
      leaf_omitempty ''networkBorderGroup'' (ei_border_group e) @ [Elem ''tagSet'' (tag_set_xml tags)])"

definition new_ec2_eip :: "env \<Rightarrow> string \<Rightarrow> ec2_eip" where
  "new_ec2_eip env region =
     (let i = ''eipalloc-'' @ ec2_rand_id 0 env
      in \<lparr>ei_id = i, ei_domain = ''vpc'', ei_public_ip = ec2_derive_public_ip ec2_eip_net i, ei_eni = [], ei_instance = [],
          ei_assoc = [], ei_private_ip = [], ei_pool = [], ei_border_group = [], ei_region = region, ei_created_at = rfc3339 (e_now env)\<rparr>)"

definition ec2_allocate_address :: "env \<Rightarrow> string \<Rightarrow> string \<Rightarrow> query_request \<Rightarrow> db \<Rightarrow> response \<times> db" where
  "ec2_allocate_address env account region req d =
     (let domain = form_get (qr_params req) ''Domain''
      in if domain \<noteq> [] \<and> domain \<noteq> ''vpc'' then (ec2_refuse (qr_action req) [''Domain='' @ domain], d)
         else case refuse_tag_specifications (qr_params req) [''elastic-ip''] of
           Inl r \<Rightarrow> (r, d)
         | Inr specs \<Rightarrow> (case create_eip account (new_ec2_eip env region) d of
               Inl e \<Rightarrow> (ec2_answer_error e, d)
             | Inr (e, d') \<Rightarrow> (write_ec2_query ''AllocateAddress''
                   [leaf ''allocationId'' (ei_id e), leaf ''publicIp'' (ei_public_ip e), leaf ''domain'' (ei_domain e)],
                 tag_new account region (on_resource (specs ''elastic-ip'') (ei_id e) ''elastic-ip'') d')))"

definition address_filters :: "ec2_eip filter_table" where
  "address_filters = \<lparr>ft_values =
     [(''association-id'', \<lambda>e. [ei_assoc e]), (''allocation-id'', \<lambda>e. [ei_id e]), (''domain'', \<lambda>e. [ei_domain e]),
      (''public-ip'', \<lambda>e. [ei_public_ip e]), (''instance-id'', \<lambda>e. [ei_instance e]),
      (''network-interface-id'', \<lambda>e. [ei_eni e]), (''private-ip-address'', \<lambda>e. [ei_private_ip e])],
     ft_empty_is_value = [], ft_tag_id = Some ei_id\<rparr>"

definition ec2_describe_addresses :: "string \<Rightarrow> string \<Rightarrow> query_request \<Rightarrow> db \<Rightarrow> response" where
  "ec2_describe_addresses account region req d =
     (case read_filters address_filters req [''AllocationId.N'', ''PublicIp.N''] of
        Inl r \<Rightarrow> r
      | Inr fs \<Rightarrow> (case ec2_find_addresses account region req d of
          Inl r \<Rightarrow> r
        | Inr eips \<Rightarrow>
            (let ips = query_list_values (qr_params req) ''PublicIp.''; tags = tag_sets account d
             in case find (\<lambda>ip. ip \<notin> set (map ei_public_ip eips)) ips of
               Some ip \<Rightarrow> ec2_bad ''InvalidAddress.NotFound'' (''Address '' @ quoted ip @ '' not found.'')
             | None \<Rightarrow> write_ec2_query ''DescribeAddresses'' [Elem ''addressesSet''
                 (map (\<lambda>e. address_to_xml account e (tags (ei_id e)))
                   (filter (\<lambda>e. (ips = [] \<or> ei_public_ip e \<in> set ips) \<and> matches_filters address_filters e fs tags) eips))])))"

definition ec2_describe_addresses_attribute :: "string \<Rightarrow> string \<Rightarrow> query_request \<Rightarrow> db \<Rightarrow> response" where
  "ec2_describe_addresses_attribute account region req d = (case ec2_find_addresses account region req d of
       Inl r \<Rightarrow> r
     | Inr eips \<Rightarrow> write_ec2_query ''DescribeAddressesAttribute'' [Elem ''addressSet''
         (map (\<lambda>e. Elem ''item'' [leaf ''allocationId'' (ei_id e), leaf ''publicIp'' (ei_public_ip e)]) eips)])"

definition ec2_release_address :: "string \<Rightarrow> string \<Rightarrow> query_request \<Rightarrow> db \<Rightarrow> response \<times> db" where
  "ec2_release_address account region req d =
     (let i = form_get (qr_params req) ''AllocationId''
      in case delete_eip account region i d of
        (Some e, d') \<Rightarrow> (write_eip_error i e, d')
      | (None, d') \<Rightarrow> (write_ec2_query ''ReleaseAddress'' [], d'))"

section \<open>Association\<close>

definition named_interface :: "string \<Rightarrow> string \<Rightarrow> string \<Rightarrow> string \<Rightarrow> db \<Rightarrow> response + ec2_eni" where
  "named_interface account region instance eni d = (case get_network_interface account region eni d of
       Inl e \<Rightarrow> Inl (if errors_is e ErrNotFound then ec2_bad ''InvalidNetworkInterfaceID.NotFound'' (eni_not_found_text eni)
          else ec2_answer_error e)
     | Inr x \<Rightarrow> (if instance \<noteq> [] \<and> instance \<noteq> ni_instance x
         then Inl (ec2_bad ''InvalidParameterCombination'' (''Network interface '' @ eni @ '' is not attached to instance '' @ instance))
         else Inr x))"

definition primary_interface :: "string \<Rightarrow> string \<Rightarrow> string \<Rightarrow> db \<Rightarrow> response + ec2_eni" where
  "primary_interface account region instance d = (case get_instance account region instance d of
       Inl e \<Rightarrow> Inl (write_instance_error instance e)
     | Inr _ \<Rightarrow> (case instance_enis account d instance of
         None \<Rightarrow> Inl (ec2_bad ''InvalidInstanceID'' (''The instance '' @ quoted instance @ '' is not in a valid state for this operation''))
       | Some x \<Rightarrow> Inr x))"

definition association_target :: "string \<Rightarrow> string \<Rightarrow> query_request \<Rightarrow> db \<Rightarrow> response + ec2_eni" where
  "association_target account region req d =
     (let instance = form_get (qr_params req) ''InstanceId''; eni = form_get (qr_params req) ''NetworkInterfaceId''
      in if eni \<noteq> [] then named_interface account region instance eni d
         else if instance = [] then Inl (ec2_bad ''MissingParameter'' ''Either an instance ID or a network interface ID must be specified'')
         else primary_interface account region instance d)"

text \<open>The address and the interface as their association leaves them.\<close>

definition eip_on :: "string \<Rightarrow> ec2_eni \<Rightarrow> ec2_eip \<Rightarrow> ec2_eip" where
  "eip_on assoc x e = e\<lparr>ei_assoc := assoc, ei_instance := ni_instance x, ei_eni := ni_id x, ei_private_ip := ni_private_ip x\<rparr>"

definition eni_with_eip :: "ec2_eip \<Rightarrow> ec2_eni \<Rightarrow> ec2_eni" where
  "eni_with_eip e x = x\<lparr>ni_public_ip := ei_public_ip e\<rparr>"

definition associate_answer :: "string \<Rightarrow> string \<Rightarrow> ec2_eip \<Rightarrow> ec2_eni \<Rightarrow> go_error option \<times> db \<Rightarrow> response \<times> db" where
  "associate_answer i assoc e x res = (case res of
       (Some err, d') \<Rightarrow> (if errors_is err ErrConflict
          then ec2_bad ''Resource.AlreadyAssociated''
            (''resource '' @ i @ '' or network interface '' @ ni_id x @ '' is already associated with an Elastic IP'')
          else write_eip_error i err, d')
     | (None, d') \<Rightarrow> (write_ec2_query ''AssociateAddress'' [leaf ''associationId'' assoc], d'))"

definition ec2_associate_address :: "env \<Rightarrow> string \<Rightarrow> string \<Rightarrow> query_request \<Rightarrow> db \<Rightarrow> response \<times> db" where
  "ec2_associate_address env account region req d =
     (let p = qr_params req; i = form_get p ''AllocationId''; ip = form_get p ''PrivateIpAddress''; assoc = ''eipassoc-'' @ ec2_rand_id 0 env
      in case get_eip account region i d of
        Inl e \<Rightarrow> (write_eip_error i e, d)
      | Inr e \<Rightarrow> (case association_target account region req d of
          Inl r \<Rightarrow> (r, d)
        | Inr x \<Rightarrow>
            (if ip \<noteq> [] \<and> ip \<noteq> ni_private_ip x
             then (ec2_bad ''InvalidParameterValue'' (''The private IP address '' @ ip @ '' is not assigned to network interface '' @ ni_id x), d)
             else if form_get p ''AllowReassociation'' = ''true'' then (ec2_refuse (qr_action req) [''AllowReassociation''], d)
             else associate_answer i assoc e x (associate_eip account (eip_on assoc x e) (eni_with_eip e x) d))))"

definition eni_without_eip :: "ec2_eni \<Rightarrow> ec2_eni" where
  "eni_without_eip x = x\<lparr>ni_public_ip := (if ni_auto_public x then ec2_derive_public_ip ec2_auto_ip_net (ni_id x) else [])\<rparr>"

definition ec2_disassociate_address :: "string \<Rightarrow> string \<Rightarrow> query_request \<Rightarrow> db \<Rightarrow> response \<times> db" where
  "ec2_disassociate_address account region req d =
     (let assoc = form_get (qr_params req) ''AssociationId''
      in case find (\<lambda>e. assoc \<noteq> [] \<and> ei_assoc e = assoc) (list_eips account region d) of
        None \<Rightarrow> (ec2_bad ''InvalidAssociationID.NotFound'' (''The association ID '' @ quoted assoc @ '' does not exist''), d)
      | Some e \<Rightarrow> (case get_network_interface account region (ei_eni e) d of
          Inl err \<Rightarrow> (ec2_answer_error err, d)
        | Inr x \<Rightarrow> ec2_done ''DisassociateAddress'' (disassociate_eip account (eip_cleared e) (Some (eni_without_eip x)) d)))"

end
