(* ===== verification/Ec2Sg.thy ===== *)
theory Ec2Sg
  imports Ec2Addr
begin

text \<open>
  Security groups and their rules on the wire (handlers/ec2.go): permissions as Query-RPC params, the checks
  EC2 makes of them, and rules gathered back into the permissions they were sent as.
\<close>

section \<open>Permissions\<close>

text \<open>A source is its key and description; a group pair has a user beside its group.\<close>

record ec2_permission =
  pe_protocol :: string
  pe_from :: int
  pe_to :: int
  pe_v4 :: "(string \<times> string) list"
  pe_v6 :: "(string \<times> string) list"
  pe_groups :: "(string \<times> string \<times> string) list"
  pe_lists :: "(string \<times> string) list"

definition bare_rule :: "bool \<Rightarrow> ec2_permission \<Rightarrow> ec2_rule" where
  "bare_rule egress p =
     \<lparr>ru_id = [], ru_region = [], ru_group = [], ru_owner = [], ru_egress = egress, ru_perm_ord = 0, ru_src_ord = 0,
      ru_protocol = pe_protocol p, ru_from = pe_from p, ru_to = pe_to p, ru_v4 = [], ru_v6 = [], ru_prefix_list = [],
      ru_ref_group = [], ru_ref_user = [], ru_description = []\<rparr>"

definition permission_rules :: "bool \<Rightarrow> ec2_permission \<Rightarrow> ec2_rule list" where
  "permission_rules egress p =
     map (\<lambda>(c, t). (bare_rule egress p)\<lparr>ru_v4 := c, ru_description := t\<rparr>) (pe_v4 p) @
     map (\<lambda>(c, t). (bare_rule egress p)\<lparr>ru_v6 := c, ru_description := t\<rparr>) (pe_v6 p) @
     map (\<lambda>(g, u, t). (bare_rule egress p)\<lparr>ru_ref_group := g, ru_ref_user := u, ru_description := t\<rparr>) (pe_groups p) @
     map (\<lambda>(l, t). (bare_rule egress p)\<lparr>ru_prefix_list := l, ru_description := t\<rparr>) (pe_lists p)"

definition sg_rules :: "bool \<Rightarrow> ec2_permission list \<Rightarrow> ec2_rule list" where
  "sg_rules egress ps = concat (map (permission_rules egress) ps)"

text \<open>A rule's source goes to the list of its kind, a group's when it is no other.\<close>

definition rule_permission :: "ec2_rule \<Rightarrow> ec2_permission" where
  "rule_permission x = \<lparr>pe_protocol = ru_protocol x, pe_from = ru_from x, pe_to = ru_to x, pe_v4 = [], pe_v6 = [], pe_groups = [], pe_lists = []\<rparr>"

definition add_source :: "ec2_rule \<Rightarrow> ec2_permission \<Rightarrow> ec2_permission" where
  "add_source x p =
     (if ru_v4 x \<noteq> [] then p\<lparr>pe_v4 := pe_v4 p @ [(ru_v4 x, ru_description x)]\<rparr>
      else if ru_v6 x \<noteq> [] then p\<lparr>pe_v6 := pe_v6 p @ [(ru_v6 x, ru_description x)]\<rparr>
      else if ru_prefix_list x \<noteq> [] then p\<lparr>pe_lists := pe_lists p @ [(ru_prefix_list x, ru_description x)]\<rparr>
      else p\<lparr>pe_groups := pe_groups p @ [(ru_ref_group x, ru_ref_user x, ru_description x)]\<rparr>)"

definition opens_permission :: "ec2_rule option \<Rightarrow> ec2_rule \<Rightarrow> bool" where
  "opens_permission prev x = (case prev of None \<Rightarrow> True
     | Some y \<Rightarrow> ru_egress y \<noteq> ru_egress x \<or> ru_perm_ord y \<noteq> ru_perm_ord x)"

definition add_rule :: "ec2_rule option \<Rightarrow> ec2_rule \<Rightarrow> ec2_permission list \<Rightarrow> ec2_permission list" where
  "add_rule prev x ps =
     (let qs = (if opens_permission prev x then ps @ [rule_permission x] else ps)
      in butlast qs @ [add_source x (last qs)])"

fun gather_rules :: "ec2_rule option \<Rightarrow> ec2_rule list \<Rightarrow> ec2_permission list \<times> ec2_permission list \<Rightarrow>
    ec2_permission list \<times> ec2_permission list" where
  "gather_rules prev [] acc = acc"
| "gather_rules prev (x # xs) (ins, egs) =
     gather_rules (Some x) xs (if ru_egress x then (ins, add_rule prev x egs) else (add_rule prev x ins, egs))"

definition sg_permissions :: "ec2_rule list \<Rightarrow> ec2_permission list \<times> ec2_permission list" where
  "sg_permissions xs = gather_rules None xs ([], [])"

section \<open>Parsing\<close>

definition has_param_under :: "query_params \<Rightarrow> string \<Rightarrow> bool" where
  "has_param_under p pre = list_ex (\<lambda>(k, _). has_prefix k pre) p"

text \<open>keyedItems: the items with their key, and the params of those without.\<close>

definition keyed_items :: "query_params \<Rightarrow> string \<Rightarrow> string \<Rightarrow> string list" where
  "keyed_items p lst key = filter (\<lambda>it. form_get p (it @ key) \<noteq> []) (query_list_items p lst)"

definition keyless_params :: "query_params \<Rightarrow> string \<Rightarrow> string \<Rightarrow> string list" where
  "keyless_params p lst key =
     concat (map (\<lambda>it. map (\<lambda>(k, _). ec2_param_name k) (filter (\<lambda>(k, _). has_prefix k it) p))
       (filter (\<lambda>it. form_get p (it @ key) = []) (query_list_items p lst)))"

definition described_items :: "query_params \<Rightarrow> string \<Rightarrow> string \<Rightarrow> (string \<times> string) list" where
  "described_items p lst key = map (\<lambda>it. (form_get p (it @ key), form_get p (it @ ''Description''))) (keyed_items p lst key)"

definition parse_ip_permission :: "query_params \<Rightarrow> string \<Rightarrow> ec2_permission" where
  "parse_ip_permission p base =
     \<lparr>pe_protocol = form_get p (base @ ''IpProtocol''), pe_from = atoi_value (form_get p (base @ ''FromPort'')),
      pe_to = atoi_value (form_get p (base @ ''ToPort'')), pe_v4 = described_items p (base @ ''IpRanges.'') ''CidrIp'',
      pe_v6 = described_items p (base @ ''Ipv6Ranges.'') ''CidrIpv6'',
      pe_groups = map (\<lambda>it. (form_get p (it @ ''GroupId''), form_get p (it @ ''UserId''), form_get p (it @ ''Description'')))
        (keyed_items p (base @ ''Groups.'') ''GroupId''),
      pe_lists = described_items p (base @ ''PrefixListIds.'') ''PrefixListId''\<rparr>"

definition permission_keyless :: "query_params \<Rightarrow> string \<Rightarrow> string list" where
  "permission_keyless p base =
     concat (map (\<lambda>(l, key). keyless_params p (base @ l) key)
       [(''IpRanges.'', ''CidrIp''), (''Ipv6Ranges.'', ''CidrIpv6''), (''Groups.'', ''GroupId''), (''PrefixListIds.'', ''PrefixListId'')])"

definition parse_ip_permissions :: "query_params \<Rightarrow> ec2_permission list \<times> string list" where
  "parse_ip_permissions p =
     (let bases = query_list_items p ''IpPermissions.''
      in (map (parse_ip_permission p) bases, concat (map (permission_keyless p) bases)))"

definition sourceless :: "ec2_permission \<Rightarrow> bool" where
  "sourceless q \<longleftrightarrow> pe_v4 q = [] \<and> pe_v6 q = [] \<and> pe_groups q = [] \<and> pe_lists q = []"

definition read_ip_permissions :: "query_request \<Rightarrow> response + ec2_permission list" where
  "read_ip_permissions req =
     (let (ps, keyless) = parse_ip_permissions (qr_params req)
      in if ps = [] then Inl (ec2_refuse (qr_action req) [''no IpPermissions.N''])
         else if keyless \<noteq> [] then Inl (ec2_refuse (qr_action req) keyless)
         else if list_ex sourceless ps then Inl (ec2_refuse (qr_action req) [''IpPermissions.N with no source''])
         else Inr ps)"

section \<open>Checks\<close>

definition ec2_all_protocols :: string where
  "ec2_all_protocols = ''-1''"

definition tcp_udp_port_problem :: "ec2_permission \<Rightarrow> string option" where
  "tcp_udp_port_problem q =
     (case find (\<lambda>(_, port). port < 0 \<or> port > 65535) [(''from'', pe_from q), (''to'', pe_to q)] of
        Some (name, port) \<Rightarrow> Some (''TCP/UDP ('' @ name @ '') port ('' @ show_int port @ '') out of range'')
      | None \<Rightarrow> (if pe_from q > pe_to q
          then Some (''Invalid port range '' @ show_int (pe_from q) @ ''-'' @ show_int (pe_to q) @ '' for protocol '' @
            quoted (pe_protocol q) @ '': the from port is greater than the to port'')
          else None))"

definition icmp_problem :: "ec2_permission \<Rightarrow> string option" where
  "icmp_problem q =
     (if pe_from q < -1 \<or> pe_from q > 255 then Some (''ICMP type ('' @ show_int (pe_from q) @ '') out of range'')
      else if pe_to q < -1 \<or> pe_to q > 255 then Some (''ICMP code ('' @ show_int (pe_to q) @ '') out of range'')
      else if pe_from q = -1 \<and> pe_to q \<noteq> -1
      then Some (''ICMP code ('' @ show_int (pe_to q) @ '') must be -1 when the ICMP type is -1 (all types)'')
      else None)"

definition ec2_port_protocols :: "(string \<times> (ec2_permission \<Rightarrow> string option)) list" where
  "ec2_port_protocols =
     [(''tcp'', tcp_udp_port_problem), (''udp'', tcp_udp_port_problem), (''6'', tcp_udp_port_problem), (''17'', tcp_udp_port_problem),
      (''icmp'', icmp_problem), (''icmpv6'', icmp_problem), (''1'', icmp_problem), (''58'', icmp_problem)]"

definition cidr_malformed :: "(ip_addr \<Rightarrow> bool) \<Rightarrow> string \<Rightarrow> bool" where
  "cidr_malformed ok cidr = (case parse_prefix cidr of None \<Rightarrow> True | Some p \<Rightarrow> \<not> ok (px_addr p))"

definition protocol_problem :: "ec2_permission \<Rightarrow> string option" where
  "protocol_problem q = (case map_of ec2_port_protocols (lower (pe_protocol q)) of
       Some check \<Rightarrow> check q
     | None \<Rightarrow> (if pe_protocol q = ec2_all_protocols then None
         else case parse_int (pe_protocol q) of
           Some n \<Rightarrow> (if n < 0 \<or> n > 255 then Some (''Invalid value '' @ quoted (pe_protocol q) @ '' for IP protocol. Unknown protocol.'') else None)
         | None \<Rightarrow> Some (''Invalid value '' @ quoted (pe_protocol q) @ '' for IP protocol. Unknown protocol.'')))"

definition ip_permission_problem :: "ec2_permission \<Rightarrow> string option" where
  "ip_permission_problem q =
     (case find (cidr_malformed addr_is4) (map fst (pe_v4 q)) of
        Some c \<Rightarrow> Some (''CIDR block '' @ c @ '' is malformed'')
      | None \<Rightarrow> (case find (cidr_malformed (\<lambda>a. \<not> addr_is4 a)) (map fst (pe_v6 q)) of
          Some c \<Rightarrow> Some (''CIDR block '' @ c @ '' is malformed'')
        | None \<Rightarrow> protocol_problem q))"

fun refuse_group_pairs :: "string \<Rightarrow> string \<Rightarrow> (string \<times> string \<times> string) list \<Rightarrow> db \<Rightarrow> response option" where
  "refuse_group_pairs account region [] d = None"
| "refuse_group_pairs account region ((g, u, t) # gs) d =
     (if u \<noteq> [] \<and> u \<noteq> account then refuse_group_pairs account region gs d
      else case get_security_group account region g d of
        Inl e \<Rightarrow> Some (if errors_is e ErrNotFound
           then ec2_bad ''InvalidGroup.NotFound'' (''The security group '' @ quoted g @ '' does not exist'') else ec2_answer_error e)
      | Inr _ \<Rightarrow> refuse_group_pairs account region gs d)"

fun refuse_ip_permissions :: "string \<Rightarrow> string \<Rightarrow> ec2_permission list \<Rightarrow> db \<Rightarrow> response option" where
  "refuse_ip_permissions account region [] d = None"
| "refuse_ip_permissions account region (q # qs) d = (case ip_permission_problem q of
       Some msg \<Rightarrow> Some (ec2_bad ''InvalidParameterValue'' msg)
     | None \<Rightarrow> (case refuse_group_pairs account region (pe_groups q) d of
         Some r \<Rightarrow> Some r
       | None \<Rightarrow> refuse_ip_permissions account region qs d))"

section \<open>Answers\<close>

definition described_xml :: "string \<Rightarrow> string \<times> string \<Rightarrow> xml" where
  "described_xml name s = Elem ''item'' (leaf name (fst s) # leaf_omitempty ''description'' (snd s))"

text \<open>An all-traffic permission has no ports, an all-traffic rule the ports -1.\<close>

definition permission_to_xml :: "ec2_permission \<Rightarrow> xml" where
  "permission_to_xml q = Elem ''item'' ([leaf ''ipProtocol'' (pe_protocol q)] @
     (if pe_protocol q \<noteq> ec2_all_protocols then [leaf ''fromPort'' (show_int (pe_from q)), leaf ''toPort'' (show_int (pe_to q))] else []) @
     [Elem ''ipRanges'' (map (described_xml ''cidrIp'') (pe_v4 q)), Elem ''ipv6Ranges'' (map (described_xml ''cidrIpv6'') (pe_v6 q)),
      Elem ''groups'' (map (\<lambda>(g, u, t). Elem ''item'' (leaf ''groupId'' g # leaf_omitempty ''userId'' u @ leaf_omitempty ''description'' t)) (pe_groups q)),
      Elem ''prefixListIds'' (map (described_xml ''prefixListId'') (pe_lists q))])"

definition security_group_to_xml :: "ec2_sg \<Rightarrow> ec2_permission list \<times> ec2_permission list \<Rightarrow> gomap \<Rightarrow> xml" where
  "security_group_to_xml g ps tags = Elem ''item''
     ([leaf ''groupId'' (sg_id g), leaf ''groupName'' (sg_name g), leaf ''groupDescription'' (sg_description g), leaf ''vpcId'' (sg_vpc g),
       leaf ''ownerId'' (sg_owner g)] @ leaf_omitempty ''securityGroupArn'' (sg_arn g) @
      [Elem ''ipPermissions'' (map permission_to_xml (fst ps)), Elem ''ipPermissionsEgress'' (map permission_to_xml (snd ps)),
       Elem ''tagSet'' (tag_set_xml tags)])"

definition rule_port :: "ec2_rule \<Rightarrow> int \<Rightarrow> string" where
  "rule_port x port = show_int (if ru_protocol x = ec2_all_protocols then - 1 else port)"

definition rule_to_xml :: "ec2_rule \<Rightarrow> gomap \<Rightarrow> xml" where
  "rule_to_xml x tags = Elem ''item''
     ([leaf ''securityGroupRuleId'' (ru_id x), leaf ''groupId'' (ru_group x), leaf ''groupOwnerId'' (ru_owner x),
       leaf ''isEgress'' (bool_text (ru_egress x)), leaf ''ipProtocol'' (ru_protocol x), leaf ''fromPort'' (rule_port x (ru_from x)),
       leaf ''toPort'' (rule_port x (ru_to x))] @ leaf_omitempty ''cidrIpv4'' (ru_v4 x) @ leaf_omitempty ''cidrIpv6'' (ru_v6 x) @
      leaf_omitempty ''prefixListId'' (ru_prefix_list x) @
      (if ru_ref_group x = [] then [] else [Elem ''referencedGroupInfo'' (leaf ''groupId'' (ru_ref_group x) # leaf_omitempty ''userId'' (ru_ref_user x))]) @
      leaf_omitempty ''description'' (ru_description x) @ [Elem ''tagSet'' (tag_set_xml tags)])"

section \<open>Groups\<close>

definition reserved_group_text :: string where
  "reserved_group_text = ''The name '' @ quoted default_group_name @ '' is reserved, and cannot be used to create a new security group.''"

definition store_security_group :: "string \<Rightarrow> string \<Rightarrow> (string \<Rightarrow> (string \<times> string) list) \<Rightarrow> ec2_sg \<Rightarrow> db \<Rightarrow> response \<times> db" where
  "store_security_group account region specs g d = (case create_security_group account g d of
       (Some e, d') \<Rightarrow> (ec2_answer_error e, d')
     | (None, d') \<Rightarrow> (write_ec2_query ''CreateSecurityGroup'' [leaf ''groupId'' (sg_id g)],
         tag_new account region (on_resource (specs ''security-group'') (sg_id g) ''security-group'') d'))"

definition ec2_create_security_group :: "env \<Rightarrow> string \<Rightarrow> string \<Rightarrow> query_request \<Rightarrow> db \<Rightarrow> response \<times> db" where
  "ec2_create_security_group env account region req d =
     (let p = qr_params req; name = form_get p ''GroupName''; desc = form_get p ''GroupDescription''; vpc = form_get p ''VpcId''
      in if name = [] \<or> desc = [] \<or> vpc = [] then (ec2_refuse (qr_action req) [''no GroupName, GroupDescription or VpcId''], d)
         else if name = default_group_name then (ec2_bad ''InvalidGroup.Reserved'' reserved_group_text, d)
         else case refuse_tag_specifications p [''security-group''] of
           Inl r \<Rightarrow> (r, d)
         | Inr specs \<Rightarrow> store_security_group account region specs (new_ec2_security_group env 0 account region vpc name desc) d)"

definition group_missing :: "string \<Rightarrow> response" where
  "group_missing i = write_service_error Shape_ec2_query 404 ''InvalidGroup.NotFound'' (''The security group ID '' @ quoted i @ '' does not exist'')"

definition ec2_find_security_groups :: "string \<Rightarrow> string \<Rightarrow> query_request \<Rightarrow> db \<Rightarrow> response + ec2_sg list" where
  "ec2_find_security_groups account region req d =
     (let ids = query_ids (qr_params req) ''GroupId.''
      in if ids = [] then Inr (list_security_groups account region d)
         else describe_each (\<lambda>i. get_security_group account region i d) group_missing ids)"

definition sg_filters :: "ec2_sg filter_table" where
  "sg_filters = \<lparr>ft_values =
     [(''group-id'', \<lambda>g. [sg_id g]), (''group-name'', \<lambda>g. [sg_name g]), (''vpc-id'', \<lambda>g. [sg_vpc g]),
      (''description'', \<lambda>g. [sg_description g]), (''owner-id'', \<lambda>g. [sg_owner g])],
     ft_empty_is_value = [], ft_tag_id = Some sg_id\<rparr>"

text \<open>A row stored before groups kept their owner answers the account.\<close>

definition group_answered :: "string \<Rightarrow> ec2_sg \<Rightarrow> ec2_sg" where
  "group_answered account g = (if sg_owner g = [] then g\<lparr>sg_owner := account\<rparr> else g)"

fun answer_groups :: "string \<Rightarrow> string \<Rightarrow> (string \<Rightarrow> gomap) \<Rightarrow> db \<Rightarrow> ec2_sg list \<Rightarrow> response + xml list" where
  "answer_groups account region tags d [] = Inr []"
| "answer_groups account region tags d (g # gs) = (case list_security_group_rules account region (sg_id g) d of
       Inl e \<Rightarrow> Inl (ec2_answer_error e)
     | Inr rules \<Rightarrow> map_sum id ((#) (security_group_to_xml g (sg_permissions rules) (tags (sg_id g)))) (answer_groups account region tags d gs))"

definition no_default_vpc :: response where
  "no_default_vpc = ec2_bad ''VPCIdNotSpecified''
     ''You have no default VPC in which to carry out the request. Specify a VPC ID or create a default VPC.''"

definition ec2_describe_security_groups :: "string \<Rightarrow> string \<Rightarrow> query_request \<Rightarrow> db \<Rightarrow> response" where
  "ec2_describe_security_groups account region req d =
     (let group_names = query_list_values (qr_params req) ''GroupName.'' \<noteq> []
      in case read_filters sg_filters req ([''GroupId.N''] @ (if group_names \<and> \<not> db_loaded d then [''GroupName.N''] else [])) of
        Inl r \<Rightarrow> r
      | Inr fs \<Rightarrow>
          (if group_names then no_default_vpc
           else case ec2_find_security_groups account region req d of
             Inl r \<Rightarrow> r
           | Inr gs \<Rightarrow>
               (let tags = tag_sets account d
                in case answer_groups account region tags d (filter (\<lambda>g. matches_filters sg_filters g fs tags) (map (group_answered account) gs)) of
                  Inl r \<Rightarrow> r
                | Inr xs \<Rightarrow> write_ec2_query ''DescribeSecurityGroups'' [Elem ''securityGroupInfo'' xs])))"

definition delete_group_answer :: "string \<Rightarrow> ec2_error option \<times> db \<Rightarrow> response \<times> db" where
  "delete_group_answer i res = (case res of
       (Some Err_group_held, d') \<Rightarrow> (ec2_bad ''DependencyViolation'' (''resource '' @ i @ '' has a dependent object''), d')
     | (Some e, d') \<Rightarrow> (ec2_answer_error (ec2_go_error e), d')
     | (None, d') \<Rightarrow> (write_ec2_query ''DeleteSecurityGroup'' [], d'))"

definition ec2_delete_security_group :: "string \<Rightarrow> string \<Rightarrow> query_request \<Rightarrow> db \<Rightarrow> response \<times> db" where
  "ec2_delete_security_group account region req d =
     (let i = form_get (qr_params req) ''GroupId''
      in if i = [] then (ec2_refuse (qr_action req) [''no GroupId''], d)
         else case get_security_group account region i d of
           Inl e \<Rightarrow> (ec2_answer_error e, d)
         | Inr g \<Rightarrow>
             (if sg_name g = default_group_name
              then (ec2_bad ''CannotDelete'' (''the specified group: '' @ go_quote i @ '' name: '' @ go_quote default_group_name @
                '' cannot be deleted by a user''), d)
              else delete_group_answer i (delete_security_group account region i d)))"

section \<open>Rules\<close>

text \<open>The new rules get their ids in order.\<close>

definition identify_rules :: "env \<Rightarrow> string \<Rightarrow> ec2_rule list \<Rightarrow> ec2_rule list" where
  "identify_rules env account xs = map (\<lambda>(j, x). x\<lparr>ru_id := ''sgr-'' @ ec2_rand_id j env, ru_owner := account\<rparr>) (List.enumerate 0 xs)"

definition authorize_answer :: "string \<Rightarrow> ec2_rule list \<Rightarrow> response" where
  "authorize_answer action added = (if added = [] then write_ec2_query action []
     else write_ec2_query action [leaf ''return'' ''true'', Elem ''securityGroupRuleSet'' (map (\<lambda>x. rule_to_xml x []) added)])"

definition ec2_authorize_security_group_rules :: "env \<Rightarrow> string \<Rightarrow> string \<Rightarrow> bool \<Rightarrow> query_request \<Rightarrow> db \<Rightarrow> response \<times> db" where
  "ec2_authorize_security_group_rules env account region egress req d =
     (let p = qr_params req; i = form_get p ''GroupId''
      in if i = [] then (ec2_refuse (qr_action req) [''no GroupId''], d)
         else if has_param_under p ''TagSpecification.'' then (ec2_refuse (qr_action req) [''TagSpecification.N''], d)
         else case read_ip_permissions req of
           Inl r \<Rightarrow> (r, d)
         | Inr ps \<Rightarrow> (case refuse_ip_permissions account region ps d of
             Some r \<Rightarrow> (r, d)
           | None \<Rightarrow> (case authorize_security_group_rules account region i (identify_rules env account (sg_rules egress ps)) d of
               Inl e \<Rightarrow> (ec2_answer_error e, d)
             | Inr (added, d') \<Rightarrow> (authorize_answer (qr_action req) added, d'))))"

definition write_rule_not_found :: "string \<Rightarrow> response" where
  "write_rule_not_found i = ec2_bad ''InvalidSecurityGroupRuleId.NotFound'' (''The security group rule ID '' @ quoted i @ '' does not exist'')"

definition rule_error :: "ec2_error \<Rightarrow> response" where
  "rule_error e = (case e of Rule_not_found i \<Rightarrow> write_rule_not_found i | _ \<Rightarrow> ec2_answer_error (ec2_go_error e))"

definition unread_beside_permissions :: "query_params \<Rightarrow> string list" where
  "unread_beside_permissions p =
     map ec2_param_name (filter (\<lambda>k. \<not> has_prefix k ''IpPermissions.'') (unread_params p [''GroupId'', ''SecurityGroupRuleId.N'']))"

text \<open>The rules a revoke names: by id, and by source when it has no id or any permission.\<close>

definition rule_by_id :: "bool \<Rightarrow> string \<Rightarrow> ec2_rule" where
  "rule_by_id egress i = (bare_rule egress \<lparr>pe_protocol = [], pe_from = 0, pe_to = 0, pe_v4 = [], pe_v6 = [], pe_groups = [], pe_lists = []\<rparr>)\<lparr>ru_id := i\<rparr>"

definition revoked_rules :: "bool \<Rightarrow> query_request \<Rightarrow> string list \<Rightarrow> response + ec2_rule list" where
  "revoked_rules egress req ids =
     (if ids = [] \<or> has_param_under (qr_params req) ''IpPermissions.''
      then map_sum id (\<lambda>ps. map (rule_by_id egress) ids @ sg_rules egress ps) (read_ip_permissions req)
      else Inr (map (rule_by_id egress) ids))"

definition revoke_answer :: "string \<Rightarrow> ec2_error option \<times> db \<Rightarrow> response \<times> db" where
  "revoke_answer action res = (case res of
       (Some e, d') \<Rightarrow> (rule_error e, d')
     | (None, d') \<Rightarrow> (write_ec2_query action [], d'))"

definition ec2_revoke_security_group_rules :: "string \<Rightarrow> string \<Rightarrow> bool \<Rightarrow> query_request \<Rightarrow> db \<Rightarrow> response \<times> db" where
  "ec2_revoke_security_group_rules account region egress req d =
     (let p = qr_params req; i = form_get p ''GroupId''; ids = query_ids p ''SecurityGroupRuleId.''; names = unread_beside_permissions p
      in if i = [] then (ec2_refuse (qr_action req) [''no GroupId''], d)
         else if has_param_under p ''SecurityGroupRuleId.'' \<and> names \<noteq> [] then (ec2_refuse (qr_action req) names, d)
         else if [] \<in> set ids then (write_rule_not_found [], d)
         else case revoked_rules egress req ids of
           Inl r \<Rightarrow> (r, d)
         | Inr xs \<Rightarrow> revoke_answer (qr_action req) (revoke_security_group_rules account region i xs d))"

definition sg_rule_filters :: "ec2_rule filter_table" where
  "sg_rule_filters = \<lparr>ft_values = [(''group-id'', \<lambda>x. [ru_group x]), (''security-group-rule-id'', \<lambda>x. [ru_id x])],
     ft_empty_is_value = [], ft_tag_id = Some ru_id\<rparr>"

fun find_rules :: "string \<Rightarrow> string \<Rightarrow> string list \<Rightarrow> db \<Rightarrow> ec2_error + ec2_rule list" where
  "find_rules account region [] d = Inr []"
| "find_rules account region (i # is) d = (case get_security_group_rule account region i d of
       Inl e \<Rightarrow> Inl e
     | Inr x \<Rightarrow> map_sum id ((#) x) (find_rules account region is d))"

definition find_security_group_rules :: "string \<Rightarrow> string \<Rightarrow> string list \<Rightarrow> db \<Rightarrow> ec2_error + ec2_rule list" where
  "find_security_group_rules account region ids d =
     (if ids = [] then Inr (list_region_security_group_rules account region d) else find_rules account region ids d)"

definition ec2_describe_security_group_rules :: "string \<Rightarrow> string \<Rightarrow> query_request \<Rightarrow> db \<Rightarrow> response" where
  "ec2_describe_security_group_rules account region req d = (case read_filters sg_rule_filters req [''SecurityGroupRuleId.N''] of
       Inl r \<Rightarrow> r
     | Inr fs \<Rightarrow> (case find_security_group_rules account region (query_ids (qr_params req) ''SecurityGroupRuleId.'') d of
         Inl e \<Rightarrow> rule_error e
       | Inr xs \<Rightarrow>
           (let tags = tag_sets account d
            in write_ec2_query (qr_action req) [Elem ''securityGroupRuleSet''
                (map (\<lambda>x. rule_to_xml x (tags (ru_id x))) (filter (\<lambda>x. matches_filters sg_rule_filters x fs tags) xs))])))"

end
