(* ===== verification/Ec2Run.thy ===== *)
theory Ec2Run
  imports Ec2Sg
begin

text \<open>
  Instances and network interfaces on the wire (handlers/ec2.go): launching with a new primary interface,
  describing, the attributes, terminating. An instance's network fields come from its primary interface.
\<close>

section \<open>Interfaces as answered\<close>

definition or_else :: "string \<Rightarrow> string \<Rightarrow> string" where
  "or_else a b = (if a \<noteq> [] then a else b)"

text \<open>
  ec2ENIToXML, and ec2InstanceENIToXML without the fields the item of an instance lacks: the zone, the
  requester, the tags, the attachment's instance and owner, the association's ids.
\<close>

definition eni_attachment_xml :: "bool \<Rightarrow> string \<Rightarrow> ec2_eni \<Rightarrow> xml list" where
  "eni_attachment_xml inner account x =
     (if ni_instance x = [] then []
      else [Elem ''attachment'' ([leaf ''attachmentId'' (ni_attachment x)] @
        (if inner then [] else [leaf ''instanceId'' (ni_instance x)] @ leaf_omitempty ''instanceOwnerId'' account) @
        [leaf ''deviceIndex'' ''0'', leaf ''networkCardIndex'' ''0'', leaf ''status'' ''attached'',
         leaf ''deleteOnTermination'' (bool_text (\<not> ni_keep x))])])"

definition eni_association_xml :: "bool \<Rightarrow> string \<Rightarrow> ec2_eni \<Rightarrow> ec2_eip option \<Rightarrow> xml list" where
  "eni_association_xml inner account x eip = (case eip of
       Some e \<Rightarrow> [Elem ''association'' ([leaf ''publicIp'' (ei_public_ip e), leaf ''ipOwnerId'' account] @
         (if inner then [] else leaf_omitempty ''allocationId'' (ei_id e) @ leaf_omitempty ''associationId'' (ei_assoc e)))]
     | None \<Rightarrow> (if ni_public_ip x \<noteq> [] then [Elem ''association'' [leaf ''publicIp'' (ni_public_ip x), leaf ''ipOwnerId'' ''amazon'']] else []))"

definition eni_address_xml :: "eni_address \<Rightarrow> xml" where
  "eni_address_xml a = Elem ''item'' ([leaf ''privateIpAddress'' (pa_address a)] @ leaf_omitempty ''privateDnsName'' (pa_dns a) @
     [leaf ''primary'' (bool_text (pa_primary a))])"

definition eni_to_xml :: "bool \<Rightarrow> string \<Rightarrow> ec2_eni \<Rightarrow> ec2_eip option \<Rightarrow> gomap \<Rightarrow> xml" where
  "eni_to_xml inner account x eip tags = Elem ''item''
     ([leaf ''networkInterfaceId'' (ni_id x), leaf ''subnetId'' (ni_subnet x), leaf ''vpcId'' (ni_vpc x)] @
      (if inner then [] else leaf_omitempty ''availabilityZone'' (ni_zone x)) @
      leaf_omitempty ''description'' (ni_description x) @ [leaf ''ownerId'' (or_else (ni_owner x) account)] @
      (if inner then [] else [leaf ''requesterManaged'' (bool_text (ni_requester_managed x))]) @
      [leaf ''status'' (or_else (ni_status x) ''in-use''), leaf ''interfaceType'' (or_else (ni_type x) ''interface'')] @
      leaf_omitempty ''macAddress'' (ni_mac x) @ [leaf ''privateIpAddress'' (ni_private_ip x)] @
      leaf_omitempty ''privateDnsName'' (ni_private_dns x) @
      [leaf ''sourceDestCheck'' (bool_text (ni_source_dest x)),
       Elem ''groupSet'' (map (\<lambda>g. Elem ''item'' [leaf ''groupId'' g]) (ni_groups x))] @
      eni_attachment_xml inner account x @ eni_association_xml inner account x eip @
      [Elem ''privateIpAddressesSet'' (map eni_address_xml (ni_addresses x)), Elem ''tagSet'' (tag_set_xml tags)])"

definition eip_on_eni :: "ec2_eip list \<Rightarrow> string \<Rightarrow> ec2_eip option" where
  "eip_on_eni eips eni = find (\<lambda>e. ei_eni e = eni) eips"

section \<open>Instances as answered\<close>

definition ec2_instance_state_codes :: "(string \<times> int) list" where
  "ec2_instance_state_codes = [(''pending'', 0), (''running'', 16), (''shutting-down'', 32), (''terminated'', 48), (''stopping'', 64), (''stopped'', 80)]"

definition state_for_name :: "string \<Rightarrow> string \<Rightarrow> xml" where
  "state_for_name elem name = Elem elem
     [leaf ''code'' (show_int (case map_of ec2_instance_state_codes name of None \<Rightarrow> 0 | Some c \<Rightarrow> c)), leaf ''name'' name]"

text \<open>What an answer reads besides the instance's row.\<close>

record instance_net =
  nt_eni :: "ec2_eni option"
  nt_eip :: "ec2_eip option"
  nt_group_names :: gomap

definition group_name_of :: "gomap \<Rightarrow> string \<Rightarrow> string" where
  "group_name_of names g = (case map_of names g of None \<Rightarrow> [] | Some n \<Rightarrow> n)"

definition profile_xml :: "string \<Rightarrow> ec2_instance \<Rightarrow> xml list" where
  "profile_xml account x = (if in_profile_name x = [] then []
     else [Elem ''iamInstanceProfile''
       [leaf ''arn'' (or_else (in_profile_arn x) (iam_instance_profile_arn account (in_profile_name x))),
        leaf ''id'' (or_else (in_profile_id x) (in_profile_name x))]])"

definition instance_to_xml :: "string \<Rightarrow> ec2_instance \<Rightarrow> instance_net \<Rightarrow> gomap \<Rightarrow> xml" where
  "instance_to_xml account x net tags =
     (let on_eni = (\<lambda>f. case nt_eni net of None \<Rightarrow> [] | Some n \<Rightarrow> f n)
      in Elem ''item''
       ([leaf ''instanceId'' (in_id x), leaf ''imageId'' (in_ami x), leaf ''instanceType'' (in_type x)] @
        leaf_omitempty ''keyName'' (in_key_name x) @ leaf_omitempty ''launchTime'' (in_created_at x) @
        leaf_omitempty ''subnetId'' (on_eni ni_subnet) @ leaf_omitempty ''vpcId'' (on_eni ni_vpc) @
        leaf_omitempty ''privateIpAddress'' (on_eni ni_private_ip) @ leaf_omitempty ''privateDnsName'' (on_eni ni_private_dns) @
        leaf_omitempty ''ipAddress'' (on_eni ni_public_ip) @
        (case nt_eni net of None \<Rightarrow> [] | Some n \<Rightarrow> [leaf ''sourceDestCheck'' (bool_text (ni_source_dest n))]) @
        [leaf ''ebsOptimized'' (bool_text (in_ebs_optimized x))] @ profile_xml account x @
        [state_for_name ''instanceState'' (in_state x),
         Elem ''groupSet'' (case nt_eni net of None \<Rightarrow> []
           | Some n \<Rightarrow> map (\<lambda>g. Elem ''item'' (leaf ''groupId'' g # leaf_omitempty ''groupName'' (group_name_of (nt_group_names net) g))) (ni_groups n)),
         Elem ''networkInterfaceSet'' (case nt_eni net of None \<Rightarrow> [] | Some n \<Rightarrow> [eni_to_xml True account n (nt_eip net) []]),
         Elem ''tagSet'' (tag_set_xml tags)] @ in_recorded x))"

section \<open>Attributes\<close>

text \<open>What AWS accepts for an attribute the instance row holds, and how a value sets it.\<close>

definition instance_attributes :: "(string \<times> string list \<times> (string \<Rightarrow> ec2_instance \<Rightarrow> ec2_instance)) list" where
  "instance_attributes =
     [(''DisableApiTermination'', ec2_bool, \<lambda>v x. x\<lparr>in_disable_termination := (v = ''true'')\<rparr>),
      (''DisableApiStop'', ec2_bool, \<lambda>v x. x\<lparr>in_disable_stop := (v = ''true'')\<rparr>),
      (''EbsOptimized'', ec2_bool, \<lambda>v x. x\<lparr>in_ebs_optimized := (v = ''true'')\<rparr>),
      (''InstanceInitiatedShutdownBehavior'', [''stop'', ''terminate''], \<lambda>v x. x\<lparr>in_shutdown := v\<rparr>)]"

definition attribute_values :: "string \<Rightarrow> (string \<times> string list) list" where
  "attribute_values suffix = map (\<lambda>(name, vs, _). (name @ suffix, vs)) instance_attributes"

definition set_instance_attributes :: "query_params \<Rightarrow> string \<Rightarrow> ec2_instance \<Rightarrow> ec2_instance" where
  "set_instance_attributes p suffix x =
     fold (\<lambda>(name, _, set_it) y. let v = form_get p (name @ suffix) in if v \<noteq> [] then set_it v y else y) instance_attributes x"

section \<open>Launching\<close>

record instance_network =
  nw_subnet :: string
  nw_groups :: "string list"
  nw_private_ip :: string
  nw_associate :: string

datatype network_error = Nic_not_modelled | Nic_with_instance_placement

definition nic_not_modelled_text :: string where
  "nic_not_modelled_text = ''a network interface other than a new primary one (NetworkInterface.1, DeviceIndex 0, deleted on termination)''"

definition nic_with_placement_text :: string where
  "nic_with_placement_text =
     ''Network interfaces and an instance-level subnet ID, security groups or private IP may not be specified on the same request''"

definition read_network :: "query_params \<Rightarrow> string \<Rightarrow> string \<Rightarrow> instance_network" where
  "read_network p pre associate =
     \<lparr>nw_subnet = form_get p (pre @ ''SubnetId''), nw_groups = query_list_values p (pre @ ''SecurityGroupId.''),
      nw_private_ip = form_get p (pre @ ''PrivateIpAddress''), nw_associate = associate\<rparr>"

definition first_nic :: string where
  "first_nic = ''NetworkInterface.1.''"

definition parse_instance_network :: "query_params \<Rightarrow> network_error + instance_network" where
  "parse_instance_network p =
     (let top_level = read_network p [] []; nics = query_list_items p ''NetworkInterface.''
      in if nics = [] then Inr top_level
         else if nw_subnet top_level \<noteq> [] \<or> nw_groups top_level \<noteq> [] \<or> nw_private_ip top_level \<noteq> [] then Inl Nic_with_instance_placement
         else if nics \<noteq> [first_nic] \<or> form_get p (first_nic @ ''DeviceIndex'') \<noteq> ''0'' \<or>
             form_get p (first_nic @ ''NetworkInterfaceId'') \<noteq> [] \<or> form_get p (first_nic @ ''DeleteOnTermination'') = ''false''
         then Inl Nic_not_modelled
         else Inr (read_network p first_nic (form_get p (first_nic @ ''AssociatePublicIpAddress''))))"

definition foreign_group_error :: "string \<Rightarrow> ec2_sg \<Rightarrow> ec2_subnet \<Rightarrow> go_error" where
  "foreign_group_error g sg s = ErrWrap ErrNotFound (''security group '' @ go_quote g @ '' lives in vpc '' @ go_quote (sg_vpc sg) @
     '' but subnet '' @ go_quote (sn_id s) @ '' is in vpc '' @ go_quote (sn_vpc s) @ '': '' @ error_text ErrNotFound)"

fun check_groups :: "string \<Rightarrow> string \<Rightarrow> ec2_subnet \<Rightarrow> string list \<Rightarrow> db \<Rightarrow> unit result" where
  "check_groups account region s [] d = Inr ()"
| "check_groups account region s (g # gs) d =
     res_bind (get_security_group account region g d) (\<lambda>sg.
       if sg_vpc sg \<noteq> sn_vpc s then Inl (foreign_group_error g sg s) else check_groups account region s gs d)"

definition check_subnet_groups :: "string \<Rightarrow> string \<Rightarrow> string \<Rightarrow> string list \<Rightarrow> db \<Rightarrow> ec2_subnet result" where
  "check_subnet_groups account region subnet groups d =
     res_bind (get_subnet account region subnet d) (\<lambda>s. map_sum id (\<lambda>_. s) (check_groups account region s groups d))"

text \<open>The images every unloaded database has in a region once a request touches it.\<close>

definition ec2_amazon_owner :: string where
  "ec2_amazon_owner = ''amazon''"

definition fixture_ami :: "string \<Rightarrow> string \<Rightarrow> string \<Rightarrow> string \<Rightarrow> string \<Rightarrow> ec2_ami" where
  "fixture_ami region i name owner root = \<lparr>am_id = i, am_name = name, am_owner = owner, am_virtualization = ''hvm'',
     am_root_device = root, am_region = region, am_recorded = None\<rparr>"

definition ec2_ami_fixtures :: "string \<Rightarrow> ec2_ami list" where
  "ec2_ami_fixtures region =
     [fixture_ami region ''ami-0abcd1234'' ''amzn2-ami-hvm-2.0'' ec2_amazon_owner ''/dev/xvda'',
      fixture_ami region al2023_ami_id ''al2023-ami-2023.6.20241010.0-kernel-6.1-x86_64'' ec2_amazon_owner ''/dev/xvda'',
      fixture_ami region ''ami-0ubuntu2004'' ''ubuntu/images/hvm-ssd/ubuntu-focal-20.04'' ''099720109477'' ''/dev/sda1'',
      fixture_ami region ''ami-0ubuntu2204'' ''ubuntu/images/hvm-ssd/ubuntu-jammy-22.04'' ''099720109477'' ''/dev/sda1'']"

definition ensure_ami_fixtures :: "string \<Rightarrow> string \<Rightarrow> db \<Rightarrow> db" where
  "ensure_ami_fixtures account region d = (if db_loaded d then d else fold (seed_ami account) (ec2_ami_fixtures region) d)"

definition seed_ec2_ami_fixtures :: "string \<Rightarrow> string list \<Rightarrow> db \<Rightarrow> db" where
  "seed_ec2_ami_fixtures account regions d =
     fold (\<lambda>region d. fold (seed_ami account) (ec2_ami_fixtures region) d) regions d"

definition write_key_pair_not_found :: "string \<Rightarrow> string \<Rightarrow> response" where
  "write_key_pair_not_found what key = ec2_bad ''InvalidKeyPair.NotFound'' (what @ CHR '' '' # quoted key @ '' does not exist'')"

text \<open>What a launch names, checked in the code's order: image, subnet and groups, key pair.\<close>

definition launch_names :: "string \<Rightarrow> string \<Rightarrow> instance_network \<Rightarrow> query_params \<Rightarrow> db \<Rightarrow> response + ec2_subnet" where
  "launch_names account region nw p d = (case get_ami account region (form_get p ''ImageId'') d of
       Inl e \<Rightarrow> Inl (if errors_is e ErrNotFound
          then ec2_bad ''InvalidAMIID.NotFound'' (''The image id '' @ quoted (CHR ''['' # form_get p ''ImageId'' @ '']'') @ '' does not exist'')
          else ec2_answer_error e)
     | Inr _ \<Rightarrow> (case check_subnet_groups account region (nw_subnet nw) (nw_groups nw) d of
         Inl e \<Rightarrow> Inl (ec2_answer_error e)
       | Inr s \<Rightarrow>
           (if form_get p ''KeyName'' = [] then Inr s
            else case get_key_pair account region (form_get p ''KeyName'') d of
              Inl e \<Rightarrow> Inl (if errors_is e ErrNotFound then write_key_pair_not_found ''The key pair'' (form_get p ''KeyName'') else ec2_answer_error e)
            | Inr _ \<Rightarrow> Inr s)))"

definition new_instance :: "env \<Rightarrow> string \<Rightarrow> string \<Rightarrow> query_params \<Rightarrow> string \<Rightarrow> ec2_instance" where
  "new_instance env account region p subnet =
     (let i = ''i-'' @ ec2_rand_id 0 env
      in \<lparr>in_id = i, in_subnet = subnet, in_ami = form_get p ''ImageId'', in_type = form_get p ''InstanceType'',
          in_key_name = form_get p ''KeyName'', in_profile_name = [], in_profile_arn = [], in_profile_id = [],
          in_user_data = form_get p ''UserData'', in_state = ''running'', in_region = region, in_arn = ec2_arn ''instance'' region account i,
          in_created_at = rfc3339 (e_now env), in_reservation = ''r-'' @ ec2_rand_id 1 env, in_recorded = [],
          in_disable_termination = False, in_disable_stop = False, in_ebs_optimized = False, in_shutdown = []\<rparr>)"

text \<open>The profile's stored ARN and id go on the instance.\<close>

definition with_profile :: "string \<Rightarrow> query_params \<Rightarrow> db \<Rightarrow> ec2_instance \<Rightarrow> ec2_instance result" where
  "with_profile account p d x =
     (let name = form_get p ''IamInstanceProfile.Name''
      in if name = [] then Inr x
         else map_sum id (\<lambda>q. x\<lparr>in_profile_name := name, in_profile_arn := ip_arn q, in_profile_id := ip_id q\<rparr>)
           (get_instance_profile account name d))"

definition launches_public :: "instance_network \<Rightarrow> ec2_subnet \<Rightarrow> bool" where
  "launches_public nw s \<longleftrightarrow> nw_associate nw = ''true'' \<or> (nw_associate nw = [] \<and> sn_map_public s)"

text \<open>The instance, subnet, VPC and region of the interface are the repository's to fill.\<close>

definition new_eni :: "env \<Rightarrow> instance_network \<Rightarrow> bool \<Rightarrow> ec2_eni" where
  "new_eni env nw public =
     (let i = ''eni-'' @ ec2_rand_id 2 env
      in \<lparr>ni_id = i, ni_attachment = ''eni-attach-'' @ ec2_rand_id 3 env, ni_instance = [], ni_subnet = [], ni_vpc = [],
          ni_private_ip = nw_private_ip nw, ni_public_ip = (if public then ec2_derive_public_ip ec2_auto_ip_net i else []),
          ni_auto_public = public, ni_groups = nw_groups nw, ni_source_dest = True, ni_region = [], ni_description = [], ni_mac = [],
          ni_private_dns = [], ni_zone = [], ni_requester_managed = False, ni_type = [], ni_owner = [], ni_status = [],
          ni_addresses = [], ni_keep = False\<rparr>)"

definition launch_tags :: "(string \<Rightarrow> (string \<times> string) list) \<Rightarrow> string \<Rightarrow> string \<Rightarrow> ec2_tag list" where
  "launch_tags specs i eni = on_resource (specs ''instance'') i ''instance'' @ on_resource (specs ''network-interface'') eni ''network-interface''"

definition store_instance :: "string \<Rightarrow> string \<Rightarrow> (string \<Rightarrow> (string \<times> string) list) \<Rightarrow> ec2_instance \<Rightarrow> ec2_eni \<Rightarrow> db \<Rightarrow> response \<times> db" where
  "store_instance account region specs x eni d = (case create_instance account x eni d of
       Inl e \<Rightarrow> (ec2_answer_error e, d)
     | Inr (x', eni', d') \<Rightarrow> (write_ec2_query ''RunInstances''
           [leaf ''reservationId'' (in_reservation x'), leaf ''ownerId'' account,
            Elem ''instancesSet'' [instance_to_xml account x' \<lparr>nt_eni = Some eni', nt_eip = None, nt_group_names = []\<rparr> []]],
         tag_new account region (launch_tags specs (in_id x') (ni_id eni')) d'))"

definition launch :: "env \<Rightarrow> string \<Rightarrow> string \<Rightarrow> instance_network \<Rightarrow> (string \<Rightarrow> (string \<times> string) list) \<Rightarrow> query_params \<Rightarrow> db \<Rightarrow> response \<times> db" where
  "launch env account region nw specs p d = (case launch_names account region nw p d of
       Inl r \<Rightarrow> (r, d)
     | Inr s \<Rightarrow> (case with_profile account p d (new_instance env account region p (nw_subnet nw)) of
         Inl e \<Rightarrow> (ec2_answer_error e, d)
       | Inr x \<Rightarrow> store_instance account region specs (set_instance_attributes p [] x) (new_eni env nw (launches_public nw s)) d))"

definition network_refused :: "string \<Rightarrow> network_error \<Rightarrow> response" where
  "network_refused action e = (case e of
       Nic_with_instance_placement \<Rightarrow> ec2_bad ''InvalidParameterCombination'' nic_with_placement_text
     | Nic_not_modelled \<Rightarrow> ec2_refuse action [nic_not_modelled_text])"

definition ec2_run_instances :: "env \<Rightarrow> string \<Rightarrow> string \<Rightarrow> query_request \<Rightarrow> db \<Rightarrow> response \<times> db" where
  "ec2_run_instances env account region req d = (let p = qr_params req in
     case parse_instance_network p of
       Inl e \<Rightarrow> (network_refused (qr_action req) e, d)
     | Inr nw \<Rightarrow>
         (if nw_subnet nw = [] \<or> form_get p ''ImageId'' = [] \<or> form_get p ''InstanceType'' = []
          then (ec2_refuse (qr_action req) [''no SubnetId, ImageId or InstanceType''], d)
          else case refuse_invalid_values p (attribute_values []) of
            Some r \<Rightarrow> (r, d)
          | None \<Rightarrow> (case tag_specifications p [''instance'', ''network-interface'', ''volume''] of
              Inl rt \<Rightarrow> (ec2_refuse (qr_action req) [''TagSpecification.N.ResourceType='' @ rt], d)
            | Inr specs \<Rightarrow> launch env account region nw specs p (ensure_ami_fixtures account region d))))"

section \<open>Describing instances\<close>

definition ec2_find_instances :: "string \<Rightarrow> string \<Rightarrow> string list \<Rightarrow> db \<Rightarrow> response + ec2_instance list" where
  "ec2_find_instances account region ids d =
     (if ids = [] then Inr (list_instances account region d)
      else lookup_each (\<lambda>i. get_instance account region i d) write_instance_error ids)"

definition group_names :: "string \<Rightarrow> string \<Rightarrow> db \<Rightarrow> gomap" where
  "group_names account region d = map (\<lambda>g. (sg_id g, sg_name g)) (list_security_groups account region d)"

text \<open>What DescribeInstances filters: the instance, its primary interface, its launch subnet's zone and the owner.\<close>

type_synonym described_row = "ec2_instance \<times> ec2_eni option \<times> string \<times> string"

definition row_eni :: "(ec2_eni \<Rightarrow> string) \<Rightarrow> described_row \<Rightarrow> string list" where
  "row_eni f r = (case r of (_, eni, _) \<Rightarrow> [case eni of None \<Rightarrow> [] | Some n \<Rightarrow> f n])"

definition instance_filters :: "described_row filter_table" where
  "instance_filters = \<lparr>ft_values =
     [(''instance-id'', \<lambda>(x, _). [in_id x]), (''instance-state-name'', \<lambda>(x, _). [in_state x]), (''instance-type'', \<lambda>(x, _). [in_type x]),
      (''image-id'', \<lambda>(x, _). [in_ami x]), (''subnet-id'', row_eni ni_subnet), (''vpc-id'', row_eni ni_vpc),
      (''private-ip-address'', row_eni ni_private_ip), (''ip-address'', row_eni ni_public_ip),
      (''availability-zone'', \<lambda>(_, _, zone, _). [zone]), (''owner-id'', \<lambda>(_, _, _, owner). [owner])],
     ft_empty_is_value = [], ft_tag_id = Some (\<lambda>(x, _). in_id x)\<rparr>"

definition instance_row :: "string \<Rightarrow> string \<Rightarrow> db \<Rightarrow> ec2_instance \<Rightarrow> described_row" where
  "instance_row account region d x = (x, instance_enis account d (in_id x),
     case find (\<lambda>s. sn_id s = in_subnet x) (list_subnets account region d) of None \<Rightarrow> [] | Some s \<Rightarrow> sn_zone s, account)"

definition instance_net_of :: "string \<Rightarrow> string \<Rightarrow> db \<Rightarrow> ec2_eni option \<Rightarrow> instance_net" where
  "instance_net_of account region d eni =
     \<lparr>nt_eni = eni, nt_eip = Option.bind eni (\<lambda>n. eip_on_eni (list_eips account region d) (ni_id n)), nt_group_names = group_names account region d\<rparr>"

text \<open>
  ec2Reserve: an instance joins its reservation, or opens it; one without opens one of its own, whose id is
  random. The reservations of an answer are their ids with their instances.
\<close>

type_synonym reservations = "(string \<times> xml list) list"

fun join_reservation :: "string \<Rightarrow> xml \<Rightarrow> reservations \<Rightarrow> reservations option" where
  "join_reservation i x [] = None"
| "join_reservation i x ((j, xs) # rs) =
     (if j = i then Some ((j, xs @ [x]) # rs) else map_option ((#) (j, xs)) (join_reservation i x rs))"

definition ec2_reserve :: "env \<Rightarrow> string \<times> xml \<Rightarrow> nat \<times> reservations \<Rightarrow> nat \<times> reservations" where
  "ec2_reserve env ix acc = (case (ix, acc) of ((i, x), (n, rs)) \<Rightarrow>
     (if i = [] then (Suc n, rs @ [(''r-'' @ ec2_rand_id n env, [x])])
      else case join_reservation i x rs of Some rs' \<Rightarrow> (n, rs') | None \<Rightarrow> (n, rs @ [(i, [x])])))"

definition reservation_xml :: "string \<Rightarrow> string \<times> xml list \<Rightarrow> xml" where
  "reservation_xml account r = Elem ''item'' [leaf ''reservationId'' (fst r), leaf ''ownerId'' account, Elem ''instancesSet'' (snd r)]"

definition answered_instance :: "string \<Rightarrow> string \<Rightarrow> (string \<Rightarrow> gomap) \<Rightarrow> db \<Rightarrow> described_row \<Rightarrow> string \<times> xml" where
  "answered_instance account region tags d r = (case r of (x, eni, _) \<Rightarrow>
     (in_reservation x, instance_to_xml account x (instance_net_of account region d eni) (tags (in_id x))))"

definition ec2_describe_instances :: "env \<Rightarrow> string \<Rightarrow> string \<Rightarrow> query_request \<Rightarrow> db \<Rightarrow> response" where
  "ec2_describe_instances env account region req d = (case read_filters instance_filters req [''InstanceId.N''] of
       Inl r \<Rightarrow> r
     | Inr fs \<Rightarrow> (case ec2_find_instances account region (query_ids (qr_params req) ''InstanceId.'') d of
         Inl r \<Rightarrow> r
       | Inr xs \<Rightarrow>
           (let tags = tag_sets account d;
                rows = filter (\<lambda>r. matches_filters instance_filters r fs tags) (map (instance_row account region d) xs)
            in write_ec2_query ''DescribeInstances'' [Elem ''reservationSet''
                (map (reservation_xml account) (snd (fold (ec2_reserve env) (map (answered_instance account region tags d) rows) (0, []))))])))"

section \<open>Network interfaces\<close>

text \<open>Filters read the answer, so the owner is the account where none is stored.\<close>

definition eni_filters :: "string \<Rightarrow> ec2_eni filter_table" where
  "eni_filters account = \<lparr>ft_values =
     [(''network-interface-id'', \<lambda>x. [ni_id x]),
      (''attachment.instance-id'', \<lambda>x. if ni_instance x = [] then [] else [ni_instance x]),
      (''attachment.attachment-id'', \<lambda>x. if ni_instance x = [] then [] else [ni_attachment x]),
      (''subnet-id'', \<lambda>x. [ni_subnet x]), (''vpc-id'', \<lambda>x. [ni_vpc x]), (''private-ip-address'', \<lambda>x. [ni_private_ip x]),
      (''owner-id'', \<lambda>x. [or_else (ni_owner x) account]), (''group-id'', ni_groups)],
     ft_empty_is_value = [], ft_tag_id = Some ni_id\<rparr>"

definition ec2_describe_network_interfaces :: "string \<Rightarrow> string \<Rightarrow> query_request \<Rightarrow> db \<Rightarrow> response" where
  "ec2_describe_network_interfaces account region req d = (case read_filters (eni_filters account) req [''NetworkInterfaceId.N''] of
       Inl r \<Rightarrow> r
     | Inr fs \<Rightarrow>
         (let enis = list_network_interfaces account region d; ids = query_list_values (qr_params req) ''NetworkInterfaceId.'';
              eips = list_eips account region d; tags = tag_sets account d
          in case find (\<lambda>i. i \<notin> set (map ni_id enis)) ids of
            Some i \<Rightarrow> write_eni_not_found i
          | None \<Rightarrow> write_ec2_query ''DescribeNetworkInterfaces'' [Elem ''networkInterfaceSet''
              (map (\<lambda>x. eni_to_xml False account x (eip_on_eni eips (ni_id x)) (tags (ni_id x)))
                (filter (\<lambda>x. (ids = [] \<or> ni_id x \<in> set ids) \<and> matches_filters (eni_filters account) x fs tags) enis))]))"

definition eni_attribute_change :: "query_params \<Rightarrow> ec2_eni \<Rightarrow> ec2_eni" where
  "eni_attribute_change p x =
     (if has_param p ''Description.Value'' then x\<lparr>ni_description := form_get p ''Description.Value''\<rparr>
      else x\<lparr>ni_groups := query_list_values p ''SecurityGroupId.''\<rparr>)"

definition no_eni_attribute_text :: string where
  "no_eni_attribute_text = ''no NetworkInterfaceId, or neither SecurityGroupId.N nor Description.Value '' @
     ''(only the Groups and Description attributes are modelled)''"

definition modify_eni :: "string \<Rightarrow> string \<Rightarrow> string \<Rightarrow> query_params \<Rightarrow> db \<Rightarrow> go_error option \<times> db" where
  "modify_eni account region i p d =
     (let groups = query_list_values p ''SecurityGroupId.''
      in case get_network_interface account region i d of
        Inl e \<Rightarrow> (Some e, d)
      | Inr x \<Rightarrow> (case (if groups = [] then Inr () else map_sum id (\<lambda>_. ()) (check_subnet_groups account region (ni_subnet x) groups d)) of
          Inl e \<Rightarrow> (Some e, d)
        | Inr _ \<Rightarrow> update_network_interface account region i (eni_attribute_change p) d))"

definition ec2_modify_network_interface_attribute :: "string \<Rightarrow> string \<Rightarrow> query_request \<Rightarrow> db \<Rightarrow> response \<times> db" where
  "ec2_modify_network_interface_attribute account region req d =
     (let p = qr_params req; i = form_get p ''NetworkInterfaceId''; groups = query_list_values p ''SecurityGroupId.'';
          described = has_param p ''Description.Value''
      in case ec2_refuse_unread req [''NetworkInterfaceId'', ''SecurityGroupId.N'', ''Description.Value''] of
        Some r \<Rightarrow> (r, d)
      | None \<Rightarrow>
          (if i = [] \<or> (groups = [] \<and> \<not> described) then (ec2_refuse (qr_action req) [no_eni_attribute_text], d)
           else if groups \<noteq> [] \<and> described then (ec2_refuse (qr_action req) [''SecurityGroupId.N'', ''Description.Value''], d)
           else if get_network_interface account region i d = Inl ErrNotFound then (write_eni_not_found i, d)
           else ec2_done ''ModifyNetworkInterfaceAttribute'' (modify_eni account region i p d)))"

section \<open>Instance attributes\<close>

definition modified_attributes :: "(string \<times> string list) list" where
  "modified_attributes = attribute_values ''.Value'' @ [(''SourceDestCheck.Value'', ec2_bool)]"

definition source_dest_change :: "query_params \<Rightarrow> bool option" where
  "source_dest_change p = (let v = form_get p ''SourceDestCheck.Value'' in if v \<noteq> [] then Some (v = ''true'') else None)"

definition modify_instance_answer :: "string \<Rightarrow> go_error option \<times> db \<Rightarrow> response \<times> db" where
  "modify_instance_answer i res = (case res of
       (Some e, d') \<Rightarrow> (if errors_is e ErrTerminalState
          then ec2_bad ''IncorrectInstanceState'' (''The instance '' @ quoted i @ '' is not in a state from which it can be modified.'')
          else write_instance_error i e, d')
     | (None, d') \<Rightarrow> (write_ec2_query ''ModifyInstanceAttribute'' [], d'))"

definition ec2_modify_instance_attribute :: "string \<Rightarrow> string \<Rightarrow> query_request \<Rightarrow> db \<Rightarrow> response \<times> db" where
  "ec2_modify_instance_attribute account region req d =
     (let p = qr_params req; i = form_get p ''InstanceId''; attrs = map fst modified_attributes
      in if i = [] then (ec2_required ''InstanceId'', d)
         else case ec2_refuse_unread req (attrs @ [''InstanceId'']) of
           Some r \<Rightarrow> (r, d)
         | None \<Rightarrow> (case refuse_invalid_values p modified_attributes of
             Some r \<Rightarrow> (r, d)
           | None \<Rightarrow>
               (if \<not> list_ex (has_param p) attrs then (ec2_bad ''MissingParameter'' ''The request must contain an attribute to modify.'', d)
                else modify_instance_answer i
                  (update_instance_attributes account region i (Some (set_instance_attributes p ''.Value'')) (source_dest_change p) d))))"

definition row_attribute :: "ec2_instance \<Rightarrow> string \<Rightarrow> xml option" where
  "row_attribute x attr =
     (if attr = ''instanceInitiatedShutdownBehavior'' then Some (Elem attr [leaf ''value'' (or_else (in_shutdown x) ''stop'')])
      else if attr = ''disableApiTermination'' then Some (ec2_bool_value attr (in_disable_termination x))
      else if attr = ''disableApiStop'' then Some (ec2_bool_value attr (in_disable_stop x))
      else if attr = ''userData'' then Some (Elem attr (leaf_omitempty ''value'' (in_user_data x)))
      else if attr = ''ebsOptimized'' then Some (ec2_bool_value attr (in_ebs_optimized x))
      else None)"

definition ec2_describe_instance_attribute :: "string \<Rightarrow> string \<Rightarrow> query_request \<Rightarrow> db \<Rightarrow> response" where
  "ec2_describe_instance_attribute account region req d =
     (let i = form_get (qr_params req) ''InstanceId''; attr = form_get (qr_params req) ''Attribute'';
          answer = (\<lambda>xs. write_ec2_query ''DescribeInstanceAttribute'' (leaf ''instanceId'' i # xs))
      in case get_instance account region i d of
        Inl e \<Rightarrow> write_instance_error i e
      | Inr x \<Rightarrow> (case row_attribute x attr of
          Some elem \<Rightarrow> answer [elem]
        | None \<Rightarrow>
            (if attr = ''sourceDestCheck'' then answer (case instance_enis account d i of None \<Rightarrow> []
               | Some n \<Rightarrow> [ec2_bool_value attr (ni_source_dest n)])
             else if attr = [] then ec2_bad ''MissingParameter'' ''The request must contain the parameter Attribute.''
             else ec2_refuse (qr_action req) [''Attribute='' @ attr])))"

section \<open>Terminating\<close>

definition protected_text :: "string \<Rightarrow> string" where
  "protected_text i = ''The instance '' @ quoted i @ '' may not be terminated. Modify its '' @ quoted ''disableApiTermination'' @
     '' instance attribute and try again.''"

definition terminate_error :: "ec2_error \<Rightarrow> response" where
  "terminate_error e = (case e of
       Instance_error i Err_termination_protected \<Rightarrow> ec2_bad ''OperationNotPermitted'' (protected_text i)
     | Instance_error i _ \<Rightarrow> write_instance_error i (ec2_go_error e)
     | _ \<Rightarrow> ec2_answer_error (ec2_go_error e))"

definition state_change_xml :: "string \<times> string \<Rightarrow> xml" where
  "state_change_xml iw = Elem ''item'' [leaf ''instanceId'' (fst iw), state_for_name ''currentState'' ''terminated'',
     state_for_name ''previousState'' (snd iw)]"

definition ec2_terminate_instances :: "string \<Rightarrow> string \<Rightarrow> query_request \<Rightarrow> db \<Rightarrow> response \<times> db" where
  "ec2_terminate_instances account region req d =
     (let ids = query_list_values (qr_params req) ''InstanceId.''
      in if ids = [] then (ec2_required ''InstanceId.<n>'', d)
         else case set_instance_state account region ''terminated'' ids d of
           Inl e \<Rightarrow> (terminate_error e, d)
         | Inr (was, d') \<Rightarrow> (write_ec2_query ''TerminateInstances'' [Elem ''instancesSet'' (map state_change_xml (zip ids was))], d'))"

end
