(* ===== verification/Goenc.thy ===== *)
theory Goenc
  imports Identity "HOL-Library.Word"
begin

text \<open>
  What the code uses of encoding/base64 and crypto/sha256: StdEncoding.DecodeString and Sum256, on bytes as
  numbers below 256.
\<close>

section \<open>Base64\<close>

definition base64_alphabet :: string where
  "base64_alphabet = ''ABCDEFGHIJKLMNOPQRSTUVWXYZabcdefghijklmnopqrstuvwxyz0123456789+/''"

definition base64_value :: "char \<Rightarrow> nat option" where
  "base64_value c = map_of (zip base64_alphabet [0..<64]) c"

definition base64_values :: "string \<Rightarrow> nat list option" where
  "base64_values s = (if list_all (\<lambda>c. base64_value c \<noteq> None) s then Some (map (\<lambda>c. the (base64_value c)) s) else None)"

text \<open>The bytes of a quantum of 2, 3 or 4 digits; the bits left over are ignored.\<close>

definition quantum_bytes :: "nat list \<Rightarrow> nat list" where
  "quantum_bytes vs =
     (let n = foldl (\<lambda>acc v. 64 * acc + v) 0 (vs @ replicate (4 - length vs) 0)
      in take (length vs - 1) [n div 65536, n div 256 mod 256, n mod 256])"

definition quantum_digits :: "string \<Rightarrow> string" where
  "quantum_digits q = (if drop 2 q = ''=='' then take 2 q else if drop 3 q = ''='' then take 3 q else q)"

text \<open>A padded quantum is the last one.\<close>

function base64_quanta :: "string \<Rightarrow> nat list option" where
  "base64_quanta s =
     (if s = [] then Some []
      else if length s < 4 then None
      else let ds = quantum_digits (take 4 s) in
        if length ds < 4 \<and> drop 4 s \<noteq> [] then None
        else case base64_values ds of
          None \<Rightarrow> None
        | Some vs \<Rightarrow> map_option ((@) (quantum_bytes vs)) (base64_quanta (drop 4 s)))"
  by pat_completeness auto

termination base64_quanta
proof (relation "measure length")
  show "wf (measure length)" by (rule wf_measure)
next
  fix s :: string assume "s \<noteq> []"
  then have "0 < length s" by (rule length_greater_0_conv [THEN iffD2])
  then show "(drop 4 s, s) \<in> measure length" unfolding in_measure length_drop by (rule diff_less [rotated]) simp
qed

declare base64_quanta.simps [simp del]

definition base64_decode :: "string \<Rightarrow> nat list option" where
  "base64_decode s = base64_quanta (filter (\<lambda>c. c \<noteq> CHR 0x0A \<and> c \<noteq> CHR 0x0D) s)"

section \<open>SHA-256\<close>

type_synonym w32 = "32 word"

text \<open>The constants are the first 32 bits of the fractions of square and cube roots of the first primes.\<close>

definition first_primes :: "nat list" where
  "first_primes = filter (\<lambda>n. list_all (\<lambda>m. n mod m \<noteq> 0) [2..<n]) [2..<312]"

definition floor_root :: "nat \<Rightarrow> nat \<Rightarrow> nat" where
  "floor_root k n = fold (\<lambda>i r. if (r + 2 ^ i) ^ k \<le> n then r + 2 ^ i else r) (rev [0..<37]) 0"

definition root_fraction :: "nat \<Rightarrow> nat \<Rightarrow> w32" where
  "root_fraction k p = of_nat (floor_root k (p * 2 ^ (32 * k)) mod 2 ^ 32)"

definition sha256_k :: "w32 list" where
  "sha256_k = map (root_fraction 3) first_primes"

definition sha256_init :: "w32 list" where
  "sha256_init = map (root_fraction 2) (take 8 first_primes)"

definition big_endian :: "nat \<Rightarrow> nat \<Rightarrow> nat list" where
  "big_endian n v = map (\<lambda>i. v div 256 ^ (n - 1 - i) mod 256) [0..<n]"

definition sha256_pad :: "nat list \<Rightarrow> nat list" where
  "sha256_pad bs = bs @ [0x80] @ replicate ((119 - length bs mod 64) mod 64) 0 @ big_endian 8 (8 * length bs)"

definition word_of_bytes :: "nat list \<Rightarrow> w32" where
  "word_of_bytes bs = foldl (\<lambda>acc b. 256 * acc + of_nat b) 0 bs"

fun chunks :: "nat \<Rightarrow> nat \<Rightarrow> 'a list \<Rightarrow> 'a list list" where
  "chunks n 0 xs = []"
| "chunks n (Suc k) xs = take n xs # chunks n k (drop n xs)"

unbundle bit_operations_syntax

definition small_sigma0 :: "w32 \<Rightarrow> w32" where
  "small_sigma0 x = word_rotr 7 x XOR word_rotr 18 x XOR drop_bit 3 x"

definition small_sigma1 :: "w32 \<Rightarrow> w32" where
  "small_sigma1 x = word_rotr 17 x XOR word_rotr 19 x XOR drop_bit 10 x"

definition big_sigma0 :: "w32 \<Rightarrow> w32" where
  "big_sigma0 x = word_rotr 2 x XOR word_rotr 13 x XOR word_rotr 22 x"

definition big_sigma1 :: "w32 \<Rightarrow> w32" where
  "big_sigma1 x = word_rotr 6 x XOR word_rotr 11 x XOR word_rotr 25 x"

text \<open>The message schedule: each word past the sixteenth from the ones 2, 7, 15 and 16 before it.\<close>

definition schedule_step :: "w32 list \<Rightarrow> w32 list" where
  "schedule_step ws = (let n = length ws
     in ws @ [small_sigma1 (ws ! (n - 2)) + ws ! (n - 7) + small_sigma0 (ws ! (n - 15)) + ws ! (n - 16)])"

definition schedule :: "w32 list \<Rightarrow> w32 list" where
  "schedule ws = (schedule_step ^^ 48) ws"

fun sha256_round :: "w32 \<times> w32 \<Rightarrow> w32 list \<Rightarrow> w32 list" where
  "sha256_round (k, w) [a, b, c, d, e, f, g, h] =
     (let t1 = h + big_sigma1 e + ((e AND f) XOR (NOT e AND g)) + k + w;
          t2 = big_sigma0 a + ((a AND b) XOR (a AND c) XOR (b AND c))
      in [t1 + t2, a, b, c, d + t1, e, f, g])"
| "sha256_round kw s = s"

definition word_bytes :: "w32 \<Rightarrow> nat list" where
  "word_bytes w = map (\<lambda>i. unat (drop_bit i w AND 0xff)) [24, 16, 8, 0]"

definition sha256_block :: "nat list \<Rightarrow> w32 list \<Rightarrow> w32 list" where
  "sha256_block bs h =
     map2 (+) h (fold sha256_round (zip sha256_k (schedule (map word_of_bytes (chunks 4 16 bs)))) h)"

definition sha256_sum :: "nat list \<Rightarrow> nat list" where
  "sha256_sum bs =
     (let padded = sha256_pad bs
      in concat (map word_bytes (fold sha256_block (chunks 64 (length padded div 64) padded) sha256_init)))"

text \<open>The bytes of a text.\<close>

definition text_bytes :: "string \<Rightarrow> nat list" where
  "text_bytes s = map of_char s"

definition bytes_text :: "nat list \<Rightarrow> string" where
  "bytes_text bs = map char_of bs"

lemma bytes_text_bytes [simp]: "bytes_text (text_bytes s) = s"
  by (simp add: bytes_text_def text_bytes_def comp_def)

end
