(* ===== verification/Ec2Misc.thy ===== *)
theory Ec2Misc
  imports Ec2Run Goenc
begin

text \<open>
  The rest of EC2 on the wire (handlers/ec2.go): volumes, key pairs, images, instance types, the
  resources fakeaws never creates, tags, and the EC2 block of /mock/state.
\<close>

section \<open>Volumes\<close>

definition volume_attachment_xml :: "volume_attachment \<Rightarrow> xml" where
  "volume_attachment_xml a = Elem ''item''
     (leaf_omitempty ''volumeId'' (va_volume a) @ leaf_omitempty ''instanceId'' (va_instance a) @
      leaf_omitempty ''device'' (va_device a) @ leaf_omitempty ''status'' (va_state a) @
      leaf_omitempty ''attachTime'' (va_time a) @ leaf_omitempty ''deleteOnTermination'' (va_delete a))"

definition volume_to_xml :: "ec2_volume \<Rightarrow> gomap \<Rightarrow> xml" where
  "volume_to_xml v tags = Elem ''item''
     ([leaf ''volumeId'' (vo_id v)] @ leaf_omitempty ''size'' (vo_size v) @ leaf_omitempty ''snapshotId'' (vo_snapshot v) @
      leaf_omitempty ''availabilityZone'' (vo_zone v) @ leaf_omitempty ''status'' (vo_state v) @
      leaf_omitempty ''createTime'' (vo_create_time v) @ [Elem ''attachmentSet'' (map volume_attachment_xml (vo_attachments v))] @
      leaf_omitempty ''volumeType'' (vo_type v) @ leaf_omitempty ''iops'' (vo_iops v) @ leaf_omitempty ''throughput'' (vo_throughput v) @
      leaf_omitempty ''encrypted'' (vo_encrypted v) @ leaf_omitempty ''kmsKeyId'' (vo_kms_key v) @
      leaf_omitempty ''multiAttachEnabled'' (vo_multi_attach v) @ [Elem ''tagSet'' (tag_set_xml tags)])"

definition volume_filters :: "ec2_volume filter_table" where
  "volume_filters = \<lparr>ft_values =
     [(''volume-id'', \<lambda>v. [vo_id v]), (''status'', \<lambda>v. [vo_state v]), (''availability-zone'', \<lambda>v. [vo_zone v]),
      (''attachment.instance-id'', \<lambda>v. map va_instance (vo_attachments v)),
      (''attachment.delete-on-termination'', \<lambda>v. map va_delete (vo_attachments v))],
     ft_empty_is_value = [], ft_tag_id = Some vo_id\<rparr>"

definition unloaded_empty :: "db \<Rightarrow> response \<Rightarrow> response" where
  "unloaded_empty d r = (if db_loaded d then r else mark_class Empty_collection r)"

definition ec2_describe_volumes :: "string \<Rightarrow> string \<Rightarrow> query_request \<Rightarrow> db \<Rightarrow> response" where
  "ec2_describe_volumes account region req d = (case read_filters volume_filters req [''VolumeId.N''] of
       Inl r \<Rightarrow> r
     | Inr fs \<Rightarrow>
         (let vols = list_volumes account region d; ids = query_list_values (qr_params req) ''VolumeId.''; tags = tag_sets account d
          in case find (\<lambda>i. i \<notin> set (map vo_id vols)) ids of
            Some i \<Rightarrow> unloaded_empty d (ec2_bad ''InvalidVolume.NotFound'' (''The volume '' @ quoted i @ '' does not exist.''))
          | None \<Rightarrow> unloaded_empty d (write_ec2_query ''DescribeVolumes'' [Elem ''volumeSet''
              (map (\<lambda>v. volume_to_xml v (tags (vo_id v)))
                (filter (\<lambda>v. (ids = [] \<or> vo_id v \<in> set ids) \<and> matches_filters volume_filters v fs tags) vols))])))"

section \<open>Key pairs\<close>

definition key_pair_elems :: "ec2_key_pair \<Rightarrow> string \<Rightarrow> string \<Rightarrow> gomap \<Rightarrow> xml list" where
  "key_pair_elems k public created tags =
     leaf_omitempty ''keyPairId'' (kp_id k) @ [leaf ''keyName'' (kp_name k)] @ leaf_omitempty ''keyType'' (kp_type k) @
     [leaf ''keyFingerprint'' (kp_fingerprint k)] @ leaf_omitempty ''publicKey'' public @ leaf_omitempty ''createTime'' created @
     [Elem ''tagSet'' (tag_set_xml tags)]"

definition ec2_key_fingerprint :: "string \<Rightarrow> string" where
  "ec2_key_fingerprint public = join_with '':'' (map (\<lambda>b. hex_encode [b]) (take 16 (sha256_sum (text_bytes public))))"

definition new_key_pair :: "env \<Rightarrow> string \<Rightarrow> string \<Rightarrow> string \<Rightarrow> ec2_key_pair" where
  "new_key_pair env region name public =
     \<lparr>kp_id = ''key-'' @ ec2_rand_id 0 env, kp_name = name, kp_type = [], kp_public = public,
      kp_fingerprint = ec2_key_fingerprint public, kp_region = region, kp_created_at = rfc3339 (e_now env)\<rparr>"

definition store_key_pair :: "string \<Rightarrow> string \<Rightarrow> (string \<times> string) list \<Rightarrow> ec2_key_pair \<Rightarrow> db \<Rightarrow> response \<times> db" where
  "store_key_pair account region tags k d = (case create_key_pair account k d of
       (Some e, d') \<Rightarrow> (ec2_answer_error e, d')
     | (None, d') \<Rightarrow> (write_ec2_query ''ImportKeyPair'' (key_pair_elems k [] [] tags),
         tag_new account region (on_resource tags (kp_id k) ''key-pair'') d'))"

definition key_format_text :: string where
  "key_format_text = ''Key is not in valid OpenSSH public key format: PublicKeyMaterial is not base64-encoded''"

definition ec2_import_key_pair :: "env \<Rightarrow> string \<Rightarrow> string \<Rightarrow> query_request \<Rightarrow> db \<Rightarrow> response \<times> db" where
  "ec2_import_key_pair env account region req d =
     (let p = qr_params req; name = form_get p ''KeyName''; material = form_get p ''PublicKeyMaterial''
      in if name = [] \<or> material = [] then (ec2_required ''KeyName and PublicKeyMaterial'', d)
         else case base64_decode material of
           None \<Rightarrow> (ec2_bad ''InvalidKeyPair.Format'' key_format_text, d)
         | Some bytes \<Rightarrow> (case refuse_tag_specifications p [''key-pair''] of
             Inl r \<Rightarrow> (r, d)
           | Inr specs \<Rightarrow> store_key_pair account region (specs ''key-pair'') (new_key_pair env region name (bytes_text bytes)) d))"

definition key_pair_filters :: "ec2_key_pair filter_table" where
  "key_pair_filters = \<lparr>ft_values =
     [(''key-name'', \<lambda>k. [kp_name k]), (''key-pair-id'', \<lambda>k. [kp_id k]), (''fingerprint'', \<lambda>k. [kp_fingerprint k])],
     ft_empty_is_value = [], ft_tag_id = Some kp_id\<rparr>"

definition key_pairs_missing :: "string list \<Rightarrow> string list \<Rightarrow> ec2_key_pair list \<Rightarrow> response option" where
  "key_pairs_missing names ids ks = (case find (\<lambda>n. n \<notin> set (map kp_name ks)) names of
       Some n \<Rightarrow> Some (write_key_pair_not_found ''The key pair'' n)
     | None \<Rightarrow> map_option (write_key_pair_not_found ''The key pair ID'') (find (\<lambda>i. i \<notin> set (map kp_id ks)) ids))"

definition ec2_describe_key_pairs :: "string \<Rightarrow> string \<Rightarrow> query_request \<Rightarrow> db \<Rightarrow> response" where
  "ec2_describe_key_pairs account region req d =
     (case read_filters key_pair_filters req [''KeyName.N'', ''KeyPairId.N'', ''IncludePublicKey''] of
        Inl r \<Rightarrow> r
      | Inr fs \<Rightarrow> (case refuse_invalid_values (qr_params req) [(''IncludePublicKey'', ec2_bool)] of
          Some r \<Rightarrow> r
        | None \<Rightarrow>
            (let ks = list_key_pairs account region d; names = query_list_values (qr_params req) ''KeyName.'';
                 ids = query_list_values (qr_params req) ''KeyPairId.''; tags = tag_sets account d;
                 shows = (form_get (qr_params req) ''IncludePublicKey'' = ''true'')
             in case key_pairs_missing names ids ks of
               Some r \<Rightarrow> r
             | None \<Rightarrow> write_ec2_query ''DescribeKeyPairs'' [Elem ''keySet''
                 (map (\<lambda>k. Elem ''item'' (key_pair_elems k (if shows then kp_public k else []) (kp_created_at k) (tags (kp_id k))))
                   (filter (\<lambda>k. (names = [] \<or> kp_name k \<in> set names) \<and> (ids = [] \<or> kp_id k \<in> set ids) \<and>
                     matches_filters key_pair_filters k fs tags) ks))])))"

definition ec2_delete_key_pair :: "string \<Rightarrow> string \<Rightarrow> query_request \<Rightarrow> db \<Rightarrow> response \<times> db" where
  "ec2_delete_key_pair account region req d =
     (let name = form_get (qr_params req) ''KeyName''; i = form_get (qr_params req) ''KeyPairId''
      in case (if i = [] then Inr name else map_sum id kp_name (get_key_pair_by_id account region i d)) of
        Inl e \<Rightarrow> (ec2_answer_error e, d)
      | Inr n \<Rightarrow> ec2_done ''DeleteKeyPair'' (delete_key_pair account region n d))"

section \<open>Images\<close>

definition ami_alias :: "ec2_ami \<Rightarrow> string" where
  "ami_alias a = (case am_recorded a of
       Some rec \<Rightarrow> ar_alias rec
     | None \<Rightarrow> (if am_owner a = ec2_amazon_owner then ec2_amazon_owner else []))"

definition ami_to_xml :: "ec2_ami \<Rightarrow> xml" where
  "ami_to_xml a = Elem ''item''
     ([leaf ''imageId'' (am_id a), leaf ''name'' (am_name a), leaf ''imageOwnerId'' (am_owner a),
       leaf ''virtualizationType'' (am_virtualization a), leaf ''rootDeviceName'' (am_root_device a), leaf ''imageState'' ''available'',
       leaf ''imageType'' ''machine''] @ leaf_omitempty ''imageOwnerAlias'' (ami_alias a) @
      (case am_recorded a of None \<Rightarrow> [] | Some rec \<Rightarrow> ar_fields rec))"

text \<open>A recorded field by the name of the element that answers it, empty for an image with none.\<close>

definition ami_field :: "string \<Rightarrow> ec2_ami \<Rightarrow> string" where
  "ami_field name a = (case am_recorded a of None \<Rightarrow> [] | Some rec \<Rightarrow> xml_string name (ar_fields rec))"

definition image_recorded_filters :: "(string \<times> string) list" where
  "image_recorded_filters = [(''architecture'', ''architecture''), (''is-public'', ''isPublic''), (''root-device-type'', ''rootDeviceType''),
     (''platform-details'', ''platformDetails'')]"

definition image_filters :: "ec2_ami filter_table" where
  "image_filters = \<lparr>ft_values =
     [(''name'', \<lambda>a. [am_name a]), (''image-id'', \<lambda>a. [am_id a]), (''owner-id'', \<lambda>a. [am_owner a]), (''owner-alias'', \<lambda>a. [ami_alias a]),
      (''virtualization-type'', \<lambda>a. [am_virtualization a]), (''root-device-name'', \<lambda>a. [am_root_device a]),
      (''state'', \<lambda>a. [''available'']), (''image-type'', \<lambda>a. [''machine''])] @
     map (\<lambda>(name, field). (name, \<lambda>a. [ami_field field a])) image_recorded_filters,
     ft_empty_is_value = [], ft_tag_id = Some am_id\<rparr>"

definition image_owned_by :: "ec2_ami \<Rightarrow> string list \<Rightarrow> string \<Rightarrow> bool" where
  "image_owned_by a owners account \<longleftrightarrow> owners = [] \<or> am_owner a \<in> set owners \<or> (am_owner a = account \<and> ''self'' \<in> set owners) \<or>
     (ami_alias a \<noteq> [] \<and> ami_alias a \<in> set owners)"

text \<open>time.Parse reads a fraction of a second to nine digits.\<close>

definition fraction_nanos :: "string \<Rightarrow> int" where
  "fraction_nanos s = (let ds = take 9 (takeWhile is_digit (drop 20 s))
     in if length (skip_fraction (drop 19 s)) = length (drop 19 s) then 0
        else (case parse_digits 0 (ds @ replicate (9 - length ds) (CHR ''0'')) of None \<Rightarrow> 0 | Some n \<Rightarrow> n))"

definition image_deprecated :: "ec2_ami \<Rightarrow> int \<Rightarrow> bool" where
  "image_deprecated a now = (let t = ami_field ''deprecationTime'' a
     in case parse_rfc3339 t of None \<Rightarrow> False | Some sec \<Rightarrow> sec * nanos_per_second + fraction_nanos t \<le> now)"

text \<open>describedAMIs: the images wanted that are stored, with the first failed read's error.\<close>

definition described_amis :: "string \<Rightarrow> string \<Rightarrow> string list \<Rightarrow> db \<Rightarrow> ec2_ami list \<times> go_error option" where
  "described_amis account region wanted d =
     (if wanted = [] then (list_amis account region d, None)
      else fold (\<lambda>i (amis, err). case get_ami account region i d of
          Inr a \<Rightarrow> (amis @ [a], err)
        | Inl e \<Rightarrow> (amis, if err = None then Some e else err)) wanted ([], None))"

definition image_recorded_refused :: "ec2_ami list \<Rightarrow> ec2_filter list \<Rightarrow> string list \<Rightarrow> string \<Rightarrow> string list" where
  "image_recorded_refused amis fs owners account =
     (if list_ex (\<lambda>a. am_recorded a = None \<and> image_owned_by a owners account) amis
      then filter (\<lambda>n. n \<in> set (map fst image_recorded_filters)) (map fi_name fs) else [])"

definition image_shown :: "int \<Rightarrow> string \<Rightarrow> query_params \<Rightarrow> ec2_filter list \<Rightarrow> (string \<Rightarrow> gomap) \<Rightarrow> ec2_ami \<Rightarrow> bool" where
  "image_shown now account p fs tags a \<longleftrightarrow> image_owned_by a (query_list_values p ''Owner.'') account \<and>
     (query_ids p ''ImageId.'' \<noteq> [] \<or> form_get p ''IncludeDeprecated'' = ''true'' \<or> am_owner a = account \<or> \<not> image_deprecated a now) \<and>
     matches_filters image_filters a fs tags"

definition images_answer :: "env \<Rightarrow> string \<Rightarrow> string \<Rightarrow> query_request \<Rightarrow> db \<Rightarrow> response" where
  "images_answer env account region req d =
     (let p = qr_params req; fs = parse_ec2_filters p; (amis, err) = described_amis account region (query_ids p ''ImageId.'') d
      in case refuse_filters image_filters (qr_action req) fs
               (unread_beside_filters p [''ImageId.N'', ''Owner.N'', ''IncludeDisabled'', ''IncludeDeprecated''])
               (image_recorded_refused amis fs (query_list_values p ''Owner.'') account) of
        Some r \<Rightarrow> r
      | None \<Rightarrow> (case err of
          Some e \<Rightarrow> ec2_answer_error e
        | None \<Rightarrow> write_ec2_query ''DescribeImages'' [Elem ''imagesSet''
            (map ami_to_xml (filter (image_shown (e_now env) account p fs (tag_sets account d)) amis))]))"

definition ec2_describe_images :: "env \<Rightarrow> string \<Rightarrow> string \<Rightarrow> query_request \<Rightarrow> db \<Rightarrow> response \<times> db" where
  "ec2_describe_images env account region req d =
     (let d' = ensure_ami_fixtures account region d in (images_answer env account region req d', d'))"

section \<open>What is never created, and instance types\<close>

definition ec2_none_sets :: "(string \<times> string) list" where
  "ec2_none_sets = [(''DescribeNatGateways'', ''natGatewaySet''), (''DescribeSnapshots'', ''snapshotSet''),
     (''DescribeLaunchTemplates'', ''launchTemplates'')]"

definition ec2_describe_none :: "query_request \<Rightarrow> response" where
  "ec2_describe_none req =
     (case read_filters ec2_no_filters req (if qr_action req = ''DescribeSnapshots'' then [''Owner.N''] else []) of
        Inl r \<Rightarrow> r
      | Inr _ \<Rightarrow> mark_class Empty_collection (write_ec2_query (qr_action req)
          [Elem (case map_of ec2_none_sets (qr_action req) of None \<Rightarrow> [] | Some n \<Rightarrow> n) []]))"

definition known_types :: "(string \<times> int \<times> int) list" where
  "known_types = [(''t2.micro'', 1, 1024), (''t2.small'', 1, 2048), (''t2.medium'', 2, 4096), (''t3.micro'', 2, 1024),
     (''t3.small'', 2, 2048), (''t3.medium'', 2, 4096), (''t3.large'', 2, 8192), (''m5.large'', 2, 8192), (''m5.xlarge'', 4, 16384),
     (''c5.large'', 2, 4096)]"

definition synthesize_instance_type :: "string \<Rightarrow> xml" where
  "synthesize_instance_type name =
     (let (vcpu, mib) = (case map_of known_types name of None \<Rightarrow> (2, 4096) | Some s \<Rightarrow> s)
      in Elem ''item'' [leaf ''instanceType'' name, Elem ''vCpuInfo'' [leaf ''defaultVCpus'' (show_int vcpu)],
           Elem ''memoryInfo'' [leaf ''sizeInMiB'' (show_int mib)], leaf ''hypervisor'' ''nitro''])"

definition ec2_describe_instance_types :: "query_request \<Rightarrow> response" where
  "ec2_describe_instance_types req = (case read_filters ec2_no_filters req [''InstanceType.N''] of
       Inl r \<Rightarrow> r
     | Inr _ \<Rightarrow>
         (let wanted = query_ids (qr_params req) ''InstanceType.'';
              names = (if wanted = [] then [''t2.micro'', ''t3.micro'', ''t3.small'', ''t3.medium'', ''m5.large''] else wanted)
          in write_ec2_query ''DescribeInstanceTypes'' [Elem ''instanceTypeSet'' (map synthesize_instance_type names)]))"

section \<open>Tags\<close>

record tagged_kind =
  tk_prefix :: string
  tk_type :: string
  tk_not_found :: string
  tk_get :: "string \<Rightarrow> string \<Rightarrow> string \<Rightarrow> db \<Rightarrow> go_error option"

definition lookup_error :: "'a result \<Rightarrow> go_error option" where
  "lookup_error r = (case r of Inl e \<Rightarrow> Some e | Inr _ \<Rightarrow> None)"

definition rule_lookup_error :: "ec2_error + 'a \<Rightarrow> go_error option" where
  "rule_lookup_error r = (case r of Inl e \<Rightarrow> Some (ec2_go_error e) | Inr _ \<Rightarrow> None)"

definition ec2_tagged_kinds :: "tagged_kind list" where
  "ec2_tagged_kinds = map (\<lambda>(pre, rt, nf, get). \<lparr>tk_prefix = pre, tk_type = rt, tk_not_found = nf, tk_get = get\<rparr>)
     [(''vpc-'', ''vpc'', ''InvalidVpcID.NotFound'', \<lambda>a r i d. lookup_error (get_vpc a r i d)),
      (''subnet-'', ''subnet'', ec2_subnet_not_found, \<lambda>a r i d. lookup_error (get_subnet a r i d)),
      (''igw-'', ''internet-gateway'', ''InvalidInternetGatewayID.NotFound'', \<lambda>a r i d. lookup_error (get_internet_gateway a r i d)),
      (''rtb-'', ''route-table'', ''InvalidRouteTableID.NotFound'', \<lambda>a r i d. lookup_error (get_route_table a r i d)),
      (''sg-'', ''security-group'', ''InvalidGroup.NotFound'', \<lambda>a r i d. lookup_error (get_security_group a r i d)),
      (''sgr-'', ''security-group-rule'', ''InvalidSecurityGroupRuleId.NotFound'', \<lambda>a r i d. rule_lookup_error (get_security_group_rule a r i d)),
      (''i-'', ''instance'', ''InvalidInstanceID.NotFound'', \<lambda>a r i d. lookup_error (get_instance a r i d)),
      (''eni-'', ''network-interface'', ''InvalidNetworkInterfaceID.NotFound'', \<lambda>a r i d. lookup_error (get_network_interface a r i d)),
      (''key-'', ''key-pair'', ''InvalidKeyPair.NotFound'', \<lambda>a r i d. lookup_error (get_key_pair_by_id a r i d)),
      (''eipalloc-'', ''elastic-ip'', ''InvalidAllocationID.NotFound'', \<lambda>a r i d. lookup_error (get_eip a r i d)),
      (''vol-'', ''volume'', ''InvalidVolume.NotFound'', \<lambda>a r i d. lookup_error (get_volume a r i d))]"

definition taggable_resource :: "string \<Rightarrow> string \<Rightarrow> string \<Rightarrow> string \<Rightarrow> db \<Rightarrow> response + string" where
  "taggable_resource action account region i d =
     (case find (\<lambda>k. has_prefix i (tk_prefix k)) ec2_tagged_kinds of
        None \<Rightarrow> Inl (ec2_refuse action [''tags on '' @ i])
      | Some k \<Rightarrow> (case tk_get k account region i d of
          Some e \<Rightarrow> Inl (if errors_is e ErrNotFound then ec2_bad (tk_not_found k) (''The ID '' @ quoted i @ '' does not exist'')
             else ec2_answer_error e)
        | None \<Rightarrow> Inr (tk_type k)))"

fun taggable_each :: "string \<Rightarrow> string \<Rightarrow> string \<Rightarrow> string list \<Rightarrow> db \<Rightarrow> response + (string \<times> string) list" where
  "taggable_each action account region [] d = Inr []"
| "taggable_each action account region (i # is) d = (case taggable_resource action account region i d of
       Inl r \<Rightarrow> Inl r
     | Inr rt \<Rightarrow> map_sum id ((#) (i, rt)) (taggable_each action account region is d))"

text \<open>The resources by id: a map, so an id named twice counts once.\<close>

definition taggable_resources :: "string \<Rightarrow> string \<Rightarrow> query_request \<Rightarrow> db \<Rightarrow> response + (string \<times> string) list" where
  "taggable_resources account region req d =
     (let ids = query_list_values (qr_params req) ''ResourceId.''
      in if ids = [] then Inl (ec2_required ''ResourceId.N'')
         else map_sum id remdups (taggable_each (qr_action req) account region ids d))"

definition ec2_create_tags :: "string \<Rightarrow> string \<Rightarrow> query_request \<Rightarrow> db \<Rightarrow> response \<times> db" where
  "ec2_create_tags account region req d = (case taggable_resources account region req d of
       Inl r \<Rightarrow> (r, d)
     | Inr resources \<Rightarrow>
         (let add = parse_ec2_tags (qr_params req) ''Tag.''
          in if add = [] then (ec2_required ''Tag.N'', d)
             else (ec2_no_op_success ''CreateTags'',
               put_ec2_tags account region (concat (map (\<lambda>(i, rt). on_resource add i rt) resources)) d)))"

definition tag_matches :: "query_params \<Rightarrow> ec2_tag_match list" where
  "tag_matches p = map (\<lambda>it. (form_get p (it @ ''Key''), if has_param p (it @ ''Value'') then Some (form_get p (it @ ''Value'')) else None))
     (query_list_items p ''Tag.'')"

definition ec2_delete_tags_call :: "string \<Rightarrow> string \<Rightarrow> query_request \<Rightarrow> db \<Rightarrow> response \<times> db" where
  "ec2_delete_tags_call account region req d = (case taggable_resources account region req d of
       Inl r \<Rightarrow> (r, d)
     | Inr resources \<Rightarrow> (ec2_no_op_success ''DeleteTags'', delete_ec2_tags account (map fst resources) (tag_matches (qr_params req)) d))"

definition tag_filters :: "ec2_tag filter_table" where
  "tag_filters = \<lparr>ft_values =
     [(''resource-id'', \<lambda>t. [e_resource_id t]), (''resource-type'', \<lambda>t. [e_resource_type t]), (''key'', \<lambda>t. [e_key t]),
      (''value'', \<lambda>t. [e_value t])],
     ft_empty_is_value = [''value''], ft_tag_id = None\<rparr>"

definition ec2_describe_tags :: "string \<Rightarrow> string \<Rightarrow> query_request \<Rightarrow> db \<Rightarrow> response" where
  "ec2_describe_tags account region req d = (case read_filters tag_filters req [] of
       Inl r \<Rightarrow> r
     | Inr fs \<Rightarrow> write_ec2_query ''DescribeTags'' [Elem ''tagSet''
         (map (\<lambda>t. Elem ''item'' [leaf ''resourceId'' (e_resource_id t), leaf ''resourceType'' (e_resource_type t), leaf ''key'' (e_key t),
             leaf ''value'' (e_value t)])
           (filter (\<lambda>t. matches_filters tag_filters t fs (\<lambda>_. [])) (list_ec2_tags account region d)))])"

end
