(* ===== verification/Ec2.thy ===== *)
theory Ec2
  imports Ec2Misc
begin

text \<open>
  The EC2 dispatcher (handleEC2 of handlers/ec2.go), the EC2 block of /mock/state, and what requests keep: the
  keys and references of EC2's tables and every other service.
\<close>

section \<open>Dispatch\<close>

type_synonym ec2_read = "env \<Rightarrow> string \<Rightarrow> string \<Rightarrow> query_request \<Rightarrow> db \<Rightarrow> response"
type_synonym ec2_write = "env \<Rightarrow> string \<Rightarrow> string \<Rightarrow> query_request \<Rightarrow> db \<Rightarrow> response \<times> db"

text \<open>The actions that answer from the state alone, and those that change it.\<close>

definition ec2_reads :: "(string \<times> ec2_read) list" where
  "ec2_reads =
     [(''DescribeVpcs'', \<lambda>env. ec2_describe_vpcs), (''DescribeVpcAttribute'', \<lambda>env. ec2_describe_vpc_attribute),
      (''DescribeSubnets'', \<lambda>env. ec2_describe_subnets), (''DescribeNetworkInterfaces'', \<lambda>env. ec2_describe_network_interfaces),
      (''DescribeInternetGateways'', \<lambda>env. ec2_describe_internet_gateways), (''DescribeRouteTables'', \<lambda>env. ec2_describe_route_tables),
      (''DescribeAddresses'', \<lambda>env. ec2_describe_addresses), (''DescribeAddressesAttribute'', \<lambda>env. ec2_describe_addresses_attribute),
      (''DescribeInstances'', ec2_describe_instances), (''DescribeKeyPairs'', \<lambda>env. ec2_describe_key_pairs),
      (''DescribeAvailabilityZones'', \<lambda>env. ec2_describe_availability_zones), (''DescribeVolumes'', \<lambda>env. ec2_describe_volumes),
      (''DescribeNatGateways'', \<lambda>env account region req d. ec2_describe_none req),
      (''DescribeSnapshots'', \<lambda>env account region req d. ec2_describe_none req),
      (''DescribeLaunchTemplates'', \<lambda>env account region req d. ec2_describe_none req),
      (''DescribeInstanceTypes'', \<lambda>env account region req d. ec2_describe_instance_types req),
      (''DescribeTags'', \<lambda>env. ec2_describe_tags), (''DescribeInstanceAttribute'', \<lambda>env. ec2_describe_instance_attribute),
      (''DescribeSecurityGroups'', \<lambda>env. ec2_describe_security_groups),
      (''DescribeSecurityGroupRules'', \<lambda>env. ec2_describe_security_group_rules),
      (''ModifySecurityGroupRules'', \<lambda>env account region req d. ec2_refuse (qr_action req) [''SecurityGroupRule.N''])]"

definition ec2_writes :: "(string \<times> ec2_write) list" where
  "ec2_writes =
     [(''CreateVpc'', ec2_create_vpc), (''ModifyVpcAttribute'', \<lambda>env. ec2_modify_vpc_attribute), (''DeleteVpc'', \<lambda>env. ec2_delete_vpc),
      (''CreateSubnet'', ec2_create_subnet), (''DeleteSubnet'', \<lambda>env. ec2_delete_subnet),
      (''ModifySubnetAttribute'', \<lambda>env. ec2_modify_subnet_attribute),
      (''ModifyNetworkInterfaceAttribute'', \<lambda>env. ec2_modify_network_interface_attribute),
      (''CreateInternetGateway'', ec2_create_internet_gateway), (''AttachInternetGateway'', \<lambda>env. ec2_attach_internet_gateway),
      (''DetachInternetGateway'', \<lambda>env. ec2_detach_internet_gateway), (''DeleteInternetGateway'', \<lambda>env. ec2_delete_internet_gateway),
      (''CreateRouteTable'', ec2_create_route_table), (''DeleteRouteTable'', \<lambda>env. ec2_delete_route_table),
      (''AssociateRouteTable'', ec2_associate_route_table),
      (''DisassociateRouteTable'', \<lambda>env account region. ec2_disassociate_route_table account),
      (''CreateRoute'', \<lambda>env. ec2_create_route), (''DeleteRoute'', \<lambda>env. ec2_delete_route),
      (''AllocateAddress'', ec2_allocate_address), (''ReleaseAddress'', \<lambda>env. ec2_release_address),
      (''AssociateAddress'', ec2_associate_address), (''DisassociateAddress'', \<lambda>env. ec2_disassociate_address),
      (''RunInstances'', ec2_run_instances), (''ModifyInstanceAttribute'', \<lambda>env. ec2_modify_instance_attribute),
      (''TerminateInstances'', \<lambda>env. ec2_terminate_instances), (''ImportKeyPair'', ec2_import_key_pair),
      (''DeleteKeyPair'', \<lambda>env. ec2_delete_key_pair), (''DescribeImages'', ec2_describe_images),
      (''CreateTags'', \<lambda>env. ec2_create_tags), (''DeleteTags'', \<lambda>env. ec2_delete_tags_call),
      (''CreateSecurityGroup'', ec2_create_security_group), (''DeleteSecurityGroup'', \<lambda>env. ec2_delete_security_group),
      (''AuthorizeSecurityGroupIngress'', \<lambda>env account region. ec2_authorize_security_group_rules env account region False),
      (''RevokeSecurityGroupIngress'', \<lambda>env account region. ec2_revoke_security_group_rules account region False),
      (''AuthorizeSecurityGroupEgress'', \<lambda>env account region. ec2_authorize_security_group_rules env account region True),
      (''RevokeSecurityGroupEgress'', \<lambda>env account region. ec2_revoke_security_group_rules account region True)]"

definition ec2_unknown_action :: "string \<Rightarrow> response" where
  "ec2_unknown_action action = mark_class Not_modelled_404 (ec2_answer_error (ErrWrap ErrNotFound
     (''EC2 action '' @ go_quote action @ '' not yet implemented in fakeaws v1: '' @ error_text ErrNotFound)))"

definition ec2_dispatch :: "env \<Rightarrow> string \<Rightarrow> string \<Rightarrow> query_request \<Rightarrow> db \<Rightarrow> response \<times> db" where
  "ec2_dispatch env account region req d = (case map_of ec2_reads (qr_action req) of
       Some h \<Rightarrow> (h env account region req d, d)
     | None \<Rightarrow> (case map_of ec2_writes (qr_action req) of
         Some h \<Rightarrow> h env account region req d
       | None \<Rightarrow> (ec2_unknown_action (qr_action req), d)))"

definition handle_ec2 :: "env \<Rightarrow> string \<Rightarrow> request \<Rightarrow> db \<Rightarrow> response \<times> db" where
  "handle_ec2 env region r d = (case parse_query_rpc r of
       Inl _ \<Rightarrow> (ec2_answer_error ErrConflict, d)
     | Inr req \<Rightarrow> ec2_dispatch env (account_id d) region req d)"

section \<open>/mock/state\<close>

definition described_state :: "string \<Rightarrow> string \<times> string \<Rightarrow> json" where
  "described_state key s = JObj [(key, JStr (fst s)), (''description'', JStr (snd s))]"

definition permission_state :: "ec2_permission \<Rightarrow> json" where
  "permission_state q = JObj
     [(''ip_protocol'', JStr (pe_protocol q)), (''from_port'', JInt (pe_from q)), (''to_port'', JInt (pe_to q)),
      (''ip_ranges'', JArr (map (described_state ''cidr_ip'') (pe_v4 q))),
      (''ipv6_ranges'', JArr (map (described_state ''cidr_ipv6'') (pe_v6 q))),
      (''user_id_group_pairs'', JArr (map (\<lambda>(g, u, t). JObj [(''group_id'', JStr g), (''user_id'', JStr u), (''description'', JStr t)]) (pe_groups q))),
      (''prefix_list_ids'', JArr (map (described_state ''prefix_list_id'') (pe_lists q)))]"

definition strs :: "(string \<times> string) list \<Rightarrow> (string \<times> json) list" where
  "strs = map (\<lambda>(k, v). (k, JStr v))"

definition instance_state :: "string \<Rightarrow> db \<Rightarrow> ec2_instance \<Rightarrow> json" where
  "instance_state account d x =
     (let eni = instance_enis account d (in_id x); of_eni = (\<lambda>f. case eni of None \<Rightarrow> [] | Some n \<Rightarrow> f n)
      in JObj (strs [(''id'', in_id x), (''subnet_id'', in_subnet x), (''ami_id'', in_ami x), (''instance_type'', in_type x),
           (''iam_instance_profile_name'', in_profile_name x)] @
         [(''vpc_security_group_ids'', json_strings (case eni of None \<Rightarrow> [] | Some n \<Rightarrow> ni_groups n))] @
         strs [(''public_ip'', of_eni ni_public_ip), (''private_ip'', of_eni ni_private_ip), (''state'', in_state x),
           (''region'', in_region x), (''arn'', in_arn x)]))"

definition eni_state :: "ec2_eni \<Rightarrow> json" where
  "eni_state n = JObj (strs [(''id'', ni_id n), (''instance_id'', ni_instance n), (''subnet_id'', ni_subnet n), (''vpc_id'', ni_vpc n),
       (''private_ip'', ni_private_ip n), (''public_ip'', ni_public_ip n)] @
     [(''security_group_ids'', json_strings (ni_groups n)), (''source_dest_check'', JBool (ni_source_dest n)), (''region'', JStr (ni_region n))])"

definition group_state :: "string \<Rightarrow> db \<Rightarrow> ec2_sg \<Rightarrow> json list" where
  "group_state account d g = (case list_security_group_rules account (sg_region g) (sg_id g) d of
       Inl _ \<Rightarrow> []
     | Inr rules \<Rightarrow> [JObj (strs [(''id'', sg_id g), (''vpc_id'', sg_vpc g), (''group_name'', sg_name g), (''description'', sg_description g),
           (''region'', sg_region g), (''arn'', sg_arn g)] @
         [(''ip_permissions'', JArr (map permission_state (fst (sg_permissions rules)))),
          (''ip_permissions_egress'', JArr (map permission_state (snd (sg_permissions rules))))])])"

definition ec2_routing_state :: "string \<Rightarrow> db \<Rightarrow> (string \<times> json) list" where
  "ec2_routing_state account d =
     [(''internet_gateways'', JArr (map (\<lambda>g. JObj (strs [(''id'', gw_id g), (''vpc_id'', gw_vpc g), (''region'', gw_region g), (''arn'', gw_arn g)]))
         (list_internet_gateways account [] d))),
      (''route_tables'', JArr (map (\<lambda>t. JObj (strs [(''id'', rt_id t), (''vpc_id'', rt_vpc t), (''region'', rt_region t), (''arn'', rt_arn t)]))
         (list_route_tables account [] d))),
      (''routes'', JArr (map (\<lambda>x. JObj (strs [(''route_table_id'', rx_rtb x), (''destination_cidr_block'', rx_dest x), (''gateway_id'', rx_gateway x),
           (''nat_gateway_id'', rx_nat x), (''instance_id'', rx_instance x), (''network_interface_id'', rx_eni x), (''origin'', rx_origin x),
           (''state'', rx_state x)])) (list_routes account d))),
      (''route_table_associations'', JArr (map (\<lambda>a. JObj (strs [(''id'', as_id a), (''route_table_id'', as_rtb a), (''subnet_id'', as_subnet a),
           (''gateway_id'', as_gateway a)] @ [(''main'', JBool (as_main a)), (''state'', JStr (as_state a))])) (list_associations account d))),
      (''eips'', JArr (map (\<lambda>e. JObj (strs [(''allocation_id'', ei_id e), (''public_ip'', ei_public_ip e), (''domain'', ei_domain e),
           (''network_interface_id'', ei_eni e), (''instance_id'', ei_instance e), (''association_id'', ei_assoc e), (''region'', ei_region e),
           (''arn'', ec2_arn ''elastic-ip'' (ei_region e) account (ei_id e))])) (list_eips account [] d)))]"

definition gather_ec2_state :: "string \<Rightarrow> db \<Rightarrow> json" where
  "gather_ec2_state account d = JObj (
     [(''vpcs'', JArr (map (\<lambda>v. JObj (strs [(''id'', vp_id v), (''cidr_block'', vp_cidr v), (''region'', vp_region v), (''arn'', vp_arn v)]))
         (list_vpcs account [] d))),
      (''subnets'', JArr (map (\<lambda>s. JObj (strs [(''id'', sn_id s), (''vpc_id'', sn_vpc s), (''cidr_block'', sn_cidr s),
           (''availability_zone'', sn_zone s), (''region'', sn_region s), (''arn'', sn_arn s)] @
           [(''map_public_ip_on_launch'', JBool (sn_map_public s))])) (list_subnets account [] d))),
      (''instances'', JArr (map (instance_state account d) (list_instances account [] d))),
      (''network_interfaces'', JArr (map eni_state (list_network_interfaces account [] d))),
      (''volumes'', JArr (map (\<lambda>v. JObj (strs [(''id'', vo_id v), (''availability_zone'', vo_zone v), (''state'', vo_state v)] @
           [(''instance_ids'', json_strings (map va_instance (vo_attachments v))), (''region'', JStr (vo_region v))])) (list_volumes account [] d))),
      (''security_groups'', JArr (concat (map (group_state account d) (list_security_groups account [] d)))),
      (''key_pairs'', JArr (map (\<lambda>k. JObj (strs [(''name'', kp_name k), (''fingerprint'', kp_fingerprint k), (''region'', kp_region k)]))
         (list_key_pairs account [] d)))] @ ec2_routing_state account d)"

section \<open>What the requests keep\<close>


lemma pk_fold: "(\<And>x t. pk key t \<Longrightarrow> pk key (f x t)) \<Longrightarrow> pk key t \<Longrightarrow> pk key (fold f xs t)"
  by (induction xs arbitrary: t) simp_all

lemma put_ec2_tags_keeps: "ec2_keeps d (put_ec2_tags a region ts d)"
  by (auto simp: ec2_keeps_def ec2_rest_def put_ec2_tags_def ec2_tag_pk_def [abs_def] intro!: pk_fold pk_upsert)

lemma delete_ec2_tags_keeps: "ec2_keeps d (delete_ec2_tags a ids ms d)"
  by (auto simp: ec2_keeps_def ec2_rest_def delete_ec2_tags_def split_def intro!: pk_fold pk_delete)

lemma tag_new_keeps: "ec2_keeps d (tag_new a region ts d)"
  by (simp add: tag_new_def put_ec2_tags_keeps)

text \<open>The steps of a create: the rows, then their tags.\<close>

lemma ec2_keeps_tagged: "ec2_keeps d d' \<Longrightarrow> ec2_keeps d (tag_new a region ts d')"
  by (rule ec2_keeps_trans [OF _ tag_new_keeps])

lemma keeps_snd: "ec2_keeps d (snd r) \<Longrightarrow> r = (x, d') \<Longrightarrow> ec2_keeps d d'"
  by simp

lemma snd_ec2_done [simp]: "snd (ec2_done action res) = snd res"
  by (simp add: ec2_done_def split: prod.split option.split)

named_theorems ec2_keeping \<open>what the EC2 handlers keep\<close>

lemma purge_terminated_keeps: "ec2_keeps d (purge_terminated a region s d)"
proof -
  have "ec2_keeps d (fold (\<lambda>x d. snd (delete_instance a region (in_id x) d)) xs d)" for xs
  proof (induction xs arbitrary: d)
    case (Cons x xs)
    show ?case by (simp add: ec2_keeps_trans [OF delete_instance_keeps Cons.IH])
  qed simp
  then show ?thesis by (simp add: purge_terminated_def)
qed

lemma ec2_create_vpc_keeps [ec2_keeping]: "ec2_keeps d (snd (ec2_create_vpc env a region req d))"
proof -
  have "as_rtb (mr_assoc (new_main_route_table env 2 a region i)) = rt_id (mr_table (new_main_route_table env 2 a region i))" for i
    by (simp add: new_main_route_table_def Let_def)
  from keeps_snd [OF create_vpc_keeps [OF this]]
  have "ec2_keeps d d'" if "create_vpc_with_defaults a v sg (new_main_route_table env 2 a region i) d = (e, d')" for v sg i e d'
    using that .
  then show ?thesis
    by (auto simp: ec2_create_vpc_def Let_def split: sum.split prod.split option.split intro: ec2_keeps_tagged)
qed

lemma ec2_modify_vpc_attribute_keeps [ec2_keeping]: "ec2_keeps d (snd (ec2_modify_vpc_attribute a region req d))"
  by (auto simp: ec2_modify_vpc_attribute_def set_vpc_dns_def Let_def split: option.split sum.split intro!: update_vpc_keeps)

lemma ec2_delete_vpc_keeps [ec2_keeping]: "ec2_keeps d (snd (ec2_delete_vpc a region req d))"
  by (simp add: ec2_delete_vpc_def delete_vpc_keeps)

lemma ec2_create_subnet_keeps [ec2_keeping]: "ec2_keeps d (snd (ec2_create_subnet env a region req d))"
proof -
  have "ec2_keeps d d'" if "create_subnet a s d = (e, d')" for s e d' using create_subnet_keeps [of d a s] that by simp
  then show ?thesis unfolding ec2_create_subnet_def Let_def
    by (auto split: sum.split prod.split option.split ec2_error.split intro: ec2_keeps_tagged)
qed

lemma ec2_modify_subnet_attribute_keeps [ec2_keeping]: "ec2_keeps d (snd (ec2_modify_subnet_attribute a region req d))"
proof -
  have "ec2_keeps d (snd (update_subnet a region i (\<lambda>s. if p then s\<lparr>sn_map_public := b\<rparr> else s) d))" for i p b
    by (rule update_subnet_keeps) simp
  from keeps_snd [OF this] show ?thesis
    by (auto simp: ec2_modify_subnet_attribute_def Let_def split: prod.split option.split)
qed

lemma ec2_delete_subnet_keeps [ec2_keeping]: "ec2_keeps d (snd (ec2_delete_subnet a region req d))"
  by (simp add: ec2_delete_subnet_def Let_def ec2_keeps_trans [OF purge_terminated_keeps delete_subnet_keeps])

lemma ec2_create_internet_gateway_keeps [ec2_keeping]: "ec2_keeps d (snd (ec2_create_internet_gateway env a region req d))"
proof -
  have "ec2_keeps d (snd (create_internet_gateway a (new_ec2_igw env a region) d))"
    by (rule create_internet_gateway_keeps) (simp add: new_ec2_igw_def Let_def)
  from keeps_snd [OF this] show ?thesis
    by (auto simp: ec2_create_internet_gateway_def Let_def split: sum.split prod.split option.split intro: ec2_keeps_tagged)
qed

lemma ec2_attach_internet_gateway_keeps [ec2_keeping]: "ec2_keeps d (snd (ec2_attach_internet_gateway a region req d))"
  by (simp add: ec2_attach_internet_gateway_def Let_def attach_internet_gateway_keeps)

lemma ec2_detach_internet_gateway_keeps [ec2_keeping]: "ec2_keeps d (snd (ec2_detach_internet_gateway a region req d))"
  by (simp add: ec2_detach_internet_gateway_def detach_internet_gateway_keeps)

lemma ec2_delete_internet_gateway_keeps [ec2_keeping]: "ec2_keeps d (snd (ec2_delete_internet_gateway a region req d))"
  by (simp add: ec2_delete_internet_gateway_def delete_internet_gateway_keeps)

lemma ec2_create_route_table_keeps [ec2_keeping]: "ec2_keeps d (snd (ec2_create_route_table env a region req d))"
proof -
  have "ec2_keeps d d'" if "create_route_table a rt d = (e, d')" for rt e d' using create_route_table_keeps [of d a rt] that by simp
  then show ?thesis
    by (auto simp: ec2_create_route_table_def Let_def split: sum.split prod.split option.split intro: ec2_keeps_tagged)
qed

lemma ec2_delete_route_table_keeps [ec2_keeping]: "ec2_keeps d (snd (ec2_delete_route_table a region req d))"
  using delete_route_table_keeps [of d a region "form_get (qr_params req) ''RouteTableId''"]
  by (auto simp: ec2_delete_route_table_def Let_def split: prod.split option.split ec2_error.split)

lemma ec2_associate_route_table_keeps [ec2_keeping]: "ec2_keeps d (snd (ec2_associate_route_table env a region req d))"
proof -
  have "ec2_keeps d d'" if "associate_route_table a region x d = (e, d')" for x e d'
    using associate_route_table_keeps [of d a region x] that by simp
  then show ?thesis by (auto simp: ec2_associate_route_table_def Let_def split: prod.split option.split)
qed

lemma ec2_disassociate_route_table_keeps [ec2_keeping]: "ec2_keeps d (snd (ec2_disassociate_route_table a req d))"
  using disassociate_route_table_keeps [of d a "form_get (qr_params req) ''AssociationId''"]
  by (auto simp: ec2_disassociate_route_table_def Let_def split: prod.split option.split ec2_error.split)

lemma ec2_create_route_keeps [ec2_keeping]: "ec2_keeps d (snd (ec2_create_route a region req d))"
proof -
  have "ec2_keeps d d'" if "create_route a region x d = (e, d')" for x e d' using create_route_keeps [of d a region x] that by simp
  then show ?thesis by (auto simp: ec2_create_route_def Let_def split: prod.split option.split)
qed

lemma ec2_delete_route_keeps [ec2_keeping]: "ec2_keeps d (snd (ec2_delete_route a region req d))"
proof -
  have "ec2_keeps d d'" if "delete_route a region rtb dest d = (e, d')" for rtb dest e d'
    using delete_route_keeps [of d a region rtb dest] that by simp
  then show ?thesis by (auto simp: ec2_delete_route_def Let_def split: prod.split option.split ec2_error.split)
qed


section \<open>Addresses\<close>

lemma ec2_allocate_address_keeps [ec2_keeping]: "ec2_keeps d (snd (ec2_allocate_address env a region req d))"
  by (auto simp: ec2_allocate_address_def Let_def split: sum.split prod.split intro: ec2_keeps_tagged dest: create_eip_keeps)

lemma ec2_release_address_keeps [ec2_keeping]: "ec2_keeps d (snd (ec2_release_address a region req d))"
  using delete_eip_keeps [of d a region "form_get (qr_params req) ''AllocationId''"]
  by (auto simp: ec2_release_address_def Let_def split: prod.split option.split)

lemma instance_enis_stored:
  assumes "instance_enis a d i = Some n"
  shows "\<lparr>ow_account = a, ow_data = n\<rparr> \<in> set (ec2_enis (ec2_tbls d))" and "ni_instance n = i"
proof -
  from assms have "n \<in> set (rev (list_network_interfaces a [] d))" "ni_instance n = i"
    unfolding instance_enis_def by (auto simp: find_Some_iff) (metis length_rev nth_mem set_rev)
  then show "\<lparr>ow_account = a, ow_data = n\<rparr> \<in> set (ec2_enis (ec2_tbls d))" "ni_instance n = i"
    by (auto simp: list_network_interfaces_def set_list_scoped)
qed

lemma association_target_stored:
  assumes "association_target a region req d = Inr n"
  shows "\<lparr>ow_account = a, ow_data = n\<rparr> \<in> set (ec2_enis (ec2_tbls d))"
  using assms unfolding association_target_def named_interface_def primary_interface_def Let_def
  by (auto split: if_splits sum.splits option.splits dest: get_network_interface_Inr instance_enis_stored)

lemma snd_associate_answer [simp]: "snd (associate_answer i assoc e x res) = snd res"
  by (simp add: associate_answer_def split: prod.split option.split)

lemma ec2_associate_address_keeps [ec2_keeping]: "ec2_keeps d (snd (ec2_associate_address env a region req d))"
proof -
  have "eni_keeps_place (eni_with_eip e)" for e by (simp add: eni_keeps_place_def eni_with_eip_def)
  then have "ec2_keeps d (snd (associate_eip a e' (eni_with_eip e x) d))" if "association_target a region req d = Inr x" for e e' x
    by (rule associate_eip_keeps [OF association_target_stored [OF that]])
  then show ?thesis by (auto simp: ec2_associate_address_def Let_def split: sum.split)
qed

lemma ec2_disassociate_address_keeps [ec2_keeping]: "ec2_keeps d (snd (ec2_disassociate_address a region req d))"
proof -
  have p: "eni_keeps_place eni_without_eip" by (simp add: eni_keeps_place_def eni_without_eip_def)
  have "ec2_keeps d (snd (disassociate_eip a e (Some (eni_without_eip x)) d))" if "get_network_interface a region i d = Inr x" for e i x
    by (rule disassociate_eip_keeps) (use p get_network_interface_Inr(1) [OF that] in blast)
  then show ?thesis by (auto simp: ec2_disassociate_address_def Let_def split: option.split sum.split)
qed

section \<open>Security groups\<close>

lemma ec2_create_security_group_keeps [ec2_keeping]: "ec2_keeps d (snd (ec2_create_security_group env a region req d))"
proof -
  have "ec2_keeps d (snd (store_security_group a region specs g d))" for specs g
    using create_security_group_keeps [of d a g]
    by (auto simp: store_security_group_def split: prod.split option.split intro: ec2_keeps_tagged)
  then show ?thesis by (auto simp: ec2_create_security_group_def Let_def split: sum.split)
qed

lemma snd_delete_group_answer [simp]: "snd (delete_group_answer i res) = snd res"
  by (simp add: delete_group_answer_def split: prod.split option.split ec2_error.split)

lemma ec2_delete_security_group_keeps [ec2_keeping]: "ec2_keeps d (snd (ec2_delete_security_group a region req d))"
  by (simp add: ec2_delete_security_group_def Let_def delete_security_group_keeps split: sum.split)

lemma ec2_authorize_keeps [ec2_keeping]: "ec2_keeps d (snd (ec2_authorize_security_group_rules env a region egress req d))"
  by (auto simp: ec2_authorize_security_group_rules_def Let_def split: sum.split option.split prod.split dest: authorize_keeps)

lemma snd_revoke_answer [simp]: "snd (revoke_answer action res) = snd res"
  by (simp add: revoke_answer_def split: prod.split option.split)

lemma ec2_revoke_keeps [ec2_keeping]: "ec2_keeps d (snd (ec2_revoke_security_group_rules a region egress req d))"
  by (simp add: ec2_revoke_security_group_rules_def Let_def revoke_keeps split: sum.split)

section \<open>Instances and interfaces\<close>

lemma ensure_ami_fixtures_keeps: "ec2_keeps d (ensure_ami_fixtures a region d)"
proof -
  have "ec2_keeps d (fold (seed_ami a) xs d)" for xs
    by (induction xs arbitrary: d) (auto intro: ec2_keeps_trans seed_ami_keeps)
  then show ?thesis by (simp add: ensure_ami_fixtures_def)
qed

lemma store_instance_keeps: "ec2_keeps d (snd (store_instance a region specs x eni d))"
  by (auto simp: store_instance_def split: sum.split prod.split intro: ec2_keeps_tagged dest: create_instance_keeps)

lemma launch_keeps: "ec2_keeps d (snd (launch env a region nw specs p d))"
  by (simp add: launch_def store_instance_keeps split: sum.split)

lemma ec2_run_instances_keeps [ec2_keeping]: "ec2_keeps d (snd (ec2_run_instances env a region req d))"
  by (simp add: ec2_run_instances_def Let_def ec2_keeps_trans [OF ensure_ami_fixtures_keeps launch_keeps] split: sum.split option.split)

lemma modify_eni_keeps: "ec2_keeps d (snd (modify_eni a region i p d))"
proof -
  have "eni_keeps_place (eni_attribute_change p)" by (simp add: eni_keeps_place_def eni_attribute_change_def)
  then show ?thesis by (simp add: modify_eni_def Let_def update_network_interface_keeps split: sum.split)
qed

lemma ec2_modify_network_interface_attribute_keeps [ec2_keeping]:
  "ec2_keeps d (snd (ec2_modify_network_interface_attribute a region req d))"
  by (simp add: ec2_modify_network_interface_attribute_def Let_def modify_eni_keeps split: option.split)

lemma set_instance_attributes_place:
  "in_id (set_instance_attributes p suffix x) = in_id x" "in_subnet (set_instance_attributes p suffix x) = in_subnet x"
  "in_region (set_instance_attributes p suffix x) = in_region x"
  by (simp_all add: set_instance_attributes_def instance_attributes_def Let_def)

lemma snd_modify_instance_answer [simp]: "snd (modify_instance_answer i res) = snd res"
  by (simp add: modify_instance_answer_def split: prod.split option.split)

lemma ec2_modify_instance_attribute_keeps [ec2_keeping]: "ec2_keeps d (snd (ec2_modify_instance_attribute a region req d))"
proof -
  have "ec2_keeps d (snd (update_instance_attributes a region i (Some (set_instance_attributes p s)) sd d))" for i p s sd
    by (rule update_instance_attributes_keeps) (auto simp: set_instance_attributes_place)
  then show ?thesis by (simp add: ec2_modify_instance_attribute_def Let_def split: option.split)
qed

lemma ec2_terminate_instances_keeps [ec2_keeping]: "ec2_keeps d (snd (ec2_terminate_instances a region req d))"
  by (auto simp: ec2_terminate_instances_def Let_def split: sum.split prod.split dest: set_instance_state_keeps)

section \<open>Key pairs, images and tags\<close>

lemma ec2_import_key_pair_keeps [ec2_keeping]: "ec2_keeps d (snd (ec2_import_key_pair env a region req d))"
proof -
  have "ec2_keeps d (snd (store_key_pair a region tags k d))" for tags k
    using create_key_pair_keeps [of d a k] by (auto simp: store_key_pair_def split: prod.split option.split intro: ec2_keeps_tagged)
  then show ?thesis by (auto simp: ec2_import_key_pair_def Let_def split: sum.split option.split)
qed

lemma ec2_delete_key_pair_keeps [ec2_keeping]: "ec2_keeps d (snd (ec2_delete_key_pair a region req d))"
  by (auto simp: ec2_delete_key_pair_def Let_def delete_key_pair_keeps split: sum.split)

lemma ec2_describe_images_keeps [ec2_keeping]: "ec2_keeps d (snd (ec2_describe_images env a region req d))"
  by (simp add: ec2_describe_images_def Let_def ensure_ami_fixtures_keeps)

lemma ec2_create_tags_keeps [ec2_keeping]: "ec2_keeps d (snd (ec2_create_tags a region req d))"
  by (simp add: ec2_create_tags_def Let_def put_ec2_tags_keeps split: sum.split)

lemma ec2_delete_tags_keeps [ec2_keeping]: "ec2_keeps d (snd (ec2_delete_tags_call a region req d))"
  by (simp add: ec2_delete_tags_call_def delete_ec2_tags_keeps split: sum.split)

section \<open>Every request\<close>

lemma ec2_writes_keep: "map_of ec2_writes action = Some h \<Longrightarrow> ec2_keeps d (snd (h env a region req d))"
proof -
  have "list_all (\<lambda>(_, h). \<forall>env a region req d. ec2_keeps d (snd (h env a region req d))) ec2_writes"
    by (simp add: ec2_writes_def ec2_keeping)
  then show "map_of ec2_writes action = Some h \<Longrightarrow> ec2_keeps d (snd (h env a region req d))"
    by (auto simp: list_all_iff dest!: map_of_SomeD)
qed

lemma handle_ec2_keeps: "ec2_keeps d (snd (handle_ec2 env region r d))"
  by (auto simp: handle_ec2_def ec2_dispatch_def ec2_writes_keep split: sum.split option.split)

type_synonym ec2_event = "env \<times> string \<times> request"

definition ec2_run :: "ec2_event list \<Rightarrow> db \<Rightarrow> db" where
  "ec2_run es d = fold (\<lambda>(env, region, r) d. snd (handle_ec2 env region r d)) es d"

lemma ec2_run_keeps: "ec2_keeps d (ec2_run es d)"
proof (induction es arbitrary: d)
  case (Cons e es)
  obtain env region r where "e = (env, region, r)" by (cases e)
  then show ?case using ec2_keeps_trans [OF handle_ec2_keeps Cons.IH] by (simp add: ec2_run_def)
qed (simp add: ec2_run_def)

end
