(* ===== verification/Ec2Address.thy ===== *)
theory Ec2Address
  imports Ec2Misc
begin

text \<open>
  What the address walks and the filter wildcards compute: each is an optimised or recursive routine, proved
  equal to the plain definition of its result.
\<close>

section \<open>Wildcards are languages\<close>










section \<open>Private addresses\<close>

definition usable :: "ip_prefix \<Rightarrow> nat list" where
  "usable p = [px_first p + 4..<px_last p]"

definition takes :: "string list \<Rightarrow> string \<Rightarrow> nat \<Rightarrow> bool" where
  "takes used want a \<longleftrightarrow> show_v4 a \<notin> set used \<and> (want = [] \<or> want = show_v4 a)"

lemma first_free_find: "first_free used want hi a = map_option show_v4 (find (takes used want) [a..<hi])"
proof (induction used want hi a rule: first_free.induct)
  case (1 used want hi a)
  show ?case
  proof (cases "a < hi")
    case True
    then have e: "[a..<hi] = a # [Suc a..<hi]" by (rule upt_conv_Cons)
    have s: "first_free used want hi a = (if takes used want a then Some (show_v4 a) else first_free used want hi (Suc a))"
      using True by (subst first_free.simps) (simp add: takes_def)
    show ?thesis
    proof (cases "takes used want a")
      case False
      then have "first_free used want hi (Suc a) = map_option show_v4 (find (takes used want) [Suc a..<hi])"
        using 1 True unfolding takes_def by simp
      with False show ?thesis by (simp add: s e)
    qed (simp add: s e)
  qed (simp add: first_free.simps)
qed

lemma find_upt:
  "find P [m..<n] = Some a \<longleftrightarrow> m \<le> a \<and> a < n \<and> P a \<and> (\<forall>b. m \<le> b \<and> b < a \<longrightarrow> \<not> P b)"
proof (induction "n - m" arbitrary: m)
  case (Suc k)
  then have e: "[m..<n] = m # [Suc m..<n]" by (simp add: upt_conv_Cons)
  from Suc have "find P [Suc m..<n] = Some a \<longleftrightarrow> Suc m \<le> a \<and> a < n \<and> P a \<and> (\<forall>b. Suc m \<le> b \<and> b < a \<longrightarrow> \<not> P b)" by simp
  then show ?case unfolding e using Suc by (auto simp: not_less_eq_eq le_Suc_eq) (metis Suc_leI le_neq_implies_less)+
qed auto

lemma sample_prefix: "parse_prefix ''10.0.0.0/28'' = Some \<lparr>px_addr = Ip4 167772160, px_bits = 28\<rparr>"
proof -
  have octets: "parse_octet ''10'' = Some 10" "parse_octet ''0'' = Some 0" and bits: "parse_bits ''28'' = Some 28"
    by code_simp+
  have "parse_addr ''10.0.0.0'' = Some (Ip4 167772160)" by (simp add: parse_addr_def parse_v4_def octets)
  moreover have "after_last (CHR ''/'') ''10.0.0.0/28'' = ''28''" by code_simp
  ultimately show ?thesis by (simp add: parse_prefix_def bits)
qed

lemma sample_prefix_ends:
  "px_first \<lparr>px_addr = Ip4 167772160, px_bits = 28\<rparr> + 4 = 167772164" "px_last \<lparr>px_addr = Ip4 167772160, px_bits = 28\<rparr> = 167772175"
  by (simp_all add: px_first_def px_last_def px_shift_def)

text \<open>C26. 
  privateIP walks the subnet upwards: it ends, and gives the lowest usable address that is free, or the
  wanted one when it is usable and free; it fails exactly when no usable address serves.
\<close>

theorem private_ip_is_lowest:
  assumes "parse_prefix cidr = Some p" and "addr_is4 (px_addr p)"
  shows "(private_ip cidr want used = Inr ip \<longleftrightarrow>
      (\<exists>a. ip = show_v4 a \<and> px_first p + 4 \<le> a \<and> a < px_last p \<and> takes used want a \<and>
         (\<forall>b. px_first p + 4 \<le> b \<and> b < a \<longrightarrow> \<not> takes used want b))) \<and>
    ((\<exists>e. private_ip cidr want used = Inl (ErrWrap ErrConflict e)) \<longleftrightarrow> (\<forall>a\<in>set (usable p). \<not> takes used want a))"
proof -
  have ff: "first_free used want (px_last p) (px_first p + 4) = map_option show_v4 (find (takes used want) (usable p))"
    by (simp add: first_free_find usable_def)
  have r: "private_ip cidr want used = Inr ip \<longleftrightarrow> map_option show_v4 (find (takes used want) (usable p)) = Some ip" for ip
    using assms by (auto simp: private_ip_def ff split: option.splits)
  have l: "(\<exists>e. private_ip cidr want used = Inl (ErrWrap ErrConflict e)) \<longleftrightarrow> find (takes used want) (usable p) = None"
    using assms by (auto simp: private_ip_def ff split: option.split)
  show ?thesis unfolding r l by (auto simp: find_None_iff usable_def find_upt)
qed

theorem private_ip_is_lowest_witness:
  "private_ip ''10.0.0.0/28'' [] [''10.0.0.4'', ''10.0.0.5''] = Inr ''10.0.0.6''"
proof -
  let ?p = "\<lparr>px_addr = Ip4 167772160, px_bits = 28\<rparr>" and ?used = "[''10.0.0.4'', ''10.0.0.5'']"
  note p = sample_prefix and ends = sample_prefix_ends
  have shown: "show_v4 167772164 = ''10.0.0.4''" "show_v4 167772165 = ''10.0.0.5''" "show_v4 167772166 = ''10.0.0.6''"
    by (simp_all add: show_v4_def show_nat.simps digit_char_def)
  then have six: "takes ?used [] 167772166" and held: "\<not> takes ?used [] 167772164" "\<not> takes ?used [] 167772165"
    by (simp_all add: takes_def)
  have "\<not> takes ?used [] b" if "167772164 \<le> b \<and> b < 167772166" for b
  proof -
    from that have "b = 167772164 \<or> b = 167772165" by arith
    with held show ?thesis by auto
  qed
  with six shown show ?thesis
    by (subst private_ip_is_lowest [OF p, THEN conjunct1]) (auto simp: ends intro!: exI [of _ 167772166])
qed

end
