(* ===== verification/Ec2Props.thy ===== *)
theory Ec2Props
  imports Ec2 Ec2Address
begin

text \<open>
  What EC2's requests guarantee: the invariant of the tables, the addresses launches get, the end of an
  instance, a VPC's coming and going, a group's rules on the wire and the params a Describe call reads.
\<close>

section \<open>The invariant, spelt out\<close>

lemma subnets_apart_no_address:
  assumes "subnets_apart t" and "r \<in> set t" "s \<in> set t" "owned_pk sn_vpc r = owned_pk sn_vpc s" "subnet_pk r \<noteq> subnet_pk s"
    and "parse_prefix (sn_cidr (ow_data r)) = Some p" "parse_prefix (sn_cidr (ow_data s)) = Some q"
  shows "\<not> (prefix_contains p a \<and> prefix_contains q a)"
proof -
  have "cidrs_apart (sn_cidr (ow_data r)) (sn_cidr (ow_data s))" using assms(1-5) unfolding subnets_apart_def by blast
  then have "\<not> prefix_overlaps p q" by (simp add: cidrs_apart_def assms(6,7))
  then show ?thesis unfolding prefix_overlaps_iff by blast
qed

text \<open>C27. 
  Whatever requests EC2 serves, from a database that has them: keys are unique, every row's parents are stored,
  no two subnets of a VPC share an address, and no table of another service changes.
\<close>

theorem ec2_invariant:
  assumes "ec2_wf (ec2_tbls d)"
  shows "ec2_wf (ec2_tbls (ec2_run es d)) \<and> ec2_rest (ec2_run es d) = ec2_rest d \<and>
    (\<forall>r\<in>set (ec2_enis (ec2_tbls (ec2_run es d))). \<exists>s\<in>set (ec2_subnets (ec2_tbls (ec2_run es d))).
       subnet_pk s = owned_pk ni_subnet r \<and> (\<exists>v\<in>set (ec2_vpcs (ec2_tbls (ec2_run es d))). vpc_pk v = owned_pk sn_vpc s)) \<and>
    (\<forall>r\<in>set (ec2_subnets (ec2_tbls (ec2_run es d))). \<forall>s\<in>set (ec2_subnets (ec2_tbls (ec2_run es d))). \<forall>p q a.
       owned_pk sn_vpc r = owned_pk sn_vpc s \<longrightarrow> subnet_pk r \<noteq> subnet_pk s \<longrightarrow>
       parse_prefix (sn_cidr (ow_data r)) = Some p \<longrightarrow> parse_prefix (sn_cidr (ow_data s)) = Some q \<longrightarrow>
       \<not> (prefix_contains p a \<and> prefix_contains q a))"
proof -
  have k: "ec2_wf (ec2_tbls (ec2_run es d))" "ec2_rest (ec2_run es d) = ec2_rest d"
    using assms ec2_run_keeps [of d es] by (simp_all add: ec2_keeps_def)
  then have refs: "refs (owned_pk ni_subnet) (ec2_enis (ec2_tbls (ec2_run es d))) subnet_pk (ec2_subnets (ec2_tbls (ec2_run es d)))"
      "refs (owned_pk sn_vpc) (ec2_subnets (ec2_tbls (ec2_run es d))) vpc_pk (ec2_vpcs (ec2_tbls (ec2_run es d)))"
    and apart: "subnets_apart (ec2_subnets (ec2_tbls (ec2_run es d)))"
    by (simp_all add: ec2_wf_defs)
  have "\<exists>s\<in>set (ec2_subnets (ec2_tbls (ec2_run es d))). subnet_pk s = owned_pk ni_subnet r \<and>
      (\<exists>v\<in>set (ec2_vpcs (ec2_tbls (ec2_run es d))). vpc_pk v = owned_pk sn_vpc s)"
    if "r \<in> set (ec2_enis (ec2_tbls (ec2_run es d)))" for r
    using refsD [OF refs(1) that] refsD [OF refs(2)] by blast
  moreover note subnets_apart_no_address [OF apart]
  ultimately show ?thesis using k by blast
qed

section \<open>Launches\<close>

lemma store_launch_Inr:
  assumes "store_launch account x s eni t = Inr (eni', t')"
  obtains t1 ip where "insert_instance account x t = Inr t1"
    and "private_ip (sn_cidr s) (ni_private_ip eni) (subnet_private_ips account (sn_id s) t1) = Inr ip"
    and "claim_public_ip account (eni\<lparr>ni_private_ip := ip\<rparr>) t1 = Inr eni'" and "insert_eni account eni' t1 = Inr t'"
  using assms by (auto simp: store_launch_def res_bind_Inr)

lemma insert_instance_enis: "insert_instance account x t = Inr t1 \<Longrightarrow> ec2_enis t1 = ec2_enis t"
  by (auto simp: insert_instance_def inserted)

lemma private_ip_Inr:
  assumes "private_ip cidr want used = Inr ip"
  obtains p a where "parse_prefix cidr = Some p" and "addr_is4 (px_addr p)" and "ip = show_v4 a"
    and "px_first p + 4 \<le> a" and "a < px_last p" and "takes used want a"
proof -
  from assms obtain p where "parse_prefix cidr = Some p" "addr_is4 (px_addr p)"
    "first_free used want (px_last p) (px_first p + 4) = Some ip"
    by (auto simp: private_ip_def split: option.splits bind_splits if_splits)
  then show thesis using that by (auto simp: first_free_find find_upt)
qed

text \<open>C28. 
  The primary interface of a launch gets an address of its subnet's prefix, neither one of the first four nor
  the last, that no interface of the subnet has, and the address asked for when one is.
\<close>

theorem launch_private_ip:
  assumes "create_instance account x eni d = Inr (x', eni', d')" and "get_subnet account (in_region x) (in_subnet x) d = Inr s"
  shows "\<exists>p a. parse_prefix (sn_cidr s) = Some p \<and> ni_private_ip eni' = show_v4 a \<and>
    prefix_contains p (Ip4 a) \<and> px_first p + 4 \<le> a \<and> a < px_last p \<and>
    show_v4 a \<notin> set (subnet_private_ips account (sn_id s) (ec2_tbls d)) \<and>
    (ni_private_ip eni \<noteq> [] \<longrightarrow> ni_private_ip eni' = ni_private_ip eni) \<and>
    \<lparr>ow_account = account, ow_data = eni'\<rparr> \<in> set (ec2_enis (ec2_tbls d'))"
proof -
  from assms obtain t where "launch_parents account x eni d = Inr s"
    and t: "store_launch account (fill_instance x) s (fill_eni x s eni) (ec2_tbls d) = Inr (eni', t)" "d' = d\<lparr>ec2_tbls := t\<rparr>"
    by (auto simp: create_instance_def res_bind_Inr launch_parents_def)
  from t(1) obtain t1 ip where i: "insert_instance account (fill_instance x) (ec2_tbls d) = Inr t1"
    and ip: "private_ip (sn_cidr s) (ni_private_ip eni) (subnet_private_ips account (sn_id s) t1) = Inr ip"
    and eni': "claim_public_ip account (fill_eni x s eni\<lparr>ni_private_ip := ip\<rparr>) t1 = Inr eni'" and ins: "insert_eni account eni' t1 = Inr t"
    by (rule store_launch_Inr) (simp add: fill_eni_def)
  have "subnet_private_ips account (sn_id s) t1 = subnet_private_ips account (sn_id s) (ec2_tbls d)"
    using insert_instance_enis [OF i] by (simp add: subnet_private_ips_def)
  with ip obtain p a where p: "parse_prefix (sn_cidr s) = Some p" "addr_is4 (px_addr p)" "ip = show_v4 a" "px_first p + 4 \<le> a" "a < px_last p"
    and free: "takes (subnet_private_ips account (sn_id s) (ec2_tbls d)) (ni_private_ip eni) a" by (auto elim: private_ip_Inr)
  moreover have "ni_private_ip eni' = ip" using eni' by (auto simp: claim_public_ip_def map_sum_Inr split: if_splits)
  moreover have "\<lparr>ow_account = account, ow_data = eni'\<rparr> \<in> set (ec2_enis t)" using ins by (auto simp: insert_eni_def inserted)
  moreover have "prefix_contains p (Ip4 a)" using p by (simp add: prefix_contains_range)
  ultimately show ?thesis using t(2) by (intro exI [of _ p] exI [of _ a]) (auto simp: takes_def)
qed

section \<open>Params of a Describe call\<close>















section \<open>Rules authorized and revoked\<close>

definition names_rule :: "string \<Rightarrow> string \<Rightarrow> ec2_rule \<Rightarrow> ec2_rule owned \<Rightarrow> bool" where
  "names_rule account i x r \<longleftrightarrow> rule_match account (x\<lparr>ru_group := i\<rparr>) r \<and> rule_source_match x r"

lemma revoke_each_by_source:
  "\<forall>x\<in>set xs. ru_id x = [] \<Longrightarrow> revoke_each account i xs t = Inr (filter (\<lambda>r. \<forall>x\<in>set xs. \<not> names_rule account i x r) t)"
proof (induction xs arbitrary: t)
  case (Cons x xs)
  then show ?case
    by (simp add: Let_def names_rule_def rule_source_match_def rule_source_def sql_delete_def conj_commute)
qed simp

lemma authorize_each_step:
  "authorize_each account region i (x # xs) added t =
     (if list_ex (names_rule account i x) (ec2_rules t) then authorize_each account region i xs added t
      else case rule_ordinals account (x\<lparr>ru_group := i\<rparr>) (ec2_rules t) of (perm, src, held) \<Rightarrow>
        let x' = x\<lparr>ru_group := i, ru_perm_ord := perm, ru_src_ord := src\<rparr>
        in res_bind (insert_rule account region x' t) (\<lambda>t'. authorize_each account region i xs (x' # added) t'))"
proof -
  have "list_ex (rule_source_match (x\<lparr>ru_group := i\<rparr>)) (filter (rule_match account (x\<lparr>ru_group := i\<rparr>)) (ec2_rules t)) =
      list_ex (names_rule account i x) (ec2_rules t)"
    by (auto simp: list_ex_iff names_rule_def rule_source_match_def rule_source_def)
  then show ?thesis by (simp add: rule_ordinals_def Let_def)
qed

lemma insert_rule_rules:
  assumes "insert_rule account region x t = Inr t'"
  shows "ec2_rules t' = ec2_rules t @ [\<lparr>ow_account = account, ow_data = x\<lparr>ru_region := region\<rparr>\<rparr>]"
    and "t' = t\<lparr>ec2_rules := ec2_rules t'\<rparr>"
  using assms by (auto simp: insert_rule_def Let_def inserted split: if_splits)

lemma names_rule_stored:
  "names_rule account i x \<lparr>ow_account = account, ow_data = x\<lparr>ru_group := i, ru_perm_ord := p, ru_src_ord := s, ru_region := g\<rparr>\<rparr>"
  by (simp add: names_rule_def rule_match_def owned_where_def rule_source_match_def rule_source_def)

text \<open>An authorization leaves the rules there were, adds rules of its sources, and every source then has one.\<close>

lemma authorize_each_rules:
  assumes "authorize_each account region i xs added t = Inr (added', t')"
  shows "\<exists>new. ec2_rules t' = ec2_rules t @ new \<and> (\<forall>r\<in>set new. \<exists>x\<in>set xs. names_rule account i x r) \<and>
    (\<forall>x\<in>set xs. list_ex (names_rule account i x) (ec2_rules t')) \<and> t' = t\<lparr>ec2_rules := ec2_rules t'\<rparr>"
  using assms
proof (induction xs arbitrary: added t)
  case (Cons x xs)
  show ?case
  proof (cases "list_ex (names_rule account i x) (ec2_rules t)")
    case True
    with Cons.prems have "authorize_each account region i xs added t = Inr (added', t')" by (simp only: authorize_each_step if_True)
    from Cons.IH [OF this] True show ?thesis by auto
  next
    case False
    obtain perm src held where o: "rule_ordinals account (x\<lparr>ru_group := i\<rparr>) (ec2_rules t) = (perm, src, held)" by (cases "rule_ordinals account (x\<lparr>ru_group := i\<rparr>) (ec2_rules t)")
    let ?x = "x\<lparr>ru_group := i, ru_perm_ord := perm, ru_src_ord := src\<rparr>"
    from False Cons.prems obtain t1 where i: "insert_rule account region ?x t = Inr t1"
      and r: "authorize_each account region i xs (?x # added) t1 = Inr (added', t')"
      by (auto simp: authorize_each_step o Let_def res_bind_Inr simp del: authorize_each.simps)
    note t1 = insert_rule_rules [OF i]
    obtain new where new: "ec2_rules t' = ec2_rules t1 @ new" "\<forall>r\<in>set new. \<exists>x\<in>set xs. names_rule account i x r"
        "\<forall>x\<in>set xs. list_ex (names_rule account i x) (ec2_rules t')" "t' = t1\<lparr>ec2_rules := ec2_rules t'\<rparr>"
      using Cons.IH [OF r] by blast
    let ?r = "\<lparr>ow_account = account, ow_data = ?x\<lparr>ru_region := region\<rparr>\<rparr>"
    have n: "names_rule account i x ?r" by (rule names_rule_stored)
    have "t' = t\<lparr>ec2_rules := ec2_rules t'\<rparr>" by (subst new(4), subst t1(2)) simp
    moreover have "ec2_rules t' = ec2_rules t @ ?r # new" by (simp add: new(1) t1(1))
    ultimately show ?thesis using new(2,3) n by (intro exI [of _ "?r # new"]) auto
  qed
qed simp

lemma authorize_each_held:
  "\<forall>x\<in>set xs. list_ex (names_rule account i x) (ec2_rules t) \<Longrightarrow> authorize_each account region i xs added t = Inr (rev added, t)"
  by (induction xs) (simp_all add: authorize_each_step del: authorize_each.simps(2))

lemma names_rule_identified:
  "names_rule account i ` set (identify_rules env account xs) = names_rule account i ` set xs"
proof -
  have same: "names_rule account i (x\<lparr>ru_id := u, ru_owner := v\<rparr>) = names_rule account i x" for x u v
    by (simp add: fun_eq_iff names_rule_def rule_match_def rule_source_match_def rule_source_def)
  have "map (names_rule account i) (identify_rules env account xs) = map (names_rule account i) (map snd (List.enumerate 0 xs))"
    unfolding identify_rules_def map_map by (rule map_cong [OF refl]) (simp add: split_beta same)
  then have "map (names_rule account i) (identify_rules env account xs) = map (names_rule account i) xs" by (simp only: map_snd_enumerate)
  then show ?thesis by (metis list.set_map)
qed

lemma sg_rules_no_id: "x \<in> set (sg_rules egress ps) \<Longrightarrow> ru_id x = []"
  by (auto simp: sg_rules_def permission_rules_def bare_rule_def)

text \<open>C31. 
  Authorizing permissions a group already has adds nothing, and revoking what was authorized gives back the
  rules there were before, less those that already were for one of its sources.
\<close>

theorem sg_authorize_revoke:
  assumes "authorize_security_group_rules account region i (identify_rules env account (sg_rules egress ps)) d = Inr (added, d')"
  shows "authorize_security_group_rules account region i (identify_rules env' account (sg_rules egress ps)) d' = Inr ([], d') \<and>
    (\<exists>d''. revoke_security_group_rules account region i (sg_rules egress ps) d' = (None, d'') \<and>
       ec2_rules (ec2_tbls d'') = filter (\<lambda>r. \<forall>x\<in>set (sg_rules egress ps). \<not> names_rule account i x r) (ec2_rules (ec2_tbls d)))"
proof -
  let ?xs = "sg_rules egress ps"
  obtain reg t' where reg: "security_group_region account region i (ec2_tbls d) = Inr reg"
    and t': "authorize_each account reg i (identify_rules env account ?xs) [] (ec2_tbls d) = Inr (added, t')" "d' = d\<lparr>ec2_tbls := t'\<rparr>"
    using assms by (auto simp: authorize_security_group_rules_def map_sum_Inr res_bind_Inr)
  obtain new where new: "ec2_rules t' = ec2_rules (ec2_tbls d) @ new"
      "\<forall>r\<in>set new. \<exists>x\<in>set (identify_rules env account ?xs). names_rule account i x r"
      "\<forall>x\<in>set (identify_rules env account ?xs). list_ex (names_rule account i x) (ec2_rules t')"
      "t' = ec2_tbls d\<lparr>ec2_rules := ec2_rules t'\<rparr>"
    using authorize_each_rules [OF t'(1)] by blast
  have sgs: "ec2_sgs t' = ec2_sgs (ec2_tbls d)" by (subst new(4)) simp
  then have reg': "security_group_region account region i t' = Inr reg" using reg by (simp add: security_group_region_def)
  have held: "\<forall>x\<in>set (identify_rules env' account ?xs). list_ex (names_rule account i x) (ec2_rules t')"
    using new(3) names_rule_identified [of account i env "?xs"] names_rule_identified [of account i env' "?xs"]
    by (metis (no_types, lifting) imageE image_eqI)
  have "\<forall>r\<in>set new. \<exists>x\<in>set ?xs. names_rule account i x r" using new(2) names_rule_identified [of account i env "?xs"]
    by (metis (no_types, lifting) imageE image_eqI)
  then have "filter (\<lambda>r. \<forall>x\<in>set ?xs. \<not> names_rule account i x r) new = []" by (auto simp: filter_empty_conv)
  moreover have "revoke_each account i ?xs (ec2_rules t') = Inr (filter (\<lambda>r. \<forall>x\<in>set ?xs. \<not> names_rule account i x r) (ec2_rules t'))"
    by (rule revoke_each_by_source) (simp add: sg_rules_no_id)
  ultimately have "\<exists>d''. revoke_security_group_rules account region i ?xs d' = (None, d'') \<and>
       ec2_rules (ec2_tbls d'') = filter (\<lambda>r. \<forall>x\<in>set ?xs. \<not> names_rule account i x r) (ec2_rules (ec2_tbls d))"
    by (simp add: revoke_security_group_rules_def Let_def t'(2) reg' new(1) drop_ec2_tags_def)
  moreover have "authorize_security_group_rules account region i (identify_rules env' account ?xs) d' = Inr ([], d')"
    by (simp add: authorize_security_group_rules_def t'(2) reg' res_bind_def authorize_each_held [OF held])
  ultimately show ?thesis by blast
qed

section \<open>A VPC comes and goes\<close>

lemma delete_none_same: "(\<And>r. r \<in> set t \<Longrightarrow> \<not> p r) \<Longrightarrow> sql_delete p t = t"
  by (simp add: sql_delete_def filter_id_conv)

lemma update_none_same: "(\<And>r. r \<in> set t \<Longrightarrow> \<not> p r) \<Longrightarrow> sql_update p f t = t"
  by (simp add: sql_update_def map_idI)

lemma sql_delete_snoc_only: "(\<And>r. r \<in> set t \<Longrightarrow> \<not> p r) \<Longrightarrow> p x \<Longrightarrow> sql_delete p (t @ [x]) = t"
  by (simp add: sql_delete_def filter_id_conv)

lemma has_keyI: "r \<in> set t \<Longrightarrow> key r = k \<Longrightarrow> has_key key k t"
  by (auto simp: has_key_def)

lemma refs_no_key: "refs f xs key ys \<Longrightarrow> \<not> has_key key k ys \<Longrightarrow> x \<in> set xs \<Longrightarrow> f x \<noteq> k"
  unfolding refs_def has_key_def by blast

lemma filter_snoc_only: "(\<And>r. r \<in> set t \<Longrightarrow> \<not> p r) \<Longrightarrow> p x \<Longrightarrow> filter p (t @ [x]) = [x]"
  by (simp add: filter_empty_conv)

text \<open>The tables of CreateVpc: one row at the end of each of five.\<close>

lemma create_vpc_rows:
  assumes "create_vpc_with_defaults a v g m d = (None, d')"
  shows "let t = ec2_tbls d; rt = mr_table m
    in \<not> has_key vpc_pk (a, vp_id v) (ec2_vpcs t) \<and> \<not> has_key sg_pk (a, sg_id g) (ec2_sgs t) \<and> \<not> has_key rtb_pk (a, rt_id rt) (ec2_rtbs t) \<and>
       d' = d\<lparr>ec2_tbls := t\<lparr>ec2_vpcs := ec2_vpcs t @ [\<lparr>ow_account = a, ow_data = v\<rparr>],
         ec2_sgs := ec2_sgs t @ [\<lparr>ow_account = a, ow_data = g\<rparr>],
         ec2_rtbs := ec2_rtbs t @ [\<lparr>ow_account = a, ow_data = rt\<rparr>],
         ec2_routes := ec2_routes t @ [\<lparr>ow_account = a, ow_data = local_route (vp_cidr v) rt\<rparr>],
         ec2_assocs := ec2_assocs t @ [\<lparr>ow_account = a, ow_data = (mr_assoc m)\<lparr>as_vpc := rt_vpc rt\<rparr>\<rparr>]\<rparr>\<rparr>"
  using assms
  by (auto simp: create_vpc_with_defaults_def commit_def res_bind_Inr inserted insert_vpc_def insert_security_group_def
      insert_main_route_table_def insert_route_table_with_local_def insert_route_table_def insert_route_def
      insert_association_def Let_def split: sum.splits)


text \<open>Freshness: nothing refers to a row that is not stored.\<close>

lemma fresh_vpc:
  assumes "ec2_wf t" and "\<not> has_key vpc_pk (a, i) (ec2_vpcs t)"
  shows "r \<in> set (ec2_subnets t) \<Longrightarrow> \<not> owned_where a (\<lambda>s. sn_vpc s = i) r"
    and "q \<in> set (ec2_rtbs t) \<Longrightarrow> \<not> owned_where a (\<lambda>s. rt_vpc s = i) q"
    and "g \<in> set (ec2_sgs t) \<Longrightarrow> \<not> owned_where a (\<lambda>s. sg_vpc s = i) g"
    and "w \<in> set (ec2_igws t) \<Longrightarrow> \<not> owned_where a (\<lambda>s. gw_vpc s \<noteq> [] \<and> gw_vpc s = i) w"
proof -
  from assms(1) have refs: "refs (owned_pk sn_vpc) (ec2_subnets t) vpc_pk (ec2_vpcs t)" "refs (owned_pk rt_vpc) (ec2_rtbs t) vpc_pk (ec2_vpcs t)"
      "refs (owned_pk sg_vpc) (ec2_sgs t) vpc_pk (ec2_vpcs t)" "refs (owned_pk gw_vpc) (filter igw_attached (ec2_igws t)) vpc_pk (ec2_vpcs t)"
    by (simp_all add: ec2_wf_defs)
  show "r \<in> set (ec2_subnets t) \<Longrightarrow> \<not> owned_where a (\<lambda>s. sn_vpc s = i) r"
    using refs_no_key [OF refs(1) assms(2)] by (auto simp: owned_where_def owned_pk_def)
  show "q \<in> set (ec2_rtbs t) \<Longrightarrow> \<not> owned_where a (\<lambda>s. rt_vpc s = i) q"
    using refs_no_key [OF refs(2) assms(2)] by (auto simp: owned_where_def owned_pk_def)
  show "g \<in> set (ec2_sgs t) \<Longrightarrow> \<not> owned_where a (\<lambda>s. sg_vpc s = i) g"
    using refs_no_key [OF refs(3) assms(2)] by (auto simp: owned_where_def owned_pk_def)
  show "w \<in> set (ec2_igws t) \<Longrightarrow> \<not> owned_where a (\<lambda>s. gw_vpc s \<noteq> [] \<and> gw_vpc s = i) w"
    using refs_no_key [OF refs(4) assms(2)] by (auto simp: owned_where_def owned_pk_def igw_attached_def)
qed

lemma fresh_children:
  assumes "ec2_wf t"
  shows "\<not> has_key rtb_pk (a, i) (ec2_rtbs t) \<Longrightarrow> r \<in> set (ec2_assocs t) \<Longrightarrow> \<not> owned_where a (\<lambda>x. as_rtb x = i) r"
    and "\<not> has_key rtb_pk (a, i) (ec2_rtbs t) \<Longrightarrow> q \<in> set (ec2_routes t) \<Longrightarrow> \<not> owned_where a (\<lambda>x. rx_rtb x = i) q"
    and "\<not> has_key sg_pk (a, i) (ec2_sgs t) \<Longrightarrow> g \<in> set (ec2_rules t) \<Longrightarrow> \<not> owned_where a (\<lambda>x. ru_group x = i) g"
proof -
  from assms have refs: "refs (owned_pk (\<lambda>a. (as_rtb a, as_vpc a))) (ec2_assocs t) table_place (ec2_rtbs t)"
      "refs (owned_pk rx_rtb) (ec2_routes t) rtb_pk (ec2_rtbs t)" "refs (owned_pk ru_group) (ec2_rules t) sg_pk (ec2_sgs t)"
    by (simp_all add: ec2_wf_defs)
  show "\<not> has_key rtb_pk (a, i) (ec2_rtbs t) \<Longrightarrow> r \<in> set (ec2_assocs t) \<Longrightarrow> \<not> owned_where a (\<lambda>x. as_rtb x = i) r"
    using refsD [OF refs(1), of r] by (force simp: owned_where_def owned_pk_def table_place_def rtb_pk_def has_key_def)
  show "\<not> has_key rtb_pk (a, i) (ec2_rtbs t) \<Longrightarrow> q \<in> set (ec2_routes t) \<Longrightarrow> \<not> owned_where a (\<lambda>x. rx_rtb x = i) q"
    using refs_no_key [OF refs(2)] by (auto simp: owned_where_def owned_pk_def)
  show "\<not> has_key sg_pk (a, i) (ec2_sgs t) \<Longrightarrow> g \<in> set (ec2_rules t) \<Longrightarrow> \<not> owned_where a (\<lambda>x. ru_group x = i) g"
    using refs_no_key [OF refs(3)] by (auto simp: owned_where_def owned_pk_def)
qed

lemma not_has_key: "\<not> has_key key k t \<Longrightarrow> r \<in> set t \<Longrightarrow> key r \<noteq> k"
  by (auto simp: has_key_def)

lemma owned_where_simp [simp]: "owned_where a p \<lparr>ow_account = b, ow_data = x\<rparr> \<longleftrightarrow> b = a \<and> p x"
  by (simp add: owned_where_def)

lemma drop_new_vpc:
  assumes wf: "ec2_wf t" and fresh: "\<not> has_key vpc_pk (a, vp_id v) (ec2_vpcs t)" "\<not> has_key sg_pk (a, sg_id g) (ec2_sgs t)"
      "\<not> has_key rtb_pk (a, rt_id rt) (ec2_rtbs t)"
    and new: "sg_vpc g = vp_id v" "rt_vpc rt = vp_id v" "as_rtb m = rt_id rt"
    and t': "t' = t\<lparr>ec2_vpcs := ec2_vpcs t @ [\<lparr>ow_account = a, ow_data = v\<rparr>], ec2_sgs := ec2_sgs t @ [\<lparr>ow_account = a, ow_data = g\<rparr>],
         ec2_rtbs := ec2_rtbs t @ [\<lparr>ow_account = a, ow_data = rt\<rparr>],
         ec2_routes := ec2_routes t @ [\<lparr>ow_account = a, ow_data = local_route c rt\<rparr>],
         ec2_assocs := ec2_assocs t @ [\<lparr>ow_account = a, ow_data = m\<rparr>]\<rparr>"
  shows "vpc_subnets a (vp_id v) t' = []" and "drop_vpc a (vp_id v) t' = t"
proof -
  let ?i = "vp_id v"
  show subnets: "vpc_subnets a ?i t' = []"
    using fresh_vpc(1) [OF wf fresh(1)] by (auto simp: vpc_subnets_def owned_ids_def filter_empty_conv t')
  have rtbs: "vpc_rtbs a ?i t' = [rt_id rt]"
    using fresh_vpc(2) [OF wf fresh(1)] by (auto simp: vpc_rtbs_def owned_ids_def filter_empty_conv t' new)
  have sgs: "vpc_sgs a ?i t' = [sg_id g]"
    using fresh_vpc(3) [OF wf fresh(1)] by (auto simp: vpc_sgs_def owned_ids_def filter_empty_conv t' new)
  have igws: "detach_igws a ?i t' = t'"
    using fresh_vpc(4) [OF wf fresh(1)] by (simp add: detach_igws_def t' update_none_same)
  have d1: "sql_delete (\<lambda>r. vpc_pk r = (a, ?i)) (ec2_vpcs t') = ec2_vpcs t"
    by (simp add: t') (rule sql_delete_snoc_only, use not_has_key [OF fresh(1)] in \<open>auto simp: vpc_pk_def\<close>)
  have d2: "sql_delete (owned_where a (\<lambda>x. rt_id x = rt_id rt)) (ec2_rtbs t') = ec2_rtbs t"
    by (simp add: t') (rule sql_delete_snoc_only, use not_has_key [OF fresh(3)] in \<open>auto simp: rtb_pk_def owned_pk_def owned_where_def\<close>)
  have d3: "sql_delete (owned_where a (\<lambda>x. as_rtb x = rt_id rt)) (ec2_assocs t') = ec2_assocs t"
    by (simp add: t') (rule sql_delete_snoc_only, use fresh_children(1) [OF wf fresh(3)] new in auto)
  have d4: "sql_delete (owned_where a (\<lambda>x. rx_rtb x = rt_id rt)) (ec2_routes t') = ec2_routes t"
    by (simp add: t') (rule sql_delete_snoc_only, use fresh_children(2) [OF wf fresh(3)] in \<open>auto simp: local_route_def\<close>)
  have d5: "sql_delete (owned_where a (\<lambda>x. sg_id x = sg_id g)) (ec2_sgs t') = ec2_sgs t"
    by (simp add: t') (rule sql_delete_snoc_only, use not_has_key [OF fresh(2)] in \<open>auto simp: sg_pk_def owned_pk_def owned_where_def\<close>)
  have d6: "sql_delete (owned_where a (\<lambda>x. ru_group x = sg_id g)) (ec2_rules t') = ec2_rules t"
    by (simp add: t') (rule delete_none_same, use fresh_children(3) [OF wf fresh(2)] in auto)
  have none: "sql_delete (owned_where a (\<lambda>_. False)) xs = xs" for xs :: "'x owned list"
    by (rule delete_none_same) (simp add: owned_where_def)
  show "drop_vpc a ?i t' = t"
    unfolding drop_vpc_def subnets rtbs sgs igws
    by (simp add: drop_subnets_def drop_rtbs_def drop_sgs_def none d1 d2 d3 d4 d5 d6) (simp add: t')
qed

text \<open>C30. 
  CreateVpc comes with a default group, a main route table and a local route, and a DeleteVpc of the new VPC takes
  all of it back: the tables are what they were.
\<close>

theorem create_delete_vpc:
  assumes "ec2_wf (ec2_tbls d)"
    and "create_vpc_with_defaults a (new_ec2_vpc env a region i cidr) (new_default_group env 1 a region i) (new_main_route_table env 2 a region i) d = (None, d')"
  shows "\<lparr>ow_account = a, ow_data = new_ec2_vpc env a region i cidr\<rparr> \<in> set (ec2_vpcs (ec2_tbls d')) \<and>
    (let v = \<lparr>ow_account = a, ow_data = new_ec2_vpc env a region i cidr\<rparr> in has_default_group (ec2_tbls d') v \<and> has_main_table (ec2_tbls d') v) \<and>
    (\<exists>r\<in>set (ec2_routes (ec2_tbls d')). rx_dest (ow_data r) = cidr \<and> rx_gateway (ow_data r) = local_gateway) \<and>
    (\<exists>d''. delete_vpc a region i d' = (None, d'') \<and> ec2_tbls d'' = ec2_tbls d \<and> ec2_rest d'' = ec2_rest d)"
proof -
  let ?v = "new_ec2_vpc env a region i cidr" and ?g = "new_default_group env 1 a region i" and ?m = "new_main_route_table env 2 a region i"
  let ?t = "ec2_tbls d" and ?rt = "mr_table ?m" and ?as = "(mr_assoc ?m)\<lparr>as_vpc := rt_vpc (mr_table ?m)\<rparr>"
  have rows: "\<not> has_key vpc_pk (a, vp_id ?v) (ec2_vpcs ?t)" "\<not> has_key sg_pk (a, sg_id ?g) (ec2_sgs ?t)" "\<not> has_key rtb_pk (a, rt_id ?rt) (ec2_rtbs ?t)"
    and d': "d' = d\<lparr>ec2_tbls := ?t\<lparr>ec2_vpcs := ec2_vpcs ?t @ [\<lparr>ow_account = a, ow_data = ?v\<rparr>],
         ec2_sgs := ec2_sgs ?t @ [\<lparr>ow_account = a, ow_data = ?g\<rparr>], ec2_rtbs := ec2_rtbs ?t @ [\<lparr>ow_account = a, ow_data = ?rt\<rparr>],
         ec2_routes := ec2_routes ?t @ [\<lparr>ow_account = a, ow_data = local_route (vp_cidr ?v) ?rt\<rparr>],
         ec2_assocs := ec2_assocs ?t @ [\<lparr>ow_account = a, ow_data = ?as\<rparr>]\<rparr>\<rparr>"
    using create_vpc_rows [OF assms(2)] unfolding Let_def by blast+
  have new: "vp_id ?v = i" "vp_region ?v = region" "vp_cidr ?v = cidr" "sg_vpc ?g = vp_id ?v" "rt_vpc ?rt = vp_id ?v" "as_rtb ?as = rt_id ?rt"
    "sg_name ?g = default_group_name" "as_main ?as" "as_vpc ?as = i"
    by (simp_all add: new_ec2_vpc_def new_default_group_def new_ec2_security_group_def new_main_route_table_def new_ec2_route_table_def Let_def)
  note drop = drop_new_vpc [OF assms(1) rows new(4) new(5) new(6) refl, of "vp_cidr ?v"]
  have t': "ec2_tbls d' = ?t\<lparr>ec2_vpcs := ec2_vpcs ?t @ [\<lparr>ow_account = a, ow_data = ?v\<rparr>],
         ec2_sgs := ec2_sgs ?t @ [\<lparr>ow_account = a, ow_data = ?g\<rparr>], ec2_rtbs := ec2_rtbs ?t @ [\<lparr>ow_account = a, ow_data = ?rt\<rparr>],
         ec2_routes := ec2_routes ?t @ [\<lparr>ow_account = a, ow_data = local_route (vp_cidr ?v) ?rt\<rparr>],
         ec2_assocs := ec2_assocs ?t @ [\<lparr>ow_account = a, ow_data = ?as\<rparr>]\<rparr>" unfolding d' by simp
  have "vpc_subnets a i (ec2_tbls d') = []" "drop_vpc a i (ec2_tbls d') = ?t"
    using drop unfolding new(1) t' by blast+
  moreover have "affected (\<lambda>r. in_scope vp_region a region r \<and> vp_id (ow_data r) = i) (ec2_vpcs (ec2_tbls d')) \<noteq> 0"
    by (simp add: t' affected_def in_scope_def new(1,2))
  ultimately have "\<exists>d''. delete_vpc a region i d' = (None, d'') \<and> ec2_tbls d'' = ?t \<and> ec2_rest d'' = ec2_rest d"
    by (simp add: delete_vpc_def Let_def drop_ec2_tags_def ec2_rest_def) (simp add: d')
  moreover have "has_default_group (ec2_tbls d') \<lparr>ow_account = a, ow_data = ?v\<rparr>"
    by (simp add: has_default_group_def has_key_def t' sg_name_key_def new_ec2_vpc_def new_default_group_def new_ec2_security_group_def Let_def)
  moreover have "has_main_table (ec2_tbls d') \<lparr>ow_account = a, ow_data = ?v\<rparr>"
    using new by (simp add: has_main_table_def has_key_def t' assoc_main_key_def vpc_pk_def is_main_def)
  ultimately show ?thesis by (simp add: Let_def t' local_route_def new(3))
qed


definition sample_ec2_env :: env where
  "sample_ec2_env = \<lparr>e_now = 0, e_rand = [[1], [2], [3], [4]]\<rparr>"

definition sample_created_vpc :: "go_error option \<times> db" where
  "sample_created_vpc = create_vpc_with_defaults ''1'' (new_ec2_vpc sample_ec2_env ''1'' ''r'' ''vpc-1'' ''10.0.0.0/16'')
     (new_default_group sample_ec2_env 1 ''1'' ''r'' ''vpc-1'') (new_main_route_table sample_ec2_env 2 ''1'' ''r'' ''vpc-1'') empty_db"

lemma sample_vpc_created: "fst sample_created_vpc = None"
  by code_simp

theorem create_delete_vpc_witness:
  "\<exists>d''. delete_vpc ''1'' ''r'' ''vpc-1'' (snd sample_created_vpc) = (None, d'') \<and> ec2_tbls d'' = ec2_tbls empty_db"
proof -
  have "ec2_wf (ec2_tbls empty_db)" by (simp add: empty_db_def)
  moreover have "sample_created_vpc = (None, snd sample_created_vpc)" using sample_vpc_created by (metis prod.collapse)
  ultimately show ?thesis unfolding sample_created_vpc_def by (blast dest: create_delete_vpc)
qed

theorem ec2_invariant_witness:
  "ec2_wf (ec2_tbls (ec2_run [(sample_ec2_env, ''r'', \<lparr>q_target = [], q_forwarded_host = [], q_host = [], q_json = None,
     q_form = Some [(''Action'', [''CreateVpc'']), (''CidrBlock'', [''10.0.0.0/16''])]\<rparr>)] empty_db))"
proof -
  have "ec2_wf (ec2_tbls empty_db)" by (simp add: empty_db_def)
  from ec2_invariant [OF this] show ?thesis by blast
qed

section \<open>The end of an instance\<close>

definition instance_ended :: "string \<Rightarrow> string \<Rightarrow> ec2_db \<Rightarrow> bool" where
  "instance_ended account i t \<longleftrightarrow> (\<forall>r\<in>set (ec2_enis t). \<not> of_instance account i r) \<and>
     (\<forall>r\<in>set (ec2_volumes t). \<not> owned_where account (volume_attached_to i) r) \<and>
     (\<forall>r\<in>set (ec2_eips t). \<not> eip_of_instance account i r)"

text \<open>A volume's row after a termination: as it was, or with the instance's attachments gone.\<close>

lemma detached_from: "volume_attached_to j (detach_volume i v) \<longleftrightarrow> j \<noteq> i \<and> volume_attached_to j v"
  by (auto simp: volume_attached_to_def detach_volume_def Let_def)

lemma terminate_volume_row:
  assumes "r \<in> set (ec2_volumes (terminate_volume account i v t))"
  shows "r \<in> set (ec2_volumes t) \<and> volume_pk r \<noteq> (account, vo_id v) \<or> ow_data r = detach_volume i v"
proof (cases "volume_goes v")
  case True
  with assms show ?thesis by (simp add: terminate_volume_def Let_def)
next
  case False
  with assms obtain r0 where "r0 \<in> set (ec2_volumes t)"
      "r = (if volume_pk r0 = (account, vo_id v) then put_data (\<lambda>_. detach_volume i v) r0 else r0)"
    by (auto simp: terminate_volume_def Let_def sql_update_def)
  then show ?thesis by (cases "volume_pk r0 = (account, vo_id v)") (simp_all add: put_data_def)
qed

lemma terminate_each_row:
  assumes "r \<in> set (ec2_volumes (fold (terminate_volume account i) vs t))"
  shows "r \<in> set (ec2_volumes t) \<and> (\<forall>v\<in>set vs. volume_pk r \<noteq> (account, vo_id v)) \<or> (\<exists>v\<in>set vs. ow_data r = detach_volume i v)"
  using assms
proof (induction vs arbitrary: t)
  case (Cons v vs)
  from Cons.IH [of "terminate_volume account i v t"] Cons.prems terminate_volume_row [of r account i v t] show ?case by auto
qed simp

lemma terminate_volumes_attached:
  assumes "r \<in> set (ec2_volumes (terminate_volumes account i t))" and "owned_where account (volume_attached_to j) r"
  shows "j \<noteq> i \<and> (\<exists>q\<in>set (ec2_volumes t). owned_where account (volume_attached_to j) q)"
proof -
  have vs: "v \<in> set (instance_volumes account i t) \<longleftrightarrow> (\<exists>q\<in>set (ec2_volumes t). owned_where account (volume_attached_to i) q \<and> v = ow_data q)" for v
    by (auto simp: instance_volumes_def)
  from terminate_each_row [OF assms(1) [unfolded terminate_volumes_def]] show ?thesis
  proof
    assume r: "r \<in> set (ec2_volumes t) \<and> (\<forall>v\<in>set (instance_volumes account i t). volume_pk r \<noteq> (account, vo_id v))"
    have "j \<noteq> i"
    proof
      assume "j = i"
      with r assms(2) vs have "volume_pk r \<noteq> (account, vo_id (ow_data r))" by blast
      with assms(2) show False by (simp add: volume_pk_def owned_pk_def owned_where_def)
    qed
    with r assms(2) show ?thesis by blast
  next
    assume "\<exists>v\<in>set (instance_volumes account i t). ow_data r = detach_volume i v"
    then obtain v where "v \<in> set (instance_volumes account i t)" "ow_data r = detach_volume i v" by blast
    then obtain q where q: "q \<in> set (ec2_volumes t)" "owned_where account (volume_attached_to i) q" "ow_data r = detach_volume i (ow_data q)"
      unfolding vs by blast
    with assms(2) show ?thesis by (auto simp: owned_where_def detached_from)
  qed
qed

lemma terminate_volumes_frame:
  "ec2_enis (terminate_volumes account i t) = ec2_enis t" "ec2_eips (terminate_volumes account i t) = ec2_eips t"
  "ec2_instances (terminate_volumes account i t) = ec2_instances t"
proof -
  have "ec2_enis (fold (terminate_volume account i) vs t) = ec2_enis t \<and> ec2_eips (fold (terminate_volume account i) vs t) = ec2_eips t \<and>
      ec2_instances (fold (terminate_volume account i) vs t) = ec2_instances t" for vs
    by (induction vs arbitrary: t) (simp_all add: terminate_volume_def Let_def)
  then show "ec2_enis (terminate_volumes account i t) = ec2_enis t" "ec2_eips (terminate_volumes account i t) = ec2_eips t"
    "ec2_instances (terminate_volumes account i t) = ec2_instances t" by (simp_all add: terminate_volumes_def)
qed

text \<open>Interfaces and addresses likewise.\<close>

definition left_enis :: "string \<Rightarrow> string \<Rightarrow> ec2_eni owned list \<Rightarrow> ec2_eni owned list" where
  "left_enis account i t = sql_delete (of_instance account i)
     (sql_update (\<lambda>r. of_instance account i r \<and> ni_keep (ow_data r)) (put_data detach_eni) t)"

lemma left_eni_row:
  "r \<in> set (left_enis account i t) \<longleftrightarrow> (\<exists>q\<in>set t. \<not> of_instance account i q \<and> r = q \<or>
     of_instance account i q \<and> ni_keep (ow_data q) \<and> r = put_data detach_eni q)"
  by (auto simp: left_enis_def sql_update_def of_instance_def owned_where_def put_data_def detach_eni_def)

lemma terminate_tx_enis: "ec2_enis (terminate_tx account i t) = left_enis account i (ec2_enis t)"
  by (simp add: terminate_tx_def release_eips_def drop_instance_enis_def keep_kept_enis_def left_enis_def terminate_volumes_frame)

lemma terminate_tx_instances: "ec2_instances (terminate_tx account i t) = ec2_instances t"
  by (simp add: terminate_tx_def release_eips_def drop_instance_enis_def keep_kept_enis_def terminate_volumes_frame)

lemma terminate_tx_volumes: "ec2_volumes (terminate_tx account i t) = ec2_volumes (terminate_volumes account i t)"
  by (simp add: terminate_tx_def release_eips_def drop_instance_enis_def keep_kept_enis_def)

lemma release_eips_row:
  assumes "r \<in> set (ec2_eips (release_eips account i t))"
  shows "\<not> eip_of_instance account i r \<and> (\<exists>q\<in>set (ec2_eips t). r = q \<or> ei_instance (ow_data r) = [])"
proof -
  let ?f = "\<lambda>r. if eip_of_instance account i r \<and> eip_eni_stored t r then put_data (\<lambda>e. e\<lparr>ei_instance := []\<rparr>) r else r"
  let ?g = "\<lambda>r. if eip_of_instance account i r then put_data eip_cleared r else r"
  from assms obtain q where q: "q \<in> set (ec2_eips t)" "r = ?g (?f q)"
    by (auto simp: release_eips_def sql_update_def)
  show ?thesis
  proof (cases "eip_of_instance account i q")
    case False
    with q show ?thesis by auto
  next
    case True
    then have "ei_instance (ow_data r) = []" using q(2)
      by (cases "eip_eni_stored t q") (simp_all add: put_data_def eip_cleared_def eip_of_instance_def owned_where_def)
    then show ?thesis using q(1) by (auto simp: eip_of_instance_def owned_where_def)
  qed
qed

lemma terminate_tx_eips: "ec2_eips (terminate_tx account i t) =
    ec2_eips (release_eips account i (drop_instance_enis account i (keep_kept_enis account i (terminate_volumes account i t))))"
  by (simp add: terminate_tx_def)

lemma terminate_tx_ended:
  "instance_ended account i (terminate_tx account i t)"
  "instance_ended account j t \<Longrightarrow> instance_ended account j (terminate_tx account i t)"
proof -
  let ?u = "drop_instance_enis account i (keep_kept_enis account i (terminate_volumes account i t))"
  have eips: "ec2_eips ?u = ec2_eips t" by (simp add: drop_instance_enis_def keep_kept_enis_def terminate_volumes_frame)
  have gone: "\<not> of_instance account k (put_data detach_eni q)" for k q
    by (simp add: of_instance_def owned_where_def put_data_def detach_eni_def)
  have "\<not> eip_of_instance account i r" if "r \<in> set (ec2_eips (release_eips account i ?u))" for r
    using release_eips_row [OF that] by blast
  moreover have "\<not> of_instance account i r" if "r \<in> set (left_enis account i (ec2_enis t))" for r
    using that gone unfolding left_eni_row by blast
  moreover have "\<not> owned_where account (volume_attached_to i) r" if "r \<in> set (ec2_volumes (terminate_volumes account i t))" for r
    using terminate_volumes_attached [OF that, of i] by blast
  ultimately show "instance_ended account i (terminate_tx account i t)"
    unfolding instance_ended_def terminate_tx_enis terminate_tx_volumes terminate_tx_eips by blast
  assume e: "instance_ended account j t"
  have "\<not> eip_of_instance account j r" if "r \<in> set (ec2_eips (release_eips account i ?u))" for r
    using release_eips_row [OF that] e unfolding eips instance_ended_def by (auto simp: eip_of_instance_def owned_where_def)
  moreover have "\<not> of_instance account j r" if "r \<in> set (left_enis account i (ec2_enis t))" for r
    using that e gone unfolding left_eni_row instance_ended_def by blast
  moreover have "\<not> owned_where account (volume_attached_to j) r" if "r \<in> set (ec2_volumes (terminate_volumes account i t))" for r
    using terminate_volumes_attached [OF that, of j] e unfolding instance_ended_def by blast
  ultimately show "instance_ended account j (terminate_tx account i t)"
    unfolding instance_ended_def terminate_tx_enis terminate_tx_volumes terminate_tx_eips by blast
qed


text \<open>The state of one instance after a change of another's.\<close>

lemma find_map: "find p (map g t) = map_option g (find (\<lambda>r. p (g r)) t)"
  by (induction t) auto

lemma get_put_instance:
  assumes "get_instance_tx account region i t = Inr x" and "in_id y = i" and "in_region y = region"
  shows "get_instance_tx account region j (put_instance account i y t) = (if j = i then Inr y else get_instance_tx account region j t)"
proof -
  let ?p = "\<lambda>j. owned_where account (\<lambda>x. in_region x = region \<and> in_id x = j)"
  let ?g = "\<lambda>r. if instance_pk r = (account, i) then put_data (\<lambda>_. y) r else r"
  have rows: "ec2_instances (put_instance account i y t) = map ?g (ec2_instances t)" by (simp add: put_instance_def sql_update_def)
  show ?thesis
  proof (cases "j = i")
    case True
    have "(\<lambda>r. ?p i (?g r)) = (\<lambda>r. instance_pk r = (account, i))"
      using assms(2,3) by (auto simp: fun_eq_iff owned_where_def put_data_def instance_pk_def owned_pk_def)
    moreover obtain r where "find (\<lambda>r. instance_pk r = (account, i)) (ec2_instances t) = Some r" "instance_pk r = (account, i)"
    proof (cases "find (\<lambda>r. instance_pk r = (account, i)) (ec2_instances t)")
      case None
      with assms(1) show ?thesis
        by (auto simp: get_instance_tx_def find_None_iff find_Some_iff owned_where_def instance_pk_def owned_pk_def split: option.splits dest: nth_mem)
    next
      case (Some r)
      then show ?thesis using that by (auto simp: find_Some_iff)
    qed
    ultimately show ?thesis using True by (simp add: get_instance_tx_def rows find_map put_data_def)
  next
    case False
    have "(\<lambda>r. ?p j (?g r)) = ?p j"
      using assms(2) False by (auto simp: fun_eq_iff owned_where_def put_data_def instance_pk_def owned_pk_def)
    moreover have "ow_data (?g r) = ow_data r" if "?p j r" for r
      using that False by (auto simp: owned_where_def instance_pk_def owned_pk_def)
    moreover have "?p j r" if "find (?p j) (ec2_instances t) = Some r" for r using that by (auto simp: find_Some_iff)
    ultimately show ?thesis using False
      by (cases "find (?p j) (ec2_instances t)") (simp_all only: get_instance_tx_def rows find_map option.map option.case if_False)
  qed
qed

lemma get_instance_tx_Inr: "get_instance_tx account region i t = Inr x \<Longrightarrow> in_id x = i \<and> in_region x = region"
  by (auto simp: get_instance_tx_def find_Some_iff owned_where_def split: option.splits)

definition terminable :: "string \<Rightarrow> string \<Rightarrow> ec2_db \<Rightarrow> string \<Rightarrow> bool" where
  "terminable account region t i \<longleftrightarrow>
     (case get_instance_tx account region i t of Inl _ \<Rightarrow> False | Inr x \<Rightarrow> in_state x = ''terminated'' \<or> \<not> in_disable_termination x)"

definition is_terminated :: "string \<Rightarrow> string \<Rightarrow> ec2_db \<Rightarrow> string \<Rightarrow> bool" where
  "is_terminated account region t i \<longleftrightarrow>
     (case get_instance_tx account region i t of Inl _ \<Rightarrow> False | Inr x \<Rightarrow> in_state x = ''terminated'')"

lemma terminate_one:
  "terminable account region t i \<longleftrightarrow> (\<exists>was t'. set_instance_state_tx account region i ''terminated'' t = Inr (was, t'))"
  "set_instance_state_tx account region i ''terminated'' t = Inr (was, t') \<Longrightarrow>
     (is_terminated account region t' j \<longleftrightarrow> j = i \<or> is_terminated account region t j) \<and>
     (terminable account region t' j \<longleftrightarrow> j = i \<or> terminable account region t j) \<and>
     (is_terminated account region t i \<or> instance_ended account i t') \<and>
     (instance_ended account k t \<longrightarrow> instance_ended account k t')"
proof -
  show "terminable account region t i \<longleftrightarrow> (\<exists>was t'. set_instance_state_tx account region i ''terminated'' t = Inr (was, t'))"
    by (auto simp: terminable_def set_instance_state_tx_def Let_def split: sum.split)
  assume s: "set_instance_state_tx account region i ''terminated'' t = Inr (was, t')"
  then obtain x where x: "get_instance_tx account region i t = Inr x" by (auto simp: set_instance_state_tx_def split: sum.splits)
  show "(is_terminated account region t' j \<longleftrightarrow> j = i \<or> is_terminated account region t j) \<and>
     (terminable account region t' j \<longleftrightarrow> j = i \<or> terminable account region t j) \<and>
     (is_terminated account region t i \<or> instance_ended account i t') \<and>
     (instance_ended account k t \<longrightarrow> instance_ended account k t')"
  proof (cases "in_state x = ''terminated''")
    case True
    with s x have "t' = t" by (simp add: set_instance_state_tx_def)
    with True x show ?thesis by (auto simp: is_terminated_def terminable_def)
  next
    case False
    let ?y = "x\<lparr>in_state := ''terminated''\<rparr>"
    from s x False have t': "t' = terminate_tx account i (put_instance account i ?y t)"
      by (auto simp: set_instance_state_tx_def Let_def split: if_splits)
    have "get_instance_tx account region j t' = get_instance_tx account region j (put_instance account i ?y t)" for j
      by (simp add: get_instance_tx_def t' terminate_tx_instances)
    then have g: "get_instance_tx account region j t' = (if j = i then Inr ?y else get_instance_tx account region j t)" for j
      using get_put_instance [OF x, of ?y j] get_instance_tx_Inr [OF x] by simp
    have "instance_ended account k (put_instance account i ?y t) = instance_ended account k t"
      by (simp add: instance_ended_def put_instance_def)
    then have "instance_ended account k t \<longrightarrow> instance_ended account k t'" using terminate_tx_ended(2) unfolding t' by blast
    moreover have "instance_ended account i t'" unfolding t' by (rule terminate_tx_ended(1))
    ultimately show ?thesis by (auto simp: is_terminated_def terminable_def g)
  qed
qed

lemma terminate_each_ok:
  "(\<exists>ws t'. set_states account region ''terminated'' is t = Inr (ws, t')) \<longleftrightarrow> (\<forall>i\<in>set is. terminable account region t i)"
proof (induction "is" arbitrary: t)
  case (Cons i "is")
  show ?case
  proof (cases "terminable account region t i")
    case False
    then have "\<nexists>was t'. set_instance_state_tx account region i ''terminated'' t = Inr (was, t')" using terminate_one(1) by blast
    with False show ?thesis by (auto split: sum.split)
  next
    case True
    then obtain was t1 where s: "set_instance_state_tx account region i ''terminated'' t = Inr (was, t1)" using terminate_one(1) by blast
    have "terminable account region t1 j \<longleftrightarrow> j = i \<or> terminable account region t j" for j using terminate_one(2) [OF s] by blast
    with Cons.IH [of t1] True s show ?thesis by (auto simp: map_sum_Inr)
  qed
qed simp

lemma terminate_each_ended:
  "set_states account region ''terminated'' is t = Inr (ws, t') \<Longrightarrow> instance_ended account k t \<Longrightarrow> instance_ended account k t'"
proof (induction "is" arbitrary: t ws)
  case (Cons m "is")
  then show ?case using terminate_one(2) [of account region m t] by (fastforce simp: map_sum_Inr split: sum.splits)
qed simp

lemma terminate_each_effect:
  assumes "set_states account region ''terminated'' is t = Inr (ws, t')"
  shows "(is_terminated account region t' j \<longleftrightarrow> j \<in> set is \<or> is_terminated account region t j) \<and>
    (i \<in> set is \<longrightarrow> is_terminated account region t i \<or> instance_ended account i t')"
  using assms
proof (induction "is" arbitrary: t ws)
  case (Cons m "is")
  from Cons.prems obtain was t1 ws1 where s: "set_instance_state_tx account region m ''terminated'' t = Inr (was, t1)"
    and r: "set_states account region ''terminated'' is t1 = Inr (ws1, t')" by (auto simp: map_sum_Inr split: sum.splits)
  note one = terminate_one(2) [OF s]
  have t: "is_terminated account region t1 x \<longleftrightarrow> x = m \<or> is_terminated account region t x" for x using one by blast
  have "is_terminated account region t m \<or> instance_ended account m t'"
    using one terminate_each_ended [OF r, of m] by blast
  with Cons.IH [OF r] t [of j] t [of i] show ?case by auto
qed simp

text \<open>C29. 
  TerminateInstances is all or nothing: with every instance stored and none protected it terminates them, and each
  it ends keeps no interface, volume or Elastic IP, and no other instance's state changes; otherwise nothing changes.
\<close>

theorem terminate_all_or_none:
  "let ids = query_list_values (qr_params req) ''InstanceId.''; t = ec2_tbls d; (resp, d') = ec2_terminate_instances account region req d
   in if ids \<noteq> [] \<and> (\<forall>i\<in>set ids. terminable account region t i)
      then r_status resp = 200 \<and>
        (\<forall>i. is_terminated account region (ec2_tbls d') i \<longleftrightarrow> i \<in> set ids \<or> is_terminated account region t i) \<and>
        (\<forall>i\<in>set ids. is_terminated account region t i \<or> instance_ended account i (ec2_tbls d'))
      else d' = d"
proof -
  let ?ids = "query_list_values (qr_params req) ''InstanceId.''" and ?t = "ec2_tbls d"
  show ?thesis
  proof (cases "?ids \<noteq> [] \<and> (\<forall>i\<in>set ?ids. terminable account region ?t i)")
    case True
    then obtain ws t' where s: "set_states account region ''terminated'' ?ids ?t = Inr (ws, t')"
      using terminate_each_ok [of account region ?ids ?t] by blast
    have tbls: "ec2_tbls (drop_ec2_tags account ids (d\<lparr>ec2_tbls := t'\<rparr>)) = t'" for ids by (simp add: drop_ec2_tags_def)
    show ?thesis using True terminate_each_effect [OF s]
      by (simp add: ec2_terminate_instances_def Let_def set_instance_state_def s tbls write_ec2_query_def)
  next
    case False
    have "\<nexists>ws t'. set_states account region ''terminated'' ?ids ?t = Inr (ws, t')" if "?ids \<noteq> []"
      using that False terminate_each_ok [of account region ?ids ?t] by blast
    then have "snd (ec2_terminate_instances account region req d) = d"
      by (auto simp: ec2_terminate_instances_def Let_def set_instance_state_def map_sum_Inr split: sum.split)
    with False show ?thesis by (auto simp: Let_def split: prod.split)
  qed
qed

definition sample_instance :: ec2_instance where
  "sample_instance = \<lparr>in_id = ''i-1'', in_subnet = ''subnet-1'', in_ami = [], in_type = ''t3.micro'', in_key_name = [],
     in_profile_name = [], in_profile_arn = [], in_profile_id = [], in_user_data = [], in_state = ''running'', in_region = ''r'',
     in_arn = [], in_created_at = [], in_reservation = ''r-1'', in_recorded = [], in_disable_termination = False,
     in_disable_stop = False, in_ebs_optimized = False, in_shutdown = []\<rparr>"

definition sample_eni :: ec2_eni where
  "sample_eni = \<lparr>ni_id = ''eni-1'', ni_attachment = ''eni-attach-1'', ni_instance = ''i-1'', ni_subnet = ''subnet-1'', ni_vpc = ''vpc-1'',
     ni_private_ip = ''10.0.0.4'', ni_public_ip = [], ni_auto_public = False, ni_groups = [], ni_source_dest = True, ni_region = ''r'',
     ni_description = [], ni_mac = [], ni_private_dns = [], ni_zone = [], ni_requester_managed = False, ni_type = [], ni_owner = [],
     ni_status = [], ni_addresses = [], ni_keep = False\<rparr>"

definition sample_instance_db :: db where
  "sample_instance_db = empty_db\<lparr>ec2_tbls := empty_ec2_db\<lparr>ec2_instances := [\<lparr>ow_account = ''1'', ow_data = sample_instance\<rparr>],
     ec2_enis := [\<lparr>ow_account = ''1'', ow_data = sample_eni\<rparr>]\<rparr>\<rparr>"

definition sample_terminate :: query_request where
  "sample_terminate = \<lparr>qr_action = ''TerminateInstances'', qr_version = [], qr_params = [(''InstanceId.1'', [''i-1''])]\<rparr>"

theorem terminate_all_or_none_witness:
  "instance_ended ''1'' ''i-1'' (ec2_tbls (snd (ec2_terminate_instances ''1'' ''r'' sample_terminate sample_instance_db)))"
proof -
  have "query_list_values (qr_params sample_terminate) ''InstanceId.'' = [''i-1'']" by code_simp
  moreover have "terminable ''1'' ''r'' (ec2_tbls sample_instance_db) ''i-1''" "\<not> is_terminated ''1'' ''r'' (ec2_tbls sample_instance_db) ''i-1''"
    by code_simp+
  ultimately show ?thesis using terminate_all_or_none [of sample_terminate sample_instance_db "''1''" "''r''"]
    by (simp add: Let_def split_beta)
qed

definition sample_subnet :: ec2_subnet where
  "sample_subnet = \<lparr>sn_id = ''subnet-1'', sn_vpc = ''vpc-1'', sn_cidr = ''10.0.0.0/28'', sn_zone = ''ra'', sn_region = ''r'', sn_arn = [],
     sn_state = ''available'', sn_created_at = [], sn_map_public = False, sn_owner = [], sn_available = 11, sn_default_for_az = False,
     sn_assign_ipv6 = False, sn_customer_owned = None, sn_dns64 = None, sn_ipv6_native = None, sn_lni_index = None,
     sn_customer_pool = [], sn_outpost = [], sn_ipv6_assocs = [], sn_dns_options = None\<rparr>"

definition sample_subnet_db :: db where
  "sample_subnet_db = empty_db\<lparr>ec2_tbls := empty_ec2_db\<lparr>ec2_subnets := [\<lparr>ow_account = ''1'', ow_data = sample_subnet\<rparr>]\<rparr>\<rparr>"

lemma sample_launch:
  "\<exists>x' eni' d'. create_instance ''1'' sample_instance (sample_eni\<lparr>ni_private_ip := []\<rparr>) sample_subnet_db = Inr (x', eni', d')"
  "get_subnet ''1'' (in_region sample_instance) (in_subnet sample_instance) sample_subnet_db = Inr sample_subnet"
proof -
  show s: "get_subnet ''1'' (in_region sample_instance) (in_subnet sample_instance) sample_subnet_db = Inr sample_subnet"
    by (simp add: get_subnet_def get_scoped_def in_scope_def sample_instance_def sample_subnet_db_def sample_subnet_def)
  have ip: "private_ip ''10.0.0.0/28'' [] [] = Inr ''10.0.0.4''"
    by (simp add: private_ip_def sample_prefix sample_prefix_ends first_free.simps [of "[]" "[]"] show_v4_def show_nat.simps digit_char_def)
  have lp: "launch_parents ''1'' sample_instance (sample_eni\<lparr>ni_private_ip := []\<rparr>) sample_subnet_db = Inr sample_subnet"
    by (simp add: launch_parents_def s res_bind_def) (simp add: sample_instance_def sample_eni_def)
  show "\<exists>x' eni' d'. create_instance ''1'' sample_instance (sample_eni\<lparr>ni_private_ip := []\<rparr>) sample_subnet_db = Inr (x', eni', d')"
    unfolding create_instance_def lp
    by (simp add: res_bind_def store_launch_def insert_instance_def insert_checked_def
        mapped_insert_def has_key_def sample_subnet_db_def sample_subnet_def fill_instance_def fill_eni_def sample_instance_def sample_eni_def
        instance_pk_def subnet_pk_def eni_pk_def owned_pk_def subnet_private_ips_def claim_public_ip_def insert_eni_def eni_ip_key_def ip)
qed

theorem launch_private_ip_witness:
  "\<exists>p a. parse_prefix (sn_cidr sample_subnet) = Some p \<and> px_first p + 4 \<le> a \<and> a < px_last p"
proof -
  from sample_launch(1) obtain x' eni' d' where "create_instance ''1'' sample_instance (sample_eni\<lparr>ni_private_ip := []\<rparr>) sample_subnet_db = Inr (x', eni', d')"
    by blast
  from launch_private_ip [OF this sample_launch(2)] show ?thesis by blast
qed

definition sample_sg_db :: db where
  "sample_sg_db = empty_db\<lparr>ec2_tbls := empty_ec2_db\<lparr>ec2_sgs :=
     [\<lparr>ow_account = ''1'', ow_data = new_ec2_security_group sample_ec2_env 0 ''1'' ''r'' ''vpc-1'' ''web'' ''d''\<rparr>]\<rparr>\<rparr>"

definition sample_permission :: ec2_permission where
  "sample_permission = \<lparr>pe_protocol = ''tcp'', pe_from = 22, pe_to = 22, pe_v4 = [(''10.0.0.0/8'', ''ssh'')], pe_v6 = [],
     pe_groups = [(''sg-2'', [], [])], pe_lists = []\<rparr>"

lemma sample_authorized:
  "\<not> isl (authorize_security_group_rules ''1'' [] ''sg-01'' (identify_rules sample_ec2_env ''1'' (sg_rules False [sample_permission])) sample_sg_db)"
  by code_simp

theorem sg_authorize_revoke_witness:
  "\<exists>added d' d''. authorize_security_group_rules ''1'' [] ''sg-01'' (identify_rules sample_ec2_env ''1'' (sg_rules False [sample_permission])) sample_sg_db = Inr (added, d') \<and>
     revoke_security_group_rules ''1'' [] ''sg-01'' (sg_rules False [sample_permission]) d' = (None, d'') \<and> ec2_rules (ec2_tbls d'') = []"
proof -
  from sample_authorized obtain added d' where a: "authorize_security_group_rules ''1'' [] ''sg-01''
      (identify_rules sample_ec2_env ''1'' (sg_rules False [sample_permission])) sample_sg_db = Inr (added, d')"
    by (metis isl_def prod.collapse sum.exhaust)
  have "ec2_rules (ec2_tbls sample_sg_db) = []" by (simp add: sample_sg_db_def)
  with sg_authorize_revoke [OF a, of sample_ec2_env] a show ?thesis by auto
qed

end
