(* ===== verification/OwnedRows.thy ===== *)
theory OwnedRows
  imports Ec2Wf
begin

text \<open>
  What the repository files of EKS and RDS share: a row of an account by its key, an INSERT through
  mapInsertError, the tag triggers of the rows a DELETE takes, and the laws of each.
\<close>

definition get_owned :: "('a owned \<Rightarrow> 'k) \<Rightarrow> 'k \<Rightarrow> 'a owned list \<Rightarrow> 'a result" where
  "get_owned key k t = (case find (\<lambda>r. key r = k) t of None \<Rightarrow> Inl ErrNotFound | Some r \<Rightarrow> Inr (ow_data r))"

definition insert_owned :: "('a owned \<Rightarrow> 'k) \<Rightarrow> bool \<Rightarrow> string \<Rightarrow> 'a \<Rightarrow> 'a owned list \<Rightarrow> 'a owned list result" where
  "insert_owned key fk account x t =
     (let r = \<lparr>ow_account = account, ow_data = x\<rparr> in mapped_insert (insert_checked (has_key key (key r) t) fk r t))"

definition drop_tags_of :: "('a owned \<Rightarrow> bool) \<Rightarrow> ('a \<Rightarrow> string) \<Rightarrow> 'a owned list \<Rightarrow> db \<Rightarrow> db" where
  "drop_tags_of p arn t d = fold (\<lambda>r. drop_resource_tags (ow_account r) (arn (ow_data r))) (filter p t) d"

section \<open>Laws\<close>

lemma find_SomeD: "find p t = Some r \<Longrightarrow> r \<in> set t \<and> p r"
  by (auto simp: find_Some_iff)

lemma find_has_key: "find (\<lambda>r. key r = k) t = None \<longleftrightarrow> \<not> has_key key k t"
  by (auto simp: has_key_def find_None_iff)

lemma get_owned_Inr:
  assumes "get_owned key k t = Inr x"
  obtains r where "r \<in> set t" "key r = k" "ow_data r = x"
proof (cases "find (\<lambda>r. key r = k) t")
  case None
  with assms show thesis by (simp add: get_owned_def)
next
  case (Some r)
  with assms find_SomeD [OF Some] show thesis by (intro that [of r]) (simp_all add: get_owned_def)
qed

lemma get_owned_Inl: "get_owned key k t = Inl e \<longleftrightarrow> e = ErrNotFound \<and> \<not> has_key key k t"
  unfolding find_has_key [symmetric] by (auto simp: get_owned_def split: option.split)

lemma get_owned_row: "pk key t \<Longrightarrow> r \<in> set t \<Longrightarrow> get_owned key (key r) t = Inr (ow_data r)"
  by (simp add: get_owned_def find_pk_eq_Some [THEN iffD2])

lemma get_owned_snoc:
  "get_owned key k (t @ [r]) = (if \<not> has_key key k t \<and> key r = k then Inr (ow_data r) else get_owned key k t)"
  unfolding find_has_key [symmetric] by (simp add: get_owned_def find_snoc split: option.split)

lemma affected_has_key: "affected (\<lambda>r. key r = k) t = 0 \<longleftrightarrow> \<not> has_key key k t"
  by (simp add: affected_0_iff find_has_key)

lemma insert_owned_cases:
  "insert_owned key fk account x t =
     (if has_key key (key \<lparr>ow_account = account, ow_data = x\<rparr>) t then Inl ErrConflict
      else if fk then Inr (t @ [\<lparr>ow_account = account, ow_data = x\<rparr>]) else Inl ErrNotFound)"
  by (simp add: insert_owned_def Let_def mapped_insert_def insert_checked_def del: sql_text.simps)

lemma sql_delete_snoc:
  assumes "\<not> has_key key (key r) t"
  shows "sql_delete (\<lambda>x. key x = key r) (t @ [r]) = t"
proof -
  have "filter (\<lambda>x. key x \<noteq> key r) t = t" using assms unfolding has_key_def filter_id_conv by (metis imageI)
  then show ?thesis by (simp add: sql_delete_def)
qed

lemma drop_tags_of_eq:
  "drop_tags_of p arn t d = d\<lparr>resource_tags :=
     sql_delete (\<lambda>g. \<exists>r\<in>set t. p r \<and> ow_account r = g_account g \<and> arn (ow_data r) = g_arn g) (resource_tags d)\<rparr>"
proof (induction t arbitrary: d)
  case (Cons r t)
  show ?case
  proof (cases "p r")
    case True
    have "drop_tags_of p arn (r # t) d = drop_tags_of p arn t (drop_resource_tags (ow_account r) (arn (ow_data r)) d)"
      by (simp add: drop_tags_of_def True)
    also have "\<dots> = d\<lparr>resource_tags := sql_delete (\<lambda>g. \<exists>r\<in>set (r # t). p r \<and> ow_account r = g_account g \<and> arn (ow_data r) = g_arn g) (resource_tags d)\<rparr>"
      unfolding Cons.IH by (simp add: drop_resource_tags_def sql_delete_def filter_filter True eq_commute [of "ow_account r"] eq_commute [of "arn (ow_data r)"])
    finally show ?thesis .
  next
    case False
    then have "drop_tags_of p arn (r # t) d = drop_tags_of p arn t d" by (simp add: drop_tags_of_def)
    with Cons.IH [of d] False show ?thesis by simp
  qed
qed (simp add: drop_tags_of_def sql_delete_def)

lemma filter_key_snoc:
  assumes "\<not> has_key key (key r) t"
  shows "filter (\<lambda>x. key x = key r) (t @ [r]) = [r]"
proof -
  have "filter (\<lambda>x. key x = key r) t = []" using assms unfolding has_key_def filter_empty_conv by (metis imageI)
  then show ?thesis by simp
qed

lemma drop_tags_of_snoc:
  assumes "\<not> has_key key (key r) t"
  shows "drop_tags_of (\<lambda>x. key x = key r) arn (t @ [r]) d = drop_resource_tags (ow_account r) (arn (ow_data r)) d"
  by (simp add: drop_tags_of_def filter_key_snoc [OF assms] del: filter_append)

text \<open>The tags of a resource that had none are the rows at the end, and go with it.\<close>

definition tag_rows_of :: "string \<Rightarrow> string \<Rightarrow> gomap \<Rightarrow> tag_row list" where
  "tag_rows_of a arn kvs = map (\<lambda>(k, v). \<lparr>g_account = a, g_arn = arn, g_key = k, g_value = v\<rparr>) kvs"

definition untagged :: "string \<Rightarrow> string \<Rightarrow> tag_row list \<Rightarrow> bool" where
  "untagged a arn t \<longleftrightarrow> (\<forall>g\<in>set t. \<not> (g_account g = a \<and> g_arn g = arn))"

lemma put_tags_snoc:
  assumes "gm_wf kvs" and "\<And>k. k \<in> fst ` set kvs \<Longrightarrow> (a, arn, k) \<notin> tag_pk ` set t"
  shows "put_tags a arn kvs t = t @ tag_rows_of a arn kvs"
  using assms
proof (induction kvs arbitrary: t)
  case (Cons kv kvs)
  obtain k v where kv: "kv = (k, v)" by (cases kv)
  have fresh: "(a, arn, k) \<notin> tag_pk ` set t" using Cons.prems(2) [of k] by (simp add: kv)
  have "put_tag a arn k v t = t @ [\<lparr>g_account = a, g_arn = arn, g_key = k, g_value = v\<rparr>]"
    using fresh by (simp add: put_tag_def sql_upsert_def tag_pk_def)
  moreover have "gm_wf kvs" "k \<notin> fst ` set kvs" using Cons.prems(1) by (auto simp: kv gm_wf_def)
  moreover have "(a, arn, k') \<notin> tag_pk ` set (t @ [\<lparr>g_account = a, g_arn = arn, g_key = k, g_value = v\<rparr>])"
    if "k' \<in> fst ` set kvs" for k'
  proof -
    have "k' \<noteq> k" using that \<open>k \<notin> fst ` set kvs\<close> by blast
    moreover have "(a, arn, k') \<notin> tag_pk ` set t" using Cons.prems(2) [of k'] that by (simp add: kv)
    ultimately show ?thesis by (auto simp: tag_pk_def)
  qed
  ultimately show ?case using Cons.IH by (simp add: put_tags_def tag_rows_of_def kv)
qed (simp add: put_tags_def tag_rows_of_def)

lemma put_tags_untagged: "gm_wf kvs \<Longrightarrow> untagged a arn t \<Longrightarrow> put_tags a arn kvs t = t @ tag_rows_of a arn kvs"
  by (rule put_tags_snoc) (auto simp: untagged_def tag_pk_def)

lemma gm_set_all_fresh: "gm_wf (m @ kvs) \<Longrightarrow> gm_set_all kvs m = m @ kvs"
proof (induction kvs arbitrary: m)
  case (Cons kv kvs)
  have "fst kv \<notin> fst ` set m" using Cons.prems by (auto simp: gm_wf_def)
  then have "gm_set (fst kv) (snd kv) m = m @ [kv]" by (induction m) (auto simp: gm_set_def)
  with Cons show ?case by simp
qed simp

lemma tags_of_untagged:
  assumes "untagged a arn t" and "gm_wf kvs"
  shows "tags_of a arn (t @ tag_rows_of a arn kvs) = kvs"
proof -
  have 1: "filter (\<lambda>r. g_account r = a \<and> g_arn r = arn) t = []"
    using assms(1) by (auto simp: untagged_def filter_empty_conv)
  have 2: "map (\<lambda>r. (g_key r, g_value r)) (filter (\<lambda>r. g_account r = a \<and> g_arn r = arn) (tag_rows_of a arn kvs)) = kvs"
    by (induction kvs) (auto simp: tag_rows_of_def)
  from gm_set_all_fresh [of "[]" kvs] assms(2) show ?thesis by (simp add: tags_of_def 1 2)
qed

lemma delete_tags_untagged:
  assumes "untagged a arn t" and "\<And>g. g \<in> set t \<Longrightarrow> \<not> (g_account g = a \<and> g_arn g = arn) \<Longrightarrow> \<not> p g"
    and "\<And>g. g_account g = a \<Longrightarrow> g_arn g = arn \<Longrightarrow> p g"
  shows "sql_delete p (t @ tag_rows_of a arn kvs) = t"
proof -
  have "sql_delete p t = t" using assms(1,2) by (auto simp: sql_delete_def untagged_def filter_id_conv)
  moreover have "sql_delete p (tag_rows_of a arn kvs) = []"
    using assms(3) by (auto simp: sql_delete_def tag_rows_of_def filter_empty_conv)
  ultimately show ?thesis by (simp add: sql_delete_def)
qed

text \<open>A create with tags on a resource that is stored.\<close>

lemma tag_created_stored:
  assumes "resource_exists a tbl arn d" and "gm_wf kvs" and "untagged a arn (resource_tags d)"
  shows "tag_created a tbl arn kvs undo d = (None, d\<lparr>resource_tags := resource_tags d @ tag_rows_of a arn kvs\<rparr>)"
proof (cases "kvs = []")
  case False
  with assms show ?thesis
    by (simp add: tag_created_def tag_resource_def change_resource_tags_eq del_tags_def put_tags_untagged)
qed (simp add: tag_created_def tag_rows_of_def)

lemma tag_created_exists:
  assumes "resource_exists a tbl arn d"
  obtains t where "tag_created a tbl arn kvs undo d = (None, d\<lparr>resource_tags := t\<rparr>)" "pk tag_pk (resource_tags d) \<Longrightarrow> pk tag_pk t"
proof (cases "kvs = []")
  case True
  show thesis by (rule that [of "resource_tags d"]) (simp_all add: tag_created_def True)
next
  case False
  with assms show thesis
    by (intro that [of "put_tags a arn kvs (resource_tags d)"])
      (simp_all add: tag_created_def tag_resource_def change_resource_tags_eq del_tags_def pk_put_tags)
qed

end
