(* ===== verification/EksRepo.thy ===== *)
theory EksRepo
  imports OwnedRows Ec2Groups IamRepo
begin

text \<open>
  EKS in the repository (repository/eks.go): clusters, and the node groups and add-ons of a cluster. A cluster
  names an IAM role of its account and the subnets and security groups of one VPC; the foreign keys of its node
  groups and add-ons cascade, and the tag trigger of each table fires for every row that goes. A wrapped sentinel
  is written as the sentinel, since no text of it reaches the wire.
\<close>

section \<open>Clusters\<close>

text \<open>iamRoleNameFromARN: the name in a role ARN of the account itself, else "".\<close>

definition iam_role_name_from_arn :: "string \<Rightarrow> string \<Rightarrow> string" where
  "iam_role_name_from_arn account arn =
     (if \<not> has_prefix arn ''arn:aws:iam::'' then []
      else case str_cut (trim_prefix arn ''arn:aws:iam::'') '':'' of
        None \<Rightarrow> []
      | Some (acc, tail) \<Rightarrow> (if acc \<noteq> account \<or> \<not> has_prefix tail ''role/'' then [] else trim_prefix tail ''role/''))"

definition role_refused :: "string \<Rightarrow> string \<Rightarrow> db \<Rightarrow> go_error option" where
  "role_refused account arn d =
     (let name = iam_role_name_from_arn account arn
      in if name = [] then Some ErrNotFound
         else case get_role account name d of Inl e \<Rightarrow> Some e | Inr _ \<Rightarrow> None)"

text \<open>The VPC of a list of subnets: the first one's, which the others must share.\<close>

fun subnets_vpc :: "string \<Rightarrow> string \<Rightarrow> db \<Rightarrow> string \<Rightarrow> string list \<Rightarrow> string result" where
  "subnets_vpc account region d vpc [] = Inr vpc"
| "subnets_vpc account region d vpc (s # ss) =
     (case get_subnet account region s d of
        Inl e \<Rightarrow> Inl e
      | Inr sn \<Rightarrow>
          (if vpc = [] then subnets_vpc account region d (sn_vpc sn) ss
           else if sn_vpc sn \<noteq> vpc then Inl ErrConflict
           else subnets_vpc account region d vpc ss))"

fun groups_refused :: "string \<Rightarrow> string \<Rightarrow> db \<Rightarrow> string \<Rightarrow> string list \<Rightarrow> go_error option" where
  "groups_refused account region d vpc [] = None"
| "groups_refused account region d vpc (g # gs) =
     (case get_security_group account region g d of
        Inl e \<Rightarrow> Some e
      | Inr sg \<Rightarrow> (if sg_vpc sg \<noteq> vpc then Some ErrConflict else groups_refused account region d vpc gs))"

definition or_active :: "string \<Rightarrow> string" where
  "or_active s = (if s = [] then ''ACTIVE'' else s)"

definition cluster_refused :: "string \<Rightarrow> eks_cluster \<Rightarrow> db \<Rightarrow> go_error option" where
  "cluster_refused account c d =
     (case role_refused account (ec_role_arn c) d of
        Some e \<Rightarrow> Some e
      | None \<Rightarrow>
         (if ec_subnets c = [] then Some ErrConflict
          else case subnets_vpc account (ec_region c) d [] (ec_subnets c) of
            Inl e \<Rightarrow> Some e
          | Inr vpc \<Rightarrow> groups_refused account (ec_region c) d vpc (ec_groups c)))"

definition create_eks_cluster :: "string \<Rightarrow> eks_cluster \<Rightarrow> db \<Rightarrow> go_error option \<times> db" where
  "create_eks_cluster account c d =
     (case cluster_refused account c d of
        Some e \<Rightarrow> (Some e, d)
      | None \<Rightarrow>
         (let t = eks_tbls d
          in case insert_owned eks_cluster_pk True account (c\<lparr>ec_status := or_active (ec_status c)\<rparr>) (eks_clusters t) of
            Inl e \<Rightarrow> (Some e, d)
          | Inr rows \<Rightarrow> (None, d\<lparr>eks_tbls := t\<lparr>eks_clusters := rows\<rparr>\<rparr>)))"

definition get_eks_cluster :: "string \<Rightarrow> string \<Rightarrow> string \<Rightarrow> db \<Rightarrow> eks_cluster result" where
  "get_eks_cluster account region name d = get_owned eks_cluster_pk (account, region, name) (eks_clusters (eks_tbls d))"

definition list_eks_clusters :: "string \<Rightarrow> string \<Rightarrow> db \<Rightarrow> eks_cluster list" where
  "list_eks_clusters account region d = list_scoped ec_region ec_name account region (eks_clusters (eks_tbls d))"

text \<open>A delete cascades to the node groups and add-ons under the key.\<close>

definition group_of :: "string \<times> string \<times> string \<Rightarrow> eks_node_group owned \<Rightarrow> bool" where
  "group_of k r \<longleftrightarrow> owned_pk (\<lambda>g. (eg_region g, eg_cluster g)) r = k"

definition addon_of :: "string \<times> string \<times> string \<Rightarrow> eks_addon owned \<Rightarrow> bool" where
  "addon_of k r \<longleftrightarrow> owned_pk (\<lambda>a. (ea_region a, ea_cluster a)) r = k"

definition delete_eks_cluster :: "string \<Rightarrow> string \<Rightarrow> string \<Rightarrow> db \<Rightarrow> go_error option \<times> db" where
  "delete_eks_cluster account region name d =
     (let t = eks_tbls d; k = (account, region, name); p = (\<lambda>r. eks_cluster_pk r = k)
      in if affected p (eks_clusters t) = 0 then (Some ErrNotFound, d)
         else (None, drop_tags_of (addon_of k) ea_arn (eks_addons t)
                 (drop_tags_of (group_of k) eg_arn (eks_node_groups t)
                   (drop_tags_of p ec_arn (eks_clusters t)
                     (d\<lparr>eks_tbls := t\<lparr>eks_clusters := sql_delete p (eks_clusters t),
                        eks_node_groups := sql_delete (group_of k) (eks_node_groups t),
                        eks_addons := sql_delete (addon_of k) (eks_addons t)\<rparr>\<rparr>)))))"

section \<open>Node groups\<close>

definition group_refused :: "string \<Rightarrow> eks_node_group \<Rightarrow> db \<Rightarrow> go_error option" where
  "group_refused account g d =
     (case get_eks_cluster account (eg_region g) (eg_cluster g) d of
        Inl e \<Rightarrow> Some e
      | Inr c \<Rightarrow>
         (case role_refused account (eg_role_arn g) d of
            Some e \<Rightarrow> Some e
          | None \<Rightarrow>
             (if list_all (\<lambda>s. s \<in> set (ec_subnets c)) (or_zero [] (eg_subnets g)) then None else Some ErrConflict)))"

definition cluster_stored :: "string \<Rightarrow> string \<Rightarrow> string \<Rightarrow> eks_db \<Rightarrow> bool" where
  "cluster_stored account region name t \<longleftrightarrow> has_key eks_cluster_pk (account, region, name) (eks_clusters t)"

definition create_eks_node_group :: "string \<Rightarrow> eks_node_group \<Rightarrow> db \<Rightarrow> go_error option \<times> db" where
  "create_eks_node_group account g d =
     (case group_refused account g d of
        Some e \<Rightarrow> (Some e, d)
      | None \<Rightarrow>
         (let t = eks_tbls d
          in case insert_owned eks_node_group_pk (cluster_stored account (eg_region g) (eg_cluster g) t) account
               (g\<lparr>eg_status := or_active (eg_status g)\<rparr>) (eks_node_groups t) of
            Inl e \<Rightarrow> (Some e, d)
          | Inr rows \<Rightarrow> (None, d\<lparr>eks_tbls := t\<lparr>eks_node_groups := rows\<rparr>\<rparr>)))"

definition get_eks_node_group :: "string \<Rightarrow> string \<Rightarrow> string \<Rightarrow> string \<Rightarrow> db \<Rightarrow> eks_node_group result" where
  "get_eks_node_group account region cluster name d =
     get_owned eks_node_group_pk (account, region, cluster, name) (eks_node_groups (eks_tbls d))"

definition list_eks_node_groups :: "string \<Rightarrow> string \<Rightarrow> string \<Rightarrow> db \<Rightarrow> eks_node_group list" where
  "list_eks_node_groups account region cluster d =
     sort_key (\<lambda>g. (eg_cluster g, eg_name g))
       (filter (\<lambda>g. cluster = [] \<or> eg_cluster g = cluster)
         (map ow_data (filter (in_scope eg_region account region) (eks_node_groups (eks_tbls d)))))"

definition delete_eks_node_group :: "string \<Rightarrow> string \<Rightarrow> string \<Rightarrow> string \<Rightarrow> db \<Rightarrow> go_error option \<times> db" where
  "delete_eks_node_group account region cluster name d =
     (let t = eks_tbls d; p = (\<lambda>r. eks_node_group_pk r = (account, region, cluster, name))
      in if affected p (eks_node_groups t) = 0 then (Some ErrNotFound, d)
         else (None, drop_tags_of p eg_arn (eks_node_groups t)
                 (d\<lparr>eks_tbls := t\<lparr>eks_node_groups := sql_delete p (eks_node_groups t)\<rparr>\<rparr>)))"

section \<open>Add-ons\<close>

definition create_eks_addon :: "string \<Rightarrow> eks_addon \<Rightarrow> db \<Rightarrow> go_error option \<times> db" where
  "create_eks_addon account a d =
     (case get_eks_cluster account (ea_region a) (ea_cluster a) d of
        Inl e \<Rightarrow> (Some e, d)
      | Inr _ \<Rightarrow>
         (let t = eks_tbls d
          in case insert_owned eks_addon_pk (cluster_stored account (ea_region a) (ea_cluster a) t) account
               (a\<lparr>ea_status := or_active (ea_status a)\<rparr>) (eks_addons t) of
            Inl e \<Rightarrow> (Some e, d)
          | Inr rows \<Rightarrow> (None, d\<lparr>eks_tbls := t\<lparr>eks_addons := rows\<rparr>\<rparr>)))"

definition get_eks_addon :: "string \<Rightarrow> string \<Rightarrow> string \<Rightarrow> string \<Rightarrow> db \<Rightarrow> eks_addon result" where
  "get_eks_addon account region cluster name d =
     get_owned eks_addon_pk (account, region, cluster, name) (eks_addons (eks_tbls d))"

definition list_eks_addons :: "string \<Rightarrow> string \<Rightarrow> string \<Rightarrow> db \<Rightarrow> eks_addon list" where
  "list_eks_addons account region cluster d =
     sort_key (\<lambda>a. (ea_cluster a, ea_name a))
       (filter (\<lambda>a. cluster = [] \<or> ea_cluster a = cluster)
         (map ow_data (filter (in_scope ea_region account region) (eks_addons (eks_tbls d)))))"

definition delete_eks_addon :: "string \<Rightarrow> string \<Rightarrow> string \<Rightarrow> string \<Rightarrow> db \<Rightarrow> go_error option \<times> db" where
  "delete_eks_addon account region cluster name d =
     (let t = eks_tbls d; p = (\<lambda>r. eks_addon_pk r = (account, region, cluster, name))
      in if affected p (eks_addons t) = 0 then (Some ErrNotFound, d)
         else (None, drop_tags_of p ea_arn (eks_addons t)
                 (d\<lparr>eks_tbls := t\<lparr>eks_addons := sql_delete p (eks_addons t)\<rparr>\<rparr>)))"

end
