(* ===== verification/Eks.thy ===== *)
theory Eks
  imports EksRepo Rest Refs
begin

text \<open>
  EKS (handlers/eks.go): clusters, node groups and add-ons over JSON-REST, the resource in the path. A request
  body that does not decode is refused as a conflict, a tag call's as BadRequestException; the decoder's own text
  in such an answer is left out. A timestamp is answered as seconds since the epoch. The numbers of a scaling
  config are kept as their literals, also in /mock/state.
\<close>

section \<open>ARNs (handlers/awsproto/arn.go)\<close>

definition eks_cluster_arn :: "string \<Rightarrow> string \<Rightarrow> string \<Rightarrow> string" where
  "eks_cluster_arn region account name = ''arn:aws:eks:'' @ region @ '':'' @ account @ '':cluster/'' @ name"

definition eks_nodegroup_arn :: "string \<Rightarrow> string \<Rightarrow> string \<Rightarrow> string \<Rightarrow> string \<Rightarrow> string" where
  "eks_nodegroup_arn region account cluster nodegroup i =
     ''arn:aws:eks:'' @ region @ '':'' @ account @ '':nodegroup/'' @ cluster @ ''/'' @ nodegroup @ ''/'' @ i"

definition eks_addon_arn :: "string \<Rightarrow> string \<Rightarrow> string \<Rightarrow> string \<Rightarrow> string" where
  "eks_addon_arn region account cluster name =
     ''arn:aws:eks:'' @ region @ '':'' @ account @ '':addon/'' @ cluster @ ''/'' @ name @ ''/uuid''"

section \<open>Decoding\<close>

text \<open>The members of a nested struct: those of every object its field names, and whether each was one.\<close>

definition nested_object :: "string \<Rightarrow> json \<Rightarrow> bool \<times> json" where
  "nested_object f j = (list_all is_obj (members f j),
     JObj (concat (map (\<lambda>m. case m of JObj ms \<Rightarrow> ms | _ \<Rightarrow> []) (members f j))))"

text \<open>A JSON number literal, and the value a text that is one stands for.\<close>

definition all_digits :: "string \<Rightarrow> bool" where
  "all_digits s \<longleftrightarrow> s \<noteq> [] \<and> list_all (\<lambda>c. digit_value c \<noteq> None) s"

definition valid_exponent :: "string \<Rightarrow> bool" where
  "valid_exponent s = (case s of
       [] \<Rightarrow> True
     | c # t \<Rightarrow> c \<in> set ''eE'' \<and> all_digits (case t of [] \<Rightarrow> [] | x # u \<Rightarrow> if x \<in> set ''+-'' then u else t))"

definition valid_fraction :: "string \<Rightarrow> bool" where
  "valid_fraction s = (case s of
       [] \<Rightarrow> True
     | c # t \<Rightarrow>
         (if c = CHR ''.''
          then t \<noteq> [] \<and> digit_value (hd t) \<noteq> None \<and> valid_exponent (dropWhile (\<lambda>x. digit_value x \<noteq> None) t)
          else valid_exponent s))"

definition is_valid_number :: "string \<Rightarrow> bool" where
  "is_valid_number s =
     (let t = (case s of [] \<Rightarrow> [] | c # u \<Rightarrow> if c = CHR ''-'' then u else s)
      in case t of
        [] \<Rightarrow> False
      | c # u \<Rightarrow>
          (if c = CHR ''0'' then valid_fraction u
           else digit_value c \<noteq> None \<and> valid_fraction (dropWhile (\<lambda>x. digit_value x \<noteq> None) u)))"

definition number_json :: "string \<Rightarrow> json" where
  "number_json s = (case signed_digits s of Some i \<Rightarrow> (if show_int i = s then JInt i else JLit s) | None \<Rightarrow> JLit s)"

text \<open>
  A json.Number: a number literal, a text that is one, or null, which leaves the empty number that Marshal
  writes as 0.
\<close>

definition dec_number :: "json dec" where
  "dec_number j = (case j of
       JInt i \<Rightarrow> (True, Some (JInt i))
     | JLit s \<Rightarrow> (True, Some (JLit s))
     | JStr s \<Rightarrow> (if is_valid_number s then (True, Some (number_json s)) else (False, None))
     | JNull \<Rightarrow> (True, None)
     | _ \<Rightarrow> (False, None))"

definition field_numbers :: "string \<Rightarrow> json \<Rightarrow> bool \<times> (string \<times> json) list" where
  "field_numbers = field_map (JInt 0) dec_number"

text \<open>url.PathUnescape; an error carries its text.\<close>

fun path_unescape :: "string \<Rightarrow> string + string" where
  "path_unescape [] = Inr []"
| "path_unescape (c # s) =
     (if c = CHR ''%'' then
        (case s of
           x # y # t \<Rightarrow> (case (hex_val x, hex_val y) of
               (Some i, Some j) \<Rightarrow> map_sum id (Cons (char_of (16 * i + j))) (path_unescape t)
             | _ \<Rightarrow> Inl (''invalid URL escape '' @ go_quote [c, x, y]))
         | _ \<Rightarrow> Inl (''invalid URL escape '' @ go_quote (c # s)))
      else map_sum id (Cons c) (path_unescape s))"

section \<open>Answers\<close>

definition str_omitempty :: "string \<Rightarrow> string \<Rightarrow> (string \<times> json) list" where
  "str_omitempty k s = (if s = [] then [] else [(k, JStr s)])"

definition strs_omitempty :: "string \<Rightarrow> string list \<Rightarrow> (string \<times> json) list" where
  "strs_omitempty k ss = (if ss = [] then [] else [(k, json_strings ss)])"

definition tags_omitempty :: "gomap \<Rightarrow> (string \<times> json) list" where
  "tags_omitempty tags = (if tags = [] then [] else [(''tags'', json_map tags)])"

text \<open>A slice that may be nil.\<close>

definition json_nilable :: "string list option \<Rightarrow> json" where
  "json_nilable ss = (case ss of None \<Rightarrow> JNull | Some xs \<Rightarrow> json_strings xs)"

definition parse_rfc3339_to_epoch :: "string \<Rightarrow> json" where
  "parse_rfc3339_to_epoch s = JInt (or_zero 0 (parse_rfc3339 s))"

definition eks_cluster_to_description :: "eks_cluster \<Rightarrow> gomap \<Rightarrow> json" where
  "eks_cluster_to_description c tags = JObj
     ([(''name'', JStr (ec_name c)), (''arn'', JStr (ec_arn c)), (''roleArn'', JStr (ec_role_arn c)), (''status'', JStr (ec_status c))] @
      str_omitempty ''version'' (ec_version c) @
      [(''resourcesVpcConfig'', JObj ((''subnetIds'', json_strings (ec_subnets c)) # strs_omitempty ''securityGroupIds'' (ec_groups c) @
          [(''endpointPublicAccess'', JBool True), (''endpointPrivateAccess'', JBool False)])),
       (''createdAt'', parse_rfc3339_to_epoch (ec_created_at c))] @ tags_omitempty tags)"

definition eks_node_group_to_desc :: "eks_node_group \<Rightarrow> gomap \<Rightarrow> json" where
  "eks_node_group_to_desc g tags = JObj
     ([(''nodegroupName'', JStr (eg_name g)), (''clusterName'', JStr (eg_cluster g)), (''nodegroupArn'', JStr (eg_arn g)),
       (''nodeRole'', JStr (eg_role_arn g)), (''subnets'', json_nilable (eg_subnets g))] @
      strs_omitempty ''instanceTypes'' (eg_types g) @
      (if eg_scaling g = [] then [] else [(''scalingConfig'', JObj (eg_scaling g))]) @
      [(''status'', JStr (eg_status g)), (''createdAt'', parse_rfc3339_to_epoch (eg_created_at g))] @ tags_omitempty tags)"

definition eks_addon_to_desc :: "eks_addon \<Rightarrow> gomap \<Rightarrow> json" where
  "eks_addon_to_desc a tags = JObj
     ([(''addonName'', JStr (ea_name a)), (''clusterName'', JStr (ea_cluster a)), (''addonArn'', JStr (ea_arn a))] @
      str_omitempty ''addonVersion'' (ea_version a) @
      [(''status'', JStr (ea_status a)), (''createdAt'', parse_rfc3339_to_epoch (ea_created_at a))] @ tags_omitempty tags)"

abbreviation eks_answer :: "string \<Rightarrow> json \<Rightarrow> response" where
  "eks_answer k x \<equiv> write_json_rest 200 (JObj [(k, x)])"

abbreviation eks_error :: "go_error \<Rightarrow> response" where
  "eks_error e \<equiv> write_aws_error Shape_json_rest e"

text \<open>A create with its tags, and the answer of either.\<close>

definition eks_created ::
  "string \<Rightarrow> tagged_table \<Rightarrow> string \<Rightarrow> gomap \<Rightarrow> (db \<Rightarrow> go_error option \<times> db) \<Rightarrow> response \<Rightarrow> go_error option \<times> db \<Rightarrow> response \<times> db" where
  "eks_created account tbl arn tags undo ok res =
     (case res of
        (Some e, d) \<Rightarrow> (eks_error e, d)
      | (None, d) \<Rightarrow> (case tag_created account tbl arn tags undo d of
          (Some e, d') \<Rightarrow> (eks_error e, d')
        | (None, d') \<Rightarrow> (ok, d')))"

text \<open>What a resource is described with, and what a delete answers.\<close>

definition eks_described :: "string \<Rightarrow> tagged_table \<Rightarrow> ('a \<Rightarrow> string) \<Rightarrow> (gomap \<Rightarrow> 'a \<Rightarrow> response) \<Rightarrow> 'a result \<Rightarrow> db \<Rightarrow> response" where
  "eks_described account tbl arn ok got d =
     (case got of
        Inl e \<Rightarrow> eks_error e
      | Inr x \<Rightarrow> (case resource_tag_map account tbl (arn x) d of Inl e \<Rightarrow> eks_error e | Inr tags \<Rightarrow> ok tags x))"

definition eks_deleted :: "('a \<Rightarrow> response) \<Rightarrow> 'a result \<Rightarrow> (db \<Rightarrow> go_error option \<times> db) \<Rightarrow> db \<Rightarrow> response \<times> db" where
  "eks_deleted ok got del d =
     (case got of
        Inl e \<Rightarrow> (eks_error e, d)
      | Inr x \<Rightarrow> (case del d of (Some e, d') \<Rightarrow> (eks_error e, d') | (None, d') \<Rightarrow> (ok x, d')))"

section \<open>Clusters\<close>

record eks_cluster_input =
  ci_ok :: bool
  ci_name :: string
  ci_role :: string
  ci_subnets :: "string list"
  ci_groups :: "string list"
  ci_version :: string
  ci_tags :: gomap

definition dec_cluster_input :: "json option \<Rightarrow> eks_cluster_input" where
  "dec_cluster_input b =
     (let j = or_zero JNull b; vpc = nested_object ''resourcesVpcConfig'' j;
          name = field_string ''name'' j; role = field_string ''roleArn'' j; version = field_string ''version'' j;
          tags = field_string_map ''tags'' j; subnets = field_strings ''subnetIds'' (snd vpc);
          groups = field_strings ''securityGroupIds'' (snd vpc)
      in \<lparr>ci_ok = b \<noteq> None \<and> is_obj j \<and> fst vpc \<and> fst name \<and> fst role \<and> fst version \<and> fst tags \<and> fst subnets \<and>
            fst groups \<and> fst (field_bool ''endpointPublicAccess'' (snd vpc)) \<and> fst (field_bool ''endpointPrivateAccess'' (snd vpc)),
          ci_name = snd name, ci_role = snd role, ci_subnets = snd subnets, ci_groups = snd groups,
          ci_version = snd version, ci_tags = snd tags\<rparr>)"

definition new_eks_cluster :: "env \<Rightarrow> string \<Rightarrow> string \<Rightarrow> eks_cluster_input \<Rightarrow> eks_cluster" where
  "new_eks_cluster env account region i = \<lparr>ec_name = ci_name i, ec_role_arn = ci_role i, ec_subnets = ci_subnets i,
     ec_groups = ci_groups i, ec_version = ci_version i, ec_status = ''ACTIVE'', ec_region = region,
     ec_arn = eks_cluster_arn region account (ci_name i), ec_created_at = rfc3339 (e_now env)\<rparr>"

definition eks_create_cluster :: "env \<Rightarrow> string \<Rightarrow> string \<Rightarrow> rest_request \<Rightarrow> db \<Rightarrow> response \<times> db" where
  "eks_create_cluster env account region r d =
     (let i = dec_cluster_input (rr_json r)
      in if \<not> ci_ok i \<or> ci_name i = [] \<or> ci_role i = [] \<or> ci_subnets i = [] then (eks_error ErrConflict, d)
         else (let c = new_eks_cluster env account region i
           in eks_created account Tags_EKS_cluster (ec_arn c) (ci_tags i) (delete_eks_cluster account region (ec_name c))
                (eks_answer ''cluster'' (eks_cluster_to_description c (ci_tags i))) (create_eks_cluster account c d)))"

definition eks_describe_cluster :: "string \<Rightarrow> string \<Rightarrow> string \<Rightarrow> db \<Rightarrow> response" where
  "eks_describe_cluster account region name d =
     eks_described account Tags_EKS_cluster ec_arn (\<lambda>tags c. eks_answer ''cluster'' (eks_cluster_to_description c tags))
       (get_eks_cluster account region name d) d"

definition eks_list_clusters :: "string \<Rightarrow> string \<Rightarrow> db \<Rightarrow> response" where
  "eks_list_clusters account region d =
     eks_answer ''clusters'' (json_strings (map ec_name (list_eks_clusters account region d)))"

definition eks_delete_cluster :: "string \<Rightarrow> string \<Rightarrow> string \<Rightarrow> db \<Rightarrow> response \<times> db" where
  "eks_delete_cluster account region name d =
     eks_deleted (\<lambda>c. eks_answer ''cluster'' (eks_cluster_to_description c []))
       (get_eks_cluster account region name d) (delete_eks_cluster account region name) d"

section \<open>Tags\<close>

definition eks_tag_table :: "string \<Rightarrow> tagged_table" where
  "eks_tag_table arn =
     (case str_cut arn '':eks:'' of
        None \<Rightarrow> Tags_EKS_cluster
      | Some (_, resource) \<Rightarrow>
          (if str_contains resource '':nodegroup/'' then Tags_EKS_node_group
           else if str_contains resource '':addon/'' then Tags_EKS_addon else Tags_EKS_cluster))"

definition eks_bad_request :: "string \<Rightarrow> response" where
  "eks_bad_request msg = write_service_error Shape_json_rest 400 ''BadRequestException'' msg"

definition eks_write_tag_error :: "string \<Rightarrow> go_error \<Rightarrow> response" where
  "eks_write_tag_error arn e =
     (if errors_is e ErrNotFound
      then write_service_error Shape_json_rest 404 ''NotFoundException'' (''Resource '' @ arn @ '' not found.'')
      else eks_error e)"

definition eks_tag_change :: "string \<Rightarrow> go_error option \<times> db \<Rightarrow> response \<times> db" where
  "eks_tag_change arn res =
     (case res of (Some e, d) \<Rightarrow> (eks_write_tag_error arn e, d) | (None, d) \<Rightarrow> (write_json_rest 200 (JObj []), d))"

text \<open>eksTagARN: the ARN in the path, or the refusal of its escaping.\<close>

definition eks_tag_arn :: "string \<Rightarrow> response + string" where
  "eks_tag_arn path = (case path_unescape path of
       Inl msg \<Rightarrow> Inl (eks_bad_request (''invalid resource ARN: '' @ msg))
     | Inr arn \<Rightarrow> Inr arn)"

definition eks_list_tags_for_resource :: "string \<Rightarrow> string \<Rightarrow> db \<Rightarrow> response" where
  "eks_list_tags_for_resource account path d =
     (case eks_tag_arn path of
        Inl resp \<Rightarrow> resp
      | Inr arn \<Rightarrow> (case resource_tag_map account (eks_tag_table arn) arn d of
          Inl e \<Rightarrow> eks_write_tag_error arn e
        | Inr tags \<Rightarrow> eks_answer ''tags'' (json_map tags)))"

definition eks_tag_resource :: "string \<Rightarrow> string \<Rightarrow> rest_request \<Rightarrow> db \<Rightarrow> response \<times> db" where
  "eks_tag_resource account path r d =
     (case eks_tag_arn path of
        Inl resp \<Rightarrow> (resp, d)
      | Inr arn \<Rightarrow>
          (case unmarshal (field_string_map ''tags'') (rr_json r) of
             (ok, tags) \<Rightarrow>
               (if \<not> ok then (eks_bad_request ''unmarshal: '', d)
                else eks_tag_change arn (tag_resource account (eks_tag_table arn) arn tags d))))"

definition eks_untag_resource :: "string \<Rightarrow> string \<Rightarrow> rest_request \<Rightarrow> db \<Rightarrow> response \<times> db" where
  "eks_untag_resource account path r d =
     (case eks_tag_arn path of
        Inl resp \<Rightarrow> (resp, d)
      | Inr arn \<Rightarrow> eks_tag_change arn
          (untag_resource account (eks_tag_table arn) arn (or_zero [] (map_of (rr_query r) ''tagKeys'')) d))"

section \<open>Node groups\<close>

record eks_group_input =
  gi_ok :: bool
  gi_name :: string
  gi_role :: string
  gi_subnets :: "string list option"
  gi_types :: "string list"
  gi_scaling :: "(string \<times> json) list"
  gi_tags :: gomap

definition dec_group_input :: "json option \<Rightarrow> eks_group_input" where
  "dec_group_input b =
     (let j = or_zero JNull b; name = field_string ''nodegroupName'' j; role = field_string ''nodeRole'' j;
          subnets = field_opt_strings ''subnets'' j; types = field_strings ''instanceTypes'' j;
          scaling = field_numbers ''scalingConfig'' j; tags = field_string_map ''tags'' j
      in \<lparr>gi_ok = b \<noteq> None \<and> is_obj j \<and> fst name \<and> fst role \<and> fst subnets \<and> fst types \<and> fst scaling \<and> fst tags,
          gi_name = snd name, gi_role = snd role, gi_subnets = snd subnets, gi_types = snd types,
          gi_scaling = snd scaling, gi_tags = snd tags\<rparr>)"

definition new_eks_group :: "env \<Rightarrow> string \<Rightarrow> string \<Rightarrow> string \<Rightarrow> eks_group_input \<Rightarrow> eks_node_group" where
  "new_eks_group env account region cluster i = \<lparr>eg_cluster = cluster, eg_name = gi_name i, eg_role_arn = gi_role i,
     eg_subnets = gi_subnets i, eg_types = gi_types i, eg_scaling = gi_scaling i, eg_status = ''ACTIVE'', eg_region = region,
     eg_arn = eks_nodegroup_arn region account cluster (gi_name i) ''deterministic'', eg_created_at = rfc3339 (e_now env)\<rparr>"

definition eks_create_node_group :: "env \<Rightarrow> string \<Rightarrow> string \<Rightarrow> string \<Rightarrow> rest_request \<Rightarrow> db \<Rightarrow> response \<times> db" where
  "eks_create_node_group env account region cluster r d =
     (let i = dec_group_input (rr_json r)
      in if \<not> gi_ok i \<or> gi_name i = [] \<or> gi_role i = [] then (eks_error ErrConflict, d)
         else (let g = new_eks_group env account region cluster i
           in eks_created account Tags_EKS_node_group (eg_arn g) (gi_tags i) (delete_eks_node_group account region cluster (eg_name g))
                (eks_answer ''nodegroup'' (eks_node_group_to_desc g (gi_tags i))) (create_eks_node_group account g d)))"

definition eks_describe_node_group :: "string \<Rightarrow> string \<Rightarrow> string \<Rightarrow> string \<Rightarrow> db \<Rightarrow> response" where
  "eks_describe_node_group account region cluster name d =
     eks_described account Tags_EKS_node_group eg_arn (\<lambda>tags g. eks_answer ''nodegroup'' (eks_node_group_to_desc g tags))
       (get_eks_node_group account region cluster name d) d"

definition eks_delete_node_group_call :: "string \<Rightarrow> string \<Rightarrow> string \<Rightarrow> string \<Rightarrow> db \<Rightarrow> response \<times> db" where
  "eks_delete_node_group_call account region cluster name d =
     eks_deleted (\<lambda>g. eks_answer ''nodegroup'' (eks_node_group_to_desc g []))
       (get_eks_node_group account region cluster name d) (delete_eks_node_group account region cluster name) d"

section \<open>Add-ons\<close>

record eks_addon_input =
  ai_ok :: bool
  ai_name :: string
  ai_version :: string
  ai_tags :: gomap

definition dec_addon_input :: "json option \<Rightarrow> eks_addon_input" where
  "dec_addon_input b =
     (let j = or_zero JNull b; name = field_string ''addonName'' j; version = field_string ''addonVersion'' j;
          tags = field_string_map ''tags'' j
      in \<lparr>ai_ok = b \<noteq> None \<and> is_obj j \<and> fst name \<and> fst version \<and> fst tags,
          ai_name = snd name, ai_version = snd version, ai_tags = snd tags\<rparr>)"

definition new_eks_addon :: "env \<Rightarrow> string \<Rightarrow> string \<Rightarrow> string \<Rightarrow> eks_addon_input \<Rightarrow> eks_addon" where
  "new_eks_addon env account region cluster i = \<lparr>ea_cluster = cluster, ea_name = ai_name i, ea_version = ai_version i,
     ea_status = ''ACTIVE'', ea_region = region, ea_arn = eks_addon_arn region account cluster (ai_name i),
     ea_created_at = rfc3339 (e_now env)\<rparr>"

definition eks_create_addon :: "env \<Rightarrow> string \<Rightarrow> string \<Rightarrow> string \<Rightarrow> rest_request \<Rightarrow> db \<Rightarrow> response \<times> db" where
  "eks_create_addon env account region cluster r d =
     (let i = dec_addon_input (rr_json r)
      in if \<not> ai_ok i \<or> ai_name i = [] then (eks_error ErrConflict, d)
         else (let a = new_eks_addon env account region cluster i
           in eks_created account Tags_EKS_addon (ea_arn a) (ai_tags i) (delete_eks_addon account region cluster (ea_name a))
                (eks_answer ''addon'' (eks_addon_to_desc a (ai_tags i))) (create_eks_addon account a d)))"

definition eks_describe_addon :: "string \<Rightarrow> string \<Rightarrow> string \<Rightarrow> string \<Rightarrow> db \<Rightarrow> response" where
  "eks_describe_addon account region cluster name d =
     eks_described account Tags_EKS_addon ea_arn (\<lambda>tags a. eks_answer ''addon'' (eks_addon_to_desc a tags))
       (get_eks_addon account region cluster name d) d"

definition eks_delete_addon_call :: "string \<Rightarrow> string \<Rightarrow> string \<Rightarrow> string \<Rightarrow> db \<Rightarrow> response \<times> db" where
  "eks_delete_addon_call account region cluster name d =
     eks_deleted (\<lambda>a. eks_answer ''addon'' (eks_addon_to_desc a []))
       (get_eks_addon account region cluster name d) (delete_eks_addon account region cluster name) d"

section \<open>Routes\<close>

text \<open>The routes under /eks/region/{region}, with the path parameters as the router gives them.\<close>

datatype eks_route =
    Eks_clusters http_method
  | Eks_cluster http_method string
  | Eks_groups http_method string
  | Eks_group http_method string string
  | Eks_addons http_method string
  | Eks_addon http_method string string
  | Eks_tags http_method string

definition handle_eks :: "env \<Rightarrow> string \<Rightarrow> eks_route \<Rightarrow> rest_request \<Rightarrow> db \<Rightarrow> response \<times> db" where
  "handle_eks env region route r d =
     (let account = account_id d
      in case route of
        Eks_clusters POST \<Rightarrow> eks_create_cluster env account region r d
      | Eks_clusters GET \<Rightarrow> (eks_list_clusters account region d, d)
      | Eks_cluster GET name \<Rightarrow> (eks_describe_cluster account region name d, d)
      | Eks_cluster DELETE name \<Rightarrow> eks_delete_cluster account region name d
      | Eks_groups POST name \<Rightarrow> eks_create_node_group env account region name r d
      | Eks_group GET name ng \<Rightarrow> (eks_describe_node_group account region name ng d, d)
      | Eks_group DELETE name ng \<Rightarrow> eks_delete_node_group_call account region name ng d
      | Eks_addons POST name \<Rightarrow> eks_create_addon env account region name r d
      | Eks_addon GET name addon \<Rightarrow> (eks_describe_addon account region name addon d, d)
      | Eks_addon DELETE name addon \<Rightarrow> eks_delete_addon_call account region name addon d
      | Eks_tags GET path \<Rightarrow> (eks_list_tags_for_resource account path d, d)
      | Eks_tags POST path \<Rightarrow> eks_tag_resource account path r d
      | Eks_tags DELETE path \<Rightarrow> eks_untag_resource account path r d
      | _ \<Rightarrow> (write_unimplemented, d))"

text \<open>The EKS block of /mock/state; a slice the stored document leaves out reads back nil.\<close>

definition json_or_null :: "string list \<Rightarrow> json" where
  "json_or_null ss = (if ss = [] then JNull else json_strings ss)"

definition gather_eks_state :: "string \<Rightarrow> db \<Rightarrow> json" where
  "gather_eks_state account d = JObj
     [(''clusters'', JArr (map (\<lambda>c. JObj [(''name'', JStr (ec_name c)), (''role_arn'', JStr (ec_role_arn c)),
         (''status'', JStr (ec_status c)), (''region'', JStr (ec_region c)), (''arn'', JStr (ec_arn c)),
         (''subnet_ids'', json_strings (ec_subnets c)), (''security_group_ids'', json_or_null (ec_groups c)),
         (''kubernetes_version'', JStr (ec_version c))]) (list_eks_clusters account [] d))),
      (''node_groups'', JArr (map (\<lambda>g. JObj [(''cluster_name'', JStr (eg_cluster g)), (''name'', JStr (eg_name g)),
         (''node_role_arn'', JStr (eg_role_arn g)), (''subnet_ids'', json_nilable (eg_subnets g)),
         (''instance_types'', json_or_null (eg_types g)), (''status'', JStr (eg_status g)), (''region'', JStr (eg_region g)),
         (''arn'', JStr (eg_arn g)), (''scaling_config'', JObj (eg_scaling g))]) (list_eks_node_groups account [] [] d))),
      (''addons'', JArr (map (\<lambda>a. JObj [(''cluster_name'', JStr (ea_cluster a)), (''name'', JStr (ea_name a)),
         (''version'', JStr (ea_version a)), (''status'', JStr (ea_status a)), (''region'', JStr (ea_region a)),
         (''arn'', JStr (ea_arn a))]) (list_eks_addons account [] [] d)))]"

section \<open>What every request keeps\<close>

text \<open>
  A stored row has the ARN and the status its key determines, a cluster at least one subnet; a node group and an
  add-on hang on a stored cluster, and a node group's subnets are among its cluster's.
\<close>

definition cluster_ok :: "eks_cluster owned \<Rightarrow> bool" where
  "cluster_ok r \<longleftrightarrow> (let c = ow_data r in ec_name c \<noteq> [] \<and> ec_subnets c \<noteq> [] \<and> ec_status c = ''ACTIVE'' \<and>
     ec_arn c = eks_cluster_arn (ec_region c) (ow_account r) (ec_name c) \<and>
     iam_role_name_from_arn (ow_account r) (ec_role_arn c) \<noteq> [])"

definition node_group_ok :: "eks_node_group owned \<Rightarrow> bool" where
  "node_group_ok r \<longleftrightarrow> (let g = ow_data r in eg_name g \<noteq> [] \<and> eg_status g = ''ACTIVE'' \<and>
     eg_arn g = eks_nodegroup_arn (eg_region g) (ow_account r) (eg_cluster g) (eg_name g) ''deterministic'' \<and>
     iam_role_name_from_arn (ow_account r) (eg_role_arn g) \<noteq> [])"

definition addon_ok :: "eks_addon owned \<Rightarrow> bool" where
  "addon_ok r \<longleftrightarrow> (let a = ow_data r in ea_name a \<noteq> [] \<and> ea_status a = ''ACTIVE'' \<and>
     ea_arn a = eks_addon_arn (ea_region a) (ow_account r) (ea_cluster a) (ea_name a))"

definition group_cluster :: "eks_node_group owned \<Rightarrow> string \<times> string \<times> string" where
  "group_cluster = owned_pk (\<lambda>g. (eg_region g, eg_cluster g))"

definition addon_cluster :: "eks_addon owned \<Rightarrow> string \<times> string \<times> string" where
  "addon_cluster = owned_pk (\<lambda>a. (ea_region a, ea_cluster a))"

definition groups_fit :: "eks_db \<Rightarrow> bool" where
  "groups_fit t \<longleftrightarrow> (\<forall>g\<in>set (eks_node_groups t). \<forall>c\<in>set (eks_clusters t).
     eks_cluster_pk c = group_cluster g \<longrightarrow> set (or_zero [] (eg_subnets (ow_data g))) \<subseteq> set (ec_subnets (ow_data c)))"

definition eks_wf :: "eks_db \<Rightarrow> bool" where
  "eks_wf t \<longleftrightarrow> eks_keys_ok t \<and> (\<forall>r\<in>set (eks_clusters t). cluster_ok r) \<and> (\<forall>r\<in>set (eks_node_groups t). node_group_ok r) \<and>
     (\<forall>r\<in>set (eks_addons t). addon_ok r) \<and> refs group_cluster (eks_node_groups t) eks_cluster_pk (eks_clusters t) \<and>
     refs addon_cluster (eks_addons t) eks_cluster_pk (eks_clusters t) \<and> groups_fit t"

lemma eks_wf_empty [simp]: "eks_wf empty_eks_db"
  by (simp add: eks_wf_def groups_fit_def)

lemmas eks_key_simps = eks_cluster_pk_def eks_node_group_pk_def eks_addon_pk_def group_cluster_def addon_cluster_def owned_pk_def

definition eks_rest :: "db \<Rightarrow> db" where
  "eks_rest d = d\<lparr>eks_tbls := empty_eks_db, resource_tags := []\<rparr>"

definition eks_keeps :: "db \<Rightarrow> db \<Rightarrow> bool" where
  "eks_keeps d d' \<longleftrightarrow> eks_rest d' = eks_rest d \<and> (eks_wf (eks_tbls d) \<longrightarrow> eks_wf (eks_tbls d')) \<and>
     (pk tag_pk (resource_tags d) \<longrightarrow> pk tag_pk (resource_tags d'))"

lemma eks_keeps_refl [simp]: "eks_keeps d d"
  by (simp add: eks_keeps_def)

lemma eks_keeps_trans: "eks_keeps d d1 \<Longrightarrow> eks_keeps d1 d2 \<Longrightarrow> eks_keeps d d2"
  by (simp add: eks_keeps_def)

lemma eks_keeps_tags: "(pk tag_pk (resource_tags d) \<Longrightarrow> pk tag_pk t) \<Longrightarrow> eks_keeps d (d\<lparr>resource_tags := t\<rparr>)"
  by (simp add: eks_keeps_def eks_rest_def)

lemma eks_keeps_tbls: "(eks_wf (eks_tbls d) \<Longrightarrow> eks_wf t) \<Longrightarrow> eks_keeps d (d\<lparr>eks_tbls := t\<rparr>)"
  by (simp add: eks_keeps_def eks_rest_def)

lemma eks_keeps_drop: "eks_keeps d d' \<Longrightarrow> eks_keeps d (drop_tags_of p arn t d')"
  unfolding drop_tags_of_eq by (rule eks_keeps_trans) (auto intro!: eks_keeps_tags pk_delete)

text \<open>A row with a fresh key at the end of its table, under a cluster that is stored.\<close>

lemma eks_wf_cluster:
  assumes "eks_wf t" and "cluster_ok r" and "\<not> has_key eks_cluster_pk (eks_cluster_pk r) (eks_clusters t)"
  shows "eks_wf (t\<lparr>eks_clusters := eks_clusters t @ [r]\<rparr>)"
proof -
  have "refs group_cluster (eks_node_groups t) eks_cluster_pk (eks_clusters t)" using assms(1) by (simp add: eks_wf_def)
  then have new: "group_cluster g \<noteq> eks_cluster_pk r" if "g \<in> set (eks_node_groups t)" for g
    using refsD [OF _ that] assms(3) unfolding has_key_def by (metis imageI)
  with new have "groups_fit (t\<lparr>eks_clusters := eks_clusters t @ [r]\<rparr>)"
    using assms(1) by (simp add: eks_wf_def groups_fit_def) metis
  then show ?thesis
    using assms by (simp add: eks_wf_def eks_keys_ok_def pk_snoc refs_insert_parent)
qed

lemma eks_wf_group:
  assumes "eks_wf t" and "node_group_ok r" and "\<not> has_key eks_node_group_pk (eks_node_group_pk r) (eks_node_groups t)"
    and "c \<in> set (eks_clusters t)" and "eks_cluster_pk c = group_cluster r"
    and "set (or_zero [] (eg_subnets (ow_data r))) \<subseteq> set (ec_subnets (ow_data c))"
  shows "eks_wf (t\<lparr>eks_node_groups := eks_node_groups t @ [r]\<rparr>)"
proof -
  have pk: "pk eks_cluster_pk (eks_clusters t)" using assms(1) by (simp add: eks_wf_def eks_keys_ok_def)
  have "c' = c" if "c' \<in> set (eks_clusters t)" "eks_cluster_pk c' = group_cluster r" for c'
    using pk_eq [OF pk that(1) assms(4)] that(2) assms(5) by simp
  with assms(1,6) have "groups_fit (t\<lparr>eks_node_groups := eks_node_groups t @ [r]\<rparr>)"
    by (simp add: eks_wf_def groups_fit_def) metis
  moreover have "has_key eks_cluster_pk (group_cluster r) (eks_clusters t)"
    unfolding has_key_def assms(5) [symmetric] by (rule imageI) (rule assms(4))
  ultimately show ?thesis
    using assms by (simp add: eks_wf_def eks_keys_ok_def pk_snoc refs_snoc)
qed

lemma eks_wf_addon:
  assumes "eks_wf t" and "addon_ok r" and "\<not> has_key eks_addon_pk (eks_addon_pk r) (eks_addons t)"
    and "has_key eks_cluster_pk (addon_cluster r) (eks_clusters t)"
  shows "eks_wf (t\<lparr>eks_addons := eks_addons t @ [r]\<rparr>)"
  using assms by (auto simp: eks_wf_def eks_keys_ok_def groups_fit_def pk_snoc refs_snoc)

text \<open>A cluster goes with everything under it, a node group or an add-on alone.\<close>

lemma group_of_cluster: "group_of k r \<longleftrightarrow> group_cluster r = k" "addon_of k r' \<longleftrightarrow> addon_cluster r' = k"
  by (simp_all add: group_of_def addon_of_def group_cluster_def addon_cluster_def)

lemma eks_wf_delete_cluster:
  "eks_wf t \<Longrightarrow> eks_wf (t\<lparr>eks_clusters := sql_delete (\<lambda>r. eks_cluster_pk r = k) (eks_clusters t),
     eks_node_groups := sql_delete (group_of k) (eks_node_groups t), eks_addons := sql_delete (addon_of k) (eks_addons t)\<rparr>)"
  by (auto simp: eks_wf_def eks_keys_ok_def groups_fit_def group_of_cluster intro!: pk_delete refs_delete)

lemma eks_wf_delete_group: "eks_wf t \<Longrightarrow> eks_wf (t\<lparr>eks_node_groups := sql_delete p (eks_node_groups t)\<rparr>)"
  by (auto simp: eks_wf_def eks_keys_ok_def groups_fit_def intro: pk_delete refs_delete_child)

lemma eks_wf_delete_addon: "eks_wf t \<Longrightarrow> eks_wf (t\<lparr>eks_addons := sql_delete p (eks_addons t)\<rparr>)"
  by (auto simp: eks_wf_def eks_keys_ok_def groups_fit_def intro: pk_delete refs_delete_child)

lemma eks_keeps_deletes:
  "eks_keeps d (snd (delete_eks_cluster a region n d))"
  "eks_keeps d (snd (delete_eks_node_group a region cl n d))"
  "eks_keeps d (snd (delete_eks_addon a region cl n d))"
  by (auto simp: delete_eks_cluster_def delete_eks_node_group_def delete_eks_addon_def Let_def
      intro!: eks_keeps_drop eks_keeps_tbls eks_wf_delete_cluster eks_wf_delete_group eks_wf_delete_addon)

text \<open>The repository's creates, of rows as the handlers make them.\<close>

lemma role_refused_None: "role_refused a arn d = None \<Longrightarrow> iam_role_name_from_arn a arn \<noteq> []"
  by (auto simp: role_refused_def Let_def split: if_splits)

lemma or_active_active [simp]: "or_active ''ACTIVE'' = ''ACTIVE''"
  by (simp add: or_active_def)

lemma eks_keeps_create_cluster:
  assumes "ec_name c \<noteq> []" "ec_status c = ''ACTIVE''" "ec_arn c = eks_cluster_arn (ec_region c) a (ec_name c)"
  shows "eks_keeps d (snd (create_eks_cluster a c d))"
proof (cases "cluster_refused a c d")
  case None
  then have "ec_subnets c \<noteq> []" "iam_role_name_from_arn a (ec_role_arn c) \<noteq> []"
    by (auto simp: cluster_refused_def dest: role_refused_None split: option.splits if_splits)
  with assms have "cluster_ok \<lparr>ow_account = a, ow_data = c\<rparr>" by (simp add: cluster_ok_def)
  moreover have "c\<lparr>ec_status := or_active (ec_status c)\<rparr> = c" using assms(2) by simp
  ultimately show ?thesis using None
    by (auto simp: create_eks_cluster_def Let_def insert_owned_cases intro!: eks_keeps_tbls eks_wf_cluster)
qed (simp add: create_eks_cluster_def)

lemma eks_keeps_create_group:
  assumes "eg_name g \<noteq> []" "eg_status g = ''ACTIVE''"
    "eg_arn g = eks_nodegroup_arn (eg_region g) a (eg_cluster g) (eg_name g) ''deterministic''"
  shows "eks_keeps d (snd (create_eks_node_group a g d))"
proof (cases "group_refused a g d")
  case None
  then obtain c where c: "get_eks_cluster a (eg_region g) (eg_cluster g) d = Inr c"
      and ok: "list_all (\<lambda>s. s \<in> set (ec_subnets c)) (or_zero [] (eg_subnets g))" "iam_role_name_from_arn a (eg_role_arn g) \<noteq> []"
    by (auto simp: group_refused_def dest: role_refused_None split: sum.splits option.splits if_splits)
  obtain r where r: "r \<in> set (eks_clusters (eks_tbls d))" "eks_cluster_pk r = (a, eg_region g, eg_cluster g)" "ow_data r = c"
    using c unfolding get_eks_cluster_def by (rule get_owned_Inr)
  have "node_group_ok \<lparr>ow_account = a, ow_data = g\<rparr>" using assms ok(2) by (simp add: node_group_ok_def)
  moreover have "g\<lparr>eg_status := or_active (eg_status g)\<rparr> = g" using assms(2) by simp
  moreover have "eks_cluster_pk r = group_cluster \<lparr>ow_account = a, ow_data = g\<rparr>" using r(2) by (simp add: group_cluster_def owned_pk_def)
  moreover have "set (or_zero [] (eg_subnets g)) \<subseteq> set (ec_subnets (ow_data r))" using ok(1) by (auto simp: r(3) list_all_iff)
  ultimately show ?thesis using None r(1)
    by (auto simp: create_eks_node_group_def Let_def insert_owned_cases intro!: eks_keeps_tbls eks_wf_group)
qed (simp add: create_eks_node_group_def)

lemma eks_keeps_create_addon:
  assumes "ea_name x \<noteq> []" "ea_status x = ''ACTIVE''" "ea_arn x = eks_addon_arn (ea_region x) a (ea_cluster x) (ea_name x)"
  shows "eks_keeps d (snd (create_eks_addon a x d))"
proof -
  have "addon_ok \<lparr>ow_account = a, ow_data = x\<rparr>" using assms by (simp add: addon_ok_def)
  moreover have "x\<lparr>ea_status := or_active (ea_status x)\<rparr> = x" using assms(2) by simp
  moreover have "addon_cluster \<lparr>ow_account = a, ow_data = x\<rparr> = (a, ea_region x, ea_cluster x)" by (simp add: addon_cluster_def owned_pk_def)
  ultimately show ?thesis
    by (auto simp: create_eks_addon_def Let_def insert_owned_cases cluster_stored_def split: sum.split intro!: eks_keeps_tbls eks_wf_addon)
qed

text \<open>The handlers.\<close>

lemma eks_keeps_change_tags: "eks_keeps d (snd (change_resource_tags a tbl arn add remove d))"
  by (auto simp: change_resource_tags_eq intro!: eks_keeps_tags intro: tbl_intros)

lemma eks_keeps_tag_created:
  assumes "\<And>d. eks_keeps d (snd (undo d))"
  shows "eks_keeps d (snd (tag_created a tbl arn tags undo d))"
proof (cases "tag_resource a tbl arn tags d")
  case (Pair e d1)
  have "eks_keeps d d1" using eks_keeps_change_tags [of d a tbl arn tags "[]"] Pair by (simp add: tag_resource_def)
  with assms [of d1] show ?thesis
    by (auto simp: tag_created_def Pair split: option.split prod.split dest: eks_keeps_trans)
qed

lemma eks_keeps_created:
  assumes "eks_keeps d (snd res)" and "\<And>d. eks_keeps d (snd (undo d))"
  shows "eks_keeps d (snd (eks_created a tbl arn tags undo ok res))"
proof -
  have "eks_keeps d (snd (tag_created a tbl arn tags undo (snd res)))"
    by (rule eks_keeps_trans [OF assms(1) eks_keeps_tag_created [OF assms(2)]])
  with assms(1) show ?thesis by (simp add: eks_created_def split_beta split: option.split)
qed

lemma eks_keeps_deleted:
  assumes "eks_keeps d (snd (del d))"
  shows "eks_keeps d (snd (eks_deleted ok got del d))"
  using assms by (simp add: eks_deleted_def split_beta split: sum.split option.split)

lemma eks_keeps_tag_change: "eks_keeps d (snd res) \<Longrightarrow> eks_keeps d (snd (eks_tag_change arn res))"
  by (simp add: eks_tag_change_def split_beta split: option.split)

lemma eks_op_keeps:
  "eks_keeps d (snd (eks_create_cluster env a region r d))"
  "eks_keeps d (snd (eks_create_node_group env a region cl r d))"
  "eks_keeps d (snd (eks_create_addon env a region cl r d))"
  "eks_keeps d (snd (eks_tag_resource a path r d))" "eks_keeps d (snd (eks_untag_resource a path r d))"
proof -
  show "eks_keeps d (snd (eks_create_cluster env a region r d))"
    by (auto simp: eks_create_cluster_def Let_def new_eks_cluster_def
        intro!: eks_keeps_created eks_keeps_create_cluster eks_keeps_deletes)
  show "eks_keeps d (snd (eks_create_node_group env a region cl r d))"
    by (auto simp: eks_create_node_group_def Let_def new_eks_group_def
        intro!: eks_keeps_created eks_keeps_create_group eks_keeps_deletes)
  show "eks_keeps d (snd (eks_create_addon env a region cl r d))"
    by (auto simp: eks_create_addon_def Let_def new_eks_addon_def
        intro!: eks_keeps_created eks_keeps_create_addon eks_keeps_deletes)
  show "eks_keeps d (snd (eks_tag_resource a path r d))" "eks_keeps d (snd (eks_untag_resource a path r d))"
    by (auto simp: eks_tag_resource_def eks_untag_resource_def tag_resource_def untag_resource_def
        split: sum.split prod.split intro!: eks_keeps_tag_change eks_keeps_change_tags)
qed

lemma handle_eks_keeps: "eks_keeps d (snd (handle_eks env region route r d))"
  by (auto simp: handle_eks_def Let_def eks_op_keeps eks_delete_cluster_def eks_delete_node_group_call_def
      eks_delete_addon_call_def split: eks_route.split http_method.split intro!: eks_keeps_deleted eks_keeps_deletes)

lemma account_id_eks_rest: "eks_rest d' = eks_rest d \<Longrightarrow> account_id d' = account_id d"
  by (auto simp: eks_rest_def account_id_def get_identity_def dest!: arg_cong [where f = identity_tbl])

type_synonym eks_event = "env \<times> string \<times> eks_route \<times> rest_request"

definition eks_run :: "eks_event list \<Rightarrow> db \<Rightarrow> db" where
  "eks_run es d = fold (\<lambda>(env, region, route, r) d. snd (handle_eks env region route r d)) es d"

lemma eks_run_keeps: "eks_keeps d (eks_run es d)"
proof (induction es arbitrary: d)
  case (Cons e es)
  have "eks_keeps d (snd (handle_eks (fst e) (fst (snd e)) (fst (snd (snd e))) (snd (snd (snd e))) d))" by (rule handle_eks_keeps)
  then show ?case using Cons.IH by (auto simp: eks_run_def split_beta intro: eks_keeps_trans)
qed (simp add: eks_run_def)

end
