(* ===== verification/EksProps.thy ===== *)
theory EksProps
  imports Eks
begin

text \<open>What EKS's requests guarantee: the rows' shape, which creates are accepted, what a delete takes along.\<close>

section \<open>Lemmas\<close>

lemma eks_error_status: "r_status (eks_error e) \<noteq> 200"
  by (simp add: write_aws_error_status)

lemma drop_tags_of_none: "(\<And>r. r \<in> set t \<Longrightarrow> \<not> p r) \<Longrightarrow> drop_tags_of p arn t d = d"
  by (simp add: drop_tags_of_def filter_empty_conv)

lemma subnets_vpc_Inr:
  "vpc \<noteq> [] \<Longrightarrow> subnets_vpc a region d vpc ss = Inr v \<longleftrightarrow>
     v = vpc \<and> (\<forall>s\<in>set ss. \<exists>sn. get_subnet a region s d = Inr sn \<and> sn_vpc sn = vpc)"
  by (induction ss) (auto split: sum.split)

text \<open>In an account whose subnets all have a VPC.\<close>

lemma subnets_vpc_first:
  assumes "ss \<noteq> []" and "\<And>s sn. get_subnet a region s d = Inr sn \<Longrightarrow> sn_vpc sn \<noteq> []"
  shows "subnets_vpc a region d [] ss = Inr v \<longleftrightarrow>
     (\<forall>s\<in>set ss. \<exists>sn. get_subnet a region s d = Inr sn \<and> sn_vpc sn = v)"
proof (cases ss)
  case (Cons s ss')
  show ?thesis
  proof (cases "get_subnet a region s d")
    case (Inr sn)
    with assms(2) [OF Inr] show ?thesis by (auto simp: Cons subnets_vpc_Inr)
  qed (simp add: Cons)
qed (use assms(1) in simp)

lemma groups_refused_None:
  "groups_refused a region d vpc gs = None \<longleftrightarrow> (\<forall>g\<in>set gs. \<exists>sg. get_security_group a region g d = Inr sg \<and> sg_vpc sg = vpc)"
  by (induction gs) (auto split: sum.split)

text \<open>The repository refuses with a missing or a conflicting resource only.\<close>

definition plain_refusal :: "go_error \<Rightarrow> bool" where
  "plain_refusal e \<longleftrightarrow> e = ErrNotFound \<or> e = ErrConflict"

lemma plain_refusals [simp]: "plain_refusal ErrNotFound" "plain_refusal ErrConflict"
  by (simp_all add: plain_refusal_def)

lemma plain_refusal_status: "plain_refusal e \<Longrightarrow> r_status (eks_error e) \<in> {404, 409}"
  by (auto simp: plain_refusal_def)

lemma get_role_plain: "get_role a n d = Inl e \<Longrightarrow> plain_refusal e"
  by (auto simp: get_role_def split: option.splits)

lemma subnets_vpc_plain: "subnets_vpc a region d vpc ss = Inl e \<Longrightarrow> plain_refusal e"
  by (induction ss arbitrary: vpc) (auto simp: get_subnet_def dest: get_scoped_Inl split: sum.splits if_splits)

lemma groups_refused_plain: "groups_refused a region d vpc gs = Some e \<Longrightarrow> plain_refusal e"
  by (induction gs) (auto simp: get_security_group_def dest: get_scoped_Inl split: sum.splits if_splits)

lemma cluster_refused_plain: "cluster_refused a c d = Some e \<Longrightarrow> plain_refusal e"
  by (auto simp: cluster_refused_def role_refused_def Let_def dest: get_role_plain subnets_vpc_plain groups_refused_plain
      split: option.splits sum.splits if_splits)

text \<open>Which clusters are accepted, as one condition.\<close>

definition cluster_allowed :: "string \<Rightarrow> eks_cluster \<Rightarrow> db \<Rightarrow> bool" where
  "cluster_allowed a c d \<longleftrightarrow> iam_role_name_from_arn a (ec_role_arn c) \<noteq> [] \<and>
     (\<exists>role. get_role a (iam_role_name_from_arn a (ec_role_arn c)) d = Inr role) \<and>
     (\<exists>vpc. (\<forall>s\<in>set (ec_subnets c). \<exists>sn. get_subnet a (ec_region c) s d = Inr sn \<and> sn_vpc sn = vpc) \<and>
       (\<forall>g\<in>set (ec_groups c). \<exists>sg. get_security_group a (ec_region c) g d = Inr sg \<and> sg_vpc sg = vpc))"

lemma cluster_refused_None:
  assumes "ec_subnets c \<noteq> []" and "\<And>s sn. get_subnet a (ec_region c) s d = Inr sn \<Longrightarrow> sn_vpc sn \<noteq> []"
  shows "cluster_refused a c d = None \<longleftrightarrow> cluster_allowed a c d"
proof -
  have role: "role_refused a arn d = None \<longleftrightarrow> iam_role_name_from_arn a arn \<noteq> [] \<and>
      (\<exists>role. get_role a (iam_role_name_from_arn a arn) d = Inr role)" for arn
    by (simp add: role_refused_def Let_def split: sum.split)
  have "(case subnets_vpc a (ec_region c) d [] (ec_subnets c) of Inl e \<Rightarrow> Some e
      | Inr vpc \<Rightarrow> groups_refused a (ec_region c) d vpc (ec_groups c)) = None \<longleftrightarrow>
      (\<exists>vpc. subnets_vpc a (ec_region c) d [] (ec_subnets c) = Inr vpc \<and> groups_refused a (ec_region c) d vpc (ec_groups c) = None)"
    by (simp split: sum.split)
  also have "\<dots> \<longleftrightarrow> (\<exists>vpc. (\<forall>s\<in>set (ec_subnets c). \<exists>sn. get_subnet a (ec_region c) s d = Inr sn \<and> sn_vpc sn = vpc) \<and>
       (\<forall>g\<in>set (ec_groups c). \<exists>sg. get_security_group a (ec_region c) g d = Inr sg \<and> sg_vpc sg = vpc))"
    by (simp only: subnets_vpc_first [OF assms] groups_refused_None)
  finally have rest: "(case subnets_vpc a (ec_region c) d [] (ec_subnets c) of Inl e \<Rightarrow> Some e
      | Inr vpc \<Rightarrow> groups_refused a (ec_region c) d vpc (ec_groups c)) = None \<longleftrightarrow>
      (\<exists>vpc. (\<forall>s\<in>set (ec_subnets c). \<exists>sn. get_subnet a (ec_region c) s d = Inr sn \<and> sn_vpc sn = vpc) \<and>
       (\<forall>g\<in>set (ec_groups c). \<exists>sg. get_security_group a (ec_region c) g d = Inr sg \<and> sg_vpc sg = vpc))" .
  show ?thesis
  proof (cases "role_refused a (ec_role_arn c) d")
    case None
    with role [of "ec_role_arn c"] rest assms(1) show ?thesis by (simp add: cluster_refused_def cluster_allowed_def)
  next
    case (Some e)
    with role [of "ec_role_arn c"] show ?thesis by (auto simp: cluster_refused_def cluster_allowed_def)
  qed
qed

text \<open>The row a create stores, and its tags.\<close>

lemma create_eks_cluster_None:
  assumes "create_eks_cluster a c d = (None, d')" and "ec_status c = ''ACTIVE''"
  shows "\<not> has_key eks_cluster_pk (a, ec_region c, ec_name c) (eks_clusters (eks_tbls d)) \<and>
    d' = d\<lparr>eks_tbls := (eks_tbls d)\<lparr>eks_clusters := eks_clusters (eks_tbls d) @ [\<lparr>ow_account = a, ow_data = c\<rparr>]\<rparr>\<rparr>"
proof -
  have "c\<lparr>ec_status := or_active (ec_status c)\<rparr> = c" using assms(2) by simp
  with assms(1) show ?thesis
    by (auto simp: create_eks_cluster_def Let_def insert_owned_cases eks_cluster_pk_def owned_pk_def split: option.splits if_splits)
qed

lemma gm_wf_cluster_tags: "gm_wf (ci_tags (dec_cluster_input b))"
  by (simp add: dec_cluster_input_def Let_def field_string_map_def gm_wf_field_map)

definition created_cluster :: "env \<Rightarrow> string \<Rightarrow> rest_request \<Rightarrow> db \<Rightarrow> eks_cluster" where
  "created_cluster env region r d = new_eks_cluster env (account_id d) region (dec_cluster_input (rr_json r))"

lemma created_cluster_simps [simp]:
  "ec_region (created_cluster env region r d) = region"
  "ec_name (created_cluster env region r d) = ci_name (dec_cluster_input (rr_json r))"
  "ec_status (created_cluster env region r d) = ''ACTIVE''"
  "ec_subnets (created_cluster env region r d) = ci_subnets (dec_cluster_input (rr_json r))"
  "ec_arn (created_cluster env region r d) = eks_cluster_arn region (account_id d) (ci_name (dec_cluster_input (rr_json r)))"
  by (simp_all add: created_cluster_def new_eks_cluster_def)

lemma eks_cluster_exists:
  "resource_exists a Tags_EKS_cluster (ec_arn c) (d\<lparr>eks_tbls := t\<lparr>eks_clusters := cs @ [\<lparr>ow_account = a, ow_data = c\<rparr>]\<rparr>\<rparr>)"
  by (simp add: resource_exists_def)

text \<open>What a CreateCluster does, in one equation.\<close>

lemma create_cluster_call:
  fixes d r env region
  defines "i \<equiv> dec_cluster_input (rr_json r)" and "c \<equiv> created_cluster env region r d"
  assumes "ci_ok i" "ci_name i \<noteq> []" "ci_role i \<noteq> []" "ci_subnets i \<noteq> []"
  shows "case create_eks_cluster (account_id d) c d of
      (Some e, d') \<Rightarrow> handle_eks env region (Eks_clusters POST) r d = (eks_error e, d)
    | (None, d') \<Rightarrow> \<exists>t. (untagged (account_id d) (ec_arn c) (resource_tags d) \<longrightarrow>
          t = resource_tags d @ tag_rows_of (account_id d) (ec_arn c) (ci_tags i)) \<and>
        handle_eks env region (Eks_clusters POST) r d = (eks_answer ''cluster'' (eks_cluster_to_description c (ci_tags i)), d'\<lparr>resource_tags := t\<rparr>)"
proof -
  let ?a = "account_id d"
  have call: "handle_eks env region (Eks_clusters POST) r d =
      eks_created ?a Tags_EKS_cluster (ec_arn c) (ci_tags i) (delete_eks_cluster ?a region (ec_name c))
        (eks_answer ''cluster'' (eks_cluster_to_description c (ci_tags i))) (create_eks_cluster ?a c d)"
    using assms(3-6) by (simp add: handle_eks_def Let_def eks_create_cluster_def i_def c_def created_cluster_def)
  obtain o_err d' where res: "create_eks_cluster ?a c d = (o_err, d')" by fastforce
  show ?thesis
  proof (cases o_err)
    case (Some e)
    with res have "d' = d" by (auto simp: create_eks_cluster_def Let_def split: option.splits sum.splits)
    with Some res show ?thesis by (simp add: call eks_created_def)
  next
    case None
    have d': "d' = d\<lparr>eks_tbls := (eks_tbls d)\<lparr>eks_clusters := eks_clusters (eks_tbls d) @ [\<lparr>ow_account = ?a, ow_data = c\<rparr>]\<rparr>\<rparr>"
      using create_eks_cluster_None [of ?a c d d'] res None by (simp add: c_def)
    have ex: "resource_exists ?a Tags_EKS_cluster (ec_arn c) d'" unfolding d' by (rule eks_cluster_exists)
    obtain t where t: "tag_created ?a Tags_EKS_cluster (ec_arn c) (ci_tags i) (delete_eks_cluster ?a region (ec_name c)) d' =
        (None, d'\<lparr>resource_tags := t\<rparr>)"
      by (rule tag_created_exists [OF ex])
    have "t = resource_tags d @ tag_rows_of ?a (ec_arn c) (ci_tags i)" if "untagged ?a (ec_arn c) (resource_tags d)"
    proof -
      have tags: "resource_tags d' = resource_tags d" by (simp add: d')
      have "d'\<lparr>resource_tags := t\<rparr> = d'\<lparr>resource_tags := resource_tags d @ tag_rows_of ?a (ec_arn c) (ci_tags i)\<rparr>"
        using tag_created_stored [OF ex gm_wf_cluster_tags [of "rr_json r", folded i_def], of "delete_eks_cluster ?a region (ec_name c)"]
          that t by (simp add: tags)
      then have "resource_tags (d'\<lparr>resource_tags := t\<rparr>) = resource_tags (d'\<lparr>resource_tags := resource_tags d @ tag_rows_of ?a (ec_arn c) (ci_tags i)\<rparr>)"
        by (rule arg_cong)
      then show ?thesis by simp
    qed
    with None res t show ?thesis by (auto simp: call eks_created_def)
  qed
qed

section \<open>Properties\<close>

text \<open>C36. No sequence of EKS requests leaves a node group or an add-on without its cluster, a node group on a subnet its
  cluster does not have, two rows under one key, or a row whose ARN or status is not the one its key determines; and no
  table but EKS's and the tags changes.\<close>

theorem eks_invariant:
  assumes "eks_wf (eks_tbls d)"
  shows "eks_wf (eks_tbls (eks_run es d)) \<and> eks_rest (eks_run es d) = eks_rest d"
  using assms eks_run_keeps [of d es] by (simp add: eks_keeps_def)

text \<open>C33. CreateCluster accepts exactly the clusters whose role is a stored role of the account, whose subnets are stored
  in the region and share one VPC, whose security groups are in that VPC, and whose name is free in the region; any
  other it refuses with 404 or 409, and nothing changes.\<close>

theorem eks_create_decides:
  assumes "i = dec_cluster_input (rr_json r)" and "ci_ok i" "ci_name i \<noteq> []" "ci_role i \<noteq> []" "ci_subnets i \<noteq> []"
    and "\<forall>s sn. get_subnet (account_id d) region s d = Inr sn \<longrightarrow> sn_vpc sn \<noteq> []"
  shows "let (resp, d') = handle_eks env region (Eks_clusters POST) r d
    in (r_status resp = 200 \<longleftrightarrow> cluster_allowed (account_id d) (new_eks_cluster env (account_id d) region i) d \<and>
          (\<nexists>c. get_eks_cluster (account_id d) region (ci_name i) d = Inr c)) \<and>
       (r_status resp \<noteq> 200 \<longrightarrow> r_status resp \<in> {404, 409} \<and> d' = d)"
proof -
  let ?a = "account_id d" and ?c = "created_cluster env region r d"
  have c: "new_eks_cluster env ?a region i = ?c" by (simp add: created_cluster_def assms(1))
  have ref: "cluster_refused ?a ?c d = None \<longleftrightarrow> cluster_allowed ?a ?c d"
    by (rule cluster_refused_None) (use assms(1,5,6) in auto)
  have name: "has_key eks_cluster_pk (?a, region, ci_name i) (eks_clusters (eks_tbls d)) \<longleftrightarrow> (\<exists>c. get_eks_cluster ?a region (ci_name i) d = Inr c)"
    by (cases "get_eks_cluster ?a region (ci_name i) d")
      (auto simp: get_eks_cluster_def get_owned_Inl has_key_def elim!: get_owned_Inr intro!: rev_image_eqI)
  have res: "fst (create_eks_cluster ?a ?c d) =
      (if \<not> cluster_allowed ?a ?c d then cluster_refused ?a ?c d
       else if \<exists>c. get_eks_cluster ?a region (ci_name i) d = Inr c then Some ErrConflict else None)"
    using ref name assms(1)
    by (auto simp: create_eks_cluster_def Let_def insert_owned_cases eks_cluster_pk_def owned_pk_def split: option.split)
  show ?thesis
  proof (cases "fst (create_eks_cluster ?a ?c d)")
    case None
    with res ref have "cluster_allowed ?a ?c d" "\<nexists>c. get_eks_cluster ?a region (ci_name i) d = Inr c"
      by (auto split: if_splits)
    with create_cluster_call [of r d env region] None assms(1-5) show ?thesis unfolding c by (auto simp: split_beta)
  next
    case (Some e)
    with res ref have "plain_refusal e" by (auto split: if_splits dest: cluster_refused_plain)
    moreover have "\<not> (cluster_allowed ?a ?c d \<and> (\<nexists>c. get_eks_cluster ?a region (ci_name i) d = Inr c))"
      using Some res by (auto split: if_splits)
    moreover have "handle_eks env region (Eks_clusters POST) r d = (eks_error e, d)"
      using create_cluster_call [of r d env region] Some assms(1-5) by (simp add: split_beta)
    ultimately show ?thesis using plain_refusal_status [of e] unfolding c by auto
  qed
qed

text \<open>C35. What CreateCluster answered is what DescribeCluster answers, tags included, and DeleteCluster takes the database back
  to exactly what it was before the create, where the cluster is unknown.\<close>

theorem eks_create_describe_delete:
  assumes "eks_wf (eks_tbls d)" and "handle_eks env region (Eks_clusters POST) r d = (resp, d1)" and "r_status resp = 200"
    and "name = ci_name (dec_cluster_input (rr_json r))"
    and "untagged (account_id d) (eks_cluster_arn region (account_id d) name) (resource_tags d)"
  shows "handle_eks env' region (Eks_cluster GET name) r' d1 = (resp, d1) \<and>
    r_status (fst (handle_eks env' region (Eks_cluster DELETE name) r' d1)) = 200 \<and>
    snd (handle_eks env' region (Eks_cluster DELETE name) r' d1) = d \<and>
    r_status (fst (handle_eks env' region (Eks_cluster GET name) r' d)) = 404"
proof -
  let ?a = "account_id d" and ?c = "created_cluster env region r d" and ?i = "dec_cluster_input (rr_json r)" and ?t = "eks_tbls d"
  let ?row = "\<lparr>ow_account = ?a, ow_data = ?c\<rparr>" and ?k = "(?a, region, name)"
  have ok: "ci_ok ?i" "ci_name ?i \<noteq> []" "ci_role ?i \<noteq> []" "ci_subnets ?i \<noteq> []"
    using assms(2,3) by (auto simp: handle_eks_def Let_def eks_create_cluster_def write_aws_error_status split: if_splits)
  note call = create_cluster_call [OF ok, of d env region]
  obtain d' where res: "create_eks_cluster ?a ?c d = (None, d')"
    using call assms(2,3) by (cases "create_eks_cluster ?a ?c d") (auto simp: eks_error_status split: option.splits)
  have new: "\<not> has_key eks_cluster_pk ?k (eks_clusters ?t)"
      and d': "d' = d\<lparr>eks_tbls := ?t\<lparr>eks_clusters := eks_clusters ?t @ [?row]\<rparr>\<rparr>"
    using create_eks_cluster_None [OF res] by (simp_all add: assms(4))
  let ?tags = "resource_tags d @ tag_rows_of ?a (ec_arn ?c) (ci_tags ?i)"
  have un: "untagged ?a (ec_arn ?c) (resource_tags d)" using assms(4,5) by simp
  have d1: "d1 = d'\<lparr>resource_tags := ?tags\<rparr>" and resp: "resp = eks_answer ''cluster'' (eks_cluster_to_description ?c (ci_tags ?i))"
    using call res un assms(2) by auto
  have acc: "account_id d1 = ?a" by (rule account_id_eks_rest) (simp add: d1 d' eks_rest_def)
  have rk: "eks_cluster_pk ?row = ?k" by (simp add: eks_cluster_pk_def owned_pk_def assms(4))
  have get: "get_eks_cluster ?a region name d1 = Inr ?c"
    using new rk by (simp add: get_eks_cluster_def d1 d' get_owned_snoc)
  have "resource_tag_map ?a Tags_EKS_cluster (ec_arn ?c) d1 = Inr (ci_tags ?i)"
  proof -
    have "resource_exists ?a Tags_EKS_cluster (ec_arn ?c) d1"
      unfolding d1 resource_exists_tags d' by (rule eks_cluster_exists)
    then show ?thesis by (simp add: resource_tag_map_def d1 tags_of_untagged [OF un gm_wf_cluster_tags] del: created_cluster_simps)
  qed
  with get have described: "handle_eks env' region (Eks_cluster GET name) r' d1 = (resp, d1)"
    by (simp add: handle_eks_def Let_def acc eks_describe_cluster_def eks_described_def resp)
  have no_groups: "\<not> group_of ?k g" if "g \<in> set (eks_node_groups ?t)" for g
    using refsD [of group_cluster _ eks_cluster_pk _ g] that assms(1) new
    unfolding eks_wf_def group_of_cluster has_key_def by (metis imageI)
  have no_addons: "\<not> addon_of ?k x" if "x \<in> set (eks_addons ?t)" for x
    using refsD [of addon_cluster _ eks_cluster_pk _ x] that assms(1) new
    unfolding eks_wf_def group_of_cluster has_key_def by (metis imageI)
  have same: "sql_delete (\<lambda>r. eks_cluster_pk r = ?k) (eks_clusters ?t @ [?row]) = eks_clusters ?t"
      "sql_delete (group_of ?k) (eks_node_groups ?t) = eks_node_groups ?t" "sql_delete (addon_of ?k) (eks_addons ?t) = eks_addons ?t"
    using sql_delete_snoc [of eks_cluster_pk ?row "eks_clusters ?t"] new rk no_groups no_addons
    by (auto simp: sql_delete_def filter_id_conv)
  have tags: "sql_delete (\<lambda>g. g_account g = ?a \<and> g_arn g = ec_arn ?c) ?tags = resource_tags d"
    by (rule delete_tags_untagged [OF un]) auto
  have drop: "drop_tags_of (\<lambda>r. eks_cluster_pk r = ?k) ec_arn (eks_clusters ?t @ [?row]) x = drop_resource_tags ?a (ec_arn ?c) x" for x
    using drop_tags_of_snoc [of eks_cluster_pk ?row "eks_clusters ?t" ec_arn] new rk by simp
  have some: "affected (\<lambda>r. eks_cluster_pk r = ?k) (eks_clusters ?t @ [?row]) \<noteq> 0"
    unfolding affected_has_key by (simp add: has_key_def rk [symmetric])
  have "delete_eks_cluster ?a region name d1 = (None, d)"
    using some by (simp add: delete_eks_cluster_def Let_def d1 d' same drop drop_tags_of_none no_groups no_addons
        drop_resource_tags_def tags del: created_cluster_simps)
  then have "handle_eks env' region (Eks_cluster DELETE name) r' d1 = (eks_answer ''cluster'' (eks_cluster_to_description ?c []), d)"
    by (simp add: handle_eks_def Let_def acc eks_delete_cluster_def eks_deleted_def get)
  moreover have "get_eks_cluster ?a region name d = Inl ErrNotFound" using new by (simp add: get_eks_cluster_def get_owned_Inl)
  ultimately show ?thesis using described
    by (simp add: handle_eks_def Let_def eks_describe_cluster_def eks_described_def)
qed

text \<open>C34. DeleteCluster of a stored cluster takes exactly the cluster, its node groups and its add-ons, each with its tags:
  every other row stays as it was, and so does every tag of another resource.\<close>

theorem eks_delete_cascades:
  assumes "get_eks_cluster (account_id d) region name d = Inr c"
  shows "let (resp, d') = handle_eks env region (Eks_cluster DELETE name) r d; t = eks_tbls d; k = (account_id d, region, name);
      goes = (\<lambda>g. (\<exists>x\<in>set (eks_clusters t). eks_cluster_pk x = k \<and> ow_account x = g_account g \<and> ec_arn (ow_data x) = g_arn g) \<or>
        (\<exists>x\<in>set (eks_node_groups t). group_cluster x = k \<and> ow_account x = g_account g \<and> eg_arn (ow_data x) = g_arn g) \<or>
        (\<exists>x\<in>set (eks_addons t). addon_cluster x = k \<and> ow_account x = g_account g \<and> ea_arn (ow_data x) = g_arn g))
    in r_status resp = 200 \<and> eks_rest d' = eks_rest d \<and>
       eks_clusters (eks_tbls d') = filter (\<lambda>x. eks_cluster_pk x \<noteq> k) (eks_clusters t) \<and>
       eks_node_groups (eks_tbls d') = filter (\<lambda>x. group_cluster x \<noteq> k) (eks_node_groups t) \<and>
       eks_addons (eks_tbls d') = filter (\<lambda>x. addon_cluster x \<noteq> k) (eks_addons t) \<and>
       resource_tags d' = filter (\<lambda>g. \<not> goes g) (resource_tags d)"
proof -
  let ?k = "(account_id d, region, name)"
  have "has_key eks_cluster_pk ?k (eks_clusters (eks_tbls d))"
    using assms unfolding get_eks_cluster_def has_key_def by (rule get_owned_Inr) (metis imageI)
  then have some: "affected (\<lambda>r. eks_cluster_pk r = ?k) (eks_clusters (eks_tbls d)) \<noteq> 0" by (simp add: affected_has_key)
  have filters: "filter (\<lambda>x. \<not> group_of ?k x) = filter (\<lambda>x. group_cluster x \<noteq> ?k)"
      "filter (\<lambda>x. \<not> addon_of ?k x) = filter (\<lambda>x. addon_cluster x \<noteq> ?k)"
    by (simp_all add: group_of_cluster)
  from some show ?thesis
    by (simp add: handle_eks_def eks_delete_cluster_def eks_deleted_def assms delete_eks_cluster_def Let_def
        drop_tags_of_eq eks_rest_def sql_delete_def filter_filter group_of_cluster)
qed

section \<open>Examples\<close>

definition eks_sample_env :: env where
  "eks_sample_env = \<lparr>e_now = 0, e_rand = []\<rparr>"

definition eks_sample_role :: iam_role where
  "eks_sample_role = \<lparr>ro_name = ''eks'', ro_path = ''/'', ro_arn = iam_role_arn fake_account_id ''eks'',
     ro_assume_role_policy_document = ''{}'', ro_description = [], ro_max_session_duration = 3600, ro_created_at = [],
     ro_role_id = [], ro_permissions_boundary = None\<rparr>"

definition eks_sample_subnet :: ec2_subnet where
  "eks_sample_subnet = \<lparr>sn_id = ''subnet-1'', sn_vpc = ''vpc-1'', sn_cidr = ''10.0.0.0/28'', sn_zone = ''ra'', sn_region = ''r'', sn_arn = [],
     sn_state = ''available'', sn_created_at = [], sn_map_public = False, sn_owner = [], sn_available = 11, sn_default_for_az = False,
     sn_assign_ipv6 = False, sn_customer_owned = None, sn_dns64 = None, sn_ipv6_native = None, sn_lni_index = None,
     sn_customer_pool = [], sn_outpost = [], sn_ipv6_assocs = [], sn_dns_options = None\<rparr>"

definition eks_sample_db :: db where
  "eks_sample_db = empty_db\<lparr>
     iam_tbls := empty_iam_db\<lparr>iam_roles := [\<lparr>or_account = fake_account_id, or_role = eks_sample_role\<rparr>]\<rparr>,
     ec2_tbls := empty_ec2_db\<lparr>ec2_subnets := [\<lparr>ow_account = fake_account_id, ow_data = eks_sample_subnet\<rparr>]\<rparr>\<rparr>"

definition eks_sample_request :: rest_request where
  "eks_sample_request = bare_request\<lparr>rr_json := Some (JObj [(''name'', JStr ''c''), (''roleArn'', JStr (iam_role_arn fake_account_id ''eks'')),
     (''resourcesVpcConfig'', JObj [(''subnetIds'', JArr [JStr ''subnet-1''])]), (''tags'', JObj [(''env'', JStr ''test'')])])\<rparr>"

definition eks_sample_created :: "response \<times> db" where
  "eks_sample_created = handle_eks eks_sample_env ''r'' (Eks_clusters POST) eks_sample_request eks_sample_db"

lemma eks_sample_input:
  "dec_cluster_input (rr_json eks_sample_request) = \<lparr>ci_ok = True, ci_name = ''c'', ci_role = iam_role_arn fake_account_id ''eks'',
     ci_subnets = [''subnet-1''], ci_groups = [], ci_version = [], ci_tags = [(''env'', ''test'')]\<rparr>"
  by code_simp

lemma eks_sample_status: "r_status (fst eks_sample_created) = 200"
  by code_simp

lemma eks_sample_wf: "eks_wf (eks_tbls eks_sample_db)"
  by (simp add: eks_sample_db_def empty_db_def)

theorem eks_invariant_witness:
  "eks_wf (eks_tbls (eks_run [(eks_sample_env, ''r'', Eks_clusters POST, eks_sample_request), (eks_sample_env, ''r'', Eks_cluster DELETE ''c'', bare_request)] eks_sample_db))"
  using eks_invariant [OF eks_sample_wf] by blast

lemma eks_sample_subnets: "get_subnet (account_id eks_sample_db) ''r'' s eks_sample_db = Inr sn \<Longrightarrow> sn_vpc sn \<noteq> []"
  by (auto simp: get_subnet_def get_scoped_def eks_sample_db_def eks_sample_subnet_def split: if_splits)

theorem eks_create_decides_witness:
  "cluster_allowed (account_id eks_sample_db) (new_eks_cluster eks_sample_env (account_id eks_sample_db) ''r'' (dec_cluster_input (rr_json eks_sample_request))) eks_sample_db"
proof -
  let ?i = "dec_cluster_input (rr_json eks_sample_request)"
  have "ci_ok ?i" "ci_name ?i \<noteq> []" "ci_role ?i \<noteq> []" "ci_subnets ?i \<noteq> []" by (simp_all add: eks_sample_input iam_role_arn_def)
  moreover have "\<forall>s sn. get_subnet (account_id eks_sample_db) ''r'' s eks_sample_db = Inr sn \<longrightarrow> sn_vpc sn \<noteq> []"
    using eks_sample_subnets by blast
  ultimately show ?thesis
    using eks_create_decides [of ?i eks_sample_request eks_sample_db "''r''" eks_sample_env] eks_sample_status
    by (simp add: eks_sample_created_def split_beta Let_def)
qed

theorem eks_create_describe_delete_witness:
  "snd (handle_eks eks_sample_env ''r'' (Eks_cluster DELETE ''c'') bare_request (snd eks_sample_created)) = eks_sample_db"
proof -
  have "handle_eks eks_sample_env ''r'' (Eks_clusters POST) eks_sample_request eks_sample_db = (fst eks_sample_created, snd eks_sample_created)"
    by (simp add: eks_sample_created_def)
  moreover have "''c'' = ci_name (dec_cluster_input (rr_json eks_sample_request))" by (simp add: eks_sample_input)
  moreover have "untagged (account_id eks_sample_db) (eks_cluster_arn ''r'' (account_id eks_sample_db) ''c'') (resource_tags eks_sample_db)"
    by (simp add: untagged_def eks_sample_db_def empty_db_def)
  ultimately show ?thesis using eks_create_describe_delete [OF eks_sample_wf _ eks_sample_status] by blast
qed

theorem eks_delete_cascades_witness:
  "eks_clusters (eks_tbls (snd (handle_eks eks_sample_env ''r'' (Eks_cluster DELETE ''c'') bare_request (snd eks_sample_created)))) = []"
proof -
  have "get_eks_cluster (account_id (snd eks_sample_created)) ''r'' ''c'' (snd eks_sample_created) =
      Inr (created_cluster eks_sample_env ''r'' eks_sample_request eks_sample_db)" by code_simp
  moreover have "filter (\<lambda>x. eks_cluster_pk x \<noteq> (account_id (snd eks_sample_created), ''r'', ''c'')) (eks_clusters (eks_tbls (snd eks_sample_created))) = []"
    by code_simp
  ultimately show ?thesis using eks_delete_cascades [where env = eks_sample_env and r = bare_request] by (simp add: Let_def split_beta)
qed

end
