(* ===== verification/RdsRepo.thy ===== *)
theory RdsRepo
  imports OwnedRows Ec2Groups
begin

text \<open>
  RDS in the repository (repository/rds.go): subnet groups, parameter groups of instances and of clusters,
  clusters and instances. Every foreign key is RESTRICT: what a cluster or an instance names cannot be deleted
  while it does; a protected cluster or instance cannot be deleted at all. A wrapped sentinel is written as the
  sentinel, since no text of it reaches the wire.
\<close>

section \<open>Statements\<close>

text \<open>A DELETE by key, of a row that others may hold, with the tag trigger.\<close>

definition delete_owned :: "('a owned \<Rightarrow> 'k) \<Rightarrow> 'k \<Rightarrow> bool \<Rightarrow> 'a owned list \<Rightarrow> 'a owned list result" where
  "delete_owned key k held t =
     (if affected (\<lambda>r. key r = k) t = 0 then Inl ErrNotFound
      else if held then Inl (map_delete_error (sql_text Fk_failed))
      else Inr (sql_delete (\<lambda>r. key r = k) t))"

text \<open>A reference that is NULL, written "", or names a stored row.\<close>

definition ref_ok :: "('a owned \<Rightarrow> string \<times> string \<times> string) \<Rightarrow> string \<Rightarrow> string \<Rightarrow> string \<Rightarrow> 'a owned list \<Rightarrow> bool" where
  "ref_ok key account region name t \<longleftrightarrow> name = [] \<or> has_key key (account, region, name) t"

definition holds_ref :: "('a \<Rightarrow> string) \<Rightarrow> ('a \<Rightarrow> string) \<Rightarrow> string \<times> string \<times> string \<Rightarrow> 'a owned \<Rightarrow> bool" where
  "holds_ref reg ref k r \<longleftrightarrow> ref (ow_data r) \<noteq> [] \<and> owned_pk (\<lambda>x. (reg x, ref x)) r = k"

section \<open>Subnet groups\<close>

text \<open>The VPC of the group: the one given, or the first subnet's, which the others must share.\<close>

fun group_vpc :: "string \<Rightarrow> string \<Rightarrow> db \<Rightarrow> string \<Rightarrow> string list \<Rightarrow> string result" where
  "group_vpc account region d vpc [] = Inr vpc"
| "group_vpc account region d vpc (s # ss) =
     (case get_subnet account region s d of
        Inl e \<Rightarrow> Inl e
      | Inr sn \<Rightarrow>
          (if vpc = [] then group_vpc account region d (sn_vpc sn) ss
           else if sn_vpc sn \<noteq> vpc then Inl ErrConflict
           else group_vpc account region d vpc ss))"

definition create_db_subnet_group :: "string \<Rightarrow> rds_subnet_group \<Rightarrow> db \<Rightarrow> go_error option \<times> db" where
  "create_db_subnet_group account g d =
     (if dg_subnets g = [] then (Some ErrConflict, d)
      else case group_vpc account (dg_region g) d (dg_vpc g) (dg_subnets g) of
        Inl e \<Rightarrow> (Some e, d)
      | Inr vpc \<Rightarrow>
          (let t = rds_tbls d
           in case insert_owned rds_subnet_group_pk True account (g\<lparr>dg_vpc := vpc\<rparr>) (rds_subnet_groups t) of
             Inl e \<Rightarrow> (Some e, d)
           | Inr rows \<Rightarrow> (None, d\<lparr>rds_tbls := t\<lparr>rds_subnet_groups := rows\<rparr>\<rparr>)))"

definition get_db_subnet_group :: "string \<Rightarrow> string \<Rightarrow> string \<Rightarrow> db \<Rightarrow> rds_subnet_group result" where
  "get_db_subnet_group account region name d = get_owned rds_subnet_group_pk (account, region, name) (rds_subnet_groups (rds_tbls d))"

definition subnet_group_held :: "string \<times> string \<times> string \<Rightarrow> rds_db \<Rightarrow> bool" where
  "subnet_group_held k t \<longleftrightarrow> (\<exists>r\<in>set (rds_clusters t). holds_ref dc_region dc_subnet_group k r) \<or>
     (\<exists>r\<in>set (rds_instances t). holds_ref di_region di_subnet_group k r)"

definition delete_db_subnet_group :: "string \<Rightarrow> string \<Rightarrow> string \<Rightarrow> db \<Rightarrow> go_error option \<times> db" where
  "delete_db_subnet_group account region name d =
     (let t = rds_tbls d; k = (account, region, name)
      in case delete_owned rds_subnet_group_pk k (subnet_group_held k t) (rds_subnet_groups t) of
        Inl e \<Rightarrow> (Some e, d)
      | Inr rows \<Rightarrow> (None, drop_tags_of (\<lambda>r. rds_subnet_group_pk r = k) dg_arn (rds_subnet_groups t)
          (d\<lparr>rds_tbls := t\<lparr>rds_subnet_groups := rows\<rparr>\<rparr>)))"

text \<open>The groups of an account, by name, of every region.\<close>

definition list_db_subnet_groups :: "string \<Rightarrow> db \<Rightarrow> rds_subnet_group list" where
  "list_db_subnet_groups account d = list_scoped dg_region dg_name account [] (rds_subnet_groups (rds_tbls d))"

section \<open>Parameter groups\<close>

definition create_db_parameter_group :: "string \<Rightarrow> rds_parameter_group \<Rightarrow> db \<Rightarrow> go_error option \<times> db" where
  "create_db_parameter_group account g d =
     (let t = rds_tbls d
      in case insert_owned rds_parameter_group_pk True account g (rds_parameter_groups t) of
        Inl e \<Rightarrow> (Some e, d)
      | Inr rows \<Rightarrow> (None, d\<lparr>rds_tbls := t\<lparr>rds_parameter_groups := rows\<rparr>\<rparr>))"

definition get_db_parameter_group :: "string \<Rightarrow> string \<Rightarrow> string \<Rightarrow> db \<Rightarrow> rds_parameter_group result" where
  "get_db_parameter_group account region name d =
     get_owned rds_parameter_group_pk (account, region, name) (rds_parameter_groups (rds_tbls d))"

definition parameter_group_held :: "string \<times> string \<times> string \<Rightarrow> rds_db \<Rightarrow> bool" where
  "parameter_group_held k t \<longleftrightarrow> (\<exists>r\<in>set (rds_instances t). holds_ref di_region di_parameter_group k r)"

definition delete_db_parameter_group :: "string \<Rightarrow> string \<Rightarrow> string \<Rightarrow> db \<Rightarrow> go_error option \<times> db" where
  "delete_db_parameter_group account region name d =
     (let t = rds_tbls d; k = (account, region, name)
      in case delete_owned rds_parameter_group_pk k (parameter_group_held k t) (rds_parameter_groups t) of
        Inl e \<Rightarrow> (Some e, d)
      | Inr rows \<Rightarrow> (None, drop_tags_of (\<lambda>r. rds_parameter_group_pk r = k) dp_arn (rds_parameter_groups t)
          (d\<lparr>rds_tbls := t\<lparr>rds_parameter_groups := rows\<rparr>\<rparr>)))"

definition list_db_parameter_groups :: "string \<Rightarrow> db \<Rightarrow> rds_parameter_group list" where
  "list_db_parameter_groups account d = list_scoped dp_region dp_name account [] (rds_parameter_groups (rds_tbls d))"

definition create_db_cluster_parameter_group :: "string \<Rightarrow> rds_parameter_group \<Rightarrow> db \<Rightarrow> go_error option \<times> db" where
  "create_db_cluster_parameter_group account g d =
     (let t = rds_tbls d
      in case insert_owned rds_parameter_group_pk True account g (rds_cluster_parameter_groups t) of
        Inl e \<Rightarrow> (Some e, d)
      | Inr rows \<Rightarrow> (None, d\<lparr>rds_tbls := t\<lparr>rds_cluster_parameter_groups := rows\<rparr>\<rparr>))"

definition get_db_cluster_parameter_group :: "string \<Rightarrow> string \<Rightarrow> string \<Rightarrow> db \<Rightarrow> rds_parameter_group result" where
  "get_db_cluster_parameter_group account region name d =
     get_owned rds_parameter_group_pk (account, region, name) (rds_cluster_parameter_groups (rds_tbls d))"

definition cluster_parameter_group_held :: "string \<times> string \<times> string \<Rightarrow> rds_db \<Rightarrow> bool" where
  "cluster_parameter_group_held k t \<longleftrightarrow> (\<exists>r\<in>set (rds_clusters t). holds_ref dc_region dc_parameter_group k r)"

definition delete_db_cluster_parameter_group :: "string \<Rightarrow> string \<Rightarrow> string \<Rightarrow> db \<Rightarrow> go_error option \<times> db" where
  "delete_db_cluster_parameter_group account region name d =
     (let t = rds_tbls d; k = (account, region, name)
      in case delete_owned rds_parameter_group_pk k (cluster_parameter_group_held k t) (rds_cluster_parameter_groups t) of
        Inl e \<Rightarrow> (Some e, d)
      | Inr rows \<Rightarrow> (None, drop_tags_of (\<lambda>r. rds_parameter_group_pk r = k) dp_arn (rds_cluster_parameter_groups t)
          (d\<lparr>rds_tbls := t\<lparr>rds_cluster_parameter_groups := rows\<rparr>\<rparr>)))"

definition list_db_cluster_parameter_groups :: "string \<Rightarrow> db \<Rightarrow> rds_parameter_group list" where
  "list_db_cluster_parameter_groups account d =
     list_scoped dp_region dp_name account [] (rds_cluster_parameter_groups (rds_tbls d))"

section \<open>Clusters\<close>

definition or_available :: "string \<Rightarrow> string" where
  "or_available s = (if s = [] then ''available'' else s)"

text \<open>A reference looked up before the INSERT; the first that is missing refuses.\<close>

definition ref_refused :: "('a result) \<Rightarrow> string \<Rightarrow> go_error option" where
  "ref_refused got name = (if name = [] then None else case got of Inl e \<Rightarrow> Some e | Inr _ \<Rightarrow> None)"

fun first_refusal :: "go_error option list \<Rightarrow> go_error option" where
  "first_refusal [] = None"
| "first_refusal (x # xs) = (case x of Some e \<Rightarrow> Some e | None \<Rightarrow> first_refusal xs)"

definition db_cluster_refused :: "string \<Rightarrow> rds_cluster \<Rightarrow> db \<Rightarrow> go_error option" where
  "db_cluster_refused account c d = first_refusal
     [ref_refused (get_db_subnet_group account (dc_region c) (dc_subnet_group c) d) (dc_subnet_group c),
      ref_refused (get_db_cluster_parameter_group account (dc_region c) (dc_parameter_group c) d) (dc_parameter_group c)]"

definition cluster_refs_ok :: "string \<Rightarrow> rds_cluster \<Rightarrow> rds_db \<Rightarrow> bool" where
  "cluster_refs_ok account c t \<longleftrightarrow>
     ref_ok rds_subnet_group_pk account (dc_region c) (dc_subnet_group c) (rds_subnet_groups t) \<and>
     ref_ok rds_parameter_group_pk account (dc_region c) (dc_parameter_group c) (rds_cluster_parameter_groups t)"

definition create_db_cluster :: "string \<Rightarrow> rds_cluster \<Rightarrow> db \<Rightarrow> go_error option \<times> db" where
  "create_db_cluster account c d =
     (case db_cluster_refused account c d of
        Some e \<Rightarrow> (Some e, d)
      | None \<Rightarrow>
         (let t = rds_tbls d
          in case insert_owned rds_cluster_pk (cluster_refs_ok account c t) account (c\<lparr>dc_state := or_available (dc_state c)\<rparr>) (rds_clusters t) of
            Inl e \<Rightarrow> (Some e, d)
          | Inr rows \<Rightarrow> (None, d\<lparr>rds_tbls := t\<lparr>rds_clusters := rows\<rparr>\<rparr>)))"

definition get_db_cluster :: "string \<Rightarrow> string \<Rightarrow> string \<Rightarrow> db \<Rightarrow> rds_cluster result" where
  "get_db_cluster account region i d = get_owned rds_cluster_pk (account, region, i) (rds_clusters (rds_tbls d))"

definition list_db_clusters :: "string \<Rightarrow> string \<Rightarrow> db \<Rightarrow> rds_cluster list" where
  "list_db_clusters account region d = list_scoped dc_region dc_id account region (rds_clusters (rds_tbls d))"

definition db_cluster_held :: "string \<times> string \<times> string \<Rightarrow> rds_db \<Rightarrow> bool" where
  "db_cluster_held k t \<longleftrightarrow> (\<exists>r\<in>set (rds_instances t). holds_ref di_region di_cluster k r)"

definition delete_db_cluster :: "string \<Rightarrow> string \<Rightarrow> string \<Rightarrow> db \<Rightarrow> go_error option \<times> db" where
  "delete_db_cluster account region i d =
     (case get_db_cluster account region i d of
        Inl e \<Rightarrow> (Some e, d)
      | Inr c \<Rightarrow>
         (if dc_deletion_protection c then (Some ErrConflict, d)
          else let t = rds_tbls d; k = (account, region, i)
            in case delete_owned rds_cluster_pk k (db_cluster_held k t) (rds_clusters t) of
              Inl e \<Rightarrow> (Some e, d)
            | Inr rows \<Rightarrow> (None, drop_tags_of (\<lambda>r. rds_cluster_pk r = k) dc_arn (rds_clusters t)
                (d\<lparr>rds_tbls := t\<lparr>rds_clusters := rows\<rparr>\<rparr>))))"

section \<open>Instances\<close>

definition get_db_instance :: "string \<Rightarrow> string \<Rightarrow> string \<Rightarrow> db \<Rightarrow> rds_instance result" where
  "get_db_instance account region i d = get_owned rds_instance_pk (account, region, i) (rds_instances (rds_tbls d))"

definition db_instance_refused :: "string \<Rightarrow> rds_instance \<Rightarrow> db \<Rightarrow> go_error option" where
  "db_instance_refused account x d = first_refusal
     [ref_refused (get_db_subnet_group account (di_region x) (di_subnet_group x) d) (di_subnet_group x),
      ref_refused (get_db_cluster account (di_region x) (di_cluster x) d) (di_cluster x),
      ref_refused (get_db_parameter_group account (di_region x) (di_parameter_group x) d) (di_parameter_group x),
      ref_refused (get_db_instance account (di_region x) (di_source x) d) (di_source x)]"

text \<open>The foreign keys of the row; a source is looked up before, so it is another row than the new one.\<close>

definition instance_refs_ok :: "string \<Rightarrow> rds_instance \<Rightarrow> rds_db \<Rightarrow> bool" where
  "instance_refs_ok account x t \<longleftrightarrow>
     ref_ok rds_subnet_group_pk account (di_region x) (di_subnet_group x) (rds_subnet_groups t) \<and>
     ref_ok rds_cluster_pk account (di_region x) (di_cluster x) (rds_clusters t) \<and>
     ref_ok rds_parameter_group_pk account (di_region x) (di_parameter_group x) (rds_parameter_groups t) \<and>
     ref_ok rds_instance_pk account (di_region x) (di_source x) (rds_instances t)"

definition create_db_instance :: "string \<Rightarrow> rds_instance \<Rightarrow> db \<Rightarrow> go_error option \<times> db" where
  "create_db_instance account x d =
     (case db_instance_refused account x d of
        Some e \<Rightarrow> (Some e, d)
      | None \<Rightarrow>
         (let t = rds_tbls d
          in case insert_owned rds_instance_pk (instance_refs_ok account x t) account (x\<lparr>di_state := or_available (di_state x)\<rparr>) (rds_instances t) of
            Inl e \<Rightarrow> (Some e, d)
          | Inr rows \<Rightarrow> (None, d\<lparr>rds_tbls := t\<lparr>rds_instances := rows\<rparr>\<rparr>)))"

definition list_db_instances :: "string \<Rightarrow> string \<Rightarrow> db \<Rightarrow> rds_instance list" where
  "list_db_instances account region d = list_scoped di_region di_id account region (rds_instances (rds_tbls d))"

definition has_replica :: "string \<times> string \<times> string \<Rightarrow> rds_db \<Rightarrow> bool" where
  "has_replica k t \<longleftrightarrow> affected (holds_ref di_region di_source k) (rds_instances t) > 0"

definition delete_db_instance :: "string \<Rightarrow> string \<Rightarrow> string \<Rightarrow> db \<Rightarrow> go_error option \<times> db" where
  "delete_db_instance account region i d =
     (case get_db_instance account region i d of
        Inl e \<Rightarrow> (Some e, d)
      | Inr x \<Rightarrow>
         (let t = rds_tbls d; k = (account, region, i)
          in if di_deletion_protection x then (Some ErrConflict, d)
             else if has_replica k t then (Some ErrConflict, d)
             else case delete_owned rds_instance_pk k (has_replica k t) (rds_instances t) of
               Inl e \<Rightarrow> (Some e, d)
             | Inr rows \<Rightarrow> (None, drop_tags_of (\<lambda>r. rds_instance_pk r = k) di_arn (rds_instances t)
                 (d\<lparr>rds_tbls := t\<lparr>rds_instances := rows\<rparr>\<rparr>))))"

end
