(* ===== verification/Rds.thy ===== *)
theory Rds
  imports RdsRepo Goenc Refs
begin

text \<open>
  RDS (handlers/rds.go), a Query-RPC service. Where the code ranges over the params of a request the model takes
  them in their order.
\<close>

section \<open>SHA-1 (crypto/sha1)\<close>

text \<open>The padding and the 512-bit blocks are SHA-256's; the schedule has 80 words, each past the sixteenth from four before it.\<close>

definition sha1_init :: "w32 list" where
  "sha1_init = [0x67452301, 0xEFCDAB89, 0x98BADCFE, 0x10325476, 0xC3D2E1F0]"

definition sha1_schedule_step :: "w32 list \<Rightarrow> w32 list" where
  "sha1_schedule_step ws = (let n = length ws
     in ws @ [word_rotl 1 (ws ! (n - 3) XOR ws ! (n - 8) XOR ws ! (n - 14) XOR ws ! (n - 16))])"

definition sha1_schedule :: "w32 list \<Rightarrow> w32 list" where
  "sha1_schedule ws = (sha1_schedule_step ^^ 64) ws"

definition sha1_f :: "nat \<Rightarrow> w32 \<Rightarrow> w32 \<Rightarrow> w32 \<Rightarrow> w32" where
  "sha1_f i b c d =
     (if i < 20 then (b AND c) OR (NOT b AND d)
      else if i < 40 then b XOR c XOR d
      else if i < 60 then (b AND c) OR (b AND d) OR (c AND d)
      else b XOR c XOR d)"

definition sha1_k :: "nat \<Rightarrow> w32" where
  "sha1_k i = (if i < 20 then 0x5A827999 else if i < 40 then 0x6ED9EBA1 else if i < 60 then 0x8F1BBCDC else 0xCA62C1D6)"

fun sha1_round :: "nat \<times> w32 \<Rightarrow> w32 list \<Rightarrow> w32 list" where
  "sha1_round (i, w) [a, b, c, d, e] = [word_rotl 5 a + sha1_f i b c d + e + sha1_k i + w, a, word_rotl 30 b, c, d]"
| "sha1_round iw s = s"

definition sha1_block :: "nat list \<Rightarrow> w32 list \<Rightarrow> w32 list" where
  "sha1_block bs h =
     map2 (+) h (fold sha1_round (zip [0..<80] (sha1_schedule (map word_of_bytes (chunks 4 16 bs)))) h)"

definition sha1_sum :: "nat list \<Rightarrow> nat list" where
  "sha1_sum bs =
     (let padded = sha256_pad bs
      in concat (map word_bytes (fold sha1_block (chunks 64 (length padded div 64) padded) sha1_init)))"

definition dbi_resource_id_for :: "string \<Rightarrow> string" where
  "dbi_resource_id_for i = ''db-'' @ upper (take 16 (hex_encode (sha1_sum (text_bytes i))))"

section \<open>ARNs (handlers/awsproto/arn.go)\<close>

definition rds_arn :: "string \<Rightarrow> string \<Rightarrow> string \<Rightarrow> string \<Rightarrow> string" where
  "rds_arn kind region account i = ''arn:aws:rds:'' @ region @ '':'' @ account @ '':'' @ kind @ '':'' @ i"

section \<open>Params\<close>

definition parse_subnet_ids :: "query_params \<Rightarrow> string list" where
  "parse_subnet_ids p = concat (map (\<lambda>(k, vs). if has_prefix k ''SubnetIds.'' then take 1 vs else []) p)"

definition trim_suffix :: "string \<Rightarrow> string \<Rightarrow> string" where
  "trim_suffix s t = (if has_suffix s t then take (length s - length t) s else s)"

text \<open>parseRDSFilter: the values of the first filter of the name; [] when no filter has it or it has no value.\<close>

definition parse_rds_filter :: "query_params \<Rightarrow> string \<Rightarrow> string list" where
  "parse_rds_filter p want =
     (case find (\<lambda>(k, vs). has_prefix k ''Filters.Filter.'' \<and> has_suffix k ''.Name'' \<and> vs \<noteq> [] \<and> hd vs = want) p of
        None \<Rightarrow> []
      | Some (k, _) \<Rightarrow>
          (let pre = ''Filters.Filter.'' @ trim_suffix (trim_prefix k ''Filters.Filter.'') ''.Name'' @ ''.Values.Value.''
           in concat (map (\<lambda>(k', vs). if has_prefix k' pre then take 1 vs else []) p)))"

section \<open>Answers\<close>

abbreviation rds_error :: "go_error \<Rightarrow> response" where
  "rds_error e \<equiv> write_aws_error Shape_query_rpc e"

abbreviation rds_fault :: "int \<Rightarrow> string \<Rightarrow> string \<Rightarrow> response" where
  "rds_fault status code msg \<equiv> write_service_error Shape_query_rpc status code msg"

definition rds_not_found :: "string \<Rightarrow> string \<Rightarrow> string \<Rightarrow> response" where
  "rds_not_found code kind name = rds_fault 404 code (kind @ '' '' @ name @ '' not found.'')"

definition rds_tags :: "gomap \<Rightarrow> xml list" where
  "rds_tags tags = tag_list tags (\<lambda>k v. Elem ''Tag'' [leaf ''Key'' k, leaf ''Value'' v])"

definition rds_subnet_group_to_xml :: "rds_subnet_group \<Rightarrow> xml list" where
  "rds_subnet_group_to_xml g =
     [leaf ''DBSubnetGroupName'' (dg_name g), leaf ''DBSubnetGroupDescription'' (dg_description g), leaf ''VpcId'' (dg_vpc g),
      leaf ''SubnetGroupStatus'' ''Complete'',
      Elem ''Subnets'' (map (\<lambda>s. Elem ''Subnet'' [leaf ''SubnetIdentifier'' s]) (dg_subnets g)),
      leaf ''DBSubnetGroupArn'' (dg_arn g)]"

definition rds_param_group_xml :: "rds_parameter_group \<Rightarrow> xml list" where
  "rds_param_group_xml g = [leaf ''DBParameterGroupName'' (dp_name g), leaf ''DBParameterGroupFamily'' (dp_family g),
     leaf ''Description'' (dp_description g), leaf ''DBParameterGroupArn'' (dp_arn g)]"

definition rds_cluster_param_group_xml :: "rds_parameter_group \<Rightarrow> xml list" where
  "rds_cluster_param_group_xml g = [leaf ''DBClusterParameterGroupName'' (dp_name g), leaf ''DBParameterGroupFamily'' (dp_family g),
     leaf ''Description'' (dp_description g), leaf ''DBClusterParameterGroupArn'' (dp_arn g)]"

text \<open>cmp.Or: the first value that is not the zero of its type.\<close>

definition or_text :: "string \<Rightarrow> string \<Rightarrow> string" where
  "or_text s t = (if s = [] then t else s)"

definition or_int :: "int \<Rightarrow> int \<Rightarrow> int" where
  "or_int i j = (if i = 0 then j else i)"

definition rds_default_port :: "string \<Rightarrow> int" where
  "rds_default_port engine = (if str_contains engine ''mysql'' then 3306 else 5432)"

text \<open>The tags of a row that is stored, none for one that is gone.\<close>

definition tags_or_none :: "string \<Rightarrow> tagged_table \<Rightarrow> string \<Rightarrow> db \<Rightarrow> gomap" where
  "tags_or_none account tbl arn d = (case resource_tag_map account tbl arn d of Inl _ \<Rightarrow> [] | Inr tags \<Rightarrow> tags)"

text \<open>A cluster in a state, as stored or "deleting".\<close>

definition rds_cluster_to_xml :: "string \<Rightarrow> string \<Rightarrow> rds_cluster \<Rightarrow> db \<Rightarrow> xml list" where
  "rds_cluster_to_xml status account c d =
     [leaf ''DBClusterIdentifier'' (dc_id c), leaf ''Engine'' (dc_engine c)] @
     leaf_omitempty ''EngineVersion'' (dc_engine_version c) @
     [leaf ''EngineMode'' (or_text (dc_engine_mode c) ''provisioned''), leaf ''Status'' status] @
     leaf_omitempty ''DBSubnetGroup'' (dc_subnet_group c) @
     leaf_omitempty ''DBClusterParameterGroup'' (dc_parameter_group c) @
     leaf_omitempty ''MasterUsername'' (dc_master_username c) @
     leaf_omitempty ''DatabaseName'' (dc_database_name c) @
     [leaf ''Endpoint'' (dc_id c @ ''.cluster.fakeaws.local''), leaf ''ReaderEndpoint'' (dc_id c @ ''.cluster-ro.fakeaws.local''),
      leaf ''Port'' (show_int (or_int (dc_port c) (rds_default_port (dc_engine c)))),
      leaf ''BackupRetentionPeriod'' (show_int (or_int (dc_backup_retention c) 1)),
      leaf ''PreferredBackupWindow'' (or_text (dc_backup_window c) ''07:00-08:00''),
      leaf ''PreferredMaintenanceWindow'' (or_text (dc_maintenance_window c) ''sun:08:00-sun:09:00''),
      leaf ''StorageEncrypted'' (bool_text (dc_storage_encrypted c)), leaf ''CopyTagsToSnapshot'' (bool_text (dc_copy_tags c)),
      leaf ''IAMDatabaseAuthenticationEnabled'' (bool_text (dc_iam_auth c)),
      Elem ''AvailabilityZones'' (map (leaf ''AvailabilityZone'') (dc_zones c)),
      Elem ''VpcSecurityGroups'' (map (\<lambda>g. Elem ''VpcSecurityGroupMembership'' [leaf ''VpcSecurityGroupId'' g, leaf ''Status'' ''active'']) (dc_groups c)),
      leaf ''DeletionProtection'' (bool_text (dc_deletion_protection c)), leaf ''DBClusterArn'' (dc_arn c),
      Elem ''TagList'' (rds_tags (tags_or_none account Tags_RDS_cluster (dc_arn c) d))]"

text \<open>The subnet group an instance names, where it is stored.\<close>

definition instance_subnet_group_xml :: "string \<Rightarrow> rds_instance \<Rightarrow> db \<Rightarrow> xml list" where
  "instance_subnet_group_xml account x d =
     (if di_subnet_group x = [] then []
      else case get_db_subnet_group account (di_region x) (di_subnet_group x) d of
        Inl _ \<Rightarrow> []
      | Inr g \<Rightarrow> [Elem ''DBSubnetGroup'' (rds_subnet_group_to_xml g)])"

definition rds_instance_to_xml :: "string \<Rightarrow> string \<Rightarrow> rds_instance \<Rightarrow> db \<Rightarrow> xml list" where
  "rds_instance_to_xml status account x d =
     [leaf ''DBInstanceIdentifier'' (di_id x), leaf ''DBInstanceClass'' (di_class x), leaf ''Engine'' (di_engine x)] @
     leaf_omitempty ''EngineVersion'' (di_engine_version x) @
     [leaf ''DBInstanceStatus'' status, leaf ''MasterUsername'' (or_text (di_master_username x) ''fakeaws''),
      Elem ''Endpoint'' [leaf ''Address'' (di_id x @ ''.fakeaws.local''), leaf ''Port'' (show_int (or_int (di_port x) 5432))],
      leaf ''AllocatedStorage'' (show_int (or_int (di_storage x) 20)),
      leaf ''StorageType'' (or_text (di_storage_type x) ''gp2''), leaf ''StorageEncrypted'' (bool_text (di_storage_encrypted x))] @
     leaf_omitempty ''InstanceCreateTime'' (di_created_at x) @
     [leaf ''PreferredBackupWindow'' ''07:00-08:00'', leaf ''BackupRetentionPeriod'' (show_int (di_backup_retention x)),
      leaf ''PreferredMaintenanceWindow'' ''sun:08:00-sun:09:00'', leaf ''MultiAZ'' (bool_text (di_multi_az x)),
      leaf ''AvailabilityZone'' (di_region x @ ''a''), leaf ''PubliclyAccessible'' (bool_text (di_public x)),
      leaf ''AutoMinorVersionUpgrade'' ''true'', leaf ''LicenseModel'' ''postgresql-license'',
      leaf ''DbiResourceId'' (dbi_resource_id_for (di_id x)), leaf ''CACertificateIdentifier'' ''rds-ca-rsa2048-g1'',
      leaf ''CopyTagsToSnapshot'' ''false'', leaf ''IAMDatabaseAuthenticationEnabled'' ''false'',
      leaf ''PerformanceInsightsEnabled'' ''false'', leaf ''DeletionProtection'' (bool_text (di_deletion_protection x))] @
     instance_subnet_group_xml account x d @
     leaf_omitempty ''DBClusterIdentifier'' (di_cluster x) @
     leaf_omitempty ''ReadReplicaSourceDBInstanceIdentifier'' (di_source x) @
     [leaf ''DBInstanceArn'' (di_arn x), Elem ''TagList'' (rds_tags (tags_or_none account Tags_RDS_instance (di_arn x) d))]"

text \<open>A create with its tags; what it answers is read from the database it leaves.\<close>

definition rds_created ::
  "string \<Rightarrow> tagged_table \<Rightarrow> string \<Rightarrow> gomap \<Rightarrow> (db \<Rightarrow> go_error option \<times> db) \<Rightarrow> (db \<Rightarrow> response) \<Rightarrow> go_error option \<times> db \<Rightarrow> response \<times> db" where
  "rds_created account tbl arn tags undo ok res =
     (case res of
        (Some e, d) \<Rightarrow> (rds_error e, d)
      | (None, d) \<Rightarrow> (case tag_created account tbl arn tags undo d of
          (Some e, d') \<Rightarrow> (rds_error e, d')
        | (None, d') \<Rightarrow> (ok d', d')))"

definition rds_done :: "string \<Rightarrow> (go_error \<Rightarrow> response) \<Rightarrow> go_error option \<times> db \<Rightarrow> response \<times> db" where
  "rds_done action refuse res = (case res of
       (Some e, d) \<Rightarrow> (refuse e, d)
     | (None, d) \<Rightarrow> (write_query_rpc_nil action, d))"

section \<open>Tags\<close>

text \<open>The resource types that carry tags, by the type segment of their ARN, with the 404 code of each.\<close>

definition rds_tagged_kinds :: "(string \<times> tagged_table \<times> string) list" where
  "rds_tagged_kinds =
     [(''db'', Tags_RDS_instance, ''DBInstanceNotFound''), (''pg'', Tags_RDS_parameter_group, ''DBParameterGroupNotFound''),
      (''subgrp'', Tags_RDS_subnet_group, ''DBSubnetGroupNotFoundFault''), (''cluster'', Tags_RDS_cluster, ''DBClusterNotFoundFault''),
      (''cluster-pg'', Tags_RDS_cluster_param_group, ''DBParameterGroupNotFound'')]"

definition rds_tag_target :: "query_params \<Rightarrow> response + (tagged_table \<times> string) \<times> string" where
  "rds_tag_target p =
     (let arn = form_get p ''ResourceName'';
          refused = mark_class Filter_refused (rds_fault 400 ''InvalidParameterValue'' (''fakeaws does not tag the RDS resource '' @ go_quote arn))
      in case split_n 7 (CHR '':'') arn of
        [_, _, _, _, _, kind, _] \<Rightarrow> (case map_of rds_tagged_kinds kind of Some k \<Rightarrow> Inr (k, arn) | None \<Rightarrow> Inl refused)
      | _ \<Rightarrow> Inl refused)"

definition rds_write_tag_error :: "string \<Rightarrow> string \<Rightarrow> go_error \<Rightarrow> response" where
  "rds_write_tag_error code arn e =
     (if errors_is e ErrNotFound then rds_fault 404 code (arn @ '' not found.'') else rds_error e)"

definition rds_list_tags_for_resource :: "string \<Rightarrow> query_params \<Rightarrow> db \<Rightarrow> response" where
  "rds_list_tags_for_resource account p d =
     (case rds_tag_target p of
        Inl resp \<Rightarrow> resp
      | Inr ((tbl, code), arn) \<Rightarrow> (case resource_tag_map account tbl arn d of
          Inl e \<Rightarrow> rds_write_tag_error code arn e
        | Inr tags \<Rightarrow> write_query_rpc ''ListTagsForResource'' [Elem ''TagList'' (rds_tags tags)]))"

definition rds_add_tags_to_resource :: "string \<Rightarrow> query_params \<Rightarrow> db \<Rightarrow> response \<times> db" where
  "rds_add_tags_to_resource account p d =
     (case rds_tag_target p of
        Inl resp \<Rightarrow> (resp, d)
      | Inr ((tbl, code), arn) \<Rightarrow> rds_done ''AddTagsToResource'' (rds_write_tag_error code arn)
          (tag_resource account tbl arn (query_tags p ''Tags.Tag.'') d))"

definition rds_remove_tags_from_resource :: "string \<Rightarrow> query_params \<Rightarrow> db \<Rightarrow> response \<times> db" where
  "rds_remove_tags_from_resource account p d =
     (case rds_tag_target p of
        Inl resp \<Rightarrow> (resp, d)
      | Inr ((tbl, code), arn) \<Rightarrow> rds_done ''RemoveTagsFromResource'' (rds_write_tag_error code arn)
          (untag_resource account tbl arn (query_list_values p ''TagKeys.member.'') d))"

section \<open>Subnet groups\<close>

definition new_rds_subnet_group :: "env \<Rightarrow> string \<Rightarrow> string \<Rightarrow> query_params \<Rightarrow> rds_subnet_group" where
  "new_rds_subnet_group env account region p =
     (let name = form_get p ''DBSubnetGroupName''
      in \<lparr>dg_name = name, dg_description = form_get p ''DBSubnetGroupDescription'', dg_vpc = [], dg_subnets = parse_subnet_ids p,
          dg_region = region, dg_arn = rds_arn ''subgrp'' region account name, dg_created_at = rfc3339 (e_now env)\<rparr>)"

definition rds_create_db_subnet_group :: "env \<Rightarrow> string \<Rightarrow> string \<Rightarrow> query_params \<Rightarrow> db \<Rightarrow> response \<times> db" where
  "rds_create_db_subnet_group env account region p d =
     (let g = new_rds_subnet_group env account region p; name = dg_name g
      in if name = [] \<or> length (dg_subnets g) < 2 then (rds_error ErrConflict, d)
         else rds_created account Tags_RDS_subnet_group (dg_arn g) (query_tags p ''Tags.Tag.'') (delete_db_subnet_group account region name)
           (\<lambda>d'. case get_db_subnet_group account region name d' of
               Inl _ \<Rightarrow> write_panic
             | Inr got \<Rightarrow> write_query_rpc ''CreateDBSubnetGroup'' [Elem ''DBSubnetGroup'' (rds_subnet_group_to_xml got)])
           (create_db_subnet_group account g d))"

definition rds_describe_db_subnet_groups :: "string \<Rightarrow> string \<Rightarrow> query_params \<Rightarrow> db \<Rightarrow> response" where
  "rds_describe_db_subnet_groups account region p d =
     (let name = form_get p ''DBSubnetGroupName'';
          answer = (\<lambda>xs. write_query_rpc ''DescribeDBSubnetGroups'' [Elem ''DBSubnetGroups'' xs])
      in if name = [] then answer []
         else case get_db_subnet_group account region name d of
           Inl _ \<Rightarrow> rds_not_found ''DBSubnetGroupNotFoundFault'' ''DBSubnetGroup'' name
         | Inr g \<Rightarrow> answer [Elem ''DBSubnetGroup'' (rds_subnet_group_to_xml g)])"

definition rds_delete_db_subnet_group :: "string \<Rightarrow> string \<Rightarrow> query_params \<Rightarrow> db \<Rightarrow> response \<times> db" where
  "rds_delete_db_subnet_group account region p d =
     rds_done ''DeleteDBSubnetGroup'' (\<lambda>e. rds_error e) (delete_db_subnet_group account region (form_get p ''DBSubnetGroupName'') d)"

section \<open>Parameter groups\<close>

definition new_rds_param_group :: "env \<Rightarrow> string \<Rightarrow> string \<Rightarrow> string \<Rightarrow> string \<Rightarrow> query_params \<Rightarrow> rds_parameter_group" where
  "new_rds_param_group env kind account region name p =
     \<lparr>dp_name = name, dp_family = form_get p ''DBParameterGroupFamily'', dp_description = form_get p ''Description'',
      dp_region = region, dp_arn = rds_arn kind region account name, dp_created_at = rfc3339 (e_now env)\<rparr>"

definition rds_create_db_parameter_group :: "env \<Rightarrow> string \<Rightarrow> string \<Rightarrow> query_params \<Rightarrow> db \<Rightarrow> response \<times> db" where
  "rds_create_db_parameter_group env account region p d =
     (let name = form_get p ''DBParameterGroupName''; g = new_rds_param_group env ''pg'' account region name p
      in if name = [] \<or> dp_family g = [] then (rds_error ErrConflict, d)
         else rds_created account Tags_RDS_parameter_group (dp_arn g) (query_tags p ''Tags.Tag.'') (delete_db_parameter_group account region name)
           (\<lambda>_. write_query_rpc ''CreateDBParameterGroup'' [Elem ''DBParameterGroup'' (rds_param_group_xml g)])
           (create_db_parameter_group account g d))"

definition rds_describe_db_parameter_groups :: "string \<Rightarrow> string \<Rightarrow> query_params \<Rightarrow> db \<Rightarrow> response" where
  "rds_describe_db_parameter_groups account region p d =
     (let name = form_get p ''DBParameterGroupName'';
          answer = (\<lambda>xs. write_query_rpc ''DescribeDBParameterGroups'' [Elem ''DBParameterGroups'' xs])
      in if name = [] then answer []
         else case get_db_parameter_group account region name d of
           Inl _ \<Rightarrow> rds_not_found ''DBParameterGroupNotFound'' ''DBParameterGroup'' name
         | Inr g \<Rightarrow> answer [Elem ''DBParameterGroup'' (rds_param_group_xml g)])"

definition rds_delete_db_parameter_group :: "string \<Rightarrow> string \<Rightarrow> query_params \<Rightarrow> db \<Rightarrow> response \<times> db" where
  "rds_delete_db_parameter_group account region p d =
     (let name = form_get p ''DBParameterGroupName''
      in rds_done ''DeleteDBParameterGroup''
           (\<lambda>e. if errors_is e ErrInUse
                 then rds_fault 400 ''InvalidDBParameterGroupState''
                   (''One or more database instances are still members of parameter group '' @ name @ ''.'')
                 else rds_error e)
           (delete_db_parameter_group account region name d))"

definition rds_write_cluster_param_group_not_found :: "string \<Rightarrow> response" where
  "rds_write_cluster_param_group_not_found name = rds_not_found ''DBParameterGroupNotFound'' ''DBClusterParameterGroup'' name"

definition rds_create_db_cluster_parameter_group :: "env \<Rightarrow> string \<Rightarrow> string \<Rightarrow> query_params \<Rightarrow> db \<Rightarrow> response \<times> db" where
  "rds_create_db_cluster_parameter_group env account region p d =
     (let name = form_get p ''DBClusterParameterGroupName''; g = new_rds_param_group env ''cluster-pg'' account region name p
      in if name = [] \<or> dp_family g = [] then (rds_error ErrConflict, d)
         else rds_created account Tags_RDS_cluster_param_group (dp_arn g) (query_tags p ''Tags.Tag.'')
           (delete_db_cluster_parameter_group account region name)
           (\<lambda>_. write_query_rpc ''CreateDBClusterParameterGroup'' [Elem ''DBClusterParameterGroup'' (rds_cluster_param_group_xml g)])
           (create_db_cluster_parameter_group account g d))"

definition rds_describe_db_cluster_parameter_groups :: "string \<Rightarrow> string \<Rightarrow> query_params \<Rightarrow> db \<Rightarrow> response" where
  "rds_describe_db_cluster_parameter_groups account region p d =
     (let name = form_get p ''DBClusterParameterGroupName'';
          answer = (\<lambda>xs. write_query_rpc ''DescribeDBClusterParameterGroups'' [Elem ''DBClusterParameterGroups'' xs])
      in if name = [] then answer []
         else case get_db_cluster_parameter_group account region name d of
           Inl _ \<Rightarrow> rds_write_cluster_param_group_not_found name
         | Inr g \<Rightarrow> answer [Elem ''DBClusterParameterGroup'' (rds_cluster_param_group_xml g)])"

definition rds_delete_db_cluster_parameter_group :: "string \<Rightarrow> string \<Rightarrow> query_params \<Rightarrow> db \<Rightarrow> response \<times> db" where
  "rds_delete_db_cluster_parameter_group account region p d =
     (let name = form_get p ''DBClusterParameterGroupName''
      in rds_done ''DeleteDBClusterParameterGroup''
           (\<lambda>e. if errors_is e ErrInUse
                 then rds_fault 400 ''InvalidDBParameterGroupState''
                   (''One or more DB clusters are still members of parameter group '' @ name @ ''.'')
                 else if errors_is e ErrNotFound then rds_write_cluster_param_group_not_found name
                 else rds_error e)
           (delete_db_cluster_parameter_group account region name d))"

definition rds_describe_db_cluster_parameters :: "string \<Rightarrow> string \<Rightarrow> query_params \<Rightarrow> db \<Rightarrow> response" where
  "rds_describe_db_cluster_parameters account region p d =
     (let name = form_get p ''DBClusterParameterGroupName''
      in case get_db_cluster_parameter_group account region name d of
           Inl _ \<Rightarrow> rds_write_cluster_param_group_not_found name
         | Inr _ \<Rightarrow> write_query_rpc ''DescribeDBClusterParameters'' [Elem ''Parameters'' []])"

section \<open>Clusters\<close>

definition is_true :: "query_params \<Rightarrow> string \<Rightarrow> bool" where
  "is_true p k \<longleftrightarrow> form_get p k = ''true''"

definition atoi_or_zero :: "query_params \<Rightarrow> string \<Rightarrow> int" where
  "atoi_or_zero p k = atoi_value (form_get p k)"

definition new_rds_cluster :: "env \<Rightarrow> string \<Rightarrow> string \<Rightarrow> query_params \<Rightarrow> rds_cluster" where
  "new_rds_cluster env account region p =
     (let i = form_get p ''DBClusterIdentifier''
      in \<lparr>dc_id = i, dc_engine = form_get p ''Engine'', dc_engine_version = form_get p ''EngineVersion'',
          dc_subnet_group = form_get p ''DBSubnetGroupName'', dc_parameter_group = form_get p ''DBClusterParameterGroupName'',
          dc_master_username = form_get p ''MasterUsername'', dc_deletion_protection = is_true p ''DeletionProtection'',
          dc_state = [], dc_region = region, dc_arn = rds_arn ''cluster'' region account i, dc_created_at = rfc3339 (e_now env),
          dc_engine_mode = form_get p ''EngineMode'', dc_port = atoi_or_zero p ''Port'',
          dc_backup_retention = atoi_or_zero p ''BackupRetentionPeriod'', dc_backup_window = form_get p ''PreferredBackupWindow'',
          dc_maintenance_window = form_get p ''PreferredMaintenanceWindow'', dc_database_name = form_get p ''DatabaseName'',
          dc_storage_encrypted = is_true p ''StorageEncrypted'', dc_copy_tags = is_true p ''CopyTagsToSnapshot'',
          dc_iam_auth = is_true p ''EnableIAMDatabaseAuthentication'',
          dc_zones = query_list_values p ''AvailabilityZones.AvailabilityZone.'',
          dc_groups = query_list_values p ''VpcSecurityGroupIds.VpcSecurityGroupId.''\<rparr>)"

definition rds_create_db_cluster :: "env \<Rightarrow> string \<Rightarrow> string \<Rightarrow> query_params \<Rightarrow> db \<Rightarrow> response \<times> db" where
  "rds_create_db_cluster env account region p d =
     (let c = new_rds_cluster env account region p
      in if dc_id c = [] \<or> dc_engine c = [] then (rds_error ErrConflict, d)
         else rds_created account Tags_RDS_cluster (dc_arn c) (query_tags p ''Tags.Tag.'') (delete_db_cluster account region (dc_id c))
           (\<lambda>d'. write_query_rpc ''CreateDBCluster'' [Elem ''DBCluster'' (rds_cluster_to_xml (or_available (dc_state c)) account c d')])
           (create_db_cluster account c d))"

definition rds_write_cluster_not_found :: "string \<Rightarrow> response" where
  "rds_write_cluster_not_found i = rds_not_found ''DBClusterNotFoundFault'' ''DBCluster'' i"

definition rds_describe_db_clusters :: "string \<Rightarrow> string \<Rightarrow> query_params \<Rightarrow> db \<Rightarrow> response" where
  "rds_describe_db_clusters account region p d =
     (let i = form_get p ''DBClusterIdentifier'';
          answer = (\<lambda>xs. write_query_rpc ''DescribeDBClusters'' [Elem ''DBClusters'' xs])
      in if i = [] then answer []
         else case get_db_cluster account region i d of
           Inl _ \<Rightarrow> rds_write_cluster_not_found i
         | Inr c \<Rightarrow> answer [Elem ''DBCluster'' (rds_cluster_to_xml (dc_state c) account c d)])"

text \<open>The answer is made before the delete, so it still shows the tags.\<close>

definition rds_delete_db_cluster :: "string \<Rightarrow> string \<Rightarrow> query_params \<Rightarrow> db \<Rightarrow> response \<times> db" where
  "rds_delete_db_cluster account region p d =
     (let i = form_get p ''DBClusterIdentifier''
      in case get_db_cluster account region i d of
           Inl _ \<Rightarrow> (rds_write_cluster_not_found i, d)
         | Inr c \<Rightarrow> (case delete_db_cluster account region i d of
             (Some e, d') \<Rightarrow> (rds_error e, d')
           | (None, d') \<Rightarrow> (write_query_rpc ''DeleteDBCluster'' [Elem ''DBCluster'' (rds_cluster_to_xml ''deleting'' account c d)], d')))"

section \<open>Instances\<close>

definition new_rds_instance :: "env \<Rightarrow> string \<Rightarrow> string \<Rightarrow> query_params \<Rightarrow> rds_instance" where
  "new_rds_instance env account region p =
     (let i = form_get p ''DBInstanceIdentifier''
      in \<lparr>di_id = i, di_engine = form_get p ''Engine'', di_engine_version = form_get p ''EngineVersion'',
          di_class = form_get p ''DBInstanceClass'', di_subnet_group = form_get p ''DBSubnetGroupName'',
          di_cluster = form_get p ''DBClusterIdentifier'', di_parameter_group = form_get p ''DBParameterGroupName'',
          di_source = form_get p ''ReplicateSourceDB'', di_deletion_protection = is_true p ''DeletionProtection'',
          di_skip_snapshot = (form_get p ''SkipFinalSnapshot'' \<noteq> ''false''), di_state = [], di_region = region,
          di_arn = rds_arn ''db'' region account i, di_created_at = rfc3339 (e_now env),
          di_master_username = form_get p ''MasterUsername'', di_storage = atoi_or_zero p ''AllocatedStorage'',
          di_storage_type = form_get p ''StorageType'', di_storage_encrypted = is_true p ''StorageEncrypted'',
          di_multi_az = is_true p ''MultiAZ'', di_port = atoi_or_zero p ''Port'', di_public = is_true p ''PubliclyAccessible'',
          di_backup_retention = atoi_or_zero p ''BackupRetentionPeriod''\<rparr>)"

definition rds_create_db_instance :: "env \<Rightarrow> string \<Rightarrow> string \<Rightarrow> query_params \<Rightarrow> db \<Rightarrow> response \<times> db" where
  "rds_create_db_instance env account region p d =
     (let x = new_rds_instance env account region p; i = di_id x
      in if i = [] \<or> di_engine x = [] \<or> di_class x = [] then (rds_error ErrConflict, d)
         else rds_created account Tags_RDS_instance (di_arn x) (query_tags p ''Tags.Tag.'') (delete_db_instance account region i)
           (\<lambda>d'. case get_db_instance account region i d' of
               Inl _ \<Rightarrow> write_panic
             | Inr got \<Rightarrow> write_query_rpc ''CreateDBInstance'' [Elem ''DBInstance'' (rds_instance_to_xml (di_state got) account got d')])
           (create_db_instance account x d))"

definition rds_write_instance_not_found :: "string \<Rightarrow> response" where
  "rds_write_instance_not_found i = rds_not_found ''DBInstanceNotFound'' ''DBInstance'' i"

definition rds_describe_db_instances :: "string \<Rightarrow> string \<Rightarrow> query_params \<Rightarrow> db \<Rightarrow> response" where
  "rds_describe_db_instances account region p d =
     (let i = form_get p ''DBInstanceIdentifier''; want = parse_rds_filter p ''dbi-resource-id'';
          xml = (\<lambda>x. Elem ''DBInstance'' (rds_instance_to_xml (di_state x) account x d));
          answer = (\<lambda>xs. write_query_rpc ''DescribeDBInstances'' [Elem ''DBInstances'' (map xml xs)]);
          all = list_db_instances account region d
      in if i \<noteq> [] then (case get_db_instance account region i d of Inl _ \<Rightarrow> rds_write_instance_not_found i | Inr x \<Rightarrow> answer [x])
         else if want \<noteq> [] then
           (let found = filter (\<lambda>x. dbi_resource_id_for (di_id x) \<in> set want) all
            in if found = [] then rds_write_instance_not_found (hd want) else answer found)
         else answer all)"

text \<open>The answer is made after the delete, from the row read before it: no tag is left to show.\<close>

definition rds_delete_db_instance :: "string \<Rightarrow> string \<Rightarrow> query_params \<Rightarrow> db \<Rightarrow> response \<times> db" where
  "rds_delete_db_instance account region p d =
     (let i = form_get p ''DBInstanceIdentifier''
      in case get_db_instance account region i d of
           Inl e \<Rightarrow> (rds_error e, d)
         | Inr x \<Rightarrow> (case delete_db_instance account region i d of
             (Some e, d') \<Rightarrow> (rds_error e, d')
           | (None, d') \<Rightarrow> (write_query_rpc ''DeleteDBInstance'' [Elem ''DBInstance'' (rds_instance_to_xml ''deleting'' account x d')], d')))"

definition rds_modify_db_instance :: "string \<Rightarrow> string \<Rightarrow> query_params \<Rightarrow> db \<Rightarrow> response" where
  "rds_modify_db_instance account region p d =
     (let i = form_get p ''DBInstanceIdentifier''
      in if i = [] then rds_error ErrConflict
         else case get_db_instance account region i d of
           Inl e \<Rightarrow> rds_error e
         | Inr x \<Rightarrow> write_query_rpc ''ModifyDBInstance'' [Elem ''DBInstance'' (rds_instance_to_xml (di_state x) account x d)])"

section \<open>The dispatcher\<close>

text \<open>The actions that only read, None for any other.\<close>

definition rds_reads :: "string \<Rightarrow> string \<Rightarrow> string \<Rightarrow> query_params \<Rightarrow> db \<Rightarrow> response option" where
  "rds_reads account region action p d =
     (if action = ''DescribeDBSubnetGroups'' then Some (rds_describe_db_subnet_groups account region p d)
      else if action = ''DescribeDBParameterGroups'' then Some (rds_describe_db_parameter_groups account region p d)
      else if action = ''DescribeDBClusterParameterGroups'' then Some (rds_describe_db_cluster_parameter_groups account region p d)
      else if action = ''DescribeDBClusterParameters'' then Some (rds_describe_db_cluster_parameters account region p d)
      else if action = ''DescribeDBClusters'' then Some (rds_describe_db_clusters account region p d)
      else if action = ''DescribeGlobalClusters'' then Some (write_query_rpc ''DescribeGlobalClusters'' [Elem ''GlobalClusters'' []])
      else if action = ''DescribeDBInstances'' then Some (rds_describe_db_instances account region p d)
      else if action = ''ModifyDBInstance'' then Some (rds_modify_db_instance account region p d)
      else if action = ''ListTagsForResource'' then Some (rds_list_tags_for_resource account p d)
      else if action = ''DescribeDBParameters'' then Some (write_query_rpc ''DescribeDBParameters'' [Elem ''Parameters'' []])
      else None)"

definition rds_writes :: "env \<Rightarrow> string \<Rightarrow> string \<Rightarrow> string \<Rightarrow> query_params \<Rightarrow> db \<Rightarrow> response \<times> db" where
  "rds_writes env account region action p d =
     (if action = ''CreateDBSubnetGroup'' then rds_create_db_subnet_group env account region p d
      else if action = ''DeleteDBSubnetGroup'' then rds_delete_db_subnet_group account region p d
      else if action = ''CreateDBParameterGroup'' then rds_create_db_parameter_group env account region p d
      else if action = ''DeleteDBParameterGroup'' then rds_delete_db_parameter_group account region p d
      else if action = ''CreateDBClusterParameterGroup'' then rds_create_db_cluster_parameter_group env account region p d
      else if action = ''DeleteDBClusterParameterGroup'' then rds_delete_db_cluster_parameter_group account region p d
      else if action = ''CreateDBCluster'' then rds_create_db_cluster env account region p d
      else if action = ''DeleteDBCluster'' then rds_delete_db_cluster account region p d
      else if action = ''CreateDBInstance'' then rds_create_db_instance env account region p d
      else if action = ''DeleteDBInstance'' then rds_delete_db_instance account region p d
      else if action = ''AddTagsToResource'' then rds_add_tags_to_resource account p d
      else if action = ''RemoveTagsFromResource'' then rds_remove_tags_from_resource account p d
      else (mark_class Not_modelled_404 (rds_error ErrNotFound), d))"

definition handle_rds :: "env \<Rightarrow> string \<Rightarrow> request \<Rightarrow> db \<Rightarrow> response \<times> db" where
  "handle_rds env region r d =
     (case parse_query_rpc r of
        Inl _ \<Rightarrow> (rds_error ErrConflict, d)
      | Inr q \<Rightarrow>
          (case rds_reads (account_id d) region (qr_action q) (qr_params q) d of
             Some resp \<Rightarrow> (resp, d)
           | None \<Rightarrow> rds_writes env (account_id d) region (qr_action q) (qr_params q) d))"

text \<open>The RDS block of /mock/state.\<close>

definition param_group_state :: "rds_parameter_group \<Rightarrow> json" where
  "param_group_state g = JObj [(''name'', JStr (dp_name g)), (''family'', JStr (dp_family g)), (''region'', JStr (dp_region g)), (''arn'', JStr (dp_arn g))]"

definition gather_rds_state :: "string \<Rightarrow> db \<Rightarrow> json" where
  "gather_rds_state account d = JObj
     [(''db_instances'', JArr (map (\<lambda>x. JObj [(''id'', JStr (di_id x)), (''engine'', JStr (di_engine x)), (''instance_class'', JStr (di_class x)),
         (''subnet_group_name'', JStr (di_subnet_group x)), (''replicate_source_db'', JStr (di_source x)), (''state'', JStr (di_state x)),
         (''region'', JStr (di_region x)), (''arn'', JStr (di_arn x))]) (list_db_instances account [] d))),
      (''db_subnet_groups'', JArr (map (\<lambda>g. JObj [(''name'', JStr (dg_name g)), (''vpc_id'', JStr (dg_vpc g)),
         (''subnet_ids'', json_strings (dg_subnets g)), (''region'', JStr (dg_region g)), (''arn'', JStr (dg_arn g))]) (list_db_subnet_groups account d))),
      (''db_parameter_groups'', JArr (map param_group_state (list_db_parameter_groups account d))),
      (''db_cluster_parameter_groups'', JArr (map param_group_state (list_db_cluster_parameter_groups account d))),
      (''db_clusters'', JArr (map (\<lambda>c. JObj [(''id'', JStr (dc_id c)), (''engine'', JStr (dc_engine c)), (''engine_version'', JStr (dc_engine_version c)),
         (''state'', JStr (dc_state c)), (''region'', JStr (dc_region c)), (''arn'', JStr (dc_arn c))]) (list_db_clusters account [] d)))]"

end
