(* ===== verification/RdsProps.thy ===== *)
theory RdsProps
  imports Rds
begin

text \<open>
  What RDS's requests keep and guarantee: references between the tables, the rows' shape, protected clusters and
  instances, and what a create and a delete answer.
\<close>

section \<open>The invariant\<close>

definition names_ref :: "('a \<Rightarrow> string) \<Rightarrow> 'a owned \<Rightarrow> bool" where
  "names_ref ref r \<longleftrightarrow> ref (ow_data r) \<noteq> []"

definition ref_key :: "('a \<Rightarrow> string) \<Rightarrow> ('a \<Rightarrow> string) \<Rightarrow> 'a owned \<Rightarrow> string \<times> string \<times> string" where
  "ref_key reg ref = owned_pk (\<lambda>x. (reg x, ref x))"

lemma holds_ref_iff: "holds_ref reg ref k r \<longleftrightarrow> names_ref ref r \<and> ref_key reg ref r = k"
  by (simp add: holds_ref_def names_ref_def ref_key_def)

text \<open>Every row of a table that names a row of another names a stored one.\<close>

definition refs_to :: "('a \<Rightarrow> string) \<Rightarrow> ('a \<Rightarrow> string) \<Rightarrow> 'a owned list \<Rightarrow> ('b owned \<Rightarrow> string \<times> string \<times> string) \<Rightarrow> 'b owned list \<Rightarrow> bool" where
  "refs_to reg ref xs key ys \<longleftrightarrow> refs (ref_key reg ref) (filter (names_ref ref) xs) key ys"

definition subnet_group_ok :: "rds_subnet_group owned \<Rightarrow> bool" where
  "subnet_group_ok r \<longleftrightarrow> (let g = ow_data r in dg_name g \<noteq> [] \<and> 2 \<le> length (dg_subnets g) \<and>
     dg_arn g = rds_arn ''subgrp'' (dg_region g) (ow_account r) (dg_name g))"

definition param_group_ok :: "string \<Rightarrow> rds_parameter_group owned \<Rightarrow> bool" where
  "param_group_ok kind r \<longleftrightarrow> (let g = ow_data r in dp_name g \<noteq> [] \<and> dp_family g \<noteq> [] \<and>
     dp_arn g = rds_arn kind (dp_region g) (ow_account r) (dp_name g))"

definition db_cluster_ok :: "rds_cluster owned \<Rightarrow> bool" where
  "db_cluster_ok r \<longleftrightarrow> (let c = ow_data r in dc_id c \<noteq> [] \<and> dc_engine c \<noteq> [] \<and> dc_state c = ''available'' \<and>
     dc_arn c = rds_arn ''cluster'' (dc_region c) (ow_account r) (dc_id c))"

definition db_instance_ok :: "rds_instance owned \<Rightarrow> bool" where
  "db_instance_ok r \<longleftrightarrow> (let x = ow_data r in di_id x \<noteq> [] \<and> di_engine x \<noteq> [] \<and> di_class x \<noteq> [] \<and> di_state x = ''available'' \<and>
     di_arn x = rds_arn ''db'' (di_region x) (ow_account r) (di_id x))"

definition rds_rows_ok :: "rds_db \<Rightarrow> bool" where
  "rds_rows_ok t \<longleftrightarrow> (\<forall>r\<in>set (rds_subnet_groups t). subnet_group_ok r) \<and> (\<forall>r\<in>set (rds_parameter_groups t). param_group_ok ''pg'' r) \<and>
     (\<forall>r\<in>set (rds_cluster_parameter_groups t). param_group_ok ''cluster-pg'' r) \<and> (\<forall>r\<in>set (rds_clusters t). db_cluster_ok r) \<and>
     (\<forall>r\<in>set (rds_instances t). db_instance_ok r)"

definition rds_refs_ok :: "rds_db \<Rightarrow> bool" where
  "rds_refs_ok t \<longleftrightarrow>
     refs_to dc_region dc_subnet_group (rds_clusters t) rds_subnet_group_pk (rds_subnet_groups t) \<and>
     refs_to dc_region dc_parameter_group (rds_clusters t) rds_parameter_group_pk (rds_cluster_parameter_groups t) \<and>
     refs_to di_region di_subnet_group (rds_instances t) rds_subnet_group_pk (rds_subnet_groups t) \<and>
     refs_to di_region di_cluster (rds_instances t) rds_cluster_pk (rds_clusters t) \<and>
     refs_to di_region di_parameter_group (rds_instances t) rds_parameter_group_pk (rds_parameter_groups t) \<and>
     refs_to di_region di_source (rds_instances t) rds_instance_pk (rds_instances t)"

definition rds_wf :: "rds_db \<Rightarrow> bool" where
  "rds_wf t \<longleftrightarrow> rds_keys_ok t \<and> rds_rows_ok t \<and> rds_refs_ok t"

lemmas rds_wf_defs = rds_wf_def rds_keys_ok_def rds_rows_ok_def rds_refs_ok_def

lemma rds_wf_empty [simp]: "rds_wf empty_rds_db"
  by (simp add: rds_wf_defs refs_to_def)

text \<open>The protected rows of one state that the other still has, unchanged.\<close>

definition protected_kept :: "rds_db \<Rightarrow> rds_db \<Rightarrow> bool" where
  "protected_kept t t' \<longleftrightarrow> (\<forall>r\<in>set (rds_clusters t). dc_deletion_protection (ow_data r) \<longrightarrow> r \<in> set (rds_clusters t')) \<and>
     (\<forall>r\<in>set (rds_instances t). di_deletion_protection (ow_data r) \<longrightarrow> r \<in> set (rds_instances t'))"

lemma protected_kept_refl [simp]: "protected_kept t t"
  by (simp add: protected_kept_def)

lemma protected_kept_trans: "protected_kept t t1 \<Longrightarrow> protected_kept t1 t2 \<Longrightarrow> protected_kept t t2"
  by (auto simp: protected_kept_def)

definition rds_rest :: "db \<Rightarrow> db" where
  "rds_rest d = d\<lparr>rds_tbls := empty_rds_db, resource_tags := []\<rparr>"

definition rds_keeps :: "db \<Rightarrow> db \<Rightarrow> bool" where
  "rds_keeps d d' \<longleftrightarrow> rds_rest d' = rds_rest d \<and>
     (rds_wf (rds_tbls d) \<longrightarrow> rds_wf (rds_tbls d') \<and> protected_kept (rds_tbls d) (rds_tbls d')) \<and>
     (pk tag_pk (resource_tags d) \<longrightarrow> pk tag_pk (resource_tags d'))"

lemma rds_keeps_refl [simp]: "rds_keeps d d"
  by (simp add: rds_keeps_def)

lemma rds_keeps_trans: "rds_keeps d d1 \<Longrightarrow> rds_keeps d1 d2 \<Longrightarrow> rds_keeps d d2"
  by (auto simp: rds_keeps_def intro: protected_kept_trans)

lemma rds_keeps_tags: "(pk tag_pk (resource_tags d) \<Longrightarrow> pk tag_pk t) \<Longrightarrow> rds_keeps d (d\<lparr>resource_tags := t\<rparr>)"
  by (simp add: rds_keeps_def rds_rest_def)

lemma rds_keeps_tbls:
  assumes "rds_wf (rds_tbls d) \<Longrightarrow> rds_wf t" and "rds_wf (rds_tbls d) \<Longrightarrow> protected_kept (rds_tbls d) t"
  shows "rds_keeps d (d\<lparr>rds_tbls := t\<rparr>)"
  using assms by (simp add: rds_keeps_def rds_rest_def)

lemma rds_keeps_drop: "rds_keeps d d' \<Longrightarrow> rds_keeps d (drop_tags_of p arn t d')"
  unfolding drop_tags_of_eq by (rule rds_keeps_trans) (auto intro!: rds_keeps_tags pk_delete)

section \<open>The references under the statements\<close>

lemma refs_to_insert_parent: "refs_to reg ref xs key ys \<Longrightarrow> refs_to reg ref xs key (ys @ [y])"
  unfolding refs_to_def by (rule refs_insert_parent)

lemma refs_to_insert_child:
  "refs_to reg ref xs key ys \<Longrightarrow> ref_ok key (ow_account x) (reg (ow_data x)) (ref (ow_data x)) ys \<Longrightarrow> refs_to reg ref (xs @ [x]) key ys"
  unfolding refs_to_def refs_filter_snoc by (auto simp: ref_ok_def names_ref_def ref_key_def owned_pk_def)

lemma refs_to_delete_child: "refs_to reg ref xs key ys \<Longrightarrow> refs_to reg ref (sql_delete p xs) key ys"
  unfolding refs_to_def by (erule refs_sub) auto

lemma refs_to_delete_parent:
  assumes "refs_to reg ref xs key ys" and "\<not> (\<exists>r\<in>set xs. holds_ref reg ref k r)"
  shows "refs_to reg ref xs key (sql_delete (\<lambda>y. key y = k) ys)"
  unfolding refs_to_def
proof (rule refs_delete_parent)
  show "refs (ref_key reg ref) (filter (names_ref ref) xs) key ys" using assms(1) by (simp add: refs_to_def)
  show "key y \<noteq> k" if "x \<in> set (filter (names_ref ref) xs)" "key y = ref_key reg ref x" for x y
    using assms(2) that by (auto simp: holds_ref_iff)
qed

lemma refs_to_unstored:
  assumes "refs_to reg ref xs key ys" and "\<not> has_key key k ys" and "x \<in> set xs"
  shows "\<not> holds_ref reg ref k x"
proof
  assume "holds_ref reg ref k x"
  then have "x \<in> set (filter (names_ref ref) xs)" and k: "ref_key reg ref x = k" using assms(3) by (simp_all add: holds_ref_iff)
  then obtain y where "y \<in> set ys" "key y = k" using refsD [OF assms(1) [unfolded refs_to_def]] by blast
  with assms(2) show False by (auto simp: has_key_def)
qed

lemmas refs_to_intros = refs_to_insert_parent refs_to_insert_child refs_to_delete_child refs_to_delete_parent

section \<open>Every statement keeps the invariant\<close>

lemma insert_owned_Inr:
  "insert_owned key fk a x t = Inr t' \<longleftrightarrow> \<not> has_key key (key \<lparr>ow_account = a, ow_data = x\<rparr>) t \<and> fk \<and> t' = t @ [\<lparr>ow_account = a, ow_data = x\<rparr>]"
  by (auto simp: insert_owned_cases)

lemma delete_owned_cases:
  "delete_owned key k held t = (if \<not> has_key key k t then Inl ErrNotFound else if held then Inl ErrInUse
     else Inr (sql_delete (\<lambda>r. key r = k) t))"
  by (simp add: delete_owned_def affected_has_key del: sql_text.simps)

lemma rds_keeps_create_subnet_group:
  assumes "dg_name g \<noteq> []" "2 \<le> length (dg_subnets g)" "dg_arn g = rds_arn ''subgrp'' (dg_region g) a (dg_name g)"
  shows "rds_keeps d (snd (create_db_subnet_group a g d))"
proof -
  have "subnet_group_ok \<lparr>ow_account = a, ow_data = g\<lparr>dg_vpc := v\<rparr>\<rparr>" for v using assms by (simp add: subnet_group_ok_def)
  then show ?thesis
    by (auto simp: create_db_subnet_group_def Let_def insert_owned_Inr rds_wf_defs pk_snoc protected_kept_def
        split: sum.split intro!: rds_keeps_tbls refs_to_insert_parent)
qed

lemma rds_keeps_create_parameter_group:
  assumes "dp_name g \<noteq> []" "dp_family g \<noteq> []" "dp_arn g = rds_arn ''pg'' (dp_region g) a (dp_name g)"
  shows "rds_keeps d (snd (create_db_parameter_group a g d))"
proof -
  have "param_group_ok ''pg'' \<lparr>ow_account = a, ow_data = g\<rparr>" using assms by (simp add: param_group_ok_def)
  then show ?thesis
    by (auto simp: create_db_parameter_group_def Let_def insert_owned_Inr rds_wf_defs pk_snoc protected_kept_def
        split: sum.split intro!: rds_keeps_tbls refs_to_insert_parent)
qed

lemma rds_keeps_create_cluster_parameter_group:
  assumes "dp_name g \<noteq> []" "dp_family g \<noteq> []" "dp_arn g = rds_arn ''cluster-pg'' (dp_region g) a (dp_name g)"
  shows "rds_keeps d (snd (create_db_cluster_parameter_group a g d))"
proof -
  have "param_group_ok ''cluster-pg'' \<lparr>ow_account = a, ow_data = g\<rparr>" using assms by (simp add: param_group_ok_def)
  then show ?thesis
    by (auto simp: create_db_cluster_parameter_group_def Let_def insert_owned_Inr rds_wf_defs pk_snoc protected_kept_def
        split: sum.split intro!: rds_keeps_tbls refs_to_insert_parent)
qed

lemma rds_wf_add_cluster:
  assumes "rds_wf t" and "db_cluster_ok \<lparr>ow_account = a, ow_data = c\<rparr>" and "cluster_refs_ok a c t"
    and "\<not> has_key rds_cluster_pk (rds_cluster_pk \<lparr>ow_account = a, ow_data = c\<rparr>) (rds_clusters t)"
  shows "rds_wf (t\<lparr>rds_clusters := rds_clusters t @ [\<lparr>ow_account = a, ow_data = c\<rparr>]\<rparr>)"
  using assms by (simp add: rds_wf_defs pk_snoc refs_to_insert_parent refs_to_insert_child cluster_refs_ok_def)

lemma rds_keeps_create_cluster:
  assumes "dc_id c \<noteq> []" "dc_engine c \<noteq> []" "dc_state c = []" "dc_arn c = rds_arn ''cluster'' (dc_region c) a (dc_id c)"
  shows "rds_keeps d (snd (create_db_cluster a c d))"
proof -
  let ?c = "c\<lparr>dc_state := or_available (dc_state c)\<rparr>"
  have "db_cluster_ok \<lparr>ow_account = a, ow_data = ?c\<rparr>" using assms by (simp add: db_cluster_ok_def or_available_def)
  moreover have "cluster_refs_ok a c t = cluster_refs_ok a ?c t" for t by (simp add: cluster_refs_ok_def)
  ultimately show ?thesis
    by (auto simp: create_db_cluster_def Let_def insert_owned_Inr protected_kept_def
        split: sum.split option.split intro!: rds_keeps_tbls rds_wf_add_cluster)
qed

lemma rds_wf_add_instance:
  assumes "rds_wf t" and "db_instance_ok \<lparr>ow_account = a, ow_data = x\<rparr>" and "instance_refs_ok a x t"
    and "\<not> has_key rds_instance_pk (rds_instance_pk \<lparr>ow_account = a, ow_data = x\<rparr>) (rds_instances t)"
  shows "rds_wf (t\<lparr>rds_instances := rds_instances t @ [\<lparr>ow_account = a, ow_data = x\<rparr>]\<rparr>)"
  using assms by (simp add: rds_wf_defs pk_snoc refs_to_insert_parent refs_to_insert_child instance_refs_ok_def)

lemma rds_keeps_create_instance:
  assumes "di_id x \<noteq> []" "di_engine x \<noteq> []" "di_class x \<noteq> []" "di_state x = []" "di_arn x = rds_arn ''db'' (di_region x) a (di_id x)"
  shows "rds_keeps d (snd (create_db_instance a x d))"
proof -
  let ?x = "x\<lparr>di_state := or_available (di_state x)\<rparr>"
  have "db_instance_ok \<lparr>ow_account = a, ow_data = ?x\<rparr>" using assms by (simp add: db_instance_ok_def or_available_def)
  moreover have "instance_refs_ok a x t = instance_refs_ok a ?x t" for t by (simp add: instance_refs_ok_def)
  ultimately show ?thesis
    by (auto simp: create_db_instance_def Let_def insert_owned_Inr protected_kept_def
        split: sum.split option.split intro!: rds_keeps_tbls rds_wf_add_instance)
qed

lemma rds_keeps_delete_groups:
  "rds_keeps d (snd (delete_db_subnet_group a region n d))"
  "rds_keeps d (snd (delete_db_parameter_group a region n d))"
  "rds_keeps d (snd (delete_db_cluster_parameter_group a region n d))"
proof -
  show "rds_keeps d (snd (delete_db_subnet_group a region n d))"
    by (auto simp: delete_db_subnet_group_def Let_def delete_owned_cases subnet_group_held_def rds_wf_defs protected_kept_def pk_delete
        intro!: rds_keeps_drop rds_keeps_tbls refs_to_delete_parent)
  show "rds_keeps d (snd (delete_db_parameter_group a region n d))"
    by (auto simp: delete_db_parameter_group_def Let_def delete_owned_cases parameter_group_held_def rds_wf_defs protected_kept_def pk_delete
        intro!: rds_keeps_drop rds_keeps_tbls refs_to_delete_parent)
  show "rds_keeps d (snd (delete_db_cluster_parameter_group a region n d))"
    by (auto simp: delete_db_cluster_parameter_group_def Let_def delete_owned_cases cluster_parameter_group_held_def rds_wf_defs
        protected_kept_def pk_delete intro!: rds_keeps_drop rds_keeps_tbls refs_to_delete_parent)
qed

text \<open>A row that another statement found unprotected is the one it deletes.\<close>

lemma other_rows_kept:
  assumes "pk key t" and "get_owned key k t = Inr x" and "\<not> p x" and "r \<in> set t" and "p (ow_data r)"
  shows "r \<in> set (sql_delete (\<lambda>r. key r = k) t)"
  using assms get_owned_row [OF assms(1,4)] by auto

lemma rds_keeps_delete_cluster: "rds_keeps d (snd (delete_db_cluster a region i d))"
proof (cases "get_db_cluster a region i d")
  case (Inr c)
  let ?t = "rds_tbls d" and ?k = "(a, region, i)"
  let ?t' = "?t\<lparr>rds_clusters := sql_delete (\<lambda>r. rds_cluster_pk r = ?k) (rds_clusters ?t)\<rparr>"
  have "rds_keeps d (d\<lparr>rds_tbls := ?t'\<rparr>)" if "\<not> dc_deletion_protection c" "\<not> db_cluster_held ?k ?t"
  proof (rule rds_keeps_tbls)
    show "rds_wf ?t'" if "rds_wf ?t"
      using that \<open>\<not> db_cluster_held ?k ?t\<close>
      by (simp add: rds_wf_defs pk_delete db_cluster_held_def refs_to_delete_child refs_to_delete_parent)
    show "protected_kept ?t ?t'" if "rds_wf ?t"
      using other_rows_kept [of rds_cluster_pk "rds_clusters ?t" ?k c dc_deletion_protection] that Inr \<open>\<not> dc_deletion_protection c\<close>
      by (auto simp: protected_kept_def get_db_cluster_def rds_wf_def rds_keys_ok_def)
  qed
  with Inr show ?thesis by (auto simp: delete_db_cluster_def Let_def delete_owned_cases intro!: rds_keeps_drop)
qed (simp add: delete_db_cluster_def)

lemma has_replica_iff: "has_replica k t \<longleftrightarrow> (\<exists>r\<in>set (rds_instances t). holds_ref di_region di_source k r)"
  by (auto simp: has_replica_def affected_def filter_empty_conv)

lemma rds_keeps_delete_instance: "rds_keeps d (snd (delete_db_instance a region i d))"
proof (cases "get_db_instance a region i d")
  case (Inr x)
  let ?t = "rds_tbls d" and ?k = "(a, region, i)"
  let ?t' = "?t\<lparr>rds_instances := sql_delete (\<lambda>r. rds_instance_pk r = ?k) (rds_instances ?t)\<rparr>"
  have "rds_keeps d (d\<lparr>rds_tbls := ?t'\<rparr>)" if "\<not> di_deletion_protection x" "\<not> has_replica ?k ?t"
  proof (rule rds_keeps_tbls)
    show "rds_wf ?t'" if "rds_wf ?t"
      using that \<open>\<not> has_replica ?k ?t\<close>
      by (simp add: rds_wf_defs pk_delete has_replica_iff refs_to_delete_child refs_to_delete_parent)
    show "protected_kept ?t ?t'" if "rds_wf ?t"
      using other_rows_kept [of rds_instance_pk "rds_instances ?t" ?k x di_deletion_protection] that Inr \<open>\<not> di_deletion_protection x\<close>
      by (auto simp: protected_kept_def get_db_instance_def rds_wf_def rds_keys_ok_def)
  qed
  with Inr show ?thesis by (auto simp: delete_db_instance_def Let_def delete_owned_cases intro!: rds_keeps_drop)
qed (simp add: delete_db_instance_def)

lemmas rds_keeps_deletes = rds_keeps_delete_groups rds_keeps_delete_cluster rds_keeps_delete_instance

section \<open>So does every request\<close>

lemma rds_keeps_change_tags: "rds_keeps d (snd (change_resource_tags a tbl arn add remove d))"
  by (auto simp: change_resource_tags_eq intro!: rds_keeps_tags intro: tbl_intros)

lemma rds_keeps_tag_created:
  assumes "\<And>d. rds_keeps d (snd (undo d))"
  shows "rds_keeps d (snd (tag_created a tbl arn tags undo d))"
proof (cases "tag_resource a tbl arn tags d")
  case (Pair e d1)
  have "rds_keeps d d1" using rds_keeps_change_tags [of d a tbl arn tags "[]"] Pair by (simp add: tag_resource_def)
  with assms [of d1] show ?thesis
    by (auto simp: tag_created_def Pair split: option.split prod.split dest: rds_keeps_trans)
qed

lemma rds_keeps_created:
  assumes "rds_keeps d (snd res)" and "\<And>d. rds_keeps d (snd (undo d))"
  shows "rds_keeps d (snd (rds_created a tbl arn tags undo ok res))"
proof -
  have "rds_keeps d (snd (tag_created a tbl arn tags undo (snd res)))"
    by (rule rds_keeps_trans [OF assms(1) rds_keeps_tag_created [OF assms(2)]])
  with assms(1) show ?thesis by (simp add: rds_created_def split_beta split: option.split)
qed

lemma rds_keeps_done: "rds_keeps d (snd res) \<Longrightarrow> rds_keeps d (snd (rds_done action refuse res))"
  by (simp add: rds_done_def split_beta split: option.split)

lemma rds_create_keeps:
  "rds_keeps d (snd (rds_create_db_subnet_group env a region p d))"
  "rds_keeps d (snd (rds_create_db_parameter_group env a region p d))"
  "rds_keeps d (snd (rds_create_db_cluster_parameter_group env a region p d))"
  "rds_keeps d (snd (rds_create_db_cluster env a region p d))"
  "rds_keeps d (snd (rds_create_db_instance env a region p d))"
proof -
  show "rds_keeps d (snd (rds_create_db_subnet_group env a region p d))"
    by (auto simp: rds_create_db_subnet_group_def new_rds_subnet_group_def Let_def
        intro!: rds_keeps_created rds_keeps_create_subnet_group rds_keeps_deletes)
  show "rds_keeps d (snd (rds_create_db_parameter_group env a region p d))"
    by (auto simp: rds_create_db_parameter_group_def new_rds_param_group_def Let_def
        intro!: rds_keeps_created rds_keeps_create_parameter_group rds_keeps_deletes)
  show "rds_keeps d (snd (rds_create_db_cluster_parameter_group env a region p d))"
    by (auto simp: rds_create_db_cluster_parameter_group_def new_rds_param_group_def Let_def
        intro!: rds_keeps_created rds_keeps_create_cluster_parameter_group rds_keeps_deletes)
  show "rds_keeps d (snd (rds_create_db_cluster env a region p d))"
    by (auto simp: rds_create_db_cluster_def new_rds_cluster_def Let_def
        intro!: rds_keeps_created rds_keeps_create_cluster rds_keeps_deletes)
  show "rds_keeps d (snd (rds_create_db_instance env a region p d))"
    by (auto simp: rds_create_db_instance_def new_rds_instance_def Let_def
        intro!: rds_keeps_created rds_keeps_create_instance rds_keeps_deletes)
qed

lemma rds_delete_keeps:
  "rds_keeps d (snd (rds_delete_db_subnet_group a region p d))"
  "rds_keeps d (snd (rds_delete_db_parameter_group a region p d))"
  "rds_keeps d (snd (rds_delete_db_cluster_parameter_group a region p d))"
  "rds_keeps d (snd (rds_delete_db_cluster a region p d))"
  "rds_keeps d (snd (rds_delete_db_instance a region p d))"
proof -
  have split: "rds_keeps d (snd (case res of (Some e, d') \<Rightarrow> (f e, d') | (None, d') \<Rightarrow> (g d', d')))" if "rds_keeps d (snd res)"
    for res :: "go_error option \<times> db" and f and g :: "db \<Rightarrow> response"
    using that by (simp add: split_beta split: option.split)
  show "rds_keeps d (snd (rds_delete_db_subnet_group a region p d))" "rds_keeps d (snd (rds_delete_db_parameter_group a region p d))"
    "rds_keeps d (snd (rds_delete_db_cluster_parameter_group a region p d))"
    unfolding rds_delete_db_subnet_group_def rds_delete_db_parameter_group_def rds_delete_db_cluster_parameter_group_def Let_def
    by (rule rds_keeps_done, rule rds_keeps_deletes)+
  show "rds_keeps d (snd (rds_delete_db_cluster a region p d))"
    unfolding rds_delete_db_cluster_def Let_def
    by (cases "get_db_cluster a region (form_get p ''DBClusterIdentifier'') d") (simp_all add: split rds_keeps_deletes)
  show "rds_keeps d (snd (rds_delete_db_instance a region p d))"
    unfolding rds_delete_db_instance_def Let_def
    by (cases "get_db_instance a region (form_get p ''DBInstanceIdentifier'') d") (simp_all add: split rds_keeps_deletes)
qed

lemma rds_tags_keeps:
  "rds_keeps d (snd (rds_add_tags_to_resource a p d))" "rds_keeps d (snd (rds_remove_tags_from_resource a p d))"
  by (auto simp: rds_add_tags_to_resource_def rds_remove_tags_from_resource_def tag_resource_def untag_resource_def
      split: sum.split prod.split intro!: rds_keeps_done rds_keeps_change_tags)

lemma rds_if_keeps: "rds_keeps d (snd x) \<Longrightarrow> rds_keeps d (snd y) \<Longrightarrow> rds_keeps d (snd (if c then x else y))"
  by simp

lemma rds_writes_keeps: "rds_keeps d (snd (rds_writes env a region action p d))"
  unfolding rds_writes_def by (intro rds_if_keeps rds_create_keeps rds_delete_keeps rds_tags_keeps) simp

lemma handle_rds_keeps: "rds_keeps d (snd (handle_rds env region r d))"
  by (simp add: handle_rds_def rds_writes_keeps split: sum.split option.split)

type_synonym rds_event = "env \<times> string \<times> request"

definition rds_run :: "rds_event list \<Rightarrow> db \<Rightarrow> db" where
  "rds_run es d = fold (\<lambda>(env, region, r) d. snd (handle_rds env region r d)) es d"

lemma rds_run_keeps: "rds_keeps d (rds_run es d)"
proof (induction es arbitrary: d)
  case (Cons e es)
  have "rds_keeps d (snd (handle_rds (fst e) (fst (snd e)) (snd (snd e)) d))" by (rule handle_rds_keeps)
  then show ?case using Cons.IH by (auto simp: rds_run_def split_beta intro: rds_keeps_trans)
qed (simp add: rds_run_def)

lemma account_id_rds_rest: "rds_rest d' = rds_rest d \<Longrightarrow> account_id d' = account_id d"
  by (auto simp: rds_rest_def account_id_def get_identity_def dest!: arg_cong [where f = identity_tbl])

section \<open>Calls\<close>

lemma rds_asks_handle:
  assumes "query_asks r action kvs"
  obtains p where "\<And>k v. (k, v) \<in> set kvs \<Longrightarrow> form_get p k = v"
    and "\<And>env region d. handle_rds env region r d = (case rds_reads (account_id d) region action p d of
       Some resp \<Rightarrow> (resp, d) | None \<Rightarrow> rds_writes env (account_id d) region action p d)"
proof -
  obtain q where "parse_query_rpc r = Inr q" "qr_action q = action" "\<And>k v. (k, v) \<in> set kvs \<Longrightarrow> form_get (qr_params q) k = v"
    by (rule query_asksE [OF assms]) (rule that)
  then show thesis by (intro that [of "qr_params q"]) (auto simp: handle_rds_def)
qed


lemma rds_asks_delete_instance:
  assumes "query_asks r ''DeleteDBInstance'' [(''DBInstanceIdentifier'', i)]"
  shows "handle_rds env region r d = (case get_db_instance (account_id d) region i d of
       Inl e \<Rightarrow> (rds_error e, d)
     | Inr x \<Rightarrow> (case delete_db_instance (account_id d) region i d of
         (Some e, d') \<Rightarrow> (rds_error e, d')
       | (None, d') \<Rightarrow> (write_query_rpc ''DeleteDBInstance'' [Elem ''DBInstance'' (rds_instance_to_xml ''deleting'' (account_id d) x d')], d')))"
proof -
  obtain p where "form_get p ''DBInstanceIdentifier'' = i" and h: "handle_rds env region r d =
      (case rds_reads (account_id d) region ''DeleteDBInstance'' p d of
         Some resp \<Rightarrow> (resp, d) | None \<Rightarrow> rds_writes env (account_id d) region ''DeleteDBInstance'' p d)"
    by (rule rds_asks_handle [OF assms]) auto
  then show ?thesis by (simp add: rds_reads_def rds_writes_def rds_delete_db_instance_def)
qed

lemma rds_asks_describe:
  assumes "query_asks r ''DescribeDBInstances'' [(''DBInstanceIdentifier'', i)]" and "i \<noteq> []"
    and "get_db_instance (account_id d) region i d = Inr x"
  shows "handle_rds env region r d = (write_query_rpc ''DescribeDBInstances''
    [Elem ''DBInstances'' [Elem ''DBInstance'' (rds_instance_to_xml (di_state x) (account_id d) x d)]], d)"
proof -
  obtain p where "form_get p ''DBInstanceIdentifier'' = i" and h: "handle_rds env region r d =
      (case rds_reads (account_id d) region ''DescribeDBInstances'' p d of
         Some resp \<Rightarrow> (resp, d) | None \<Rightarrow> rds_writes env (account_id d) region ''DescribeDBInstances'' p d)"
    by (rule rds_asks_handle [OF assms(1)]) auto
  with assms(2,3) show ?thesis by (simp add: rds_reads_def rds_describe_db_instances_def Let_def)
qed

text \<open>What a DeleteDBInstance does to the database, by the row's protection and its replicas.\<close>

lemma delete_db_instance_cases:
  assumes "get_db_instance a region i d = Inr x"
  shows "delete_db_instance a region i d =
    (if di_deletion_protection x \<or> has_replica (a, region, i) (rds_tbls d) then (Some ErrConflict, d)
     else (None, drop_tags_of (\<lambda>r. rds_instance_pk r = (a, region, i)) di_arn (rds_instances (rds_tbls d))
       (d\<lparr>rds_tbls := (rds_tbls d)\<lparr>rds_instances := sql_delete (\<lambda>r. rds_instance_pk r = (a, region, i)) (rds_instances (rds_tbls d))\<rparr>\<rparr>)))"
proof -
  have "has_key rds_instance_pk (a, region, i) (rds_instances (rds_tbls d))"
    using assms unfolding get_db_instance_def has_key_def by (rule get_owned_Inr) (metis imageI)
  with assms show ?thesis by (simp add: delete_db_instance_def Let_def delete_owned_cases)
qed

text \<open>A create that was accepted added the row at the end; its source, when it has one, is another row.\<close>

lemma create_db_instance_None:
  assumes "create_db_instance a x d = (None, d')"
  shows "\<not> has_key rds_instance_pk (a, di_region x, di_id x) (rds_instances (rds_tbls d)) \<and>
    (di_source x = [] \<or> has_key rds_instance_pk (a, di_region x, di_source x) (rds_instances (rds_tbls d))) \<and>
    d' = d\<lparr>rds_tbls := (rds_tbls d)\<lparr>rds_instances := rds_instances (rds_tbls d) @
      [\<lparr>ow_account = a, ow_data = x\<lparr>di_state := or_available (di_state x)\<rparr>\<rparr>]\<rparr>\<rparr>"
  using assms by (auto simp: create_db_instance_def Let_def insert_owned_Inr instance_refs_ok_def ref_ok_def rds_instance_pk_def owned_pk_def
      split: option.splits sum.splits)

lemma rds_error_not_ok: "r_status (rds_error e) \<noteq> 200"
  by (simp add: write_aws_error_status)

lemma rds_create_instance_ok:
  fixes env a region q
  defines "x \<equiv> new_rds_instance env a region q"
  assumes "rds_create_db_instance env a region q d = (resp, d1)" and "r_status resp = 200" and "untagged a (di_arn x) (resource_tags d)"
  obtains d' where "create_db_instance a x d = (None, d')" "d1 = d'\<lparr>resource_tags := resource_tags d @ tag_rows_of a (di_arn x) (query_tags q ''Tags.Tag.'')\<rparr>"
    "resp = (case get_db_instance a region (di_id x) d1 of Inl _ \<Rightarrow> write_panic
       | Inr got \<Rightarrow> write_query_rpc ''CreateDBInstance'' [Elem ''DBInstance'' (rds_instance_to_xml (di_state got) a got d1)])"
proof -
  define ok where "ok = (\<lambda>d'. case get_db_instance a region (di_id x) d' of Inl _ \<Rightarrow> write_panic
     | Inr got \<Rightarrow> write_query_rpc ''CreateDBInstance'' [Elem ''DBInstance'' (rds_instance_to_xml (di_state got) a got d')])"
  have created: "rds_created a Tags_RDS_instance (di_arn x) (query_tags q ''Tags.Tag.'') (delete_db_instance a region (di_id x)) ok
      (create_db_instance a x d) = (resp, d1)"
    using assms(2,3) rds_error_not_ok by (auto simp: rds_create_db_instance_def Let_def x_def ok_def split: if_splits)
  obtain d' where res: "create_db_instance a x d = (None, d')"
    using created assms(3) rds_error_not_ok by (cases "create_db_instance a x d") (auto simp: rds_created_def split: option.splits)
  have "resource_exists a Tags_RDS_instance (di_arn x) d'" and "resource_tags d' = resource_tags d"
    using create_db_instance_None [OF res] by (simp_all add: resource_exists_def)
  with created assms(4) have "resp = ok d1 \<and> d1 = d'\<lparr>resource_tags := resource_tags d @ tag_rows_of a (di_arn x) (query_tags q ''Tags.Tag.'')\<rparr>"
    by (auto simp: res rds_created_def tag_created_stored)
  with res show thesis by (intro that) (simp_all add: ok_def)
qed

section \<open>Properties\<close>

text \<open>C40. No sequence of RDS requests leaves a cluster or an instance that names a group, cluster or source that is not
  stored, two rows under one key, a subnet group of fewer than two subnets, or a row whose ARN or state is not the one
  its key determines; and no table but RDS's and the tags changes.\<close>

theorem rds_invariant:
  assumes "rds_wf (rds_tbls d)"
  shows "rds_wf (rds_tbls (rds_run es d)) \<and> rds_rest (rds_run es d) = rds_rest d"
  using assms rds_run_keeps [of d es] by (simp add: rds_keeps_def)


text \<open>C38. DeleteDBInstance: 404 for an instance that is not stored, 409 for one that is protected or is the source of a
  replica, nothing changing in either case; otherwise exactly the instance and its tags go.\<close>

theorem rds_delete_decides:
  assumes "query_asks r ''DeleteDBInstance'' [(''DBInstanceIdentifier'', i)]"
  shows "let (resp, d') = handle_rds env region r d; a = account_id d; k = (a, region, i); t = rds_tbls d
    in case find (\<lambda>x. rds_instance_pk x = k) (rds_instances t) of
      None \<Rightarrow> r_status resp = 404 \<and> d' = d
    | Some x \<Rightarrow>
        (if di_deletion_protection (ow_data x) \<or>
            (\<exists>y\<in>set (rds_instances t). ow_account y = a \<and> di_region (ow_data y) = region \<and> di_source (ow_data y) = i \<and> i \<noteq> [])
         then r_status resp = 409 \<and> d' = d
         else r_status resp = 200 \<and> rds_rest d' = rds_rest d \<and>
           rds_tbls d' = t\<lparr>rds_instances := filter (\<lambda>y. rds_instance_pk y \<noteq> k) (rds_instances t)\<rparr> \<and>
           resource_tags d' = filter (\<lambda>g. \<not> (\<exists>y\<in>set (rds_instances t). rds_instance_pk y = k \<and>
             ow_account y = g_account g \<and> di_arn (ow_data y) = g_arn g)) (resource_tags d))"
proof -
  let ?a = "account_id d" and ?t = "rds_tbls d"
  have rep: "has_replica (?a, region, i) ?t \<longleftrightarrow>
      (\<exists>y\<in>set (rds_instances ?t). ow_account y = ?a \<and> di_region (ow_data y) = region \<and> di_source (ow_data y) = i \<and> i \<noteq> [])"
    by (auto simp: has_replica_iff holds_ref_def owned_pk_def)
  show ?thesis
  proof (cases "find (\<lambda>x. rds_instance_pk x = (?a, region, i)) (rds_instances ?t)")
    case None
    then show ?thesis by (simp add: rds_asks_delete_instance [OF assms] get_db_instance_def get_owned_def)
  next
    case (Some x)
    then have got: "get_db_instance ?a region i d = Inr (ow_data x)" by (simp add: get_db_instance_def get_owned_def)
    show ?thesis
      unfolding rds_asks_delete_instance [OF assms] got delete_db_instance_cases [OF got, unfolded rep]
      by (auto simp: Let_def Some drop_tags_of_eq rds_rest_def sql_delete_def)
  qed
qed

text \<open>C39. What CreateDBInstance of an unprotected instance answered is what DescribeDBInstances answers for its identifier, and
  DeleteDBInstance takes the database back to exactly what it was before the create.\<close>

theorem rds_create_describe_delete:
  assumes "rds_wf (rds_tbls d)" and "query_asks r ''CreateDBInstance'' [(''DBInstanceIdentifier'', i), (''DeletionProtection'', p)]" and "p \<noteq> ''true''"
    and "query_asks get ''DescribeDBInstances'' [(''DBInstanceIdentifier'', i)]" and "query_asks del ''DeleteDBInstance'' [(''DBInstanceIdentifier'', i)]"
    and "handle_rds env region r d = (resp, d1)" and "r_status resp = 200"
    and "untagged (account_id d) (rds_arn ''db'' region (account_id d) i) (resource_tags d)"
  shows "\<exists>fields. resp = write_query_rpc ''CreateDBInstance'' [Elem ''DBInstance'' fields] \<and>
    handle_rds env' region get d1 = (write_query_rpc ''DescribeDBInstances'' [Elem ''DBInstances'' [Elem ''DBInstance'' fields]], d1) \<and>
    r_status (fst (handle_rds env' region del d1)) = 200 \<and> snd (handle_rds env' region del d1) = d"
proof -
  let ?a = "account_id d" and ?t = "rds_tbls d"
  obtain q where q: "form_get q ''DBInstanceIdentifier'' = i" "form_get q ''DeletionProtection'' = p"
    and create: "handle_rds env region r d = rds_create_db_instance env ?a region q d"
  proof (rule rds_asks_handle [OF assms(2)])
    fix q assume "\<And>k v. (k, v) \<in> set [(''DBInstanceIdentifier'', i), (''DeletionProtection'', p)] \<Longrightarrow> form_get q k = v"
      and "\<And>env region d. handle_rds env region r d = (case rds_reads (account_id d) region ''CreateDBInstance'' q d of
         Some resp \<Rightarrow> (resp, d) | None \<Rightarrow> rds_writes env (account_id d) region ''CreateDBInstance'' q d)"
    then show thesis by (intro that [of q]) (simp_all add: rds_reads_def rds_writes_def)
  qed
  let ?x = "new_rds_instance env ?a region q" and ?kvs = "query_tags q ''Tags.Tag.''" and ?k = "(?a, region, i)"
  let ?y = "?x\<lparr>di_state := ''available''\<rparr>"
  let ?row = "\<lparr>ow_account = ?a, ow_data = ?y\<rparr>"
  let ?d' = "d\<lparr>rds_tbls := ?t\<lparr>rds_instances := rds_instances ?t @ [?row]\<rparr>\<rparr>"
  have x [simp]: "di_id ?x = i" "di_region ?x = region" "di_arn ?x = rds_arn ''db'' region ?a i" "\<not> di_deletion_protection ?x" "di_state ?x = []"
    using q assms(3) by (simp_all add: new_rds_instance_def Let_def is_true_def)
  obtain d' where res: "create_db_instance ?a ?x d = (None, d')"
    and d1: "d1 = d'\<lparr>resource_tags := resource_tags d @ tag_rows_of ?a (di_arn ?x) ?kvs\<rparr>"
    and resp: "resp = (case get_db_instance ?a region (di_id ?x) d1 of Inl _ \<Rightarrow> write_panic
       | Inr got \<Rightarrow> write_query_rpc ''CreateDBInstance'' [Elem ''DBInstance'' (rds_instance_to_xml (di_state got) ?a got d1)])"
    by (rule rds_create_instance_ok [of env ?a region q d resp d1]) (use assms(6-8) create in simp_all)
  have new: "\<not> has_key rds_instance_pk ?k (rds_instances ?t)" and src: "di_source ?x = [] \<or> di_source ?x \<noteq> i" and d': "d' = ?d'"
    using create_db_instance_None [OF res] by (auto simp: or_available_def)
  have some: "i \<noteq> []" using create assms(6,7) rds_error_not_ok
    by (auto simp: rds_create_db_instance_def Let_def)
  have acc: "account_id d1 = ?a" by (rule account_id_rds_rest) (simp add: d1 d' rds_rest_def)
  have rk: "rds_instance_pk ?row = ?k" by (simp add: rds_instance_pk_def owned_pk_def)
  have got: "get_db_instance ?a region i d1 = Inr ?y" using new rk by (simp add: get_db_instance_def d1 d' get_owned_snoc)
  have "\<not> holds_ref di_region di_source ?k y" if "y \<in> set (rds_instances ?t)" for y
    using refs_to_unstored [OF _ new that] assms(1) by (simp add: rds_wf_def rds_refs_ok_def)
  moreover have "\<not> holds_ref di_region di_source ?k ?row" using src by (auto simp: holds_ref_def owned_pk_def)
  ultimately have unheld: "\<not> has_replica ?k (rds_tbls d1)" by (auto simp: has_replica_iff d1 d')
  have "sql_delete (\<lambda>r. rds_instance_pk r = ?k) (rds_instances ?t @ [?row]) = rds_instances ?t"
    using sql_delete_snoc [of rds_instance_pk ?row "rds_instances ?t"] new rk by simp
  moreover have "drop_tags_of (\<lambda>r. rds_instance_pk r = ?k) di_arn (rds_instances ?t @ [?row]) x = drop_resource_tags ?a (di_arn ?x) x" for x
    using drop_tags_of_snoc [of rds_instance_pk ?row "rds_instances ?t" di_arn] new rk by simp
  moreover have "sql_delete (\<lambda>g. g_account g = ?a \<and> g_arn g = di_arn ?x) (resource_tags d @ tag_rows_of ?a (di_arn ?x) ?kvs) = resource_tags d"
    by (rule delete_tags_untagged) (use assms(8) in auto)
  ultimately have "delete_db_instance ?a region i d1 = (None, d)"
    using delete_db_instance_cases [OF got] unheld by (simp add: d1 d' drop_resource_tags_def del: x(3))
  then have "handle_rds env' region del d1 =
      (write_query_rpc ''DeleteDBInstance'' [Elem ''DBInstance'' (rds_instance_to_xml ''deleting'' ?a ?y d)], d)"
    by (simp add: rds_asks_delete_instance [OF assms(5)] acc got)
  moreover have "handle_rds env' region get d1 =
      (write_query_rpc ''DescribeDBInstances'' [Elem ''DBInstances'' [Elem ''DBInstance'' (rds_instance_to_xml (di_state ?y) ?a ?y d1)]], d1)"
    using rds_asks_describe [OF assms(4) some, of d1 region ?y env'] got by (simp only: acc)
  moreover have "resp = write_query_rpc ''CreateDBInstance'' [Elem ''DBInstance'' (rds_instance_to_xml (di_state ?y) ?a ?y d1)]"
    using resp got by simp
  ultimately show ?thesis by auto
qed

section \<open>Examples\<close>

definition rds_sample_env :: env where
  "rds_sample_env = \<lparr>e_now = 0, e_rand = []\<rparr>"

text \<open>A protected and an unprotected instance, a protected cluster.\<close>

definition rds_sample_instance :: "string \<Rightarrow> bool \<Rightarrow> rds_instance owned" where
  "rds_sample_instance i p = \<lparr>ow_account = fake_account_id, ow_data = (new_rds_instance rds_sample_env fake_account_id ''r''
     [(''DBInstanceIdentifier'', [i]), (''Engine'', [''postgres'']), (''DBInstanceClass'', [''db.t3.micro'']),
      (''DeletionProtection'', [if p then ''true'' else ''false''])])\<lparr>di_state := ''available''\<rparr>\<rparr>"

definition rds_sample_cluster :: "rds_cluster owned" where
  "rds_sample_cluster = \<lparr>ow_account = fake_account_id, ow_data = (new_rds_cluster rds_sample_env fake_account_id ''r''
     [(''DBClusterIdentifier'', [''c'']), (''Engine'', [''aurora-mysql'']), (''DeletionProtection'', [''true''])])\<lparr>dc_state := ''available''\<rparr>\<rparr>"

definition rds_sample_db :: db where
  "rds_sample_db = empty_db\<lparr>rds_tbls := empty_rds_db\<lparr>rds_clusters := [rds_sample_cluster],
     rds_instances := [rds_sample_instance ''p'' True, rds_sample_instance ''q'' False]\<rparr>\<rparr>"

lemmas rds_sample_defs = rds_sample_instance_def rds_sample_cluster_def new_rds_instance_def new_rds_cluster_def Let_def
  form_get_def is_true_def

lemma rds_sample_wf: "rds_wf (rds_tbls rds_sample_db)"
  by (simp add: rds_sample_db_def rds_wf_defs refs_to_def pk_def rds_sample_defs rds_instance_pk_def rds_cluster_pk_def owned_pk_def
      db_cluster_ok_def db_instance_ok_def names_ref_def)

lemma rds_sample_account: "account_id rds_sample_db = fake_account_id"
  by (simp add: rds_sample_db_def empty_db_def account_id_def get_identity_def)

definition rds_named :: "string \<Rightarrow> string \<Rightarrow> string \<Rightarrow> request" where
  "rds_named action k v = query_call action [(k, v)]"

lemma rds_named_asks: "action \<noteq> [] \<Longrightarrow> k \<noteq> ''Action'' \<Longrightarrow> k \<noteq> ''Version'' \<Longrightarrow> query_asks (rds_named action k v) action [(k, v)]"
  unfolding rds_named_def by (rule query_call_asks) auto

definition rds_sample_create :: request where
  "rds_sample_create = query_call ''CreateDBInstance'' [(''DBInstanceIdentifier'', ''n''), (''DeletionProtection'', ''false''),
     (''Engine'', ''mysql''), (''DBInstanceClass'', ''db.t3.micro'')]"

theorem rds_invariant_witness:
  "rds_wf (rds_tbls (rds_run [(rds_sample_env, ''r'', rds_sample_create), (rds_sample_env, ''r'', rds_named ''DeleteDBInstance'' ''DBInstanceIdentifier'' ''q'')] rds_sample_db))"
  using rds_invariant [OF rds_sample_wf] by blast


theorem rds_delete_decides_witness:
  "r_status (fst (handle_rds rds_sample_env ''r'' (rds_named ''DeleteDBInstance'' ''DBInstanceIdentifier'' ''p'') rds_sample_db)) = 409"
proof -
  let ?del = "rds_named ''DeleteDBInstance'' ''DBInstanceIdentifier'' ''p''"
  have ask: "query_asks ?del ''DeleteDBInstance'' [(''DBInstanceIdentifier'', ''p'')]" by (rule rds_named_asks) simp_all
  have find: "find (\<lambda>x. rds_instance_pk x = (account_id rds_sample_db, ''r'', ''p'')) (rds_instances (rds_tbls rds_sample_db)) =
      Some (rds_sample_instance ''p'' True)" and "di_deletion_protection (ow_data (rds_sample_instance ''p'' True))"
    unfolding rds_sample_account by (simp_all add: rds_sample_db_def rds_sample_defs rds_instance_pk_def owned_pk_def)
  then show ?thesis
    using rds_delete_decides [OF ask, of rds_sample_env "''r''" rds_sample_db] by (simp add: find split_beta Let_def)
qed

lemma rds_sample_status: "r_status (fst (handle_rds rds_sample_env ''r'' rds_sample_create rds_sample_db)) = 200"
proof -
  define p where "p = [(''DBInstanceIdentifier'', [''n'']), (''DeletionProtection'', [''false'']), (''Engine'', [''mysql'']), (''DBInstanceClass'', [''db.t3.micro''])]"
  define x where "x = new_rds_instance rds_sample_env fake_account_id ''r'' p"
  have call: "handle_rds rds_sample_env ''r'' rds_sample_create rds_sample_db = rds_create_db_instance rds_sample_env fake_account_id ''r'' p rds_sample_db"
    by (simp add: handle_rds_def parse_query_rpc_def rds_sample_create_def query_call_def form_get_def rds_reads_def rds_writes_def
        rds_sample_account p_def gm_del_def)
  have f: "di_id x = ''n''" "di_engine x = ''mysql''" "di_class x = ''db.t3.micro''" "di_region x = ''r''" "di_state x = []" "di_subnet_group x = []"
      "di_cluster x = []" "di_parameter_group x = []" "di_source x = []"
    by (simp_all add: x_def p_def new_rds_instance_def Let_def form_get_def)
  let ?row = "\<lparr>ow_account = fake_account_id, ow_data = x\<lparr>di_state := ''available''\<rparr>\<rparr>"
  let ?d = "rds_sample_db\<lparr>rds_tbls := (rds_tbls rds_sample_db)\<lparr>rds_instances := rds_instances (rds_tbls rds_sample_db) @ [?row]\<rparr>\<rparr>"
  have new: "\<not> has_key rds_instance_pk (fake_account_id, ''r'', ''n'') (rds_instances (rds_tbls rds_sample_db))"
    by (simp add: rds_sample_db_def has_key_def rds_sample_defs rds_instance_pk_def owned_pk_def)
  have pk: "rds_instance_pk \<lparr>ow_account = fake_account_id, ow_data = x\<lparr>di_state := s\<rparr>\<rparr> = (fake_account_id, ''r'', ''n'')" for s
    by (simp add: rds_instance_pk_def owned_pk_def f)
  have res: "create_db_instance fake_account_id x rds_sample_db = (None, ?d)"
    using new by (simp add: create_db_instance_def db_instance_refused_def ref_refused_def instance_refs_ok_def ref_ok_def Let_def f
        insert_owned_cases pk or_available_def)
  have "resource_exists fake_account_id Tags_RDS_instance (di_arn x) ?d" by (simp add: resource_exists_def)
  moreover have "untagged fake_account_id (di_arn x) (resource_tags ?d)" by (simp add: rds_sample_db_def empty_db_def untagged_def)
  moreover have "get_db_instance fake_account_id ''r'' ''n'' (?d\<lparr>resource_tags := t\<rparr>) = Inr (x\<lparr>di_state := ''available''\<rparr>)" for t
    using new by (simp add: get_db_instance_def get_owned_snoc pk)
  ultimately show ?thesis
    unfolding call rds_create_db_instance_def x_def [symmetric] Let_def by (simp add: f res rds_created_def tag_created_stored)
qed

theorem rds_create_describe_delete_witness:
  "snd (handle_rds rds_sample_env ''r'' (rds_named ''DeleteDBInstance'' ''DBInstanceIdentifier'' ''n'')
     (snd (handle_rds rds_sample_env ''r'' rds_sample_create rds_sample_db))) = rds_sample_db"
proof -
  let ?h = "handle_rds rds_sample_env ''r'' rds_sample_create rds_sample_db"
  have asks: "query_asks rds_sample_create ''CreateDBInstance'' [(''DBInstanceIdentifier'', ''n''), (''DeletionProtection'', ''false''),
      (''Engine'', ''mysql''), (''DBInstanceClass'', ''db.t3.micro'')]"
    unfolding rds_sample_create_def by (rule query_call_asks) auto
  then have ask: "query_asks rds_sample_create ''CreateDBInstance'' [(''DBInstanceIdentifier'', ''n''), (''DeletionProtection'', ''false'')]"
    by (simp add: query_asks_def split: sum.splits)
  have "untagged (account_id rds_sample_db) (rds_arn ''db'' ''r'' (account_id rds_sample_db) ''n'') (resource_tags rds_sample_db)"
    by (simp add: rds_sample_db_def empty_db_def untagged_def)
  moreover have "query_asks (rds_named ''DescribeDBInstances'' ''DBInstanceIdentifier'' ''n'') ''DescribeDBInstances'' [(''DBInstanceIdentifier'', ''n'')]"
    "query_asks (rds_named ''DeleteDBInstance'' ''DBInstanceIdentifier'' ''n'') ''DeleteDBInstance'' [(''DBInstanceIdentifier'', ''n'')]"
    by (rule rds_named_asks; simp)+
  ultimately show ?thesis
    using rds_create_describe_delete [OF rds_sample_wf ask _ _ _ prod.collapse [symmetric] rds_sample_status] by auto
qed

end
