(* ===== verification/Lifecycle.thy ===== *)
theory Lifecycle
  imports Identity
begin

text \<open>
  The life of a database: repository/repository.go (schema check, reset, snapshot, restore, caches) and
  the admin handlers over it (handlers/admin.go), with a shared helper of that file, PatchMerge;
  ResolveSameAccountName is in Refs.

  A database file is whether it has any schema entry, the rows of its schema_version table (None without
  the table) and its contents. A repository is the live file, the snapshot beside it and the in-process
  caches. Errors of the file system and of SQLite itself do not occur. The code asks three things of a
  cache, given here as functions of its state; no cache is registered by the program itself.
\<close>

section \<open>The schema check\<close>

definition db_schema_version :: int where
  "db_schema_version = 7"

record db_file =
  f_entries :: bool
  f_versions :: "int list option"
  f_db :: db

definition stored_version :: "db_file \<Rightarrow> string" where
  "stored_version f = (case f_versions f of
       None \<Rightarrow> ''none''
     | Some vs \<Rightarrow> if vs = [] then ''none'' else join_with '', '' (map show_int vs))"

definition version_refusal :: "string \<Rightarrow> string \<Rightarrow> string" where
  "version_refusal name stored = error_text ErrConflict @ '': '' @ name @ '': database schema version '' @ stored @
     '', fakeaws needs '' @ show_int db_schema_version @ '': reset or delete the file''"

definition check_schema_version :: "string \<Rightarrow> db_file option \<Rightarrow> go_error option" where
  "check_schema_version name file =
     (case file of
        None \<Rightarrow> None
      | Some f \<Rightarrow>
          (if \<not> f_entries f then None
           else if stored_version f \<noteq> show_int db_schema_version
           then Some (ErrWrap ErrConflict (version_refusal name (stored_version f)))
           else None))"

text \<open>CREATE TABLE IF NOT EXISTS of every table, then INSERT OR IGNORE of the version.\<close>

definition migrate :: "db_file \<Rightarrow> db_file" where
  "migrate f = (let vs = or_zero [] (f_versions f)
     in f\<lparr>f_entries := True, f_versions := Some (if db_schema_version \<in> set vs then vs else vs @ [db_schema_version])\<rparr>)"

definition empty_file :: db_file where
  "empty_file = \<lparr>f_entries = False, f_versions = None, f_db = empty_db\<rparr>"

text \<open>New: a file that is not there is created empty.\<close>

definition new_repository :: "string \<Rightarrow> db_file option \<Rightarrow> db_file result" where
  "new_repository name file = (case check_schema_version name file of
       Some e \<Rightarrow> Inl e
     | None \<Rightarrow> Inr (migrate (case file of None \<Rightarrow> empty_file | Some f \<Rightarrow> f)))"

section \<open>Caches\<close>

record 'c cache_ops =
  co_reset :: "'c \<Rightarrow> go_error option \<times> 'c"
  co_snapshot :: "'c \<Rightarrow> go_error option \<times> 'c"
  co_restore :: "'c \<Rightarrow> go_error option \<times> 'c"

record 'c repo =
  rp_memory :: bool
  rp_path :: string
  rp_live :: db_file
  rp_snapshot :: "db_file option"
  rp_caches :: "(string \<times> 'c) list"

definition register_cache :: "(string \<times> 'c) option \<Rightarrow> 'c repo \<Rightarrow> 'c repo" where
  "register_cache c r = (case c of
       None \<Rightarrow> r
     | Some (n, c) \<Rightarrow> if n \<in> set (map fst (rp_caches r)) then r else r\<lparr>rp_caches := rp_caches r @ [(n, c)]\<rparr>)"

text \<open>The loop over the caches stops at the first error, which it prefixes.\<close>

fun each_cache :: "string \<Rightarrow> ('c \<Rightarrow> go_error option \<times> 'c) \<Rightarrow> (string \<times> 'c) list \<Rightarrow> go_error option \<times> (string \<times> 'c) list" where
  "each_cache verb f [] = (None, [])"
| "each_cache verb f ((n, c) # cs) =
     (case f c of
        (Some e, c') \<Rightarrow> (Some (ErrWrap e (verb @ '' cache '' @ n @ '': '' @ error_text e)), (n, c') # cs)
      | (None, c') \<Rightarrow> (case each_cache verb f cs of (e, cs') \<Rightarrow> (e, (n, c') # cs')))"

section \<open>Reset, snapshot, restore\<close>

definition reset_db :: "db \<Rightarrow> db" where
  "reset_db d = fold truncate_table reset_tables d"

definition repo_reset :: "'c cache_ops \<Rightarrow> 'c repo \<Rightarrow> go_error option \<times> 'c repo" where
  "repo_reset ops r =
     (let r' = r\<lparr>rp_live := (rp_live r)\<lparr>f_db := reset_db (f_db (rp_live r))\<rparr>,
                 rp_snapshot := (if rp_memory r then rp_snapshot r else None)\<rparr>
      in case each_cache ''reset'' (co_reset ops) (rp_caches r') of (e, cs) \<Rightarrow> (e, r'\<lparr>rp_caches := cs\<rparr>))"

definition snapshot_memory_message :: string where
  "snapshot_memory_message = ''snapshot requires file-backed db, got :memory:: '' @ error_text ErrConflict"

definition restore_memory_message :: string where
  "restore_memory_message = ''restore requires file-backed db, got :memory:: '' @ error_text ErrConflict"

definition repo_snapshot :: "'c cache_ops \<Rightarrow> 'c repo \<Rightarrow> go_error option \<times> 'c repo" where
  "repo_snapshot ops r =
     (if rp_memory r then (Some (ErrWrap ErrConflict snapshot_memory_message), r)
      else (case each_cache ''snapshot'' (co_snapshot ops) (rp_caches r) of
          (e, cs) \<Rightarrow> (e, r\<lparr>rp_snapshot := Some (rp_live r), rp_caches := cs\<rparr>)))"

text \<open>stage: the copy of the snapshot, opened as New does and prepared; None prepares nothing.\<close>

definition stage :: "string \<Rightarrow> db_file \<Rightarrow> (db \<Rightarrow> go_error option \<times> db) option \<Rightarrow> db_file result" where
  "stage snap_name snap prepare =
     (case new_repository snap_name (Some snap) of
        Inl e \<Rightarrow> Inl (ErrWrap e (''open restored copy: '' @ error_text e))
      | Inr f \<Rightarrow> (case prepare of
          None \<Rightarrow> Inr f
        | Some p \<Rightarrow> (case p (f_db f) of
            (Some e, _) \<Rightarrow> Inl e
          | (None, d) \<Rightarrow> Inr (f\<lparr>f_db := d\<rparr>))))"

definition repo_restore ::
  "'c cache_ops \<Rightarrow> (db \<Rightarrow> go_error option \<times> db) option \<Rightarrow> 'c repo \<Rightarrow> go_error option \<times> 'c repo" where
  "repo_restore ops prepare r =
     (if rp_memory r then (Some (ErrWrap ErrConflict restore_memory_message), r)
      else (case rp_snapshot r of
          None \<Rightarrow> (Some ErrNotFound, r)
        | Some snap \<Rightarrow> (case stage (rp_path r @ ''.snapshot'') snap prepare of
            Inl e \<Rightarrow> (Some e, r)
          | Inr f \<Rightarrow> (case each_cache ''restore'' (co_restore ops) (rp_caches r) of
              (e, cs) \<Rightarrow> (e, r\<lparr>rp_live := migrate f, rp_caches := cs\<rparr>)))))"

section \<open>Admin handlers\<close>

definition write_ok :: response where
  "write_ok = write_json_status 200 (JObj [(''status'', JStr ''ok'')])"

text \<open>The reset handler clears the request log too, which is kept outside the database.\<close>

definition handle_mock_reset :: "'c cache_ops \<Rightarrow> 'c repo \<Rightarrow> response \<times> 'c repo" where
  "handle_mock_reset ops r = (case repo_reset ops r of
       (Some e, r') \<Rightarrow> (write_admin_error 500 (error_text e), r')
     | (None, r') \<Rightarrow> (write_ok, r'))"

definition handle_mock_snapshot :: "'c cache_ops \<Rightarrow> 'c repo \<Rightarrow> response \<times> 'c repo" where
  "handle_mock_snapshot ops r = (case repo_snapshot ops r of
       (Some e, r') \<Rightarrow> (write_admin_error (if errors_is e ErrConflict then 409 else 500) (error_text e), r')
     | (None, r') \<Rightarrow> (write_ok, r'))"

text \<open>The backfill of VPC defaults that a restore runs on the copy is a parameter.\<close>

definition handle_mock_restore ::
  "'c cache_ops \<Rightarrow> (db \<Rightarrow> go_error option \<times> db) \<Rightarrow> 'c repo \<Rightarrow> response \<times> 'c repo" where
  "handle_mock_restore ops backfill r = (case repo_restore ops (Some backfill) r of
       (Some e, r') \<Rightarrow> (write_admin_error (if errors_is e ErrNotFound then 404
                                         else if errors_is e ErrConflict then 409 else 500) (error_text e), r')
     | (None, r') \<Rightarrow> (write_ok, r'))"

section \<open>PatchMerge\<close>

text \<open>
  JSON maps are association lists here. The recursion descends into the patch; an existing value that is
  an object is merged with a patch value that is one, otherwise the patch's value replaces it.
\<close>

fun patch_merge :: "string list \<Rightarrow> (string \<times> json) list \<Rightarrow> (string \<times> json) list \<Rightarrow> (string \<times> json) list" where
  "patch_merge skip base [] = base"
| "patch_merge skip base ((k, v) # patch) =
     patch_merge skip
       (if k \<in> set skip then base
        else gm_set k (case (map_of base k, v) of
               (Some (JObj em), JObj pm) \<Rightarrow> JObj (patch_merge skip em pm)
             | _ \<Rightarrow> v) base) patch"

section \<open>What the operations guarantee\<close>

lemma fold_truncate:
  assumes "\<And>n d. f (truncate_table n d) = (if n = t then z else f d)"
  shows "f (fold truncate_table ns d) = (if t \<in> set ns then z else f d)"
  using assms by (induction ns arbitrary: d) auto

lemma truncation_names: "fst ` set truncations = insert ''identity'' (set modelled_tables)"
  by (simp add: truncations_def insert_commute)

lemma truncations_other: "list_all (\<lambda>(m, g). \<forall>d. other_rows (g d) = other_rows d) truncations"
  by (simp add: truncations_def)

lemma truncate_other: "other_rows (fold truncate_table ns d) =
    filter (\<lambda>r. fst r \<notin> set ns \<or> fst r \<in> fst ` set truncations) (other_rows d)"
proof (induction ns arbitrary: d)
  case (Cons n ns)
  have "other_rows (truncate_table n d) =
      filter (\<lambda>r. fst r \<noteq> n \<or> n \<in> fst ` set truncations) (other_rows d)"
  proof (cases "map_of truncations n")
    case None
    then have "n \<notin> fst ` set truncations" by (simp add: map_of_eq_None_iff)
    with None show ?thesis by (simp add: truncate_table_def)
  next
    case (Some g)
    from map_of_SomeD [OF Some] truncations_other have "other_rows (g d) = other_rows d" "n \<in> fst ` set truncations"
      by (auto simp: list_all_iff intro: rev_image_eqI)
    with Some show ?thesis by (simp add: truncate_table_def)
  qed
  with Cons.IH [of "truncate_table n d"] show ?case
    by (auto simp: filter_filter intro!: filter_cong)
qed simp

lemma reset_tables_known: "list_all (\<lambda>n. n \<in> set reset_tables) (''identity'' # modelled_tables)"
  by code_simp

lemmas tables_known = reset_tables_known [unfolded list.pred_inject simp_thms]

text \<open>Each field is emptied by its own table's DELETE and left alone by every other one.\<close>

definition only_truncated_by :: "(db \<Rightarrow> 'a) \<Rightarrow> string \<Rightarrow> 'a \<Rightarrow> bool" where
  "only_truncated_by f t z \<longleftrightarrow> list_all (\<lambda>(m, g). \<forall>d. f (g d) = (if m = t then z else f d)) truncations \<and>
     t \<in> fst ` set truncations \<and> t \<in> set reset_tables \<and> (\<forall>d xs. f (d\<lparr>other_rows := xs\<rparr>) = f d)"

lemma truncate_field:
  assumes "only_truncated_by f t z"
  shows "f (truncate_table n d) = (if n = t then z else f d)"
proof (cases "map_of truncations n")
  case None
  then have "n \<noteq> t" using assms by (auto simp: only_truncated_by_def map_of_eq_None_iff)
  with None assms show ?thesis by (simp add: truncate_table_def only_truncated_by_def)
next
  case (Some g)
  from map_of_SomeD [OF Some] assms have "f (g d) = (if n = t then z else f d)"
    by (auto simp: only_truncated_by_def list_all_iff)
  with Some show ?thesis by (simp add: truncate_table_def)
qed

lemma reset_field: "only_truncated_by f t z \<Longrightarrow> f (reset_db d) = z"
  using fold_truncate [where f = f and t = t and z = z, OF truncate_field]
  by (simp add: reset_db_def only_truncated_by_def)

lemma truncated_by [simp]:
  "only_truncated_by identity_tbl ''identity'' None"
  "only_truncated_by kms_keys ''kms_keys'' []"
  "only_truncated_by ssm_parameters ''ssm_parameters'' []"
  "only_truncated_by sqs_queues ''sqs_queues'' []"
  "only_truncated_by sqs_messages ''sqs_messages'' []"
  "only_truncated_by secrets ''secretsmanager_secrets'' []"
  "only_truncated_by secret_versions ''secretsmanager_versions'' []"
  "only_truncated_by ddb_tables ''dynamodb_tables'' []"
  "only_truncated_by ddb_items ''dynamodb_items'' []"
  "only_truncated_by resource_tags ''resource_tags'' []"
  "only_truncated_by ec2_tags ''ec2_tags'' []"
  unfolding only_truncated_by_def truncation_names by (simp_all add: truncations_def tables_known)

lemma ec2_tbls_truncated_by [simp]:
  "only_truncated_by (\<lambda>d. ec2_amis (ec2_tbls d)) ''ec2_amis'' []"
  "only_truncated_by (\<lambda>d. ec2_vpcs (ec2_tbls d)) ''ec2_vpcs'' []"
  "only_truncated_by (\<lambda>d. ec2_subnets (ec2_tbls d)) ''ec2_subnets'' []"
  "only_truncated_by (\<lambda>d. ec2_igws (ec2_tbls d)) ''ec2_internet_gateways'' []"
  "only_truncated_by (\<lambda>d. ec2_rtbs (ec2_tbls d)) ''ec2_route_tables'' []"
  "only_truncated_by (\<lambda>d. ec2_assocs (ec2_tbls d)) ''ec2_route_table_associations'' []"
  "only_truncated_by (\<lambda>d. ec2_routes (ec2_tbls d)) ''ec2_routes'' []"
  "only_truncated_by (\<lambda>d. ec2_sgs (ec2_tbls d)) ''ec2_security_groups'' []"
  "only_truncated_by (\<lambda>d. ec2_rules (ec2_tbls d)) ''ec2_security_group_rules'' []"
  "only_truncated_by (\<lambda>d. ec2_eips (ec2_tbls d)) ''ec2_eips'' []"
  "only_truncated_by (\<lambda>d. ec2_zones (ec2_tbls d)) ''availability_zones'' []"
  "only_truncated_by (\<lambda>d. ec2_instances (ec2_tbls d)) ''ec2_instances'' []"
  "only_truncated_by (\<lambda>d. ec2_enis (ec2_tbls d)) ''ec2_network_interfaces'' []"
  "only_truncated_by (\<lambda>d. ec2_volumes (ec2_tbls d)) ''ec2_volumes'' []"
  "only_truncated_by (\<lambda>d. ec2_key_pairs (ec2_tbls d)) ''ec2_key_pairs'' []"
  unfolding only_truncated_by_def truncation_names by (simp_all add: truncations_def tables_known)

lemma s3_tbls_truncated_by [simp]:
  "only_truncated_by (\<lambda>d. s3_buckets (s3_tbls d)) ''s3_buckets'' []"
  "only_truncated_by (\<lambda>d. s3_configs (s3_tbls d)) ''s3_bucket_configs'' []"
  unfolding only_truncated_by_def truncation_names by (simp_all add: truncations_def tables_known)

lemma r53_tbls_truncated_by [simp]:
  "only_truncated_by (\<lambda>d. r53_zones (r53_tbls d)) ''route53_hosted_zones'' []"
  "only_truncated_by (\<lambda>d. r53_records (r53_tbls d)) ''route53_record_sets'' []"
  "only_truncated_by (\<lambda>d. r53_changes (r53_tbls d)) ''route53_changes'' []"
  unfolding only_truncated_by_def truncation_names by (simp_all add: truncations_def tables_known)

lemma iam_tbls_truncated_by [simp]:
  "only_truncated_by (\<lambda>d. iam_roles (iam_tbls d)) ''iam_roles'' []"
  "only_truncated_by (\<lambda>d. iam_policies (iam_tbls d)) ''iam_policies'' []"
  "only_truncated_by (\<lambda>d. iam_profiles (iam_tbls d)) ''iam_instance_profiles'' []"
  "only_truncated_by (\<lambda>d. iam_users (iam_tbls d)) ''iam_users'' []"
  "only_truncated_by (\<lambda>d. iam_keys (iam_tbls d)) ''iam_access_keys'' []"
  "only_truncated_by (\<lambda>d. role_attachments (iam_tbls d)) ''role_policy_attachments'' []"
  "only_truncated_by (\<lambda>d. user_attachments (iam_tbls d)) ''user_policy_attachments'' []"
  "only_truncated_by (\<lambda>d. profile_roles (iam_tbls d)) ''instance_profile_roles'' []"
  "only_truncated_by (\<lambda>d. role_inlines (iam_tbls d)) ''role_inline_policies'' []"
  "only_truncated_by (\<lambda>d. user_inlines (iam_tbls d)) ''user_inline_policies'' []"
  unfolding only_truncated_by_def truncation_names by (simp_all add: truncations_def tables_known)

lemma eks_tbls_truncated_by [simp]:
  "only_truncated_by (\<lambda>d. eks_clusters (eks_tbls d)) ''eks_clusters'' []"
  "only_truncated_by (\<lambda>d. eks_node_groups (eks_tbls d)) ''eks_node_groups'' []"
  "only_truncated_by (\<lambda>d. eks_addons (eks_tbls d)) ''eks_addons'' []"
  unfolding only_truncated_by_def truncation_names by (simp_all add: truncations_def tables_known)

lemma rds_tbls_truncated_by [simp]:
  "only_truncated_by (\<lambda>d. rds_subnet_groups (rds_tbls d)) ''rds_db_subnet_groups'' []"
  "only_truncated_by (\<lambda>d. rds_parameter_groups (rds_tbls d)) ''rds_db_parameter_groups'' []"
  "only_truncated_by (\<lambda>d. rds_cluster_parameter_groups (rds_tbls d)) ''rds_db_cluster_parameter_groups'' []"
  "only_truncated_by (\<lambda>d. rds_clusters (rds_tbls d)) ''rds_db_clusters'' []"
  "only_truncated_by (\<lambda>d. rds_instances (rds_tbls d)) ''rds_db_instances'' []"
  unfolding only_truncated_by_def truncation_names by (simp_all add: truncations_def tables_known)

text \<open>Truncating every table of the list leaves the empty database.\<close>

lemma reset_db_empty:
  assumes "\<forall>x\<in>set (other_rows d). fst x \<in> set reset_tables - set modelled_tables - {''identity''}"
  shows "reset_db d = empty_db"
proof (rule db.equality)
  show "identity_tbl (reset_db d) = identity_tbl empty_db"
    by (simp add: empty_db_def reset_field [OF truncated_by(1)])
  show "kms_keys (reset_db d) = kms_keys empty_db"
    by (simp add: empty_db_def reset_field [OF truncated_by(2)])
  show "ssm_parameters (reset_db d) = ssm_parameters empty_db"
    by (simp add: empty_db_def reset_field [OF truncated_by(3)])
  show "sqs_queues (reset_db d) = sqs_queues empty_db"
    by (simp add: empty_db_def reset_field [OF truncated_by(4)])
  show "sqs_messages (reset_db d) = sqs_messages empty_db"
    by (simp add: empty_db_def reset_field [OF truncated_by(5)])
  show "secrets (reset_db d) = secrets empty_db"
    by (simp add: empty_db_def reset_field [OF truncated_by(6)])
  show "secret_versions (reset_db d) = secret_versions empty_db"
    by (simp add: empty_db_def reset_field [OF truncated_by(7)])
  show "ddb_tables (reset_db d) = ddb_tables empty_db"
    by (simp add: empty_db_def reset_field [OF truncated_by(8)])
  show "ddb_items (reset_db d) = ddb_items empty_db"
    by (simp add: empty_db_def reset_field [OF truncated_by(9)])
  show "resource_tags (reset_db d) = resource_tags empty_db"
    by (simp add: empty_db_def reset_field [OF truncated_by(10)])
  show "ec2_tags (reset_db d) = ec2_tags empty_db"
    by (simp add: empty_db_def reset_field [OF truncated_by(11)])
  show "ec2_tbls (reset_db d) = ec2_tbls empty_db"
    by (rule ec2_db.equality)
      (simp_all add: empty_db_def
        ec2_tbls_truncated_by [THEN reset_field])
  show "s3_tbls (reset_db d) = s3_tbls empty_db"
    by (rule s3_db.equality)
      (simp_all add: empty_db_def
        s3_tbls_truncated_by [THEN reset_field])
  show "r53_tbls (reset_db d) = r53_tbls empty_db"
    by (rule r53_db.equality)
      (simp_all add: empty_db_def
        r53_tbls_truncated_by [THEN reset_field])
  show "iam_tbls (reset_db d) = iam_tbls empty_db"
    by (rule iam_db.equality)
      (simp_all add: empty_db_def
        iam_tbls_truncated_by [THEN reset_field])
  show "eks_tbls (reset_db d) = eks_tbls empty_db"
    by (rule eks_db.equality)
      (simp_all add: empty_db_def
        eks_tbls_truncated_by [THEN reset_field])
  show "rds_tbls (reset_db d) = rds_tbls empty_db"
    by (rule rds_db.equality)
      (simp_all add: empty_db_def
        rds_tbls_truncated_by [THEN reset_field])
  have "filter (\<lambda>r. fst r \<notin> set reset_tables \<or> fst r \<in> fst ` set truncations) (other_rows d) = []"
    using assms by (auto simp: filter_empty_conv truncation_names simp del: set_simps)
  then show "other_rows (reset_db d) = other_rows empty_db"
    unfolding reset_db_def truncate_other by (simp add: empty_db_def)
qed simp

text \<open>A file as New leaves it.\<close>

definition file_current :: "db_file \<Rightarrow> bool" where
  "file_current f \<longleftrightarrow> f_entries f \<and> f_versions f = Some [db_schema_version]"

lemma check_current: "file_current f \<Longrightarrow> check_schema_version n (Some f) = None"
  by (simp add: file_current_def check_schema_version_def stored_version_def)

lemma migrate_current: "file_current f \<Longrightarrow> migrate f = f"
  by (simp add: migrate_def file_current_def or_zero_def)

lemma file_current_db [simp]: "file_current (f\<lparr>f_db := d\<rparr>) = file_current f"
  by (simp add: file_current_def)

lemma new_repository_current: "file_current f \<Longrightarrow> new_repository n (Some f) = Inr f"
  by (simp add: new_repository_def check_current migrate_current)

lemma new_repository_fresh: "new_repository n None = Inr f \<Longrightarrow> file_current f \<and> f_db f = empty_db"
  by (auto simp: new_repository_def check_schema_version_def migrate_def empty_file_def file_current_def or_zero_def)

lemma stage_current:
  "file_current f \<Longrightarrow> stage n f (Some p) = (case p (f_db f) of (Some e, _) \<Rightarrow> Inl e | (None, d) \<Rightarrow> Inr (f\<lparr>f_db := d\<rparr>))"
  by (simp add: stage_def new_repository_current)

text \<open>Registering a cache twice changes nothing, and a failing cache stops the loop after it.\<close>

lemma register_cache_idem: "register_cache c (register_cache c r) = register_cache c r"
  by (cases c) (auto simp: register_cache_def)

lemma each_cache_names: "map fst (snd (each_cache v f cs)) = map fst cs"
  by (induction v f cs rule: each_cache.induct) (auto split: prod.split option.split)

text \<open>What a merge does to one key.\<close>

lemma patch_merge_immutable: "k \<in> set skip \<Longrightarrow> map_of (patch_merge skip base patch) k = map_of base k"
  by (induction skip base patch rule: patch_merge.induct) auto

lemma patch_merge_absent: "k \<notin> fst ` set patch \<Longrightarrow> map_of (patch_merge skip base patch) k = map_of base k"
  by (induction skip base patch rule: patch_merge.induct) auto

lemma patch_merge_key:
  assumes "gm_wf patch" and "map_of patch k = Some v" and "k \<notin> set skip"
  shows "map_of (patch_merge skip base patch) k =
    Some (case (map_of base k, v) of (Some (JObj em), JObj pm) \<Rightarrow> JObj (patch_merge skip em pm) | _ \<Rightarrow> v)"
  using assms
proof (induction patch arbitrary: base)
  case (Cons kv patch)
  obtain k' v' where kv: "kv = (k', v')" by (cases kv)
  have wf: "gm_wf patch" "k' \<notin> fst ` set patch" using Cons.prems(1) by (auto simp: gm_wf_def kv)
  show ?case
  proof (cases "k = k'")
    case True
    with Cons.prems wf(2) show ?thesis by (simp add: kv patch_merge_absent)
  next
    case False
    with Cons.prems(2) have "map_of patch k = Some v" by (simp add: kv)
    from Cons.IH [OF wf(1) this Cons.prems(3)] False show ?thesis by (simp add: kv)
  qed
qed simp

section \<open>Properties\<close>

text \<open>C23. POST /mock/reset leaves the empty database, of the default account, whatever it held, and takes the
  snapshot with it: a restore then answers 404 on a file-backed database and 409 on one in memory, and
  changes nothing.\<close>

theorem reset_wipes:
  assumes "\<forall>x\<in>set (other_rows (f_db (rp_live r))). fst x \<in> set reset_tables - set modelled_tables - {''identity''}"
  shows "let r' = snd (handle_mock_reset ops r); (restored, r'') = handle_mock_restore ops backfill r'
    in f_db (rp_live r') = empty_db \<and> account_id (f_db (rp_live r')) = fake_account_id \<and>
       is_empty fixtures (f_db (rp_live r')) \<and>
       r_status restored = (if rp_memory r then 409 else 404) \<and> r'' = r'"
proof -
  obtain e cs where cs: "each_cache ''reset'' (co_reset ops) (rp_caches r) = (e, cs)" by fastforce
  let ?r = "r\<lparr>rp_live := (rp_live r)\<lparr>f_db := empty_db\<rparr>, rp_snapshot := (if rp_memory r then rp_snapshot r else None), rp_caches := cs\<rparr>"
  have r': "snd (handle_mock_reset ops r) = ?r"
    by (simp add: handle_mock_reset_def repo_reset_def Let_def cs reset_db_empty [OF assms] split: option.split)
  have e: "is_empty fixtures empty_db"
  proof -
    have "\<not> holds_row fixtures empty_db n" for n by (simp add: holds_row_def empty_db_def ec2_ami_ids_def)
    then show ?thesis by (simp add: is_empty_def is_empty_from_iff)
  qed
  have "account_id empty_db = fake_account_id" by (simp add: account_id_def get_identity_def empty_db_def)
  with e show ?thesis
    unfolding r' by (simp add: handle_mock_restore_def repo_restore_def write_admin_error_def write_json_status_def)
qed

text \<open>C24. A restore gives back the snapshot: whatever happened to the live database in between, it is then
  the one that was snapshotted, with the backfill applied, the identity included; and if the backfill
  fails, the live database is left as it was.\<close>

theorem snapshot_restore:
  assumes "\<not> rp_memory r" and "file_current (rp_live r)" and "repo_snapshot ops r = (e, r1)"
    and "repo_restore ops (Some backfill) (r1\<lparr>rp_live := live\<rparr>) = (e', r2)"
  shows "case backfill (f_db (rp_live r)) of
      (None, d) \<Rightarrow> rp_live r2 = (rp_live r)\<lparr>f_db := d\<rparr> \<and> account_id (f_db (rp_live r2)) = account_id d
    | (Some e'', _) \<Rightarrow> e' = Some e'' \<and> rp_live r2 = live"
proof -
  have r1: "r1 = r\<lparr>rp_snapshot := Some (rp_live r), rp_caches := snd (each_cache ''snapshot'' (co_snapshot ops) (rp_caches r))\<rparr>"
    using assms(1,3) by (auto simp: repo_snapshot_def split: prod.splits)
  show ?thesis
  proof (cases "backfill (f_db (rp_live r))")
    case (Pair b d)
    then show ?thesis
      using assms(1,2,4) unfolding r1
      by (cases b) (auto simp: repo_restore_def stage_current migrate_current split: prod.splits)
  qed
qed

text \<open>A snapshot whose schema version is not the one this program writes is never made live: the restore
  answers 409 and everything stays as it was. Opening such a file is refused as well, while a file the
  program made opens unchanged, however often.\<close>

theorem other_schema_refused:
  assumes "\<not> rp_memory r" and "rp_snapshot r = Some snap"
    and "f_entries snap" and "stored_version snap \<noteq> show_int db_schema_version"
  shows "r_status (fst (handle_mock_restore ops backfill r)) = 409 \<and> snd (handle_mock_restore ops backfill r) = r \<and>
    (\<exists>e. new_repository name (Some snap) = Inl e \<and> errors_is e ErrConflict) \<and>
    (\<exists>f. new_repository name None = Inr f \<and> new_repository name' (Some f) = Inr f)"
proof -
  have c: "check_schema_version n (Some snap) = Some (ErrWrap ErrConflict (version_refusal n (stored_version snap)))" for n
    using assms(3,4) by (simp add: check_schema_version_def)
  obtain f where f: "new_repository name None = Inr f" by (simp add: new_repository_def check_schema_version_def)
  with new_repository_fresh have "file_current f" by blast
  then have "new_repository name' (Some f) = Inr f" by (rule new_repository_current)
  with f assms(1,2) show ?thesis
    by (simp add: handle_mock_restore_def repo_restore_def stage_def new_repository_def [of _ "Some snap"] c
        write_admin_error_def write_json_status_def)
qed

section \<open>Examples\<close>

definition no_caches :: "unit cache_ops" where
  "no_caches = \<lparr>co_reset = Pair None, co_snapshot = Pair None, co_restore = Pair None\<rparr>"

definition sample_repo :: "unit repo" where
  "sample_repo = \<lparr>rp_memory = False, rp_path = ''f.db'',
     rp_live = \<lparr>f_entries = True, f_versions = Some [7], f_db = put_identity \<lparr>id_account = ''111122223333'', id_region = []\<rparr> empty_db\<rparr>,
     rp_snapshot = Some \<lparr>f_entries = True, f_versions = Some [6], f_db = empty_db\<rparr>, rp_caches = []\<rparr>"

theorem reset_wipes_witness: "f_db (rp_live (snd (handle_mock_reset no_caches sample_repo))) = empty_db"
proof -
  have "\<forall>x\<in>set (other_rows (f_db (rp_live sample_repo))). fst x \<in> set reset_tables - set modelled_tables - {''identity''}"
    by (simp add: sample_repo_def empty_db_def)
  from reset_wipes [OF this, where ops = no_caches and backfill = "Pair None" and fixtures = "[]"] show ?thesis by (simp add: Let_def split_beta)
qed

theorem snapshot_restore_witness:
  "account_id (f_db (rp_live (snd (repo_restore no_caches (Some (Pair None))
     ((snd (repo_snapshot no_caches sample_repo))\<lparr>rp_live := empty_file\<rparr>))))) = ''111122223333''"
proof -
  have 1: "\<not> rp_memory sample_repo" "file_current (rp_live sample_repo)"
    by (simp_all add: sample_repo_def file_current_def db_schema_version_def)
  obtain e r1 where s: "repo_snapshot no_caches sample_repo = (e, r1)" by fastforce
  obtain e' r2 where r: "repo_restore no_caches (Some (Pair None)) (r1\<lparr>rp_live := empty_file\<rparr>) = (e', r2)" by fastforce
  have "account_id (f_db (rp_live sample_repo)) = ''111122223333''" by (simp add: sample_repo_def account_id_def)
  with snapshot_restore [OF 1 s r] show ?thesis by (simp add: s r)
qed

theorem other_schema_refused_witness: "r_status (fst (handle_mock_restore no_caches (Pair None) sample_repo)) = 409"
proof -
  have v: "stored_version \<lparr>f_entries = True, f_versions = Some [6], f_db = empty_db\<rparr> \<noteq> show_int db_schema_version" by code_simp
  have "\<not> rp_memory sample_repo" "rp_snapshot sample_repo = Some \<lparr>f_entries = True, f_versions = Some [6], f_db = empty_db\<rparr>"
    by (simp_all add: sample_repo_def)
  from other_schema_refused [OF this _ v, where ops = no_caches and backfill = "Pair None"] show ?thesis by simp
qed

end
