(* ===== verification/Spec2Isabelle.thy ===== *)
theory Spec2Isabelle
  imports Prelude Gotime Json Awsproto Schema Identity Tags Kms Ssm Sqs Sts Secrets Dynamodb S3 Route53 Iam Netip Ec2Props EksProps RdsProps Lifecycle
begin

text \<open>
  fakeaws, a mock AWS server: this development models the repository (package repository, the state in
  SQLite) and the HTTP handlers over it (package handlers), service by service.

  A request enters a handler as a \<open>request\<close> (headers and a decoded body) with an \<open>env\<close> (the clock and
  the random bytes of crypto/rand) and a region; the handler answers a \<open>response\<close> and the new database:
  \<open>handle_<service> :: env \<Rightarrow> region \<Rightarrow> request \<Rightarrow> db \<Rightarrow> response \<times> db\<close>. A handler calls the repository
  functions of its service, which are functions of the database with a \<open>go_error\<close> or a value as result.

  Theories, in the order the code builds on itself:
  \<^item> \<open>Prelude\<close>: Go strings, 64-bit integers, Go maps, SQL tables as lists of rows with the statements the
    code issues; the locales \<open>store\<close> (read your writes, independent keys) and \<open>tagging\<close> (tag merge and
    removal), which every service interprets on its own operations.
  \<^item> \<open>Gotime\<close>: time.RFC3339 formatting and parsing, durations. \<open>Json\<close>: decoding into structs with the
    partial results and errors of encoding/json. \<open>Awsproto\<close>: models/models.go and handlers/awsproto: error
    values, their mapping to wire errors, the parsers and writers of the wire shapes, ARNs.
  \<^item> \<open>Schema\<close>: the database record, one field per modelled table, with the primary keys (\<open>keys_ok\<close>);
    \<open>Ec2Rows\<close>, \<open>EksRows\<close>, \<open>RdsRows\<close> hold the rows of these services. \<open>Netip\<close>: address prefixes.
  \<^item> \<open>Identity\<close> (repository/identity.go, handlers/admin.go) and \<open>Sts\<close> (handlers/sts.go): the account the
    server answers as. \<open>Tags\<close> (repository/tags.go, repository/ec2_tags.go, handlers/tags.go).
  \<^item> \<open>Rest\<close>: what the REST services read of a request (method, query, decoded XML) and the library functions
    they parse with. \<open>Refs\<close>: references by name or ARN, URL escaping, the flattened lists of Query-RPC.
  \<^item> \<open>Kms\<close>, \<open>Ssm\<close>, \<open>Sqs\<close>, \<open>Secrets\<close>, \<open>Dynamodb\<close>, \<open>S3\<close>, \<open>Route53\<close>: a service each, repository file and
    handler file. A configuration of a bucket is an opaque XML document; a Route 53 change batch is
    refined to an abstract map of record sets.
  \<^item> \<open>IamRepo\<close> (repository/iam.go) and \<open>Iam\<close> (handlers/iam.go): IAM's tables with their foreign keys as each
    statement enforces them, the referential integrity every operation keeps, and the actions over them.
  \<^item> \<open>Ec2Net\<close>, \<open>Ec2Groups\<close> (repository/ec2.go) and \<open>Ec2Compute\<close> (repository/ec2_compute.go, ec2_volumes.go): every
    statement on EC2's tables, and \<open>Ec2Wf\<close>, their keys and references and that each statement keeps them.
  \<^item> \<open>Ec2Filters\<close> (handlers/ec2_filters.go) and \<open>Ec2Vpc\<close>, \<open>Ec2Addr\<close>, \<open>Ec2Sg\<close>, \<open>Ec2Run\<close>, \<open>Ec2Misc\<close> (handlers/ec2.go): EC2's
    actions by the resource they are on; \<open>Ec2\<close>: the dispatcher, the EC2 block of /mock/state and what requests keep;
    \<open>Ec2Address\<close>: the address walks and the wildcards against their plain definitions; \<open>Ec2Props\<close>: what requests guarantee.
    \<open>Goenc\<close>: the base64 and SHA-256 a key pair's import computes.
  \<^item> \<open>OwnedRows\<close>: the row statements EKS and RDS share, with their laws. \<open>EksRepo\<close> (repository/eks.go), \<open>Eks\<close>
    (handlers/eks.go) and \<open>EksProps\<close>; \<open>RdsRepo\<close> (repository/rds.go), \<open>Rds\<close> (handlers/rds.go, with the SHA-1 of its
    resource ids) and \<open>RdsProps\<close>: the statements, the requests, and what the requests keep and answer.
  \<^item> \<open>Lifecycle\<close> (repository/repository.go, handlers/admin.go): database files, the schema check, reset,
    snapshot and restore with the caches, the patch merge.

  In each service the lemmas \<open>*_keeps\<close> show that every operation, and so every sequence of requests (the
  \<open>*_run\<close> folds), keeps the service's invariant, the primary keys and all tables of other services; the
  lemmas over \<open>*_call\<close> show what one operation answers; the properties combine them over the handlers.

  Conventions. A table is the list of its rows in rowid order. Where SQLite or Go leave an order open (a
  query without ORDER BY, a range over a map) the model fixes one and no property depends on it. One
  request reads the clock once. Database errors other than constraint violations do not occur. A body is
  its JSON value; encoding it to bytes and back is not modelled, nor are HTTP framing, logging, the
  limits on a body's size and the order of concurrent requests, which the server serialises.

  No definition runs on fuel: loops over lists are structural recursion, \<open>fold\<close> or \<open>map\<close>, and the
  functions with a measure of their own terminate by it (\<open>show_nat\<close> by division, \<open>first_free\<close> by the distance to
  the subnet's last address).

  Not modelled yet: loading and diffing a database, the request recorder. Not modelled: the command line, the audit of the coverage matrix.
\<close>

end
